(* ===== verification/Prelude.thy ===== *)
theory Prelude
  imports Complex_Main "HOL-Library.Word" "HOL-Library.Monad_Syntax"
begin

unbundle bit_operations_syntax

text \<open>
  Shared vocabulary: machine integers, memory as seen through a byte pointer, the parameters
  that stand for OsterLib (the byte readers live in that library, not in this repository), and
  the generic lemmas on options, lists and find that the component theories use.
\<close>

section \<open>Types\<close>

type_synonym u8 = "8 word"
type_synonym u16 = "16 word"
type_synonym u32 = "32 word"
type_synonym u64 = "64 word"

text \<open>
  An \<^verbatim>\<open>unsigned char*\<close> into a mapped file is the list of bytes from the pointer to the end of
  the mapping; \<^term>\<open>None\<close> is the null pointer.  A read through a null pointer or past the end
  of the mapping is undefined behaviour, and every operation that performs one returns
  \<^term>\<open>None\<close>.
\<close>

type_synonym buffer = "u8 list"
type_synonym cptr = "buffer option"

text \<open>Values that end the process in a defined way are kept apart from undefined behaviour.\<close>

datatype 'a outcome = Exit int | Ret 'a

named_theorems buf_simps \<open>rewriting of reads through byte pointers\<close>
named_theorems table_simps \<open>evaluation of code tables\<close>

section \<open>Reading memory\<close>

definition byte_at :: "cptr \<Rightarrow> nat \<Rightarrow> u8 option" where
  "byte_at p i = (case p of None \<Rightarrow> None | Some b \<Rightarrow> if i < length b then Some (b ! i) else None)"

definition bytes_at :: "cptr \<Rightarrow> nat \<Rightarrow> nat \<Rightarrow> u8 list option" where
  "bytes_at p i n = (case p of None \<Rightarrow> None
     | Some b \<Rightarrow> if i + n \<le> length b then Some (take n (drop i b)) else None)"

definition ptr_add :: "cptr \<Rightarrow> nat \<Rightarrow> cptr" where
  "ptr_add p n = map_option (drop n) p"

text \<open>The value of a byte string read most significant byte first.\<close>

fun be_nat_acc :: "nat \<Rightarrow> u8 list \<Rightarrow> nat" where
  "be_nat_acc a [] = a"
| "be_nat_acc a (b # bs) = be_nat_acc (a * 256 + unat b) bs"

definition be_nat :: "u8 list \<Rightarrow> nat" where
  "be_nat bs = be_nat_acc 0 bs"

section \<open>OsterLib\<close>

text \<open>
  The parameters are the readers of \<^verbatim>\<open>byte_read.h\<close> (\<^verbatim>\<open>read_bytes<N,false>\<close> and
  \<^verbatim>\<open>read_bytes<N,true>\<close> with \<^verbatim>\<open>N\<close> the length of the list, \<^verbatim>\<open>INT2\<close>, \<^verbatim>\<open>INT3\<close>, \<^verbatim>\<open>UINT3\<close>),
  of \<^verbatim>\<open>ibmtofloat.h\<close> (\<^verbatim>\<open>ibm2flt\<close>, four bytes), \<^verbatim>\<open>to_float\<close>, \<^verbatim>\<open>int_pow.h\<close> and the missing
  value marker \<^verbatim>\<open>UNDEFINED\<close>.  Floating point values are rationals (theory Floating).
\<close>

record osterlib =
  read_unsigned :: "u8 list \<Rightarrow> nat"
  read_signed :: "u8 list \<Rightarrow> int"
  INT2 :: "u8 \<Rightarrow> u8 \<Rightarrow> int"
  INT3 :: "u8 \<Rightarrow> u8 \<Rightarrow> u8 \<Rightarrow> int"
  UINT3 :: "u8 \<Rightarrow> u8 \<Rightarrow> u8 \<Rightarrow> nat"
  ibm2flt :: "u8 list \<Rightarrow> rat"
  to_float :: "int \<Rightarrow> rat"
  int_power :: "rat \<Rightarrow> int \<Rightarrow> rat"
  UNDEFINED :: rat

text \<open>
  What the code relies on: the accessors were macros over the single bytes, and the macros are
  still in the headers as comments beside the calls that replaced them; the length accessors
  assert that \<^verbatim>\<open>read_bytes<3,false>\<close> agrees with \<^verbatim>\<open>UINT3\<close>.  Signed fields of GRIB edition 1
  are a sign bit and a magnitude.
\<close>

definition sign_magnitude :: "u8 list \<Rightarrow> int" where
  "sign_magnitude bs = (case bs of [] \<Rightarrow> 0
     | b # r \<Rightarrow> (if 128 \<le> unat b then - int (be_nat ((b AND 127) # r)) else int (be_nat bs)))"

definition lib_ok :: "('z) osterlib_scheme \<Rightarrow> bool" where
  "lib_ok L \<longleftrightarrow>
     (\<forall>bs. read_unsigned L bs = be_nat bs) \<and>
     (\<forall>bs. read_signed L bs = sign_magnitude bs) \<and>
     (\<forall>a b. INT2 L a b = sign_magnitude [a, b]) \<and>
     (\<forall>a b c. INT3 L a b c = sign_magnitude [a, b, c]) \<and>
     (\<forall>a b c. UINT3 L a b c = be_nat [a, b, c])"

definition example_lib :: osterlib where
  "example_lib = \<lparr>read_unsigned = be_nat, read_signed = sign_magnitude,
     INT2 = (\<lambda>a b. sign_magnitude [a, b]), INT3 = (\<lambda>a b c. sign_magnitude [a, b, c]),
     UINT3 = (\<lambda>a b c. be_nat [a, b, c]), ibm2flt = (\<lambda>bs. of_nat (be_nat bs)),
     to_float = of_int, int_power = (\<lambda>x n. if 0 \<le> n then x ^ nat n else inverse x ^ nat (- n)),
     UNDEFINED = 9999\<rparr>"

lemma lib_ok_example [simp]: "lib_ok example_lib"
  by (simp add: lib_ok_def example_lib_def)

lemma lib_okD:
  assumes "lib_ok L"
  shows "read_unsigned L bs = be_nat bs" "read_signed L bs = sign_magnitude bs"
    "INT2 L a b = sign_magnitude [a, b]" "INT3 L a b c = sign_magnitude [a, b, c]"
    "UINT3 L a b c = be_nat [a, b, c]"
  using assms by (auto simp: lib_ok_def)

section \<open>Pointer lemmas\<close>

lemma byte_at_Some [buf_simps]:
  "byte_at (Some b) i = (if i < length b then Some (b ! i) else None)"
  by (simp add: byte_at_def)

lemma byte_at_None [simp]: "byte_at None i = None"
  by (simp add: byte_at_def)

lemma bytes_at_None [simp]: "bytes_at None i n = None"
  by (simp add: bytes_at_def)

lemma bytes_at_Some [buf_simps]:
  "bytes_at (Some b) i n = (if i + n \<le> length b then Some (take n (drop i b)) else None)"
  by (simp add: bytes_at_def)

lemma ptr_add_Some [buf_simps]: "ptr_add (Some b) n = Some (drop n b)"
  by (simp add: ptr_add_def)

lemma ptr_add_None [simp]: "ptr_add None n = None"
  by (simp add: ptr_add_def)

lemma ptr_add_add [simp]: "ptr_add (ptr_add p m) n = ptr_add p (m + n)"
  by (cases p) (simp_all add: buf_simps add.commute)

lemma byte_at_ptr_add: "byte_at (ptr_add p n) i = byte_at p (n + i)"
  by (cases p) (auto simp: buf_simps)

lemma bytes_at_length: "bytes_at p i n = Some bs \<Longrightarrow> length bs = n"
  by (cases p) (auto simp: buf_simps split: if_splits)

lemma bytes_at_prefix:
  "i + n \<le> length xs \<Longrightarrow> bytes_at (Some (xs @ ys)) i n = Some (take n (drop i xs))"
  by (simp add: buf_simps)

section \<open>Big-endian values\<close>

lemma be_nat_acc_eq: "be_nat_acc a bs = a * 256 ^ length bs + be_nat bs"
proof (induction bs arbitrary: a)
  case Nil
  then show ?case by (simp add: be_nat_def)
next
  case (Cons b bs)
  show ?case
    using Cons.IH [of "a * 256 + unat b"] Cons.IH [of "unat b"]
    by (simp add: be_nat_def algebra_simps)
qed

lemma be_nat_Nil [simp]: "be_nat [] = 0"
  by (simp add: be_nat_def)

lemma be_nat_Cons: "be_nat (b # bs) = unat b * 256 ^ length bs + be_nat bs"
  using be_nat_acc_eq [of "unat b" bs] by (simp only: be_nat_def be_nat_acc.simps) simp

lemma unat_u8_less [simp]: "unat (b :: u8) < 256"
  using unsigned_less [of b] by simp

lemma unat_u8_le [simp]: "unat (b :: u8) \<le> 255"
  using unat_u8_less [of b] by linarith

lemma unat_u8_less_255: "(b :: u8) \<noteq> 255 \<Longrightarrow> unat b < 255"
proof -
  assume "b \<noteq> 255"
  then have "unat b \<noteq> unat (255 :: u8)" using word_unat_eq_iff [of b 255] by blast
  then have "unat b \<noteq> 255" by simp
  then show ?thesis by (rule le_neq_trans [OF unat_u8_le])
qed

lemma unat_u16_less [simp]: "unat (w :: u16) < 65536"
  using unsigned_less [of w] by simp

lemma be_nat_less: "be_nat bs < 256 ^ length bs"
proof (induction bs)
  case Nil
  then show ?case by simp
next
  case (Cons b bs)
  have "unat b * 256 ^ length bs \<le> 255 * 256 ^ length bs"
    by (rule mult_right_mono) simp_all
  then have "unat b * 256 ^ length bs + be_nat bs < 256 * 256 ^ length bs"
    using Cons.IH by linarith
  then show ?case by (simp add: be_nat_Cons)
qed

lemma be_nat_append: "be_nat (xs @ ys) = be_nat xs * 256 ^ length ys + be_nat ys"
  by (induction xs) (simp_all add: be_nat_Cons power_add algebra_simps)

lemma be_nat_inj: "length xs = length ys \<Longrightarrow> be_nat xs = be_nat ys \<Longrightarrow> xs = ys"
proof (induction xs ys rule: list_induct2)
  case Nil
  then show ?case by simp
next
  case (Cons x xs y ys)
  let ?P = "256 ^ length ys :: nat"
  have lx: "be_nat xs < ?P" and ly: "be_nat ys < ?P"
    using be_nat_less [of xs] be_nat_less [of ys] Cons.hyps by simp_all
  have eq: "unat x * ?P + be_nat xs = unat y * ?P + be_nat ys"
    using Cons.prems Cons.hyps by (simp add: be_nat_Cons)
  have "unat x = (unat x * ?P + be_nat xs) div ?P" using lx by simp
  also have "\<dots> = unat y" using ly by (simp add: eq)
  finally have xy: "unat x = unat y" .
  with eq have "be_nat xs = be_nat ys" by simp
  with xy Cons.IH show ?case by (simp add: word_unat_eq_iff)
qed

lemma sign_magnitude_bound: "\<bar>sign_magnitude bs\<bar> < 256 ^ length bs"
proof (cases bs)
  case Nil
  then show ?thesis by (simp add: sign_magnitude_def)
next
  case (Cons b r)
  have "be_nat ((b AND 127) # r) < 256 ^ length bs" "be_nat bs < 256 ^ length bs"
    using be_nat_less [of "(b AND 127) # r"] be_nat_less [of bs] Cons by simp_all
  then have "int (be_nat ((b AND 127) # r)) < 256 ^ length bs" "int (be_nat bs) < 256 ^ length bs"
    by (metis of_nat_less_iff of_nat_numeral of_nat_power)+
  then show ?thesis by (simp add: sign_magnitude_def Cons)
qed

lemma unat_and_127: "unat (b AND 127 :: u8) < 128"
proof -
  have "b AND 127 \<le> (127 :: u8)" by (rule word_and_le1)
  then show ?thesis by (simp add: word_le_nat_alt)
qed

text \<open>Two and three octets of sign and magnitude.\<close>

lemma sign_magnitude_2: "\<bar>sign_magnitude [a, b]\<bar> < 32768"
proof -
  have "be_nat [x, b] < 32768" if "unat x < 128" for x
    using that be_nat_less [of "[b]"] be_nat_Cons [of x "[b]"] by simp
  then have "be_nat [a AND 127, b] < 32768" "unat a < 128 \<Longrightarrow> be_nat [a, b] < 32768"
    using unat_and_127 [of a] by simp_all
  then show ?thesis by (auto simp: sign_magnitude_def)
qed

lemma sign_magnitude_3: "\<bar>sign_magnitude [a, b, c]\<bar> < 8388608"
proof -
  have "be_nat [x, b, c] < 8388608" if "unat x < 128" for x
    using that be_nat_less [of "[b, c]"] be_nat_Cons [of x "[b, c]"] by simp
  then have "be_nat [a AND 127, b, c] < 8388608" "unat a < 128 \<Longrightarrow> be_nat [a, b, c] < 8388608"
    using unat_and_127 [of a] by simp_all
  then show ?thesis by (auto simp: sign_magnitude_def)
qed

text \<open>A C integer stored in an unsigned type keeps its remainder.\<close>

lemma unat_word_of_int: "int (unat (word_of_int n :: 'a::len word)) = n mod 2 ^ LENGTH('a)"
  by (simp add: uint_word_of_int)

section \<open>Bits\<close>

lemma push_bit_or_nat:
  fixes x y :: nat
  assumes "y < 2 ^ n"
  shows "push_bit n x OR y = x * 2 ^ n + y"
proof -
  have y: "\<not> bit y m" if "n \<le> m" for m
  proof -
    have "take_bit n y = y" using assms by (simp add: take_bit_nat_eq_self)
    then show ?thesis using that by (metis bit_take_bit_iff linorder_not_less)
  qed
  have "push_bit n x AND y = 0"
    by (rule bit_eqI) (auto simp: bit_simps y)
  then show ?thesis by (simp add: disjunctive_add_eq_or [symmetric] push_bit_eq_mult)
qed

lemma take_bit_u8: "8 \<le> n \<Longrightarrow> take_bit n (unat (b :: u8)) = unat b"
proof (rule take_bit_nat_eq_self)
  assume "8 \<le> n"
  then have "(256 :: nat) \<le> 2 ^ n" using power_increasing [of 8 n "2 :: nat"] by simp
  then show "unat b < 2 ^ n" using unat_u8_less [of b] by linarith
qed

lemma push_bit_u8_u64:
  assumes "n \<le> 56"
  shows "unat (push_bit n (ucast (b :: u8) :: u64)) = push_bit n (unat b)"
proof -
  have "unat b * 2 ^ n < 256 * 2 ^ n" by simp
  also have "256 * 2 ^ n \<le> (256 * 2 ^ 56 :: nat)"
    using assms by (intro mult_left_mono power_increasing) simp_all
  finally have "take_bit 64 (push_bit n (unat b)) = push_bit n (unat b)"
    by (intro take_bit_nat_eq_self) (simp add: push_bit_eq_mult)
  then show ?thesis by (simp add: unsigned_push_bit_eq unsigned_ucast_eq take_bit_u8)
qed

section \<open>Lists and find\<close>

lemma take_3: "3 \<le> length b \<Longrightarrow> take 3 b = [b ! 0, b ! 1, b ! 2]"
  by (cases b rule: list.exhaust; cases "tl b" rule: list.exhaust;
      cases "tl (tl b)" rule: list.exhaust) auto

lemma find_eq_Some_unique:
  assumes "distinct (map f xs)" "x \<in> set xs"
  shows "find (\<lambda>e. f e = f x) xs = Some x"
  using assms by (induction xs) (auto simp: image_iff)

lemma find_cong_None: "(\<And>x. x \<in> set xs \<Longrightarrow> \<not> P x) \<Longrightarrow> find P xs = None"
  by (induction xs) auto

lemma find_SomeD: "find P xs = Some x \<Longrightarrow> P x \<and> x \<in> set xs"
  by (induction xs) (auto split: if_splits)

section \<open>Integers of 32 bits\<close>

text \<open>
  The result of a C \<^verbatim>\<open>int\<close> operation: overflow is undefined behaviour.
\<close>

definition c_int :: "int \<Rightarrow> int option" where
  "c_int x = (if - 2147483648 \<le> x \<and> x \<le> 2147483647 then Some x else None)"

lemma c_int_Some:
  "c_int x = Some y \<longleftrightarrow> y = x \<and> - 2147483648 \<le> x \<and> x \<le> 2147483647"
  by (auto simp: c_int_def)

lemma c_int_in [simp]: "- 2147483648 \<le> x \<Longrightarrow> x \<le> 2147483647 \<Longrightarrow> c_int x = Some x"
  by (simp add: c_int_def)

lemma c_int_out: "x < - 2147483648 \<or> 2147483647 < x \<Longrightarrow> c_int x = None"
  by (auto simp: c_int_def)

end
