(* ===== verification/Floating.thy ===== *)
theory Floating
  imports Prelude "HOL-Library.Log_Nat"
begin

text \<open>
  The C++ types \<^verbatim>\<open>float\<close> and \<^verbatim>\<open>double\<close>: a finite value is a rational, and every arithmetic
  operation is the exact operation followed by rounding to the nearest value with 24 or 53
  significant bits, ties to even.  The values of the program stay far from the exponent limits,
  so overflow, subnormals, infinities and NaN are outside the model.
\<close>

section \<open>Rounding\<close>

definition round_half_even :: "rat \<Rightarrow> int" where
  "round_half_even x =
     (let f = \<lfloor>x\<rfloor>; r = x - of_int f
      in if r < 1 / 2 then f else if 1 / 2 < r then f + 1 else if even f then f else f + 1)"

definition exponent :: "rat \<Rightarrow> int" where
  "exponent x =
     (let (n, d) = quotient_of \<bar>x\<bar>; e = bitlen n - bitlen d
      in if \<bar>x\<bar> < 2 powi e then e - 1 else e)"

definition rnd :: "nat \<Rightarrow> rat \<Rightarrow> rat" where
  "rnd p x = (if x = 0 then 0
     else let u = 2 powi (exponent x - (int p - 1)) in of_int (round_half_even (x / u)) * u)"

definition to_float32 :: "rat \<Rightarrow> rat" where
  "to_float32 x = rnd 24 x"

definition to_float64 :: "rat \<Rightarrow> rat" where
  "to_float64 x = rnd 53 x"

abbreviation (input) f32 :: "rat \<Rightarrow> rat" where "f32 \<equiv> to_float32"
abbreviation (input) f64 :: "rat \<Rightarrow> rat" where "f64 \<equiv> to_float64"

section \<open>Properties of rounding\<close>

lemma round_half_even_of_int [simp]: "round_half_even (of_int n) = n"
  by (simp add: round_half_even_def)

lemma round_half_even_error: "\<bar>of_int (round_half_even x) - x\<bar> \<le> 1 / 2"
proof -
  have l: "of_int \<lfloor>x\<rfloor> \<le> x" and u: "x < of_int \<lfloor>x\<rfloor> + 1"
    using floor_correct [of x] by simp_all
  show ?thesis
    by (simp add: round_half_even_def Let_def abs_if) (use l u in linarith)
qed

lemma round_half_even_mono: "x \<le> y \<Longrightarrow> round_half_even x \<le> round_half_even y"
proof -
  assume le: "x \<le> y"
  have fx: "of_int \<lfloor>x\<rfloor> \<le> x" "x < of_int \<lfloor>x\<rfloor> + 1" and fy: "of_int \<lfloor>y\<rfloor> \<le> y" "y < of_int \<lfloor>y\<rfloor> + 1"
    using floor_correct [of x] floor_correct [of y] by simp_all
  have fl: "\<lfloor>x\<rfloor> \<le> \<lfloor>y\<rfloor>" using le by (rule floor_mono)
  show ?thesis
  proof (cases "\<lfloor>x\<rfloor> = \<lfloor>y\<rfloor>")
    case True
    with le show ?thesis by (auto simp: round_half_even_def Let_def)
  next
    case False
    with fl have "\<lfloor>x\<rfloor> + 1 \<le> \<lfloor>y\<rfloor>" by simp
    moreover have "round_half_even x \<le> \<lfloor>x\<rfloor> + 1" "\<lfloor>y\<rfloor> \<le> round_half_even y"
      by (auto simp: round_half_even_def Let_def)
    ultimately show ?thesis by linarith
  qed
qed

lemma rnd_0 [simp]: "rnd p 0 = 0"
  by (simp add: rnd_def)

lemma quotient_of_abs_pos:
  assumes "x \<noteq> 0" "quotient_of \<bar>x\<bar> = (n, d)"
  shows "0 < n" "0 < d" "\<bar>x\<bar> = of_int n / of_int d"
proof -
  show d: "0 < d" using quotient_of_denom_pos assms(2) by blast
  show eq: "\<bar>x\<bar> = of_int n / of_int d" using quotient_of_div assms(2) by blast
  have "0 < (of_int n :: rat) / of_int d" using assms(1) eq by (metis zero_less_abs_iff)
  then show "0 < n" using d by (simp add: zero_less_divide_iff)
qed

lemma bitlen_rat_bounds:
  assumes "0 < n"
  shows "2 powi (bitlen n - 1) \<le> (of_int n :: rat)" "(of_int n :: rat) < 2 powi (bitlen n)"
proof -
  have b: "2 ^ nat (bitlen n - 1) \<le> n \<and> n < 2 ^ nat (bitlen n)"
    using bitlen_bounds [OF assms] .
  have pos: "0 < bitlen n" using assms by (metis bitlen_eq_zero_iff bitlen_nonneg order_le_less not_less)
  have "(of_int (2 ^ nat (bitlen n - 1)) :: rat) \<le> of_int n" using b by (simp only: of_int_le_iff)
  then show "2 powi (bitlen n - 1) \<le> (of_int n :: rat)" using pos by (simp add: power_int_def)
  have "(of_int n :: rat) < of_int (2 ^ nat (bitlen n))" using b by (simp only: of_int_less_iff)
  then show "(of_int n :: rat) < 2 powi (bitlen n)" using pos by (simp add: power_int_def)
qed

lemma exponent_bounds:
  assumes "x \<noteq> 0"
  shows "2 powi (exponent x) \<le> \<bar>x\<bar>" "\<bar>x\<bar> < 2 powi (exponent x + 1)"
proof -
  obtain n d where q: "quotient_of \<bar>x\<bar> = (n, d)" by force
  note pos = quotient_of_abs_pos [OF assms q]
  let ?e = "bitlen n - bitlen d"
  have dpos: "0 < (of_int d :: rat)" using pos(2) by simp
  have "\<bar>x\<bar> * of_int d = of_int n" using pos(3) dpos by simp
  have up: "\<bar>x\<bar> < 2 powi (?e + 1)"
  proof -
    have "2 powi (?e + 1) * 2 powi (bitlen d - 1) = (2 :: rat) powi (bitlen n)"
      by (simp add: power_int_add [symmetric])
    moreover have "2 powi (?e + 1) * 2 powi (bitlen d - 1) \<le> 2 powi (?e + 1) * (of_int d :: rat)"
      by (rule mult_left_mono) (use bitlen_rat_bounds(1) [OF pos(2)] in simp_all)
    ultimately have "of_int n < 2 powi (?e + 1) * (of_int d :: rat)"
      using bitlen_rat_bounds(2) [OF pos(1)] by linarith
    then show ?thesis using pos(3) dpos by (simp add: divide_less_eq)
  qed
  have low: "2 powi (?e - 1) \<le> \<bar>x\<bar>"
  proof -
    have "2 powi (?e - 1) * 2 powi (bitlen d) = (2 :: rat) powi (bitlen n - 1)"
      by (simp add: power_int_add [symmetric])
    moreover have "2 powi (?e - 1) * (of_int d :: rat) \<le> 2 powi (?e - 1) * 2 powi (bitlen d)"
      by (rule mult_left_mono) (use bitlen_rat_bounds(2) [OF pos(2)] in simp_all)
    ultimately have "2 powi (?e - 1) * (of_int d :: rat) \<le> of_int n"
      using bitlen_rat_bounds(1) [OF pos(1)] by linarith
    then show ?thesis using pos(3) dpos by (simp add: le_divide_eq)
  qed
  show "2 powi (exponent x) \<le> \<bar>x\<bar>" "\<bar>x\<bar> < 2 powi (exponent x + 1)"
    using up low by (auto simp: exponent_def q Let_def)
qed

lemma powi_mono_rat: "m \<le> n \<Longrightarrow> (2 :: rat) powi m \<le> 2 powi n"
  by (rule power_int_increasing) simp_all

lemma powi_less_rat: "(2 :: rat) powi m < 2 powi n \<Longrightarrow> m < n"
  using powi_mono_rat [of n m] by (meson not_less)

lemma rnd_error:
  assumes "x \<noteq> 0"
  shows "\<bar>rnd p x - x\<bar> \<le> 2 powi (exponent x - int p)"
proof -
  let ?u = "2 powi (exponent x - (int p - 1)) :: rat"
  have u: "0 < ?u" by simp
  have "rnd p x - x = (of_int (round_half_even (x / ?u)) - x / ?u) * ?u"
    using assms u by (simp add: rnd_def Let_def left_diff_distrib)
  then have "\<bar>rnd p x - x\<bar> = \<bar>of_int (round_half_even (x / ?u)) - x / ?u\<bar> * ?u"
    using u by (simp add: abs_mult)
  also have "\<dots> \<le> 1 / 2 * ?u"
    by (rule mult_right_mono [OF round_half_even_error]) (use u in simp)
  also have "1 / 2 * ?u = 2 powi (exponent x - int p)"
    using power_int_add [of "2 :: rat" "exponent x - int p" 1] by (simp add: algebra_simps)
  finally show ?thesis .
qed

text \<open>A value below a power of two is rounded with an error fixed by that power.\<close>

lemma rnd_error_bound:
  assumes "\<bar>x\<bar> < 2 powi k"
  shows "\<bar>rnd p x - x\<bar> \<le> 2 powi (k - 1 - int p)"
proof (cases "x = 0")
  case True
  then show ?thesis by simp
next
  case False
  have "(2 :: rat) powi exponent x < 2 powi k"
    using exponent_bounds(1) [OF False] assms by linarith
  then have "exponent x \<le> k - 1" using powi_less_rat by fastforce
  then have "(2 :: rat) powi (exponent x - int p) \<le> 2 powi (k - 1 - int p)"
    by (intro powi_mono_rat) simp
  with rnd_error [OF False, of p] show ?thesis by linarith
qed

text \<open>Integers with at most \<open>p\<close> bits are represented exactly.\<close>

lemma rnd_of_int:
  assumes "\<bar>n\<bar> < 2 ^ p"
  shows "rnd p (of_int n) = of_int n"
proof (cases "n = 0")
  case True
  then show ?thesis by simp
next
  case False
  let ?x = "of_int n :: rat"
  have nz: "?x \<noteq> 0" using False by simp
  have "\<bar>?x\<bar> < 2 powi int p"
    using assms by (simp add: of_int_abs [symmetric] del: of_int_abs)
  then have "(2 :: rat) powi exponent ?x < 2 powi int p"
    using exponent_bounds(1) [OF nz] by linarith
  then have e: "exponent ?x \<le> int p - 1" using powi_less_rat by fastforce
  define k where "k = nat (int p - 1 - exponent ?x)"
  have "exponent ?x - (int p - 1) = - int k" using e by (simp add: k_def)
  then have u: "(2 :: rat) powi (exponent ?x - (int p - 1)) = inverse (2 ^ k)"
    by (simp only: power_int_minus power_int_of_nat)
  have "?x / inverse (2 ^ k) = of_int (n * 2 ^ k)" by (simp add: divide_inverse)
  then have "round_half_even (?x / inverse (2 ^ k)) = n * 2 ^ k"
    by (simp only: round_half_even_of_int)
  then show ?thesis using nz by (simp add: rnd_def Let_def u)
qed

lemma rnd_of_nat: "n < 2 ^ p \<Longrightarrow> rnd p (of_nat n) = of_nat n"
  using rnd_of_int [of "int n" p] by simp

lemma float32_numeral_exact: "\<bar>n\<bar> < 16777216 \<Longrightarrow> to_float32 (of_int n) = of_int n"
  using rnd_of_int [of n 24] by (simp add: to_float32_def)

text \<open>Integers of the magnitudes that octets hold are exact, alone and under the scalings used.\<close>

lemma f32_int_small [simp]: "0 \<le> v \<Longrightarrow> v \<le> 65535 \<Longrightarrow> f32 (of_int v) = of_int v"
  by (rule float32_numeral_exact) simp

lemma f32_int_scaled:
  assumes "0 \<le> v" "v * k < 16777216" "0 \<le> k"
  shows "f32 (of_int v * of_int k) = of_int v * of_int k"
proof -
  have "0 \<le> v * k" using assms by simp
  then have "f32 (of_int (v * k)) = of_int (v * k)"
    using assms by (intro float32_numeral_exact) simp
  then show ?thesis by simp
qed

lemma f32_int_diff:
  assumes "0 \<le> v" "v \<le> 65535" "0 \<le> k" "k \<le> 65535"
  shows "f32 (of_int k - of_int v) = of_int k - of_int v"
  using float32_numeral_exact [of "k - v"] assms by simp

lemma f64_error_bound: "\<bar>x\<bar> < 2 powi k \<Longrightarrow> \<bar>f64 x - x\<bar> \<le> 2 powi (k - 54)"
  using rnd_error_bound [of x k 53] by (simp add: to_float64_def)

lemma f32_error_bound: "\<bar>x\<bar> < 2 powi k \<Longrightarrow> \<bar>f32 x - x\<bar> \<le> 2 powi (k - 25)"
  using rnd_error_bound [of x k 24] by (simp add: to_float32_def)

end
