(* ===== verification/Code_Tables.thy ===== *)
theory Code_Tables
  imports Floating
begin

text \<open>
  The WMO code tables of \<^verbatim>\<open>API/grib1/include/code_tables\<close>: the enumerations of tables 3 (levels),
  4 (time units), 5 (time range indicators), 6 (grid representations) and 10, with the value of
  each enumerator; the flag bytes of tables 1, 7, 8 and 11; and the tables indexed by a code.

  A C++ enumeration over \<^verbatim>\<open>uint8_t\<close> may hold any byte, so a field of an enumeration type is a
  \<^typ>\<open>u8\<close>; \<open>enum_of\<close> names the enumerator of a byte, if it has one, and a switch is a case
  distinction on it.
\<close>

section \<open>The contract of an enumeration\<close>

definition enum_of :: "'e list \<Rightarrow> ('e \<Rightarrow> u8) \<Rightarrow> u8 \<Rightarrow> 'e option" where
  "enum_of es code c = find (\<lambda>e. code e = c) es"

locale code_table =
  fixes elems :: "'e list" and code :: "'e \<Rightarrow> u8"
  assumes elems_all: "e \<in> set elems"
    and codes_distinct: "distinct (map code elems)"
begin

lemma enum_of_code [simp]: "enum_of elems code (code e) = Some e"
  using find_eq_Some_unique [OF codes_distinct elems_all] by (simp add: enum_of_def)

lemma code_of_enum: "enum_of elems code c = Some e \<Longrightarrow> code e = c"
  by (auto simp: enum_of_def dest: find_SomeD)

lemma enum_of_iff: "enum_of elems code c = Some e \<longleftrightarrow> code e = c"
  using code_of_enum enum_of_code by blast

lemma code_inj: "inj code"
  by (rule injI) (metis enum_of_code option.inject)

lemma code_eq_iff: "code a = code b \<longleftrightarrow> a = b"
  using code_inj by (rule inj_eq)

lemma enum_of_None: "enum_of elems code c = None \<longleftrightarrow> c \<notin> range code"
  by (metis enum_of_iff not_Some_eq rangeE rangeI)

end

section \<open>Table 4: time units\<close>

datatype TimeFrame =
    MINUTE
  | HOUR
  | DAY
  | MONTH
  | YEAR
  | DECADE
  | NORMAL
  | CENTURY
  | HOURS_3
  | HOURS_6
  | HOURS_12
  | QUARTER_HOUR
  | HALF_HOUR
  | SECOND
  | INDIFFERENT

primrec time_frame_code :: "TimeFrame \<Rightarrow> u8" where
    "time_frame_code MINUTE = 0"
  | "time_frame_code HOUR = 1"
  | "time_frame_code DAY = 2"
  | "time_frame_code MONTH = 3"
  | "time_frame_code YEAR = 4"
  | "time_frame_code DECADE = 5"
  | "time_frame_code NORMAL = 6"
  | "time_frame_code CENTURY = 7"
  | "time_frame_code HOURS_3 = 10"
  | "time_frame_code HOURS_6 = 11"
  | "time_frame_code HOURS_12 = 12"
  | "time_frame_code QUARTER_HOUR = 13"
  | "time_frame_code HALF_HOUR = 14"
  | "time_frame_code SECOND = 254"
  | "time_frame_code INDIFFERENT = 255"

definition all_time_frames :: "TimeFrame list" where
  "all_time_frames = [
     MINUTE,
     HOUR,
     DAY,
     MONTH,
     YEAR,
     DECADE,
     NORMAL,
     CENTURY,
     HOURS_3,
     HOURS_6,
     HOURS_12,
     QUARTER_HOUR,
     HALF_HOUR,
     SECOND,
     INDIFFERENT]"

definition time_frame :: "u8 \<Rightarrow> TimeFrame option" where
  "time_frame c = enum_of all_time_frames time_frame_code c"

interpretation tf: code_table all_time_frames time_frame_code
proof unfold_locales
  show "e \<in> set all_time_frames" for e by (cases e) (simp_all add: all_time_frames_def)
  show "distinct (map time_frame_code all_time_frames)" by (simp add: all_time_frames_def)
qed

text \<open>The array has 256 elements and 255 initialisers; the last element is zero.\<close>

definition is_time :: "nat list" where
  "is_time = concat [
     [1, 1, 1, 1, 1], [1, 1, 1, 1, 1], [1, 1, 1, 1, 1], [0, 0, 0, 0, 0],
     [0, 0, 0, 0, 0], [0, 0, 0, 0, 0], [0, 0, 0, 0, 0], [0, 0, 0, 0, 0],
     [0, 0, 0, 0, 0], [0, 0, 0, 0, 0], [0, 0, 0, 0, 0], [0, 0, 0, 0, 0],
     [0, 0, 0, 0, 0], [0, 0, 0, 0, 0], [0, 0, 0, 0, 0], [0, 0, 0, 0, 0],
     [0, 0, 0, 0, 0], [0, 0, 0, 0, 0], [0, 0, 0, 0, 0], [0, 0, 0, 0, 0],
     [0, 0, 0, 0, 0], [0, 0, 0, 0, 0], [0, 0, 0, 0, 0], [0, 0, 0, 0, 0],
     [0, 0, 0, 0, 0], [0, 0, 0, 0, 0], [0, 0, 0, 0, 0], [0, 0, 0, 0, 0],
     [0, 0, 0, 0, 0], [0, 0, 0, 0, 0], [0, 0, 0, 0, 0], [0, 0, 0, 0, 0],
     [0, 0, 0, 0, 0], [0, 0, 0, 0, 0], [0, 0, 0, 0, 0], [0, 0, 0, 0, 0],
     [0, 0, 0, 0, 0], [0, 0, 0, 0, 0], [0, 0, 0, 0, 0], [0, 0, 0, 0, 0],
     [0, 0, 0, 0, 0], [0, 0, 0, 0, 0], [0, 0, 0, 0, 0], [0, 0, 0, 0, 0],
     [0, 0, 0, 0, 0], [0, 0, 0, 0, 0], [0, 0, 0, 0, 0], [0, 0, 0, 0, 0],
     [0, 0, 0, 0, 0], [0, 0, 0, 0, 0], [0, 0, 0, 0, 1]] @ [0]"

primrec sum_table :: "nat \<Rightarrow> nat list \<Rightarrow> nat" where
  "sum_table res [] = res"
| "sum_table res (b # bs) = sum_table (res + b) bs"

definition get_time_frame_number :: nat where
  "get_time_frame_number = sum_table 0 is_time"

definition units :: "string list" where
  "units = [''min'', ''hr'', ''d'', ''mon'', ''yr'', ''decade'', ''normal'', ''century'',
     ''??'', ''??'', '' x3 hours'', '' x6 hours'', '' x12 hours'', ''x15 min'', ''x30 min'']
     @ replicate 239 ''??'' @ ['' sec'']"

section \<open>Table 5: time range indicators\<close>

datatype TimeRangeIndicator =
    UNINIT_REF_TIME
  | INIT_REF_TIME
  | RANGE_REF_TIME
  | AVG_RANGE_REF_TIME
  | ACCUM_RANGE_REF_TIME
  | DIFF_RANGE_REF_TIME
  | AVG_RANGE_M_P1_M_P2
  | AVG_RANGE_M_P1_P_P2
  | P1_DOUBLE_OCTETS
  | CLIMAT_MEAN_VALUE_AVG
  | AVG_N_FORECAST_PERIOD_P1_REFS_P2
  | ACCUM_N_FORECAST_PERIOD_P1_REFS_P2
  | AVG_N_FORECAST_FIRST_PERIOD_P1_INTERVAL_P2
  | ACCUM_N_FORECAST_FIRST_PERIOD_P1_INTERVAL_P2
  | AVG_N_FORECAST_FIRST_PERIOD_P1_INTERVAL_REDUCED_P2
  | TEMP_VAR_COVAR_N_REFS_AT_P2
  | STD_DEV_FIRST_PERIOD_P1_INTERVAL_P2
  | AVG_N_UNINIT_INTERVAL_P2
  | ACCUM_N_UNINIT_INTERVAL_P2
  | STD_DEV_N_FORECAST_PERIOD_P1_INTERVAL_P2
  | MISSING

primrec time_range_code :: "TimeRangeIndicator \<Rightarrow> u8" where
    "time_range_code UNINIT_REF_TIME = 0"
  | "time_range_code INIT_REF_TIME = 1"
  | "time_range_code RANGE_REF_TIME = 2"
  | "time_range_code AVG_RANGE_REF_TIME = 3"
  | "time_range_code ACCUM_RANGE_REF_TIME = 4"
  | "time_range_code DIFF_RANGE_REF_TIME = 5"
  | "time_range_code AVG_RANGE_M_P1_M_P2 = 6"
  | "time_range_code AVG_RANGE_M_P1_P_P2 = 7"
  | "time_range_code P1_DOUBLE_OCTETS = 10"
  | "time_range_code CLIMAT_MEAN_VALUE_AVG = 51"
  | "time_range_code AVG_N_FORECAST_PERIOD_P1_REFS_P2 = 113"
  | "time_range_code ACCUM_N_FORECAST_PERIOD_P1_REFS_P2 = 114"
  | "time_range_code AVG_N_FORECAST_FIRST_PERIOD_P1_INTERVAL_P2 = 115"
  | "time_range_code ACCUM_N_FORECAST_FIRST_PERIOD_P1_INTERVAL_P2 = 116"
  | "time_range_code AVG_N_FORECAST_FIRST_PERIOD_P1_INTERVAL_REDUCED_P2 = 117"
  | "time_range_code TEMP_VAR_COVAR_N_REFS_AT_P2 = 118"
  | "time_range_code STD_DEV_FIRST_PERIOD_P1_INTERVAL_P2 = 119"
  | "time_range_code AVG_N_UNINIT_INTERVAL_P2 = 123"
  | "time_range_code ACCUM_N_UNINIT_INTERVAL_P2 = 124"
  | "time_range_code STD_DEV_N_FORECAST_PERIOD_P1_INTERVAL_P2 = 125"
  | "time_range_code MISSING = 255"

definition all_time_ranges :: "TimeRangeIndicator list" where
  "all_time_ranges = [
     UNINIT_REF_TIME,
     INIT_REF_TIME,
     RANGE_REF_TIME,
     AVG_RANGE_REF_TIME,
     ACCUM_RANGE_REF_TIME,
     DIFF_RANGE_REF_TIME,
     AVG_RANGE_M_P1_M_P2,
     AVG_RANGE_M_P1_P_P2,
     P1_DOUBLE_OCTETS,
     CLIMAT_MEAN_VALUE_AVG,
     AVG_N_FORECAST_PERIOD_P1_REFS_P2,
     ACCUM_N_FORECAST_PERIOD_P1_REFS_P2,
     AVG_N_FORECAST_FIRST_PERIOD_P1_INTERVAL_P2,
     ACCUM_N_FORECAST_FIRST_PERIOD_P1_INTERVAL_P2,
     AVG_N_FORECAST_FIRST_PERIOD_P1_INTERVAL_REDUCED_P2,
     TEMP_VAR_COVAR_N_REFS_AT_P2,
     STD_DEV_FIRST_PERIOD_P1_INTERVAL_P2,
     AVG_N_UNINIT_INTERVAL_P2,
     ACCUM_N_UNINIT_INTERVAL_P2,
     STD_DEV_N_FORECAST_PERIOD_P1_INTERVAL_P2,
     MISSING]"

definition time_range :: "u8 \<Rightarrow> TimeRangeIndicator option" where
  "time_range c = enum_of all_time_ranges time_range_code c"

interpretation tri: code_table all_time_ranges time_range_code
proof unfold_locales
  show "e \<in> set all_time_ranges" for e by (cases e) (simp_all add: all_time_ranges_def)
  show "distinct (map time_range_code all_time_ranges)" by (simp add: all_time_ranges_def)
qed

section \<open>Table 6: grid representations\<close>

text \<open>
  The modified representations are sums in the source: rotation adds 10 and stretching 20 to the
  code of the plain grid, and \<^verbatim>\<open>UNDEF_GRID\<close> is \<^verbatim>\<open>UINT8_MAX\<close>.
\<close>

datatype RepresentationType =
    LAT_LON_GRID_EQUIDIST_CYLINDR
  | MERCATOR
  | GNOMONIC
  | LAMBERT
  | GAUSSIAN
  | POLAR_STEREOGRAPH_PROJ
  | UTM
  | SIMPLE_POLYCONIC
  | ALBERS_EQUAL_AREA
  | MILLERS_CYLINDR
  | ROTATED_LAT_LON
  | OBLIQUE_LAMBERT_CONFORMAL
  | ROTATED_GAUSSIAN_LAT_LON
  | STRETCHED_LAT_LON
  | STRETCHED_GAUSSIAN_LAT_LON
  | STRETCHED_AND_ROTATED_LAT_LON
  | STRETCHED_ROTATED_GAUSSIAN_LAT_LON
  | SPHERICAL_HARMONIC_COEFFICIENTS
  | ROTATED_SPHERICAL_HARMONIC_COEFFICIENTS
  | STRETCHED_SPHERICAL_HARMONIC_COEFFICIENTS
  | STRETCHED_ROTATED_SPHERICAL_HARMONIC_COEFFICIENTS
  | SPACE_VIEW
  | UNDEF_GRID

primrec representation_code :: "RepresentationType \<Rightarrow> u8" where
    "representation_code LAT_LON_GRID_EQUIDIST_CYLINDR = 0"
  | "representation_code MERCATOR = 1"
  | "representation_code GNOMONIC = 2"
  | "representation_code LAMBERT = 3"
  | "representation_code GAUSSIAN = 4"
  | "representation_code POLAR_STEREOGRAPH_PROJ = 5"
  | "representation_code UTM = 6"
  | "representation_code SIMPLE_POLYCONIC = 7"
  | "representation_code ALBERS_EQUAL_AREA = 8"
  | "representation_code MILLERS_CYLINDR = 9"
  | "representation_code ROTATED_LAT_LON = 10"
  | "representation_code OBLIQUE_LAMBERT_CONFORMAL = 13"
  | "representation_code ROTATED_GAUSSIAN_LAT_LON = 10 + 4"
  | "representation_code STRETCHED_LAT_LON = 20"
  | "representation_code STRETCHED_GAUSSIAN_LAT_LON = 20 + 4"
  | "representation_code STRETCHED_AND_ROTATED_LAT_LON = 20 + 10"
  | "representation_code STRETCHED_ROTATED_GAUSSIAN_LAT_LON = 20 + 10 + 4"
  | "representation_code SPHERICAL_HARMONIC_COEFFICIENTS = 50"
  | "representation_code ROTATED_SPHERICAL_HARMONIC_COEFFICIENTS = 50 + 10"
  | "representation_code STRETCHED_SPHERICAL_HARMONIC_COEFFICIENTS = 20 + 50"
  | "representation_code STRETCHED_ROTATED_SPHERICAL_HARMONIC_COEFFICIENTS = 50 + 10 + 20"
  | "representation_code SPACE_VIEW = 90"
  | "representation_code UNDEF_GRID = 255"

definition all_representations :: "RepresentationType list" where
  "all_representations = [
     LAT_LON_GRID_EQUIDIST_CYLINDR,
     MERCATOR,
     GNOMONIC,
     LAMBERT,
     GAUSSIAN,
     POLAR_STEREOGRAPH_PROJ,
     UTM,
     SIMPLE_POLYCONIC,
     ALBERS_EQUAL_AREA,
     MILLERS_CYLINDR,
     ROTATED_LAT_LON,
     OBLIQUE_LAMBERT_CONFORMAL,
     ROTATED_GAUSSIAN_LAT_LON,
     STRETCHED_LAT_LON,
     STRETCHED_GAUSSIAN_LAT_LON,
     STRETCHED_AND_ROTATED_LAT_LON,
     STRETCHED_ROTATED_GAUSSIAN_LAT_LON,
     SPHERICAL_HARMONIC_COEFFICIENTS,
     ROTATED_SPHERICAL_HARMONIC_COEFFICIENTS,
     STRETCHED_SPHERICAL_HARMONIC_COEFFICIENTS,
     STRETCHED_ROTATED_SPHERICAL_HARMONIC_COEFFICIENTS,
     SPACE_VIEW,
     UNDEF_GRID]"

definition representation :: "u8 \<Rightarrow> RepresentationType option" where
  "representation c = enum_of all_representations representation_code c"

interpretation rep: code_table all_representations representation_code
proof unfold_locales
  show "e \<in> set all_representations" for e by (cases e) (simp_all add: all_representations_def)
  show "distinct (map representation_code all_representations)" by (simp add: all_representations_def)
qed

definition is_representation :: "nat list" where
  "is_representation = concat [
     [1, 1, 1, 1, 1], [1, 1, 1, 1, 1], [1, 0, 0, 1, 1], [0, 0, 0, 0, 0],
     [1, 0, 0, 0, 1], [0, 0, 0, 0, 0], [1, 0, 0, 0, 1], [0, 0, 0, 0, 0],
     [0, 0, 0, 0, 0], [0, 0, 0, 0, 0], [1, 0, 0, 0, 0], [0, 0, 0, 0, 0],
     [1, 0, 0, 0, 0], [0, 0, 0, 0, 0], [1, 0, 0, 0, 0], [0, 0, 0, 0, 0],
     [1, 0, 0, 0, 0], [0, 0, 0, 0, 0], [1, 0, 0, 0, 0], [0, 0, 0, 0, 0],
     [0, 0, 0, 0, 0], [0, 0, 0, 0, 0], [0, 0, 0, 0, 0], [0, 0, 0, 0, 0],
     [0, 0, 0, 0, 0], [0, 0, 0, 0, 0], [0, 0, 0, 0, 0], [0, 0, 0, 0, 0],
     [0, 0, 0, 0, 0], [0, 0, 0, 0, 0], [0, 0, 0, 0, 0], [0, 0, 0, 0, 0],
     [0, 0, 0, 0, 0], [0, 0, 0, 0, 0], [0, 0, 0, 0, 0], [0, 0, 0, 0, 0],
     [0, 0, 0, 0, 0], [0, 0, 0, 0, 0], [0, 0, 0, 0, 0], [0, 0, 0, 0, 0],
     [0, 0, 0, 0, 0], [0, 0, 0, 0, 0], [0, 0, 0, 0, 0], [0, 0, 0, 0, 0],
     [0, 0, 0, 0, 0], [0, 0, 0, 0, 0], [0, 0, 0, 0, 0], [0, 0, 0, 0, 0],
     [0, 0, 0, 0, 0], [0, 0, 0, 0, 0], [0, 0, 0, 0, 0]]"

section \<open>Table 3: levels\<close>

datatype LevelsTags =
    GROUND_OR_WATER_SURFACE
  | CLOUD_BASE_LEVEL
  | LEVEL_OF_CLOUD_TOPS
  | LEVEL_OF_0C_ISOTHERM
  | LEVEL_OF_ADIABATIC_CONDENSATION_LIFTED_FROM_SURFACE
  | MAXIMUM_WIND_LEVEL
  | TROPOPAUSE
  | NOMINAL_TOP_OF_ATMOSPHERE
  | SEA_BOTTOM
  | ISOBARIC_SURFACE
  | LAYER_BETWEEN_TWO_ISOBARIC_SURFACES
  | MEAN_SEA_LEVEL
  | SPECIFIED_ALTITUDE_ABOVE_MEAN_SEA_LEVEL
  | LAYER_BETWEEN_TWO_SPECIFIED_ALTITUDES
  | SPECIFIED_HEIGHT_LEVEL_ABOVE_GROUND
  | LAYER_BETWEEN_TWO_SPECIFIED_HEIGHT_LEVELS
  | SIGMA_LEVEL
  | LAYER_BETWEEN_TWO_SIGMA_LEVELS
  | HYBRID_LEVEL
  | LAYER_BETWEEN_TWO_HYBRID_LEVELS
  | DEPTH_BELOW_LAND_SURFACE
  | LAYER_BETWEEN_TWO_DEPTHS_BELOW_LAND
  | ISENTROPIC_THETA_LEVEL
  | LAYER_BETWEEN_TWO_ISENTROPIC_LEVELS
  | LEVEL_AT_SPECIFIED_PRESSURE_DIFFERENCE
  | LAYER_BETWEEN_TWO_LEVELS_AT_SPECIFIED_PRESSURE_DIF_FROM_GROUND_TO_LEVEL
  | POTENTIAL_VORTICITY_SURFACE
  | ETA_LEVEL
  | LAYER_BETWEEN_TWO_ETA_LEVELS
  | LAYER_BETWEEN_TWO_ISOBARIC_SURFACES_HP
  | SPECIFIED_HEIGHT_LEVEL_ABOVE_GROUND_HP
  | SATELLITE_SPECTRAL_BAND
  | LAYER_BETWEEN_TWO_SIGMA_LEVELS_HP
  | LAYER_BETWEEN_TWO_ISOBARIC_SURFACES_MP
  | DEPTH_BELOW_SEA_LEVEL
  | ISOTHERMAL_LEVEL
  | ENTIRE_ATMOSPHERE
  | ENTIRE_OCEAN
  | ISOBARIC_SURFACE_HP

primrec level_code :: "LevelsTags \<Rightarrow> u8" where
    "level_code GROUND_OR_WATER_SURFACE = 1"
  | "level_code CLOUD_BASE_LEVEL = 2"
  | "level_code LEVEL_OF_CLOUD_TOPS = 3"
  | "level_code LEVEL_OF_0C_ISOTHERM = 4"
  | "level_code LEVEL_OF_ADIABATIC_CONDENSATION_LIFTED_FROM_SURFACE = 5"
  | "level_code MAXIMUM_WIND_LEVEL = 6"
  | "level_code TROPOPAUSE = 7"
  | "level_code NOMINAL_TOP_OF_ATMOSPHERE = 8"
  | "level_code SEA_BOTTOM = 9"
  | "level_code ISOBARIC_SURFACE = 100"
  | "level_code LAYER_BETWEEN_TWO_ISOBARIC_SURFACES = 101"
  | "level_code MEAN_SEA_LEVEL = 102"
  | "level_code SPECIFIED_ALTITUDE_ABOVE_MEAN_SEA_LEVEL = 103"
  | "level_code LAYER_BETWEEN_TWO_SPECIFIED_ALTITUDES = 104"
  | "level_code SPECIFIED_HEIGHT_LEVEL_ABOVE_GROUND = 105"
  | "level_code LAYER_BETWEEN_TWO_SPECIFIED_HEIGHT_LEVELS = 106"
  | "level_code SIGMA_LEVEL = 107"
  | "level_code LAYER_BETWEEN_TWO_SIGMA_LEVELS = 108"
  | "level_code HYBRID_LEVEL = 109"
  | "level_code LAYER_BETWEEN_TWO_HYBRID_LEVELS = 110"
  | "level_code DEPTH_BELOW_LAND_SURFACE = 111"
  | "level_code LAYER_BETWEEN_TWO_DEPTHS_BELOW_LAND = 112"
  | "level_code ISENTROPIC_THETA_LEVEL = 113"
  | "level_code LAYER_BETWEEN_TWO_ISENTROPIC_LEVELS = 114"
  | "level_code LEVEL_AT_SPECIFIED_PRESSURE_DIFFERENCE = 115"
  | "level_code LAYER_BETWEEN_TWO_LEVELS_AT_SPECIFIED_PRESSURE_DIF_FROM_GROUND_TO_LEVEL = 116"
  | "level_code POTENTIAL_VORTICITY_SURFACE = 117"
  | "level_code ETA_LEVEL = 119"
  | "level_code LAYER_BETWEEN_TWO_ETA_LEVELS = 120"
  | "level_code LAYER_BETWEEN_TWO_ISOBARIC_SURFACES_HP = 121"
  | "level_code SPECIFIED_HEIGHT_LEVEL_ABOVE_GROUND_HP = 125"
  | "level_code SATELLITE_SPECTRAL_BAND = 127"
  | "level_code LAYER_BETWEEN_TWO_SIGMA_LEVELS_HP = 128"
  | "level_code LAYER_BETWEEN_TWO_ISOBARIC_SURFACES_MP = 141"
  | "level_code DEPTH_BELOW_SEA_LEVEL = 160"
  | "level_code ISOTHERMAL_LEVEL = 20"
  | "level_code ENTIRE_ATMOSPHERE = 200"
  | "level_code ENTIRE_OCEAN = 201"
  | "level_code ISOBARIC_SURFACE_HP = 210"

definition all_levels :: "LevelsTags list" where
  "all_levels = [
     GROUND_OR_WATER_SURFACE,
     CLOUD_BASE_LEVEL,
     LEVEL_OF_CLOUD_TOPS,
     LEVEL_OF_0C_ISOTHERM,
     LEVEL_OF_ADIABATIC_CONDENSATION_LIFTED_FROM_SURFACE,
     MAXIMUM_WIND_LEVEL,
     TROPOPAUSE,
     NOMINAL_TOP_OF_ATMOSPHERE,
     SEA_BOTTOM,
     ISOBARIC_SURFACE,
     LAYER_BETWEEN_TWO_ISOBARIC_SURFACES,
     MEAN_SEA_LEVEL,
     SPECIFIED_ALTITUDE_ABOVE_MEAN_SEA_LEVEL,
     LAYER_BETWEEN_TWO_SPECIFIED_ALTITUDES,
     SPECIFIED_HEIGHT_LEVEL_ABOVE_GROUND,
     LAYER_BETWEEN_TWO_SPECIFIED_HEIGHT_LEVELS,
     SIGMA_LEVEL,
     LAYER_BETWEEN_TWO_SIGMA_LEVELS,
     HYBRID_LEVEL,
     LAYER_BETWEEN_TWO_HYBRID_LEVELS,
     DEPTH_BELOW_LAND_SURFACE,
     LAYER_BETWEEN_TWO_DEPTHS_BELOW_LAND,
     ISENTROPIC_THETA_LEVEL,
     LAYER_BETWEEN_TWO_ISENTROPIC_LEVELS,
     LEVEL_AT_SPECIFIED_PRESSURE_DIFFERENCE,
     LAYER_BETWEEN_TWO_LEVELS_AT_SPECIFIED_PRESSURE_DIF_FROM_GROUND_TO_LEVEL,
     POTENTIAL_VORTICITY_SURFACE,
     ETA_LEVEL,
     LAYER_BETWEEN_TWO_ETA_LEVELS,
     LAYER_BETWEEN_TWO_ISOBARIC_SURFACES_HP,
     SPECIFIED_HEIGHT_LEVEL_ABOVE_GROUND_HP,
     SATELLITE_SPECTRAL_BAND,
     LAYER_BETWEEN_TWO_SIGMA_LEVELS_HP,
     LAYER_BETWEEN_TWO_ISOBARIC_SURFACES_MP,
     DEPTH_BELOW_SEA_LEVEL,
     ISOTHERMAL_LEVEL,
     ENTIRE_ATMOSPHERE,
     ENTIRE_OCEAN,
     ISOBARIC_SURFACE_HP]"

definition level_tag :: "u8 \<Rightarrow> LevelsTags option" where
  "level_tag c = enum_of all_levels level_code c"

interpretation lvl: code_table all_levels level_code
proof unfold_locales
  show "e \<in> set all_levels" for e by (cases e) (simp_all add: all_levels_def)
  show "distinct (map level_code all_levels)" by (simp add: all_levels_def)
qed

text \<open>The array has 255 elements and 250 initialisers.\<close>

definition levels_10_octets :: "nat list" where
  "levels_10_octets = concat [
     [0, 1, 1, 1, 1], [1, 1, 1, 1, 1], [0, 0, 0, 0, 0], [0, 0, 0, 0, 0],
     [1, 0, 0, 0, 0], [0, 0, 0, 0, 0], [0, 0, 0, 0, 0], [0, 0, 0, 0, 0],
     [0, 0, 0, 0, 0], [0, 0, 0, 0, 0], [0, 0, 0, 0, 0], [0, 0, 0, 0, 0],
     [0, 0, 0, 0, 0], [0, 0, 0, 0, 0], [0, 0, 0, 0, 0], [0, 0, 0, 0, 0],
     [0, 0, 0, 0, 0], [0, 0, 0, 0, 0], [0, 0, 0, 0, 0], [0, 0, 0, 0, 0],
     [1, 1, 1, 1, 1], [1, 1, 1, 1, 1], [1, 1, 1, 1, 1], [1, 1, 1, 0, 1],
     [1, 1, 0, 0, 0], [1, 0, 1, 1, 0], [0, 0, 0, 0, 0], [0, 0, 0, 0, 0],
     [0, 1, 0, 0, 0], [0, 0, 0, 0, 0], [0, 0, 0, 0, 0], [0, 0, 0, 0, 0],
     [1, 0, 0, 0, 0], [0, 0, 0, 0, 0], [0, 0, 0, 0, 0], [0, 0, 0, 0, 0],
     [0, 0, 0, 0, 0], [0, 0, 0, 0, 0], [0, 0, 0, 0, 0], [0, 0, 0, 0, 0],
     [1, 1, 0, 0, 0], [0, 0, 0, 0, 0], [1, 0, 0, 0, 0], [0, 0, 0, 0, 0],
     [0, 0, 0, 0, 0], [0, 0, 0, 0, 0], [0, 0, 0, 0, 0], [0, 0, 0, 0, 0],
     [0, 0, 0, 0, 0], [0, 0, 0, 0, 0]] @ replicate 5 0"

definition levels_11_octets :: "nat list" where
  "levels_11_octets = concat [
     [0, 0, 0, 0, 0], [0, 0, 0, 0, 0], [0, 0, 0, 0, 0], [0, 0, 0, 0, 0],
     [1, 0, 0, 0, 0], [0, 0, 0, 0, 0], [0, 0, 0, 0, 0], [0, 0, 0, 0, 0],
     [0, 0, 0, 0, 0], [0, 0, 0, 0, 0], [0, 0, 0, 0, 0], [0, 0, 0, 0, 0],
     [0, 0, 0, 0, 0], [0, 0, 0, 0, 0], [0, 0, 0, 0, 0], [0, 0, 0, 0, 0],
     [0, 0, 0, 0, 0], [0, 0, 0, 0, 0], [0, 0, 0, 0, 0], [0, 0, 0, 0, 0],
     [2, 1, 0, 2, 1], [2, 1, 2, 1, 2], [1, 2, 1, 2, 1], [2, 1, 1, 0, 2],
     [1, 1, 0, 0, 0], [2, 0, 2, 1, 0], [0, 0, 0, 0, 0], [0, 0, 0, 0, 0],
     [0, 1, 0, 0, 0], [0, 0, 0, 0, 0], [0, 0, 0, 0, 0], [0, 0, 0, 0, 0],
     [2, 0, 0, 0, 0], [0, 0, 0, 0, 0], [0, 0, 0, 0, 0], [0, 0, 0, 0, 0],
     [0, 0, 0, 0, 0], [0, 0, 0, 0, 0], [0, 0, 0, 0, 0], [0, 0, 0, 0, 0],
     [0, 0, 0, 0, 0], [0, 0, 0, 0, 0], [2, 0, 0, 0, 0], [0, 0, 0, 0, 0],
     [0, 0, 0, 0, 0], [0, 0, 0, 0, 0], [0, 0, 0, 0, 0], [0, 0, 0, 0, 0],
     [0, 0, 0, 0, 0], [0, 0, 0, 0, 0], [0, 0, 0, 0, 0]]"

definition levels_12_octets :: "nat list" where
  "levels_12_octets = concat [
     [0, 0, 0, 0, 0], [0, 0, 0, 0, 0], [0, 0, 0, 0, 0], [0, 0, 0, 0, 0],
     [0, 0, 0, 0, 0], [0, 0, 0, 0, 0], [0, 0, 0, 0, 0], [0, 0, 0, 0, 0],
     [0, 0, 0, 0, 0], [0, 0, 0, 0, 0], [0, 0, 0, 0, 0], [0, 0, 0, 0, 0],
     [0, 0, 0, 0, 0], [0, 0, 0, 0, 0], [0, 0, 0, 0, 0], [0, 0, 0, 0, 0],
     [0, 0, 0, 0, 0], [0, 0, 0, 0, 0], [0, 0, 0, 0, 0], [0, 0, 0, 0, 0],
     [0, 1, 0, 0, 1], [0, 1, 0, 1, 0], [1, 0, 1, 0, 1], [0, 1, 0, 0, 0],
     [1, 1, 0, 0, 0], [0, 0, 0, 1, 0], [0, 0, 0, 0, 0], [0, 0, 0, 0, 0],
     [0, 1, 0, 0, 0], [0, 0, 0, 0, 0], [0, 0, 0, 0, 0], [0, 0, 0, 0, 0],
     [0, 0, 0, 0, 0], [0, 0, 0, 0, 0], [0, 0, 0, 0, 0], [0, 0, 0, 0, 0],
     [0, 0, 0, 0, 0], [0, 0, 0, 0, 0], [0, 0, 0, 0, 0], [0, 0, 0, 0, 0],
     [0, 0, 0, 0, 0], [0, 0, 0, 0, 0], [0, 0, 0, 0, 0], [0, 0, 0, 0, 0],
     [0, 0, 0, 0, 0], [0, 0, 0, 0, 0], [0, 0, 0, 0, 0], [0, 0, 0, 0, 0],
     [0, 0, 0, 0, 0], [0, 0, 0, 0, 0], [0, 0, 0, 0, 0]]"

section \<open>Flag bytes: tables 1, 7, 8, 10 and 11\<close>

record Section2_3_flag =
  sec2_inc :: bool
  sec3_inc :: bool

record ResolutionComponentFlags =
  given_direction :: bool
  earth_spheroidal :: bool
  grid_direction_uv_comp :: bool

definition make_ResolutionComponentFlags :: "u8 \<Rightarrow> ResolutionComponentFlags" where
  "make_ResolutionComponentFlags buf =
     \<lparr>given_direction = buf AND 1 \<noteq> 0, earth_spheroidal = buf AND 2 \<noteq> 0,
      grid_direction_uv_comp = buf AND 16 \<noteq> 0\<rparr>"

definition ResolutionComponentFlags_eq ::
    "ResolutionComponentFlags \<Rightarrow> ResolutionComponentFlags \<Rightarrow> bool" where
  "ResolutionComponentFlags_eq a b \<longleftrightarrow>
     given_direction a = given_direction b \<and> earth_spheroidal a = earth_spheroidal b \<and>
     grid_direction_uv_comp a = grid_direction_uv_comp b"

record ScanMode =
  points_sub_i_dir :: bool
  points_sub_j_dir :: bool
  adj_points_j_dir :: bool

definition make_ScanMode :: "u8 \<Rightarrow> ScanMode" where
  "make_ScanMode buf =
     \<lparr>points_sub_i_dir = buf AND 1 \<noteq> 0, points_sub_j_dir = buf AND 2 \<noteq> 0,
      adj_points_j_dir = buf AND 4 \<noteq> 0\<rparr>"

definition ScanMode_eq :: "ScanMode \<Rightarrow> ScanMode \<Rightarrow> bool" where
  "ScanMode_eq a b \<longleftrightarrow>
     points_sub_i_dir a = points_sub_i_dir b \<and> points_sub_j_dir a = points_sub_j_dir b \<and>
     adj_points_j_dir a = adj_points_j_dir b"

text \<open>
  The members of \<^verbatim>\<open>Flag\<close> are signed bit-fields of width one: an \<^verbatim>\<open>int\<close> stored in one keeps its
  lowest bit, and a set bit reads back as minus one.
\<close>

definition bitfield1 :: "int \<Rightarrow> int" where
  "bitfield1 v = (if odd v then - 1 else 0)"

record Flag =
  spherical_harm_coefs :: int
  complex_pack :: int
  int_values :: int
  oct_14_flag_bits :: int
  matrix :: int
  second_bmp :: int
  second_order_diff_widths :: int

section \<open>Lookup in the tables\<close>

definition table_at :: "nat list \<Rightarrow> u8 \<Rightarrow> nat option" where
  "table_at t c = (if unat c < length t then Some (t ! unat c) else None)"

lemma ResolutionComponentFlags_eq_iff: "ResolutionComponentFlags_eq a b \<longleftrightarrow> a = b"
  by (auto simp: ResolutionComponentFlags_eq_def)

lemma ScanMode_eq_iff: "ScanMode_eq a b \<longleftrightarrow> a = b"
  by (auto simp: ScanMode_eq_def)

end
