(* ===== verification/Levels.thy ===== *)
theory Levels
  imports Code_Tables
begin

text \<open>
  The vertical level of a field: the conversion of a level octet into a physical value
  (\<^verbatim>\<open>convert_level<11>\<close> and \<^verbatim>\<open>convert_level<12>\<close> of \<^verbatim>\<open>code_tables/table_3.h\<close>) and the class
  \<^verbatim>\<open>Level\<close> of \<^verbatim>\<open>sections/product/levels.h\<close>.  The variant \<^verbatim>\<open>level_value_t\<close> is a datatype with
  one constructor per alternative; quantities are in SI units.
\<close>

section \<open>Conversion of octets\<close>

datatype level_value =
    Monostate
  | Int16 int
  | Float rat
  | Length rat
  | Pressure rat
  | Temperature rat
  | Vorticity rat

definition convert_level_11 :: "u8 \<Rightarrow> int \<Rightarrow> level_value" where
  "convert_level_11 octet_10 v = (case level_tag octet_10 of
       Some GROUND_OR_WATER_SURFACE \<Rightarrow> Monostate
     | Some CLOUD_BASE_LEVEL \<Rightarrow> Monostate
     | Some LEVEL_OF_CLOUD_TOPS \<Rightarrow> Monostate
     | Some LEVEL_OF_0C_ISOTHERM \<Rightarrow> Monostate
     | Some LEVEL_OF_ADIABATIC_CONDENSATION_LIFTED_FROM_SURFACE \<Rightarrow> Monostate
     | Some MAXIMUM_WIND_LEVEL \<Rightarrow> Monostate
     | Some TROPOPAUSE \<Rightarrow> Monostate
     | Some NOMINAL_TOP_OF_ATMOSPHERE \<Rightarrow> Monostate
     | Some SEA_BOTTOM \<Rightarrow> Monostate
     | Some ISOBARIC_SURFACE \<Rightarrow> Pressure (f32 (f32 (of_int v) * 100))
     | Some LAYER_BETWEEN_TWO_ISOBARIC_SURFACES \<Rightarrow> Pressure (f32 (f32 (of_int v) * 1000))
     | Some MEAN_SEA_LEVEL \<Rightarrow> Monostate
     | Some SPECIFIED_ALTITUDE_ABOVE_MEAN_SEA_LEVEL \<Rightarrow> Length (f32 (of_int v))
     | Some LAYER_BETWEEN_TWO_SPECIFIED_ALTITUDES \<Rightarrow> Length (f32 (f32 (of_int v) * 100))
     | Some SPECIFIED_HEIGHT_LEVEL_ABOVE_GROUND \<Rightarrow> Length (f32 (of_int v))
     | Some LAYER_BETWEEN_TWO_SPECIFIED_HEIGHT_LEVELS \<Rightarrow> Length (f32 (f32 (of_int v) * 100))
     | Some SIGMA_LEVEL \<Rightarrow> Float (f32 (10000 * f32 (of_int v)))
     | Some LAYER_BETWEEN_TWO_SIGMA_LEVELS \<Rightarrow> Float (f32 (100 * f32 (of_int v)))
     | Some HYBRID_LEVEL \<Rightarrow> Int16 v
     | Some LAYER_BETWEEN_TWO_HYBRID_LEVELS \<Rightarrow> Int16 v
     | Some DEPTH_BELOW_LAND_SURFACE \<Rightarrow> Length (f64 (f32 (of_int v) * f64 (1 / 100)))
     | Some LAYER_BETWEEN_TWO_DEPTHS_BELOW_LAND \<Rightarrow> Length (f64 (f32 (of_int v) * f64 (1 / 100)))
     | Some ISENTROPIC_THETA_LEVEL \<Rightarrow> Temperature (f32 (of_int v))
     | Some LAYER_BETWEEN_TWO_ISENTROPIC_LEVELS \<Rightarrow> Temperature (f32 (475 - f32 (of_int v)))
     | Some LEVEL_AT_SPECIFIED_PRESSURE_DIFFERENCE \<Rightarrow> Pressure (f32 (f32 (of_int v) * 100))
     | Some LAYER_BETWEEN_TWO_LEVELS_AT_SPECIFIED_PRESSURE_DIF_FROM_GROUND_TO_LEVEL \<Rightarrow> Pressure (f32 (f32 (of_int v) * 100))
     | Some POTENTIAL_VORTICITY_SURFACE \<Rightarrow> Vorticity (f64 (1 / 1000000000))
     | Some ETA_LEVEL \<Rightarrow> Float (f32 (10000 * f32 (of_int v)))
     | Some LAYER_BETWEEN_TWO_ETA_LEVELS \<Rightarrow> Float (f32 (100 * f32 (of_int v)))
     | Some LAYER_BETWEEN_TWO_ISOBARIC_SURFACES_HP \<Rightarrow> Pressure (f32 (f32 (1100 - f32 (of_int v)) * 100))
     | Some SPECIFIED_HEIGHT_LEVEL_ABOVE_GROUND_HP \<Rightarrow> Length (f64 (f32 (of_int v) * f64 (1 / 100)))
     | Some SATELLITE_SPECTRAL_BAND \<Rightarrow> Float (f32 (of_int v))
     | Some LAYER_BETWEEN_TWO_SIGMA_LEVELS_HP \<Rightarrow> Float (f32 (1000 * f32 (f32 (11 / 10) - f32 (of_int v))))
     | Some LAYER_BETWEEN_TWO_ISOBARIC_SURFACES_MP \<Rightarrow> Pressure (f32 (1000 * f32 (of_int v)))
     | Some DEPTH_BELOW_SEA_LEVEL \<Rightarrow> Length (f32 (of_int v))
     | Some ISOTHERMAL_LEVEL \<Rightarrow> Temperature (f32 (100 * f32 (of_int v)))
     | Some ENTIRE_ATMOSPHERE \<Rightarrow> Monostate
     | Some ENTIRE_OCEAN \<Rightarrow> Monostate
     | Some ISOBARIC_SURFACE_HP \<Rightarrow> Pressure (f32 (of_int v))
     | None \<Rightarrow> Monostate)"

definition convert_level_12 :: "u8 \<Rightarrow> int \<Rightarrow> level_value" where
  "convert_level_12 octet_10 v = (case level_tag octet_10 of
       Some GROUND_OR_WATER_SURFACE \<Rightarrow> Monostate
     | Some CLOUD_BASE_LEVEL \<Rightarrow> Monostate
     | Some LEVEL_OF_CLOUD_TOPS \<Rightarrow> Monostate
     | Some LEVEL_OF_0C_ISOTHERM \<Rightarrow> Monostate
     | Some LEVEL_OF_ADIABATIC_CONDENSATION_LIFTED_FROM_SURFACE \<Rightarrow> Monostate
     | Some MAXIMUM_WIND_LEVEL \<Rightarrow> Monostate
     | Some TROPOPAUSE \<Rightarrow> Monostate
     | Some NOMINAL_TOP_OF_ATMOSPHERE \<Rightarrow> Monostate
     | Some SEA_BOTTOM \<Rightarrow> Monostate
     | Some ISOBARIC_SURFACE \<Rightarrow> Monostate
     | Some LAYER_BETWEEN_TWO_ISOBARIC_SURFACES \<Rightarrow> Pressure (f32 (f32 (of_int v) * 1000))
     | Some MEAN_SEA_LEVEL \<Rightarrow> Monostate
     | Some SPECIFIED_ALTITUDE_ABOVE_MEAN_SEA_LEVEL \<Rightarrow> Monostate
     | Some LAYER_BETWEEN_TWO_SPECIFIED_ALTITUDES \<Rightarrow> Length (f32 (f32 (of_int v) * 100))
     | Some SPECIFIED_HEIGHT_LEVEL_ABOVE_GROUND \<Rightarrow> Monostate
     | Some LAYER_BETWEEN_TWO_SPECIFIED_HEIGHT_LEVELS \<Rightarrow> Length (f32 (f32 (of_int v) * 100))
     | Some SIGMA_LEVEL \<Rightarrow> Monostate
     | Some LAYER_BETWEEN_TWO_SIGMA_LEVELS \<Rightarrow> Float (f32 (100 * f32 (of_int v)))
     | Some HYBRID_LEVEL \<Rightarrow> Monostate
     | Some LAYER_BETWEEN_TWO_HYBRID_LEVELS \<Rightarrow> Int16 v
     | Some DEPTH_BELOW_LAND_SURFACE \<Rightarrow> Monostate
     | Some LAYER_BETWEEN_TWO_DEPTHS_BELOW_LAND \<Rightarrow> Length (f64 (f32 (of_int v) * f64 (1 / 100)))
     | Some ISENTROPIC_THETA_LEVEL \<Rightarrow> Monostate
     | Some LAYER_BETWEEN_TWO_ISENTROPIC_LEVELS \<Rightarrow> Temperature (f32 (475 - f32 (of_int v)))
     | Some LEVEL_AT_SPECIFIED_PRESSURE_DIFFERENCE \<Rightarrow> Monostate
     | Some LAYER_BETWEEN_TWO_LEVELS_AT_SPECIFIED_PRESSURE_DIF_FROM_GROUND_TO_LEVEL \<Rightarrow> Pressure (f32 (f32 (of_int v) * 100))
     | Some POTENTIAL_VORTICITY_SURFACE \<Rightarrow> Monostate
     | Some ETA_LEVEL \<Rightarrow> Monostate
     | Some LAYER_BETWEEN_TWO_ETA_LEVELS \<Rightarrow> Float (f32 (100 * f32 (of_int v)))
     | Some LAYER_BETWEEN_TWO_ISOBARIC_SURFACES_HP \<Rightarrow> Pressure (f32 (f32 (1100 - f32 (of_int v)) * 100))
     | Some SPECIFIED_HEIGHT_LEVEL_ABOVE_GROUND_HP \<Rightarrow> Monostate
     | Some SATELLITE_SPECTRAL_BAND \<Rightarrow> Monostate
     | Some LAYER_BETWEEN_TWO_SIGMA_LEVELS_HP \<Rightarrow> Float (f32 (1000 * f32 (f32 (11 / 10) - f32 (of_int v))))
     | Some LAYER_BETWEEN_TWO_ISOBARIC_SURFACES_MP \<Rightarrow> Pressure (f32 (f32 (1100 - f32 (of_int v)) * 100))
     | Some DEPTH_BELOW_SEA_LEVEL \<Rightarrow> Monostate
     | Some ISOTHERMAL_LEVEL \<Rightarrow> Monostate
     | Some ENTIRE_ATMOSPHERE \<Rightarrow> Monostate
     | Some ENTIRE_OCEAN \<Rightarrow> Monostate
     | Some ISOBARIC_SURFACE_HP \<Rightarrow> Monostate
     | None \<Rightarrow> Monostate)"

section \<open>The class Level\<close>

text \<open>
  The accessors throw \<^verbatim>\<open>std::logic_error\<close> (\<^term>\<open>Inl\<close>); a table lookup past the end of the table
  is undefined (\<^term>\<open>None\<close>).
\<close>

record Level =
  octet_11 :: u8
  octet_12 :: u8
  level_type :: u8

definition make_Level :: "u8 \<Rightarrow> u8 \<Rightarrow> u8 \<Rightarrow> Level" where
  "make_Level tag o_11 o_12 = \<lparr>octet_11 = o_11, octet_12 = o_12, level_type = tag\<rparr>"

definition is_bounded :: "Level \<Rightarrow> bool option" where
  "is_bounded l = map_option (\<lambda>n. n = 2) (table_at levels_11_octets (level_type l))"

text \<open>The \<^verbatim>\<open>uint16_t\<close> argument is converted to the \<^verbatim>\<open>int16_t\<close> parameter.\<close>

definition to_int16 :: "nat \<Rightarrow> int" where
  "to_int16 n = sint (of_nat n :: u16)"

definition get_top_bound :: "Level \<Rightarrow> (string + level_value) option" where
  "get_top_bound l = do {
     b \<leftarrow> is_bounded l;
     Some (if b then Inr (convert_level_11 (level_type l) (to_int16 (unat (octet_11 l))))
           else Inl ''level not bounded'')}"

definition get_bottom_bound :: "Level \<Rightarrow> (string + level_value) option" where
  "get_bottom_bound l = do {
     b \<leftarrow> is_bounded l;
     Some (if b then Inr (convert_level_12 (level_type l) (to_int16 (unat (octet_12 l))))
           else Inl ''level not bounded'')}"

definition get_level_height :: "Level \<Rightarrow> (string + level_value) option" where
  "get_level_height l = do {
     b \<leftarrow> is_bounded l;
     if \<not> b then do {
       n \<leftarrow> table_at levels_11_octets (level_type l);
       Some (Inr (if n = 2
         then convert_level_11 (level_type l)
                (to_int16 (push_bit 8 (unat (octet_11 l)) OR unat (octet_12 l)))
         else convert_level_11 (level_type l) (to_int16 (unat (octet_11 l)))))}
     else Some (Inl ''level bounded (expected boundaries request)'')}"

definition Level_eq :: "Level \<Rightarrow> Level \<Rightarrow> bool" where
  "Level_eq a b \<longleftrightarrow> octet_11 a = octet_11 b \<and> octet_12 a = octet_12 b \<and> level_type a = level_type b"

definition hash_Level :: "Level \<Rightarrow> u64" where
  "hash_Level l = (push_bit 16 (ucast (level_type l)) OR push_bit 8 (ucast (octet_11 l)))
     OR ucast (octet_12 l)"

section \<open>Reference values\<close>

text \<open>
  The values the printing routine \<^verbatim>\<open>levels\<close> (kept as a comment at the end of
  \<^verbatim>\<open>sections/product/levels.cpp\<close>) gives to one octet of each type, in SI units and without
  rounding.
\<close>

fun level_reference :: "LevelsTags \<Rightarrow> rat \<Rightarrow> level_value" where
  "level_reference ISOBARIC_SURFACE v = Pressure (100 * v)"
| "level_reference LAYER_BETWEEN_TWO_ISOBARIC_SURFACES v = Pressure (10 * v * 100)"
| "level_reference SPECIFIED_ALTITUDE_ABOVE_MEAN_SEA_LEVEL v = Length v"
| "level_reference LAYER_BETWEEN_TWO_SPECIFIED_ALTITUDES v = Length (100 * v)"
| "level_reference SPECIFIED_HEIGHT_LEVEL_ABOVE_GROUND v = Length v"
| "level_reference LAYER_BETWEEN_TWO_SPECIFIED_HEIGHT_LEVELS v = Length (100 * v)"
| "level_reference SIGMA_LEVEL v = Float (v / 10000)"
| "level_reference LAYER_BETWEEN_TWO_SIGMA_LEVELS v = Float (v / 100)"
| "level_reference DEPTH_BELOW_LAND_SURFACE v = Length (v / 100)"
| "level_reference LAYER_BETWEEN_TWO_DEPTHS_BELOW_LAND v = Length (v / 100)"
| "level_reference ISENTROPIC_THETA_LEVEL v = Temperature v"
| "level_reference LAYER_BETWEEN_TWO_ISENTROPIC_LEVELS v = Temperature (475 - v)"
| "level_reference LEVEL_AT_SPECIFIED_PRESSURE_DIFFERENCE v = Pressure (100 * v)"
| "level_reference LAYER_BETWEEN_TWO_LEVELS_AT_SPECIFIED_PRESSURE_DIF_FROM_GROUND_TO_LEVEL v =
     Pressure (100 * v)"
| "level_reference ETA_LEVEL v = Float (v / 10000)"
| "level_reference LAYER_BETWEEN_TWO_ETA_LEVELS v = Float (v / 100)"
| "level_reference LAYER_BETWEEN_TWO_ISOBARIC_SURFACES_HP v = Pressure ((1100 - v) * 100)"
| "level_reference SPECIFIED_HEIGHT_LEVEL_ABOVE_GROUND_HP v = Length (v / 100)"
| "level_reference LAYER_BETWEEN_TWO_ISOBARIC_SURFACES_MP v = Pressure (10 * v * 100)"
| "level_reference DEPTH_BELOW_SEA_LEVEL v = Length v"
| "level_reference ISOTHERMAL_LEVEL v = Temperature (v / 100)"
| "level_reference ISOBARIC_SURFACE_HP v = Pressure (v / 100 * 100)"
| "level_reference _ v = Monostate"

text \<open>Values of the same kind that differ by at most a distance.\<close>

fun level_close :: "rat \<Rightarrow> level_value \<Rightarrow> level_value \<Rightarrow> bool" where
  "level_close d (Pressure x) (Pressure y) \<longleftrightarrow> \<bar>x - y\<bar> \<le> d"
| "level_close d (Length x) (Length y) \<longleftrightarrow> \<bar>x - y\<bar> \<le> d"
| "level_close d (Temperature x) (Temperature y) \<longleftrightarrow> \<bar>x - y\<bar> \<le> d"
| "level_close d (Float x) (Float y) \<longleftrightarrow> \<bar>x - y\<bar> \<le> d"
| "level_close d x y \<longleftrightarrow> x = y"

definition scaled_wrongly :: "LevelsTags set" where
  "scaled_wrongly = {SIGMA_LEVEL, LAYER_BETWEEN_TWO_SIGMA_LEVELS, ETA_LEVEL,
     LAYER_BETWEEN_TWO_ETA_LEVELS, ISOTHERMAL_LEVEL}"

definition without_reference :: "LevelsTags set" where
  "without_reference = {HYBRID_LEVEL, LAYER_BETWEEN_TWO_HYBRID_LEVELS,
     POTENTIAL_VORTICITY_SURFACE, SATELLITE_SPECTRAL_BAND, LAYER_BETWEEN_TWO_SIGMA_LEVELS_HP}"

definition two_octet_value :: "LevelsTags set" where
  "two_octet_value = {ISOBARIC_SURFACE, SPECIFIED_ALTITUDE_ABOVE_MEAN_SEA_LEVEL, SPECIFIED_HEIGHT_LEVEL_ABOVE_GROUND, SIGMA_LEVEL, HYBRID_LEVEL, DEPTH_BELOW_LAND_SURFACE, ISENTROPIC_THETA_LEVEL, LEVEL_AT_SPECIFIED_PRESSURE_DIFFERENCE, ETA_LEVEL, SPECIFIED_HEIGHT_LEVEL_ABOVE_GROUND_HP, SATELLITE_SPECTRAL_BAND, DEPTH_BELOW_SEA_LEVEL, ISOBARIC_SURFACE_HP}"

section \<open>Facts\<close>

lemma to_int16_small: "n \<le> 32767 \<Longrightarrow> to_int16 n = int n"
proof -
  assume n: "n \<le> 32767"
  then have "signed_take_bit 15 (int n) = int n"
    by (intro signed_take_bit_int_eq_self) simp_all
  then show ?thesis by (simp add: to_int16_def signed_of_nat)
qed

lemma to_int16_octet [simp]: "to_int16 (unat (b :: u8)) = int (unat b)"
  by (rule to_int16_small) (use unat_u8_le [of b] in linarith)

lemma level_tag_code [simp]: "level_tag (level_code t) = Some t"
  by (simp add: level_tag_def)

lemma f32_scale:
  assumes "0 \<le> v" "v \<le> 255"
  shows "f32 (of_int v * 100) = of_int v * 100" "f32 (of_int v * 1000) = of_int v * 1000"
    "f32 (100 * of_int v) = 100 * of_int v" "f32 (1000 * of_int v) = 1000 * of_int v"
    "f32 (10000 * of_int v) = 10000 * of_int v"
    "f32 (475 - of_int v) = 475 - of_int v" "f32 (1100 - of_int v) = 1100 - of_int v"
    "f32 ((1100 - of_int v) * 100) = (1100 - of_int v) * 100"
  using assms f32_int_scaled [of v 100] f32_int_scaled [of v 1000] f32_int_scaled [of v 10000]
    f32_int_diff [of v 475] f32_int_diff [of v 1100] f32_int_scaled [of "1100 - v" 100]
  by (simp_all add: mult.commute)

lemma centimetre_error:
  assumes "0 \<le> v" "v \<le> 255"
  shows "\<bar>f64 (of_int v * f64 (1 / 100)) - of_int v / 100\<bar> \<le> 1 / 2 ^ 45"
proof -
  let ?c = "f64 (1 / 100) :: rat" and ?v = "of_int v :: rat"
  have v: "0 \<le> ?v" "?v \<le> 255" using assms by simp_all
  have c: "\<bar>?c - 1 / 100\<bar> \<le> 2 powi (- 60)"
    using f64_error_bound [of "1 / 100" "- 6"] by (simp add: power_int_def power_one_over)
  have prod: "\<bar>?v * ?c - ?v / 100\<bar> \<le> 1 / 2 ^ 52"
  proof -
    have "\<bar>?v * ?c - ?v / 100\<bar> = \<bar>?v * (?c - 1 / 100)\<bar>"
      by (simp add: right_diff_distrib)
    also have "\<dots> = ?v * \<bar>?c - 1 / 100\<bar>"
      using v by (simp add: abs_mult)
    also have "\<dots> \<le> 255 * 2 powi (- 60)"
      using v c by (intro mult_mono) simp_all
    also have "\<dots> \<le> 1 / 2 ^ 52" by (simp add: power_int_def power_one_over)
    finally show ?thesis .
  qed
  have small: "\<bar>x\<bar> < 8" if "\<bar>x - y / 100\<bar> \<le> 1 / 2 ^ 52" "0 \<le> y" "y \<le> 255" for x y :: rat
  proof -
    have "\<bar>x - y / 100\<bar> \<le> 1" by (rule order_trans [OF that(1)]) simp
    then have "x - y / 100 \<le> 1" "- (x - y / 100) \<le> 1" by (simp_all only: abs_le_iff)
    then have "x < 8" "- x < 8" using that(2,3) by simp_all
    then show ?thesis by (simp only: abs_less_iff)
  qed
  have "\<bar>f64 (?v * ?c) - ?v * ?c\<bar> \<le> 2 powi (- 51)"
    using f64_error_bound [of "?v * ?c" 3] small [OF prod v] by simp
  also have "2 powi (- 51) = (1 / 2 ^ 51 :: rat)" by (simp add: power_int_def power_one_over)
  finally have rounding: "\<bar>f64 (?v * ?c) - ?v * ?c\<bar> \<le> 1 / 2 ^ 51" .
  have "\<bar>f64 (?v * ?c) - ?v / 100\<bar> \<le> \<bar>f64 (?v * ?c) - ?v * ?c\<bar> + \<bar>?v * ?c - ?v / 100\<bar>"
    using abs_triangle_ineq [of "f64 (?v * ?c) - ?v * ?c" "?v * ?c - ?v / 100"] by simp
  also have "\<dots> \<le> 1 / 2 ^ 51 + 1 / 2 ^ 52" by (rule add_mono [OF rounding prod])
  also have "\<dots> \<le> 1 / 2 ^ 45" by simp
  finally show ?thesis .
qed

lemma levels_11_octets_code:
  "table_at levels_11_octets (level_code t) = Some (levels_11_octets ! unat (level_code t))"
  "levels_11_octets ! unat (level_code t) = 2 \<longleftrightarrow> t \<in> two_octet_value"
  by (cases t; simp add: table_at_def levels_11_octets_def two_octet_value_def)+

lemma levels_12_octets_code:
  "table_at levels_12_octets (level_code t) = Some (levels_12_octets ! unat (level_code t))"
  "t \<in> two_octet_value \<Longrightarrow> levels_12_octets ! unat (level_code t) \<noteq> 1"
  by (cases t; simp add: table_at_def levels_12_octets_def two_octet_value_def)+

lemma is_bounded_code: "is_bounded (make_Level (level_code t) a b) = Some (t \<in> two_octet_value)"
  using levels_11_octets_code [of t] by (simp add: is_bounded_def make_Level_def)

lemma convert_level_12_two_octet:
  "t \<in> two_octet_value \<Longrightarrow> convert_level_12 (level_code t) v = Monostate"
  unfolding convert_level_12_def level_tag_code
  by (cases t) (simp_all add: two_octet_value_def)

text \<open>Three octets in one word: the pieces of the hash do not overlap.\<close>

lemma hash_Level_value:
  "unat (hash_Level l) =
     unat (level_type l) * 65536 + unat (octet_11 l) * 256 + unat (octet_12 l)"
proof -
  have "unat (hash_Level l) = (push_bit 16 (unat (level_type l)) OR push_bit 8 (unat (octet_11 l)))
      OR unat (octet_12 l)"
    by (simp add: hash_Level_def unsigned_or_eq push_bit_u8_u64 unsigned_ucast_eq take_bit_u8)
  also have "\<dots> = push_bit 16 (unat (level_type l)) OR (push_bit 8 (unat (octet_11 l))
      OR unat (octet_12 l))"
    by (rule bit_eqI) (simp add: bit_or_iff disj_assoc)
  also have "push_bit 8 (unat (octet_11 l)) OR unat (octet_12 l)
      = unat (octet_11 l) * 256 + unat (octet_12 l)"
    using push_bit_or_nat [of "unat (octet_12 l)" 8] by simp
  also have "push_bit 16 (unat (level_type l)) OR (unat (octet_11 l) * 256 + unat (octet_12 l))
      = unat (level_type l) * 65536 + (unat (octet_11 l) * 256 + unat (octet_12 l))"
    using push_bit_or_nat [of "unat (octet_11 l) * 256 + unat (octet_12 l)" 16]
      unat_u8_less [of "octet_11 l"] unat_u8_less [of "octet_12 l"] by simp
  finally show ?thesis by simp
qed

lemma hash_Level_be_nat: "unat (hash_Level l) = be_nat [level_type l, octet_11 l, octet_12 l]"
  by (simp add: hash_Level_value be_nat_Cons)

section \<open>Properties\<close>

text \<open>
  C24: for every level type whose octet the printing routine scales as the conversion does, the
  converted octet is the reference value up to the rounding of the two floating point types:
  the height, pressure or temperature agree in kind and differ by at most 2 to the minus 45.
\<close>

theorem convert_level_reference:
  assumes "t \<notin> scaled_wrongly" "t \<notin> without_reference" "0 \<le> v" "v \<le> 255"
  shows "level_close (1 / 2 ^ 45) (convert_level_11 (level_code t) v) (level_reference t (of_int v))"
  using assms f32_scale [of v] centimetre_error [of v]
  unfolding convert_level_11_def level_tag_code
  by (cases t) (simp_all add: scaled_wrongly_def without_reference_def)

theorem convert_level_reference_witness:
  "level_close (1 / 2 ^ 45) (convert_level_11 (level_code DEPTH_BELOW_LAND_SURFACE) 7) (Length (7 / 100))"
  using convert_level_reference [of DEPTH_BELOW_LAND_SURFACE 7]
  by (simp add: scaled_wrongly_def without_reference_def)

text \<open>
  For the sigma, eta and isothermal levels the conversion multiplies where the reference
  divides: the converted value is the reference value times the square of the scale factor (ten
  to the eighth for the surfaces, ten thousand for the layers and for the isothermal level).
\<close>

theorem convert_level_scaled_wrongly:
  assumes "t \<in> scaled_wrongly" "0 \<le> v" "v \<le> 255"
  shows "convert_level_11 (level_code t) v =
    (case level_reference t (of_int v) of
       Float x \<Rightarrow> Float (if t \<in> {SIGMA_LEVEL, ETA_LEVEL} then 100000000 * x else 10000 * x)
     | Temperature x \<Rightarrow> Temperature (10000 * x)
     | y \<Rightarrow> y)"
  using assms f32_scale [of v]
  unfolding convert_level_11_def level_tag_code
  by (cases t) (simp_all add: scaled_wrongly_def)

theorem convert_level_scaled_wrongly_witness:
  "convert_level_11 (level_code SIGMA_LEVEL) 5 = Float 50000"
  using convert_level_scaled_wrongly [of SIGMA_LEVEL 5] by (simp add: scaled_wrongly_def)

text \<open>
  The accessors treat as bounded exactly the level types whose octets 11 and 12 together hold
  one value.  For those the top bound is the conversion of octet 11 alone, the bottom bound is
  always empty and the height is refused; for every layer type both bounds are refused, and the
  height is the conversion of octet 11, whatever octet 12 holds.
\<close>

theorem Level_accessors:
  "get_top_bound (make_Level (level_code t) a b) =
     Some (if t \<in> two_octet_value then Inr (convert_level_11 (level_code t) (int (unat a)))
           else Inl ''level not bounded'') \<and>
   get_bottom_bound (make_Level (level_code t) a b) =
     Some (if t \<in> two_octet_value then Inr Monostate else Inl ''level not bounded'') \<and>
   get_level_height (make_Level (level_code t) a b) =
     Some (if t \<in> two_octet_value then Inl ''level bounded (expected boundaries request)''
           else Inr (convert_level_11 (level_code t) (int (unat a)))) \<and>
   (table_at levels_12_octets (level_code t) = Some 1 \<longrightarrow> t \<notin> two_octet_value)"
  using is_bounded_code [of t a b] levels_11_octets_code [of t] levels_12_octets_code [of t]
    convert_level_12_two_octet [of t]
  by (auto simp: get_top_bound_def get_bottom_bound_def get_level_height_def make_Level_def
      split: if_splits)

theorem Level_accessors_witness:
  "get_bottom_bound (make_Level (level_code LAYER_BETWEEN_TWO_ISOBARIC_SURFACES) 70 85) =
     Some (Inl ''level not bounded'') \<and> LAYER_BETWEEN_TWO_ISOBARIC_SURFACES \<notin> two_octet_value"
proof -
  have "table_at levels_12_octets (level_code LAYER_BETWEEN_TWO_ISOBARIC_SURFACES) = Some 1"
    by (simp add: table_at_def levels_12_octets_def)
  then show ?thesis
    using Level_accessors [of LAYER_BETWEEN_TWO_ISOBARIC_SURFACES 70 85] by simp
qed

text \<open>
  The hash of a level is the three-byte number of its type and octets, so two levels have the
  same hash exactly if they are equal, and the hash fits in 24 bits.
\<close>

theorem hash_Level_injective:
  "(hash_Level a = hash_Level b \<longleftrightarrow> Level_eq a b) \<and> unat (hash_Level a) < 2 ^ 24"
  using be_nat_inj [of "[level_type a, octet_11 a, octet_12 a]" "[level_type b, octet_11 b, octet_12 b]"]
    be_nat_less [of "[level_type a, octet_11 a, octet_12 a]"]
  by (auto simp: word_unat_eq_iff [of "hash_Level a"] hash_Level_be_nat Level_eq_def)

end
