(* ===== verification/Time_Forecast.thy ===== *)
theory Time_Forecast
  imports Levels "HOL-Library.AList"
begin

text \<open>
  The forecast time of a field: the class \<^verbatim>\<open>TimeForecast\<close> of
  \<^verbatim>\<open>sections/product/time_forecast.h\<close>, its classification predicates, and the conversion of
  \<^verbatim>\<open>TimeForecast\<close> and \<^verbatim>\<open>Level\<close> from and to JSON (\<^verbatim>\<open>time_forecast.cpp\<close>, \<^verbatim>\<open>levels.cpp\<close>).
\<close>

section \<open>The class TimeForecast\<close>

record TimeForecast =
  N_avg :: u16
  N_avg_acc_missed :: u8
  P1_val :: u8
  P2_val :: u8
  tf_code :: u8
  tri_code :: u8

definition make_TimeForecast :: "u8 \<Rightarrow> u8 \<Rightarrow> u8 \<Rightarrow> u8 \<Rightarrow> TimeForecast" where
  "make_TimeForecast tf tri P1 P2 =
     \<lparr>N_avg = - 1, N_avg_acc_missed = 0, P1_val = P1, P2_val = P2, tf_code = tf, tri_code = tri\<rparr>"

definition TimeForecast_eq :: "TimeForecast \<Rightarrow> TimeForecast \<Rightarrow> bool" where
  "TimeForecast_eq a b \<longleftrightarrow>
     N_avg a = N_avg b \<and> N_avg_acc_missed a = N_avg_acc_missed b \<and>
     P1_val a = P1_val b \<and> P2_val a = P2_val b \<and>
     tf_code a = tf_code b \<and> tri_code a = tri_code b"

text \<open>
  The format of a time unit; an unknown unit fails an assertion (\<^term>\<open>None\<close>).
\<close>

definition time_frame_to_fmt :: "TimeForecast \<Rightarrow> string option" where
  "time_frame_to_fmt t = (case time_frame (tf_code t) of
       Some NORMAL \<Rightarrow> Some ''%d 30Y''
     | Some CENTURY \<Rightarrow> Some ''%d 100Y''
     | Some DAY \<Rightarrow> Some ''%d D''
     | Some DECADE \<Rightarrow> Some ''%d 10Y''
     | Some HALF_HOUR \<Rightarrow> Some ''%d 30min''
     | Some HOUR \<Rightarrow> Some ''%d h''
     | Some HOURS_12 \<Rightarrow> Some ''%d 12h''
     | Some HOURS_3 \<Rightarrow> Some ''%d 3h''
     | Some HOURS_6 \<Rightarrow> Some ''%d 6h''
     | Some MINUTE \<Rightarrow> Some ''%d min''
     | Some MONTH \<Rightarrow> Some ''%d M''
     | Some QUARTER_HOUR \<Rightarrow> Some ''%d 15min''
     | Some SECOND \<Rightarrow> Some ''%d s''
     | Some YEAR \<Rightarrow> Some ''%d Y''
     | Some INDIFFERENT \<Rightarrow> Some ''''
     | None \<Rightarrow> None)"

definition is_forecast :: "TimeForecast \<Rightarrow> bool" where
  "is_forecast t = (case time_range (tri_code t) of
       Some UNINIT_REF_TIME \<Rightarrow> (if P1_val t > 0 then True else False)
     | Some RANGE_REF_TIME \<Rightarrow> P2_val t > P1_val t
     | Some AVG_RANGE_M_P1_M_P2 \<Rightarrow> P2_val t > P1_val t
     | Some AVG_RANGE_M_P1_P_P2 \<Rightarrow> P2_val t > P1_val t
     | Some AVG_RANGE_REF_TIME \<Rightarrow> P2_val t > P1_val t
     | Some DIFF_RANGE_REF_TIME \<Rightarrow> P2_val t > P1_val t
     | Some ACCUM_RANGE_REF_TIME \<Rightarrow> P2_val t > P1_val t
     | Some ACCUM_N_FORECAST_FIRST_PERIOD_P1_INTERVAL_P2 \<Rightarrow> True
     | Some ACCUM_N_FORECAST_PERIOD_P1_REFS_P2 \<Rightarrow> True
     | Some AVG_N_FORECAST_PERIOD_P1_REFS_P2 \<Rightarrow> True
     | Some AVG_N_FORECAST_FIRST_PERIOD_P1_INTERVAL_P2 \<Rightarrow> True
     | Some AVG_N_FORECAST_FIRST_PERIOD_P1_INTERVAL_REDUCED_P2 \<Rightarrow> True
     | Some STD_DEV_N_FORECAST_PERIOD_P1_INTERVAL_P2 \<Rightarrow> True
     | Some STD_DEV_FIRST_PERIOD_P1_INTERVAL_P2 \<Rightarrow> True
     | Some TEMP_VAR_COVAR_N_REFS_AT_P2 \<Rightarrow> True
     | _ \<Rightarrow> False)"

definition is_analysis :: "TimeForecast \<Rightarrow> bool" where
  "is_analysis t = (case time_range (tri_code t) of
       Some UNINIT_REF_TIME \<Rightarrow> (if P1_val t = 0 then True else False)
     | Some INIT_REF_TIME \<Rightarrow> (if P1_val t = 0 then True else False)
     | Some AVG_N_FORECAST_PERIOD_P1_REFS_P2 \<Rightarrow> (if P1_val t = 0 then True else False)
     | Some ACCUM_N_FORECAST_PERIOD_P1_REFS_P2 \<Rightarrow> (if P1_val t = 0 then True else False)
     | _ \<Rightarrow> False)"

definition is_range :: "TimeForecast \<Rightarrow> bool" where
  "is_range t = (case time_range (tri_code t) of
       Some RANGE_REF_TIME \<Rightarrow> True
     | Some AVG_RANGE_M_P1_M_P2 \<Rightarrow> True
     | Some AVG_RANGE_M_P1_P_P2 \<Rightarrow> True
     | Some AVG_RANGE_REF_TIME \<Rightarrow> True
     | Some DIFF_RANGE_REF_TIME \<Rightarrow> True
     | Some ACCUM_RANGE_REF_TIME \<Rightarrow> True
     | _ \<Rightarrow> False)"

definition is_intervaled :: "TimeForecast \<Rightarrow> bool" where
  "is_intervaled t = (case time_range (tri_code t) of
       Some AVG_N_UNINIT_INTERVAL_P2 \<Rightarrow> True
     | Some ACCUM_N_UNINIT_INTERVAL_P2 \<Rightarrow> True
     | Some STD_DEV_FIRST_PERIOD_P1_INTERVAL_P2 \<Rightarrow> True
     | Some STD_DEV_N_FORECAST_PERIOD_P1_INTERVAL_P2 \<Rightarrow> True
     | Some AVG_N_FORECAST_FIRST_PERIOD_P1_INTERVAL_P2 \<Rightarrow> True
     | Some ACCUM_N_FORECAST_FIRST_PERIOD_P1_INTERVAL_P2 \<Rightarrow> True
     | Some AVG_N_FORECAST_FIRST_PERIOD_P1_INTERVAL_REDUCED_P2 \<Rightarrow> True
     | _ \<Rightarrow> False)"

definition octet_doubled :: "TimeForecast \<Rightarrow> bool" where
  "octet_doubled t \<longleftrightarrow> tri_code t = time_range_code P1_DOUBLE_OCTETS"

definition missed :: "TimeForecast \<Rightarrow> bool" where
  "missed t \<longleftrightarrow> tri_code t = time_range_code MISSING"

definition is_unique_value :: "TimeForecast \<Rightarrow> bool" where
  "is_unique_value t \<longleftrightarrow> tri_code t = time_range_code UNINIT_REF_TIME \<or>
     tri_code t = time_range_code INIT_REF_TIME \<or> tri_code t = time_range_code P1_DOUBLE_OCTETS"

text \<open>
  The hash folds the six members through \<^verbatim>\<open>boost::hash_combine\<close>, which is a parameter.
\<close>

definition hash_TimeForecast :: "(u64 \<Rightarrow> nat \<Rightarrow> u64) \<Rightarrow> TimeForecast \<Rightarrow> u64" where
  "hash_TimeForecast hash_combine t = fold (\<lambda>v h. hash_combine h v)
     [unat (N_avg t), unat (N_avg_acc_missed t), unat (P1_val t), unat (P2_val t),
      unat (tf_code t), unat (tri_code t)] 0"

section \<open>JSON\<close>

text \<open>
  The values of \<^verbatim>\<open>boost::json\<close> that the conversions use.  \<^verbatim>\<open>from_json<uint8_t>\<close> and its
  siblings belong to OsterLib and are parameters; \<^verbatim>\<open>to_json\<close> of an unsigned integer or of an
  enumeration is the number.  The kinds \<^verbatim>\<open>uint64\<close> and \<^verbatim>\<open>int64\<close> are apart, and an object keeps its
  members in the order of their insertion.
\<close>

datatype json =
    JNull
  | JBool bool
  | JNum nat
  | JInt int
  | JDouble rat
  | JStr string
  | JArr "json list"
  | JObj "(string \<times> json) list"

record json_lib =
  from_json_u8 :: "json \<Rightarrow> u8 option"
  from_json_u16 :: "json \<Rightarrow> u16 option"

definition json_ok :: "json_lib \<Rightarrow> bool" where
  "json_ok J \<longleftrightarrow> (\<forall>v. from_json_u8 J (JNum (unat v)) = Some v) \<and>
     (\<forall>v. from_json_u16 J (JNum (unat v)) = Some v)"

definition example_json :: json_lib where
  "example_json = \<lparr>from_json_u8 = (\<lambda>j. case j of JNum n \<Rightarrow> if n < 256 then Some (of_nat n) else None
       | _ \<Rightarrow> None),
     from_json_u16 = (\<lambda>j. case j of JNum n \<Rightarrow> if n < 65536 then Some (of_nat n) else None
       | _ \<Rightarrow> None)\<rparr>"

definition TimeForecast_to_json :: "TimeForecast \<Rightarrow> json" where
  "TimeForecast_to_json t =
     (let r = [(''time frame'', JNum (unat (tf_code t))),
               (''time range indicator'', JNum (unat (tri_code t)))];
          r = (if is_intervaled t
               then r @ [(''N avg/acc'', JNum (unat (N_avg t))),
                         (''N missed'', JNum (unat (N_avg_acc_missed t)))]
               else r)
      in JObj (if octet_doubled t \<and> is_unique_value t
               then r @ [(''P1'', JNum (unat (P1_val t)))]
               else r @ [(''P1'', JNum (unat (P1_val t))), (''P2'', JNum (unat (P2_val t)))]))"

text \<open>An error of the conversion is \<^term>\<open>None\<close>: every one is the same \<^verbatim>\<open>invalid json input\<close>.\<close>

definition read_N :: "json_lib \<Rightarrow> (string \<times> json) list \<Rightarrow> TimeForecast \<Rightarrow> TimeForecast option" where
  "read_N J obj fcst = (if is_intervaled fcst then
       (case (map_of obj ''N avg/acc'', map_of obj ''N missed'') of
          (Some jn, Some jm) \<Rightarrow> do {
            n \<leftarrow> from_json_u16 J jn;
            m \<leftarrow> from_json_u8 J jm;
            Some (fcst\<lparr>N_avg := n, N_avg_acc_missed := m\<rparr>)}
        | _ \<Rightarrow> Some fcst)
     else Some fcst)"

definition TimeForecast_from_json :: "json_lib \<Rightarrow> json \<Rightarrow> TimeForecast option" where
  "TimeForecast_from_json J v = (case v of
       JObj obj \<Rightarrow> do {
         jtf \<leftarrow> map_of obj ''time frame'';
         jtri \<leftarrow> map_of obj ''time range indicator'';
         tf \<leftarrow> from_json_u8 J jtf;
         tri \<leftarrow> from_json_u8 J jtri;
         fcst \<leftarrow> read_N J obj (make_TimeForecast tf tri 0 0);
         jp1 \<leftarrow> map_of obj ''P1'';
         p1 \<leftarrow> from_json_u8 J jp1;
         let fcst = fcst\<lparr>P1_val := p1\<rparr>;
         if \<not> octet_doubled fcst \<and> \<not> is_unique_value fcst
         then (case map_of obj ''P2'' of
             Some _ \<Rightarrow> do {
               p2 \<leftarrow> from_json_u8 J jp1;
               Some (fcst\<lparr>P2_val := p2\<rparr>)}
           | None \<Rightarrow> None)
         else Some fcst}
     | _ \<Rightarrow> None)"

text \<open>
  The members of a \<^verbatim>\<open>Level\<close>: the type has no initialiser, so it is \<^term>\<open>None\<close> until it is set.
  All three setters called by \<^verbatim>\<open>from_json<Level>\<close> are \<^verbatim>\<open>set_first_octet\<close>, and only the first
  call stands under the guard that the keys are present: the other two look their key up
  with \<^verbatim>\<open>at\<close>, which throws when it is missing (the outer \<^term>\<open>None\<close>; the template error is
  \<^term>\<open>Inl\<close>).
\<close>

record raw_Level =
  raw_octet_11 :: u8
  raw_octet_12 :: u8
  raw_level_type :: "u8 option"

definition set_first :: "u8 option \<Rightarrow> raw_Level \<Rightarrow> raw_Level" where
  "set_first v l = (case v of Some x \<Rightarrow> l\<lparr>raw_octet_11 := x\<rparr> | None \<Rightarrow> l)"

definition Level_from_json :: "json_lib \<Rightarrow> json \<Rightarrow> (string + raw_Level) option" where
  "Level_from_json J v = (case v of
       JObj obj \<Rightarrow> do {
         let l = \<lparr>raw_octet_11 = 0, raw_octet_12 = 0, raw_level_type = None\<rparr>;
         let l = (case (map_of obj ''11'', map_of obj ''12'', map_of obj ''tag'') of
                    (Some j, Some _, Some _) \<Rightarrow> set_first (from_json_u8 J j) l
                  | _ \<Rightarrow> l);
         j12 \<leftarrow> map_of obj ''12'';
         let l = set_first (from_json_u8 J j12) l;
         jtag \<leftarrow> map_of obj ''tag'';
         let l = set_first (from_json_u8 J jtag) l;
         Some (Inr l)}
     | _ \<Rightarrow> Some (Inl ''invalid JSON input''))"

text \<open>
  \<^verbatim>\<open>std::to_string\<close> and the unit symbols are parameters: \<open>show_value\<close> renders the value of a
  variant that is not empty.
\<close>

definition level_text :: "(level_value \<Rightarrow> string) \<Rightarrow> level_value \<Rightarrow> string" where
  "level_text show_value x = (case x of Monostate \<Rightarrow> ''0'' | _ \<Rightarrow> show_value x)"

definition Level_to_json :: "(level_value \<Rightarrow> string) \<Rightarrow> Level \<Rightarrow> (string + json) option" where
  "Level_to_json show_value l = do {
     let r = [(''11'', JNum (unat (octet_11 l))), (''12'', JNum (unat (octet_12 l))),
              (''tag'', JNum (unat (level_type l)))];
     b \<leftarrow> is_bounded l;
     if \<not> b then do {
       h \<leftarrow> get_level_height l;
       Some (case h of Inl e \<Rightarrow> Inl e
               | Inr x \<Rightarrow> Inr (JObj (r @ [(''height'', JStr (level_text show_value x))])))}
     else do {
       t \<leftarrow> get_top_bound l;
       d \<leftarrow> get_bottom_bound l;
       Some (case (t, d) of
           (Inl e, _) \<Rightarrow> Inl e
         | (Inr _, Inl e) \<Rightarrow> Inl e
         | (Inr x, Inr y) \<Rightarrow> Inr (JObj (r @ [(''top'', JStr (level_text show_value x)),
              (''bottom'', JStr (level_text show_value y))])))}}"

section \<open>Facts\<close>

lemma time_range_code_of [simp]: "time_range (time_range_code t) = Some t"
  by (simp add: time_range_def)

lemma json_ok_example [simp]: "json_ok example_json"
  by (simp add: json_ok_def example_json_def)

lemma json_okD:
  assumes "json_ok J"
  shows "from_json_u8 J (JNum (unat v)) = Some v" "from_json_u16 J (JNum (unat w)) = Some w"
  using assms by (simp_all add: json_ok_def)

text \<open>A byte that names no enumerator falls through every switch.\<close>

lemma time_range_cases:
  obtains (enumerator) t where "tri_code f = time_range_code t" "time_range (tri_code f) = Some t"
    | (other) "time_range (tri_code f) = None"
  by (metis time_range_def tri.enum_of_iff not_Some_eq)

text \<open>The predicates on an enumerator of table 5.\<close>

lemma classify_code:
  assumes "time_range (tri_code f) = Some t"
  shows "is_range f \<longleftrightarrow> t \<in> {RANGE_REF_TIME, AVG_RANGE_M_P1_M_P2, AVG_RANGE_M_P1_P_P2,
      AVG_RANGE_REF_TIME, DIFF_RANGE_REF_TIME, ACCUM_RANGE_REF_TIME}"
    "is_intervaled f \<longleftrightarrow> t \<in> {AVG_N_UNINIT_INTERVAL_P2, ACCUM_N_UNINIT_INTERVAL_P2,
      STD_DEV_FIRST_PERIOD_P1_INTERVAL_P2, STD_DEV_N_FORECAST_PERIOD_P1_INTERVAL_P2,
      AVG_N_FORECAST_FIRST_PERIOD_P1_INTERVAL_P2, ACCUM_N_FORECAST_FIRST_PERIOD_P1_INTERVAL_P2,
      AVG_N_FORECAST_FIRST_PERIOD_P1_INTERVAL_REDUCED_P2}"
    "is_unique_value f \<longleftrightarrow> t \<in> {UNINIT_REF_TIME, INIT_REF_TIME, P1_DOUBLE_OCTETS}"
    "octet_doubled f \<longleftrightarrow> t = P1_DOUBLE_OCTETS"
    "is_analysis f \<longleftrightarrow> P1_val f = 0 \<and> t \<in> {UNINIT_REF_TIME, INIT_REF_TIME,
      AVG_N_FORECAST_PERIOD_P1_REFS_P2, ACCUM_N_FORECAST_PERIOD_P1_REFS_P2}"
proof -
  have code: "tri_code f = time_range_code t"
    using assms by (simp add: time_range_def tri.enum_of_iff)
  show "is_range f \<longleftrightarrow> t \<in> {RANGE_REF_TIME, AVG_RANGE_M_P1_M_P2, AVG_RANGE_M_P1_P_P2,
      AVG_RANGE_REF_TIME, DIFF_RANGE_REF_TIME, ACCUM_RANGE_REF_TIME}"
    by (cases t) (simp_all add: is_range_def assms)
  show "is_intervaled f \<longleftrightarrow> t \<in> {AVG_N_UNINIT_INTERVAL_P2, ACCUM_N_UNINIT_INTERVAL_P2,
      STD_DEV_FIRST_PERIOD_P1_INTERVAL_P2, STD_DEV_N_FORECAST_PERIOD_P1_INTERVAL_P2,
      AVG_N_FORECAST_FIRST_PERIOD_P1_INTERVAL_P2, ACCUM_N_FORECAST_FIRST_PERIOD_P1_INTERVAL_P2,
      AVG_N_FORECAST_FIRST_PERIOD_P1_INTERVAL_REDUCED_P2}"
    by (cases t) (simp_all add: is_intervaled_def assms)
  show "is_unique_value f \<longleftrightarrow> t \<in> {UNINIT_REF_TIME, INIT_REF_TIME, P1_DOUBLE_OCTETS}"
    "octet_doubled f \<longleftrightarrow> t = P1_DOUBLE_OCTETS"
    by (simp_all only: is_unique_value_def octet_doubled_def code tri.code_eq_iff) auto
  show "is_analysis f \<longleftrightarrow> P1_val f = 0 \<and> t \<in> {UNINIT_REF_TIME, INIT_REF_TIME,
      AVG_N_FORECAST_PERIOD_P1_REFS_P2, ACCUM_N_FORECAST_PERIOD_P1_REFS_P2}"
    by (cases t) (simp_all add: is_analysis_def assms)
qed

lemma classify_other:
  assumes "time_range (tri_code f) = None"
  shows "\<not> is_range f" "\<not> is_intervaled f" "\<not> is_analysis f" "\<not> is_forecast f"
    "\<not> is_unique_value f" "\<not> octet_doubled f"
  using assms
  by (simp_all add: is_range_def is_intervaled_def is_analysis_def is_forecast_def)
    (metis is_unique_value_def octet_doubled_def time_range_code_of option.distinct(1))+

text \<open>The predicates that read only the indicator.\<close>

lemma classify_cong:
  assumes "tri_code a = tri_code b"
  shows "is_intervaled a = is_intervaled b" "is_unique_value a = is_unique_value b"
    "octet_doubled a = octet_doubled b"
  using assms by (simp_all add: is_intervaled_def is_unique_value_def octet_doubled_def)

lemma octet_doubled_unique: "octet_doubled t \<Longrightarrow> is_unique_value t"
  by (simp add: octet_doubled_def is_unique_value_def)

lemma unique_not_intervaled: "is_unique_value t \<Longrightarrow> \<not> is_intervaled t"
  by (cases t rule: time_range_cases) (auto simp: classify_code classify_other)

lemma read_N_to_json:
  assumes "json_ok J" "tri_code f = tri_code t"
    "is_intervaled t \<Longrightarrow> map_of obj ''N avg/acc'' = Some (JNum (unat (N_avg t))) \<and>
      map_of obj ''N missed'' = Some (JNum (unat (N_avg_acc_missed t)))"
  shows "read_N J obj f = Some (if is_intervaled t
     then f\<lparr>N_avg := N_avg t, N_avg_acc_missed := N_avg_acc_missed t\<rparr> else f)"
  using assms(3) json_okD [OF assms(1)] classify_cong(1) [OF assms(2)]
  by (simp add: read_N_def)

section \<open>Properties\<close>

text \<open>
  The classes of a forecast time.  A range is never intervaled, never an analysis and never a
  unique value; a unique value is never intervaled; and the two classes that should exclude each
  other, forecast and analysis, overlap exactly for the averages and accumulations of forecasts
  at intervals of P2 whose P1 is zero.
\<close>

theorem TimeForecast_classification:
  "\<not> (is_range t \<and> is_intervaled t) \<and> \<not> (is_range t \<and> is_analysis t) \<and>
   \<not> (is_unique_value t \<and> (is_range t \<or> is_intervaled t)) \<and>
   (is_forecast t \<and> is_analysis t \<longleftrightarrow>
      P1_val t = 0 \<and> time_range (tri_code t) \<in> {Some AVG_N_FORECAST_PERIOD_P1_REFS_P2,
        Some ACCUM_N_FORECAST_PERIOD_P1_REFS_P2})"
proof (cases "time_range (tri_code t)")
  case None
  then show ?thesis using classify_other [OF None] by simp
next
  case (Some r)
  have "is_forecast t \<and> is_analysis t \<longleftrightarrow> P1_val t = 0 \<and>
      r \<in> {AVG_N_FORECAST_PERIOD_P1_REFS_P2, ACCUM_N_FORECAST_PERIOD_P1_REFS_P2}"
    by (cases r) (simp_all add: is_forecast_def is_analysis_def Some)
  then show ?thesis using classify_code [OF Some] Some by auto
qed

text \<open>
  C25: reading back the JSON of a forecast time.  The reader takes P2 from the key of P1, and only
  when the indicator is not one of the unique values; the numbers averaged and missed come back
  only for intervaled indicators.  So the round trip is the identity exactly for the times that
  already satisfy these equations.
\<close>

theorem TimeForecast_json_roundtrip:
  assumes "json_ok J"
  shows "TimeForecast_from_json J (TimeForecast_to_json t) = Some (t\<lparr>
     P2_val := if is_unique_value t then 0 else P1_val t,
     N_avg := if is_intervaled t then N_avg t else - 1,
     N_avg_acc_missed := if is_intervaled t then N_avg_acc_missed t else 0\<rparr>)"
proof -
  let ?f = "make_TimeForecast (tf_code t) (tri_code t) 0 0"
  obtain obj where obj: "TimeForecast_to_json t = JObj obj"
    "map_of obj ''time frame'' = Some (JNum (unat (tf_code t)))"
    "map_of obj ''time range indicator'' = Some (JNum (unat (tri_code t)))"
    "map_of obj ''P1'' = Some (JNum (unat (P1_val t)))"
    "is_intervaled t \<Longrightarrow> map_of obj ''N avg/acc'' = Some (JNum (unat (N_avg t))) \<and>
      map_of obj ''N missed'' = Some (JNum (unat (N_avg_acc_missed t)))"
    "\<not> is_unique_value t \<Longrightarrow> map_of obj ''P2'' = Some (JNum (unat (P2_val t)))"
    using octet_doubled_unique [of t] by (auto simp: TimeForecast_to_json_def Let_def)
  have "read_N J obj ?f = Some (if is_intervaled t
     then ?f\<lparr>N_avg := N_avg t, N_avg_acc_missed := N_avg_acc_missed t\<rparr> else ?f)"
    by (rule read_N_to_json [OF assms]) (simp_all add: make_TimeForecast_def obj(5))
  moreover have "is_unique_value (?f\<lparr>N_avg := n, N_avg_acc_missed := m, P1_val := p\<rparr>) = is_unique_value t"
    "octet_doubled (?f\<lparr>N_avg := n, N_avg_acc_missed := m, P1_val := p\<rparr>) = octet_doubled t"
    "is_unique_value (?f\<lparr>P1_val := p\<rparr>) = is_unique_value t"
    "octet_doubled (?f\<lparr>P1_val := p\<rparr>) = octet_doubled t" for n m p
    by (rule classify_cong; simp add: make_TimeForecast_def)+
  ultimately show ?thesis
    using obj(1-4,6) json_okD [OF assms] octet_doubled_unique [of t]
    by (auto simp: TimeForecast_from_json_def Let_def) (auto simp: make_TimeForecast_def)
qed

theorem TimeForecast_json_roundtrip_witness:
  "TimeForecast_from_json example_json (TimeForecast_to_json (make_TimeForecast 1 3 6 12)) =
     Some (make_TimeForecast 1 3 6 6)"
  using TimeForecast_json_roundtrip [OF json_ok_example, of "make_TimeForecast 1 3 6 12"]
  by (simp add: make_TimeForecast_def is_unique_value_def is_intervaled_def time_range_def
      enum_of_def all_time_ranges_def)

text \<open>
  Reading back the JSON of a level never restores it: the octet 11 of the result is the type
  of the level, octet 12 is zero, and the type is left without a value.
\<close>

theorem Level_json_roundtrip:
  assumes "json_ok J" "Level_to_json show_value l = Some (Inr j)"
  shows "Level_from_json J j = Some (Inr \<lparr>raw_octet_11 = level_type l, raw_octet_12 = 0,
     raw_level_type = None\<rparr>)"
  using assms(2) json_okD [OF assms(1)]
  by (auto simp: Level_to_json_def Level_from_json_def set_first_def Let_def
      split: bind_splits if_splits sum.splits)

theorem Level_json_roundtrip_witness:
  "Level_from_json example_json (JObj [(''11'', JNum 3), (''12'', JNum 232), (''tag'', JNum 100),
     (''top'', JStr ''x''), (''bottom'', JStr ''0'')]) =
   Some (Inr \<lparr>raw_octet_11 = 100, raw_octet_12 = 0, raw_level_type = None\<rparr>)"
proof -
  have tag: "level_tag 100 = Some ISOBARIC_SURFACE"
    using level_tag_code [of ISOBARIC_SURFACE] by simp
  have bounded: "is_bounded (make_Level 100 3 232) = Some True"
    by (simp add: is_bounded_def make_Level_def table_at_def levels_11_octets_def)
  have "Level_to_json (\<lambda>_. ''x'') (make_Level 100 3 232) = Some (Inr (JObj
     [(''11'', JNum 3), (''12'', JNum 232), (''tag'', JNum 100), (''top'', JStr ''x''),
      (''bottom'', JStr ''0'')]))"
    by (simp add: Level_to_json_def bounded get_top_bound_def get_bottom_bound_def)
      (simp add: make_Level_def convert_level_11_def convert_level_12_def tag level_text_def)
  from Level_json_roundtrip [OF json_ok_example this] show ?thesis
    by (simp add: make_Level_def)
qed

end
