(* ===== verification/Sections.thy ===== *)
theory Sections
  imports Code_Tables
begin

text \<open>
  What the five sections of a GRIB edition 1 message share: fields read through the section's
  pointer, and the three-byte length in front of sections 1 to 4.  \<^verbatim>\<open>IndicatorSection\<close>
  (\<^verbatim>\<open>sections/section_0.cpp\<close>) is here; the other sections have theories of their own.
\<close>

section \<open>Field readers\<close>

text \<open>\<^verbatim>\<open>read_bytes<n,false>(&p[i])\<close> and \<^verbatim>\<open>read_bytes<n,true>(&p[i])\<close>.\<close>

definition read_u :: "osterlib \<Rightarrow> cptr \<Rightarrow> nat \<Rightarrow> nat \<Rightarrow> nat option" where
  "read_u L p i n = map_option (read_unsigned L) (bytes_at p i n)"

definition read_s :: "osterlib \<Rightarrow> cptr \<Rightarrow> nat \<Rightarrow> nat \<Rightarrow> int option" where
  "read_s L p i n = map_option (read_signed L) (bytes_at p i n)"

text \<open>
  The body that sections 1 to 4 repeat for their length: zero for the null pointer, otherwise the
  three-byte number, with the assertion that it agrees with \<^verbatim>\<open>UINT3\<close> of the bytes (a failing
  assertion is \<^term>\<open>None\<close>).
\<close>

definition checked_length :: "osterlib \<Rightarrow> cptr \<Rightarrow> nat option" where
  "checked_length L p = (if p = None then Some 0
     else do {
       res \<leftarrow> read_u L p 0 3;
       b0 \<leftarrow> byte_at p 0;
       b1 \<leftarrow> byte_at p 1;
       b2 \<leftarrow> byte_at p 2;
       if res = UINT3 L b0 b1 b2 then Some res else None})"

section \<open>The contract of a length-prefixed section\<close>

text \<open>A byte string that is one section: its first three bytes hold its length.\<close>

definition framed :: "buffer \<Rightarrow> bool" where
  "framed s \<longleftrightarrow> 3 \<le> length s \<and> be_nat (take 3 s) = length s"

locale length_prefixed =
  fixes section_len :: "osterlib \<Rightarrow> cptr \<Rightarrow> nat option"
  assumes len_null: "section_len L None = Some 0"
    and len_short: "length b < 3 \<Longrightarrow> section_len L (Some b) = None"
    and len_value: "lib_ok L \<Longrightarrow> 3 \<le> length b \<Longrightarrow> section_len L (Some b) = Some (be_nat (take 3 b))"
begin

lemma len_framed: "lib_ok L \<Longrightarrow> framed s \<Longrightarrow> section_len L (Some (s @ rest)) = Some (length s)"
  by (simp add: len_value framed_def)

lemma len_less: "lib_ok L \<Longrightarrow> section_len L p = Some n \<Longrightarrow> n < 2 ^ 24"
proof (cases p)
  case (Some b)
  assume "lib_ok L" "section_len L p = Some n"
  then have "3 \<le> length b" "n = be_nat (take 3 b)"
    using len_short [of b L] len_value [of L b] Some by (cases "length b < 3"; simp)+
  then show ?thesis using be_nat_less [of "take 3 b"] by simp
qed (simp add: len_null)

text \<open>Walking over a framed section reaches the byte after it.\<close>

lemma len_skip:
  assumes "lib_ok L" "framed s"
  shows "do { n \<leftarrow> section_len L (Some (s @ rest)); Some (ptr_add (Some (s @ rest)) n) } = Some (Some rest)"
  using assms by (simp add: len_framed ptr_add_def)

end

lemma checked_length_short: "length b < 3 \<Longrightarrow> checked_length L (Some b) = None"
  by (simp add: checked_length_def read_u_def buf_simps)

lemma checked_length_value:
  assumes "lib_ok L" "3 \<le> length b"
  shows "checked_length L (Some b) = Some (be_nat (take 3 b))"
proof -
  have "take 3 b = [b ! 0, b ! 1, b ! 2]" using assms(2) by (rule take_3)
  then show ?thesis
    using assms(2) lib_okD [OF assms(1)] by (auto simp: checked_length_def read_u_def buf_simps)
qed

section \<open>Section 0\<close>

definition grib_version :: "cptr \<Rightarrow> u8 option" where
  "grib_version p = byte_at p 7"

definition message_length :: "osterlib \<Rightarrow> cptr \<Rightarrow> nat option" where
  "message_length L p = read_u L p 4 3"

lemma read_u_Some:
  "lib_ok L \<Longrightarrow> read_u L (Some b) i n =
     (if i + n \<le> length b then Some (be_nat (take n (drop i b))) else None)"
  by (simp add: read_u_def buf_simps lib_okD)

lemma read_s_Some:
  "lib_ok L \<Longrightarrow> read_s L (Some b) i n =
     (if i + n \<le> length b then Some (sign_magnitude (take n (drop i b))) else None)"
  by (simp add: read_s_def buf_simps lib_okD)

lemma read_u_None [simp]: "read_u L None i n = None"
  by (simp add: read_u_def)

lemma read_s_None [simp]: "read_s L None i n = None"
  by (simp add: read_s_def)

text \<open>One byte read as an unsigned number is the byte.\<close>

lemma take_1_drop: "i < length b \<Longrightarrow> take (Suc 0) (drop i b) = [b ! i]"
  by (simp add: take_Suc_conv_app_nth)

lemma read_u_1:
  "lib_ok L \<Longrightarrow> read_u L (Some b) i 1 = (if i < length b then Some (unat (b ! i)) else None)"
  by (simp add: read_u_Some take_1_drop be_nat_Cons)

lemma take_2_drop: "Suc i < length b \<Longrightarrow> take 2 (drop i b) = [b ! i, b ! Suc i]"
  by (simp add: numeral_2_eq_2 Cons_nth_drop_Suc [symmetric])

end
