(* ===== verification/Calendar.thy ===== *)
theory Calendar
  imports Code_Tables "HOL-Library.Signed_Division"
begin

text \<open>
  Calendar arithmetic: \<^verbatim>\<open>leap\<close> and \<^verbatim>\<open>add_time\<close> of \<^verbatim>\<open>sections/section_1.cpp\<close>, with the table
  \<^verbatim>\<open>monthjday\<close> of \<^verbatim>\<open>sections/product/def.h\<close>, and the refinement of \<^verbatim>\<open>add_time\<close> to a count of
  hours.  A C \<^verbatim>\<open>int\<close> is an integer of 32 bits: a sum, difference, product or negation whose
  operands are not bounded by the guard just before it goes through \<^verbatim>\<open>c_int\<close>, and one that
  leaves the range is an overflow, undefined behaviour, \<open>None\<close>.  The arguments are \<^verbatim>\<open>int\<close>
  values; division and remainder truncate (\<^verbatim>\<open>sdiv\<close>, \<^verbatim>\<open>smod\<close>) and cannot overflow by the
  constants the code divides by.
\<close>

section \<open>The code\<close>

definition monthjday :: "int list" where
  "monthjday = [0, 31, 59, 90, 120, 151, 181, 212, 243, 273, 304, 334, 365]"

definition FEB29 :: int where
  "FEB29 = 31 + 29"

definition int_at :: "int list \<Rightarrow> int \<Rightarrow> int option" where
  "int_at xs i = (if 0 \<le> i \<and> i < int (length xs) then Some (xs ! nat i) else None)"

definition leap :: "int \<Rightarrow> int" where
  "leap year = (if year smod 4 \<noteq> 0 then 0
     else if year smod 100 \<noteq> 0 then 1
     else if year smod 400 = 0 then 1 else 0)"

text \<open>The four variables that \<^verbatim>\<open>add_time\<close> reads and writes through its pointers.\<close>

record calendar_time =
  ct_year :: int
  ct_month :: int
  ct_day :: int
  ct_hour :: int

text \<open>
  The three loops of the day arithmetic.  In the first \<^verbatim>\<open>dtime\<close> is at most 0 before a year is
  added to it, in the second more than 365 before a year is taken from it, so only the year can
  overflow.
\<close>

function years_down :: "int \<Rightarrow> int \<Rightarrow> (int \<times> int) option" where
  "years_down y dtime =
     (if dtime < 1 then do {
        y \<leftarrow> c_int (y - 1);
        years_down y (dtime + (365 + leap y))}
      else Some (y, dtime))"
  by auto
termination
  by (relation "measure (\<lambda>(y, dtime). nat (1 - dtime))") (auto simp: leap_def c_int_Some)

function years_up :: "int \<Rightarrow> int \<Rightarrow> (int \<times> int) option" where
  "years_up y dtime =
     (if dtime > 365 + leap y then do {
        let dtime = dtime - (365 + leap y);
        y \<leftarrow> c_int (y + 1);
        years_up y dtime}
      else Some (y, dtime))"
  by auto
termination
  by (relation "measure (\<lambda>(y, dtime). nat dtime)") (auto simp: leap_def c_int_Some split: if_splits)

declare years_down.simps [simp del] years_up.simps [simp del]

text \<open>
  \<^verbatim>\<open>for (i = 11; monthjday[i] >= dtime; --i);\<close> reads before the table when it passes index 0.
\<close>

primrec find_month :: "nat \<Rightarrow> int \<Rightarrow> nat option" where
  "find_month 0 dtime = (if monthjday ! 0 \<ge> dtime then None else Some 0)"
| "find_month (Suc i) dtime =
     (if monthjday ! Suc i \<ge> dtime then find_month i dtime else Some (Suc i))"

definition add_days :: "calendar_time \<Rightarrow> int \<Rightarrow> calendar_time option" where
  "add_days t dtime = do {
     let y = ct_year t;
     let m = ct_month t;
     let d = ct_day t;
     k \<leftarrow> c_int (m - 1);
     j \<leftarrow> int_at monthjday k;
     jday \<leftarrow> c_int (d + j);
     jday \<leftarrow> (if leap y \<noteq> 0 \<and> m > 2 then c_int (jday + 1) else Some jday);
     dtime \<leftarrow> c_int (dtime + jday);
     (y, dtime) \<leftarrow> years_down y dtime;
     (y, dtime) \<leftarrow> years_up y dtime;
     (m, d) \<leftarrow> (if leap y \<noteq> 0 \<and> dtime = FEB29 then Some (2, 29)
       else do {
         let dtime = (if leap y \<noteq> 0 \<and> dtime > FEB29 then dtime - 1 else dtime);
         i \<leftarrow> find_month 11 dtime;
         Some (int i + 1, dtime - monthjday ! i)});
     Some (t\<lparr>ct_year := y, ct_month := m, ct_day := d\<rparr>)}"

definition add_months :: "calendar_time \<Rightarrow> int \<Rightarrow> calendar_time option" where
  "add_months t dtime = do {
     let y = ct_year t;
     let m = ct_month t;
     let d = ct_day t;
     (y, dtime) \<leftarrow> (if dtime < 0
       then do {
         opp \<leftarrow> c_int (- dtime);
         let i = opp sdiv 12 + 1;
         y \<leftarrow> c_int (y - i);
         p \<leftarrow> c_int (i * 12);
         Some (y, dtime + p)}
       else Some (y, dtime));
     k \<leftarrow> c_int (m - 1);
     dtime \<leftarrow> c_int (dtime + k);
     y \<leftarrow> c_int (y + dtime sdiv 12);
     let m = 1 + dtime smod 12;
     a \<leftarrow> int_at monthjday m;
     b \<leftarrow> int_at monthjday (m - 1);
     let days_in_month = a - b;
     let days_in_month = (if m = 2 \<and> leap y \<noteq> 0 then days_in_month + 1 else days_in_month);
     Some (t\<lparr>ct_year := y, ct_month := m,
             ct_day := (if days_in_month < d then days_in_month else d)\<rparr>)}"

definition unit_is :: "int \<Rightarrow> TimeFrame \<Rightarrow> bool" where
  "unit_is unit f \<longleftrightarrow> unit = int (unat (time_frame_code f))"

definition unit_value :: "TimeFrame \<Rightarrow> int" where
  "unit_value f = int (unat (time_frame_code f))"

definition add_hours :: "calendar_time \<Rightarrow> int \<Rightarrow> calendar_time option" where
  "add_hours t dtime = do {
     dtime \<leftarrow> c_int (dtime + ct_hour t);
     let hour = dtime smod 24;
     let dtime = dtime sdiv 24;
     let (hour, dtime) = (if hour < 0 then (hour + 24, dtime - 1) else (hour, dtime));
     add_days (t\<lparr>ct_hour := hour\<rparr>) dtime}"

text \<open>The four units of whole years: \<^verbatim>\<open>*year = y + (n * dtime)\<close>.\<close>

definition add_years :: "calendar_time \<Rightarrow> int \<Rightarrow> int \<Rightarrow> calendar_time option" where
  "add_years t n dtime = do {
     p \<leftarrow> c_int (n * dtime);
     y \<leftarrow> c_int (ct_year t + p);
     Some (t\<lparr>ct_year := y\<rparr>)}"

text \<open>
  The result is the return value of the function and the four variables.  The C code walks
  through its guards with a mutable unit; the chain of rewritten units is kept.
\<close>

definition add_time :: "calendar_time \<Rightarrow> int \<Rightarrow> int \<Rightarrow> (int \<times> calendar_time) option" where
  "add_time t dtime unit =
     (if unit_is unit YEAR then do { t \<leftarrow> add_years t 1 dtime; Some (0, t) }
      else if unit_is unit DECADE then do { t \<leftarrow> add_years t 10 dtime; Some (0, t) }
      else if unit_is unit CENTURY then do { t \<leftarrow> add_years t 100 dtime; Some (0, t) }
      else if unit_is unit NORMAL then do { t \<leftarrow> add_years t 30 dtime; Some (0, t) }
      else if unit_is unit MONTH then do { t \<leftarrow> add_months t dtime; Some (0, t) }
      else do {
        let (unit, dtime) = (if unit_is unit SECOND then (unit_value MINUTE, dtime sdiv 60)
                             else (unit, dtime));
        let (unit, dtime) = (if unit_is unit MINUTE then (unit_value HOUR, dtime sdiv 60)
                             else (unit, dtime));
        (unit, dtime) \<leftarrow> (if unit_is unit HOURS_3
                           then do { dtime \<leftarrow> c_int (dtime * 3); Some (unit_value HOUR, dtime) }
                         else if unit_is unit HOURS_6
                           then do { dtime \<leftarrow> c_int (dtime * 6); Some (unit_value HOUR, dtime) }
                         else if unit_is unit HOURS_12
                           then do { dtime \<leftarrow> c_int (dtime * 12); Some (unit_value HOUR, dtime) }
                         else Some (unit, dtime));
        if unit_is unit HOUR then do { t \<leftarrow> add_hours t dtime; Some (0, t) }
        else if unit_is unit DAY then do { t \<leftarrow> add_days t dtime; Some (0, t) }
        else Some (1, t)})"

section \<open>The specification: counting days and hours\<close>

definition month_length :: "int \<Rightarrow> int \<Rightarrow> int" where
  "month_length y m = (if m = 2 then 28 + leap y
     else if m = 4 \<or> m = 6 \<or> m = 9 \<or> m = 11 then 30 else 31)"

definition valid_time :: "calendar_time \<Rightarrow> bool" where
  "valid_time t \<longleftrightarrow> 1 \<le> ct_month t \<and> ct_month t \<le> 12 \<and> 1 \<le> ct_day t \<and>
     ct_day t \<le> month_length (ct_year t) (ct_month t) \<and> 0 \<le> ct_hour t \<and> ct_hour t < 24"

text \<open>Days before the first of January of a year, in the proleptic Gregorian calendar.\<close>

definition year_start :: "int \<Rightarrow> int" where
  "year_start y = 365 * y + (y - 1) div 4 - (y - 1) div 100 + (y - 1) div 400"

text \<open>Days of a year before a month, by adding up month lengths.\<close>

fun month_start :: "int \<Rightarrow> nat \<Rightarrow> int" where
  "month_start y 0 = 0"
| "month_start y (Suc n) = month_start y n + month_length y (int n + 1)"

definition day_number :: "int \<Rightarrow> int \<Rightarrow> int \<Rightarrow> int" where
  "day_number y m d = year_start y + month_start y (nat (m - 1)) + d"

definition hour_number :: "calendar_time \<Rightarrow> int" where
  "hour_number t = 24 * day_number (ct_year t) (ct_month t) (ct_day t) + ct_hour t"

section \<open>Facts about the calendar\<close>

lemma smod_zero_iff: "0 < n \<Longrightarrow> y smod n = 0 \<longleftrightarrow> y mod n = (0 :: int)"
  by (auto simp: signed_modulo_int_def signed_divide_int_def sgn_if dvd_eq_mod_eq_0 [symmetric]
      split: if_splits)

lemma leap_mod: "leap y = (if y mod 4 = 0 \<and> (y mod 100 \<noteq> 0 \<or> y mod 400 = 0) then 1 else 0)"
  by (simp add: leap_def smod_zero_iff)

lemma leap_01: "leap y = 0 \<or> leap y = 1"
  by (simp add: leap_def)

lemma leap_bounds: "0 \<le> leap y" "leap y \<le> 1"
  by (simp_all add: leap_def)

lemma div_pred:
  fixes y n :: int
  assumes "0 < n"
  shows "y div n = (y - 1) div n + (if y mod n = 0 then 1 else 0)"
proof (cases "y mod n = 0")
  case True
  then have "y - 1 = n * (y div n - 1) + (n - 1)"
    using mult_div_mod_eq [of n y] by (simp add: algebra_simps)
  from int_div_pos_eq [OF this] have "(y - 1) div n = y div n - 1"
    using assms by simp
  then show ?thesis using True by simp
next
  case False
  then have r: "0 \<le> y mod n - 1" "y mod n - 1 < n"
    using assms pos_mod_bound [of n y] pos_mod_sign [of n y] by linarith+
  have "y - 1 = n * (y div n) + (y mod n - 1)"
    using mult_div_mod_eq [of n y] by simp
  from int_div_pos_eq [OF this r] have "(y - 1) div n = y div n" .
  then show ?thesis using False by simp
qed

lemma year_start_Suc: "year_start (y + 1) = year_start y + 365 + leap y"
proof -
  have i1: "y mod 400 = 0 \<Longrightarrow> y mod 100 = 0" and i2: "y mod 100 = 0 \<Longrightarrow> y mod 4 = 0"
    using dvd_trans [of 100 400 y] dvd_trans [of 4 100 y] by (simp_all add: dvd_eq_mod_eq_0 [symmetric])
  have y: "y + 1 - 1 = y" by simp
  have d: "y div 4 = (y - 1) div 4 + (if y mod 4 = 0 then 1 else 0)"
    "y div 100 = (y - 1) div 100 + (if y mod 100 = 0 then 1 else 0)"
    "y div 400 = (y - 1) div 400 + (if y mod 400 = 0 then 1 else 0)"
    by (rule div_pred; simp)+
  have count: "365 * (y + 1) + (a + (if p then 1 else 0)) - (b + (if q then 1 else 0))
      + (c + (if r then 1 else 0))
    = 365 * y + a - b + c + 365 + (if p \<and> (\<not> q \<or> r) then 1 else 0)"
    if "r \<Longrightarrow> q" "q \<Longrightarrow> p" for a b c :: int and p q r
    using that by auto
  show ?thesis
    unfolding year_start_def leap_mod y d by (rule count [OF i1 i2])
qed

text \<open>
  The loops return when the year they reach is in range: every round moves the year by one and
  \<^verbatim>\<open>dtime\<close> by at least 365.
\<close>

lemma years_down_correct:
  assumes "1 - d \<le> 365 * (y + 2147483648)" "- 2147483648 \<le> y" "y \<le> 2147483647"
  obtains y' d' where "years_down y d = Some (y', d')" "year_start y' + d' = year_start y + d"
    "1 \<le> d'" "d' \<le> max d 366" "y' \<le> y" "- 2147483648 \<le> y'"
proof -
  have "\<exists>y' d'. years_down y d = Some (y', d') \<and> year_start y' + d' = year_start y + d \<and>
    1 \<le> d' \<and> d' \<le> max d 366 \<and> y' \<le> y \<and> - 2147483648 \<le> y'"
    using assms
  proof (induction y d rule: years_down.induct)
    case (1 y d)
    show ?case
    proof (cases "d < 1")
      case True
      then have y: "c_int (y - 1) = Some (y - 1)" using "1.prems" by simp
      have lb: "0 \<le> leap (y - 1)" "leap (y - 1) \<le> 1" by (rule leap_bounds)+
      have "\<exists>y' d'. years_down (y - 1) (d + (365 + leap (y - 1))) = Some (y', d') \<and>
        year_start y' + d' = year_start (y - 1) + (d + (365 + leap (y - 1))) \<and>
        1 \<le> d' \<and> d' \<le> max (d + (365 + leap (y - 1))) 366 \<and> y' \<le> y - 1 \<and> - 2147483648 \<le> y'"
      proof (rule "1.IH" [OF True y])
        show "1 - (d + (365 + leap (y - 1))) \<le> 365 * (y - 1 + 2147483648)"
          using "1.prems"(1) lb(1) by (simp add: algebra_simps)
        show "- 2147483648 \<le> y - 1" using y by (simp add: c_int_Some)
      qed (use "1.prems" in simp_all)
      then show ?thesis
        using True y lb year_start_Suc [of "y - 1"]
        by (auto simp: years_down.simps [of y d] max_def split: if_splits)
    next
      case False
      then show ?thesis using "1.prems" by (simp add: years_down.simps [of y d])
    qed
  qed
  then show ?thesis using that by blast
qed

lemma years_up_correct:
  assumes "d - 365 \<le> 365 * (2147483647 - y)" "- 2147483648 \<le> y" "1 \<le> d"
  obtains y' d' where "years_up y d = Some (y', d')" "year_start y' + d' = year_start y + d"
    "1 \<le> d'" "d' \<le> 365 + leap y'"
proof -
  have "\<exists>y' d'. years_up y d = Some (y', d') \<and> year_start y' + d' = year_start y + d \<and>
    1 \<le> d' \<and> d' \<le> 365 + leap y'"
    using assms
  proof (induction y d rule: years_up.induct)
    case (1 y d)
    have lb: "0 \<le> leap y" "leap y \<le> 1" by (rule leap_bounds)+
    show ?case
    proof (cases "d > 365 + leap y")
      case True
      then have y: "c_int (y + 1) = Some (y + 1)" using "1.prems" lb by simp
      have "\<exists>y' d'. years_up (y + 1) (d - (365 + leap y)) = Some (y', d') \<and>
        year_start y' + d' = year_start (y + 1) + (d - (365 + leap y)) \<and>
        1 \<le> d' \<and> d' \<le> 365 + leap y'"
      proof (rule "1.IH" [OF True refl y])
        show "d - (365 + leap y) - 365 \<le> 365 * (2147483647 - (y + 1))"
          using "1.prems"(1) lb(1) by (simp add: algebra_simps)
      qed (use "1.prems" True in simp_all)
      then show ?thesis
        using True y year_start_Suc [of y] by (auto simp: years_up.simps [of y d] Let_def)
    next
      case False
      then show ?thesis using "1.prems" by (simp add: years_up.simps [of y d])
    qed
  qed
  then show ?thesis using that by blast
qed

lemma find_month_bounds:
  assumes "monthjday ! 0 < d"
  shows "\<exists>i. find_month n d = Some i \<and> i \<le> n \<and> monthjday ! i < d \<and> (i < n \<longrightarrow> d \<le> monthjday ! Suc i)"
proof (induction n)
  case 0
  then show ?case using assms by simp
next
  case (Suc n)
  then obtain i where i: "find_month n d = Some i" "i \<le> n" "monthjday ! i < d"
    "i < n \<longrightarrow> d \<le> monthjday ! Suc i" by blast
  show ?case
  proof (cases "monthjday ! Suc n \<ge> d")
    case True
    then have "d \<le> monthjday ! Suc i" using i(2,4) by (cases "i = n") auto
    then show ?thesis using True i by auto
  next
    case False
    then show ?thesis by auto
  qed
qed

lemma find_month_correct:
  assumes "1 \<le> d" "d \<le> 365"
  obtains i where "find_month 11 d = Some i" "i \<le> 11" "monthjday ! i < d" "d \<le> monthjday ! Suc i"
proof -
  have "monthjday ! 0 < d" using assms by (simp add: monthjday_def)
  from find_month_bounds [OF this, of 11] obtain i where i: "find_month 11 d = Some i" "i \<le> 11"
    "monthjday ! i < d" "i < 11 \<longrightarrow> d \<le> monthjday ! Suc i" by blast
  moreover have "d \<le> monthjday ! Suc i" if "i = 11"
    using that assms by (simp add: monthjday_def)
  ultimately show ?thesis using that by (cases "i = 11") auto
qed

lemma nat_le_cases11: "i \<le> 11 \<Longrightarrow>
  i = 0 \<or> i = 1 \<or> i = 2 \<or> i = 3 \<or> i = 4 \<or> i = 5 \<or> i = 6 \<or> i = 7 \<or> i = 8 \<or> i = 9 \<or> i = 10 \<or> i = (11 :: nat)"
  by presburger

lemma month_start_table:
  "i \<le> 11 \<Longrightarrow> month_start y i = monthjday ! i + (if 2 \<le> i then leap y else 0)"
  by (drule nat_le_cases11)
    (elim disjE; simp add: monthjday_def month_length_def eval_nat_numeral)

lemma month_length_table:
  "i \<le> 11 \<Longrightarrow> month_length y (int i + 1) =
     monthjday ! Suc i - monthjday ! i + (if i = 1 then leap y else 0)"
  by (drule nat_le_cases11) (elim disjE; simp add: monthjday_def month_length_def)

lemma month_length_pos: "28 \<le> month_length y m" "month_length y m \<le> 31"
  using leap_01 [of y] by (auto simp: month_length_def)

section \<open>Day arithmetic\<close>

text \<open>The last step of \<^verbatim>\<open>add_days\<close>: a day of the year becomes a month and a day.\<close>

definition month_and_day :: "int \<Rightarrow> int \<Rightarrow> (int \<times> int) option" where
  "month_and_day y dtime = (if leap y \<noteq> 0 \<and> dtime = FEB29 then Some (2, 29)
     else do {
       let dtime = (if leap y \<noteq> 0 \<and> dtime > FEB29 then dtime - 1 else dtime);
       i \<leftarrow> find_month 11 dtime;
       Some (int i + 1, dtime - monthjday ! i)})"

lemma month_and_day_correct:
  assumes "1 \<le> n" "n \<le> 365 + leap y"
  obtains m d where "month_and_day y n = Some (m, d)" "1 \<le> m" "m \<le> 12" "1 \<le> d"
    "d \<le> month_length y m" "month_start y (nat (m - 1)) + d = n"
proof (cases "leap y \<noteq> 0 \<and> n = FEB29")
  case True
  show ?thesis
  proof (rule that)
    show "month_and_day y n = Some (2, 29)" using True by (simp add: month_and_day_def)
    show "29 \<le> month_length y 2" using True leap_01 [of y] by (simp add: month_length_def)
    show "month_start y (nat (2 - 1)) + 29 = n"
      using True month_start_table [of 1 y] by (simp add: monthjday_def FEB29_def)
  qed simp_all
next
  case False
  define k where "k = (if leap y \<noteq> 0 \<and> n > FEB29 then n - 1 else n)"
  have k: "1 \<le> k" "k \<le> 365" using assms leap_01 [of y] by (auto simp: k_def FEB29_def)
  from find_month_correct [OF k] obtain i where i: "find_month 11 k = Some i" "i \<le> 11"
    "monthjday ! i < k" "k \<le> monthjday ! Suc i" .
  have lo: "k \<le> 59 \<longleftrightarrow> i \<le> 1"
    using i(3,4) nat_le_cases11 [OF i(2)] by (elim disjE) (simp_all add: monthjday_def)
  have shift: "n = k + (if 2 \<le> i then leap y else 0) \<or> (leap y = 1 \<and> k = 60 \<and> n = 60)"
    using lo leap_01 [of y] False by (auto simp: k_def FEB29_def split: if_splits)
  then have shift: "n = k + (if 2 \<le> i then leap y else 0)" using False by (auto simp: FEB29_def)
  show ?thesis
  proof (rule that)
    show "month_and_day y n = Some (int i + 1, k - monthjday ! i)"
      using False i(1) by (auto simp: month_and_day_def k_def Let_def)
    show "k - monthjday ! i \<le> month_length y (int i + 1)"
      using month_length_table [OF i(2), of y] i(4) leap_01 [of y] by auto
    show "month_start y (nat (int i + 1 - 1)) + (k - monthjday ! i) = n"
      using month_start_table [OF i(2), of y] shift by simp
  qed (use i in simp_all)
qed

lemma add_days_unfold:
  "add_days t n = do {
     k \<leftarrow> c_int (ct_month t - 1);
     j \<leftarrow> int_at monthjday k;
     jday \<leftarrow> c_int (ct_day t + j);
     jday \<leftarrow> (if leap (ct_year t) \<noteq> 0 \<and> ct_month t > 2 then c_int (jday + 1) else Some jday);
     dtime \<leftarrow> c_int (n + jday);
     (y, k) \<leftarrow> years_down (ct_year t) dtime;
     (y, k) \<leftarrow> years_up y k;
     (m, d) \<leftarrow> month_and_day y k;
     Some (t\<lparr>ct_year := y, ct_month := m, ct_day := d\<rparr>)}"
  by (simp add: add_days_def month_and_day_def Let_def)

text \<open>Years and counters for which no operation of the day arithmetic overflows.\<close>

definition day_range :: "calendar_time \<Rightarrow> int \<Rightarrow> bool" where
  "day_range t n \<longleftrightarrow> \<bar>ct_year t\<bar> \<le> 1000000000 \<and> \<bar>n\<bar> \<le> 2000000000 \<and>
     1 \<le> ct_month t \<and> ct_month t \<le> 12 \<and> 1 \<le> ct_day t \<and> ct_day t \<le> 31"

lemma monthjday_bounds: "i \<le> 12 \<Longrightarrow> 0 \<le> monthjday ! i \<and> monthjday ! i \<le> 365"
  by (drule le_imp_less_Suc) (auto simp: monthjday_def less_Suc_eq eval_nat_numeral)

lemma add_days_correct:
  assumes "day_range t n"
  obtains t' where "add_days t n = Some t'" "1 \<le> ct_month t'" "ct_month t' \<le> 12"
    "1 \<le> ct_day t'" "ct_day t' \<le> month_length (ct_year t') (ct_month t')"
    "ct_hour t' = ct_hour t"
    "day_number (ct_year t') (ct_month t') (ct_day t') =
       day_number (ct_year t) (ct_month t) (ct_day t) + n"
proof -
  note r = assms [unfolded day_range_def abs_le_iff]
  let ?i = "nat (ct_month t - 1)"
  let ?j = "monthjday ! ?i"
  have len: "length monthjday = 13" by (simp add: monthjday_def)
  have at: "int_at monthjday (ct_month t - 1) = Some ?j"
    using r by (simp add: int_at_def len)
  have j: "0 \<le> ?j" "?j \<le> 365" using monthjday_bounds [of ?i] r by auto
  define k where "k = n + (if leap (ct_year t) \<noteq> 0 \<and> ct_month t > 2
    then ct_day t + ?j + 1 else ct_day t + ?j)"
  have k: "k = n + ct_day t + month_start (ct_year t) ?i"
    using r month_start_table [of ?i "ct_year t"] leap_01 [of "ct_year t"]
    by (auto simp: k_def)
  have kb: "- 2000000000 \<le> k" "k \<le> 2000000400" using r j by (auto simp: k_def)
  obtain y1 k1 where 1: "years_down (ct_year t) k = Some (y1, k1)"
    "year_start y1 + k1 = year_start (ct_year t) + k" "1 \<le> k1" "k1 \<le> max k 366" "y1 \<le> ct_year t"
    "- 2147483648 \<le> y1"
    by (rule years_down_correct [of k "ct_year t"]) (use r kb in auto)
  obtain y2 k2 where 2: "years_up y1 k1 = Some (y2, k2)"
    "year_start y2 + k2 = year_start y1 + k1" "1 \<le> k2" "k2 \<le> 365 + leap y2"
    by (rule years_up_correct [of k1 y1]) (use r kb 1(3-6) in auto)
  from month_and_day_correct [OF 2(3,4)] obtain m d where md: "month_and_day y2 k2 = Some (m, d)"
    "1 \<le> m" "m \<le> 12" "1 \<le> d" "d \<le> month_length y2 m" "month_start y2 (nat (m - 1)) + d = k2" .
  have c: "c_int (ct_month t - 1) = Some (ct_month t - 1)"
    "c_int (ct_day t + ?j) = Some (ct_day t + ?j)"
    "c_int (ct_day t + ?j + 1) = Some (ct_day t + ?j + 1)" "c_int k = Some k"
    using r j kb by simp_all
  show ?thesis
  proof (rule that)
    show "add_days t n = Some (t\<lparr>ct_year := y2, ct_month := m, ct_day := d\<rparr>)"
    proof (cases "leap (ct_year t) \<noteq> 0 \<and> ct_month t > 2")
      case True
      then have k': "n + (ct_day t + ?j + 1) = k" by (simp add: k_def)
      show ?thesis using True by (simp only: add_days_unfold c at k' 1(1) 2(1) md(1) if_P bind.simps
            prod.case simp_thms)
    next
      case False
      then have k': "n + (ct_day t + ?j) = k" by (simp add: k_def)
      show ?thesis using False by (simp only: add_days_unfold c at k' 1(1) 2(1) md(1) if_not_P
            bind.simps prod.case simp_thms)
    qed
  qed (use md 1 2 k in \<open>simp_all add: day_number_def\<close>)
qed

section \<open>Hour arithmetic\<close>

lemma sdiv_smod_24:
  fixes n :: int
  shows "24 * (n sdiv 24) + n smod 24 = n" "- 24 < n smod 24" "n smod 24 < 24"
proof -
  show "24 * (n sdiv 24) + n smod 24 = n" by (rule mult_sdiv_smod_eq)
  show "- 24 < n smod 24" using smod_int_compares(3) [of n 24] smod_int_compares(2) [of n 24]
    by (cases "0 \<le> n") simp_all
  show "n smod 24 < 24" using smod_int_compares(1) [of n 24] smod_int_compares(4) [of n 24]
    by (cases "0 \<le> n") simp_all
qed

lemma add_hours_correct:
  assumes "valid_time t" "\<bar>ct_year t\<bar> \<le> 1000000000" "\<bar>n\<bar> \<le> 2000000000"
  obtains t' where "add_hours t n = Some t'" "valid_time t'" "hour_number t' = hour_number t + n"
proof -
  have v: "1 \<le> ct_month t" "ct_month t \<le> 12" "1 \<le> ct_day t" "ct_day t \<le> 31" "0 \<le> ct_hour t"
    "ct_hour t < 24"
    using assms(1) month_length_pos(2) [of "ct_year t" "ct_month t"] by (simp_all add: valid_time_def)
  define h where "h = (if (n + ct_hour t) smod 24 < 0 then (n + ct_hour t) smod 24 + 24
    else (n + ct_hour t) smod 24)"
  define q where "q = (if (n + ct_hour t) smod 24 < 0 then (n + ct_hour t) sdiv 24 - 1
    else (n + ct_hour t) sdiv 24)"
  have hq: "24 * q + h = n + ct_hour t" "0 \<le> h" "h < 24"
    using sdiv_smod_24 [of "n + ct_hour t"] by (auto simp: h_def q_def)
  have c: "c_int (n + ct_hour t) = Some (n + ct_hour t)"
    using assms(3) v by (simp add: abs_le_iff)
  have eq: "add_hours t n = add_days (t\<lparr>ct_hour := h\<rparr>) q"
    unfolding add_hours_def c by (simp add: Let_def h_def q_def)
  have q: "day_range (t\<lparr>ct_hour := h\<rparr>) q"
    using hq assms(2,3) v by (simp add: day_range_def abs_le_iff)
  obtain t' where t': "add_days (t\<lparr>ct_hour := h\<rparr>) q = Some t'" "1 \<le> ct_month t'" "ct_month t' \<le> 12"
    "1 \<le> ct_day t'" "ct_day t' \<le> month_length (ct_year t') (ct_month t')" "ct_hour t' = h"
    "day_number (ct_year t') (ct_month t') (ct_day t') =
       day_number (ct_year t) (ct_month t) (ct_day t) + q"
    using add_days_correct [OF q] by auto
  show ?thesis
  proof (rule that)
    show "add_hours t n = Some t'" by (simp add: eq t'(1))
    show "valid_time t'" using t' hq by (simp add: valid_time_def)
    show "hour_number t' = hour_number t + n"
      using t'(6,7) hq(1) by (simp add: hour_number_def)
  qed
qed

text \<open>How many hours one step of a unit is, for the units that count hours or days.\<close>

fun unit_hours :: "TimeFrame \<Rightarrow> int option" where
  "unit_hours HOUR = Some 1"
| "unit_hours DAY = Some 24"
| "unit_hours HOURS_3 = Some 3"
| "unit_hours HOURS_6 = Some 6"
| "unit_hours HOURS_12 = Some 12"
| "unit_hours _ = None"

lemma unit_is_value [simp]: "unit_is (unit_value f) g \<longleftrightarrow> f = g"
  by (simp add: unit_is_def unit_value_def tf.code_eq_iff flip: word_uint_eq_iff)

lemma add_time_hours:
  assumes "unit_hours u = Some k" "u \<noteq> DAY" "\<bar>k * n\<bar> \<le> 2000000000"
  shows "add_time t n (unit_value u) = do { t \<leftarrow> add_hours t (n * k); Some (0, t) }"
  using assms by (cases u) (simp_all add: add_time_def abs_le_iff)

lemma add_time_overflow:
  assumes "valid_time t" "unit_hours u = Some k" "u \<noteq> DAY"
    "k * n + ct_hour t < - 2147483648 \<or> 2147483647 < k * n + ct_hour t"
  shows "add_time t n (unit_value u) = None"
proof -
  have h: "0 \<le> ct_hour t" using assms(1) by (simp add: valid_time_def)
  have o: "add_hours t i = None"
    if "i + ct_hour t < - 2147483648 \<or> 2147483647 < i + ct_hour t" for i
    using that by (simp add: add_hours_def c_int_out)
  show ?thesis
    using assms(2-4) h o by (cases u) (auto simp: add_time_def c_int_def mult.commute)
qed

lemma add_time_days:
  "add_time t n (unit_value DAY) = do { t \<leftarrow> add_days t n; Some (0, t) }"
  by (simp add: add_time_def)

lemma add_time_hour_number:
  assumes "valid_time t" "unit_hours u = Some k"
    "\<bar>ct_year t\<bar> \<le> 1000000000" "\<bar>k * n\<bar> \<le> 2000000000"
  obtains t' where "add_time t n (unit_value u) = Some (0, t')" "valid_time t'"
    "hour_number t' = hour_number t + k * n"
proof (cases "u = DAY")
  case True
  obtain t' where t': "add_days t n = Some t'" "1 \<le> ct_month t'" "ct_month t' \<le> 12"
    "1 \<le> ct_day t'" "ct_day t' \<le> month_length (ct_year t') (ct_month t')" "ct_hour t' = ct_hour t"
    "day_number (ct_year t') (ct_month t') (ct_day t') =
       day_number (ct_year t) (ct_month t) (ct_day t) + n"
  proof (rule add_days_correct [of t n])
    show "day_range t n"
      using assms True month_length_pos(2) [of "ct_year t" "ct_month t"]
      by (simp add: day_range_def valid_time_def abs_le_iff)
  qed
  have "add_time t n (unit_value u) = Some (0, t')" by (simp add: True add_time_days t'(1))
  moreover have "valid_time t'" using t' assms(1) by (simp add: valid_time_def)
  moreover have "hour_number t' = hour_number t + k * n"
    using t' assms(2) True by (simp add: hour_number_def)
  ultimately show ?thesis by (rule that)
next
  case False
  obtain t' where "add_hours t (n * k) = Some t'" "valid_time t'" "hour_number t' = hour_number t + n * k"
    using add_hours_correct [OF assms(1,3), of "n * k"] assms(4) by (auto simp: mult.commute)
  then show ?thesis using that [of t'] add_time_hours [OF assms(2) False assms(4)]
    by (simp add: mult.commute)
qed

text \<open>A valid time is determined by its hour number.\<close>

lemma month_start_mono: "i \<le> j \<Longrightarrow> month_start y i \<le> month_start y j"
proof (induction j)
  case (Suc j)
  then show ?case using month_length_pos [of y "int j + 1"] by (cases "i = Suc j") auto
qed simp

lemma year_start_mono: "a \<le> b \<Longrightarrow> year_start a + 365 * (b - a) \<le> year_start b"
proof (induction b rule: int_ge_induct)
  case (step i)
  then show ?case using year_start_Suc [of i] leap_bounds [of i] by (simp add: algebra_simps)
qed simp

lemma day_of_year_bounds:
  assumes "1 \<le> m" "m \<le> 12" "1 \<le> d" "d \<le> month_length y m"
  shows "1 \<le> month_start y (nat (m - 1)) + d" "month_start y (nat (m - 1)) + d \<le> 365 + leap y"
proof -
  have "month_start y 0 \<le> month_start y (nat (m - 1))" by (rule month_start_mono) simp
  then show "1 \<le> month_start y (nat (m - 1)) + d" using assms(3) by simp
  have "month_start y (Suc (nat (m - 1))) \<le> month_start y 12"
    using assms(1,2) by (intro month_start_mono) simp
  moreover have "month_start y 12 = 365 + leap y"
    by (simp add: eval_nat_numeral month_length_def)
  ultimately show "month_start y (nat (m - 1)) + d \<le> 365 + leap y"
    using assms by simp
qed

lemma year_of_day:
  assumes "year_start y + k = year_start y' + k'" "1 \<le> k" "1 \<le> k'"
    "k \<le> 365 + leap y" "k' \<le> 365 + leap y'"
  shows "y = y'"
proof -
  have "\<not> a < b" if "year_start a + i = year_start b + j" "i \<le> 365 + leap a" "1 \<le> j" for a b i j
    using that year_start_Suc [of a] year_start_mono [of "a + 1" b] by auto
  from this [of y k y' k'] this [of y' k' y k] assms show ?thesis by auto
qed

lemma month_of_day:
  assumes "month_start y i + d = month_start y j + e" "1 \<le> d" "1 \<le> e"
    "d \<le> month_length y (int i + 1)" "e \<le> month_length y (int j + 1)"
  shows "i = j"
proof -
  have "\<not> a < b" if "month_start y a + x = month_start y b + z" "x \<le> month_length y (int a + 1)"
    "1 \<le> z" for a b x z
    using that month_start_mono [of "Suc a" b y] by auto
  from this [of i d j e] this [of j e i d] assms show ?thesis by auto
qed

lemma hour_number_inj:
  assumes "valid_time a" "valid_time b" "hour_number a = hour_number b"
  shows "a = b"
proof -
  have va: "1 \<le> ct_month a" "ct_month a \<le> 12" "1 \<le> ct_day a"
    "ct_day a \<le> month_length (ct_year a) (ct_month a)" "0 \<le> ct_hour a" "ct_hour a < 24"
    and vb: "1 \<le> ct_month b" "ct_month b \<le> 12" "1 \<le> ct_day b"
    "ct_day b \<le> month_length (ct_year b) (ct_month b)" "0 \<le> ct_hour b" "ct_hour b < 24"
    using assms(1,2) by (simp_all add: valid_time_def)
  let ?da = "day_number (ct_year a) (ct_month a) (ct_day a)"
  let ?db = "day_number (ct_year b) (ct_month b) (ct_day b)"
  have d: "?da = ?db"
    using assms(3) va(5,6) vb(5,6) unfolding hour_number_def by linarith
  then have h: "ct_hour a = ct_hour b" using assms(3) by (simp add: hour_number_def)
  have d': "year_start (ct_year a) + (month_start (ct_year a) (nat (ct_month a - 1)) + ct_day a) =
      year_start (ct_year b) + (month_start (ct_year b) (nat (ct_month b - 1)) + ct_day b)"
    using d by (simp add: day_number_def)
  note da = day_of_year_bounds [OF va(1-4)] and db = day_of_year_bounds [OF vb(1-4)]
  have y: "ct_year a = ct_year b"
    by (rule year_of_day [OF d' da(1) db(1) da(2) db(2)])
  have d'': "month_start (ct_year b) (nat (ct_month a - 1)) + ct_day a =
      month_start (ct_year b) (nat (ct_month b - 1)) + ct_day b"
    using d' by (simp add: y)
  have "nat (ct_month a - 1) = nat (ct_month b - 1)"
    by (rule month_of_day [OF d'' va(3) vb(3)]) (use va vb y in simp_all)
  then have m: "ct_month a = ct_month b" using va vb by linarith
  then have "ct_day a = ct_day b" using d'' by simp
  with h y m show ?thesis by simp
qed

section \<open>Month arithmetic\<close>

lemma monthjday_length: "1 \<le> m \<Longrightarrow> m \<le> 12 \<Longrightarrow>
  int_at monthjday m = Some (monthjday ! nat m) \<and>
  int_at monthjday (m - 1) = Some (monthjday ! nat (m - 1)) \<and>
  monthjday ! nat m - monthjday ! nat (m - 1) + (if m = 2 then leap y else 0) = month_length y m"
  using month_length_table [of "nat (m - 1)" y]
  by (auto simp: int_at_def monthjday_def nat_diff_distrib')

lemma sdiv_nonneg:
  fixes k l :: int
  assumes "0 \<le> k" "0 < l"
  shows "k sdiv l = k div l" "k smod l = k mod l"
  using assms by (cases "k = 0"; simp add: signed_divide_int_def smod_mod_positive)+

text \<open>The last step of \<^verbatim>\<open>add_months\<close>: the day is clamped to the month reached.\<close>

definition clamp_month :: "calendar_time \<Rightarrow> int \<Rightarrow> int \<Rightarrow> calendar_time option" where
  "clamp_month t y m = do {
     a \<leftarrow> int_at monthjday m;
     b \<leftarrow> int_at monthjday (m - 1);
     let l = a - b;
     let l = (if m = 2 \<and> leap y \<noteq> 0 then l + 1 else l);
     Some (t\<lparr>ct_year := y, ct_month := m, ct_day := (if l < ct_day t then l else ct_day t)\<rparr>)}"

lemma clamp_month_correct:
  assumes "1 \<le> m" "m \<le> 12"
  shows "clamp_month t y m = Some (t\<lparr>ct_year := y, ct_month := m,
    ct_day := min (ct_day t) (month_length y m)\<rparr>)"
proof -
  note at = monthjday_length [OF assms, of y]
  then have "(if m = 2 \<and> leap y \<noteq> 0 then monthjday ! nat m - monthjday ! nat (m - 1) + 1
      else monthjday ! nat m - monthjday ! nat (m - 1)) = month_length y m"
    using leap_01 [of y] by (auto split: if_splits)
  then show ?thesis using at by (simp add: clamp_month_def Let_def min_def)
qed

lemma add_months_unfold:
  assumes "(if n < 0 then (ct_year t - ((- n) sdiv 12 + 1), n + ((- n) sdiv 12 + 1) * 12)
      else (ct_year t, n)) = (y1, n1)"
    "\<bar>ct_year t\<bar> \<le> 1000000000" "\<bar>n\<bar> \<le> 2000000000" "1 \<le> ct_month t" "ct_month t \<le> 12"
    "0 \<le> n1" "12 * y1 + n1 = 12 * ct_year t + n" "n1 \<le> 2000000000"
  shows "add_months t n =
    clamp_month t (y1 + (n1 + (ct_month t - 1)) sdiv 12) (1 + (n1 + (ct_month t - 1)) smod 12)"
proof -
  note r = assms(2,3) [unfolded abs_le_iff] assms(4-8)
  let ?k = "n1 + (ct_month t - 1)"
  have q: "(- n) sdiv 12 = (- n) div 12" if "n < 0"
    using that by (simp add: signed_divide_int_eq_divide_int)
  have i: "0 \<le> (- n) div 12" "(- n) div 12 \<le> 166666666" if "n < 0" using that r by linarith+
  have norm: "(if n < 0
      then do {
        opp \<leftarrow> c_int (- n);
        let i = opp sdiv 12 + 1;
        y \<leftarrow> c_int (ct_year t - i);
        p \<leftarrow> c_int (i * 12);
        Some (y, n + p)}
      else Some (ct_year t, n)) = Some (y1, n1)"
  proof (cases "n < 0")
    case True
    have c: "c_int (- n) = Some (- n)"
      "c_int (ct_year t - ((- n) div 12 + 1)) = Some (ct_year t - ((- n) div 12 + 1))"
      "c_int (((- n) div 12 + 1) * 12) = Some (((- n) div 12 + 1) * 12)"
      using r i [OF True] by (simp_all add: algebra_simps)
    have yn: "ct_year t - ((- n) div 12 + 1) = y1" "n + ((- n) div 12 + 1) * 12 = n1"
      using True assms(1) unfolding q [OF True] by simp_all
    show ?thesis
      using True by (simp only: if_P c(1) bind.simps Let_def q [OF True] c(2,3) [unfolded yn] yn)
  qed (use assms(1) in simp)
  have d: "0 \<le> ?k" "?k \<le> 2000000011" "?k sdiv 12 = ?k div 12"
    using r by (auto simp: sdiv_nonneg)
  have dm: "12 * (?k div 12) + ?k mod 12 = ?k" "0 \<le> ?k mod 12" "?k mod 12 < 12" by simp_all
  have y1: "12 * (y1 + ?k div 12) \<le> 12 * ct_year t + n + 11"
    using r dm by (simp add: distrib_left)
  have y2: "12 * ct_year t + n - 11 \<le> 12 * (y1 + ?k div 12)"
    using r dm by (simp add: distrib_left)
  have c: "c_int (ct_month t - 1) = Some (ct_month t - 1)" "c_int ?k = Some ?k"
    "c_int (y1 + ?k sdiv 12) = Some (y1 + ?k sdiv 12)"
    using r d(1,2) y1 y2 unfolding d(3) by simp_all
  show ?thesis
    unfolding add_months_def clamp_month_def Let_def norm [unfolded Let_def]
    by (simp only: bind.simps prod.case c)
qed

lemma add_months_correct:
  assumes "1 \<le> ct_month t" "ct_month t \<le> 12" "\<bar>ct_year t\<bar> \<le> 1000000000" "\<bar>n\<bar> \<le> 2000000000"
  obtains y m where "add_months t n = Some (t\<lparr>ct_year := y, ct_month := m,
      ct_day := min (ct_day t) (month_length y m)\<rparr>)"
    "1 \<le> m" "m \<le> 12" "12 * y + (m - 1) = 12 * ct_year t + (ct_month t - 1) + n"
proof -
  obtain y1 n1 where norm: "(if n < 0 then (ct_year t - ((- n) sdiv 12 + 1),
      n + ((- n) sdiv 12 + 1) * 12) else (ct_year t, n)) = (y1, n1)" by force
  have sd: "n < 0 \<Longrightarrow> (- n) sdiv 12 = (- n) div 12" by (simp add: signed_divide_int_eq_divide_int)
  have n1: "0 \<le> n1" "12 * y1 + n1 = 12 * ct_year t + n" "n1 \<le> 2000000000"
    using norm sd assms(4) by (auto split: if_splits)
  let ?k = "n1 + (ct_month t - 1)"
  show ?thesis
  proof (rule that)
    show "add_months t n = Some (t\<lparr>ct_year := y1 + ?k div 12, ct_month := 1 + ?k mod 12,
        ct_day := min (ct_day t) (month_length (y1 + ?k div 12) (1 + ?k mod 12))\<rparr>)"
      using add_months_unfold [OF norm assms(3,4,1,2) n1] sdiv_nonneg [of ?k 12] n1(1) assms(1)
      by (simp add: clamp_month_correct)
    show "12 * (y1 + ?k div 12) + (1 + ?k mod 12 - 1) = 12 * ct_year t + (ct_month t - 1) + n"
      using n1(2) mult_div_mod_eq [of 12 ?k] by (simp add: algebra_simps)
  qed simp_all
qed

section \<open>Which units return\<close>

lemma unit_value_inj: "inj unit_value"
proof (rule injI)
  fix a b
  assume "unit_value a = unit_value b"
  then have "unit_is (unit_value a) b" by (simp add: unit_is_def unit_value_def)
  then show "a = b" by simp
qed

text \<open>Division by 60 towards zero: the rest is dropped.\<close>

lemma sdiv_60:
  fixes k :: int
  shows "\<bar>60 * (k sdiv 60) - k\<bar> < 60" "\<bar>60 * (k sdiv 60)\<bar> \<le> \<bar>k\<bar>"
  using mult_sdiv_smod_eq [of 60 k] smod_int_compares [of k 60] by (cases "0 \<le> k"; auto)+

lemma add_time_minutes_seconds:
  "add_time t n (unit_value MINUTE) = add_time t (n sdiv 60) (unit_value HOUR)"
  "add_time t n (unit_value SECOND) = add_time t (n sdiv 60 sdiv 60) (unit_value HOUR)"
  by (simp_all add: add_time_def)

lemma add_years_correct:
  assumes "\<bar>ct_year t\<bar> \<le> 1000000000" "\<bar>k * n\<bar> \<le> 1000000000"
  shows "add_years t k n = Some (t\<lparr>ct_year := ct_year t + k * n\<rparr>)"
  using assms by (simp add: add_years_def abs_le_iff)

lemma add_time_returns:
  assumes "valid_time t" "u \<notin> {HALF_HOUR, QUARTER_HOUR, INDIFFERENT}"
    "\<bar>ct_year t\<bar> \<le> 1000000000" "\<bar>n\<bar> \<le> 10000000"
  shows "\<exists>t'. add_time t n (unit_value u) = Some (0, t')"
proof -
  have h: "\<exists>t'. add_time t i (unit_value v) = Some (0, t')"
    if "unit_hours v = Some k" "\<bar>k * i\<bar> \<le> 2000000000" for v k i
    using add_time_hour_number [OF assms(1) that(1) assms(3) that(2)] by metis
  have m: "\<exists>t'. add_time t n (unit_value MONTH) = Some (0, t')"
  proof -
    obtain t' where "add_months t n = Some t'"
      using add_months_correct [OF _ _ assms(3), of n] assms(1,4) unfolding valid_time_def
      by fastforce
    then show ?thesis by (simp add: add_time_def)
  qed
  have n: "\<bar>n sdiv 60\<bar> \<le> 2000000000" "\<bar>n sdiv 60 sdiv 60\<bar> \<le> 2000000000"
    using sdiv_60(2) [of n] sdiv_60(2) [of "n sdiv 60"] assms(4) by linarith+
  have y: "\<exists>t'. add_years t k n = Some t'" if "1 \<le> k" "k \<le> 100" for k
    using add_years_correct [OF assms(3), of k n] mult_mono [of k 100 "\<bar>n\<bar>" 10000000] that assms(4)
    by (simp add: abs_mult)
  show ?thesis
  proof (cases "unit_hours u")
    case (Some k)
    then have "\<bar>k * n\<bar> \<le> 2000000000" using assms(4) by (cases u) (auto simp: abs_le_iff)
    then show ?thesis by (rule h [OF Some])
  next
    case None
    then show ?thesis
      using assms(2) m h [of HOUR 1] n y [of 1] y [of 10] y [of 30] y [of 100]
      by (cases u) (auto simp: add_time_minutes_seconds, auto simp: add_time_def)
  qed
qed

section \<open>Properties\<close>

text \<open>
  C10: adding hours, days or multiples of hours is exact in the Gregorian calendar, in the
  32-bit arithmetic of the code.  From a valid date and time with a year of at most a thousand
  million in size, for every increment, positive or negative, of at most two thousand million
  hours, no operation of \<^verbatim>\<open>add_time\<close> overflows: it succeeds and gives the valid date and time
  whose number of hours is the old one plus the increment.  An increment in hours, or in a
  multiple of hours, that with the hour of the day is not an \<^verbatim>\<open>int\<close> is an overflow.
\<close>

theorem add_time_exact:
  assumes "valid_time t" "unit_hours u = Some k" "\<bar>ct_year t\<bar> \<le> 1000000000"
  shows "(\<bar>k * n\<bar> \<le> 2000000000 \<longrightarrow>
      (\<exists>t'. add_time t n (unit_value u) = Some (0, t') \<and> valid_time t' \<and>
        hour_number t' = hour_number t + k * n)) \<and>
    (u \<noteq> DAY \<and> (k * n + ct_hour t < - 2147483648 \<or> 2147483647 < k * n + ct_hour t) \<longrightarrow>
      add_time t n (unit_value u) = None)"
proof (intro conjI impI)
  assume "\<bar>k * n\<bar> \<le> 2000000000"
  then show "\<exists>t'. add_time t n (unit_value u) = Some (0, t') \<and> valid_time t' \<and>
      hour_number t' = hour_number t + k * n"
    using add_time_hour_number [OF assms] by metis
next
  assume "u \<noteq> DAY \<and> (k * n + ct_hour t < - 2147483648 \<or> 2147483647 < k * n + ct_hour t)"
  then show "add_time t n (unit_value u) = None"
    using add_time_overflow [OF assms(1,2)] by blast
qed

theorem add_time_exact_witness:
  "valid_time \<lparr>ct_year = 2023, ct_month = 12, ct_day = 31, ct_hour = 18\<rparr> \<and>
   (\<exists>t'. add_time \<lparr>ct_year = 2023, ct_month = 12, ct_day = 31, ct_hour = 18\<rparr> 60 (unit_value HOUR) =
     Some (0, t') \<and> valid_time t') \<and>
   add_time \<lparr>ct_year = 2023, ct_month = 12, ct_day = 31, ct_hour = 18\<rparr> 200000000 (unit_value HOURS_12) = None"
proof -
  have v: "valid_time \<lparr>ct_year = 2023, ct_month = 12, ct_day = 31, ct_hour = 18\<rparr>"
    by (simp add: valid_time_def month_length_def)
  then show ?thesis using add_time_exact [OF v, of HOUR 1 60] add_time_exact [OF v, of HOURS_12 12 200000000] by auto
qed

text \<open>
  Steps of one unit compose: adding \<open>a\<close> and then \<open>b\<close> is adding \<open>a + b\<close>, so adding an
  increment and then its negation restores every variable.
\<close>

theorem add_time_compose:
  assumes "valid_time t" "unit_hours u = Some k" "add_time t a (unit_value u) = Some (r, t1)"
    "\<bar>ct_year t\<bar> \<le> 1000000000" "\<bar>ct_year t1\<bar> \<le> 1000000000"
    "\<bar>k * a\<bar> \<le> 2000000000" "\<bar>k * b\<bar> \<le> 2000000000" "\<bar>k * (a + b)\<bar> \<le> 2000000000"
  shows "add_time t1 b (unit_value u) = add_time t (a + b) (unit_value u) \<and>
    (b = - a \<longrightarrow> add_time t1 b (unit_value u) = Some (0, t))"
proof -
  obtain t1' where 1: "add_time t a (unit_value u) = Some (0, t1')" "valid_time t1'"
    "hour_number t1' = hour_number t + k * a" using add_time_hour_number [OF assms(1,2,4,6)] .
  with assms(3) have t1: "t1' = t1" by simp
  obtain t2 where 2: "add_time t1 b (unit_value u) = Some (0, t2)" "valid_time t2"
    "hour_number t2 = hour_number t1 + k * b"
    using add_time_hour_number [of t1 u k b] 1(2) t1 assms(2,5,7) by metis
  obtain t3 where 3: "add_time t (a + b) (unit_value u) = Some (0, t3)" "valid_time t3"
    "hour_number t3 = hour_number t + k * (a + b)" using add_time_hour_number [OF assms(1,2,4,8)] .
  have "t2 = t3" by (rule hour_number_inj) (use 1 2 3 t1 in \<open>simp_all add: algebra_simps\<close>)
  moreover have "b = - a \<longrightarrow> t2 = t"
    using 1(3) 2 t1 assms(1) by (auto intro!: hour_number_inj)
  ultimately show ?thesis using 2(1) 3(1) by auto
qed

theorem add_time_compose_witness:
  "\<exists>t1. add_time \<lparr>ct_year = 2024, ct_month = 2, ct_day = 28, ct_hour = 6\<rparr> 50 (unit_value HOURS_6) = Some (0, t1) \<and>
     add_time t1 (- 50) (unit_value HOURS_6) = Some (0, \<lparr>ct_year = 2024, ct_month = 2, ct_day = 28, ct_hour = 6\<rparr>)"
proof -
  let ?t = "\<lparr>ct_year = 2024, ct_month = 2, ct_day = 28, ct_hour = 6\<rparr>"
  let ?t1 = "\<lparr>ct_year = 2024, ct_month = 3, ct_day = 11, ct_hour = 18\<rparr>"
  have v: "valid_time ?t" "valid_time ?t1" by (simp_all add: valid_time_def month_length_def leap_mod)
  obtain t1 where t1: "add_time ?t 50 (unit_value HOURS_6) = Some (0, t1)" "valid_time t1"
    "hour_number t1 = hour_number ?t + 6 * 50"
    using add_time_hour_number [OF v(1), of HOURS_6 6 50] by auto
  have "hour_number t1 = hour_number ?t1"
    unfolding t1(3)
    by (simp add: hour_number_def day_number_def year_start_def month_length_def leap_mod
        eval_nat_numeral)
  then have "t1 = ?t1" by (rule hour_number_inj [OF t1(2) v(2)])
  with add_time_compose [OF v(1) _ t1(1), of 6 "- 50"] t1(1) show ?thesis by auto
qed

text \<open>
  C23: adding months to a valid date counts months exactly and clamps the day to the length of
  the month reached, so the result is a valid date again.  No operation overflows for a year of
  at most a thousand million and an increment of at most two thousand million months in size.
\<close>

theorem add_time_months:
  assumes "valid_time t" "\<bar>ct_year t\<bar> \<le> 1000000000" "\<bar>n\<bar> \<le> 2000000000"
  shows "\<exists>t'. add_time t n (unit_value MONTH) = Some (0, t') \<and> valid_time t' \<and>
    12 * ct_year t' + ct_month t' = 12 * ct_year t + ct_month t + n \<and>
    ct_day t' = min (ct_day t) (month_length (ct_year t') (ct_month t')) \<and>
    ct_hour t' = ct_hour t"
proof -
  obtain y m where ym: "add_months t n = Some (t\<lparr>ct_year := y, ct_month := m,
      ct_day := min (ct_day t) (month_length y m)\<rparr>)" "1 \<le> m" "m \<le> 12"
    "12 * y + (m - 1) = 12 * ct_year t + (ct_month t - 1) + n"
    using add_months_correct [OF _ _ assms(2,3)] assms(1) unfolding valid_time_def by metis
  let ?t = "t\<lparr>ct_year := y, ct_month := m, ct_day := min (ct_day t) (month_length y m)\<rparr>"
  have "add_time t n (unit_value MONTH) = Some (0, ?t)" by (simp add: add_time_def ym(1))
  moreover have "valid_time ?t" using assms ym(2,3) month_length_pos [of y m]
    by (simp add: valid_time_def)
  ultimately show ?thesis using ym(4) by (intro exI [of _ ?t]) simp
qed

theorem add_time_months_witness:
  "\<exists>t'. add_time \<lparr>ct_year = 2024, ct_month = 3, ct_day = 31, ct_hour = 0\<rparr> (- 13) (unit_value MONTH) =
     Some (0, t') \<and> 12 * ct_year t' + ct_month t' = 12 * 2023 + 2"
proof -
  have "valid_time \<lparr>ct_year = 2024, ct_month = 3, ct_day = 31, ct_hour = 0\<rparr>"
    by (simp add: valid_time_def month_length_def)
  from add_time_months [OF this _ _, of "- 13"] show ?thesis by auto
qed

text \<open>
  Minutes and seconds are first divided down to whole hours, towards zero: the time moves by
  the whole hours of the increment and the rest of it, less than an hour, is dropped.
\<close>

theorem add_time_minutes:
  assumes "valid_time t" "\<bar>ct_year t\<bar> \<le> 1000000000" "\<bar>n\<bar> \<le> 2000000000"
  shows "\<exists>t' t''. add_time t n (unit_value MINUTE) = Some (0, t') \<and> valid_time t' \<and>
    \<bar>60 * (hour_number t' - hour_number t) - n\<bar> < 60 \<and>
    \<bar>60 * (hour_number t' - hour_number t)\<bar> \<le> \<bar>n\<bar> \<and>
    add_time t n (unit_value SECOND) = Some (0, t'') \<and> valid_time t'' \<and>
    \<bar>3600 * (hour_number t'' - hour_number t) - n\<bar> < 3600"
proof -
  have b: "\<bar>1 * (n sdiv 60)\<bar> \<le> 2000000000" "\<bar>1 * (n sdiv 60 sdiv 60)\<bar> \<le> 2000000000"
    using sdiv_60(2) [of n] sdiv_60(2) [of "n sdiv 60"] assms(3) by linarith+
  obtain t1 where 1: "add_time t (n sdiv 60) (unit_value HOUR) = Some (0, t1)" "valid_time t1"
    "hour_number t1 = hour_number t + 1 * (n sdiv 60)"
    using add_time_hour_number [OF assms(1) _ assms(2) b(1), of HOUR] by auto
  obtain t2 where 2: "add_time t (n sdiv 60 sdiv 60) (unit_value HOUR) = Some (0, t2)" "valid_time t2"
    "hour_number t2 = hour_number t + 1 * (n sdiv 60 sdiv 60)"
    using add_time_hour_number [OF assms(1) _ assms(2) b(2), of HOUR] by auto
  have "\<bar>3600 * (n sdiv 60 sdiv 60) - n\<bar> < 3600"
    using sdiv_60(1) [of n] sdiv_60(1) [of "n sdiv 60"] by linarith
  then show ?thesis using 1 2 sdiv_60 [of n] by (auto simp: add_time_minutes_seconds)
qed

theorem add_time_minutes_witness:
  "\<exists>t'. add_time \<lparr>ct_year = 2024, ct_month = 1, ct_day = 1, ct_hour = 0\<rparr> 90 (unit_value MINUTE) =
     Some (0, t') \<and> valid_time t'"
proof -
  have "valid_time \<lparr>ct_year = 2024, ct_month = 1, ct_day = 1, ct_hour = 0\<rparr>"
    by (simp add: valid_time_def month_length_def)
  from add_time_minutes [OF this _ _, of 90] show ?thesis by auto
qed

text \<open>The units of whole years.\<close>

fun unit_years :: "TimeFrame \<Rightarrow> int option" where
  "unit_years YEAR = Some 1"
| "unit_years DECADE = Some 10"
| "unit_years NORMAL = Some 30"
| "unit_years CENTURY = Some 100"
| "unit_years _ = None"

text \<open>
  The units of whole years succeed and change only the year; of a valid date they keep the
  validity except when the 29th of February lands in a year that is not a leap year.
\<close>

theorem add_time_years:
  assumes "valid_time t" "unit_years u = Some k" "\<bar>ct_year t\<bar> \<le> 1000000000"
    "\<bar>k * n\<bar> \<le> 1000000000"
  shows "\<exists>t'. add_time t n (unit_value u) = Some (0, t') \<and> t' = t\<lparr>ct_year := ct_year t + k * n\<rparr> \<and>
    (valid_time t' \<longleftrightarrow> \<not> (ct_month t = 2 \<and> ct_day t = 29 \<and> leap (ct_year t') = 0))"
proof -
  let ?t = "t\<lparr>ct_year := ct_year t + k * n\<rparr>"
  have "add_time t n (unit_value u) = Some (0, ?t)"
    using assms(2) add_years_correct [OF assms(3,4)] by (cases u) (simp_all add: add_time_def)
  moreover have "valid_time ?t \<longleftrightarrow> \<not> (ct_month t = 2 \<and> ct_day t = 29 \<and> leap (ct_year ?t) = 0)"
    using assms(1) leap_01 [of "ct_year t"] leap_01 [of "ct_year t + k * n"]
    by (auto simp: valid_time_def month_length_def)
  ultimately show ?thesis by blast
qed

theorem add_time_years_witness:
  "\<not> valid_time \<lparr>ct_year = 2025, ct_month = 2, ct_day = 29, ct_hour = 0\<rparr>"
proof -
  have "valid_time \<lparr>ct_year = 2024, ct_month = 2, ct_day = 29, ct_hour = 0\<rparr>"
    by (simp add: valid_time_def month_length_def leap_mod)
  from add_time_years [OF this _ _ _, of YEAR 1 1] show ?thesis by (auto simp: leap_mod)
qed

text \<open>
  \<^verbatim>\<open>add_time\<close> never fails in an undefined way on a valid date whose year is at most a
  thousand million, with an increment of at most ten million: it returns zero exactly
  for the twelve units it handles, and one, with the time unchanged, for every other value, the
  half hour and the quarter hour of table 4 among them.
\<close>

theorem add_time_units:
  assumes "valid_time t" "\<bar>ct_year t\<bar> \<le> 1000000000" "\<bar>n\<bar> \<le> 10000000"
  shows "(\<exists>r t'. add_time t n unit = Some (r, t') \<and>
     (r = 0 \<longleftrightarrow> unit \<in> unit_value ` {MINUTE, HOUR, DAY, MONTH, YEAR, DECADE, NORMAL, CENTURY,
        HOURS_3, HOURS_6, HOURS_12, SECOND}) \<and> (r \<noteq> 0 \<longrightarrow> r = 1 \<and> t' = t)) \<and>
   add_time t n (unit_value HALF_HOUR) = Some (1, t) \<and>
   add_time t n (unit_value QUARTER_HOUR) = Some (1, t)"
proof (cases "\<exists>u. unit = unit_value u")
  case True
  then obtain u where u: "unit = unit_value u" by blast
  have inj: "unit_value u \<in> unit_value ` A \<longleftrightarrow> u \<in> A" for A
    using unit_value_inj by (rule inj_image_mem_iff)
  have handled: "u \<notin> {HALF_HOUR, QUARTER_HOUR, INDIFFERENT} \<Longrightarrow> \<exists>t'. add_time t n unit = Some (0, t')"
    using add_time_returns [OF assms(1) _ assms(2,3), of u] u by simp
  have refused: "u \<in> {HALF_HOUR, QUARTER_HOUR, INDIFFERENT} \<Longrightarrow> add_time t n unit = Some (1, t)"
    by (auto simp: u add_time_def)
  show ?thesis
    unfolding u inj using handled refused u
    by (cases u) (auto simp: add_time_def)
next
  case False
  then have "\<not> unit_is unit f" for f by (auto simp: unit_is_def unit_value_def)
  then show ?thesis using False by (auto simp: add_time_def)
qed

theorem add_time_units_witness:
  "add_time \<lparr>ct_year = 2024, ct_month = 1, ct_day = 1, ct_hour = 0\<rparr> 4 (unit_value QUARTER_HOUR) =
     Some (1, \<lparr>ct_year = 2024, ct_month = 1, ct_day = 1, ct_hour = 0\<rparr>)"
proof -
  have "valid_time \<lparr>ct_year = 2024, ct_month = 1, ct_day = 1, ct_hour = 0\<rparr>"
    by (simp add: valid_time_def month_length_def)
  from add_time_units [OF this, of 4] show ?thesis by simp
qed

end
