(* ===== verification/Pds.thy ===== *)
theory Pds
  imports Sections Calendar Time_Forecast
begin

text \<open>
  Section 1, the product definition section: the field macros of \<^verbatim>\<open>sections/product/def.h\<close>, the
  accessors of \<^verbatim>\<open>ProductDefinitionSection\<close> and the routines \<^verbatim>\<open>PDStimes\<close> and \<^verbatim>\<open>verf_time\<close> of
  \<^verbatim>\<open>sections/section_1.cpp\<close>.
\<close>

section \<open>Field macros\<close>

definition PDS_Year :: "cptr \<Rightarrow> u8 option" where "PDS_Year pds = byte_at pds 12"
definition PDS_Month :: "cptr \<Rightarrow> u8 option" where "PDS_Month pds = byte_at pds 13"
definition PDS_Day :: "cptr \<Rightarrow> u8 option" where "PDS_Day pds = byte_at pds 14"
definition PDS_Hour :: "cptr \<Rightarrow> u8 option" where "PDS_Hour pds = byte_at pds 15"
definition PDS_Minute :: "cptr \<Rightarrow> u8 option" where "PDS_Minute pds = byte_at pds 16"

definition PDS_ForecastTimeUnit :: "cptr \<Rightarrow> u8 option" where
  "PDS_ForecastTimeUnit pds = byte_at pds 17"

definition PDS_Year4 :: "cptr \<Rightarrow> int option" where
  "PDS_Year4 pds = do {
     y \<leftarrow> byte_at pds 12;
     c \<leftarrow> byte_at pds 24;
     Some (int (unat y) + 100 * (int (unat c) - 1))}"

definition PDS_LEN :: "cptr \<Rightarrow> int option" where
  "PDS_LEN pds = do {
     b0 \<leftarrow> byte_at pds 0;
     b1 \<leftarrow> byte_at pds 1;
     b2 \<leftarrow> byte_at pds 2;
     Some (push_bit 16 (int (unat b0)) + push_bit 8 (int (unat b1)) + int (unat b2))}"

definition PDS_Vsn :: "cptr \<Rightarrow> u8 option" where "PDS_Vsn pds = byte_at pds 3"
definition PDS_Center :: "cptr \<Rightarrow> u8 option" where "PDS_Center pds = byte_at pds 4"
definition PDS_Model :: "cptr \<Rightarrow> u8 option" where "PDS_Model pds = byte_at pds 5"
definition PDS_Grid :: "cptr \<Rightarrow> u8 option" where "PDS_Grid pds = byte_at pds 6"

definition PDS_HAS_GDS :: "cptr \<Rightarrow> bool option" where
  "PDS_HAS_GDS pds = map_option (\<lambda>b. b AND 128 \<noteq> 0) (byte_at pds 7)"

definition PDS_HAS_BMS :: "cptr \<Rightarrow> bool option" where
  "PDS_HAS_BMS pds = map_option (\<lambda>b. b AND 64 \<noteq> 0) (byte_at pds 7)"

definition PDS_PARAM :: "cptr \<Rightarrow> u8 option" where "PDS_PARAM pds = byte_at pds 8"
definition PDS_L_TYPE :: "cptr \<Rightarrow> u8 option" where "PDS_L_TYPE pds = byte_at pds 9"
definition PDS_LEVEL1 :: "cptr \<Rightarrow> u8 option" where "PDS_LEVEL1 pds = byte_at pds 10"
definition PDS_LEVEL2 :: "cptr \<Rightarrow> u8 option" where "PDS_LEVEL2 pds = byte_at pds 11"

definition PDS_KPDS7 :: "cptr \<Rightarrow> int option" where
  "PDS_KPDS7 pds = do {
     a \<leftarrow> byte_at pds 10;
     b \<leftarrow> byte_at pds 11;
     Some (push_bit 8 (int (unat a)) + int (unat b))}"

definition PDS_Field :: "osterlib \<Rightarrow> cptr \<Rightarrow> nat option" where
  "PDS_Field L pds = read_u L pds 8 4"

definition PDS_P1 :: "osterlib \<Rightarrow> cptr \<Rightarrow> nat option" where
  "PDS_P1 L pds = read_u L pds 18 1"

definition PDS_P2 :: "osterlib \<Rightarrow> cptr \<Rightarrow> nat option" where
  "PDS_P2 L pds = read_u L pds 19 1"

definition PDS_TimeRangeIndicator :: "osterlib \<Rightarrow> cptr \<Rightarrow> nat option" where
  "PDS_TimeRangeIndicator L pds = read_u L pds 20 1"

definition PDS_NumAve :: "osterlib \<Rightarrow> cptr \<Rightarrow> int option" where
  "PDS_NumAve L pds = read_s L pds 21 2"

definition PDS_NumMissing :: "osterlib \<Rightarrow> cptr \<Rightarrow> nat option" where
  "PDS_NumMissing L pds = read_u L pds 23 1"

definition PDS_Century :: "osterlib \<Rightarrow> cptr \<Rightarrow> nat option" where
  "PDS_Century L pds = read_u L pds 24 1"

definition PDS_Subcenter :: "osterlib \<Rightarrow> cptr \<Rightarrow> nat option" where
  "PDS_Subcenter L pds = read_u L pds 25 1"

definition PDS_DecimalScale :: "osterlib \<Rightarrow> cptr \<Rightarrow> int option" where
  "PDS_DecimalScale L pds = read_s L pds 26 2"

text \<open>The local extensions of ECMWF and NCEP, present when the section is long enough.\<close>

definition if_longer :: "int \<Rightarrow> cptr \<Rightarrow> u8 option \<Rightarrow> int option" where
  "if_longer n pds b = do {
     l \<leftarrow> PDS_LEN pds;
     if l \<ge> n then map_option (\<lambda>x. int (unat x)) b else Some 0}"

definition PDS_LocalId :: "cptr \<Rightarrow> int option" where
  "PDS_LocalId pds = if_longer 41 pds (byte_at pds 40)"

definition PDS_EcClass :: "cptr \<Rightarrow> int option" where
  "PDS_EcClass pds = if_longer 42 pds (byte_at pds 41)"

definition PDS_EcType :: "cptr \<Rightarrow> int option" where
  "PDS_EcType pds = if_longer 43 pds (byte_at pds 42)"

definition PDS_EcStream :: "osterlib \<Rightarrow> cptr \<Rightarrow> int option" where
  "PDS_EcStream L pds = do {
     l \<leftarrow> PDS_LEN pds;
     if l \<ge> 45 then do {
       a \<leftarrow> byte_at pds 43;
       b \<leftarrow> byte_at pds 44;
       Some (INT2 L a b)}
     else Some 0}"

definition PDS_EcENS :: "cptr \<Rightarrow> bool option" where
  "PDS_EcENS pds = do {
     l \<leftarrow> PDS_LEN pds;
     if l \<ge> 52 then do {
       b40 \<leftarrow> byte_at pds 40;
       if b40 = 1 then do {
         b43 \<leftarrow> byte_at pds 43;
         b44 \<leftarrow> byte_at pds 44;
         if unat b43 * 256 + unat b44 = 1035 then map_option (\<lambda>x. x \<noteq> 0) (byte_at pds 50)
         else Some False}
       else Some False}
     else Some False}"

definition PDS_NcepENS :: "cptr \<Rightarrow> bool option" where
  "PDS_NcepENS pds = do {
     l \<leftarrow> PDS_LEN pds;
     if l \<ge> 44 then do {
       b25 \<leftarrow> byte_at pds 25;
       if b25 = 2 then map_option (\<lambda>x. x = 1) (byte_at pds 40) else Some False}
     else Some False}"

section \<open>ProductDefinitionSection\<close>

definition section_1_length :: "osterlib \<Rightarrow> cptr \<Rightarrow> nat option" where
  "section_1_length L buffer = checked_length L buffer"

interpretation sec1: length_prefixed section_1_length
  by unfold_locales
    (simp_all add: section_1_length_def checked_length_short checked_length_value,
      simp add: checked_length_def)

definition table_version :: "cptr \<Rightarrow> u8 option" where "table_version b = PDS_Vsn b"
definition center :: "cptr \<Rightarrow> u8 option" where "center b = PDS_Center b"

definition generatingProcessIdentifier :: "cptr \<Rightarrow> u8 option" where
  "generatingProcessIdentifier b = PDS_Model b"

definition grid_definition :: "cptr \<Rightarrow> u8 option" where "grid_definition b = PDS_Grid b"

definition section1Flags :: "cptr \<Rightarrow> Section2_3_flag option" where
  "section1Flags b = do {
     g \<leftarrow> PDS_HAS_GDS b;
     m \<leftarrow> PDS_HAS_BMS b;
     Some \<lparr>sec2_inc = g, sec3_inc = m\<rparr>}"

definition parameter_number :: "cptr \<Rightarrow> u8 option" where "parameter_number b = PDS_PARAM b"
definition level :: "cptr \<Rightarrow> u8 option" where "level b = PDS_L_TYPE b"
definition level1_data :: "cptr \<Rightarrow> u8 option" where "level1_data b = PDS_LEVEL1 b"
definition level2_data :: "cptr \<Rightarrow> u8 option" where "level2_data b = PDS_LEVEL2 b"

definition level_data :: "cptr \<Rightarrow> Level option" where
  "level_data b = do {
     t \<leftarrow> level b;
     l1 \<leftarrow> level1_data b;
     l2 \<leftarrow> level2_data b;
     Some (make_Level t l1 l2)}"

text \<open>The conversions to \<^verbatim>\<open>unsigned char\<close> and \<^verbatim>\<open>unsigned short\<close> of the return types.\<close>

definition subcenter :: "osterlib \<Rightarrow> cptr \<Rightarrow> u8 option" where
  "subcenter L b = map_option of_nat (PDS_Subcenter L b)"

definition month :: "cptr \<Rightarrow> u8 option" where "month b = PDS_Month b"
definition day :: "cptr \<Rightarrow> u8 option" where "day b = PDS_Day b"
definition hour :: "cptr \<Rightarrow> u8 option" where "hour b = PDS_Hour b"
definition minute :: "cptr \<Rightarrow> u8 option" where "minute b = PDS_Minute b"

definition unit_time_range :: "cptr \<Rightarrow> u8 option" where
  "unit_time_range b = PDS_ForecastTimeUnit b"

definition period1 :: "osterlib \<Rightarrow> cptr \<Rightarrow> u8 option" where
  "period1 L b = map_option of_nat (PDS_P1 L b)"

definition period2 :: "osterlib \<Rightarrow> cptr \<Rightarrow> u8 option" where
  "period2 L b = map_option of_nat (PDS_P2 L b)"

definition time_range_indicator :: "osterlib \<Rightarrow> cptr \<Rightarrow> u8 option" where
  "time_range_indicator L b = map_option of_nat (PDS_TimeRangeIndicator L b)"

definition time_forecast :: "osterlib \<Rightarrow> cptr \<Rightarrow> TimeForecast option" where
  "time_forecast L b = do {
     tf \<leftarrow> unit_time_range b;
     tri \<leftarrow> time_range_indicator L b;
     p1 \<leftarrow> period1 L b;
     p2 \<leftarrow> period2 L b;
     Some (make_TimeForecast tf tri p1 p2)}"

definition year_of_century :: "cptr \<Rightarrow> u8 option" where "year_of_century b = PDS_Year b"

definition century :: "osterlib \<Rightarrow> cptr \<Rightarrow> u8 option" where
  "century L b = map_option of_nat (PDS_Century L b)"

definition year :: "cptr \<Rightarrow> u16 option" where
  "year b = map_option word_of_int (PDS_Year4 b)"

definition decimal_scale_factor :: "osterlib \<Rightarrow> cptr \<Rightarrow> u16 option" where
  "decimal_scale_factor L b = do {
     b26 \<leftarrow> byte_at b 26;
     b27 \<leftarrow> byte_at b 27;
     Some (word_of_int (INT2 L b26 b27))}"

definition numberMissingFromAveragesOrAccumulations :: "osterlib \<Rightarrow> cptr \<Rightarrow> u16 option" where
  "numberMissingFromAveragesOrAccumulations L b = map_option of_nat (PDS_NumMissing L b)"

definition numberIncludedInAverage :: "osterlib \<Rightarrow> cptr \<Rightarrow> u8 option" where
  "numberIncludedInAverage L b = map_option word_of_int (PDS_NumAve L b)"

section \<open>verf_time\<close>

text \<open>
  The time of verification: the four variables and the return value.  The variables are assigned
  before the early return, so the record of the result is built from the section.
\<close>

definition verf_time :: "osterlib \<Rightarrow> cptr \<Rightarrow> (int \<times> calendar_time) option" where
  "verf_time L pds = do {
     y \<leftarrow> PDS_Year4 pds;
     mo \<leftarrow> PDS_Month pds;
     d \<leftarrow> PDS_Day pds;
     h \<leftarrow> PDS_Hour pds;
     let t = \<lparr>ct_year = y, ct_month = int (unat mo), ct_day = int (unat d), ct_hour = int (unat h)\<rparr>;
     p1 \<leftarrow> PDS_P1 L pds;
     tr \<leftarrow> PDS_TimeRangeIndicator L pds;
     u \<leftarrow> PDS_ForecastTimeUnit pds;
     let dtime = int p1;
     dtime \<leftarrow> (if tr = 10 then do { p2 \<leftarrow> PDS_P2 L pds; Some (int p1 * 256 + int p2) } else Some dtime);
     dtime \<leftarrow> (if tr > 1 \<and> tr < 6 then do { p2 \<leftarrow> PDS_P2 L pds; Some (int p2) } else Some dtime);
     let dtime = (if tr = 6 \<or> tr = 7 then - int p1 else dtime);
     if dtime = 0 then Some (0, t) else add_time t dtime (int (unat u))}"

section \<open>PDStimes\<close>

text \<open>
  \<^verbatim>\<open>PDStimes\<close> prints the time code; the output is the list of the strings and the decimal numbers
  that its \<^verbatim>\<open>printf\<close> calls write.  The guard of the unit table admits one index too many: 255 is
  the size of the table, and reading there is undefined.
\<close>

datatype piece = Txt string | Num int

datatype time_type = Anal | Fcst | Unknown

definition unit_name :: "int \<Rightarrow> string option" where
  "unit_name time_unit = (if time_unit \<ge> 0 \<and> time_unit \<le> int (length units)
     then (if nat time_unit < length units then Some (units ! nat time_unit) else None)
     else Some '''')"

text \<open>The units that are multiples of an hour or of a minute.\<close>

definition normal_unit :: "int \<Rightarrow> int \<Rightarrow> int \<Rightarrow> int \<times> int \<times> int" where
  "normal_unit p1 p2 time_unit =
     (if unit_is time_unit HOURS_3 then (p1 * 3, p2 * 3, unit_value HOUR)
      else if unit_is time_unit HOURS_6 then (p1 * 6, p2 * 6, unit_value HOUR)
      else if unit_is time_unit HOURS_12 then (p1 * 12, p2 * 12, unit_value HOUR)
      else if unit_is time_unit HALF_HOUR then (p1 * 30, p2 * 30, unit_value MINUTE)
      else if unit_is time_unit QUARTER_HOUR then (p1 * 15, p2 * 15, unit_value MINUTE)
      else (p1, p2, time_unit))"

definition PDS_time_type :: "int \<Rightarrow> int \<Rightarrow> int \<Rightarrow> time_type \<times> int" where
  "PDS_time_type range_code p1 p2 =
     (if range_code \<in> {0, 1, 113, 114, 118} then (if p1 = 0 then (Anal, 0) else (Fcst, p1))
      else if range_code = 10
        then (let fcst_len = p1 * 256 + p2 in (if fcst_len = 0 then Anal else Fcst, fcst_len))
      else if range_code = 51 then (Unknown, 0)
      else if range_code = 123 \<or> range_code = 124 then (Anal, 0)
      else if range_code = 135 then (Anal, 0)
      else (Unknown, 0))"

definition time_range_text :: "int \<Rightarrow> int \<Rightarrow> int \<Rightarrow> string \<Rightarrow> piece list" where
  "time_range_text range_code p1 p2 unit =
     (if range_code \<in> {0, 1, 10} then
        []
      else if range_code = 2 then
        [Txt ''valid '', Num p1, Txt ''-'', Num p2, Txt unit, Txt '':'']
      else if range_code = 3 then
        [Num p1, Txt ''-'', Num p2, Txt unit, Txt '' ave:'']
      else if range_code = 4 then
        [Num p1, Txt ''-'', Num p2, Txt unit, Txt '' acc:'']
      else if range_code = 5 then
        [Num p1, Txt ''-'', Num p2, Txt unit, Txt '' diff:'']
      else if range_code = 6 then
        [Txt ''-'', Num p1, Txt '' to -'', Num p2, Txt '' '', Txt unit, Txt '' ave:'']
      else if range_code = 7 then
        [Txt ''-'', Num p1, Txt '' to '', Num p2, Txt '' '', Txt unit, Txt '' ave:'']
      else if range_code = 11 then
        (if p1 > 0 then [Txt ''init fcst '', Num p1, Txt unit, Txt '':''] else [Txt ''time?:''])
      else if range_code = 13 then
        [Txt ''nudge ana '', Num p1, Txt unit, Txt '':'']
      else if range_code = 14 then
        [Txt ''rel. fcst '', Num p1, Txt unit, Txt '':'']
      else if range_code = 51 then
        (if p1 = 0 then [Txt ''0-'', Num p2, Txt unit, Txt '' product:ave@1yr:'']
         else if p1 = 1 then [Txt ''0-'', Num p2, Txt unit, Txt '' product:same-hour,ave@1yr:'']
         else [Txt ''clim? p1='', Num p1, Txt ''? '', Num p2, Txt unit, Txt ''?:''])
      else if range_code = 113 \<or> range_code = 123 then
        [Txt ''ave@'', Num p2, Txt unit, Txt '':'']
      else if range_code = 114 \<or> range_code = 124 then
        [Txt ''acc@'', Num p2, Txt unit, Txt '':'']
      else if range_code = 115 then
        [Txt ''ave of fcst:'', Num p1, Txt '' to '', Num p2, Txt unit, Txt '':'']
      else if range_code = 116 then
        [Txt ''acc of fcst:'', Num p1, Txt '' to '', Num p2, Txt unit, Txt '':'']
      else if range_code = 118 then
        [Txt ''var@'', Num p2, Txt unit, Txt '':'']
      else if range_code = 128 then
        [Num p1, Txt ''-'', Num p2, Txt unit, Txt '' fcst acc:ave@24hr:'']
      else if range_code = 129 then
        [Num p1, Txt ''-'', Num p2, Txt unit, Txt '' fcst acc:ave@'', Num (p2 - p1), Txt unit, Txt '':'']
      else if range_code = 130 then
        [Num p1, Txt ''-'', Num p2, Txt unit, Txt '' fcst ave:ave@24hr:'']
      else if range_code = 131 then
        [Num p1, Txt ''-'', Num p2, Txt unit, Txt '' fcst ave:ave@'', Num (p2 - p1), Txt unit, Txt '':'']
      else if range_code = 132 then
        [Num p1, Txt ''-'', Num p2, Txt unit, Txt '' anl:ave@1yr:'']
      else if range_code = 133 then
        [Num p1, Txt ''-'', Num p2, Txt unit, Txt '' fcst:ave@1yr:'']
      else if range_code = 134 then
        [Num p1, Txt ''-'', Num p2, Txt unit, Txt '' fcst-anl:rms@1yr:'']
      else if range_code = 135 then
        [Num p1, Txt ''-'', Num p2, Txt unit, Txt '' fcst-fcst_mean:rms@1yr:'']
      else if range_code = 136 then
        [Num p1, Txt ''-'', Num p2, Txt unit, Txt '' anl-anl_mean:rms@1yr:'']
      else if range_code = 137 then
        [Num p1, Txt ''-'', Num p2, Txt unit, Txt '' fcst acc:ave@6hr:'']
      else if range_code = 138 then
        [Num p1, Txt ''-'', Num p2, Txt unit, Txt '' fcst ave:ave@6hr:'']
      else if range_code = 139 then
        [Num p1, Txt ''-'', Num p2, Txt unit, Txt '' fcst acc:ave@12hr:'']
      else if range_code = 140 then
        [Num p1, Txt ''-'', Num p2, Txt unit, Txt '' fcst ave:ave@12hr:'']
      else [Txt ''time?:''])"

definition PDStimes :: "int \<Rightarrow> int \<Rightarrow> int \<Rightarrow> int \<Rightarrow> piece list option" where
  "PDStimes range_code p1 p2 time_unit = do {
     first_unit \<leftarrow> unit_name time_unit;
     let (p1, p2, time_unit) = normal_unit p1 p2 time_unit;
     unit \<leftarrow> unit_name time_unit;
     let (type, fcst_len) = PDS_time_type range_code p1 p2;
     let label = (case type of Anal \<Rightarrow> [Txt ''anl:'']
                  | Fcst \<Rightarrow> [Num fcst_len, Txt unit, Txt '' fcst:''] | Unknown \<Rightarrow> []);
     let start = (if (range_code = 123 \<or> range_code = 124) \<and> p1 \<noteq> 0
                  then [Txt ''start@'', Num p1, Txt unit, Txt '':''] else []);
     Some (label @ start @ time_range_text range_code p1 p2 unit)}"

section \<open>Facts\<close>

lemma length_units: "length units = 255"
  by (simp add: units_def)

lemma unit_name_None: "unit_name u = None \<longleftrightarrow> u = 255"
  by (auto simp: unit_name_def length_units)

lemma normal_unit_255:
  "normal_unit p1 p2 u = (a, b, c) \<Longrightarrow> c = 255 \<longleftrightarrow> u = 255"
  by (auto simp: normal_unit_def unit_value_def unit_is_def split: if_splits)

lemma PDStimes_None: "PDStimes r p1 p2 u = None \<longleftrightarrow> u = 255"
proof (cases "normal_unit p1 p2 u")
  case (fields a b c)
  then have c: "c = 255 \<longleftrightarrow> u = 255" by (rule normal_unit_255)
  show ?thesis
  proof (cases "u = 255")
    case True
    then show ?thesis using unit_name_None [of 255] by (simp add: PDStimes_def)
  next
    case False
    then obtain x y where "unit_name u = Some x" "unit_name c = Some y"
      using unit_name_None [of u] unit_name_None [of c] c by auto
    then show ?thesis using False fields by (simp add: PDStimes_def Let_def split: prod.split)
  qed
qed

text \<open>The reference time of a section, and the time between it and the time of verification.\<close>

definition reference_date :: "buffer \<Rightarrow> calendar_time" where
  "reference_date b = \<lparr>ct_year = int (unat (b ! 12)) + 100 * (int (unat (b ! 24)) - 1),
     ct_month = int (unat (b ! 13)), ct_day = int (unat (b ! 14)), ct_hour = int (unat (b ! 15))\<rparr>"

definition forecast_offset :: "nat \<Rightarrow> nat \<Rightarrow> nat \<Rightarrow> int" where
  "forecast_offset tr p1 p2 = (if tr = 10 then int (p1 * 256 + p2)
     else if 2 \<le> tr \<and> tr \<le> 5 then int p2
     else if tr = 6 \<or> tr = 7 then - int p1 else int p1)"

lemma verf_time_Some:
  assumes "lib_ok L" "25 \<le> length b"
  defines "n \<equiv> forecast_offset (unat (b ! 20)) (unat (b ! 18)) (unat (b ! 19))"
  shows "verf_time L (Some b) = (if n = 0 then Some (0, reference_date b)
    else add_time (reference_date b) n (int (unat (b ! 17))))"
  using assms(2)
  by (simp add: verf_time_def PDS_Year4_def PDS_Month_def PDS_Day_def PDS_Hour_def PDS_P1_def
      PDS_P2_def PDS_TimeRangeIndicator_def PDS_ForecastTimeUnit_def read_u_1 [OF assms(1), simplified]
      buf_simps reference_date_def n_def forecast_offset_def Let_def)

text \<open>No octets lead to an overflow in the calendar arithmetic.\<close>

lemma reference_year_bound: "\<bar>ct_year (reference_date b)\<bar> \<le> 1000000000"
proof -
  have "\<bar>int x + 100 * (int c - 1)\<bar> \<le> 1000000000" if "x < 256" "c < 256" for x c :: nat
    using that by arith
  then show ?thesis by (simp only: reference_date_def calendar_time.simps unat_u8_less)
qed

lemma unit_hours_bounds: "unit_hours u = Some k \<Longrightarrow> 1 \<le> k \<and> k \<le> 24"
  by (cases u) auto

lemma forecast_offset_bound:
  assumes "tr < 256" "p1 < 256" "p2 < 256" "unit_hours u = Some k"
  shows "\<bar>k * forecast_offset tr p1 p2\<bar> \<le> 2000000000"
proof -
  have "\<bar>forecast_offset tr p1 p2\<bar> \<le> 65535" using assms(1-3) by (auto simp: forecast_offset_def)
  then have "\<bar>k\<bar> * \<bar>forecast_offset tr p1 p2\<bar> \<le> 24 * 65535"
    using unit_hours_bounds [OF assms(4)] by (intro mult_mono) auto
  then show ?thesis by (simp add: abs_mult)
qed

section \<open>Properties\<close>

text \<open>
  C11: the time of verification of a section whose reference date is valid and whose unit counts
  hours or days is exactly the reference time plus the period the time range indicator selects:
  P1, P1 and P2 as one number for indicator 10, P2 for the ranges 2 to 5, and minus P1 for 6 and 7.
\<close>

theorem verf_time_correct:
  assumes "lib_ok L" "25 \<le> length b" "valid_time (reference_date b)"
    "unit_hours u = Some k" "b ! 17 = time_frame_code u"
  shows "\<exists>t'. verf_time L (Some b) = Some (0, t') \<and> valid_time t' \<and>
    hour_number t' = hour_number (reference_date b) +
      k * forecast_offset (unat (b ! 20)) (unat (b ! 18)) (unat (b ! 19))"
  using add_time_hour_number [OF assms(3,4) reference_year_bound
      forecast_offset_bound [OF unat_u8_less unat_u8_less unat_u8_less assms(4)],
      of "b ! 20" "b ! 18" "b ! 19"] assms(3)
  by (auto simp: verf_time_Some [OF assms(1,2)] assms(5) unit_value_def)

definition example_pds :: buffer where
  "example_pds = [0, 0, 28, 3, 98, 140, 255, 128, 11, 100, 3, 232, 24, 2, 28, 18, 0, 1, 12, 0, 0, 0, 0, 0,
     21, 0, 0, 1]"

theorem verf_time_correct_witness:
  "\<exists>t'. verf_time example_lib (Some example_pds) = Some (0, t') \<and>
     hour_number t' = hour_number \<lparr>ct_year = 2024, ct_month = 2, ct_day = 28, ct_hour = 18\<rparr> + 12"
proof -
  have r: "reference_date example_pds = \<lparr>ct_year = 2024, ct_month = 2, ct_day = 28, ct_hour = 18\<rparr>"
    by (simp add: reference_date_def example_pds_def)
  have v: "valid_time (reference_date example_pds)"
    by (simp add: r valid_time_def month_length_def leap_mod)
  have len: "25 \<le> length example_pds" and u: "example_pds ! 17 = time_frame_code HOUR"
    and h: "unit_hours HOUR = Some 1"
    by (simp_all add: example_pds_def)
  have o: "forecast_offset (unat (example_pds ! 20)) (unat (example_pds ! 18)) (unat (example_pds ! 19)) = 12"
    by (simp add: forecast_offset_def example_pds_def)
  show ?thesis
    using verf_time_correct [OF lib_ok_example len v h u] by (auto simp: r o)
qed

text \<open>
  \<^verbatim>\<open>PDStimes\<close> is defined for every argument but one: it reads past the table of unit names
  exactly when the unit is 255, the code of the indifferent unit.  An indicator of 10 is printed
  as a forecast of the two-octet period, or as an analysis when that period is zero.
\<close>

theorem PDStimes_defined:
  "(PDStimes range_code p1 p2 time_unit = None \<longleftrightarrow> time_unit = unit_value INDIFFERENT) \<and>
   PDStimes 10 p1 p2 (unit_value HOUR) = Some (if p1 * 256 + p2 = 0 then [Txt ''anl:'']
      else [Num (p1 * 256 + p2), Txt ''hr'', Txt '' fcst:''])"
proof -
  have "unit_name 1 = Some ''hr''" by (simp add: unit_name_def length_units units_def)
  then have "PDStimes 10 p1 p2 (unit_value HOUR) = Some (if p1 * 256 + p2 = 0 then [Txt ''anl:'']
      else [Num (p1 * 256 + p2), Txt ''hr'', Txt '' fcst:''])"
    by (simp add: PDStimes_def normal_unit_def unit_is_def unit_value_def PDS_time_type_def
        time_range_text_def Let_def)
  then show ?thesis by (simp add: PDStimes_None unit_value_def)
qed

text \<open>
  Three accessors return a narrower type than the field needs.  The year is exact
  unless it is negative, which a century of zero and a year below 100 make it: then it wraps around; a decimal scale factor that is
  negative in the message comes out as 65536 plus its value, never as a negative number; the count
  of averaged fields keeps only the low eight bits.
\<close>

theorem PDS_narrowing:
  assumes "lib_ok L" "28 \<le> length b"
  defines "D \<equiv> sign_magnitude [b ! 26, b ! 27]" and "N \<equiv> sign_magnitude [b ! 21, b ! 22]"
  shows "\<exists>y d n. year (Some b) = Some y \<and> decimal_scale_factor L (Some b) = Some d \<and>
     numberIncludedInAverage L (Some b) = Some n \<and>
     int (unat y) = (if b ! 24 = 0 \<and> b ! 12 < 100 then 65436 + int (unat (b ! 12))
       else int (unat (b ! 12)) + 100 * (int (unat (b ! 24)) - 1)) \<and>
     int (unat d) = (if D < 0 then 65536 + D else D) \<and>
     int (unat n) = N mod 256"
proof -
  let ?y = "int (unat (b ! 12)) + 100 * (int (unat (b ! 24)) - 1)"
  have year: "year (Some b) = Some (word_of_int ?y)"
    using assms(2) by (simp add: year_def PDS_Year4_def buf_simps)
  have dec: "decimal_scale_factor L (Some b) = Some (word_of_int D)"
    using assms(2) lib_okD(3) [OF assms(1)] by (simp add: decimal_scale_factor_def buf_simps D_def)
  have num: "numberIncludedInAverage L (Some b) = Some (word_of_int N)"
    using assms(2) by (simp add: numberIncludedInAverage_def PDS_NumAve_def read_s_Some [OF assms(1)]
        take_2_drop N_def)
  have wrap: "k mod 65536 = (if k < 0 then 65536 + k else k)" if "- 65536 \<le> k" "k < 65536" for k :: int
    using that mod_pos_pos_trivial [of k 65536] mod_pos_pos_trivial [of "k + 65536" 65536] by simp
  have y: "?y mod 65536 = (if b ! 24 = 0 \<and> b ! 12 < 100 then 65436 + int (unat (b ! 12)) else ?y)"
  proof -
    have neg: "?y < 0 \<longleftrightarrow> b ! 24 = 0 \<and> b ! 12 < 100"
    proof -
      have u: "b ! 24 = 0 \<longleftrightarrow> unat (b ! 24) = 0" "b ! 12 < 100 \<longleftrightarrow> unat (b ! 12) < 100"
        by (simp_all add: unat_eq_0 word_less_nat_alt)
      have "int y + 100 * (int c - 1) < 0 \<longleftrightarrow> c = 0 \<and> y < 100" for y c :: nat by arith
      then show ?thesis unfolding u .
    qed
    have bounds: "- 65536 \<le> int y + 100 * (int c - 1)" "int y + 100 * (int c - 1) < 65536"
      if "y \<le> 255" "c \<le> 255" for y c :: nat
      using that by simp_all
    have "- 65536 \<le> ?y" "?y < 65536"
      by (rule bounds; rule unat_u8_le)+
    from wrap [OF this] show ?thesis using neg by auto
  qed
  have d: "D mod 65536 = (if D < 0 then 65536 + D else D)"
    using sign_magnitude_2 [of "b ! 26" "b ! 27"] by (intro wrap) (simp_all add: D_def abs_less_iff)
  show ?thesis
    using year dec num unat_word_of_int [of ?y, where 'a = 16] unat_word_of_int [of D, where 'a = 16]
      unat_word_of_int [of N, where 'a = 8] y d by auto
qed

theorem PDS_narrowing_witness:
  "\<exists>d. decimal_scale_factor example_lib (Some (take 26 example_pds @ [128, 2])) = Some d \<and>
     int (unat d) = 65534"
proof -
  let ?b = "take 26 example_pds @ [128, 2]"
  have "28 \<le> length ?b" by (simp add: example_pds_def)
  from PDS_narrowing [OF lib_ok_example this] show ?thesis
    by (auto simp: example_pds_def sign_magnitude_def be_nat_Cons)
qed

end
