(* ===== verification/Gds.thy ===== *)
theory Gds
  imports Sections Floating
begin

text \<open>
  Section 2, the grid description section: the field accessors of \<^verbatim>\<open>sections/grid/def.h\<close> and the
  methods of \<^verbatim>\<open>GridDescriptionSection\<close> (\<^verbatim>\<open>sections/section_2.cpp\<close>).
\<close>

section \<open>Field accessors\<close>

definition INT2_at :: "osterlib \<Rightarrow> cptr \<Rightarrow> nat \<Rightarrow> int option" where
  "INT2_at L p i = do {
     a \<leftarrow> byte_at p i;
     b \<leftarrow> byte_at p (i + 1);
     Some (INT2 L a b)}"

definition INT3_at :: "osterlib \<Rightarrow> cptr \<Rightarrow> nat \<Rightarrow> int option" where
  "INT3_at L p i = do {
     a \<leftarrow> byte_at p i;
     b \<leftarrow> byte_at p (i + 1);
     c \<leftarrow> byte_at p (i + 2);
     Some (INT3 L a b c)}"

definition GDS_LEN :: "osterlib \<Rightarrow> cptr \<Rightarrow> nat option" where
  "GDS_LEN L ptr = read_u L ptr 0 3"

definition GDS_NV :: "cptr \<Rightarrow> u8 option" where
  "GDS_NV ptr = byte_at ptr 3"

definition GDS_DataType :: "cptr \<Rightarrow> u8 option" where
  "GDS_DataType ptr = byte_at ptr 5"

definition GDS_LatLon :: "cptr \<Rightarrow> bool option" where
  "GDS_LatLon ptr = map_option (\<lambda>b. b = representation_code LAT_LON_GRID_EQUIDIST_CYLINDR) (byte_at ptr 5)"

definition GDS_Mercator :: "cptr \<Rightarrow> bool option" where
  "GDS_Mercator ptr = map_option (\<lambda>b. b = representation_code MERCATOR) (byte_at ptr 5)"

definition GDS_Gnomonic :: "cptr \<Rightarrow> bool option" where
  "GDS_Gnomonic ptr = map_option (\<lambda>b. b = representation_code GNOMONIC) (byte_at ptr 5)"

definition GDS_Lambert :: "cptr \<Rightarrow> bool option" where
  "GDS_Lambert ptr = map_option (\<lambda>b. b = representation_code LAMBERT) (byte_at ptr 5)"

definition GDS_Gaussian :: "cptr \<Rightarrow> bool option" where
  "GDS_Gaussian ptr = map_option (\<lambda>b. b = representation_code GAUSSIAN) (byte_at ptr 5)"

definition GDS_Polar :: "cptr \<Rightarrow> bool option" where
  "GDS_Polar ptr = map_option (\<lambda>b. b = representation_code POLAR_STEREOGRAPH_PROJ) (byte_at ptr 5)"

definition GDS_Albers :: "cptr \<Rightarrow> bool option" where
  "GDS_Albers ptr = map_option (\<lambda>b. b = representation_code ALBERS_EQUAL_AREA) (byte_at ptr 5)"

definition GDS_RotLL :: "cptr \<Rightarrow> bool option" where
  "GDS_RotLL ptr = map_option (\<lambda>b. b = representation_code ROTATED_LAT_LON) (byte_at ptr 5)"

definition GDS_Harmonic :: "cptr \<Rightarrow> bool option" where
  "GDS_Harmonic ptr = map_option (\<lambda>b. b = representation_code SPHERICAL_HARMONIC_COEFFICIENTS) (byte_at ptr 5)"

definition GDS_Triangular :: "cptr \<Rightarrow> bool option" where
  "GDS_Triangular ptr = map_option (\<lambda>b. b = 192) (byte_at ptr 5)"

definition GDS_ssEgrid :: "cptr \<Rightarrow> bool option" where
  "GDS_ssEgrid ptr = map_option (\<lambda>b. b = 201) (byte_at ptr 5)"

definition GDS_fEgrid :: "cptr \<Rightarrow> bool option" where
  "GDS_fEgrid ptr = map_option (\<lambda>b. b = 202) (byte_at ptr 5)"

definition GDS_ss2dEgrid :: "cptr \<Rightarrow> bool option" where
  "GDS_ss2dEgrid ptr = map_option (\<lambda>b. b = 203) (byte_at ptr 5)"

definition GDS_ss2dBgrid :: "cptr \<Rightarrow> bool option" where
  "GDS_ss2dBgrid ptr = map_option (\<lambda>b. b = 205) (byte_at ptr 5)"

definition GDS_LatLon_nx :: "osterlib \<Rightarrow> cptr \<Rightarrow> nat option" where
  "GDS_LatLon_nx L ptr = read_u L ptr 6 2"

definition GDS_LatLon_ny :: "osterlib \<Rightarrow> cptr \<Rightarrow> nat option" where
  "GDS_LatLon_ny L ptr = read_u L ptr 8 2"

definition GDS_LatLon_La1 :: "osterlib \<Rightarrow> cptr \<Rightarrow> int option" where
  "GDS_LatLon_La1 L ptr = INT3_at L ptr 10"

definition GDS_LatLon_Lo1 :: "osterlib \<Rightarrow> cptr \<Rightarrow> int option" where
  "GDS_LatLon_Lo1 L ptr = INT3_at L ptr 13"

definition GDS_LatLon_mode :: "cptr \<Rightarrow> u8 option" where
  "GDS_LatLon_mode ptr = byte_at ptr 16"

definition GDS_LatLon_La2 :: "osterlib \<Rightarrow> cptr \<Rightarrow> int option" where
  "GDS_LatLon_La2 L ptr = INT3_at L ptr 17"

definition GDS_LatLon_Lo2 :: "osterlib \<Rightarrow> cptr \<Rightarrow> int option" where
  "GDS_LatLon_Lo2 L ptr = INT3_at L ptr 20"

definition GDS_LatLon_dx :: "osterlib \<Rightarrow> cptr \<Rightarrow> int option" where
  "GDS_LatLon_dx L ptr = do {
     m \<leftarrow> GDS_LatLon_mode ptr;
     if m \<noteq> 0 then INT2_at L ptr 23 else Some 0}"

definition GDS_LatLon_dy :: "osterlib \<Rightarrow> cptr \<Rightarrow> int option" where
  "GDS_LatLon_dy L ptr = do {
     m \<leftarrow> GDS_LatLon_mode ptr;
     if m \<noteq> 0 then INT2_at L ptr 25 else Some 0}"

definition GDS_Gaussian_nlat :: "osterlib \<Rightarrow> cptr \<Rightarrow> nat option" where
  "GDS_Gaussian_nlat L ptr = read_u L ptr 25 2"

definition GDS_LatLon_scan :: "cptr \<Rightarrow> u8 option" where
  "GDS_LatLon_scan ptr = byte_at ptr 27"

definition GDS_Polar_nx :: "osterlib \<Rightarrow> cptr \<Rightarrow> nat option" where
  "GDS_Polar_nx L ptr = do {
     m \<leftarrow> byte_at ptr 16;
     if m AND 128 \<noteq> 0 then read_u L ptr 6 2 else Some 0}"

definition GDS_Polar_ny :: "osterlib \<Rightarrow> cptr \<Rightarrow> nat option" where
  "GDS_Polar_ny L ptr = do {
     m \<leftarrow> byte_at ptr 16;
     if m AND 128 \<noteq> 0 then read_u L ptr 8 2 else Some 0}"

definition GDS_Polar_La1 :: "osterlib \<Rightarrow> cptr \<Rightarrow> int option" where
  "GDS_Polar_La1 L ptr = INT3_at L ptr 10"

definition GDS_Polar_Lo1 :: "osterlib \<Rightarrow> cptr \<Rightarrow> int option" where
  "GDS_Polar_Lo1 L ptr = INT3_at L ptr 13"

definition GDS_Polar_mode :: "cptr \<Rightarrow> u8 option" where
  "GDS_Polar_mode ptr = byte_at ptr 16"

definition GDS_Polar_LoV :: "osterlib \<Rightarrow> cptr \<Rightarrow> int option" where
  "GDS_Polar_LoV L ptr = INT3_at L ptr 17"

definition GDS_Polar_scan :: "cptr \<Rightarrow> u8 option" where
  "GDS_Polar_scan ptr = byte_at ptr 27"

definition GDS_Polar_Dx :: "osterlib \<Rightarrow> cptr \<Rightarrow> int option" where
  "GDS_Polar_Dx L ptr = INT3_at L ptr 20"

definition GDS_Polar_Dy :: "osterlib \<Rightarrow> cptr \<Rightarrow> int option" where
  "GDS_Polar_Dy L ptr = INT3_at L ptr 23"

definition GDS_Polar_pole :: "cptr \<Rightarrow> bool option" where
  "GDS_Polar_pole ptr = map_option (\<lambda>b. b AND 128 = 0) (byte_at ptr 26)"

definition GDS_Lambert_nx :: "osterlib \<Rightarrow> cptr \<Rightarrow> nat option" where
  "GDS_Lambert_nx L ptr = read_u L ptr 6 2"

definition GDS_Lambert_ny :: "osterlib \<Rightarrow> cptr \<Rightarrow> nat option" where
  "GDS_Lambert_ny L ptr = read_u L ptr 8 2"

definition GDS_Lambert_La1 :: "osterlib \<Rightarrow> cptr \<Rightarrow> int option" where
  "GDS_Lambert_La1 L ptr = INT3_at L ptr 10"

definition GDS_Lambert_Lo1 :: "osterlib \<Rightarrow> cptr \<Rightarrow> int option" where
  "GDS_Lambert_Lo1 L ptr = INT3_at L ptr 13"

definition GDS_Lambert_mode :: "osterlib \<Rightarrow> cptr \<Rightarrow> nat option" where
  "GDS_Lambert_mode L ptr = read_u L ptr 16 1"

definition GDS_Lambert_Lov :: "osterlib \<Rightarrow> cptr \<Rightarrow> int option" where
  "GDS_Lambert_Lov L ptr = INT3_at L ptr 17"

definition GDS_Lambert_dx :: "osterlib \<Rightarrow> cptr \<Rightarrow> int option" where
  "GDS_Lambert_dx L ptr = INT3_at L ptr 20"

definition GDS_Lambert_dy :: "osterlib \<Rightarrow> cptr \<Rightarrow> int option" where
  "GDS_Lambert_dy L ptr = INT3_at L ptr 23"

definition GDS_Lambert_NP :: "cptr \<Rightarrow> bool option" where
  "GDS_Lambert_NP ptr = map_option (\<lambda>b. b AND 128 = 0) (byte_at ptr 26)"

definition GDS_Lambert_BP :: "cptr \<Rightarrow> bool option" where
  "GDS_Lambert_BP ptr = map_option (\<lambda>b. b AND 64 = 1) (byte_at ptr 26)"

definition GDS_Lambert_scan :: "cptr \<Rightarrow> u8 option" where
  "GDS_Lambert_scan ptr = byte_at ptr 27"

definition GDS_Lambert_Latin1 :: "osterlib \<Rightarrow> cptr \<Rightarrow> int option" where
  "GDS_Lambert_Latin1 L ptr = INT3_at L ptr 28"

definition GDS_Lambert_Latin2 :: "osterlib \<Rightarrow> cptr \<Rightarrow> int option" where
  "GDS_Lambert_Latin2 L ptr = INT3_at L ptr 31"

definition GDS_Lambert_LatSP :: "osterlib \<Rightarrow> cptr \<Rightarrow> int option" where
  "GDS_Lambert_LatSP L ptr = INT3_at L ptr 34"

definition GDS_Lambert_LonSP :: "osterlib \<Rightarrow> cptr \<Rightarrow> int option" where
  "GDS_Lambert_LonSP L ptr = INT3_at L ptr 37"

definition GDS_ssEgrid_n :: "osterlib \<Rightarrow> cptr \<Rightarrow> nat option" where
  "GDS_ssEgrid_n L ptr = read_u L ptr 6 2"

definition GDS_Merc_nx :: "osterlib \<Rightarrow> cptr \<Rightarrow> nat option" where
  "GDS_Merc_nx L ptr = read_u L ptr 6 2"

definition GDS_Merc_ny :: "osterlib \<Rightarrow> cptr \<Rightarrow> nat option" where
  "GDS_Merc_ny L ptr = read_u L ptr 8 2"

definition GDS_Merc_La1 :: "osterlib \<Rightarrow> cptr \<Rightarrow> int option" where
  "GDS_Merc_La1 L ptr = INT3_at L ptr 10"

definition GDS_Merc_Lo1 :: "osterlib \<Rightarrow> cptr \<Rightarrow> int option" where
  "GDS_Merc_Lo1 L ptr = INT3_at L ptr 13"

definition GDS_Merc_mode :: "cptr \<Rightarrow> ResolutionComponentFlags option" where
  "GDS_Merc_mode ptr = map_option make_ResolutionComponentFlags (byte_at ptr 16)"

definition GDS_Merc_La2 :: "osterlib \<Rightarrow> cptr \<Rightarrow> int option" where
  "GDS_Merc_La2 L ptr = INT3_at L ptr 17"

definition GDS_Merc_Lo2 :: "osterlib \<Rightarrow> cptr \<Rightarrow> int option" where
  "GDS_Merc_Lo2 L ptr = INT3_at L ptr 20"

definition GDS_Merc_Latin :: "osterlib \<Rightarrow> cptr \<Rightarrow> int option" where
  "GDS_Merc_Latin L ptr = INT3_at L ptr 23"

definition GDS_Merc_scan :: "cptr \<Rightarrow> ScanMode option" where
  "GDS_Merc_scan ptr = map_option make_ScanMode (byte_at ptr 27)"

definition GDS_Merc_dx :: "osterlib \<Rightarrow> cptr \<Rightarrow> int option" where
  "GDS_Merc_dx L ptr = do {
     m \<leftarrow> byte_at ptr 16;
     if m AND 128 \<noteq> 0 then INT3_at L ptr 28 else Some 0}"

definition GDS_Merc_dy :: "osterlib \<Rightarrow> cptr \<Rightarrow> int option" where
  "GDS_Merc_dy L ptr = do {
     m \<leftarrow> byte_at ptr 16;
     if m AND 128 \<noteq> 0 then INT3_at L ptr 31 else Some 0}"

definition GDS_Harmonic_nj :: "osterlib \<Rightarrow> cptr \<Rightarrow> nat option" where
  "GDS_Harmonic_nj L ptr = read_u L ptr 6 2"

definition GDS_Harmonic_nk :: "osterlib \<Rightarrow> cptr \<Rightarrow> nat option" where
  "GDS_Harmonic_nk L ptr = read_u L ptr 8 2"

definition GDS_Harmonic_nm :: "osterlib \<Rightarrow> cptr \<Rightarrow> nat option" where
  "GDS_Harmonic_nm L ptr = read_u L ptr 10 2"

definition GDS_Harmonic_type :: "cptr \<Rightarrow> u8 option" where
  "GDS_Harmonic_type ptr = byte_at ptr 12"

definition GDS_Harmonic_mode :: "cptr \<Rightarrow> u8 option" where
  "GDS_Harmonic_mode ptr = byte_at ptr 13"

definition GDS_PV :: "cptr \<Rightarrow> int option" where
  "GDS_PV gds = do {
     n \<leftarrow> byte_at gds 3;
     if n = 0 then Some (- 1) else map_option (\<lambda>b. int (unat b) - 1) (byte_at gds 4)}"

definition GDS_PL :: "cptr \<Rightarrow> int option" where
  "GDS_PL gds = do {
     b \<leftarrow> byte_at gds 4;
     if b = 255 then Some (- 1)
     else map_option (\<lambda>n. int (unat n) * 4 + int (unat b) - 1) (byte_at gds 3)}"

section \<open>GridDescriptionSection\<close>

definition section_2_length :: "osterlib \<Rightarrow> cptr \<Rightarrow> nat option" where
  "section_2_length L buf = checked_length L buf"

interpretation sec2: length_prefixed section_2_length
  by unfold_locales
    (simp_all add: section_2_length_def checked_length_short checked_length_value,
      simp add: checked_length_def)

definition get_representation_type :: "cptr \<Rightarrow> u8 option" where
  "get_representation_type buf = byte_at buf 5"

definition get_number_vertical_coord_values :: "cptr \<Rightarrow> u8 option" where
  "get_number_vertical_coord_values buf = GDS_NV buf"

text \<open>The \<^verbatim>\<open>unsigned long\<close> return type turns a missing position into its largest value.\<close>

definition get_PV :: "cptr \<Rightarrow> u64 option" where
  "get_PV buf = map_option word_of_int (GDS_PV buf)"

definition get_PL :: "cptr \<Rightarrow> u64 option" where
  "get_PL buf = map_option word_of_int (GDS_PL buf)"

text \<open>
  The switch value of \<^verbatim>\<open>nxny\<close>, \<^verbatim>\<open>nx\<close> and \<^verbatim>\<open>ny\<close>: the representation type when the table of table 6
  knows it, and minus one (\<^term>\<open>None\<close> inside) otherwise.
\<close>

definition known_representation :: "cptr \<Rightarrow> RepresentationType option option" where
  "known_representation buf = do {
     t \<leftarrow> get_representation_type buf;
     k \<leftarrow> table_at is_representation t;
     Some (if k \<noteq> 0 then representation t else None)}"

text \<open>The points of a reduced grid: the sum of the two-byte row lengths at position \<open>pl\<close>.\<close>

primrec sum_rows :: "cptr \<Rightarrow> int \<Rightarrow> nat \<Rightarrow> int option" where
  "sum_rows buf pl 0 = Some 0"
| "sum_rows buf pl (Suc i) = do {
     isum \<leftarrow> sum_rows buf pl i;
     let j = pl + int i * 2;
     if j < 0 then None
     else do {
       a \<leftarrow> byte_at buf (nat j);
       b \<leftarrow> byte_at buf (nat j + 1);
       Some (isum + int (unat a) * 256 + int (unat b))}}"

text \<open>
  \<^verbatim>\<open>long int nxny = ix * iy\<close> is a product of two \<^verbatim>\<open>int\<close>s, computed before anything else and never
  used; it overflows for dimensions whose product is not an \<^verbatim>\<open>int\<close>.
\<close>

definition regular_points :: "osterlib \<Rightarrow> cptr \<Rightarrow> int outcome option" where
  "regular_points L buf = do {
     ix \<leftarrow> GDS_LatLon_nx L buf;
     iy \<leftarrow> GDS_LatLon_ny L buf;
     product \<leftarrow> c_int (int ix * int iy);
     g \<leftarrow> GDS_Gaussian buf;
     l \<leftarrow> GDS_LatLon buf;
     if g \<or> l then
       if ix = 65535 then do {
         pl \<leftarrow> GDS_PL buf;
         isum \<leftarrow> sum_rows buf pl iy;
         Some (Ret isum)}
       else Some (Ret 0)
     else Some (Exit 1)}"

definition switch_representation :: "RepresentationType option \<Rightarrow> int outcome option \<Rightarrow> int outcome option" where
  "switch_representation t regular = (case t of
       None \<Rightarrow> Some (Exit 1)
     | Some ALBERS_EQUAL_AREA \<Rightarrow> Some (Exit 1)
     | Some ROTATED_GAUSSIAN_LAT_LON \<Rightarrow> Some (Exit 1)
     | Some STRETCHED_GAUSSIAN_LAT_LON \<Rightarrow> Some (Exit 1)
     | Some STRETCHED_ROTATED_GAUSSIAN_LAT_LON \<Rightarrow> Some (Exit 1)
     | Some ROTATED_LAT_LON \<Rightarrow> Some (Exit 1)
     | Some STRETCHED_LAT_LON \<Rightarrow> Some (Exit 1)
     | Some STRETCHED_AND_ROTATED_LAT_LON \<Rightarrow> Some (Exit 1)
     | Some LAMBERT \<Rightarrow> Some (Exit 1)
     | Some MERCATOR \<Rightarrow> Some (Exit 1)
     | Some MILLERS_CYLINDR \<Rightarrow> Some (Exit 1)
     | Some OBLIQUE_LAMBERT_CONFORMAL \<Rightarrow> Some (Exit 1)
     | Some POLAR_STEREOGRAPH_PROJ \<Rightarrow> Some (Exit 1)
     | Some SIMPLE_POLYCONIC \<Rightarrow> Some (Exit 1)
     | Some GNOMONIC \<Rightarrow> Some (Exit 1)
     | Some ROTATED_SPHERICAL_HARMONIC_COEFFICIENTS \<Rightarrow> Some (Exit 1)
     | Some UTM \<Rightarrow> Some (Exit 1)
     | Some STRETCHED_SPHERICAL_HARMONIC_COEFFICIENTS \<Rightarrow> Some (Exit 1)
     | Some SPACE_VIEW \<Rightarrow> Some (Exit 1)
     | Some STRETCHED_ROTATED_SPHERICAL_HARMONIC_COEFFICIENTS \<Rightarrow> Some (Exit 1)
     | Some SPHERICAL_HARMONIC_COEFFICIENTS \<Rightarrow> Some (Exit 1)
     | Some LAT_LON_GRID_EQUIDIST_CYLINDR \<Rightarrow> regular
     | Some GAUSSIAN \<Rightarrow> regular
     | Some UNDEF_GRID \<Rightarrow> Some (Exit 1))"

definition nxny :: "osterlib \<Rightarrow> cptr \<Rightarrow> int outcome option" where
  "nxny L buf = do {
     t \<leftarrow> known_representation buf;
     switch_representation t (regular_points L buf)}"

definition nx :: "osterlib \<Rightarrow> cptr \<Rightarrow> int outcome option" where
  "nx L buf = do {
     t \<leftarrow> known_representation buf;
     switch_representation t (map_option (\<lambda>n. Ret (int n)) (GDS_LatLon_nx L buf))}"

definition ny :: "osterlib \<Rightarrow> cptr \<Rightarrow> int outcome option" where
  "ny L buf = do {
     t \<leftarrow> known_representation buf;
     switch_representation t (map_option (\<lambda>n. Ret (int n)) (GDS_LatLon_ny L buf))}"

section \<open>Facts\<close>

lemma INT2_at_Some:
  "lib_ok L \<Longrightarrow> INT2_at L (Some b) i =
     (if i + 1 < length b then Some (sign_magnitude [b ! i, b ! (i + 1)]) else None)"
  by (auto simp: INT2_at_def buf_simps lib_okD)

lemma INT3_at_Some:
  "lib_ok L \<Longrightarrow> INT3_at L (Some b) i =
     (if i + 2 < length b then Some (sign_magnitude [b ! i, b ! (i + 1), b ! (i + 2)]) else None)"
  by (auto simp: INT3_at_def buf_simps lib_okD)

lemma length_is_representation: "length is_representation = 255"
  by (simp add: is_representation_def)

text \<open>A byte below 255 is known to the table exactly if it is the code of an enumerator.\<close>

lemma is_representation_codes:
  "is_representation = map (\<lambda>c. if c \<in> set [0, 1, 2, 3, 4, 5, 6, 7, 8, 9, 10, 13, 14, 20, 24, 30, 34,
     50, 60, 70, 80, 90] then 1 else 0) [0..<255]"
  by code_simp

lemma representation_code_list:
  "c \<noteq> 255 \<Longrightarrow> unat c \<in> set [0, 1, 2, 3, 4, 5, 6, 7, 8, 9, 10, 13, 14, 20, 24, 30, 34, 50, 60, 70, 80, 90]
     \<longleftrightarrow> representation c \<noteq> None"
proof -
  assume c: "c \<noteq> 255"
  have "representation c \<noteq> None \<longleftrightarrow> c \<in> range representation_code"
    by (simp add: representation_def rep.enum_of_None)
  also have "\<dots> \<longleftrightarrow> c \<in> set (map representation_code all_representations)"
    using rep.elems_all by auto
  also have "\<dots> \<longleftrightarrow> c \<in> set [0, 1, 2, 3, 4, 5, 6, 7, 8, 9, 10, 13, 14, 20, 24, 30, 34, 50, 60, 70, 80, 90]"
    using c by (simp add: all_representations_def)
  also have "\<dots> \<longleftrightarrow> unat c \<in> set [0, 1, 2, 3, 4, 5, 6, 7, 8, 9, 10, 13, 14, 20, 24, 30, 34, 50, 60, 70, 80, 90]"
    by (simp add: word_unat_eq_iff)
  finally show ?thesis by blast
qed

lemma known_representation_Some:
  assumes "5 < length b"
  shows "known_representation (Some b) =
    (if b ! 5 = 255 then None else Some (representation (b ! 5)))"
proof (cases "b ! 5 = 255")
  case True
  then show ?thesis
    using assms
    by (simp add: known_representation_def get_representation_type_def buf_simps table_at_def
        length_is_representation)
next
  case False
  then have lt: "unat (b ! 5) < 255"
    by (rule unat_u8_less_255)
  then have "is_representation ! unat (b ! 5) \<noteq> 0 \<longleftrightarrow> representation (b ! 5) \<noteq> None"
    using representation_code_list [OF False] by (subst is_representation_codes) simp
  then show ?thesis
    using assms False lt
    by (auto simp: known_representation_def get_representation_type_def buf_simps table_at_def
        length_is_representation)
qed

lemma sum_rows_Some:
  "sum_rows (Some b) pl n = (if n = 0 then Some 0
     else if 0 \<le> pl \<and> nat pl + 2 * n \<le> length b
       then Some (\<Sum>i<n. int (be_nat [b ! (nat pl + 2 * i), b ! (nat pl + 2 * i + 1)]))
     else None)"
proof (induction n)
  case 0
  then show ?case by simp
next
  case (Suc n)
  show ?case
  proof (cases "pl < 0")
    case True
    then show ?thesis using Suc by (cases n) (simp_all add: Let_def)
  next
    case False
    then have j: "nat (pl + int n * 2) = nat pl + 2 * n" by simp
    have v: "int (be_nat [x, y]) = int (unat x) * 256 + int (unat y)" for x y
      by (simp add: be_nat_Cons)
    show ?thesis
      unfolding sum_rows.simps(2) Suc.IH j Let_def using False
      by (cases "n = 0") (auto simp: buf_simps v)
  qed
qed

section \<open>Properties\<close>

text \<open>
  C13: the number of points of a grid description.  For latitude and longitude grids and for
  Gaussian grids it is the sum of the row lengths when the grid is reduced (65535 points along a
  parallel), read out of bounds when the list of rows does not lie inside the section's memory,
  and zero, not the product of the two dimensions, when the grid is regular.  Both are undefined
  when the product of the dimensions, which the code computes in an \<^verbatim>\<open>int\<close> and does not use, is
  not an \<^verbatim>\<open>int\<close>: a reduced grid has at most 32768 rows.  Every other representation ends the
  process with exit code one, and the code 255 reads past the table.
\<close>

theorem nxny_values:
  assumes "lib_ok L" "10 \<le> length b"
  defines "n \<equiv> be_nat [b ! 8, b ! 9]" and "pl \<equiv> int (unat (b ! 3)) * 4 + int (unat (b ! 4)) - 1"
  shows "nxny L (Some b) =
    (if b ! 5 = 255 then None
     else if b ! 5 \<noteq> representation_code LAT_LON_GRID_EQUIDIST_CYLINDR \<and>
             b ! 5 \<noteq> representation_code GAUSSIAN then Some (Exit 1)
     else if 2147483647 < be_nat [b ! 6, b ! 7] * n then None
     else if be_nat [b ! 6, b ! 7] \<noteq> 65535 then Some (Ret 0)
     else if n = 0 then Some (Ret 0)
     else if b ! 4 \<noteq> 255 \<and> 0 \<le> pl \<and> nat pl + 2 * n \<le> length b
       then Some (Ret (\<Sum>i<n. int (be_nat [b ! (nat pl + 2 * i), b ! (nat pl + 2 * i + 1)])))
     else None)"
proof -
  have nx: "GDS_LatLon_nx L (Some b) = Some (be_nat [b ! 6, b ! 7])"
    "GDS_LatLon_ny L (Some b) = Some n"
    using assms(2) take_2_drop [of 6 b] take_2_drop [of 8 b]
    by (simp_all add: GDS_LatLon_nx_def GDS_LatLon_ny_def read_u_Some [OF assms(1)] n_def)
  have pl: "GDS_PL (Some b) = Some (if b ! 4 = 255 then - 1 else pl)"
    using assms(2) by (simp add: GDS_PL_def buf_simps pl_def)
  have g: "GDS_Gaussian (Some b) = Some (b ! 5 = 4)" "GDS_LatLon (Some b) = Some (b ! 5 = 0)"
    using assms(2) by (simp_all add: GDS_Gaussian_def GDS_LatLon_def buf_simps)
  have known: "known_representation (Some b) = (if b ! 5 = 255 then None else Some (representation (b ! 5)))"
    using assms(2) by (intro known_representation_Some) simp
  have switch: "switch_representation (representation c) r =
      (if c = 0 \<or> c = 4 then r else Some (Exit 1))" for c r
  proof (cases "representation c")
    case None
    then have "c \<noteq> representation_code LAT_LON_GRID_EQUIDIST_CYLINDR" "c \<noteq> representation_code GAUSSIAN"
      by (metis option.distinct(1) rep.enum_of_code representation_def)+
    then show ?thesis using None by (simp add: switch_representation_def)
  next
    case (Some t)
    then have "c = representation_code t" by (simp add: representation_def rep.enum_of_iff)
    then show ?thesis using Some by (cases t) (simp_all add: switch_representation_def)
  qed
  have product: "c_int (int x * int n) = (if 2147483647 < x * n then None else Some (int (x * n)))" for x
    by (auto simp: c_int_def simp flip: of_nat_mult)
  show ?thesis
    by (auto simp: nxny_def known switch regular_points_def nx g pl sum_rows_Some product
        simp del: of_nat_mult)
qed

text \<open>
  A regular grid of 360 by 181 points, a reduced one of two rows of 18 and 25 points, and a regular
  one of 50000 by 50000 points.
\<close>

definition example_gds :: buffer where
  "example_gds = [0, 0, 32, 0, 255, 0, 1, 104, 0, 181, 1, 95, 144, 0, 0, 0, 128, 129, 95, 144, 5, 121,
     216, 3, 232, 3, 232, 0, 0, 0, 0, 0]"

definition example_reduced_gds :: buffer where
  "example_reduced_gds = [0, 0, 32, 0, 33, 4, 255, 255, 0, 2, 1, 95, 144, 0, 0, 0, 128, 129, 95, 144,
     5, 121, 216, 3, 232, 3, 232, 0, 0, 0, 0, 0, 0, 18, 0, 25]"

definition example_large_gds :: buffer where
  "example_large_gds = [0, 0, 32, 0, 255, 0, 195, 80, 195, 80, 1, 95, 144, 0, 0, 0, 128, 129, 95, 144, 5,
     121, 216, 3, 232, 3, 232, 0, 0, 0, 0, 0]"

theorem nxny_values_witness:
  "nxny example_lib (Some example_gds) = Some (Ret 0) \<and>
   nxny example_lib (Some example_reduced_gds) = Some (Ret 43) \<and>
   nxny example_lib (Some example_large_gds) = None"
proof (intro conjI)
  have len: "10 \<le> length example_gds" "10 \<le> length example_reduced_gds" "10 \<le> length example_large_gds"
    by (simp_all add: example_gds_def example_reduced_gds_def example_large_gds_def)
  show "nxny example_lib (Some example_gds) = Some (Ret 0)"
    using nxny_values [OF lib_ok_example len(1)] by (simp add: example_gds_def be_nat_Cons)
  show "nxny example_lib (Some example_reduced_gds) = Some (Ret 43)"
    using nxny_values [OF lib_ok_example len(2)]
    by (simp add: example_reduced_gds_def be_nat_Cons lessThan_nat_numeral lessThan_Suc)
  show "nxny example_lib (Some example_large_gds) = None"
    using nxny_values [OF lib_ok_example len(3)] by (simp add: example_large_gds_def be_nat_Cons)
qed

end
