(* ===== verification/Bitmap_Binary.thy ===== *)
theory Bitmap_Binary
  imports Sections Floating
begin

text \<open>
  Section 3, the bit map (\<^verbatim>\<open>sections/section_3.cpp\<close>, \<^verbatim>\<open>sections/bitmap\<close>), and section 4, the
  binary data (\<^verbatim>\<open>sections/section_4.h\<close>, \<^verbatim>\<open>sections/binary/def.h\<close>): their fields, the count of the
  missing points of a bit map, and the flags of the data section.
\<close>

section \<open>BitMapSection\<close>

definition BMS_LEN :: "cptr \<Rightarrow> int option" where
  "BMS_LEN bms = (if bms = None then Some 0
     else do {
       b0 \<leftarrow> byte_at bms 0;
       b1 \<leftarrow> byte_at bms 1;
       b2 \<leftarrow> byte_at bms 2;
       Some (push_bit 16 (int (unat b0)) + push_bit 8 (int (unat b1)) + int (unat b2))})"

definition BMS_UnusedBits :: "cptr \<Rightarrow> int option" where
  "BMS_UnusedBits bms = (if bms = None then Some 0 else map_option (\<lambda>b. int (unat b)) (byte_at bms 3))"

definition BMS_StdMap :: "cptr \<Rightarrow> int option" where
  "BMS_StdMap bms = (if bms = None then Some 0
     else do {
       a \<leftarrow> byte_at bms 4;
       b \<leftarrow> byte_at bms 5;
       Some (push_bit 8 (int (unat a)) + int (unat b))})"

definition BMS_bitmap :: "cptr \<Rightarrow> cptr" where
  "BMS_bitmap bms = (if bms = None then None else ptr_add bms 6)"

definition BMS_nxny :: "cptr \<Rightarrow> int option" where
  "BMS_nxny bms = (if bms = None then Some 0
     else do {
       m \<leftarrow> BMS_StdMap bms;
       if m \<noteq> 0 then Some 0
       else do {
         l \<leftarrow> BMS_LEN bms;
         u \<leftarrow> BMS_UnusedBits bms;
         Some (l * 8 - 48 - u)}})"

definition section_3_length :: "osterlib \<Rightarrow> cptr \<Rightarrow> nat option" where
  "section_3_length L buf = checked_length L buf"

interpretation sec3: length_prefixed section_3_length
  by unfold_locales
    (simp_all add: section_3_length_def checked_length_short checked_length_value,
      simp add: checked_length_def)

definition unused_bits :: "cptr \<Rightarrow> int option" where
  "unused_bits buf = BMS_UnusedBits buf"

definition table_ref :: "cptr \<Rightarrow> u16 option" where
  "table_ref buf = map_option word_of_int (BMS_StdMap buf)"

definition bitmap_data :: "cptr \<Rightarrow> cptr" where
  "bitmap_data buf = BMS_bitmap buf"

section \<open>Missing points\<close>

text \<open>The table of the number of zero bits of a byte.\<close>

definition bitsum :: "nat list" where
  "bitsum = concat [
     [8, 7, 7, 6, 7, 6, 6, 5, 7, 6, 6, 5, 6, 5, 5, 4], [7, 6, 6, 5, 6, 5, 5, 4, 6, 5, 5, 4, 5, 4, 4, 3],
     [7, 6, 6, 5, 6, 5, 5, 4, 6, 5, 5, 4, 5, 4, 4, 3], [6, 5, 5, 4, 5, 4, 4, 3, 5, 4, 4, 3, 4, 3, 3, 2],
     [7, 6, 6, 5, 6, 5, 5, 4, 6, 5, 5, 4, 5, 4, 4, 3], [6, 5, 5, 4, 5, 4, 4, 3, 5, 4, 4, 3, 4, 3, 3, 2],
     [6, 5, 5, 4, 5, 4, 4, 3, 5, 4, 4, 3, 4, 3, 3, 2], [5, 4, 4, 3, 4, 3, 3, 2, 4, 3, 3, 2, 3, 2, 2, 1],
     [7, 6, 6, 5, 6, 5, 5, 4, 6, 5, 5, 4, 5, 4, 4, 3], [6, 5, 5, 4, 5, 4, 4, 3, 5, 4, 4, 3, 4, 3, 3, 2],
     [6, 5, 5, 4, 5, 4, 4, 3, 5, 4, 4, 3, 4, 3, 3, 2], [5, 4, 4, 3, 4, 3, 3, 2, 4, 3, 3, 2, 3, 2, 2, 1],
     [6, 5, 5, 4, 5, 4, 4, 3, 5, 4, 4, 3, 4, 3, 3, 2], [5, 4, 4, 3, 4, 3, 3, 2, 4, 3, 3, 2, 3, 2, 2, 1],
     [5, 4, 4, 3, 4, 3, 3, 2, 4, 3, 3, 2, 3, 2, 2, 1], [4, 3, 3, 2, 3, 2, 2, 1, 3, 2, 2, 1, 2, 1, 1, 0]]"

text \<open>
  \<^verbatim>\<open>missing_points\<close>: whole bytes first, then the rest of the bits in a last byte that is read
  even when no bit is left.  The count of a null pointer is zero.
\<close>

function missing_loop :: "cptr \<Rightarrow> nat \<Rightarrow> int \<Rightarrow> nat \<Rightarrow> (cptr \<times> int \<times> nat) option" where
  "missing_loop p i n count =
     (if n \<ge> 8 then do {
        tmp \<leftarrow> byte_at p i;
        missing_loop p (i + 1) (n - 8) (count + bitsum ! unat tmp)}
      else Some (ptr_add p i, n, count))"
  by auto
termination
  by (relation "measure (\<lambda>(p, i, n, count). nat n)") auto

declare missing_loop.simps [simp del]

definition missing_points :: "cptr \<Rightarrow> int \<Rightarrow> nat option" where
  "missing_points bitmap n = (if bitmap = None then Some 0
     else do {
       (p, n, count) \<leftarrow> missing_loop bitmap 0 n 0;
       b \<leftarrow> byte_at p 0;
       let tmp = unat b OR nat (push_bit (nat (8 - n)) 1 - 1);
       if tmp < length bitsum then Some (count + bitsum ! tmp) else None})"

section \<open>BinaryDataSection\<close>

definition BDS_LEN :: "osterlib \<Rightarrow> cptr \<Rightarrow> nat option" where
  "BDS_LEN L p = read_u L p 0 3"

definition BDS_Flag :: "cptr \<Rightarrow> u8 option" where "BDS_Flag bds = byte_at bds 3"

definition BDS_Grid :: "cptr \<Rightarrow> bool option" where
  "BDS_Grid bds = map_option (\<lambda>b. b AND 128 = 0) (byte_at bds 3)"

definition BDS_Harmonic :: "cptr \<Rightarrow> int option" where
  "BDS_Harmonic bds = map_option (\<lambda>b. int (unat (b AND 128))) (byte_at bds 3)"

definition BDS_SimplePacking :: "cptr \<Rightarrow> bool option" where
  "BDS_SimplePacking bds = map_option (\<lambda>b. b AND 64 = 0) (byte_at bds 3)"

definition BDS_ComplexPacking :: "cptr \<Rightarrow> bool option" where
  "BDS_ComplexPacking bds = map_option (\<lambda>b. b AND 64 \<noteq> 0) (byte_at bds 3)"

definition BDS_OriginalInt :: "cptr \<Rightarrow> bool option" where
  "BDS_OriginalInt bds = map_option (\<lambda>b. b AND 32 \<noteq> 0) (byte_at bds 3)"

definition BDS_MoreFlags :: "cptr \<Rightarrow> bool option" where
  "BDS_MoreFlags bds = map_option (\<lambda>b. b AND 16 \<noteq> 0) (byte_at bds 3)"

definition BDS_UnusedBits :: "cptr \<Rightarrow> int option" where
  "BDS_UnusedBits bds = map_option (\<lambda>b. int (unat (b AND 15))) (byte_at bds 3)"

definition BDS_MatrixDatum :: "cptr \<Rightarrow> int option" where
  "BDS_MatrixDatum bds = map_option (\<lambda>b. int (unat (b AND 4))) (byte_at bds 13)"

definition BDS_SecondairyBMP :: "cptr \<Rightarrow> int option" where
  "BDS_SecondairyBMP bds = map_option (\<lambda>b. int (unat (b AND 2))) (byte_at bds 13)"

definition BDS_SecondOrdValsDiffWidth :: "cptr \<Rightarrow> int option" where
  "BDS_SecondOrdValsDiffWidth bds = map_option (\<lambda>b. int (unat (b AND 1))) (byte_at bds 13)"

definition BDS_BinScale :: "osterlib \<Rightarrow> cptr \<Rightarrow> int option" where
  "BDS_BinScale L bds = read_s L bds 4 2"

definition BDS_RefValue :: "osterlib \<Rightarrow> cptr \<Rightarrow> rat option" where
  "BDS_RefValue L bds = map_option (ibm2flt L) (bytes_at bds 6 4)"

definition BDS_NumBits :: "cptr \<Rightarrow> int option" where
  "BDS_NumBits bds = map_option (\<lambda>b. int (unat b)) (byte_at bds 10)"

definition BDS_DataStart :: "cptr \<Rightarrow> int option" where
  "BDS_DataStart bds = map_option (\<lambda>m. 11 + (if m then 1 else 0) * 3) (BDS_MoreFlags bds)"

definition get_BDS_length :: "osterlib \<Rightarrow> cptr \<Rightarrow> nat option" where
  "get_BDS_length L buf = checked_length L buf"

interpretation sec4: length_prefixed get_BDS_length
  by unfold_locales
    (simp_all add: get_BDS_length_def checked_length_short checked_length_value,
      simp add: checked_length_def)

text \<open>Every initialiser of the \<^verbatim>\<open>Flag\<close> is stored in a signed bit-field of one bit.\<close>

definition more_flag :: "cptr \<Rightarrow> int option \<Rightarrow> int option" where
  "more_flag buf v = do { m \<leftarrow> BDS_MoreFlags buf; if m then v else Some (- 1) }"

definition get_data_flag :: "cptr \<Rightarrow> Flag option" where
  "get_data_flag buf = do {
     harmonic \<leftarrow> BDS_Harmonic buf;
     complex \<leftarrow> BDS_ComplexPacking buf;
     original \<leftarrow> BDS_OriginalInt buf;
     more \<leftarrow> BDS_MoreFlags buf;
     m \<leftarrow> more_flag buf (BDS_MatrixDatum buf);
     s \<leftarrow> more_flag buf (BDS_SecondairyBMP buf);
     w \<leftarrow> more_flag buf (BDS_SecondOrdValsDiffWidth buf);
     Some \<lparr>spherical_harm_coefs = bitfield1 harmonic,
       complex_pack = bitfield1 (if complex then 1 else 0),
       int_values = bitfield1 (if original then 1 else 0),
       oct_14_flag_bits = bitfield1 (if more then 1 else 0),
       matrix = bitfield1 m, second_bmp = bitfield1 s, second_order_diff_widths = bitfield1 w\<rparr>}"

text \<open>The \<^verbatim>\<open>int16_t\<close> and \<^verbatim>\<open>float\<close> return types.\<close>

definition scale_factor :: "osterlib \<Rightarrow> cptr \<Rightarrow> int option" where
  "scale_factor L buf = do {
     a \<leftarrow> byte_at buf 4;
     b \<leftarrow> byte_at buf 5;
     Some (sint (word_of_int (INT2 L a b) :: u16))}"

definition ref_value :: "osterlib \<Rightarrow> cptr \<Rightarrow> rat option" where
  "ref_value L buf = map_option f32 (BDS_RefValue L buf)"

definition bit_per_value :: "cptr \<Rightarrow> u8 option" where
  "bit_per_value buf = map_option word_of_int (BDS_NumBits buf)"

section \<open>Zero bits of a byte string\<close>

text \<open>Bit \<open>i\<close> of a bit map, counted from the most significant bit of the first byte.\<close>

definition bitmap_bit :: "buffer \<Rightarrow> nat \<Rightarrow> bool" where
  "bitmap_bit b i = bit (b ! (i div 8)) (7 - i mod 8)"

definition zero_bits :: "buffer \<Rightarrow> nat \<Rightarrow> nat" where
  "zero_bits b n = length (filter (\<lambda>i. \<not> bitmap_bit b i) [0..<n])"

text \<open>The zero bits among the first \<open>m\<close> of a byte.\<close>

definition byte_zeros :: "nat \<Rightarrow> nat \<Rightarrow> nat" where
  "byte_zeros v m = length (filter (\<lambda>k. \<not> bit v (7 - k)) [0..<m])"

lemma length_filter_sum: "length (filter P [0..<n]) = (\<Sum>i<n. if P i then 1 else 0)"
  by (induction n) simp_all

lemma byte_zeros_sum: "byte_zeros v m = (\<Sum>k<m. if bit v (7 - k) then 0 else 1)"
  unfolding byte_zeros_def length_filter_sum by (rule sum.cong) simp_all

text \<open>The table is the eighth of the tables that double: a clear top bit adds one.\<close>

primrec zeros_table :: "nat \<Rightarrow> nat list" where
  "zeros_table 0 = [0]"
| "zeros_table (Suc k) = map Suc (zeros_table k) @ zeros_table k"

lemma bitsum_zeros_table: "bitsum = zeros_table 8"
  by code_simp

lemma length_zeros_table: "length (zeros_table k) = 2 ^ k"
  by (induction k) simp_all

lemma zeros_table_value:
  "v < 2 ^ k \<Longrightarrow> zeros_table k ! v = (\<Sum>j<k. if bit v j then 0 else 1)"
proof (induction k arbitrary: v)
  case 0
  then show ?case by simp
next
  case (Suc k)
  show ?case
  proof (cases "v < 2 ^ k")
    case True
    then have "take_bit k v = v" by (rule take_bit_nat_eq_self)
    then have "\<not> bit v k" by (metis bit_take_bit_iff less_irrefl)
    then show ?thesis using True Suc.IH [OF True] by (simp add: nth_append length_zeros_table)
  next
    case False
    define w where "w = v - 2 ^ k"
    have w: "w < 2 ^ k" "v = 1 * 2 ^ k + w" using False Suc.prems by (simp_all add: w_def)
    then have v: "v = push_bit k 1 OR w" using push_bit_or_nat [of w k 1] by simp
    have "take_bit k w = w" using w(1) by (rule take_bit_nat_eq_self)
    then have wk: "\<not> bit w k" by (metis bit_take_bit_iff less_irrefl)
    have "bit v k" by (simp add: v bit_simps)
    moreover have "bit v j = bit w j" if "j < k" for j
      using that by (simp add: v bit_simps)
    ultimately have "(\<Sum>j<Suc k. if bit v j then 0 else 1) = (\<Sum>j<k. if bit w j then 0 else 1 :: nat)"
      by simp
    then show ?thesis
      using False Suc.IH [OF w(1)] by (simp add: nth_append length_zeros_table w_def)
  qed
qed

lemma length_bitsum: "length bitsum = 256"
  by (simp add: bitsum_zeros_table length_zeros_table)

lemma bitsum_value: "v < 256 \<Longrightarrow> bitsum ! v = byte_zeros v 8"
  using zeros_table_value [of v 8] sum.nat_diff_reindex [of "\<lambda>j. if bit v j then 0 else 1 :: nat" 8]
  by (simp add: bitsum_zeros_table byte_zeros_sum)

text \<open>Setting the bits after the first \<open>r\<close> leaves the zero bits among the first \<open>r\<close>.\<close>

lemma masked_zeros:
  assumes "v < 256" "r < 8"
  shows "v OR (2 ^ (8 - r) - 1) < 256" "byte_zeros (v OR (2 ^ (8 - r) - 1)) 8 = byte_zeros v r"
proof -
  have mask: "2 ^ (8 - r) - 1 = (mask (8 - r) :: nat)" by (simp add: mask_eq_exp_minus_1)
  have "mask (8 - r) < (2 ^ (8 - r) :: nat)" by (rule mask_nat_less_exp)
  also have "\<dots> \<le> 2 ^ 8" by (rule power_increasing) simp_all
  finally have "take_bit 8 v = v" "take_bit 8 (mask (8 - r)) = (mask (8 - r) :: nat)"
    using assms by (simp_all add: take_bit_nat_eq_self)
  then have "take_bit 8 (v OR mask (8 - r)) = v OR mask (8 - r)" by (simp add: take_bit_or)
  then show "v OR (2 ^ (8 - r) - 1) < 256"
    unfolding mask using take_bit_nat_less_exp [of 8 "v OR mask (8 - r)"] by simp
  have "(\<Sum>k<8. if bit (v OR mask (8 - r)) (7 - k) then 0 else 1) =
      (\<Sum>k<8. if k < r then (if bit v (7 - k) then 0 else 1) else 0 :: nat)"
    by (rule sum.cong) (use assms in \<open>auto simp: bit_simps\<close>)
  also have "\<dots> = (\<Sum>k<r. if bit v (7 - k) then 0 else 1)"
    by (rule sum.mono_neutral_cong_right) (use assms in auto)
  finally show "byte_zeros (v OR (2 ^ (8 - r) - 1)) 8 = byte_zeros v r"
    unfolding mask byte_zeros_sum .
qed

lemma zero_bits_byte:
  assumes "r \<le> 8"
  shows "zero_bits b (8 * m + r) = zero_bits b (8 * m) + byte_zeros (unat (b ! m)) r"
  using assms
proof (induction r)
  case 0
  then show ?case by (simp add: byte_zeros_sum)
next
  case (Suc r)
  have "bitmap_bit b (8 * m + r) = bit (unat (b ! m)) (7 - r)"
    using Suc.prems by (simp add: bitmap_bit_def bit_unsigned_iff)
  then show ?case using Suc by (simp add: zero_bits_def byte_zeros_sum)
qed

lemma zero_bits_bytes: "zero_bits b (8 * m) = (\<Sum>k<m. byte_zeros (unat (b ! k)) 8)"
proof (induction m)
  case 0
  then show ?case by (simp add: zero_bits_def)
next
  case (Suc m)
  have "zero_bits b (8 * m + 8) = zero_bits b (8 * m) + byte_zeros (unat (b ! m)) 8"
    by (rule zero_bits_byte) simp
  then show ?case by (simp add: Suc.IH add.commute)
qed

lemma missing_loop_value:
  assumes "r < 8"
  shows "missing_loop (Some b) i (int (8 * m + r)) c =
    (if i + m \<le> length b \<or> m = 0
     then Some (Some (drop (i + m) b), int r, c + (\<Sum>k<m. byte_zeros (unat (b ! (i + k))) 8))
     else None)"
proof (induction m arbitrary: i c)
  case 0
  then show ?case using assms by (simp add: missing_loop.simps [of _ i] buf_simps)
next
  case (Suc m)
  have step: "missing_loop (Some b) i (int (8 * Suc m + r)) c = (if i < length b
      then missing_loop (Some b) (i + 1) (int (8 * m + r)) (c + bitsum ! unat (b ! i)) else None)"
    by (simp add: missing_loop.simps [of _ i] buf_simps)
  have sum: "(\<Sum>k<Suc m. byte_zeros (unat (b ! (i + k))) 8) =
      byte_zeros (unat (b ! i)) 8 + (\<Sum>k<m. byte_zeros (unat (b ! (i + 1 + k))) 8)"
    by (simp add: sum.lessThan_Suc_shift del: sum.lessThan_Suc)
  show ?case
    unfolding step Suc.IH sum by (auto simp: bitsum_value)
qed

lemma missing_points_parts:
  assumes "r < 8"
  shows "missing_points (Some b) (int (8 * m + r)) =
    (if m < length b then Some (zero_bits b (8 * m + r)) else None)"
proof -
  let ?s = "\<Sum>k<m. byte_zeros (unat (b ! k)) 8"
  have loop: "missing_loop (Some b) 0 (int (8 * m + r)) 0 = (if m \<le> length b \<or> m = 0
     then Some (Some (drop m b), int r, ?s) else None)"
    using missing_loop_value [OF assms, of b 0 m 0] by simp
  have nat_mask: "nat (2 ^ nat (8 - int r) - 1) = 2 ^ (8 - r) - Suc 0"
  proof -
    have "nat (8 - int r) = 8 - r" by simp
    then have "2 ^ nat (8 - int r) - 1 = int (2 ^ (8 - r) - Suc 0)"
      by (simp add: of_nat_diff)
    then show ?thesis by (simp only: nat_int)
  qed
  have zb: "zero_bits b (8 * m + r) = ?s + byte_zeros (unat (b ! m)) r"
    using zero_bits_byte [of r b m] zero_bits_bytes [of b m] assms by simp
  define t where "t = unat (b ! m) OR (2 ^ (8 - r) - 1)"
  have t: "t < 256" "bitsum ! t = byte_zeros (unat (b ! m)) r"
    using masked_zeros [of "unat (b ! m)" r] assms by (simp_all add: bitsum_value t_def)
  have "missing_points (Some b) (int (8 * m + r)) = (if m < length b
      then (if t < length bitsum then Some (?s + bitsum ! t) else None) else None)"
    unfolding missing_points_def loop
    by (auto simp: buf_simps nat_mask Let_def t_def)
  then show ?thesis using t by (simp add: zb length_bitsum)
qed

lemma missing_points_value:
  "missing_points (Some b) (int n) = (if n div 8 < length b then Some (zero_bits b n) else None)"
  using missing_points_parts [of "n mod 8" b "n div 8"] by simp

lemma zero_bits_card: "zero_bits b n = card {i. i < n \<and> \<not> bitmap_bit b i}"
proof -
  have "{i. i < length [0..<n] \<and> \<not> bitmap_bit b ([0..<n] ! i)} = {i. i < n \<and> \<not> bitmap_bit b i}"
    by auto
  then show ?thesis by (simp add: zero_bits_def length_filter_conv_card)
qed

lemma get_data_flag_Some:
  assumes "14 \<le> length b"
  shows "get_data_flag (Some b) = Some
    \<lparr>spherical_harm_coefs = 0, complex_pack = (if b ! 3 AND 64 = 0 then 0 else - 1),
     int_values = (if b ! 3 AND 32 = 0 then 0 else - 1),
     oct_14_flag_bits = (if b ! 3 AND 16 = 0 then 0 else - 1),
     matrix = (if b ! 3 AND 16 = 0 then - 1 else 0),
     second_bmp = (if b ! 3 AND 16 = 0 then - 1 else 0),
     second_order_diff_widths =
       (if b ! 3 AND 16 = 0 then - 1 else bitfield1 (int (unat (b ! 13 AND 1))))\<rparr>"
proof -
  have even: "bitfield1 (uint (x AND 128 :: u8)) = 0" "bitfield1 (uint (x AND 4 :: u8)) = 0"
    "bitfield1 (uint (x AND 2 :: u8)) = 0" for x
    by (simp_all add: bitfield1_def bit_0 [symmetric] bit_simps del: bit_0)
  have one: "bitfield1 1 = - 1" "bitfield1 0 = 0" "bitfield1 (- 1) = - 1"
    by (simp_all add: bitfield1_def)
  show ?thesis
    using assms
    by (simp add: get_data_flag_def BDS_Harmonic_def BDS_ComplexPacking_def BDS_OriginalInt_def
        BDS_MoreFlags_def more_flag_def BDS_MatrixDatum_def BDS_SecondairyBMP_def
        BDS_SecondOrdValsDiffWidth_def buf_simps even one)
qed

section \<open>Properties\<close>

text \<open>
  C12: \<^verbatim>\<open>missing_points\<close> counts exactly the zero bits among the first \<open>n\<close> bits of a bit map, for
  every \<open>n\<close>, when the memory behind the pointer holds more than \<open>n div 8\<close> bytes; with fewer it
  reads out of bounds.  So a bit map of whole bytes needs one more byte than it has.
\<close>

theorem missing_points_correct:
  "missing_points (Some b) (int n) = (if n div 8 < length b
     then Some (card {i. i < n \<and> \<not> bitmap_bit b i}) else None) \<and>
   missing_points None (int n) = Some 0"
  by (simp add: missing_points_value zero_bits_card) (simp add: missing_points_def)

text \<open>
  The bit map of a framed section 3 with a bit map of its own.  The number of points is the
  number of bits after the six octets of the header less the unused ones; counting the missing
  points over all of them stays inside the section exactly if at least one bit is unused.
\<close>

theorem bitmap_section_points:
  assumes "framed s" "6 < length s" "s ! 4 = 0" "s ! 5 = 0"
    "unat (s ! 3) \<le> 8 * (length s - 6)"
  defines "n \<equiv> 8 * (length s - 6) - unat (s ! 3)"
  shows "BMS_nxny (Some s) = Some (int n) \<and>
    missing_points (BMS_bitmap (Some s)) (int n) =
      (if s ! 3 = 0 then None else Some (card {i. i < n \<and> \<not> bitmap_bit (drop 6 s) i}))"
proof -
  let ?k = "length s - 6" and ?u = "unat (s ! 3)"
  have len: "BMS_LEN (Some s) = Some (int (length s))"
  proof -
    have "take 3 s = [s ! 0, s ! 1, s ! 2]"
      using assms(2) by (intro take_3) simp
    then have "be_nat [s ! 0, s ! 1, s ! 2] = length s" using assms(1) by (simp add: framed_def)
    then have "length s = unat (s ! 0) * 65536 + (unat (s ! 1) * 256 + unat (s ! 2))"
      by (simp add: be_nat_Cons)
    from arg_cong [OF this, where f = int]
    have "int (length s) = uint (s ! 0) * 65536 + (uint (s ! 1) * 256 + uint (s ! 2))" by simp
    moreover have "s \<noteq> []" "Suc 0 < length s" "2 < length s" using assms(2) by auto
    ultimately show ?thesis
      by (simp add: BMS_LEN_def buf_simps push_bit_eq_mult)
  qed
  have nxny: "BMS_nxny (Some s) = Some (int n)"
    using assms(2-5) len
    by (simp add: BMS_nxny_def BMS_StdMap_def BMS_UnusedBits_def buf_simps n_def of_nat_diff
        del: of_nat_unat)
  have "n div 8 < ?k \<longleftrightarrow> s ! 3 \<noteq> 0"
  proof -
    have "(8 * k - u) div 8 < k \<longleftrightarrow> u \<noteq> 0" if "0 < k" for k u :: nat
      using that by (cases "u = 0") (auto simp: less_mult_imp_div_less)
    from this [of ?k ?u] show ?thesis using assms(2) by (simp add: n_def unat_eq_0)
  qed
  moreover have "zero_bits (drop 6 s) n = card {i. i < n \<and> \<not> bitmap_bit (drop 6 s) i}"
    by (rule zero_bits_card)
  ultimately show ?thesis
    using nxny missing_points_value [of "drop 6 s" n] by (simp add: BMS_bitmap_def buf_simps)
qed

theorem bitmap_section_points_witness:
  "missing_points (BMS_bitmap (Some [0, 0, 8, 4, 0, 0, 170, 160])) 12 =
     Some (card {i. i < 12 \<and> \<not> bitmap_bit (drop 6 [0, 0, 8, 4, 0, 0, 170, 160]) i})"
  using bitmap_section_points [of "[0, 0, 8, 4, 0, 0, 170, 160]"]
  by (simp add: framed_def be_nat_Cons)

text \<open>
  The flags of the data section.  The bit-fields never show the harmonic flag, whatever the
  message holds; packing, integer and more-flags bits read back as minus one when set; and the
  matrix and secondary bit map flags read as set exactly when the octet that holds them is absent.
\<close>

theorem get_data_flag_values:
  assumes "14 \<le> length b"
  shows "\<exists>f. get_data_flag (Some b) = Some f \<and> spherical_harm_coefs f = 0 \<and>
    (complex_pack f = 0 \<longleftrightarrow> b ! 3 AND 64 = 0) \<and> (int_values f = 0 \<longleftrightarrow> b ! 3 AND 32 = 0) \<and>
    matrix f = (if b ! 3 AND 16 = 0 then - 1 else 0) \<and>
    second_bmp f = (if b ! 3 AND 16 = 0 then - 1 else 0)"
  by (simp add: get_data_flag_Some [OF assms])

theorem get_data_flag_values_witness:
  "\<exists>f. get_data_flag (Some [0, 0, 14, 240, 0, 0, 0, 0, 0, 0, 8, 0, 0, 7]) = Some f \<and>
     spherical_harm_coefs f = 0 \<and> matrix f = 0"
  using get_data_flag_values [of "[0, 0, 14, 240, 0, 0, 0, 0, 0, 0, 8, 0, 0, 7]"] by auto

end
