(* ===== verification/Message.thy ===== *)
theory Message
  imports Pds Gds Bitmap_Binary
begin

text \<open>
  A GRIB edition 1 message and the reader of a file of messages: the structures \<^verbatim>\<open>Message\<close> and
  \<^verbatim>\<open>HGrib1\<close> of \<^verbatim>\<open>API/grib1/include/message.h\<close> and \<^verbatim>\<open>API/grib1/src/message.cpp\<close>.
\<close>

section \<open>Message\<close>

definition sec_0_min_sz :: nat where
  "sec_0_min_sz = 8"

text \<open>The error codes of the format, in the order of their values.\<close>

datatype grib_error = NONE_ERR | OPEN_ERROR_X1 | MEMORY_ERROR | BAD_FILE_X1 | RUN_OUT_X1
  | DATA_EMPTY_X1 | READ_POS_X1 | MISS_GRIB_REC_X1 | LEN_UNCONSIST_X1 | MISS_END_SECTION_X1

text \<open>The constructor sets \<^verbatim>\<open>err_\<close> only when the lengths disagree; otherwise it has no value.\<close>

record Message =
  section_0 :: cptr
  section_1 :: cptr
  section_2 :: cptr
  section_3 :: cptr
  section_4 :: cptr
  err :: "grib_error option"

definition make_Message :: "osterlib \<Rightarrow> cptr \<Rightarrow> Message option" where
  "make_Message L buffer = do {
     let s0 = buffer;
     let s1 = ptr_add buffer sec_0_min_sz;
     flags \<leftarrow> section1Flags s1;
     l1 \<leftarrow> section_1_length L s1;
     let s2 = (if sec2_inc flags then ptr_add s1 l1 else None);
     l2 \<leftarrow> section_2_length L s2;
     let s3 = (if sec3_inc flags then ptr_add s1 (l1 + l2) else None);
     l3 \<leftarrow> section_3_length L s3;
     let s4 = ptr_add s1 (l1 + l2 + l3);
     l4 \<leftarrow> get_BDS_length L s4;
     total \<leftarrow> message_length L s0;
     Some \<lparr>section_0 = s0, section_1 = s1, section_2 = s2, section_3 = s3, section_4 = s4,
       err = (if sec_0_min_sz + l1 + l2 + l3 + l4 + 4 \<noteq> total then Some LEN_UNCONSIST_X1 else None)\<rparr>}"

definition section2 :: "Message \<Rightarrow> cptr option option" where
  "section2 m = map_option (\<lambda>f. if sec2_inc f then Some (section_2 m) else None)
     (section1Flags (section_1 m))"

definition section3 :: "Message \<Rightarrow> cptr option option" where
  "section3 m = map_option (\<lambda>f. if sec3_inc f then Some (section_3 m) else None)
     (section1Flags (section_1 m))"

subsection \<open>Decoding one value\<close>

text \<open>
  The reading loop: bytes are shifted into \<^verbatim>\<open>tbits\<close> until it holds \<^verbatim>\<open>n_bit\<close> bits.
\<close>

function read_bits :: "cptr \<Rightarrow> nat \<Rightarrow> u32 \<Rightarrow> nat \<Rightarrow> nat \<Rightarrow> (u32 \<times> nat) option" where
  "read_bits p pos tbits t_bits n_bit =
     (if t_bits < n_bit then do {
        b \<leftarrow> byte_at p pos;
        read_bits p (pos + 1) (tbits * 256 + ucast b) (t_bits + 8) n_bit}
      else Some (tbits, t_bits))"
  by auto
termination
  by (relation "measure (\<lambda>(p, pos, tbits, t_bits, n_bit). n_bit - t_bits)") auto

declare read_bits.simps [simp del]

text \<open>
  The packed number of the value \<open>n\<close> of a section without a bit map: two bytes at once when there
  are more than eight bits, then byte by byte.  The mask \<^verbatim>\<open>(1 << n_bit) - 1\<close> overflows an \<^verbatim>\<open>int\<close>
  from 31 bits on, and an \<open>n\<close> below minus four puts the position before the section, which the model does not read.
\<close>

definition read_number :: "cptr \<Rightarrow> nat \<Rightarrow> nat \<Rightarrow> (u32 \<times> nat) option" where
  "read_number buf pos n_bit = do {
     (tbits, t_bits, pos) \<leftarrow> (if n_bit > 8 then do {
         b0 \<leftarrow> byte_at buf pos;
         b1 \<leftarrow> byte_at buf (pos + 1);
         Some (push_bit 16 0 OR push_bit 8 (ucast b0) OR ucast b1 :: u32, 16, pos + 2)}
       else Some (0, 0, pos));
     read_bits buf pos tbits t_bits n_bit}"

definition packed_number :: "cptr \<Rightarrow> int \<Rightarrow> nat \<Rightarrow> nat option" where
  "packed_number buf n n_bit = (if n_bit \<ge> 31 then None
     else do {
       let jmask = (push_bit n_bit 1 - 1 :: u32);
       let pos = 11 + 2 * (n - 1);
       if pos < 0 then None
       else do {
         (tbits, t_bits) \<leftarrow> read_number buf (nat pos) n_bit;
         Some (unat (drop_bit (t_bits - n_bit) tbits AND jmask))}})"

definition map_masks :: "nat list" where
  "map_masks = [128, 64, 32, 16, 8, 4, 2, 1]"

text \<open>
  The bit map pointer is moved by \<open>n - 1\<close> before it is read, so it can stand before section 3; the
  byte there belongs to the section before it, found from section 1.
\<close>

definition before_section_3 :: "osterlib \<Rightarrow> Message \<Rightarrow> int \<Rightarrow> u8 option" where
  "before_section_3 L m pos = do {
     l1 \<leftarrow> section_1_length L (section_1 m);
     l2 \<leftarrow> section_2_length L (section_2 m);
     let i = int (l1 + l2) + pos;
     if i < 0 then None else byte_at (section_1 m) (nat i)}"

definition bitmap_byte :: "osterlib \<Rightarrow> Message \<Rightarrow> int \<Rightarrow> u8 option" where
  "bitmap_byte L m pos = (if pos < 0 then before_section_3 L m pos else byte_at (section_3 m) (nat pos))"

text \<open>
  With a bit map, \<^verbatim>\<open>bbits\<close> is read only when \<open>n\<close> is a multiple of eight, and the mask of the value,
  \<^verbatim>\<open>jmask\<close>, is never given a value: every path but the return of the missing value is undefined.
\<close>

definition bitmap_value :: "osterlib \<Rightarrow> Message \<Rightarrow> int \<Rightarrow> rat option" where
  "bitmap_value L m n = (if n mod 8 = 0
     then do {
       bbits \<leftarrow> bitmap_byte L m (n - 1);
       if unat bbits AND (map_masks ! 0) = 0 then Some (f32 (UNDEFINED L)) else None}
     else None)"

definition extract_value :: "osterlib \<Rightarrow> Message \<Rightarrow> int \<Rightarrow> rat option" where
  "extract_value L m n = do {
     D \<leftarrow> decimal_scale_factor L (section_1 m);
     let dec_scale = int_power L 10 (- int (unat D));
     E \<leftarrow> scale_factor L (section_4 m);
     let scale = f64 (dec_scale * int_power L 2 E);
     n_bit \<leftarrow> bit_per_value (section_4 m);
     R \<leftarrow> ref_value L (section_4 m);
     let ref_val = f32 (f64 (R * dec_scale));
     flags \<leftarrow> get_data_flag (section_4 m);
     if complex_pack flags = 0 then
       if spherical_harm_coefs flags = 0 then
         if n_bit = 0 then Some ref_val
         else do {
           sections \<leftarrow> section1Flags (section_1 m);
           if sec3_inc sections then bitmap_value L m n
           else do {
             X \<leftarrow> packed_number (section_4 m) n (unat n_bit);
             Some (f32 (f64 (ref_val + f64 (scale * of_nat X))))}}
       else Some (f32 (UNDEFINED L))
     else Some (f32 (UNDEFINED L))}"

subsection \<open>Decoding all values\<close>

text \<open>
  One pass of the loop over the points, with the position of the bit map pointer and \<^verbatim>\<open>bbits\<close> as
  state.  A set bit leads to the mask without a value (\<^term>\<open>None\<close>).
\<close>

primrec bitmap_points :: "osterlib \<Rightarrow> Message \<Rightarrow> nat list \<Rightarrow> int \<Rightarrow> u8 \<Rightarrow> rat list option" where
  "bitmap_points L m [] pos bbits = Some []"
| "bitmap_points L m (i # is) pos bbits = do {
     let pos = pos + (int i - 1);
     (pos, bbits) \<leftarrow> (if i mod 8 = 0
        then do { b \<leftarrow> bitmap_byte L m pos; Some (pos + 1, b) } else Some (pos, bbits));
     if unat bbits AND (map_masks ! (i mod 8)) = 0 then do {
       rest \<leftarrow> bitmap_points L m is pos bbits;
       Some (f32 (UNDEFINED L) # rest)}
     else None}"

text \<open>
  Without a bit map the vector keeps its size zero, so that the assignment to \<^verbatim>\<open>result[0]\<close> of a
  first pass through the loop is out of bounds.
\<close>

definition extract_all :: "osterlib \<Rightarrow> Message \<Rightarrow> rat list outcome option" where
  "extract_all L m = do {
     flags \<leftarrow> get_data_flag (section_4 m);
     if complex_pack flags = 0 then
       if spherical_harm_coefs flags = 0 then do {
         n_bit \<leftarrow> bit_per_value (section_4 m);
         if n_bit = 0 then do { R \<leftarrow> ref_value L (section_4 m); Some (Ret [R]) }
         else do {
           sections \<leftarrow> section1Flags (section_1 m);
           points \<leftarrow> nxny L (section_2 m);
           (case points of
              Exit c \<Rightarrow> Some (Exit c)
            | Ret k \<Rightarrow> if sec3_inc sections
                then map_option Ret (bitmap_points L m [0..<nat k] 0 0)
                else if n_bit \<ge> 31 then None
                else if k > 0 then None else Some (Ret []))}}
       else Some (Ret [])
     else Some (Ret [])}"

section \<open>HGrib1\<close>

text \<open>
  The reader of a file: the mapped file, the offset of the current message and the message itself.
\<close>

record HGrib1 =
  msg :: "Message option"
  f_ptr :: cptr
  current_ptr :: nat
  sz :: nat

definition empty_reader :: HGrib1 where
  "empty_reader = \<lparr>msg = None, f_ptr = None, current_ptr = 0, sz = 0\<rparr>"

definition current_message_position :: "HGrib1 \<Rightarrow> nat" where
  "current_message_position g = current_ptr g"

definition current_message_length :: "osterlib \<Rightarrow> HGrib1 \<Rightarrow> nat option option" where
  "current_message_length L g = (case msg g of
       None \<Rightarrow> Some None
     | Some m \<Rightarrow> map_option Some (message_length L (section_0 m)))"

definition next_message :: "osterlib \<Rightarrow> HGrib1 \<Rightarrow> (bool \<times> HGrib1) option" where
  "next_message L g = (case msg g of
       None \<Rightarrow> Some (False, g)
     | Some m \<Rightarrow> do {
         len \<leftarrow> message_length L (section_0 m);
         if current_ptr g + len < sz g then do {
           let c = current_ptr g + len;
           m' \<leftarrow> make_Message L (ptr_add (f_ptr g) c);
           Some (True, g\<lparr>current_ptr := c, msg := Some m'\<rparr>)}
         else Some (False, g)})"

definition file_size :: "HGrib1 \<Rightarrow> nat option" where
  "file_size g = (case msg g of None \<Rightarrow> None | Some m \<Rightarrow> Some (sz g))"

text \<open>\<^verbatim>\<open>memcmp(p, s, n)\<close> as a condition: true when the bytes differ.\<close>

definition memcmp :: "cptr \<Rightarrow> nat \<Rightarrow> u8 list \<Rightarrow> bool option" where
  "memcmp p i s = map_option (\<lambda>bs. bs \<noteq> s) (bytes_at p i (length s))"

definition GRIB :: "u8 list" where "GRIB = [71, 82, 73, 66]"
definition end_mark :: "u8 list" where "end_mark = [55, 55, 55, 55]"

definition is_correct_format :: "HGrib1 \<Rightarrow> bool option" where
  "is_correct_format g = (case msg g of
       None \<Rightarrow> Some False
     | Some m \<Rightarrow> if sz g \<ge> sec_0_min_sz then memcmp (section_0 m) 0 GRIB else Some False)"

definition reader_grib_version :: "HGrib1 \<Rightarrow> u8 option option" where
  "reader_grib_version g = do {
     c \<leftarrow> is_correct_format g;
     if c then (case msg g of None \<Rightarrow> None | Some m \<Rightarrow> map_option Some (grib_version (section_0 m)))
     else Some None}"

text \<open>
  Opening a file: \<open>contents\<close> is \<^term>\<open>None\<close> when \<^verbatim>\<open>open\<close> fails.  An empty file makes \<^verbatim>\<open>mmap\<close> return
  \<^verbatim>\<open>MAP_FAILED\<close>, which is not null, and reading through it is undefined.
\<close>

definition open_grib :: "osterlib \<Rightarrow> buffer option \<Rightarrow> (grib_error \<times> HGrib1) option" where
  "open_grib L contents = (case contents of
       None \<Rightarrow> Some (OPEN_ERROR_X1, empty_reader)
     | Some b \<Rightarrow> if b = [] then None
       else do {
         m \<leftarrow> make_Message L (Some b);
         let g = \<lparr>msg = Some m, f_ptr = Some b, current_ptr = 0, sz = length b\<rparr>;
         tmp \<leftarrow> current_message_length L g;
         (case tmp of
            None \<Rightarrow> Some (DATA_EMPTY_X1, g)
          | Some len \<Rightarrow> if len < 5 then None
            else do {
              differ \<leftarrow> memcmp (f_ptr g) (len - 5) end_mark;
              Some (if \<not> differ then MISS_END_SECTION_X1 else NONE_ERR, g)})})"

definition set_message :: "osterlib \<Rightarrow> HGrib1 \<Rightarrow> int \<Rightarrow> (bool \<times> HGrib1) option" where
  "set_message L g pos = (if word_of_int pos \<ge> (of_nat (sz g) :: u64) then Some (False, g)
     else do {
       m \<leftarrow> make_Message L (ptr_add (f_ptr g) (nat pos));
       Some (True, g\<lparr>current_ptr := nat pos, msg := Some m\<rparr>)})"

section \<open>Facts about decoding\<close>

lemma read_bits_value:
  assumes "unat t < 2 ^ tb" "tb + 8 * j \<le> 32" "n \<le> tb + 8 * j" "tb + 8 * j < n + 8"
    "pos + j \<le> length b"
  shows "\<exists>t'. read_bits (Some b) pos t tb n = Some (t', tb + 8 * j) \<and>
    unat t' = unat t * 256 ^ j + be_nat (take j (drop pos b))"
  using assms
proof (induction j arbitrary: pos t tb)
  case 0
  then show ?case by (simp add: read_bits.simps [of _ pos])
next
  case (Suc j)
  let ?t = "t * 256 + ucast (b ! pos) :: u32"
  have "(2 :: nat) ^ (tb + 8) \<le> 2 ^ 32" using Suc.prems(2) by (intro power_increasing) simp_all
  then have e: "2 ^ tb * 256 \<le> (4294967296 :: nat)" by (simp add: power_add)
  have lt: "unat t * 256 + unat (b ! pos) < 2 ^ tb * 256"
    using Suc.prems(1) unat_u8_less [of "b ! pos"] by linarith
  have t: "unat ?t = unat t * 256 + unat (b ! pos)"
    using lt e by (simp add: unat_word_ariths unsigned_ucast_eq take_bit_u8)
  then have "unat ?t < 2 ^ (tb + 8)" using lt by (simp add: power_add)
  then obtain t' where t': "read_bits (Some b) (Suc pos) ?t (tb + 8) n = Some (t', tb + 8 + 8 * j)"
    "unat t' = unat ?t * 256 ^ j + be_nat (take j (drop (Suc pos) b))"
    using Suc.IH [of ?t "tb + 8" "Suc pos"] Suc.prems by auto
  have "read_bits (Some b) pos t tb n = read_bits (Some b) (Suc pos) ?t (tb + 8) n"
    using Suc.prems by (simp add: read_bits.simps [of _ pos] buf_simps)
  moreover have "take (Suc j) (drop pos b) = b ! pos # take j (drop (Suc pos) b)"
    using Suc.prems(5) by (simp add: Cons_nth_drop_Suc [symmetric])
  moreover have "unat t' = (unat t * 256 + unat (b ! pos)) * 256 ^ j + be_nat (take j (drop (Suc pos) b))"
    using t'(2) t by simp
  ultimately show ?case
    using t'(1) Suc.prems(5) by (simp add: be_nat_Cons algebra_simps)
qed

lemma masked_field:
  assumes "unat (t :: u32) < 2 ^ m" "n \<le> m" "m \<le> 32" "n < 31"
  shows "unat (drop_bit (m - n) t AND (push_bit n 1 - 1)) = unat t div 2 ^ (m - n)"
proof -
  have "push_bit n 1 - 1 = (mask n :: u32)" by (simp add: mask_eq_exp_minus_1)
  then have "drop_bit (m - n) t AND (push_bit n 1 - 1) = take_bit n (drop_bit (m - n) t)"
    by (simp only: take_bit_eq_mask)
  then have "unat (drop_bit (m - n) t AND (push_bit n 1 - 1)) = take_bit n (unat (drop_bit (m - n) t))"
    by (simp only: unsigned_take_bit_eq)
  also have "unat (drop_bit (m - n) t) = unat t div 2 ^ (m - n)"
    unfolding unat_drop_bit_eq by (rule drop_bit_eq_div)
  finally have "unat (drop_bit (m - n) t AND (push_bit n 1 - 1)) = take_bit n (unat t div 2 ^ (m - n))" .
  moreover have "unat t div 2 ^ (m - n) < 2 ^ n"
    using assms(1,2) by (simp add: less_mult_imp_div_less power_add [symmetric])
  ultimately show ?thesis by (simp add: take_bit_nat_eq_self)
qed

lemma two_bytes_u32:
  "unat (push_bit 16 0 OR push_bit 8 (ucast (x :: u8)) OR ucast (y :: u8) :: u32) = unat x * 256 + unat y"
proof -
  have x: "unat (push_bit 8 (ucast x) :: u32) = push_bit 8 (unat x)"
  proof -
    have "unat x * 256 < 256 * 256" by simp
    then have "unat x * 256 < 2 ^ 32" by (rule less_trans) simp
    then have "take_bit 32 (push_bit 8 (unat x)) = push_bit 8 (unat x)"
      by (intro take_bit_nat_eq_self) (simp add: push_bit_eq_mult)
    then show ?thesis by (simp add: unsigned_push_bit_eq unsigned_ucast_eq take_bit_u8)
  qed
  have "unat (push_bit 16 0 OR push_bit 8 (ucast x) OR ucast y :: u32) = push_bit 8 (unat x) OR unat y"
    by (simp add: unsigned_or_eq x unsigned_ucast_eq take_bit_u8)
  then show ?thesis using push_bit_or_nat [of "unat y" 8 "unat x"] by simp
qed

lemma take_two_more:
  assumes "2 \<le> k" "p + k \<le> length b"
  shows "take k (drop p b) = [b ! p, b ! (p + 1)] @ take (k - 2) (drop (p + 2) b)"
proof -
  have "drop p b = b ! p # b ! (p + 1) # drop (p + 2) b"
    using assms by (simp add: Cons_nth_drop_Suc)
  then show ?thesis using assms(1) by (cases k; cases "k - 1") auto
qed

lemma read_number_value:
  assumes "1 \<le> w" "w \<le> 32" "p + (w + 7) div 8 \<le> length b"
  defines "k \<equiv> (w + 7) div 8"
  shows "\<exists>t. read_number (Some b) p w = Some (t, 8 * k) \<and> unat t = be_nat (take k (drop p b))"
proof (cases "w > 8")
  case False
  then have "w \<le> 8 * k" "8 * k < w + 8" "k \<le> 4" using assms(1) unfolding k_def by presburger+
  then show ?thesis
    using read_bits_value [of 0 0 k w p b] False assms(3) by (simp add: read_number_def k_def)
next
  case True
  have k: "w \<le> 8 * k" "8 * k < w + 8" "k \<le> 4" "2 \<le> k" using True assms(2) unfolding k_def by linarith+
  have fits: "p + k \<le> length b" using assms(3) by (simp add: k_def)
  define t where "t = (push_bit 16 0 OR push_bit 8 (ucast (b ! p)) OR ucast (b ! (p + 1)) :: u32)"
  have t: "unat t = unat (b ! p) * 256 + unat (b ! (p + 1))"
    unfolding t_def by (rule two_bytes_u32)
  then have lt: "unat t < 2 ^ 16"
    using be_nat_less [of "[b ! p, b ! (p + 1)]"] by (simp add: be_nat_Cons)
  obtain t' where t': "read_bits (Some b) (p + 2) t 16 w = Some (t', 16 + 8 * (k - 2))"
    "unat t' = unat t * 256 ^ (k - 2) + be_nat (take (k - 2) (drop (p + 2) b))"
  proof -
    have "16 + 8 * (k - 2) \<le> 32" "w \<le> 16 + 8 * (k - 2)" "16 + 8 * (k - 2) < w + 8"
      "p + 2 + (k - 2) \<le> length b" using k fits by simp_all
    from read_bits_value [OF lt this] show ?thesis using that by blast
  qed
  have "be_nat (take k (drop p b)) = unat t'"
    using t'(2) fits k(4) by (simp add: take_two_more [OF k(4) fits] be_nat_append t be_nat_Cons
        algebra_simps)
  moreover have "16 + 8 * (k - 2) = 8 * k" using k by simp
  moreover have "read_number (Some b) p w = read_bits (Some b) (p + 2) t 16 w"
    using True fits k by (simp add: read_number_def buf_simps t_def)
  ultimately show ?thesis using t'(1) by simp
qed

lemma packed_number_value:
  assumes "1 \<le> n" "1 \<le> w" "w \<le> 30" "11 + 2 * (n - 1) + (w + 7) div 8 \<le> length b"
  shows "packed_number (Some b) (int n) w =
    Some (be_nat (take ((w + 7) div 8) (drop (11 + 2 * (n - 1)) b)) div 2 ^ (8 * ((w + 7) div 8) - w))"
proof -
  let ?k = "(w + 7) div 8" and ?p = "11 + 2 * (n - 1)"
  have pos: "11 + 2 * (int n - 1) = int ?p" using assms(1) by (simp add: of_nat_diff)
  have k: "w \<le> 8 * ?k" "8 * ?k \<le> 32" using assms(3) by presburger+
  obtain t where t: "read_number (Some b) ?p w = Some (t, 8 * ?k)" "unat t = be_nat (take ?k (drop ?p b))"
    using read_number_value [of w ?p b] assms by auto
  have "unat t < 2 ^ (8 * ?k)"
  proof -
    have "length (take ?k (drop ?p b)) = ?k" using assms(4) by simp
    then show ?thesis
      using be_nat_less [of "take ?k (drop ?p b)"] by (simp only: t(2) power_mult) simp
  qed
  then have "unat (drop_bit (8 * ?k - w) t AND (push_bit w 1 - 1)) = unat t div 2 ^ (8 * ?k - w)"
    using k assms(3) by (intro masked_field) simp_all
  then have field: "unat (drop_bit (8 * ?k - w) t AND (push_bit w 1 - 1)) =
      be_nat (take ?k (drop ?p b)) div 2 ^ (8 * ?k - w)" by (simp only: t(2))
  obtain q where q: "11 + 2 * (int n - 1) = int q" "q = ?p" using pos by blast
  note tq = t(1) [folded q(2)]
  have "packed_number (Some b) (int n) w =
      Some (unat (drop_bit (8 * ?k - w) t AND (push_bit w 1 - 1)))"
    unfolding packed_number_def q(1) using assms(3) tq by (simp add: Let_def)
  then show ?thesis by (simp only: field)
qed

text \<open>The field \<open>i\<close> of a stream of fields of \<open>w\<close> bits, first bit first.\<close>

definition stream_field :: "buffer \<Rightarrow> nat \<Rightarrow> nat \<Rightarrow> nat" where
  "stream_field d w i = be_nat d div 2 ^ (8 * length d - w * (i + 1)) mod 2 ^ w"

lemma stream_field_16:
  assumes "2 * (i + 1) \<le> length d"
  shows "stream_field d 16 i = be_nat (take 2 (drop (2 * i) d))"
proof -
  let ?x = "take (2 * i) d" and ?y = "take 2 (drop (2 * i) d)" and ?z = "drop (2 * (i + 1)) d"
  have d: "d = ?x @ ?y @ ?z"
    by (metis add.commute append_take_drop_id drop_drop mult_Suc_right Suc_eq_plus1)
  have ly: "length ?y = 2" using assms by simp
  have lz: "8 * length d - 16 * (i + 1) = 8 * length ?z" using assms by simp
  have "be_nat d = be_nat ((?x @ ?y) @ ?z)" using d by simp
  also have "\<dots> = (be_nat ?x * 256 ^ 2 + be_nat ?y) * 256 ^ length ?z + be_nat ?z"
    unfolding be_nat_append ly ..
  finally have "be_nat d = (be_nat ?x * 256 ^ 2 + be_nat ?y) * 256 ^ length ?z + be_nat ?z" .
  moreover have "be_nat ?z < 256 ^ length ?z" by (rule be_nat_less)
  ultimately have "be_nat d div 256 ^ length ?z = be_nat ?x * 256 ^ 2 + be_nat ?y" by simp
  moreover have "2 ^ (8 * length ?z) = (256 :: nat) ^ length ?z" by (simp add: power_mult)
  moreover have "be_nat ?y < 256 ^ 2" using be_nat_less [of ?y] ly by simp
  ultimately show ?thesis
    unfolding stream_field_def lz by simp
qed

lemma packed_number_16:
  assumes "1 \<le> n" "11 + 2 * n \<le> length b"
  shows "packed_number (Some b) (int n) 16 = Some (stream_field (drop 11 b) 16 (n - 1))"
proof -
  have "2 * (n - 1 + 1) \<le> length (drop 11 b)" using assms by simp
  from stream_field_16 [OF this] show ?thesis
    using packed_number_value [of n 16 b] assms by (simp add: add.commute)
qed

lemma sint_u16: "\<bar>k\<bar> < 32768 \<Longrightarrow> sint (word_of_int k :: u16) = k"
  by (simp add: signed_of_int signed_take_bit_int_eq_self abs_less_iff)

section \<open>Facts about sections\<close>

lemma section1Flags_Some:
  "7 < length b \<Longrightarrow> section1Flags (Some b) =
     Some \<lparr>sec2_inc = (b ! 7 AND 128 \<noteq> 0), sec3_inc = (b ! 7 AND 64 \<noteq> 0)\<rparr>"
  by (simp add: section1Flags_def PDS_HAS_GDS_def PDS_HAS_BMS_def buf_simps)

text \<open>
  A message in parts: the indicator, the product definition, the two optional sections, empty when
  their flag is clear, and the data; \<open>rest\<close> is what follows in the file, the end section first.
\<close>

record parts =
  p0 :: buffer
  p1 :: buffer
  p2 :: buffer
  p3 :: buffer
  p4 :: buffer

definition parts_ok :: "parts \<Rightarrow> bool" where
  "parts_ok m \<longleftrightarrow> length (p0 m) = 8 \<and> framed (p1 m) \<and> 8 \<le> length (p1 m) \<and> framed (p4 m) \<and>
     (if p1 m ! 7 AND 128 \<noteq> 0 then framed (p2 m) else p2 m = []) \<and>
     (if p1 m ! 7 AND 64 \<noteq> 0 then framed (p3 m) else p3 m = [])"

definition parts_bytes :: "parts \<Rightarrow> buffer" where
  "parts_bytes m = p0 m @ p1 m @ p2 m @ p3 m @ p4 m"

lemma make_Message_parts:
  assumes L: "lib_ok L" and ok: "parts_ok m"
  defines "tot \<equiv> be_nat (take 3 (drop 4 (p0 m)))"
  shows "make_Message L (Some (parts_bytes m @ rest)) = Some
    \<lparr>section_0 = Some (parts_bytes m @ rest),
     section_1 = Some (p1 m @ p2 m @ p3 m @ p4 m @ rest),
     section_2 = (if p1 m ! 7 AND 128 \<noteq> 0 then Some (p2 m @ p3 m @ p4 m @ rest) else None),
     section_3 = (if p1 m ! 7 AND 64 \<noteq> 0 then Some (p3 m @ p4 m @ rest) else None),
     section_4 = Some (p4 m @ rest),
     err = (if length (parts_bytes m) + 4 \<noteq> tot then Some LEN_UNCONSIST_X1 else None)\<rparr>"
proof -
  note framed = ok [unfolded parts_ok_def]
  let ?s1 = "p1 m @ p2 m @ p3 m @ p4 m @ rest"
  have l0: "length (p0 m) = 8" using framed by simp
  have s1: "ptr_add (Some (parts_bytes m @ rest)) 8 = Some ?s1"
    by (simp add: parts_bytes_def buf_simps l0)
  have flags: "section1Flags (Some ?s1) = Some \<lparr>sec2_inc = (p1 m ! 7 AND 128 \<noteq> 0), sec3_inc = (p1 m ! 7 AND 64 \<noteq> 0)\<rparr>"
    using framed by (subst section1Flags_Some) (auto simp: nth_append)
  have l1: "section_1_length L (Some ?s1) = Some (length (p1 m))"
    using framed by (intro sec1.len_framed [OF L]) simp
  have l2: "section_2_length L (if p1 m ! 7 AND 128 \<noteq> 0 then Some (p2 m @ p3 m @ p4 m @ rest) else None)
      = Some (length (p2 m))"
    using framed sec2.len_framed [OF L, of "p2 m" "p3 m @ p4 m @ rest"] sec2.len_null by auto
  have l3: "section_3_length L (if p1 m ! 7 AND 64 \<noteq> 0 then Some (p3 m @ p4 m @ rest) else None)
      = Some (length (p3 m))"
    using framed sec3.len_framed [OF L, of "p3 m" "p4 m @ rest"] sec3.len_null by auto
  have l4: "get_BDS_length L (Some (p4 m @ rest)) = Some (length (p4 m))"
    using framed by (intro sec4.len_framed [OF L]) simp
  have tot: "message_length L (Some (parts_bytes m @ rest)) = Some tot"
    using l0 by (simp add: message_length_def read_u_Some [OF L] parts_bytes_def tot_def)
  have p: "ptr_add (Some ?s1) (length (p1 m)) = Some (p2 m @ p3 m @ p4 m @ rest)"
    "ptr_add (Some ?s1) (length (p1 m) + length (p2 m)) = Some (p3 m @ p4 m @ rest)"
    "ptr_add (Some ?s1) (length (p1 m) + (length (p2 m) + length (p3 m))) = Some (p4 m @ rest)"
    by (simp_all add: buf_simps)
  have len: "length (parts_bytes m) = 8 + length (p1 m) + length (p2 m) + length (p3 m) + length (p4 m)"
    by (simp add: parts_bytes_def l0)
  show ?thesis
    using l2 l3
    by (cases "p1 m ! 7 AND 128 = 0"; cases "p1 m ! 7 AND 64 = 0")
      (simp_all add: make_Message_def Let_def s1 flags l1 p l4 tot sec_0_min_sz_def len add.assoc)
qed

lemma message_length_parts:
  assumes "lib_ok L" "parts_ok m"
  shows "message_length L (Some (parts_bytes m @ rest)) = Some (be_nat (take 3 (drop 4 (p0 m))))"
  using assms(2)
  by (simp add: message_length_def read_u_Some [OF assms(1)] parts_bytes_def parts_ok_def)

section \<open>The walk over a file\<close>

text \<open>The states that \<open>n\<close> successful steps visit.\<close>

primrec walk :: "('s \<Rightarrow> 's option) \<Rightarrow> nat \<Rightarrow> 's \<Rightarrow> 's list \<Rightarrow> bool" where
  "walk step 0 s ss = (ss = [])"
| "walk step (Suc n) s ss = (case ss of [] \<Rightarrow> False
     | s' # ss' \<Rightarrow> step s = Some s' \<and> walk step n s' ss')"

text \<open>A reader that moves forward inside a limit that it never changes.\<close>

locale bounded_walk =
  fixes pos :: "'s \<Rightarrow> nat" and limit :: "'s \<Rightarrow> nat" and advance :: "'s \<Rightarrow> 's option"
  assumes advance_limit: "advance s = Some s' \<Longrightarrow> limit s' = limit s"
    and advance_inside: "advance s = Some s' \<Longrightarrow> pos s' < limit s'"
    and advance_forward: "advance s = Some s' \<Longrightarrow> pos s \<le> pos s'"
begin

lemma walk_limit: "walk advance n s ss \<Longrightarrow> s' \<in> set ss \<Longrightarrow> limit s' = limit s \<and> pos s' < limit s \<and> pos s \<le> pos s'"
proof (induction n arbitrary: s ss)
  case (Suc n)
  then obtain t ts where ss: "ss = t # ts" "advance s = Some t" "walk advance n t ts"
    by (auto split: list.splits)
  then show ?case
    using Suc.IH [of t ts] Suc.prems(2) advance_limit [OF ss(2)] advance_inside [OF ss(2)]
      advance_forward [OF ss(2)] by auto
qed simp

text \<open>As long as every step moves, a walk is shorter than what is left to the limit.\<close>

lemma walk_bounded:
  assumes "walk advance n s ss" "\<And>t t'. t \<in> set (s # ss) \<Longrightarrow> advance t = Some t' \<Longrightarrow> pos t < pos t'" "0 < n"
  shows "pos s + n < limit s"
  using assms
proof (induction n arbitrary: s ss)
  case (Suc n)
  then obtain t ts where ss: "ss = t # ts" "advance s = Some t" "walk advance n t ts"
    by (auto split: list.splits)
  have move: "pos s < pos t" using Suc.prems(2) ss by auto
  show ?case
  proof (cases "n = 0")
    case True
    then show ?thesis using move advance_limit [OF ss(2)] advance_inside [OF ss(2)] by simp
  next
    case False
    then have "pos t + n < limit t" using Suc.IH [OF ss(3)] Suc.prems(2) ss(1) by auto
    then show ?thesis using move advance_limit [OF ss(2)] by simp
  qed
qed simp

end

definition advance :: "osterlib \<Rightarrow> HGrib1 \<Rightarrow> HGrib1 option" where
  "advance L g = (case next_message L g of Some (True, g') \<Rightarrow> Some g' | _ \<Rightarrow> None)"

lemma next_message_True:
  assumes "next_message L g = Some (True, g')"
  obtains m len m' where "msg g = Some m" "message_length L (section_0 m) = Some len"
    "current_ptr g + len < sz g" "make_Message L (ptr_add (f_ptr g) (current_ptr g + len)) = Some m'"
    "g' = g\<lparr>current_ptr := current_ptr g + len, msg := Some m'\<rparr>"
  using assms by (auto simp: next_message_def Let_def split: option.splits if_splits bind_splits)

lemma advance_Some: "advance L g = Some g' \<longleftrightarrow> next_message L g = Some (True, g')"
  by (auto simp: advance_def split: option.splits bool.splits prod.splits)

interpretation grib_walk: bounded_walk current_ptr sz "advance L" for L
  by unfold_locales (auto simp: advance_Some elim!: next_message_True)

section \<open>Files of messages\<close>

definition valid_message :: "parts \<Rightarrow> bool" where
  "valid_message m \<longleftrightarrow> parts_ok m \<and> be_nat (take 3 (drop 4 (p0 m))) = length (parts_bytes m) + 4"

definition message_bytes :: "parts \<Rightarrow> buffer" where
  "message_bytes m = parts_bytes m @ end_mark"

definition file_of :: "parts list \<Rightarrow> buffer" where
  "file_of ms = concat (map message_bytes ms)"

text \<open>The reader when it stands on the message \<open>k\<close> of a file.\<close>

definition reader_at :: "osterlib \<Rightarrow> parts list \<Rightarrow> nat \<Rightarrow> HGrib1" where
  "reader_at L ms k = \<lparr>msg = make_Message L (Some (file_of (drop k ms))), f_ptr = Some (file_of ms),
     current_ptr = length (file_of (take k ms)), sz = length (file_of ms)\<rparr>"

lemma file_of_Cons [simp]: "file_of (m # ms) = message_bytes m @ file_of ms"
  by (simp add: file_of_def)

lemma file_of_Nil [simp]: "file_of [] = []"
  by (simp add: file_of_def)

lemma file_of_append: "file_of (xs @ ys) = file_of xs @ file_of ys"
  by (simp add: file_of_def)

lemma length_message_bytes:
  "valid_message m \<Longrightarrow> length (message_bytes m) = be_nat (take 3 (drop 4 (p0 m)))"
  by (simp add: message_bytes_def valid_message_def end_mark_def)

lemma message_bytes_pos: "0 < length (message_bytes m)"
  by (simp add: message_bytes_def end_mark_def)

lemma drop_file_of: "k \<le> length ms \<Longrightarrow> drop (length (file_of (take k ms))) (file_of ms) = file_of (drop k ms)"
  by (metis append_eq_conv_conj append_take_drop_id file_of_append)

lemma make_Message_file:
  assumes "lib_ok L" "valid_message m"
  obtains mm where "make_Message L (Some (file_of (m # ms))) = Some mm"
    "section_0 mm = Some (file_of (m # ms))" "err mm = None"
    "message_length L (section_0 mm) = Some (length (message_bytes m))"
proof -
  have ok: "parts_ok m" using assms(2) by (simp add: valid_message_def)
  have f: "file_of (m # ms) = parts_bytes m @ (end_mark @ file_of ms)"
    by (simp add: message_bytes_def)
  note mk = make_Message_parts [OF assms(1) ok, of "end_mark @ file_of ms"]
  have len: "message_length L (Some (file_of (m # ms))) = Some (length (message_bytes m))"
    unfolding f using message_length_parts [OF assms(1) ok] length_message_bytes [OF assms(2)] by simp
  show ?thesis
    by (rule that [OF mk [folded f]]) (use len assms(2) in \<open>simp_all add: valid_message_def f del: file_of_Cons\<close>)
qed

lemma next_message_reader:
  assumes L: "lib_ok L" and valid: "\<forall>m\<in>set ms. valid_message m" and k: "k < length ms"
  shows "next_message L (reader_at L ms k) =
    Some (if k + 1 < length ms then (True, reader_at L ms (k + 1)) else (False, reader_at L ms k))"
proof -
  obtain m rest where d: "drop k ms = m # rest" "m = ms ! k" "rest = drop (k + 1) ms"
    using k by (metis Cons_nth_drop_Suc Suc_eq_plus1)
  have vm: "valid_message m" using valid k d(2) by simp
  obtain mm where mm: "make_Message L (Some (file_of (drop k ms))) = Some mm"
    "message_length L (section_0 mm) = Some (length (message_bytes m))"
    using make_Message_file [OF L vm, of rest] d(1) by metis
  have pos: "length (file_of (take (k + 1) ms)) = length (file_of (take k ms)) + length (message_bytes m)"
    using k d(2) by (simp add: take_Suc_conv_app_nth file_of_append)
  have total: "length (file_of ms) = length (file_of (take (k + 1) ms)) + length (file_of rest)"
    by (metis append_take_drop_id d(3) file_of_append length_append)
  show ?thesis
  proof (cases "k + 1 < length ms")
    case False
    then have "rest = []" using d(3) by simp
    then show ?thesis
      using False mm total pos by (simp add: next_message_def reader_at_def)
  next
    case True
    then obtain m' rest' where r: "rest = m' # rest'" "m' \<in> set ms"
      using d(3) by (metis Cons_nth_drop_Suc nth_mem)
    obtain mm' where mm': "make_Message L (Some (file_of rest)) = Some mm'"
      using make_Message_file [OF L, of m' rest'] valid r by metis
    have "ptr_add (Some (file_of ms)) (length (file_of (take (k + 1) ms))) = Some (file_of rest)"
      using drop_file_of [of "k + 1" ms] True d(3) by (simp add: ptr_add_def)
    moreover have "0 < length (file_of rest)" using message_bytes_pos [of m'] r(1) by simp
    ultimately show ?thesis
      using True mm mm' total pos d(3)
      by (simp add: next_message_def reader_at_def Let_def)
  qed
qed

lemma reader_message_length:
  assumes "lib_ok L" "drop k ms = m # rest" "valid_message m" "msg (reader_at L ms k) = Some mm"
  shows "message_length L (section_0 mm) = Some (length (message_bytes m))"
proof -
  have "make_Message L (Some (file_of (m # rest))) = Some mm"
    using assms(2,4) by (simp add: reader_at_def)
  moreover obtain m' where "make_Message L (Some (file_of (m # rest))) = Some m'"
    "message_length L (section_0 m') = Some (length (message_bytes m))"
    using make_Message_file [OF assms(1,3)] by metis
  ultimately show ?thesis by simp
qed

lemma memcmp_marks:
  "memcmp p i GRIB = map_option (\<lambda>bs. bs \<noteq> GRIB) (bytes_at p i 4)"
  "memcmp p i end_mark = map_option (\<lambda>bs. bs \<noteq> end_mark) (bytes_at p i 4)"
  by (simp_all add: memcmp_def GRIB_def end_mark_def numeral_eq_Suc)

lemma is_correct_format_reader:
  assumes "lib_ok L" "valid_message m"
  shows "is_correct_format (reader_at L (m # ms) 0) = Some (take 4 (p0 m) \<noteq> GRIB)"
proof -
  obtain mm where mm: "make_Message L (Some (file_of (m # ms))) = Some mm"
    "section_0 mm = Some (file_of (m # ms))"
    using make_Message_file [OF assms] by metis
  have l0: "length (p0 m) = 8" using assms(2) by (simp add: valid_message_def parts_ok_def)
  then have "bytes_at (Some (file_of (m # ms))) 0 4 = Some (take 4 (p0 m))"
    by (simp add: buf_simps message_bytes_def parts_bytes_def)
  then show ?thesis
    using mm l0
    by (simp add: is_correct_format_def reader_at_def memcmp_marks sec_0_min_sz_def
        del: file_of_Cons) (simp add: message_bytes_def parts_bytes_def)
qed

lemma before_end:
  assumes "parts_ok m"
  shows "bytes_at (Some (file_of (m # ms))) (length (message_bytes m) - 5) 4 = Some [last (p4 m), 55, 55, 55]"
proof -
  have ne: "p4 m \<noteq> []" using assms by (auto simp: parts_ok_def framed_def)
  let ?x = "p0 m @ p1 m @ p2 m @ p3 m @ butlast (p4 m)"
  have f: "file_of (m # ms) = ?x @ [last (p4 m), 55, 55, 55] @ (55 # file_of ms)"
    using ne by (simp add: message_bytes_def parts_bytes_def end_mark_def)
  have "length (message_bytes m) = length ?x + 5"
    using ne by (simp add: message_bytes_def parts_bytes_def end_mark_def length_butlast Suc_leI)
  then have l: "length (message_bytes m) - 5 = length ?x" by simp
  show ?thesis unfolding f l by (simp add: buf_simps)
qed

lemma open_grib_reader:
  assumes "lib_ok L" "valid_message m"
  shows "open_grib L (Some (file_of (m # ms))) =
      Some (if last (p4 m) = 55 then MISS_END_SECTION_X1 else NONE_ERR, reader_at L (m # ms) 0)"
proof -
  obtain mm where mm: "make_Message L (Some (file_of (m # ms))) = Some mm"
    "message_length L (section_0 mm) = Some (length (message_bytes m))"
    using make_Message_file [OF assms] by metis
  have ok: "parts_ok m" using assms(2) by (simp add: valid_message_def)
  have len: "5 \<le> length (message_bytes m)"
    using ok by (simp add: message_bytes_def parts_bytes_def end_mark_def parts_ok_def)
  have ne: "file_of (m # ms) \<noteq> []" using len by auto
  show ?thesis
    using mm len ne before_end [OF ok, of ms]
    by (simp add: open_grib_def reader_at_def current_message_length_def memcmp_marks Let_def
        del: file_of_Cons) (simp add: end_mark_def)
qed

text \<open>A signed number kept in an unsigned variable of two octets wraps around.\<close>

lemma uint_u16_signed:
  assumes "\<bar>k\<bar> < 65536"
  shows "uint (word_of_int k :: u16) = (if k < 0 then 65536 + k else k)"
  using assms mod_pos_pos_trivial [of k 65536] mod_pos_pos_trivial [of "k + 65536" 65536]
  by (auto simp: uint_word_of_int)

lemma extract_value_two_octets:
  assumes "lib_ok L" "section_1 m = Some p" "section_4 m = Some b"
    "28 \<le> length p" "p ! 7 AND 64 = 0"
    "b ! 3 AND 64 = 0" "b ! 10 = 16" "1 \<le> n" "14 \<le> length b" "11 + 2 * n \<le> length b"
  defines "D \<equiv> sign_magnitude [p ! 26, p ! 27]"
  defines "d \<equiv> int_power L 10 (- (if D < 0 then 65536 + D else D))"
    and "e \<equiv> int_power L 2 (sign_magnitude [b ! 4, b ! 5])"
  shows "extract_value L m (int n) = Some (f32 (f64
    (f32 (f64 (f32 (ibm2flt L (take 4 (drop 6 b))) * d)) +
     f64 (f64 (d * e) * of_nat (stream_field (drop 11 b) 16 (n - 1))))))"
proof -
  have dec: "decimal_scale_factor L (section_1 m) = Some (word_of_int (sign_magnitude [p ! 26, p ! 27]))"
    using assms(2,4) lib_okD(3) [OF assms(1)] by (simp add: decimal_scale_factor_def buf_simps)
  have D: "uint (word_of_int (sign_magnitude [p ! 26, p ! 27]) :: u16) = (if D < 0 then 65536 + D else D)"
    using sign_magnitude_2 [of "p ! 26" "p ! 27"] unfolding D_def by (intro uint_u16_signed) simp
  have E: "scale_factor L (section_4 m) = Some (sign_magnitude [b ! 4, b ! 5])"
    using assms(3,9) sint_u16 [OF sign_magnitude_2] lib_okD(3) [OF assms(1)]
    by (simp add: scale_factor_def buf_simps)
  have bits: "bit_per_value (section_4 m) = Some 16"
    using assms(3,7,9) by (simp add: bit_per_value_def BDS_NumBits_def buf_simps)
  have R: "ref_value L (section_4 m) = Some (f32 (ibm2flt L (take 4 (drop 6 b))))"
    using assms(3,9) by (simp add: ref_value_def BDS_RefValue_def buf_simps)
  have flags: "\<exists>f. get_data_flag (section_4 m) = Some f \<and> complex_pack f = 0 \<and> spherical_harm_coefs f = 0"
    using assms(3,6) get_data_flag_Some [OF assms(9)] by simp
  have s3: "section1Flags (section_1 m) = Some \<lparr>sec2_inc = (p ! 7 AND 128 \<noteq> 0), sec3_inc = False\<rparr>"
    using assms(2,4,5) by (simp add: section1Flags_Some)
  have X: "packed_number (section_4 m) (int n) 16 = Some (stream_field (drop 11 b) 16 (n - 1))"
    unfolding assms(3) using assms(8,10) by (intro packed_number_16) simp_all
  show ?thesis
    using flags by (auto simp: extract_value_def Let_def dec D E bits R s3 X d_def e_def)
qed

lemma bitmap_points_missing:
  "bitmap_points L m is pos bbits = Some vs \<Longrightarrow> length vs = length is \<and> (\<forall>v\<in>set vs. v = f32 (UNDEFINED L))"
proof (induction "is" arbitrary: pos bbits vs)
  case (Cons i "is")
  then show ?case by (fastforce simp: Let_def split: if_splits bind_splits prod.splits)
qed simp

section \<open>An example\<close>

definition example_bds :: buffer where
  "example_bds = [0, 0, 19, 0, 0, 1, 66, 10, 0, 0, 16, 1, 44, 0, 7, 255, 254, 0, 0]"

text \<open>A message of 59 octets: no grid description, no bit map, a data section of 19 octets.\<close>

definition example_parts :: parts where
  "example_parts = \<lparr>p0 = [71, 82, 73, 66, 0, 0, 59, 1],
     p1 = [0, 0, 28, 3, 98, 140, 255, 0, 11, 100, 3, 232, 24, 2, 28, 18, 0, 1, 12, 0, 0, 0, 0, 0,
       21, 0, 0, 1],
     p2 = [], p3 = [], p4 = example_bds\<rparr>"

lemma example_parts_ok: "parts_ok example_parts" "valid_message example_parts"
  by (simp_all add: valid_message_def parts_ok_def example_parts_def framed_def be_nat_Cons
      example_bds_def parts_bytes_def)

lemma open_example:
  obtains mm where "make_Message example_lib (Some (file_of [example_parts])) = Some mm"
    "section_0 mm = Some (file_of [example_parts])"
    "section_1 mm = Some (p1 example_parts @ example_bds @ end_mark)"
    "section_2 mm = None" "section_3 mm = None"
    "section_4 mm = Some (example_bds @ end_mark)"
    "message_length example_lib (section_0 mm) = Some 59"
proof -
  have "file_of [example_parts] = parts_bytes example_parts @ end_mark"
    by (simp add: message_bytes_def)
  then show ?thesis
    using that make_Message_parts [OF lib_ok_example example_parts_ok(1), of end_mark]
      message_length_parts [OF lib_ok_example example_parts_ok(1), of end_mark]
    by (simp add: example_parts_def be_nat_Cons)
qed

section \<open>Properties\<close>

text \<open>
  C9: the packed number that \<^verbatim>\<open>extract_value\<close> reads for the value \<open>n\<close>, for every width up to 30
  bits: the leading \<open>w\<close> bits of the octets at the fixed stride of two octets per value.  For a
  width of sixteen bits that is the field \<open>n - 1\<close> of the packed stream, so the decoding is right.
\<close>

theorem packed_number_field:
  assumes "1 \<le> n" "1 \<le> w" "w \<le> 30" "11 + 2 * (n - 1) + (w + 7) div 8 \<le> length b"
  shows "packed_number (Some b) (int n) w =
      Some (be_nat (take ((w + 7) div 8) (drop (11 + 2 * (n - 1)) b)) div 2 ^ (8 * ((w + 7) div 8) - w)) \<and>
    (w = 16 \<longrightarrow> packed_number (Some b) (int n) w = Some (stream_field (drop 11 b) 16 (n - 1)))"
  using packed_number_value [OF assms] packed_number_16 [of n b] assms(1,4) by auto

theorem packed_number_field_witness:
  "packed_number (Some example_bds) 1 16 = Some 300 \<and> packed_number (Some example_bds) 2 12 = Some 0"
proof
  have e: "take 2 (drop 11 example_bds) = [1, 44]" "take 2 (drop 13 example_bds) = [0, 7]"
    "length example_bds = 19"
    by (simp_all add: example_bds_def)
  show "packed_number (Some example_bds) 1 16 = Some 300"
    using packed_number_field [of 1 16 example_bds] e by (simp add: be_nat_Cons)
  show "packed_number (Some example_bds) 2 12 = Some 0"
    using packed_number_field [of 2 12 example_bds] e by (simp add: be_nat_Cons)
qed



text \<open>
  C2: the constructor of a message finds its sections.  For an indicator of eight octets followed
  by framed sections, the optional ones present exactly if their flag is set, the section pointers
  are the positions where the parts start, and the error is set exactly if the lengths of the parts
  with the end section disagree with the total in the indicator.
\<close>

theorem make_Message_sections:
  assumes "lib_ok L" "parts_ok m"
  shows "make_Message L (Some (parts_bytes m @ rest)) = Some
    \<lparr>section_0 = Some (parts_bytes m @ rest),
     section_1 = Some (p1 m @ p2 m @ p3 m @ p4 m @ rest),
     section_2 = (if p1 m ! 7 AND 128 \<noteq> 0 then Some (p2 m @ p3 m @ p4 m @ rest) else None),
     section_3 = (if p1 m ! 7 AND 64 \<noteq> 0 then Some (p3 m @ p4 m @ rest) else None),
     section_4 = Some (p4 m @ rest),
     err = (if length (parts_bytes m) + 4 \<noteq> be_nat (take 3 (drop 4 (p0 m)))
            then Some LEN_UNCONSIST_X1 else None)\<rparr>"
  by (rule make_Message_parts [OF assms])

theorem make_Message_sections_witness:
  "\<exists>mm. make_Message example_lib (Some (parts_bytes example_parts @ end_mark)) = Some mm \<and>
     section_4 mm = Some (example_bds @ end_mark) \<and> err mm = None"
  using make_Message_sections [OF lib_ok_example example_parts_ok(1), of end_mark]
    example_parts_ok(2) by (simp add: valid_message_def) (simp add: example_parts_def)

text \<open>
  C1: walking over a file that is a concatenation of valid messages: the reader on any message of
  the file moves to the next one, and from the last one it reports that there is no other and
  stays where it is.
\<close>

theorem next_message_walks_file:
  assumes "lib_ok L" "\<forall>m\<in>set ms. valid_message m" "k < length ms"
  shows "next_message L (reader_at L ms k) =
    Some (if k + 1 < length ms then (True, reader_at L ms (k + 1)) else (False, reader_at L ms k))"
  by (rule next_message_reader [OF assms])

theorem next_message_walks_file_witness:
  "next_message example_lib (reader_at example_lib [example_parts, example_parts] 0) =
     Some (True, reader_at example_lib [example_parts, example_parts] 1)"
  using next_message_walks_file [OF lib_ok_example, of "[example_parts, example_parts]" 0]
  by (simp add: example_parts_ok)

text \<open>
  C16: the walk is bounded.  If every message that is visited has a length above zero, the number
  of successful steps is less than the number of octets left in the file.
\<close>

theorem next_message_bounded:
  assumes "walk (advance L) n g gs" "0 < n"
    "\<forall>h\<in>set (g # gs). \<forall>m len. msg h = Some m \<and> message_length L (section_0 m) = Some len \<longrightarrow> 0 < len"
  shows "current_ptr g + n < sz g"
proof -
  have "current_ptr t < current_ptr t'" if "t \<in> set (g # gs)" "advance L t = Some t'" for t t'
    using that(2) assms(3) that(1) unfolding advance_Some by (elim next_message_True) auto
  with assms(1,2) show ?thesis by (intro grib_walk.walk_bounded) auto
qed

theorem next_message_bounded_witness:
  "\<exists>g. next_message example_lib (reader_at example_lib [example_parts, example_parts] 0) = Some (True, g) \<and>
     current_ptr (reader_at example_lib [example_parts, example_parts] 0) + 1
       < sz (reader_at example_lib [example_parts, example_parts] 0)"
proof -
  let ?g = "reader_at example_lib [example_parts, example_parts]"
  have n: "next_message example_lib (?g 0) = Some (True, ?g 1)"
    using next_message_reader [OF lib_ok_example, of "[example_parts, example_parts]" 0]
    by (simp add: example_parts_ok)
  have w: "walk (advance example_lib) 1 (?g 0) [?g 1]"
    using n by (simp add: advance_Some)
  have l: "length (message_bytes example_parts) = 59"
    by (simp add: length_message_bytes [OF example_parts_ok(2)]) (simp add: example_parts_def be_nat_Cons)
  have len: "message_length example_lib (section_0 m) = Some 59"
    if h: "h \<in> set [?g 0, ?g 1]" "msg h = Some m" for h m
  proof -
    obtain k where k: "h = ?g k" "k < 2" using h(1) by (auto intro: that [of 0] that [of 1])
    then obtain rest where "drop k [example_parts, example_parts] = example_parts # rest"
      by (cases k) (auto simp: less_2_cases_iff)
    from reader_message_length [OF lib_ok_example this example_parts_ok(2)] show ?thesis
      using h(2) k(1) l by simp
  qed
  have "\<forall>h\<in>set [?g 0, ?g 1]. \<forall>m len. msg h = Some m \<and>
      message_length example_lib (section_0 m) = Some len \<longrightarrow> 0 < len"
    using len by (metis option.inject zero_less_numeral)
  then show ?thesis
    using next_message_bounded [OF w] n by auto
qed

text \<open>
  C22: a message whose indicator gives the length zero stops the walk without ending it: moving on
  succeeds and leaves the reader where it is, so the loop over the file makes any number of steps.
\<close>

theorem next_message_stuck:
  assumes "msg g = Some m" "message_length L (section_0 m) = Some 0" "current_ptr g < sz g"
    "make_Message L (ptr_add (f_ptr g) (current_ptr g)) = Some m"
  shows "next_message L g = Some (True, g) \<and> walk (advance L) n g (replicate n g)"
proof -
  have step: "next_message L g = Some (True, g)" using assms by (cases g) (simp add: next_message_def)
  then have "advance L g = Some g" by (simp add: advance_Some)
  then have "walk (advance L) n g (replicate n g)" by (induction n) simp_all
  with step show ?thesis by simp
qed

definition example_endless :: parts where
  "example_endless = example_parts\<lparr>p0 := [71, 82, 73, 66, 0, 0, 0, 1]\<rparr>"

theorem next_message_stuck_witness:
  "\<exists>mm. make_Message example_lib (Some (parts_bytes example_endless @ end_mark)) = Some mm \<and>
     next_message example_lib \<lparr>msg = Some mm, f_ptr = Some (parts_bytes example_endless @ end_mark),
       current_ptr = 0, sz = 59\<rparr> = Some (True, \<lparr>msg = Some mm,
         f_ptr = Some (parts_bytes example_endless @ end_mark), current_ptr = 0, sz = 59\<rparr>)"
proof -
  have ok: "parts_ok example_endless"
    by (simp add: parts_ok_def example_endless_def example_parts_def framed_def be_nat_Cons example_bds_def)
  let ?b = "Some (parts_bytes example_endless @ end_mark)"
  obtain mm where mm: "make_Message example_lib ?b = Some mm" "section_0 mm = ?b"
    using make_Message_parts [OF lib_ok_example ok, of end_mark] by simp
  have "message_length example_lib (section_0 mm) = Some 0"
    using message_length_parts [OF lib_ok_example ok, of end_mark] mm(2)
    by (simp add: example_endless_def be_nat_Cons)
  then show ?thesis
    using next_message_stuck [of "\<lparr>msg = Some mm, f_ptr = ?b, current_ptr = 0, sz = 59\<rparr>" mm example_lib 0]
      mm(1) by (simp add: ptr_add_def)
qed

text \<open>
  The two checks of the file format are the wrong way round.  On a file that starts with a
  valid message, \<^verbatim>\<open>open_grib\<close> reports a missing end section exactly if the last octet of the data
  happens to be the digit seven, because it looks one octet too early and for equality; and
  \<^verbatim>\<open>is_correct_format\<close> holds exactly if the file does not start with \<^verbatim>\<open>GRIB\<close>.
\<close>

theorem format_checks_inverted:
  assumes "lib_ok L" "valid_message m"
  shows "open_grib L (Some (file_of (m # ms))) =
      Some (if last (p4 m) = 55 then MISS_END_SECTION_X1 else NONE_ERR, reader_at L (m # ms) 0) \<and>
    is_correct_format (reader_at L (m # ms) 0) = Some (take 4 (p0 m) \<noteq> GRIB)"
  using open_grib_reader [OF assms] is_correct_format_reader [OF assms] by simp

theorem format_checks_inverted_witness:
  "open_grib example_lib (Some (file_of [example_parts])) =
     Some (NONE_ERR, reader_at example_lib [example_parts] 0) \<and>
   is_correct_format (reader_at example_lib [example_parts] 0) = Some False"
  using format_checks_inverted [OF lib_ok_example example_parts_ok(2), of "[]"]
  by (simp add: example_parts_def example_bds_def GRIB_def)

text \<open>
  \<^verbatim>\<open>extract_all\<close> never returns a decoded value of a field with packed bits.  Whenever it returns
  a vector for a section whose values have at least one bit, every element of it is the missing
  value, and on a regular grid the vector is empty.
\<close>

theorem extract_all_no_values:
  assumes "extract_all L m = Some (Ret vs)" "bit_per_value (section_4 m) = Some w" "w \<noteq> 0"
  shows "(\<forall>v\<in>set vs. v = f32 (UNDEFINED L)) \<and>
    (nxny L (section_2 m) = Some (Ret 0) \<longrightarrow> vs = [])"
  using assms bitmap_points_missing [of L m _ 0 0]
  by (fastforce simp: extract_all_def Let_def split: if_splits bind_splits prod.splits outcome.splits option.splits)

text \<open>
  A message whose reduced grid has three points and whose bit map has no point: the section before
  the bit map ends with a row length, and its high bits are the ones that are looked at.
\<close>

definition example_rows :: buffer where
  "example_rows = [0, 0, 36, 0, 33, 4, 255, 255, 0, 2] @ replicate 22 0 @ [0, 1, 0, 2] @ replicate 16 0"

definition example_masked :: Message where
  "example_masked = \<lparr>section_0 = None,
     section_1 = Some ([0, 0, 28, 3, 98, 140, 255, 192] @ replicate 20 0 @ example_rows),
     section_2 = Some example_rows, section_3 = Some (replicate 16 0),
     section_4 = Some example_bds, err = None\<rparr>"

lemma example_masked_sections:
  "section1Flags (section_1 example_masked) = Some \<lparr>sec2_inc = True, sec3_inc = True\<rparr>"
  "nxny example_lib (section_2 example_masked) = Some (Ret 3)"
  "bitmap_byte example_lib example_masked (- 1) = Some 2"
  "section_4 example_masked = Some example_bds"
proof -
  show "section1Flags (section_1 example_masked) = Some \<lparr>sec2_inc = True, sec3_inc = True\<rparr>"
    by (simp add: example_masked_def section1Flags_Some)
  show "nxny example_lib (section_2 example_masked) = Some (Ret 3)"
    by (simp add: example_masked_def nxny_values [OF lib_ok_example] lessThan_nat_numeral lessThan_Suc
        be_nat_Cons nth_append example_rows_def)
  show "bitmap_byte example_lib example_masked (- 1) = Some 2"
    by (simp add: bitmap_byte_def before_section_3_def example_masked_def sec1.len_value sec2.len_value
        be_nat_Cons Let_def buf_simps nth_append example_rows_def)
qed (simp add: example_masked_def)

theorem extract_all_no_values_witness:
  "extract_all example_lib example_masked = Some (Ret [f32 9999, f32 9999, f32 9999]) \<and>
   f32 9999 = f32 (UNDEFINED example_lib)"
proof -
  have f: "\<exists>f. get_data_flag (Some example_bds) = Some f \<and> complex_pack f = 0 \<and> spherical_harm_coefs f = 0"
    using get_data_flag_Some [of example_bds] by (simp add: example_bds_def)
  have u: "[0..<3] = [0, 1, 2 :: nat]" by (simp add: upt_rec)
  have b: "bit_per_value (section_4 example_masked) = Some 16"
    by (simp add: example_masked_def example_bds_def bit_per_value_def BDS_NumBits_def buf_simps)
  have e: "extract_all example_lib example_masked = Some (Ret [f32 9999, f32 9999, f32 9999])"
    using f b by (auto simp: extract_all_def example_masked_sections u Let_def map_masks_def)
      (simp_all add: example_lib_def)
  show ?thesis
    using extract_all_no_values [OF e b] e by simp
qed

end
