(* ===== verification/Grid_Base.thy ===== *)
theory Grid_Base
  imports Gds
begin

text \<open>
  The decoded grid descriptions: the structures \<^verbatim>\<open>GridBase\<close> and \<^verbatim>\<open>GridDefinitionBase\<close> of
  \<^verbatim>\<open>sections/grid/grid_base.h\<close>, one per representation type with fields, and \<^verbatim>\<open>GridAdditional\<close> of
  \<^verbatim>\<open>sections/grid/grid_additional.h\<close>.  A member of type \<^verbatim>\<open>uint16_t\<close> or \<^verbatim>\<open>int16_t\<close> is a word of
  sixteen bits, one of type \<^verbatim>\<open>uint32_t\<close> or \<^verbatim>\<open>int\<close> a word of thirty-two; the names of the members
  carry a prefix for their structure.
\<close>

named_theorems grid_simps \<open>the comparison operators of the grid structures\<close>
named_theorems grid_defined \<open>a section of the full size is decoded\<close>

text \<open>\<^verbatim>\<open>float(n)/1000\<close>.\<close>

definition milli :: "int \<Rightarrow> rat" where
  "milli n = f32 (f32 (of_int n) / 1000)"

text \<open>All sections begin at octet 7.\<close>

definition GridBase_begin_byte :: nat where
  "GridBase_begin_byte = 6"

section \<open>The structures of the representation types\<close>

subsection \<open>Lat lon grid equidist cylindr\<close>

record GridBase_LatLon =
  ll_y1 :: rat
  ll_x1 :: rat
  ll_y2 :: rat
  ll_x2 :: rat
  ll_dy :: rat
  ll_dx :: rat
  ll_ny :: u16
  ll_nx :: u16
  ll_scan_mode :: ScanMode
  ll_resolutionAndComponentFlags :: ResolutionComponentFlags

definition GridBase_LatLon_section_size :: nat where "GridBase_LatLon_section_size = 26"

definition GridBase_LatLon_eq :: "GridBase_LatLon \<Rightarrow> GridBase_LatLon \<Rightarrow> bool" where
  "GridBase_LatLon_eq a b \<longleftrightarrow>
     ll_y1 a = ll_y1 b \<and> ll_x1 a = ll_x1 b \<and> ll_y2 a = ll_y2 b \<and>
     ll_x2 a = ll_x2 b \<and> ll_dy a = ll_dy b \<and> ll_dx a = ll_dx b \<and>
     ll_ny a = ll_ny b \<and> ll_nx a = ll_nx b \<and>
     ScanMode_eq (ll_scan_mode a) (ll_scan_mode b) \<and>
     ResolutionComponentFlags_eq (ll_resolutionAndComponentFlags a) (ll_resolutionAndComponentFlags b)"

definition make_GridBase_LatLon :: "osterlib \<Rightarrow> cptr \<Rightarrow> GridBase_LatLon option" where
  "make_GridBase_LatLon L buffer = do {
     nx \<leftarrow> GDS_LatLon_nx L buffer;
     ny \<leftarrow> GDS_LatLon_ny L buffer;
     y1 \<leftarrow> GDS_LatLon_La1 L buffer;
     x1 \<leftarrow> GDS_LatLon_Lo1 L buffer;
     flags \<leftarrow> GDS_LatLon_mode buffer;
     y2 \<leftarrow> GDS_LatLon_La2 L buffer;
     x2 \<leftarrow> GDS_LatLon_Lo2 L buffer;
     dy \<leftarrow> GDS_LatLon_dy L buffer;
     dx \<leftarrow> GDS_LatLon_dx L buffer;
     scan \<leftarrow> GDS_LatLon_scan buffer;
     Some \<lparr>ll_y1 = milli y1, ll_x1 = milli x1, ll_y2 = milli y2, ll_x2 = milli x2, ll_dy = milli dy,
       ll_dx = milli dx, ll_ny = of_nat ny, ll_nx = of_nat nx,
       ll_scan_mode = make_ScanMode scan,
       ll_resolutionAndComponentFlags = make_ResolutionComponentFlags flags\<rparr>}"

lemma GridBase_LatLon_eq_iff [grid_simps]: "GridBase_LatLon_eq a b \<longleftrightarrow> a = b"
  by (auto simp: GridBase_LatLon_eq_def ScanMode_eq_iff ResolutionComponentFlags_eq_iff)

subsection \<open>Gaussian\<close>

record GridBase_Gaussian =
  ga_y1 :: rat
  ga_x1 :: rat
  ga_y2 :: rat
  ga_x2 :: rat
  ga_ny :: u16
  ga_nx :: u16
  ga_directionIncrement :: u16
  ga_N :: u16
  ga_scan_mode :: ScanMode
  ga_resolutionAndComponentFlags :: ResolutionComponentFlags

definition GridBase_Gaussian_section_size :: nat where "GridBase_Gaussian_section_size = 26"

definition GridBase_Gaussian_eq :: "GridBase_Gaussian \<Rightarrow> GridBase_Gaussian \<Rightarrow> bool" where
  "GridBase_Gaussian_eq a b \<longleftrightarrow>
     ga_y1 a = ga_y1 b \<and> ga_x1 a = ga_x1 b \<and> ga_y2 a = ga_y2 b \<and>
     ga_x2 a = ga_x2 b \<and> ga_N a = ga_N b \<and>
     ga_directionIncrement a = ga_directionIncrement b \<and> ga_ny a = ga_ny b \<and>
     ga_nx a = ga_nx b \<and> ScanMode_eq (ga_scan_mode a) (ga_scan_mode b) \<and>
     ResolutionComponentFlags_eq (ga_resolutionAndComponentFlags a) (ga_resolutionAndComponentFlags b)"

definition make_GridBase_Gaussian :: "osterlib \<Rightarrow> cptr \<Rightarrow> GridBase_Gaussian option" where
  "make_GridBase_Gaussian L buffer = do {
     y1 \<leftarrow> GDS_LatLon_La1 L buffer;
     x1 \<leftarrow> GDS_LatLon_Lo1 L buffer;
     y2 \<leftarrow> GDS_LatLon_La2 L buffer;
     x2 \<leftarrow> GDS_LatLon_Lo2 L buffer;
     nx \<leftarrow> GDS_LatLon_nx L buffer;
     ny \<leftarrow> GDS_LatLon_ny L buffer;
     inc \<leftarrow> GDS_LatLon_dx L buffer;
     N \<leftarrow> GDS_Gaussian_nlat L buffer;
     scan \<leftarrow> GDS_LatLon_scan buffer;
     flags \<leftarrow> GDS_LatLon_mode buffer;
     Some \<lparr>ga_y1 = milli y1, ga_x1 = milli x1, ga_y2 = milli y2, ga_x2 = milli x2,
       ga_ny = of_nat ny, ga_nx = of_nat nx, ga_directionIncrement = word_of_int inc,
       ga_N = of_nat N, ga_scan_mode = make_ScanMode scan,
       ga_resolutionAndComponentFlags = make_ResolutionComponentFlags flags\<rparr>}"

lemma GridBase_Gaussian_eq_iff [grid_simps]: "GridBase_Gaussian_eq a b \<longleftrightarrow> a = b"
  by (auto simp: GridBase_Gaussian_eq_def ScanMode_eq_iff ResolutionComponentFlags_eq_iff)

subsection \<open>Albers equal area\<close>

record GridBase_Albers =
  al_y1 :: rat
  al_x1 :: rat
  al_LoV :: rat
  al_latin1 :: rat
  al_latin2 :: rat
  al_Dy :: rat
  al_Dx :: rat
  al_latitude_south_pole :: rat
  al_longitude_south_pole :: rat
  al_ny :: u16
  al_nx :: u16
  al_is_south_pole :: bool
  al_is_bipolar :: bool
  al_scan_mode :: ScanMode
  al_resolutionAndComponentFlags :: ResolutionComponentFlags

definition GridBase_Albers_section_size :: nat where "GridBase_Albers_section_size = 36"

definition GridBase_Albers_eq :: "GridBase_Albers \<Rightarrow> GridBase_Albers \<Rightarrow> bool" where
  "GridBase_Albers_eq a b \<longleftrightarrow>
     al_y1 a = al_y1 b \<and> al_x1 a = al_x1 b \<and> al_LoV a = al_LoV b \<and>
     al_latin1 a = al_latin1 b \<and> al_latin2 a = al_latin2 b \<and> al_Dx a = al_Dx b \<and>
     al_Dy a = al_Dy b \<and> al_is_south_pole a = al_is_south_pole b \<and>
     al_is_bipolar a = al_is_bipolar b \<and>
     al_latitude_south_pole a = al_latitude_south_pole b \<and>
     al_longitude_south_pole a = al_longitude_south_pole b \<and> al_ny a = al_ny b \<and>
     al_nx a = al_nx b \<and> ScanMode_eq (al_scan_mode a) (al_scan_mode b) \<and>
     ResolutionComponentFlags_eq (al_resolutionAndComponentFlags a) (al_resolutionAndComponentFlags b)"

definition make_GridBase_Albers :: "osterlib \<Rightarrow> cptr \<Rightarrow> GridBase_Albers option" where
  "make_GridBase_Albers L buffer = do {
     nx \<leftarrow> GDS_Lambert_nx L buffer;
     ny \<leftarrow> GDS_Lambert_ny L buffer;
     y1 \<leftarrow> GDS_Lambert_La1 L buffer;
     x1 \<leftarrow> GDS_Lambert_Lo1 L buffer;
     flags \<leftarrow> GDS_Lambert_mode L buffer;
     LoV \<leftarrow> GDS_Lambert_Lov L buffer;
     Dy \<leftarrow> GDS_Lambert_dy L buffer;
     Dx \<leftarrow> GDS_Lambert_dx L buffer;
     south \<leftarrow> GDS_Lambert_NP buffer;
     bip \<leftarrow> GDS_Lambert_BP buffer;
     scan \<leftarrow> GDS_Lambert_scan buffer;
     latin1 \<leftarrow> GDS_Lambert_Latin1 L buffer;
     latin2 \<leftarrow> GDS_Lambert_Latin2 L buffer;
     latSP \<leftarrow> GDS_Lambert_LatSP L buffer;
     lonSP \<leftarrow> GDS_Lambert_LonSP L buffer;
     Some \<lparr>al_y1 = milli y1, al_x1 = milli x1, al_LoV = milli LoV, al_latin1 = milli latin1,
       al_latin2 = milli latin2, al_Dy = milli Dy, al_Dx = milli Dx,
       al_latitude_south_pole = milli latSP, al_longitude_south_pole = milli lonSP,
       al_ny = of_nat ny, al_nx = of_nat nx, al_is_south_pole = \<not> south,
       al_is_bipolar = bip, al_scan_mode = make_ScanMode scan,
       al_resolutionAndComponentFlags = make_ResolutionComponentFlags (of_nat flags)\<rparr>}"

lemma GridBase_Albers_eq_iff [grid_simps]: "GridBase_Albers_eq a b \<longleftrightarrow> a = b"
  by (auto simp: GridBase_Albers_eq_def ScanMode_eq_iff ResolutionComponentFlags_eq_iff)

subsection \<open>Spherical harmonic coefficients\<close>

record GridBase_Harmonic =
  ha_J :: u16
  ha_K :: u16
  ha_M :: u16
  ha_representation_type :: bool
  ha_rep_mode :: u8

definition GridBase_Harmonic_section_size :: nat where "GridBase_Harmonic_section_size = 26"

definition GridBase_Harmonic_eq :: "GridBase_Harmonic \<Rightarrow> GridBase_Harmonic \<Rightarrow> bool" where
  "GridBase_Harmonic_eq a b \<longleftrightarrow>
     ha_K a = ha_K b \<and> ha_M a = ha_M b \<and> ha_J a = ha_J b \<and>
     ha_rep_mode a = ha_rep_mode b \<and> ha_representation_type a = ha_representation_type b"

definition make_GridBase_Harmonic :: "osterlib \<Rightarrow> cptr \<Rightarrow> GridBase_Harmonic option" where
  "make_GridBase_Harmonic L buffer = do {
     J \<leftarrow> GDS_Harmonic_nj L buffer;
     K \<leftarrow> GDS_Harmonic_nk L buffer;
     M \<leftarrow> GDS_Harmonic_nm L buffer;
     rtype \<leftarrow> GDS_Harmonic_type buffer;
     rmode \<leftarrow> GDS_Harmonic_mode buffer;
     Some \<lparr>ha_J = of_nat J, ha_K = of_nat K, ha_M = of_nat M,
       ha_representation_type = rtype \<noteq> 0, ha_rep_mode = rmode\<rparr>}"

lemma GridBase_Harmonic_eq_iff [grid_simps]: "GridBase_Harmonic_eq a b \<longleftrightarrow> a = b"
  by (auto simp: GridBase_Harmonic_eq_def ScanMode_eq_iff ResolutionComponentFlags_eq_iff)

subsection \<open>Lambert\<close>

record GridBase_Lambert =
  la_nx :: u16
  la_ny :: u16
  la_y1 :: rat
  la_x1 :: rat
  la_resolutionAndComponentFlags :: ResolutionComponentFlags
  la_LoV :: rat
  la_dx :: rat
  la_dy :: rat
  la_is_south_pole :: bool
  la_is_bipolar :: bool
  la_scan_mode :: ScanMode
  la_latin1 :: rat
  la_latin2 :: rat
  la_latitude_south_pole :: u32
  la_longitude_south_pole :: u32

definition GridBase_Lambert_section_size :: nat where "GridBase_Lambert_section_size = 36"

definition GridBase_Lambert_eq :: "GridBase_Lambert \<Rightarrow> GridBase_Lambert \<Rightarrow> bool" where
  "GridBase_Lambert_eq a b \<longleftrightarrow>
     la_y1 a = la_y1 b \<and> la_x1 a = la_x1 b \<and> la_LoV a = la_LoV b \<and>
     la_latin1 a = la_latin1 b \<and> la_latin2 a = la_latin2 b \<and> la_dx a = la_dx b \<and>
     la_dy a = la_dy b \<and> la_is_south_pole a = la_is_south_pole b \<and>
     la_is_bipolar a = la_is_bipolar b \<and>
     la_latitude_south_pole a = la_latitude_south_pole b \<and>
     la_longitude_south_pole a = la_longitude_south_pole b \<and> la_ny a = la_ny b \<and>
     la_nx a = la_nx b \<and> ScanMode_eq (la_scan_mode a) (la_scan_mode b) \<and>
     ResolutionComponentFlags_eq (la_resolutionAndComponentFlags a) (la_resolutionAndComponentFlags b)"

definition make_GridBase_Lambert :: "osterlib \<Rightarrow> cptr \<Rightarrow> GridBase_Lambert option" where
  "make_GridBase_Lambert L buffer = do {
     nx \<leftarrow> GDS_Lambert_nx L buffer;
     ny \<leftarrow> GDS_Lambert_ny L buffer;
     y1 \<leftarrow> GDS_Lambert_La1 L buffer;
     x1 \<leftarrow> GDS_Lambert_Lo1 L buffer;
     flags \<leftarrow> GDS_Lambert_mode L buffer;
     LoV \<leftarrow> GDS_Lambert_Lov L buffer;
     dx \<leftarrow> GDS_Lambert_dx L buffer;
     dy \<leftarrow> GDS_Lambert_dy L buffer;
     south \<leftarrow> GDS_Lambert_NP buffer;
     bip \<leftarrow> GDS_Lambert_BP buffer;
     scan \<leftarrow> GDS_Lambert_scan buffer;
     latin1 \<leftarrow> GDS_Lambert_Latin1 L buffer;
     latin2 \<leftarrow> GDS_Lambert_Latin2 L buffer;
     latSP \<leftarrow> GDS_Lambert_LatSP L buffer;
     lonSP \<leftarrow> GDS_Lambert_LonSP L buffer;
     Some \<lparr>la_nx = of_nat nx, la_ny = of_nat ny, la_y1 = milli y1, la_x1 = milli x1,
       la_resolutionAndComponentFlags = make_ResolutionComponentFlags (of_nat flags),
       la_LoV = f32 (of_int LoV), la_dx = milli dx, la_dy = milli dy,
       la_is_south_pole = \<not> south, la_is_bipolar = bip, la_scan_mode = make_ScanMode scan,
       la_latin1 = f32 (of_int latin1), la_latin2 = f32 (of_int latin2),
       la_latitude_south_pole = word_of_int latSP, la_longitude_south_pole = word_of_int lonSP\<rparr>}"

lemma GridBase_Lambert_eq_iff [grid_simps]: "GridBase_Lambert_eq a b \<longleftrightarrow> a = b"
  by (auto simp: GridBase_Lambert_eq_def ScanMode_eq_iff ResolutionComponentFlags_eq_iff)

subsection \<open>Polar stereograph proj\<close>

record GridBase_Polar =
  po_nx :: u16
  po_ny :: u16
  po_y1 :: rat
  po_x1 :: rat
  po_resolutionAndComponentFlags :: ResolutionComponentFlags
  po_LoV :: rat
  po_dx :: u32
  po_dy :: u32
  po_is_south_pole :: bool
  po_scan_mode :: ScanMode

definition GridBase_Polar_section_size :: nat where "GridBase_Polar_section_size = 26"

definition GridBase_Polar_eq :: "GridBase_Polar \<Rightarrow> GridBase_Polar \<Rightarrow> bool" where
  "GridBase_Polar_eq a b \<longleftrightarrow>
     po_y1 a = po_y1 b \<and> po_x1 a = po_x1 b \<and> po_LoV a = po_LoV b \<and>
     po_dx a = po_dx b \<and> po_dy a = po_dy b \<and>
     po_is_south_pole a = po_is_south_pole b \<and> po_ny a = po_ny b \<and>
     po_nx a = po_nx b \<and> ScanMode_eq (po_scan_mode a) (po_scan_mode b) \<and>
     ResolutionComponentFlags_eq (po_resolutionAndComponentFlags a) (po_resolutionAndComponentFlags b)"

definition make_GridBase_Polar :: "osterlib \<Rightarrow> cptr \<Rightarrow> GridBase_Polar option" where
  "make_GridBase_Polar L buffer = do {
     nx \<leftarrow> GDS_Polar_nx L buffer;
     ny \<leftarrow> GDS_Polar_ny L buffer;
     y1 \<leftarrow> GDS_Polar_La1 L buffer;
     x1 \<leftarrow> GDS_Polar_Lo1 L buffer;
     flags \<leftarrow> GDS_Polar_mode buffer;
     LoV \<leftarrow> GDS_Polar_LoV L buffer;
     dx \<leftarrow> GDS_Polar_Dx L buffer;
     dy \<leftarrow> GDS_Polar_Dy L buffer;
     south \<leftarrow> GDS_Polar_pole buffer;
     scan \<leftarrow> GDS_Polar_mode buffer;
     Some \<lparr>po_nx = of_nat nx, po_ny = of_nat ny, po_y1 = milli y1, po_x1 = milli x1,
       po_resolutionAndComponentFlags = make_ResolutionComponentFlags flags, po_LoV = milli LoV,
       po_dx = word_of_int dx, po_dy = word_of_int dy, po_is_south_pole = south,
       po_scan_mode = make_ScanMode scan\<rparr>}"

lemma GridBase_Polar_eq_iff [grid_simps]: "GridBase_Polar_eq a b \<longleftrightarrow> a = b"
  by (auto simp: GridBase_Polar_eq_def ScanMode_eq_iff ResolutionComponentFlags_eq_iff)

subsection \<open>Space view\<close>

record GridBase_SpaceView =
  sv_nx :: u16
  sv_ny :: u16
  sv_y :: rat
  sv_x :: rat
  sv_resolutionAndComponentFlags :: ResolutionComponentFlags
  sv_dx :: u32
  sv_dy :: u32
  sv_xp :: u16
  sv_yp :: u16
  sv_scan_mode :: ScanMode
  sv_orientation :: u32
  sv_nr :: u32
  sv_Xo :: u16
  sv_Yo :: u16

definition GridBase_SpaceView_section_size :: nat where "GridBase_SpaceView_section_size = 38"

definition GridBase_SpaceView_eq :: "GridBase_SpaceView \<Rightarrow> GridBase_SpaceView \<Rightarrow> bool" where
  "GridBase_SpaceView_eq a b \<longleftrightarrow>
     sv_y a = sv_y b \<and> sv_x a = sv_x b \<and> sv_xp a = sv_xp b \<and>
     sv_yp a = sv_yp b \<and> sv_dx a = sv_dx b \<and> sv_dy a = sv_dy b \<and>
     sv_orientation a = sv_orientation b \<and> sv_nr a = sv_nr b \<and>
     sv_Xo a = sv_Xo b \<and> sv_Yo a = sv_Yo b \<and> sv_ny a = sv_ny b \<and>
     sv_nx a = sv_nx b \<and> ScanMode_eq (sv_scan_mode a) (sv_scan_mode b) \<and>
     ResolutionComponentFlags_eq (sv_resolutionAndComponentFlags a) (sv_resolutionAndComponentFlags b)"

definition make_GridBase_SpaceView :: "osterlib \<Rightarrow> cptr \<Rightarrow> GridBase_SpaceView option" where
  "make_GridBase_SpaceView L buffer = do {
     nx \<leftarrow> GDS_Polar_nx L buffer;
     ny \<leftarrow> GDS_Polar_ny L buffer;
     y \<leftarrow> GDS_Polar_La1 L buffer;
     x \<leftarrow> GDS_Polar_Lo1 L buffer;
     flags \<leftarrow> GDS_Polar_mode buffer;
     dx \<leftarrow> read_u L buffer 17 3;
     dy \<leftarrow> read_u L buffer 20 3;
     xp \<leftarrow> read_s L buffer 23 2;
     yp \<leftarrow> read_s L buffer 25 2;
     scan \<leftarrow> byte_at buffer 27;
     ori \<leftarrow> read_u L buffer 28 3;
     nr \<leftarrow> read_u L buffer 31 3;
     Xo \<leftarrow> read_s L buffer 34 2;
     Yo \<leftarrow> read_s L buffer 36 2;
     Some \<lparr>sv_nx = of_nat nx, sv_ny = of_nat ny, sv_y = milli y, sv_x = milli x,
       sv_resolutionAndComponentFlags = make_ResolutionComponentFlags flags, sv_dx = of_nat dx,
       sv_dy = of_nat dy, sv_xp = word_of_int xp, sv_yp = word_of_int yp,
       sv_scan_mode = make_ScanMode scan, sv_orientation = of_nat ori, sv_nr = of_nat nr,
       sv_Xo = word_of_int Xo, sv_Yo = word_of_int Yo\<rparr>}"

lemma GridBase_SpaceView_eq_iff [grid_simps]: "GridBase_SpaceView_eq a b \<longleftrightarrow> a = b"
  by (auto simp: GridBase_SpaceView_eq_def ScanMode_eq_iff ResolutionComponentFlags_eq_iff)

subsection \<open>Mercator\<close>

record GridBase_Mercator =
  me_nx :: u16
  me_ny :: u16
  me_y1 :: rat
  me_x1 :: rat
  me_resolutionAndComponentFlags :: ResolutionComponentFlags
  me_y2 :: rat
  me_x2 :: rat
  me_latin :: rat
  me_scan_mode :: ScanMode
  me_dy :: rat
  me_dx :: rat

definition GridBase_Mercator_section_size :: nat where "GridBase_Mercator_section_size = 36"

definition GridBase_Mercator_eq :: "GridBase_Mercator \<Rightarrow> GridBase_Mercator \<Rightarrow> bool" where
  "GridBase_Mercator_eq a b \<longleftrightarrow>
     me_y1 a = me_y1 b \<and> me_x1 a = me_x1 b \<and> me_latin a = me_latin b \<and>
     me_dx a = me_dx b \<and> me_dy a = me_dy b \<and> me_x2 a = me_x2 b \<and>
     me_y2 a = me_y2 b \<and> me_ny a = me_ny b \<and> me_nx a = me_nx b \<and>
     ScanMode_eq (me_scan_mode a) (me_scan_mode b) \<and>
     ResolutionComponentFlags_eq (me_resolutionAndComponentFlags a) (me_resolutionAndComponentFlags b)"

definition make_GridBase_Mercator :: "osterlib \<Rightarrow> cptr \<Rightarrow> GridBase_Mercator option" where
  "make_GridBase_Mercator L buffer = do {
     nx \<leftarrow> GDS_Merc_nx L buffer;
     ny \<leftarrow> GDS_Merc_dy L buffer;
     y1 \<leftarrow> GDS_Merc_La1 L buffer;
     x1 \<leftarrow> GDS_Merc_Lo1 L buffer;
     flags \<leftarrow> GDS_Merc_mode buffer;
     y2 \<leftarrow> GDS_Merc_La2 L buffer;
     x2 \<leftarrow> GDS_Merc_Lo2 L buffer;
     latin \<leftarrow> GDS_Merc_Latin L buffer;
     scan \<leftarrow> GDS_Merc_scan buffer;
     dy \<leftarrow> GDS_Merc_dy L buffer;
     dx \<leftarrow> GDS_Merc_dx L buffer;
     Some \<lparr>me_nx = of_nat nx, me_ny = word_of_int ny, me_y1 = f32 (of_int y1),
       me_x1 = f32 (of_int x1), me_resolutionAndComponentFlags = flags, me_y2 = f32 (of_int y2),
       me_x2 = f32 (of_int x2), me_latin = f32 (of_int latin), me_scan_mode = scan,
       me_dy = f32 (of_int dy), me_dx = f32 (of_int dx)\<rparr>}"

lemma GridBase_Mercator_eq_iff [grid_simps]: "GridBase_Mercator_eq a b \<longleftrightarrow> a = b"
  by (auto simp: GridBase_Mercator_eq_def ScanMode_eq_iff ResolutionComponentFlags_eq_iff)

subsection \<open>Representation types without fields\<close>

text \<open>Gnomonic, Miller's cylindrical, simple polyconic and UTM grids have no member.\<close>

datatype GridBase_empty = GridBase_empty

definition GridBase_empty_section_size :: nat where "GridBase_empty_section_size = 0"

definition GridBase_empty_eq :: "GridBase_empty \<Rightarrow> GridBase_empty \<Rightarrow> bool" where
  "GridBase_empty_eq a b \<longleftrightarrow> True"

definition make_GridBase_empty :: "osterlib \<Rightarrow> cptr \<Rightarrow> GridBase_empty option" where
  "make_GridBase_empty L buffer = Some GridBase_empty"

lemma GridBase_empty_eq_iff [grid_simps]: "GridBase_empty_eq a b \<longleftrightarrow> a = b"
  by (cases a; cases b) (simp add: GridBase_empty_eq_def)

section \<open>Rotation and stretching\<close>

datatype GridModification = NONE | ROTATION | STRETCHING | ROTATION_STRETCHING

record Rotation =
  rot_yp :: rat
  rot_xp :: rat
  rot_ang :: rat

record Stretching =
  str_ysp :: rat
  str_xsp :: rat
  str_factor :: rat

record Rotation_stretching =
  add_rot :: Rotation
  add_stretch :: Stretching

text \<open>The additional octets begin behind those of the representation type.\<close>

definition GridAdditional_begin_byte :: "nat \<Rightarrow> nat" where
  "GridAdditional_begin_byte base_size = GridBase_begin_byte + base_size"

definition GridAdditional_section_size :: "GridModification \<Rightarrow> nat" where
  "GridAdditional_section_size m = (case m of
     NONE \<Rightarrow> 0 | ROTATION \<Rightarrow> 10 | STRETCHING \<Rightarrow> 10 | ROTATION_STRETCHING \<Rightarrow> 10 + 10)"

definition make_Rotation :: "osterlib \<Rightarrow> nat \<Rightarrow> cptr \<Rightarrow> Rotation option" where
  "make_Rotation L base_size buffer = do {
     let i = GridAdditional_begin_byte base_size;
     yp \<leftarrow> read_s L buffer i 3;
     xp \<leftarrow> read_s L buffer (i + 3) 3;
     ang \<leftarrow> bytes_at buffer (i + 6) 4;
     Some \<lparr>rot_yp = f32 (to_float L yp), rot_xp = f32 (to_float L xp), rot_ang = f64 (ibm2flt L ang)\<rparr>}"

definition make_Stretching :: "osterlib \<Rightarrow> nat \<Rightarrow> cptr \<Rightarrow> Stretching option" where
  "make_Stretching L base_size buffer = do {
     let i = GridAdditional_begin_byte base_size;
     ysp \<leftarrow> read_s L buffer i 3;
     xsp \<leftarrow> read_s L buffer (i + 3) 3;
     s \<leftarrow> bytes_at buffer (i + 6) 4;
     Some \<lparr>str_ysp = f32 (to_float L ysp), str_xsp = f32 (to_float L xsp), str_factor = f64 (ibm2flt L s)\<rparr>}"

definition make_Rotation_stretching :: "osterlib \<Rightarrow> nat \<Rightarrow> cptr \<Rightarrow> Rotation_stretching option" where
  "make_Rotation_stretching L base_size buffer = do {
     r \<leftarrow> make_Rotation L base_size buffer;
     s \<leftarrow> make_Stretching L base_size buffer;
     Some \<lparr>add_rot = r, add_stretch = s\<rparr>}"

definition Rotation_eq :: "Rotation \<Rightarrow> Rotation \<Rightarrow> bool" where
  "Rotation_eq a b \<longleftrightarrow> rot_yp a = rot_yp b \<and> rot_xp a = rot_xp b \<and> rot_ang a = rot_ang b"

definition Stretching_eq :: "Stretching \<Rightarrow> Stretching \<Rightarrow> bool" where
  "Stretching_eq a b \<longleftrightarrow> str_ysp a = str_ysp b \<and> str_xsp a = str_xsp b \<and> str_factor a = str_factor b"

definition Rotation_stretching_eq :: "Rotation_stretching \<Rightarrow> Rotation_stretching \<Rightarrow> bool" where
  "Rotation_stretching_eq a b \<longleftrightarrow>
     str_ysp (add_stretch a) = str_ysp (add_stretch b) \<and>
     str_xsp (add_stretch a) = str_xsp (add_stretch b) \<and>
     str_factor (add_stretch a) = str_factor (add_stretch b) \<and>
     rot_yp (add_rot a) = rot_yp (add_rot b) \<and>
     rot_xp (add_rot a) = rot_xp (add_rot b) \<and>
     rot_ang (add_rot a) = rot_ang (add_rot b)"

lemma additional_eq_iff [grid_simps]:
  "Rotation_eq r r' \<longleftrightarrow> r = r'" "Stretching_eq s s' \<longleftrightarrow> s = s'" "Rotation_stretching_eq t t' \<longleftrightarrow> t = t'"
  by (auto simp: Rotation_eq_def Stretching_eq_def Rotation_stretching_eq_def)

section \<open>Grid definitions\<close>

text \<open>The base and the additional part of a grid; the size is the sum of theirs.\<close>

record ('b, 'a) GridDefinition =
  base_part :: 'b
  additional_part :: 'a

definition GridDefinition_section_size :: "nat \<Rightarrow> GridModification \<Rightarrow> nat" where
  "GridDefinition_section_size base_size m = base_size + GridAdditional_section_size m"

definition make_GridDefinition ::
    "(cptr \<Rightarrow> 'b option) \<Rightarrow> (cptr \<Rightarrow> 'a option) \<Rightarrow> cptr \<Rightarrow> ('b, 'a) GridDefinition option" where
  "make_GridDefinition mk_base mk_additional buffer = do {
     b \<leftarrow> mk_base buffer;
     a \<leftarrow> mk_additional buffer;
     Some \<lparr>base_part = b, additional_part = a\<rparr>}"

definition GridDefinition_eq ::
    "('b \<Rightarrow> 'b \<Rightarrow> bool) \<Rightarrow> ('a \<Rightarrow> 'a \<Rightarrow> bool) \<Rightarrow> ('b, 'a) GridDefinition \<Rightarrow> ('b, 'a) GridDefinition \<Rightarrow> bool" where
  "GridDefinition_eq eq_base eq_additional a b \<longleftrightarrow>
     eq_base (base_part a) (base_part b) \<and> eq_additional (additional_part a) (additional_part b)"

text \<open>The additional part of a grid without a modification: no member, always equal.\<close>

definition make_No_additional :: "cptr \<Rightarrow> unit option" where
  "make_No_additional buffer = Some ()"

definition No_additional_eq :: "unit \<Rightarrow> unit \<Rightarrow> bool" where
  "No_additional_eq a b \<longleftrightarrow> True"

lemma No_additional_eq_iff [grid_simps]: "No_additional_eq a b \<longleftrightarrow> a = b"
  by (simp add: No_additional_eq_def)

section \<open>A section of the full size is decoded\<close>

lemmas section_size_simps =
  GridBase_LatLon_section_size_def GridBase_Gaussian_section_size_def
  GridBase_Albers_section_size_def GridBase_Harmonic_section_size_def
  GridBase_Lambert_section_size_def GridBase_Polar_section_size_def
  GridBase_SpaceView_section_size_def GridBase_Mercator_section_size_def
  GridBase_empty_section_size_def GridBase_begin_byte_def

lemma reader_simps:
  "lib_ok L \<Longrightarrow> i + n \<le> length b \<Longrightarrow> read_u L (Some b) i n = Some (be_nat (take n (drop i b)))"
  "lib_ok L \<Longrightarrow> i + n \<le> length b \<Longrightarrow> read_s L (Some b) i n = Some (sign_magnitude (take n (drop i b)))"
  "lib_ok L \<Longrightarrow> i + 1 < length b \<Longrightarrow> INT2_at L (Some b) i = Some (sign_magnitude [b ! i, b ! (i + 1)])"
  "lib_ok L \<Longrightarrow> i + 2 < length b \<Longrightarrow>
     INT3_at L (Some b) i = Some (sign_magnitude [b ! i, b ! (i + 1), b ! (i + 2)])"
  "i < length b \<Longrightarrow> byte_at (Some b) i = Some (b ! i)"
  by (simp_all add: read_u_Some read_s_Some INT2_at_Some INT3_at_Some buf_simps)

lemma make_GridBase_LatLon_defined [grid_defined]:
  assumes "lib_ok L" "GridBase_begin_byte + GridBase_LatLon_section_size \<le> length b"
  shows "\<exists>g. make_GridBase_LatLon L (Some b) = Some g"
  using assms by (simp add: make_GridBase_LatLon_def reader_simps section_size_simps
    GDS_LatLon_La1_def GDS_LatLon_La2_def GDS_LatLon_Lo1_def GDS_LatLon_Lo2_def
    GDS_LatLon_dx_def GDS_LatLon_dy_def GDS_LatLon_mode_def GDS_LatLon_nx_def GDS_LatLon_ny_def
    GDS_LatLon_scan_def)

lemma make_GridBase_Gaussian_defined [grid_defined]:
  assumes "lib_ok L" "GridBase_begin_byte + GridBase_Gaussian_section_size \<le> length b"
  shows "\<exists>g. make_GridBase_Gaussian L (Some b) = Some g"
  using assms by (simp add: make_GridBase_Gaussian_def reader_simps section_size_simps
    GDS_Gaussian_nlat_def GDS_LatLon_La1_def GDS_LatLon_La2_def GDS_LatLon_Lo1_def
    GDS_LatLon_Lo2_def GDS_LatLon_dx_def GDS_LatLon_mode_def GDS_LatLon_nx_def GDS_LatLon_ny_def
    GDS_LatLon_scan_def)

lemma make_GridBase_Albers_defined [grid_defined]:
  assumes "lib_ok L" "GridBase_begin_byte + GridBase_Albers_section_size \<le> length b"
  shows "\<exists>g. make_GridBase_Albers L (Some b) = Some g"
  using assms by (simp add: make_GridBase_Albers_def reader_simps section_size_simps
    GDS_Lambert_BP_def GDS_Lambert_La1_def GDS_Lambert_LatSP_def GDS_Lambert_Latin1_def
    GDS_Lambert_Latin2_def GDS_Lambert_Lo1_def GDS_Lambert_LonSP_def GDS_Lambert_Lov_def
    GDS_Lambert_NP_def GDS_Lambert_dx_def GDS_Lambert_dy_def GDS_Lambert_mode_def
    GDS_Lambert_nx_def GDS_Lambert_ny_def GDS_Lambert_scan_def)

lemma make_GridBase_Harmonic_defined [grid_defined]:
  assumes "lib_ok L" "GridBase_begin_byte + GridBase_Harmonic_section_size \<le> length b"
  shows "\<exists>g. make_GridBase_Harmonic L (Some b) = Some g"
  using assms by (simp add: make_GridBase_Harmonic_def reader_simps section_size_simps
    GDS_Harmonic_mode_def GDS_Harmonic_nj_def GDS_Harmonic_nk_def GDS_Harmonic_nm_def
    GDS_Harmonic_type_def)

lemma make_GridBase_Lambert_defined [grid_defined]:
  assumes "lib_ok L" "GridBase_begin_byte + GridBase_Lambert_section_size \<le> length b"
  shows "\<exists>g. make_GridBase_Lambert L (Some b) = Some g"
  using assms by (simp add: make_GridBase_Lambert_def reader_simps section_size_simps
    GDS_Lambert_BP_def GDS_Lambert_La1_def GDS_Lambert_LatSP_def GDS_Lambert_Latin1_def
    GDS_Lambert_Latin2_def GDS_Lambert_Lo1_def GDS_Lambert_LonSP_def GDS_Lambert_Lov_def
    GDS_Lambert_NP_def GDS_Lambert_dx_def GDS_Lambert_dy_def GDS_Lambert_mode_def
    GDS_Lambert_nx_def GDS_Lambert_ny_def GDS_Lambert_scan_def)

lemma make_GridBase_Polar_defined [grid_defined]:
  assumes "lib_ok L" "GridBase_begin_byte + GridBase_Polar_section_size \<le> length b"
  shows "\<exists>g. make_GridBase_Polar L (Some b) = Some g"
  using assms by (simp add: make_GridBase_Polar_def reader_simps section_size_simps
    GDS_Polar_Dx_def GDS_Polar_Dy_def GDS_Polar_La1_def GDS_Polar_Lo1_def GDS_Polar_LoV_def
    GDS_Polar_mode_def GDS_Polar_nx_def GDS_Polar_ny_def GDS_Polar_pole_def)

lemma make_GridBase_SpaceView_defined [grid_defined]:
  assumes "lib_ok L" "GridBase_begin_byte + GridBase_SpaceView_section_size \<le> length b"
  shows "\<exists>g. make_GridBase_SpaceView L (Some b) = Some g"
  using assms by (simp add: make_GridBase_SpaceView_def reader_simps section_size_simps
    GDS_Polar_La1_def GDS_Polar_Lo1_def GDS_Polar_mode_def GDS_Polar_nx_def GDS_Polar_ny_def)

lemma make_GridBase_Mercator_defined [grid_defined]:
  assumes "lib_ok L" "GridBase_begin_byte + GridBase_Mercator_section_size \<le> length b"
  shows "\<exists>g. make_GridBase_Mercator L (Some b) = Some g"
  using assms by (simp add: make_GridBase_Mercator_def reader_simps section_size_simps
    GDS_Merc_La1_def GDS_Merc_La2_def GDS_Merc_Latin_def GDS_Merc_Lo1_def GDS_Merc_Lo2_def
    GDS_Merc_dx_def GDS_Merc_dy_def GDS_Merc_mode_def GDS_Merc_nx_def GDS_Merc_scan_def)

lemma make_GridBase_empty_defined [grid_defined]: "\<exists>g. make_GridBase_empty L p = Some g"
  by (simp add: make_GridBase_empty_def)

lemma make_additional_defined [grid_defined]:
  "\<exists>a. make_No_additional p = Some a"
  "lib_ok L \<Longrightarrow> GridBase_begin_byte + n + 10 \<le> length b \<Longrightarrow> \<exists>a. make_Rotation L n (Some b) = Some a"
  "lib_ok L \<Longrightarrow> GridBase_begin_byte + n + 10 \<le> length b \<Longrightarrow> \<exists>a. make_Stretching L n (Some b) = Some a"
  "lib_ok L \<Longrightarrow> GridBase_begin_byte + n + 10 \<le> length b \<Longrightarrow> \<exists>a. make_Rotation_stretching L n (Some b) = Some a"
  by (simp_all add: make_No_additional_def make_Rotation_def make_Stretching_def
      make_Rotation_stretching_def GridAdditional_begin_byte_def reader_simps buf_simps Let_def)

lemma make_GridDefinition_defined:
  "\<exists>b. mb p = Some b \<Longrightarrow> \<exists>a. ma p = Some a \<Longrightarrow>
     \<exists>g. make_GridDefinition mb ma p = Some g"
  by (auto simp: make_GridDefinition_def)

end
