(* ===== verification/Grid.thy ===== *)
theory Grid
  imports Grid_Base
begin

text \<open>
  \<^verbatim>\<open>GridInfo\<close>, the variant over all grid definitions, of \<^verbatim>\<open>sections/grid/grid.h\<close> and
  \<^verbatim>\<open>src/sections/grid/grid.cpp\<close>: construction from a representation type and the section, comparison,
  extension, the position tests and the names of the representation types.
\<close>

section \<open>The variant\<close>

datatype GridVariant =
    Monostate_grid
  | Grid_lat_lon "(GridBase_LatLon, unit) GridDefinition"
  | Grid_rotated_lat_lon "(GridBase_LatLon, Rotation) GridDefinition"
  | Grid_stretched_lat_lon "(GridBase_LatLon, Stretching) GridDefinition"
  | Grid_stretched_rotated_lat_lon "(GridBase_LatLon, Rotation_stretching) GridDefinition"
  | Grid_gaussian "(GridBase_Gaussian, unit) GridDefinition"
  | Grid_rotated_gaussian "(GridBase_Gaussian, Rotation) GridDefinition"
  | Grid_stretched_gaussian "(GridBase_Gaussian, Stretching) GridDefinition"
  | Grid_stretched_rotated_gaussian "(GridBase_Gaussian, Rotation_stretching) GridDefinition"
  | Grid_lambert "(GridBase_Lambert, unit) GridDefinition"
  | Grid_oblique_lambert "(GridBase_Lambert, unit) GridDefinition"
  | Grid_utm "(GridBase_empty, unit) GridDefinition"
  | Grid_albers "(GridBase_Albers, unit) GridDefinition"
  | Grid_space_view "(GridBase_SpaceView, unit) GridDefinition"
  | Grid_gnomonic "(GridBase_empty, unit) GridDefinition"
  | Grid_harmonic "(GridBase_Harmonic, unit) GridDefinition"
  | Grid_rotated_harmonic "(GridBase_Harmonic, Rotation) GridDefinition"
  | Grid_stretched_harmonic "(GridBase_Harmonic, Stretching) GridDefinition"
  | Grid_stretched_rotated_harmonic "(GridBase_Harmonic, Rotation_stretching) GridDefinition"
  | Grid_polar "(GridBase_Polar, unit) GridDefinition"
  | Grid_millers "(GridBase_empty, unit) GridDefinition"
  | Grid_polyconic "(GridBase_empty, unit) GridDefinition"
  | Grid_mercator "(GridBase_Mercator, unit) GridDefinition"

type_synonym GridInfo = GridVariant

text \<open>The index of the alternative, \<^verbatim>\<open>std::variant::index()\<close>.\<close>

primrec variant_index :: "GridVariant \<Rightarrow> nat" where
    "variant_index Monostate_grid = 0"
  | "variant_index (Grid_lat_lon g) = 1"
  | "variant_index (Grid_rotated_lat_lon g) = 2"
  | "variant_index (Grid_stretched_lat_lon g) = 3"
  | "variant_index (Grid_stretched_rotated_lat_lon g) = 4"
  | "variant_index (Grid_gaussian g) = 5"
  | "variant_index (Grid_rotated_gaussian g) = 6"
  | "variant_index (Grid_stretched_gaussian g) = 7"
  | "variant_index (Grid_stretched_rotated_gaussian g) = 8"
  | "variant_index (Grid_lambert g) = 9"
  | "variant_index (Grid_oblique_lambert g) = 10"
  | "variant_index (Grid_utm g) = 11"
  | "variant_index (Grid_albers g) = 12"
  | "variant_index (Grid_space_view g) = 13"
  | "variant_index (Grid_gnomonic g) = 14"
  | "variant_index (Grid_harmonic g) = 15"
  | "variant_index (Grid_rotated_harmonic g) = 16"
  | "variant_index (Grid_stretched_harmonic g) = 17"
  | "variant_index (Grid_stretched_rotated_harmonic g) = 18"
  | "variant_index (Grid_polar g) = 19"
  | "variant_index (Grid_millers g) = 20"
  | "variant_index (Grid_polyconic g) = 21"
  | "variant_index (Grid_mercator g) = 22"

text \<open>
  \<^verbatim>\<open>type()\<close> asks the definition for the template argument of its base class, which is the type
  without the modification.
\<close>

primrec GridInfo_type :: "GridVariant \<Rightarrow> RepresentationType" where
    "GridInfo_type Monostate_grid = UNDEF_GRID"
  | "GridInfo_type (Grid_lat_lon g) = LAT_LON_GRID_EQUIDIST_CYLINDR"
  | "GridInfo_type (Grid_rotated_lat_lon g) = LAT_LON_GRID_EQUIDIST_CYLINDR"
  | "GridInfo_type (Grid_stretched_lat_lon g) = LAT_LON_GRID_EQUIDIST_CYLINDR"
  | "GridInfo_type (Grid_stretched_rotated_lat_lon g) = LAT_LON_GRID_EQUIDIST_CYLINDR"
  | "GridInfo_type (Grid_gaussian g) = GAUSSIAN"
  | "GridInfo_type (Grid_rotated_gaussian g) = GAUSSIAN"
  | "GridInfo_type (Grid_stretched_gaussian g) = GAUSSIAN"
  | "GridInfo_type (Grid_stretched_rotated_gaussian g) = GAUSSIAN"
  | "GridInfo_type (Grid_lambert g) = LAMBERT"
  | "GridInfo_type (Grid_oblique_lambert g) = LAMBERT"
  | "GridInfo_type (Grid_utm g) = UTM"
  | "GridInfo_type (Grid_albers g) = ALBERS_EQUAL_AREA"
  | "GridInfo_type (Grid_space_view g) = SPACE_VIEW"
  | "GridInfo_type (Grid_gnomonic g) = GNOMONIC"
  | "GridInfo_type (Grid_harmonic g) = SPHERICAL_HARMONIC_COEFFICIENTS"
  | "GridInfo_type (Grid_rotated_harmonic g) = SPHERICAL_HARMONIC_COEFFICIENTS"
  | "GridInfo_type (Grid_stretched_harmonic g) = SPHERICAL_HARMONIC_COEFFICIENTS"
  | "GridInfo_type (Grid_stretched_rotated_harmonic g) = SPHERICAL_HARMONIC_COEFFICIENTS"
  | "GridInfo_type (Grid_polar g) = POLAR_STEREOGRAPH_PROJ"
  | "GridInfo_type (Grid_millers g) = MILLERS_CYLINDR"
  | "GridInfo_type (Grid_polyconic g) = SIMPLE_POLYCONIC"
  | "GridInfo_type (Grid_mercator g) = MERCATOR"

section \<open>Construction by the representation type\<close>

text \<open>\<^verbatim>\<open>enum_to_index\<close>: minus one for every byte but the enumerators.\<close>

definition enum_indices :: "(RepresentationType \<times> int) list" where
  "enum_indices = [
     (UNDEF_GRID, 0),
     (LAT_LON_GRID_EQUIDIST_CYLINDR, 1),
     (ROTATED_LAT_LON, 2),
     (STRETCHED_LAT_LON, 3),
     (STRETCHED_AND_ROTATED_LAT_LON, 4),
     (GAUSSIAN, 5),
     (ROTATED_GAUSSIAN_LAT_LON, 6),
     (STRETCHED_GAUSSIAN_LAT_LON, 7),
     (STRETCHED_ROTATED_GAUSSIAN_LAT_LON, 8),
     (LAMBERT, 9),
     (OBLIQUE_LAMBERT_CONFORMAL, 10),
     (UTM, 11),
     (ALBERS_EQUAL_AREA, 12),
     (SPACE_VIEW, 13),
     (GNOMONIC, 14),
     (SPHERICAL_HARMONIC_COEFFICIENTS, 15),
     (ROTATED_SPHERICAL_HARMONIC_COEFFICIENTS, 16),
     (STRETCHED_SPHERICAL_HARMONIC_COEFFICIENTS, 17),
     (STRETCHED_ROTATED_SPHERICAL_HARMONIC_COEFFICIENTS, 18),
     (POLAR_STEREOGRAPH_PROJ, 19),
     (MILLERS_CYLINDR, 20),
     (SIMPLE_POLYCONIC, 21),
     (MERCATOR, 22)]"

definition enum_to_index :: "int list" where
  "enum_to_index = fold (\<lambda>(r, i) m. m[unat (representation_code r) := i]) enum_indices (replicate 256 (- 1))"

text \<open>
  The alternatives that are constructible from a pointer, at their index: all but
  \<^verbatim>\<open>std::monostate\<close>.
\<close>

definition variant_constructors :: "osterlib \<Rightarrow> (cptr \<Rightarrow> GridVariant option) option list" where
  "variant_constructors L = [
     None,
     Some (\<lambda>buffer. map_option Grid_lat_lon (make_GridDefinition (make_GridBase_LatLon L) make_No_additional buffer)),
     Some (\<lambda>buffer. map_option Grid_rotated_lat_lon (make_GridDefinition (make_GridBase_LatLon L) (make_Rotation L GridBase_LatLon_section_size) buffer)),
     Some (\<lambda>buffer. map_option Grid_stretched_lat_lon (make_GridDefinition (make_GridBase_LatLon L) (make_Stretching L GridBase_LatLon_section_size) buffer)),
     Some (\<lambda>buffer. map_option Grid_stretched_rotated_lat_lon (make_GridDefinition (make_GridBase_LatLon L) (make_Rotation_stretching L GridBase_LatLon_section_size) buffer)),
     Some (\<lambda>buffer. map_option Grid_gaussian (make_GridDefinition (make_GridBase_Gaussian L) make_No_additional buffer)),
     Some (\<lambda>buffer. map_option Grid_rotated_gaussian (make_GridDefinition (make_GridBase_Gaussian L) (make_Rotation L GridBase_Gaussian_section_size) buffer)),
     Some (\<lambda>buffer. map_option Grid_stretched_gaussian (make_GridDefinition (make_GridBase_Gaussian L) (make_Stretching L GridBase_Gaussian_section_size) buffer)),
     Some (\<lambda>buffer. map_option Grid_stretched_rotated_gaussian (make_GridDefinition (make_GridBase_Gaussian L) (make_Rotation_stretching L GridBase_Gaussian_section_size) buffer)),
     Some (\<lambda>buffer. map_option Grid_lambert (make_GridDefinition (make_GridBase_Lambert L) make_No_additional buffer)),
     Some (\<lambda>buffer. map_option Grid_oblique_lambert (make_GridDefinition (make_GridBase_Lambert L) make_No_additional buffer)),
     Some (\<lambda>buffer. map_option Grid_utm (make_GridDefinition (make_GridBase_empty L) make_No_additional buffer)),
     Some (\<lambda>buffer. map_option Grid_albers (make_GridDefinition (make_GridBase_Albers L) make_No_additional buffer)),
     Some (\<lambda>buffer. map_option Grid_space_view (make_GridDefinition (make_GridBase_SpaceView L) make_No_additional buffer)),
     Some (\<lambda>buffer. map_option Grid_gnomonic (make_GridDefinition (make_GridBase_empty L) make_No_additional buffer)),
     Some (\<lambda>buffer. map_option Grid_harmonic (make_GridDefinition (make_GridBase_Harmonic L) make_No_additional buffer)),
     Some (\<lambda>buffer. map_option Grid_rotated_harmonic (make_GridDefinition (make_GridBase_Harmonic L) (make_Rotation L GridBase_Harmonic_section_size) buffer)),
     Some (\<lambda>buffer. map_option Grid_stretched_harmonic (make_GridDefinition (make_GridBase_Harmonic L) (make_Stretching L GridBase_Harmonic_section_size) buffer)),
     Some (\<lambda>buffer. map_option Grid_stretched_rotated_harmonic (make_GridDefinition (make_GridBase_Harmonic L) (make_Rotation_stretching L GridBase_Harmonic_section_size) buffer)),
     Some (\<lambda>buffer. map_option Grid_polar (make_GridDefinition (make_GridBase_Polar L) make_No_additional buffer)),
     Some (\<lambda>buffer. map_option Grid_millers (make_GridDefinition (make_GridBase_empty L) make_No_additional buffer)),
     Some (\<lambda>buffer. map_option Grid_polyconic (make_GridDefinition (make_GridBase_empty L) make_No_additional buffer)),
     Some (\<lambda>buffer. map_option Grid_mercator (make_GridDefinition (make_GridBase_Mercator L) make_No_additional buffer))]"

definition emplaceImpl :: "osterlib \<Rightarrow> GridInfo \<Rightarrow> nat \<Rightarrow> cptr \<Rightarrow> (bool \<times> GridInfo) option" where
  "emplaceImpl L result index buffer =
     (if index < length (variant_constructors L) then
        (case variant_constructors L ! index of
           None \<Rightarrow> Some (False, result)
         | Some mk \<Rightarrow> map_option (\<lambda>g. (True, g)) (mk buffer))
      else Some (False, result))"

definition emplace_by_id :: "osterlib \<Rightarrow> GridInfo \<Rightarrow> u8 \<Rightarrow> cptr \<Rightarrow> (bool \<times> GridInfo) option" where
  "emplace_by_id L result index buffer =
     (if unat index \<ge> length enum_to_index \<or> enum_to_index ! unat index = - 1 then Some (False, result)
      else emplaceImpl L result (nat (enum_to_index ! unat index)) buffer)"

definition make_GridInfo :: "osterlib \<Rightarrow> cptr \<Rightarrow> u8 \<Rightarrow> GridInfo option" where
  "make_GridInfo L buffer T = (if T \<noteq> representation_code UNDEF_GRID
     then map_option snd (emplace_by_id L Monostate_grid T buffer) else Some Monostate_grid)"

definition define_grid :: "osterlib \<Rightarrow> cptr \<Rightarrow> GridInfo option" where
  "define_grid L buf = do {
     t \<leftarrow> get_representation_type buf;
     map_option snd (emplace_by_id L Monostate_grid t buf)}"

definition has_grid :: "GridInfo \<Rightarrow> bool" where
  "has_grid g \<longleftrightarrow> g \<noteq> Monostate_grid"

definition has_grid_type :: "GridInfo \<Rightarrow> u8 \<Rightarrow> bool" where
  "has_grid_type g rep \<longleftrightarrow> enum_to_index ! unat rep = int (variant_index g)"

section \<open>Comparison\<close>

text \<open>
  The visitors of \<^verbatim>\<open>operator==\<close>: two alternatives are comparable exactly if they are the same.
\<close>

fun GridVariant_eq :: "GridVariant \<Rightarrow> GridVariant \<Rightarrow> bool" where
    "GridVariant_eq Monostate_grid h = (case h of Monostate_grid \<Rightarrow> True | _ \<Rightarrow> False)"
  | "GridVariant_eq (Grid_lat_lon g) h = (case h of Grid_lat_lon g' \<Rightarrow>
       GridDefinition_eq GridBase_LatLon_eq No_additional_eq g g' | _ \<Rightarrow> False)"
  | "GridVariant_eq (Grid_rotated_lat_lon g) h = (case h of Grid_rotated_lat_lon g' \<Rightarrow>
       GridDefinition_eq GridBase_LatLon_eq Rotation_eq g g' | _ \<Rightarrow> False)"
  | "GridVariant_eq (Grid_stretched_lat_lon g) h = (case h of Grid_stretched_lat_lon g' \<Rightarrow>
       GridDefinition_eq GridBase_LatLon_eq Stretching_eq g g' | _ \<Rightarrow> False)"
  | "GridVariant_eq (Grid_stretched_rotated_lat_lon g) h = (case h of Grid_stretched_rotated_lat_lon g' \<Rightarrow>
       GridDefinition_eq GridBase_LatLon_eq Rotation_stretching_eq g g' | _ \<Rightarrow> False)"
  | "GridVariant_eq (Grid_gaussian g) h = (case h of Grid_gaussian g' \<Rightarrow>
       GridDefinition_eq GridBase_Gaussian_eq No_additional_eq g g' | _ \<Rightarrow> False)"
  | "GridVariant_eq (Grid_rotated_gaussian g) h = (case h of Grid_rotated_gaussian g' \<Rightarrow>
       GridDefinition_eq GridBase_Gaussian_eq Rotation_eq g g' | _ \<Rightarrow> False)"
  | "GridVariant_eq (Grid_stretched_gaussian g) h = (case h of Grid_stretched_gaussian g' \<Rightarrow>
       GridDefinition_eq GridBase_Gaussian_eq Stretching_eq g g' | _ \<Rightarrow> False)"
  | "GridVariant_eq (Grid_stretched_rotated_gaussian g) h = (case h of Grid_stretched_rotated_gaussian g' \<Rightarrow>
       GridDefinition_eq GridBase_Gaussian_eq Rotation_stretching_eq g g' | _ \<Rightarrow> False)"
  | "GridVariant_eq (Grid_lambert g) h = (case h of Grid_lambert g' \<Rightarrow>
       GridDefinition_eq GridBase_Lambert_eq No_additional_eq g g' | _ \<Rightarrow> False)"
  | "GridVariant_eq (Grid_oblique_lambert g) h = (case h of Grid_oblique_lambert g' \<Rightarrow>
       GridDefinition_eq GridBase_Lambert_eq No_additional_eq g g' | _ \<Rightarrow> False)"
  | "GridVariant_eq (Grid_utm g) h = (case h of Grid_utm g' \<Rightarrow>
       GridDefinition_eq GridBase_empty_eq No_additional_eq g g' | _ \<Rightarrow> False)"
  | "GridVariant_eq (Grid_albers g) h = (case h of Grid_albers g' \<Rightarrow>
       GridDefinition_eq GridBase_Albers_eq No_additional_eq g g' | _ \<Rightarrow> False)"
  | "GridVariant_eq (Grid_space_view g) h = (case h of Grid_space_view g' \<Rightarrow>
       GridDefinition_eq GridBase_SpaceView_eq No_additional_eq g g' | _ \<Rightarrow> False)"
  | "GridVariant_eq (Grid_gnomonic g) h = (case h of Grid_gnomonic g' \<Rightarrow>
       GridDefinition_eq GridBase_empty_eq No_additional_eq g g' | _ \<Rightarrow> False)"
  | "GridVariant_eq (Grid_harmonic g) h = (case h of Grid_harmonic g' \<Rightarrow>
       GridDefinition_eq GridBase_Harmonic_eq No_additional_eq g g' | _ \<Rightarrow> False)"
  | "GridVariant_eq (Grid_rotated_harmonic g) h = (case h of Grid_rotated_harmonic g' \<Rightarrow>
       GridDefinition_eq GridBase_Harmonic_eq Rotation_eq g g' | _ \<Rightarrow> False)"
  | "GridVariant_eq (Grid_stretched_harmonic g) h = (case h of Grid_stretched_harmonic g' \<Rightarrow>
       GridDefinition_eq GridBase_Harmonic_eq Stretching_eq g g' | _ \<Rightarrow> False)"
  | "GridVariant_eq (Grid_stretched_rotated_harmonic g) h = (case h of Grid_stretched_rotated_harmonic g' \<Rightarrow>
       GridDefinition_eq GridBase_Harmonic_eq Rotation_stretching_eq g g' | _ \<Rightarrow> False)"
  | "GridVariant_eq (Grid_polar g) h = (case h of Grid_polar g' \<Rightarrow>
       GridDefinition_eq GridBase_Polar_eq No_additional_eq g g' | _ \<Rightarrow> False)"
  | "GridVariant_eq (Grid_millers g) h = (case h of Grid_millers g' \<Rightarrow>
       GridDefinition_eq GridBase_empty_eq No_additional_eq g g' | _ \<Rightarrow> False)"
  | "GridVariant_eq (Grid_polyconic g) h = (case h of Grid_polyconic g' \<Rightarrow>
       GridDefinition_eq GridBase_empty_eq No_additional_eq g g' | _ \<Rightarrow> False)"
  | "GridVariant_eq (Grid_mercator g) h = (case h of Grid_mercator g' \<Rightarrow>
       GridDefinition_eq GridBase_Mercator_eq No_additional_eq g g' | _ \<Rightarrow> False)"

definition GridInfo_eq :: "GridInfo \<Rightarrow> GridInfo \<Rightarrow> bool" where
  "GridInfo_eq a b \<longleftrightarrow> (if GridInfo_type a \<noteq> GridInfo_type b then False else GridVariant_eq a b)"

section \<open>Extension\<close>

text \<open>Only the plain latitude and longitude grid has these operations.\<close>

definition extendable :: "(GridBase_LatLon, unit) GridDefinition \<Rightarrow> (GridBase_LatLon, unit) GridDefinition \<Rightarrow> bool" where
  "extendable g other = (let base = base_part g; obase = base_part other in
     if ll_dx base \<noteq> ll_dx obase \<or> ll_dy base \<noteq> ll_dy obase then False
     else \<not> (ll_x1 base > ll_x2 obase \<or> ll_x2 base < ll_x1 obase \<or>
             ll_y1 base > ll_y2 obase \<or> ll_y2 base < ll_y1 obase))"

definition extend_lat_lon ::
    "(GridBase_LatLon, unit) GridDefinition \<Rightarrow> (GridBase_LatLon, unit) GridDefinition \<Rightarrow>
     (GridBase_LatLon, unit) GridDefinition" where
  "extend_lat_lon g other = (let o' = base_part other; b = base_part g;
     b = (if ll_x1 o' < ll_x1 b then b\<lparr>ll_x1 := ll_x1 o'\<rparr> else b);
     b = (if ll_y2 o' < ll_y2 b then b\<lparr>ll_y2 := ll_y2 o'\<rparr> else b);
     b = (if ll_x2 o' > ll_x2 b then b\<lparr>ll_x2 := ll_x2 o'\<rparr> else b);
     b = (if ll_y1 o' > ll_y1 b then b\<lparr>ll_y1 := ll_y1 o'\<rparr> else b)
     in g\<lparr>base_part := b\<rparr>)"

definition extendable_by :: "GridInfo \<Rightarrow> GridInfo \<Rightarrow> bool" where
  "extendable_by a b = (if GridInfo_type a \<noteq> GridInfo_type b then False
     else (case (a, b) of (Grid_lat_lon g, Grid_lat_lon h) \<Rightarrow> extendable g h | _ \<Rightarrow> False))"

definition extend_by :: "GridInfo \<Rightarrow> GridInfo \<Rightarrow> bool \<times> GridInfo" where
  "extend_by a b = (if \<not> extendable_by a b then (False, a)
     else (case (a, b) of
         (Grid_lat_lon g, Grid_lat_lon h) \<Rightarrow> (True, Grid_lat_lon (extend_lat_lon g h))
       | _ \<Rightarrow> (False, a)))"

section \<open>Positions\<close>

text \<open>
  \<^verbatim>\<open>Coord\<close> and \<^verbatim>\<open>is_correct_pos\<close> belong to OsterLib; \<open>fl\<close> is the rounding of the common type of the
  members of \<^verbatim>\<open>Coord\<close> and \<^verbatim>\<open>float\<close>, a parameter.  A division by zero and a result outside the range
  of \<^verbatim>\<open>int\<close> make the conversion to \<^verbatim>\<open>int\<close> undefined.
\<close>

record Coord =
  pos_lat :: rat
  pos_lon :: rat

definition pos_in_lat_lon :: "(GridBase_LatLon, unit) GridDefinition \<Rightarrow> Coord \<Rightarrow> bool" where
  "pos_in_lat_lon g pos = (let base = base_part g in
     if pos_lat pos < ll_y2 base \<or> pos_lat pos > ll_y1 base \<or> pos_lon pos < ll_x1 base \<or> pos_lon pos > ll_x2 base
     then False else True)"

text \<open>
  The visitor sees a constant grid, so \<^verbatim>\<open>pos_in_grid\<close> of the Gaussian grid, which is not a
  \<^verbatim>\<open>const\<close> member, does not apply.
\<close>

definition pos_in_grid :: "Coord \<Rightarrow> GridInfo \<Rightarrow> bool" where
  "pos_in_grid pos grid = (case grid of Grid_lat_lon g \<Rightarrow> pos_in_lat_lon g pos | _ \<Rightarrow> False)"

definition to_int :: "rat \<Rightarrow> int option" where
  "to_int x = (let n = (if 0 \<le> x then \<lfloor>x\<rfloor> else - \<lfloor>- x\<rfloor>) in
     if - (2 ^ 31) \<le> n \<and> n < 2 ^ 31 then Some n else None)"

definition value_by_raw_lat_lon ::
    "(rat \<Rightarrow> rat) \<Rightarrow> (GridBase_LatLon, unit) GridDefinition \<Rightarrow> Coord \<Rightarrow> int option" where
  "value_by_raw_lat_lon fl g pos = (let b = base_part g in
     if ll_dx b = 0 \<or> ll_dy b = 0 then None
     else let i = fl (fl (if ll_x1 b > ll_x2 b then pos_lon pos - ll_x2 b else pos_lon pos - ll_x1 b) / ll_dx b);
              j = fl (if ll_y1 b > ll_y2 b then ll_y1 b - pos_lat pos else pos_lat pos - ll_y1 b);
              j = fl (fl (of_int (uint (ll_nx b)) * j) / ll_dy b)
          in to_int (fl (fl (i + 1) + j)))"

definition value_by_raw ::
    "osterlib \<Rightarrow> (rat \<Rightarrow> rat) \<Rightarrow> (Coord \<Rightarrow> bool) \<Rightarrow> Coord \<Rightarrow> GridInfo \<Rightarrow> int option" where
  "value_by_raw L fl is_correct_pos pos grid =
     (if is_correct_pos pos then
        (case grid of Grid_lat_lon g \<Rightarrow> value_by_raw_lat_lon fl g pos | _ \<Rightarrow> Some (- (2 ^ 31)))
      else to_int (UNDEFINED L))"

section \<open>Names\<close>

primrec grid_to_text_of :: "RepresentationType \<Rightarrow> string" where
    "grid_to_text_of LAT_LON_GRID_EQUIDIST_CYLINDR = ''Cylindr (no modifications)''"
  | "grid_to_text_of ROTATED_LAT_LON = ''Rotated Cylindr''"
  | "grid_to_text_of STRETCHED_LAT_LON = ''Stretched Cylindr''"
  | "grid_to_text_of STRETCHED_AND_ROTATED_LAT_LON = ''Stretched and rotated Cylindr''"
  | "grid_to_text_of GAUSSIAN = ''Gaussian (no modifications)''"
  | "grid_to_text_of ROTATED_GAUSSIAN_LAT_LON = ''Rotated Gaussian''"
  | "grid_to_text_of STRETCHED_GAUSSIAN_LAT_LON = ''Stretched Gaussian''"
  | "grid_to_text_of STRETCHED_ROTATED_GAUSSIAN_LAT_LON = ''Stretched and rotated Gaussian''"
  | "grid_to_text_of ALBERS_EQUAL_AREA = ''Albers''"
  | "grid_to_text_of GNOMONIC = ''Gnomonic''"
  | "grid_to_text_of LAMBERT = ''Lambert''"
  | "grid_to_text_of OBLIQUE_LAMBERT_CONFORMAL = ''Oblique Lambert conic''"
  | "grid_to_text_of MERCATOR = ''Mercator''"
  | "grid_to_text_of SPHERICAL_HARMONIC_COEFFICIENTS = ''Spherical harmonic coefficients (no modifications)''"
  | "grid_to_text_of ROTATED_SPHERICAL_HARMONIC_COEFFICIENTS = ''Rotated spherical harmonic coefficients''"
  | "grid_to_text_of STRETCHED_SPHERICAL_HARMONIC_COEFFICIENTS = ''Stretched spherical harmonic coefficients''"
  | "grid_to_text_of STRETCHED_ROTATED_SPHERICAL_HARMONIC_COEFFICIENTS = ''Stretched and rotated spherical harmonic coefficients''"
  | "grid_to_text_of MILLERS_CYLINDR = ''Millers''"
  | "grid_to_text_of SIMPLE_POLYCONIC = ''Simple polyconic''"
  | "grid_to_text_of POLAR_STEREOGRAPH_PROJ = ''Polar''"
  | "grid_to_text_of SPACE_VIEW = ''Spatial''"
  | "grid_to_text_of UTM = ''UTM''"
  | "grid_to_text_of UNDEF_GRID = []"

primrec grid_to_abbr_of :: "RepresentationType \<Rightarrow> string" where
    "grid_to_abbr_of LAT_LON_GRID_EQUIDIST_CYLINDR = ''Cylindr''"
  | "grid_to_abbr_of ROTATED_LAT_LON = ''rCylindr''"
  | "grid_to_abbr_of STRETCHED_LAT_LON = ''sCylindr''"
  | "grid_to_abbr_of STRETCHED_AND_ROTATED_LAT_LON = ''srCylindr''"
  | "grid_to_abbr_of GAUSSIAN = ''Gauss''"
  | "grid_to_abbr_of ROTATED_GAUSSIAN_LAT_LON = ''rGauss''"
  | "grid_to_abbr_of STRETCHED_GAUSSIAN_LAT_LON = ''sGauss''"
  | "grid_to_abbr_of STRETCHED_ROTATED_GAUSSIAN_LAT_LON = ''srGauss''"
  | "grid_to_abbr_of ALBERS_EQUAL_AREA = ''Albers''"
  | "grid_to_abbr_of GNOMONIC = ''Gnomonic''"
  | "grid_to_abbr_of LAMBERT = ''Lambert''"
  | "grid_to_abbr_of OBLIQUE_LAMBERT_CONFORMAL = ''LambertConformal''"
  | "grid_to_abbr_of MERCATOR = ''Merc''"
  | "grid_to_abbr_of SPHERICAL_HARMONIC_COEFFICIENTS = ''SpherHarmCoef''"
  | "grid_to_abbr_of ROTATED_SPHERICAL_HARMONIC_COEFFICIENTS = ''rSpherHarmCoef''"
  | "grid_to_abbr_of STRETCHED_SPHERICAL_HARMONIC_COEFFICIENTS = ''sSpherHarmCoef''"
  | "grid_to_abbr_of STRETCHED_ROTATED_SPHERICAL_HARMONIC_COEFFICIENTS = ''srSpherHarmCoef''"
  | "grid_to_abbr_of MILLERS_CYLINDR = ''Millers''"
  | "grid_to_abbr_of SIMPLE_POLYCONIC = ''SimpPolyCon''"
  | "grid_to_abbr_of POLAR_STEREOGRAPH_PROJ = ''Polar''"
  | "grid_to_abbr_of SPACE_VIEW = ''Spatial''"
  | "grid_to_abbr_of UTM = ''UTM''"
  | "grid_to_abbr_of UNDEF_GRID = []"

definition grid_to_text :: "u8 \<Rightarrow> string" where
  "grid_to_text c = (case representation c of None \<Rightarrow> [] | Some r \<Rightarrow> grid_to_text_of r)"

definition grid_to_abbr :: "u8 \<Rightarrow> string" where
  "grid_to_abbr c = (case representation c of None \<Rightarrow> [] | Some r \<Rightarrow> grid_to_abbr_of r)"

definition abbr_to_grid :: "string \<Rightarrow> u8 option" where
  "abbr_to_grid input = map_option of_nat (find (\<lambda>i. grid_to_abbr (of_nat i) = input) [0..<256])"

section \<open>Facts\<close>

text \<open>The size of the definition of a representation type, and its modification.\<close>

primrec variant_section_size :: "RepresentationType \<Rightarrow> nat" where
    "variant_section_size UNDEF_GRID = 0"
  | "variant_section_size LAT_LON_GRID_EQUIDIST_CYLINDR = GridDefinition_section_size GridBase_LatLon_section_size NONE"
  | "variant_section_size ROTATED_LAT_LON = GridDefinition_section_size GridBase_LatLon_section_size ROTATION"
  | "variant_section_size STRETCHED_LAT_LON = GridDefinition_section_size GridBase_LatLon_section_size STRETCHING"
  | "variant_section_size STRETCHED_AND_ROTATED_LAT_LON = GridDefinition_section_size GridBase_LatLon_section_size ROTATION_STRETCHING"
  | "variant_section_size GAUSSIAN = GridDefinition_section_size GridBase_Gaussian_section_size NONE"
  | "variant_section_size ROTATED_GAUSSIAN_LAT_LON = GridDefinition_section_size GridBase_Gaussian_section_size ROTATION"
  | "variant_section_size STRETCHED_GAUSSIAN_LAT_LON = GridDefinition_section_size GridBase_Gaussian_section_size STRETCHING"
  | "variant_section_size STRETCHED_ROTATED_GAUSSIAN_LAT_LON = GridDefinition_section_size GridBase_Gaussian_section_size ROTATION_STRETCHING"
  | "variant_section_size LAMBERT = GridDefinition_section_size GridBase_Lambert_section_size NONE"
  | "variant_section_size OBLIQUE_LAMBERT_CONFORMAL = GridDefinition_section_size GridBase_Lambert_section_size NONE"
  | "variant_section_size UTM = GridDefinition_section_size GridBase_empty_section_size NONE"
  | "variant_section_size ALBERS_EQUAL_AREA = GridDefinition_section_size GridBase_Albers_section_size NONE"
  | "variant_section_size SPACE_VIEW = GridDefinition_section_size GridBase_SpaceView_section_size NONE"
  | "variant_section_size GNOMONIC = GridDefinition_section_size GridBase_empty_section_size NONE"
  | "variant_section_size SPHERICAL_HARMONIC_COEFFICIENTS = GridDefinition_section_size GridBase_Harmonic_section_size NONE"
  | "variant_section_size ROTATED_SPHERICAL_HARMONIC_COEFFICIENTS = GridDefinition_section_size GridBase_Harmonic_section_size ROTATION"
  | "variant_section_size STRETCHED_SPHERICAL_HARMONIC_COEFFICIENTS = GridDefinition_section_size GridBase_Harmonic_section_size STRETCHING"
  | "variant_section_size STRETCHED_ROTATED_SPHERICAL_HARMONIC_COEFFICIENTS = GridDefinition_section_size GridBase_Harmonic_section_size ROTATION_STRETCHING"
  | "variant_section_size POLAR_STEREOGRAPH_PROJ = GridDefinition_section_size GridBase_Polar_section_size NONE"
  | "variant_section_size MILLERS_CYLINDR = GridDefinition_section_size GridBase_empty_section_size NONE"
  | "variant_section_size SIMPLE_POLYCONIC = GridDefinition_section_size GridBase_empty_section_size NONE"
  | "variant_section_size MERCATOR = GridDefinition_section_size GridBase_Mercator_section_size NONE"

primrec variant_modification :: "GridVariant \<Rightarrow> GridModification" where
    "variant_modification Monostate_grid = NONE"
  | "variant_modification (Grid_lat_lon g) = NONE"
  | "variant_modification (Grid_rotated_lat_lon g) = ROTATION"
  | "variant_modification (Grid_stretched_lat_lon g) = STRETCHING"
  | "variant_modification (Grid_stretched_rotated_lat_lon g) = ROTATION_STRETCHING"
  | "variant_modification (Grid_gaussian g) = NONE"
  | "variant_modification (Grid_rotated_gaussian g) = ROTATION"
  | "variant_modification (Grid_stretched_gaussian g) = STRETCHING"
  | "variant_modification (Grid_stretched_rotated_gaussian g) = ROTATION_STRETCHING"
  | "variant_modification (Grid_lambert g) = NONE"
  | "variant_modification (Grid_oblique_lambert g) = NONE"
  | "variant_modification (Grid_utm g) = NONE"
  | "variant_modification (Grid_albers g) = NONE"
  | "variant_modification (Grid_space_view g) = NONE"
  | "variant_modification (Grid_gnomonic g) = NONE"
  | "variant_modification (Grid_harmonic g) = NONE"
  | "variant_modification (Grid_rotated_harmonic g) = ROTATION"
  | "variant_modification (Grid_stretched_harmonic g) = STRETCHING"
  | "variant_modification (Grid_stretched_rotated_harmonic g) = ROTATION_STRETCHING"
  | "variant_modification (Grid_polar g) = NONE"
  | "variant_modification (Grid_millers g) = NONE"
  | "variant_modification (Grid_polyconic g) = NONE"
  | "variant_modification (Grid_mercator g) = NONE"

lemma GridDefinition_eq_iff:
  assumes "\<And>x y. eb x y \<longleftrightarrow> x = y" "\<And>x y. ea x y \<longleftrightarrow> x = y"
  shows "GridDefinition_eq eb ea a b \<longleftrightarrow> a = b"
  using assms by (cases a; cases b) (auto simp: GridDefinition_eq_def)

lemma GridVariant_eq_iff: "GridVariant_eq a b \<longleftrightarrow> a = b"
  by (cases a; cases b) (simp_all add: GridDefinition_eq_iff grid_simps)

lemma enum_to_index_code:
  "length enum_to_index = 256"
  "enum_to_index ! unat (representation_code r) = (case map_of enum_indices r of Some i \<Rightarrow> i | None \<Rightarrow> - 1)"
proof -
  show "length enum_to_index = 256" by (simp add: enum_to_index_def enum_indices_def)
  show "enum_to_index ! unat (representation_code r) = (case map_of enum_indices r of Some i \<Rightarrow> i | None \<Rightarrow> - 1)"
    by (cases r) (simp_all add: enum_to_index_def enum_indices_def)
qed

lemma enum_to_index_other:
  assumes "representation c = None"
  shows "enum_to_index ! unat c = - 1"
proof -
  have ne: "unat c \<noteq> unat (representation_code r)" for r
  proof
    assume "unat c = unat (representation_code r)"
    then have "c = representation_code r" by (simp add: word_unat_eq_iff)
    then show False using assms by (metis option.distinct(1) rep.enum_of_code representation_def)
  qed
  have "fold (\<lambda>(r, i) m. m[unat (representation_code r) := i]) xs m ! unat c = m ! unat c" for xs and m :: "int list"
    using ne by (induction xs arbitrary: m) (auto simp: nth_list_update_neq [OF not_sym])
  then show ?thesis by (simp add: enum_to_index_def)
qed

lemma emplace_ex:
  "\<exists>d. m = Some d \<Longrightarrow> (\<And>d. P (C d)) \<Longrightarrow>
     \<exists>g. (\<exists>d. m = Some d \<and> C d = g) \<and> P g"
  by auto

lemma emplace_by_id_code:
  "emplace_by_id L g0 (representation_code r) p = (case map_of enum_indices r of
     None \<Rightarrow> Some (False, g0)
   | Some i \<Rightarrow> if i = - 1 then Some (False, g0) else emplaceImpl L g0 (nat i) p)"
proof -
  have "unat (representation_code r) < 256" by simp
  then show ?thesis
    by (simp add: emplace_by_id_def enum_to_index_code split: option.splits del: unat_u8_less)
qed

lemma emplace_alternative:
  assumes L: "lib_ok L" and r: "r \<noteq> UNDEF_GRID"
    and len: "GridBase_begin_byte + variant_section_size r \<le> length b"
  shows "\<exists>g. emplace_by_id L g0 (representation_code r) (Some b) = Some (True, g) \<and>
    int (variant_index g) = enum_to_index ! unat (representation_code r) \<and>
    (GridInfo_type g = r \<longleftrightarrow> variant_modification g = NONE \<and> r \<noteq> OBLIQUE_LAMBERT_CONFORMAL) \<and>
    (r = OBLIQUE_LAMBERT_CONFORMAL \<longrightarrow> variant_modification g = NONE \<and> GridInfo_type g = LAMBERT)"
  unfolding emplace_by_id_code enum_to_index_code
  using r len
  apply (cases r)
  apply (simp_all add: enum_indices_def emplaceImpl_def 
      variant_constructors_def GridDefinition_section_size_def GridAdditional_section_size_def)
  apply (rule emplace_ex, rule make_GridDefinition_defined, simp_all add: grid_defined make_No_additional_def L)+
  done

lemma find_upt_unique:
  assumes "n < k" "P n" "\<And>m. P m \<Longrightarrow> m < k \<Longrightarrow> m = n"
  shows "find P [0..<k] = Some n"
proof (cases "find P [0..<k]")
  case None
  then show ?thesis using assms(1,2) by (auto simp: find_None_iff)
next
  case (Some m)
  then have "P m" "m < k" using find_SomeD [OF Some] by auto
  then show ?thesis using assms(3) Some by simp
qed

lemma grid_to_abbr_of_inj: "grid_to_abbr_of r = grid_to_abbr_of r' \<longleftrightarrow> r = r'"
proof -
  have "distinct (map grid_to_abbr_of all_representations)" by code_simp
  then have "inj_on grid_to_abbr_of (set all_representations)" by (simp add: distinct_map)
  then show ?thesis using rep.elems_all by (auto simp: inj_on_def)
qed

lemma abbr_to_grid_of:
  assumes "r \<noteq> UNDEF_GRID"
  shows "abbr_to_grid (grid_to_abbr_of r) = Some (representation_code r)"
proof -
  let ?c = "representation_code r"
  have same: "grid_to_abbr c = grid_to_abbr_of r \<longleftrightarrow> c = ?c" for c
  proof (cases "representation c")
    case None
    have "grid_to_abbr_of r \<noteq> []" using assms by (cases r) simp_all
    moreover have "c \<noteq> ?c" using None by (metis option.distinct(1) rep.enum_of_code representation_def)
    ultimately show ?thesis using None by (auto simp: grid_to_abbr_def)
  next
    case (Some r')
    then have "c = representation_code r'" by (simp add: representation_def rep.enum_of_iff)
    then show ?thesis using Some by (auto simp: grid_to_abbr_def grid_to_abbr_of_inj rep.code_eq_iff)
  qed
  have "find (\<lambda>i. grid_to_abbr (of_nat i) = grid_to_abbr_of r) [0..<256] = Some (unat ?c)"
  proof (rule find_upt_unique)
    show "unat ?c < 256" by simp
    show "grid_to_abbr (of_nat (unat ?c)) = grid_to_abbr_of r" using same by simp
    show "m = unat ?c" if "grid_to_abbr (of_nat m) = grid_to_abbr_of r" "m < 256" for m
    proof -
      have "of_nat m = ?c" using that(1) same by blast
      then have "unat ?c = unat (of_nat m :: u8)" by simp
      then show ?thesis using that(2) by (simp add: unat_of_nat take_bit_nat_eq_self)
    qed
  qed
  then show ?thesis by (simp add: abbr_to_grid_def)
qed

lemma to_int_of_nat:
  assumes "n < 2 ^ 31"
  shows "to_int (of_nat n) = Some (int n)"
proof -
  have "int n < 2 ^ 31" using assms by (metis of_nat_less_iff of_nat_numeral of_nat_power)
  then show ?thesis by (simp add: to_int_def)
qed

lemma milli_0: "milli 0 = 0"
  by (simp add: milli_def to_float32_def)

lemma milli_error:
  assumes "\<bar>n\<bar> < 8388608"
  shows "\<bar>milli n - of_int n / 1000\<bar> \<le> 1 / 2048"
proof -
  have "milli n = f32 (of_int n / 1000)"
    using float32_numeral_exact [of n] assms by (simp add: milli_def)
  moreover have "\<bar>of_int n / 1000 :: rat\<bar> < 2 powi 14"
  proof -
    have "(of_int \<bar>n\<bar> :: rat) < 8388608" using assms by (simp only: of_int_less_numeral_iff)
    then show ?thesis by (simp add: abs_divide)
  qed
  ultimately show ?thesis using f32_error_bound [of "of_int n / 1000" 14] by (simp add: power_int_minus)
qed

text \<open>Two grids that run from south to north and overlap.\<close>

definition example_base :: "rat \<Rightarrow> rat \<Rightarrow> rat \<Rightarrow> rat \<Rightarrow> GridBase_LatLon" where
  "example_base y1 y2 x1 x2 = \<lparr>ll_y1 = y1, ll_x1 = x1, ll_y2 = y2, ll_x2 = x2, ll_dy = 1, ll_dx = 1,
     ll_ny = 11, ll_nx = 11, ll_scan_mode = make_ScanMode 0,
     ll_resolutionAndComponentFlags = make_ResolutionComponentFlags 0\<rparr>"

definition example_grid :: "rat \<Rightarrow> rat \<Rightarrow> rat \<Rightarrow> rat \<Rightarrow> (GridBase_LatLon, unit) GridDefinition" where
  "example_grid y1 y2 x1 x2 = \<lparr>base_part = example_base y1 y2 x1 x2, additional_part = ()\<rparr>"

section \<open>Properties\<close>

text \<open>
  C14: choosing the alternative by the representation type.  For every enumerator but the undefined
  one, and a section that is as long as the definition of that type needs, the construction reads
  inside the section, succeeds and stores the alternative of that type; \<^verbatim>\<open>type()\<close> gives the same
  type back exactly for the grids that are neither rotated nor stretched, except the oblique
  Lambert grid, which is neither and comes back as the Lambert type.  For the undefined type and for every byte that is no enumerator nothing changes and the result is false.
\<close>

theorem emplace_by_id_correct:
  assumes "lib_ok L" "r \<noteq> UNDEF_GRID" "GridBase_begin_byte + variant_section_size r \<le> length b"
  shows "(\<exists>g. emplace_by_id L g0 (representation_code r) (Some b) = Some (True, g) \<and>
      has_grid_type g (representation_code r) \<and>
      (GridInfo_type g = r \<longleftrightarrow> variant_modification g = NONE \<and> r \<noteq> OBLIQUE_LAMBERT_CONFORMAL) \<and>
      (r = OBLIQUE_LAMBERT_CONFORMAL \<longrightarrow> variant_modification g = NONE \<and> GridInfo_type g = LAMBERT)) \<and>
    emplace_by_id L g0 (representation_code UNDEF_GRID) (Some b) = Some (False, g0) \<and>
    (\<forall>c. representation c = None \<longrightarrow> emplace_by_id L g0 c (Some b) = Some (False, g0))"
proof (intro conjI allI impI)
  show "\<exists>g. emplace_by_id L g0 (representation_code r) (Some b) = Some (True, g) \<and>
      has_grid_type g (representation_code r) \<and>
      (GridInfo_type g = r \<longleftrightarrow> variant_modification g = NONE \<and> r \<noteq> OBLIQUE_LAMBERT_CONFORMAL) \<and>
      (r = OBLIQUE_LAMBERT_CONFORMAL \<longrightarrow> variant_modification g = NONE \<and> GridInfo_type g = LAMBERT)"
    using emplace_alternative [OF assms, of g0] by (auto simp: has_grid_type_def)
  show "emplace_by_id L g0 (representation_code UNDEF_GRID) (Some b) = Some (False, g0)"
    unfolding emplace_by_id_code by (simp add: enum_indices_def emplaceImpl_def variant_constructors_def)
  show "emplace_by_id L g0 c (Some b) = Some (False, g0)" if "representation c = None" for c
    using enum_to_index_other [OF that] by (simp add: emplace_by_id_def)
qed

theorem emplace_by_id_correct_witness:
  "\<exists>g. define_grid example_lib (Some example_gds) = Some g \<and> has_grid_type g 0"
proof -
  have "GridBase_begin_byte + variant_section_size LAT_LON_GRID_EQUIDIST_CYLINDR \<le> length example_gds"
    by (simp add: section_size_simps example_gds_def GridDefinition_section_size_def GridAdditional_section_size_def)
  from emplace_by_id_correct [OF lib_ok_example _ this, of Monostate_grid] show ?thesis
    by (auto simp: define_grid_def get_representation_type_def buf_simps example_gds_def)
qed

text \<open>
  The rotation and the stretching of a grid that has both are read from the same ten octets, so
  the pole and the factor of the stretching always equal the pole and the angle of the rotation.
\<close>

theorem Rotation_stretching_aliased:
  assumes "make_Rotation_stretching L n p = Some a"
  shows "str_ysp (add_stretch a) = rot_yp (add_rot a) \<and> str_xsp (add_stretch a) = rot_xp (add_rot a) \<and>
    str_factor (add_stretch a) = rot_ang (add_rot a)"
  using assms by (auto simp: make_Rotation_stretching_def make_Rotation_def make_Stretching_def Let_def split: bind_splits)

theorem Rotation_stretching_aliased_witness:
  "\<exists>a. make_Rotation_stretching example_lib 26 (Some (replicate 32 0 @ [0, 1, 2, 0, 0, 3, 66, 1, 0, 0])) = Some a \<and>
     str_ysp (add_stretch a) = f32 258 \<and> str_xsp (add_stretch a) = f32 3"
proof -
  let ?b = "replicate 32 0 @ [0, 1, 2, 0, 0, 3, 66, 1, 0, 0] :: buffer"
  obtain a where a: "make_Rotation_stretching example_lib 26 (Some ?b) = Some a"
    using make_additional_defined(4) [OF lib_ok_example, of 26 ?b] by (auto simp: GridBase_begin_byte_def)
  have r: "read_s example_lib (Some ?b) 32 3 = Some 258" "read_s example_lib (Some ?b) 35 3 = Some 3"
    by (simp_all add: read_s_Some [OF lib_ok_example] sign_magnitude_def be_nat_Cons)
  have t: "to_float example_lib n = of_int n" for n by (simp add: example_lib_def)
  have "rot_yp (add_rot a) = f32 258 \<and> rot_xp (add_rot a) = f32 3"
    using a by (auto simp: make_Rotation_stretching_def make_Rotation_def GridAdditional_begin_byte_def
        GridBase_begin_byte_def Let_def r t split: bind_splits)
  then show ?thesis using Rotation_stretching_aliased [OF a] a by simp
qed

text \<open>
  The comparison of two grids, through the two visitors and the member by member operators of
  all the structures, is equality of the alternative and of every member.
\<close>

theorem GridInfo_eq_iff: "GridInfo_eq a b \<longleftrightarrow> a = b"
  by (auto simp: GridInfo_eq_def GridVariant_eq_iff)

text \<open>
  C26: extending one latitude and longitude grid by another one that it is extendable by takes the
  hull of the two in longitude, but the larger first and the smaller last latitude, which is the
  intersection of two grids that run from south to north; the numbers of points stay as they were.
\<close>

theorem extend_lat_lon_result:
  assumes "extendable_by (Grid_lat_lon g) (Grid_lat_lon h)"
  defines "b \<equiv> base_part g" and "c \<equiv> base_part h"
  shows "extend_by (Grid_lat_lon g) (Grid_lat_lon h) = (True, Grid_lat_lon (g\<lparr>base_part := b\<lparr>
      ll_x1 := min (ll_x1 b) (ll_x1 c), ll_x2 := max (ll_x2 b) (ll_x2 c),
      ll_y1 := max (ll_y1 b) (ll_y1 c), ll_y2 := min (ll_y2 b) (ll_y2 c)\<rparr>\<rparr>))"
  using assms
  by (cases g; cases h; cases "base_part g"; cases "base_part h") (auto simp: extend_by_def extend_lat_lon_def Let_def min_def max_def)

theorem extend_lat_lon_result_witness:
  "extend_by (Grid_lat_lon (example_grid 0 10 0 10)) (Grid_lat_lon (example_grid 5 15 5 15)) =
     (True, Grid_lat_lon (example_grid 5 10 0 15))"
proof -
  have e: "extendable_by (Grid_lat_lon (example_grid 0 10 0 10)) (Grid_lat_lon (example_grid 5 15 5 15))"
    by (simp add: extendable_by_def extendable_def example_grid_def example_base_def Let_def)
  show ?thesis
    using extend_lat_lon_result [OF e] by (simp add: example_grid_def example_base_def)
qed

text \<open>
  The precondition of extending is the convention of the opposite scan: two grids that both run
  from north to south are never extendable, whatever they cover; and two extendable grids that both
  contain a position lie on one and the same single parallel.
\<close>

theorem extendable_without_positions:
  assumes "extendable_by a b"
  shows "\<exists>g h. a = Grid_lat_lon g \<and> b = Grid_lat_lon h \<and>
    \<not> (ll_y2 (base_part g) < ll_y1 (base_part g) \<and> ll_y2 (base_part h) < ll_y1 (base_part h)) \<and>
    (pos_in_grid p a \<and> pos_in_grid q b \<longrightarrow> pos_lat p = ll_y1 (base_part g) \<and> pos_lat q = pos_lat p)"
  using assms
  by (cases a; cases b) (auto simp: extendable_by_def extendable_def pos_in_grid_def pos_in_lat_lon_def Let_def split: if_splits)

theorem extendable_without_positions_witness:
  "\<not> pos_in_grid \<lparr>pos_lat = 5, pos_lon = 5\<rparr> (Grid_lat_lon (example_grid 0 10 0 10))"
proof
  let ?g = "Grid_lat_lon (example_grid 0 10 0 10)" and ?p = "\<lparr>pos_lat = 5, pos_lon = 5\<rparr>"
  assume "pos_in_grid ?p ?g"
  moreover have "extendable_by ?g ?g"
    by (simp add: extendable_by_def extendable_def example_grid_def example_base_def Let_def)
  ultimately show False
    using extendable_without_positions [of ?g ?g ?p ?p] by (auto simp: example_grid_def example_base_def)
qed

text \<open>
  The abbreviation of a representation type is found again, for all of them; the empty text,
  which every other byte has for its abbreviation, is found as the byte 11, which is no
  representation type.
\<close>

theorem abbr_to_grid_roundtrip:
  "(r \<noteq> UNDEF_GRID \<longrightarrow> abbr_to_grid (grid_to_abbr (representation_code r)) = Some (representation_code r)) \<and>
   abbr_to_grid [] = Some 11 \<and> representation 11 = None"
proof (intro conjI impI)
  show "abbr_to_grid [] = Some 11" by code_simp
  show "representation 11 = None" by code_simp
  assume "r \<noteq> UNDEF_GRID"
  moreover have "grid_to_abbr (representation_code r) = grid_to_abbr_of r"
    by (simp add: grid_to_abbr_def representation_def)
  ultimately show "abbr_to_grid (grid_to_abbr (representation_code r)) = Some (representation_code r)"
    by (simp add: abbr_to_grid_of)
qed

theorem abbr_to_grid_roundtrip_witness:
  "abbr_to_grid ''rGauss'' = Some 14"
  using abbr_to_grid_roundtrip [of ROTATED_GAUSSIAN_LAT_LON] by (simp add: grid_to_abbr_def) code_simp

text \<open>
  The index of a grid point in the packed data.  For a grid that runs east and south, and a
  position on the point \<open>i\<close> of the row \<open>j\<close>, the number is \<open>i + 1\<close> plus \<open>j\<close> rows, in exact arithmetic,
  as long as it fits an \<^verbatim>\<open>int\<close>.
\<close>

theorem value_by_raw_index:
  fixes g :: "(GridBase_LatLon, unit) GridDefinition"
  defines "b \<equiv> base_part g"
  assumes "is_correct_pos pos" "ll_x1 b \<le> ll_x2 b" "ll_y2 b < ll_y1 b" "0 < ll_dx b" "0 < ll_dy b"
    "pos_lon pos = ll_x1 b + of_nat i * ll_dx b" "pos_lat pos = ll_y1 b - of_nat j * ll_dy b"
    "i + 1 + unat (ll_nx b) * j < 2 ^ 31"
  shows "value_by_raw L (\<lambda>x. x) is_correct_pos pos (Grid_lat_lon g) = Some (int (i + 1 + unat (ll_nx b) * j))"
proof -
  let ?n = "of_nat (i + 1 + unat (ll_nx b) * j) :: rat"
  have nx: "(unsigned (ll_nx b) :: rat) = of_nat (unat (ll_nx b))" by (simp only: of_nat_unat)
  have "value_by_raw L (\<lambda>x. x) is_correct_pos pos (Grid_lat_lon g) = to_int ?n"
    using assms(2-8) by (simp add: value_by_raw_def value_by_raw_lat_lon_def Let_def b_def [symmetric] nx
        add.commute add.left_commute del: of_nat_unat)
  also have "to_int ?n = Some (int (i + 1 + unat (ll_nx b) * j))"
    by (rule to_int_of_nat [OF assms(9)])
  finally show ?thesis .
qed

theorem value_by_raw_index_witness:
  "value_by_raw example_lib (\<lambda>x. x) (\<lambda>p. True) \<lparr>pos_lat = 8, pos_lon = 3\<rparr>
     (Grid_lat_lon (example_grid 10 0 0 10)) = Some 26"
  using value_by_raw_index [of "\<lambda>p. True" "\<lparr>pos_lat = 8, pos_lon = 3\<rparr>" "example_grid 10 0 0 10" 3 2 example_lib]
  by (simp add: example_grid_def example_base_def)

text \<open>
  The members of a decoded latitude and longitude grid: the counts are the two-octet numbers,
  the corners are within half a millidegree of the signed three-octet numbers in degrees, and the
  increments are read whenever any bit of the flag octet is set, and zero otherwise.
\<close>

theorem GridBase_LatLon_decoded:
  assumes "lib_ok L" "28 \<le> length b"
  defines "mdeg i \<equiv> milli (sign_magnitude [b ! i, b ! (i + 1), b ! (i + 2)])"
    and "incr i \<equiv> (if b ! 16 = 0 then 0 else milli (sign_magnitude [b ! i, b ! (i + 1)]))"
  shows "\<exists>g. make_GridBase_LatLon L (Some b) = Some g \<and>
    unat (ll_nx g) = be_nat [b ! 6, b ! 7] \<and> unat (ll_ny g) = be_nat [b ! 8, b ! 9] \<and>
    ll_y1 g = mdeg 10 \<and> ll_x1 g = mdeg 13 \<and> ll_y2 g = mdeg 17 \<and> ll_x2 g = mdeg 20 \<and>
    ll_dx g = incr 23 \<and> ll_dy g = incr 25 \<and>
    (\<forall>i. \<bar>mdeg i - of_int (sign_magnitude [b ! i, b ! (i + 1), b ! (i + 2)]) / 1000\<bar> \<le> 1 / 2048)"
proof -
  have n: "unat (of_nat (be_nat (take 2 (drop i b))) :: u16) = be_nat [b ! i, b ! Suc i]" if "Suc i < length b" for i
    using take_2_drop [OF that] be_nat_less [of "[b ! i, b ! Suc i]"]
    by (simp add: unat_of_nat take_bit_nat_eq_self)
  have "\<bar>mdeg i - of_int (sign_magnitude [b ! i, b ! (i + 1), b ! (i + 2)]) / 1000\<bar> \<le> 1 / 2048" for i
    unfolding mdeg_def by (rule milli_error [OF sign_magnitude_3])
  then show ?thesis
    using assms(1,2) n [of 6] n [of 8]
    by (simp add: make_GridBase_LatLon_def reader_simps mdeg_def incr_def milli_0
      GDS_LatLon_La1_def GDS_LatLon_La2_def GDS_LatLon_Lo1_def GDS_LatLon_Lo2_def GDS_LatLon_dx_def
      GDS_LatLon_dy_def GDS_LatLon_mode_def GDS_LatLon_nx_def GDS_LatLon_ny_def GDS_LatLon_scan_def)
qed

theorem GridBase_LatLon_decoded_witness:
  "\<exists>g. make_GridBase_LatLon example_lib (Some example_gds) = Some g \<and> unat (ll_nx g) = 360 \<and>
     unat (ll_ny g) = 181 \<and> ll_dx g = milli 1000"
proof -
  have l: "28 \<le> length example_gds" by (simp add: example_gds_def)
  from GridBase_LatLon_decoded [OF lib_ok_example l] show ?thesis
    by (auto simp: example_gds_def be_nat_Cons sign_magnitude_def)
qed

text \<open>
  Members that are filled from the wrong octet.  The scanning mode of a polar grid is the one of
  the flag octet 17, its south pole flag is inverted; the number of rows of a Mercator grid is its
  grid length; and a Lambert grid is never bipolar.
\<close>

theorem projection_fields_mixed:
  assumes "lib_ok L" "42 \<le> length b"
  shows "\<exists>po me la. make_GridBase_Polar L (Some b) = Some po \<and> make_GridBase_Mercator L (Some b) = Some me \<and>
    make_GridBase_Lambert L (Some b) = Some la \<and>
    po_scan_mode po = make_ScanMode (b ! 16) \<and> (po_is_south_pole po \<longleftrightarrow> b ! 26 AND 128 = 0) \<and>
    me_ny me = (if b ! 16 AND 128 = 0 then 0 else word_of_int (sign_magnitude [b ! 31, b ! 32, b ! 33])) \<and>
    \<not> la_is_bipolar la"
proof -
  have bit: "(x AND 64 = 1) = False" for x :: u8
  proof -
    have "bit (x AND 64) 0 \<longleftrightarrow> False" by (simp add: bit_0 even_and_iff)
    moreover have "bit (1 :: u8) 0" by simp
    ultimately show ?thesis by metis
  qed
  show ?thesis
    using assms
    by (simp add: make_GridBase_Polar_def make_GridBase_Mercator_def make_GridBase_Lambert_def reader_simps bit
    GDS_Polar_La1_def GDS_Polar_Lo1_def GDS_Polar_LoV_def GDS_Polar_Dx_def GDS_Polar_Dy_def
    GDS_Polar_mode_def GDS_Polar_nx_def GDS_Polar_ny_def GDS_Polar_pole_def
    GDS_Merc_La1_def GDS_Merc_Lo1_def GDS_Merc_La2_def GDS_Merc_Lo2_def GDS_Merc_Latin_def
    GDS_Merc_dx_def GDS_Merc_dy_def GDS_Merc_mode_def GDS_Merc_nx_def GDS_Merc_scan_def
    GDS_Lambert_La1_def GDS_Lambert_Lo1_def GDS_Lambert_Lov_def GDS_Lambert_dx_def GDS_Lambert_dy_def
    GDS_Lambert_mode_def GDS_Lambert_nx_def GDS_Lambert_ny_def GDS_Lambert_NP_def GDS_Lambert_BP_def
    GDS_Lambert_scan_def GDS_Lambert_Latin1_def GDS_Lambert_Latin2_def GDS_Lambert_LatSP_def
    GDS_Lambert_LonSP_def)
qed

theorem projection_fields_mixed_witness:
  "\<exists>po. make_GridBase_Polar example_lib (Some (replicate 16 0 @ [128] @ replicate 25 0)) = Some po \<and>
     po_is_south_pole po"
proof -
  have l: "42 \<le> length (replicate 16 0 @ [128] @ replicate 25 0 :: buffer)" by simp
  from projection_fields_mixed [OF lib_ok_example l] show ?thesis by (auto simp: nth_append)
qed

end
