(* ===== verification/Grid_Serial.thy ===== *)
theory Grid_Serial
  imports Grid
begin

text \<open>
  The serialization of grid definitions: the specializations of \<^verbatim>\<open>Serialize\<close>, \<^verbatim>\<open>Deserialize\<close> and
  \<^verbatim>\<open>Min_serial_size\<close>/\<^verbatim>\<open>Max_serial_size\<close> in the headers of \<^verbatim>\<open>sections/grid\<close>.  They name the
  members to be written, in order; the templates that write a single number belong to OsterLib and
  are the parameter \<open>codec\<close>.
\<close>

section \<open>Numbers\<close>

datatype kind = K_float | K_double | K_u8 | K_u16 | K_u32 | K_bool

text \<open>\<^verbatim>\<open>sizeof\<close> of the types, and the sum that the size templates form.\<close>

primrec kind_size :: "kind \<Rightarrow> nat" where
  "kind_size K_float = 4"
| "kind_size K_double = 8"
| "kind_size K_u8 = 1"
| "kind_size K_u16 = 2"
| "kind_size K_u32 = 4"
| "kind_size K_bool = 1"

definition serial_size :: "kind list \<Rightarrow> nat" where
  "serial_size ks = sum_list (map kind_size ks)"

text \<open>
  Writing a number in network or in machine order, and reading one from the front of the octets.
  What the code relies on: a number that was written is read back, and reading stops right after
  it.  A member of type \<^verbatim>\<open>float\<close> or \<^verbatim>\<open>double\<close> holds a value of that type.  The variadic
  \<^verbatim>\<open>serialize\<close> and \<^verbatim>\<open>deserialize\<close> work through their arguments in order.
\<close>

record codec =
  put_float :: "bool \<Rightarrow> rat \<Rightarrow> u8 list"
  get_float :: "bool \<Rightarrow> u8 list \<Rightarrow> (rat \<times> u8 list) option"
  put_double :: "bool \<Rightarrow> rat \<Rightarrow> u8 list"
  get_double :: "bool \<Rightarrow> u8 list \<Rightarrow> (rat \<times> u8 list) option"
  put_u8 :: "bool \<Rightarrow> u8 \<Rightarrow> u8 list"
  get_u8 :: "bool \<Rightarrow> u8 list \<Rightarrow> (u8 \<times> u8 list) option"
  put_u16 :: "bool \<Rightarrow> u16 \<Rightarrow> u8 list"
  get_u16 :: "bool \<Rightarrow> u8 list \<Rightarrow> (u16 \<times> u8 list) option"
  put_u32 :: "bool \<Rightarrow> u32 \<Rightarrow> u8 list"
  get_u32 :: "bool \<Rightarrow> u8 list \<Rightarrow> (u32 \<times> u8 list) option"
  put_bool :: "bool \<Rightarrow> bool \<Rightarrow> u8 list"
  get_bool :: "bool \<Rightarrow> u8 list \<Rightarrow> (bool \<times> u8 list) option"

definition codec_ok :: "codec \<Rightarrow> bool" where
  "codec_ok C \<longleftrightarrow>
     (\<forall>net x r. f32 x = x \<longrightarrow> get_float C net (put_float C net x @ r) = Some (x, r)) \<and>
     (\<forall>net x r. f64 x = x \<longrightarrow> get_double C net (put_double C net x @ r) = Some (x, r)) \<and>
     (\<forall>net w r. get_u8 C net (put_u8 C net w @ r) = Some (w, r)) \<and>
     (\<forall>net w r. get_u16 C net (put_u16 C net w @ r) = Some (w, r)) \<and>
     (\<forall>net w r. get_u32 C net (put_u32 C net w @ r) = Some (w, r)) \<and>
     (\<forall>net b r. get_bool C net (put_bool C net b @ r) = Some (b, r))"

lemma codec_okD:
  assumes "codec_ok C"
  shows "f32 x = x \<Longrightarrow> get_float C net (put_float C net x @ r) = Some (x, r)"
    "f64 x = x \<Longrightarrow> get_double C net (put_double C net x @ r) = Some (x, r)"
    "get_u8 C net (put_u8 C net w1 @ r) = Some (w1, r)"
    "get_u16 C net (put_u16 C net w2 @ r) = Some (w2, r)"
    "get_u32 C net (put_u32 C net w3 @ r) = Some (w3, r)"
    "get_bool C net (put_bool C net b @ r) = Some (b, r)"
  using assms by (simp_all add: codec_ok_def)

section \<open>The members of the structures\<close>

definition Serialize_ScanMode :: "codec \<Rightarrow> bool \<Rightarrow> ScanMode \<Rightarrow> u8 list" where
  "Serialize_ScanMode C net m = put_bool C net (points_sub_i_dir m) @
     put_bool C net (points_sub_j_dir m) @ put_bool C net (adj_points_j_dir m)"

definition Deserialize_ScanMode :: "codec \<Rightarrow> bool \<Rightarrow> u8 list \<Rightarrow> (ScanMode \<times> u8 list) option" where
  "Deserialize_ScanMode C net buf = do {
     (i, buf) \<leftarrow> get_bool C net buf;
     (j, buf) \<leftarrow> get_bool C net buf;
     (a, buf) \<leftarrow> get_bool C net buf;
     Some (\<lparr>points_sub_i_dir = i, points_sub_j_dir = j, adj_points_j_dir = a\<rparr>, buf)}"

definition ScanMode_kinds :: "kind list" where
  "ScanMode_kinds = [K_bool, K_bool, K_bool]"

definition Serialize_ResolutionComponentFlags ::
    "codec \<Rightarrow> bool \<Rightarrow> ResolutionComponentFlags \<Rightarrow> u8 list" where
  "Serialize_ResolutionComponentFlags C net m = put_bool C net (given_direction m) @
     put_bool C net (earth_spheroidal m) @ put_bool C net (grid_direction_uv_comp m)"

definition Deserialize_ResolutionComponentFlags ::
    "codec \<Rightarrow> bool \<Rightarrow> u8 list \<Rightarrow> (ResolutionComponentFlags \<times> u8 list) option" where
  "Deserialize_ResolutionComponentFlags C net buf = do {
     (d, buf) \<leftarrow> get_bool C net buf;
     (e, buf) \<leftarrow> get_bool C net buf;
     (u, buf) \<leftarrow> get_bool C net buf;
     Some (\<lparr>given_direction = d, earth_spheroidal = e, grid_direction_uv_comp = u\<rparr>, buf)}"

definition ResolutionComponentFlags_kinds :: "kind list" where
  "ResolutionComponentFlags_kinds = [K_bool, K_bool, K_bool]"

definition Serialize_GridBase_LatLon :: "codec \<Rightarrow> bool \<Rightarrow> GridBase_LatLon \<Rightarrow> u8 list" where
  "Serialize_GridBase_LatLon C net g =
     put_float C net (ll_y1 g) @ put_float C net (ll_x1 g) @ put_float C net (ll_y2 g) @
     put_float C net (ll_x2 g) @ put_float C net (ll_dy g) @ put_float C net (ll_dx g) @
     put_u16 C net (ll_ny g) @ put_u16 C net (ll_nx g) @
     Serialize_ScanMode C net (ll_scan_mode g) @
     Serialize_ResolutionComponentFlags C net (ll_resolutionAndComponentFlags g)"

definition Deserialize_GridBase_LatLon :: "codec \<Rightarrow> bool \<Rightarrow> u8 list \<Rightarrow> (GridBase_LatLon \<times> u8 list) option" where
  "Deserialize_GridBase_LatLon C net buf = do {
     (y1', buf) \<leftarrow> get_float C net buf;
     (x1', buf) \<leftarrow> get_float C net buf;
     (y2', buf) \<leftarrow> get_float C net buf;
     (x2', buf) \<leftarrow> get_float C net buf;
     (dy', buf) \<leftarrow> get_float C net buf;
     (dx', buf) \<leftarrow> get_float C net buf;
     (ny', buf) \<leftarrow> get_u16 C net buf;
     (nx', buf) \<leftarrow> get_u16 C net buf;
     (scan', buf) \<leftarrow> Deserialize_ScanMode C net buf;
     (flags', buf) \<leftarrow> Deserialize_ResolutionComponentFlags C net buf;
     Some (\<lparr>ll_y1 = y1', ll_x1 = x1', ll_y2 = y2', ll_x2 = x2', ll_dy = dy', ll_dx = dx',
       ll_ny = ny', ll_nx = nx', ll_scan_mode = scan', ll_resolutionAndComponentFlags = flags'\<rparr>, buf)}"

definition GridBase_LatLon_kinds :: "kind list" where
  "GridBase_LatLon_kinds =
     [K_float, K_float, K_float, K_float, K_float, K_float, K_u16, K_u16] @ ScanMode_kinds @
     ResolutionComponentFlags_kinds"

definition GridBase_LatLon_storable :: "GridBase_LatLon \<Rightarrow> bool" where
  "GridBase_LatLon_storable g \<longleftrightarrow> f32 (ll_y1 g) = ll_y1 g \<and> f32 (ll_x1 g) = ll_x1 g \<and>
     f32 (ll_y2 g) = ll_y2 g \<and> f32 (ll_x2 g) = ll_x2 g \<and>
     f32 (ll_dy g) = ll_dy g \<and> f32 (ll_dx g) = ll_dx g"

definition Serialize_GridBase_Gaussian :: "codec \<Rightarrow> bool \<Rightarrow> GridBase_Gaussian \<Rightarrow> u8 list" where
  "Serialize_GridBase_Gaussian C net g =
     put_float C net (ga_y1 g) @ put_float C net (ga_x1 g) @ put_float C net (ga_y2 g) @
     put_float C net (ga_x2 g) @ put_u16 C net (ga_ny g) @ put_u16 C net (ga_nx g) @
     put_u16 C net (ga_directionIncrement g) @ put_u16 C net (ga_N g) @
     Serialize_ScanMode C net (ga_scan_mode g) @
     Serialize_ResolutionComponentFlags C net (ga_resolutionAndComponentFlags g)"

definition Deserialize_GridBase_Gaussian :: "codec \<Rightarrow> bool \<Rightarrow> u8 list \<Rightarrow> (GridBase_Gaussian \<times> u8 list) option" where
  "Deserialize_GridBase_Gaussian C net buf = do {
     (y1', buf) \<leftarrow> get_float C net buf;
     (x1', buf) \<leftarrow> get_float C net buf;
     (y2', buf) \<leftarrow> get_float C net buf;
     (x2', buf) \<leftarrow> get_float C net buf;
     (ny', buf) \<leftarrow> get_u16 C net buf;
     (nx', buf) \<leftarrow> get_u16 C net buf;
     (inc', buf) \<leftarrow> get_u16 C net buf;
     (N', buf) \<leftarrow> get_u16 C net buf;
     (scan', buf) \<leftarrow> Deserialize_ScanMode C net buf;
     (flags', buf) \<leftarrow> Deserialize_ResolutionComponentFlags C net buf;
     Some (\<lparr>ga_y1 = y1', ga_x1 = x1', ga_y2 = y2', ga_x2 = x2', ga_ny = ny', ga_nx = nx',
       ga_directionIncrement = inc', ga_N = N', ga_scan_mode = scan',
       ga_resolutionAndComponentFlags = flags'\<rparr>, buf)}"

definition GridBase_Gaussian_kinds :: "kind list" where
  "GridBase_Gaussian_kinds =
     [K_float, K_float, K_float, K_float, K_u16, K_u16, K_u16, K_u16] @ ScanMode_kinds @
     ResolutionComponentFlags_kinds"

definition GridBase_Gaussian_storable :: "GridBase_Gaussian \<Rightarrow> bool" where
  "GridBase_Gaussian_storable g \<longleftrightarrow> f32 (ga_y1 g) = ga_y1 g \<and> f32 (ga_x1 g) = ga_x1 g \<and>
     f32 (ga_y2 g) = ga_y2 g \<and> f32 (ga_x2 g) = ga_x2 g"

definition Serialize_GridBase_Albers :: "codec \<Rightarrow> bool \<Rightarrow> GridBase_Albers \<Rightarrow> u8 list" where
  "Serialize_GridBase_Albers C net g =
     put_u16 C net (al_nx g) @ put_u16 C net (al_ny g) @ put_float C net (al_y1 g) @
     put_float C net (al_x1 g) @
     Serialize_ResolutionComponentFlags C net (al_resolutionAndComponentFlags g) @
     put_float C net (al_LoV g) @ put_float C net (al_Dx g) @ put_float C net (al_Dy g) @
     put_bool C net (al_is_south_pole g) @ put_bool C net (al_is_bipolar g) @
     Serialize_ScanMode C net (al_scan_mode g) @ put_float C net (al_latin1 g) @
     put_float C net (al_latin2 g) @ put_float C net (al_latitude_south_pole g) @
     put_float C net (al_longitude_south_pole g)"

definition Deserialize_GridBase_Albers :: "codec \<Rightarrow> bool \<Rightarrow> u8 list \<Rightarrow> (GridBase_Albers \<times> u8 list) option" where
  "Deserialize_GridBase_Albers C net buf = do {
     (nx', buf) \<leftarrow> get_u16 C net buf;
     (ny', buf) \<leftarrow> get_u16 C net buf;
     (y1', buf) \<leftarrow> get_float C net buf;
     (x1', buf) \<leftarrow> get_float C net buf;
     (flags', buf) \<leftarrow> Deserialize_ResolutionComponentFlags C net buf;
     (LoV', buf) \<leftarrow> get_float C net buf;
     (Dx', buf) \<leftarrow> get_float C net buf;
     (Dy', buf) \<leftarrow> get_float C net buf;
     (south', buf) \<leftarrow> get_bool C net buf;
     (bip', buf) \<leftarrow> get_bool C net buf;
     (scan', buf) \<leftarrow> Deserialize_ScanMode C net buf;
     (latin1', buf) \<leftarrow> get_float C net buf;
     (latin2', buf) \<leftarrow> get_float C net buf;
     (latSP', buf) \<leftarrow> get_float C net buf;
     (lonSP', buf) \<leftarrow> get_float C net buf;
     Some (\<lparr>al_y1 = y1', al_x1 = x1', al_LoV = LoV', al_latin1 = latin1', al_latin2 = latin2',
       al_Dy = Dy', al_Dx = Dx', al_latitude_south_pole = latSP',
       al_longitude_south_pole = lonSP', al_ny = ny', al_nx = nx', al_is_south_pole = south',
       al_is_bipolar = bip', al_scan_mode = scan', al_resolutionAndComponentFlags = flags'\<rparr>, buf)}"

definition GridBase_Albers_kinds :: "kind list" where
  "GridBase_Albers_kinds =
     [K_u16, K_u16, K_float, K_float] @ ResolutionComponentFlags_kinds @
     [K_float, K_float, K_float, K_bool, K_bool] @ ScanMode_kinds @
     [K_float, K_float, K_float, K_float]"

definition GridBase_Albers_storable :: "GridBase_Albers \<Rightarrow> bool" where
  "GridBase_Albers_storable g \<longleftrightarrow> f32 (al_y1 g) = al_y1 g \<and> f32 (al_x1 g) = al_x1 g \<and>
     f32 (al_LoV g) = al_LoV g \<and> f32 (al_latin1 g) = al_latin1 g \<and>
     f32 (al_latin2 g) = al_latin2 g \<and> f32 (al_Dy g) = al_Dy g \<and>
     f32 (al_Dx g) = al_Dx g \<and>
     f32 (al_latitude_south_pole g) = al_latitude_south_pole g \<and>
     f32 (al_longitude_south_pole g) = al_longitude_south_pole g"

definition Serialize_GridBase_Harmonic :: "codec \<Rightarrow> bool \<Rightarrow> GridBase_Harmonic \<Rightarrow> u8 list" where
  "Serialize_GridBase_Harmonic C net g =
     put_u16 C net (ha_J g) @ put_u16 C net (ha_K g) @ put_u16 C net (ha_M g) @
     put_bool C net (ha_representation_type g) @ put_u8 C net (ha_rep_mode g)"

definition Deserialize_GridBase_Harmonic :: "codec \<Rightarrow> bool \<Rightarrow> u8 list \<Rightarrow> (GridBase_Harmonic \<times> u8 list) option" where
  "Deserialize_GridBase_Harmonic C net buf = do {
     (J', buf) \<leftarrow> get_u16 C net buf;
     (K', buf) \<leftarrow> get_u16 C net buf;
     (M', buf) \<leftarrow> get_u16 C net buf;
     (rtype', buf) \<leftarrow> get_bool C net buf;
     (rmode', buf) \<leftarrow> get_u8 C net buf;
     Some (\<lparr>ha_J = J', ha_K = K', ha_M = M', ha_representation_type = rtype', ha_rep_mode = rmode'\<rparr>, buf)}"

definition GridBase_Harmonic_kinds :: "kind list" where
  "GridBase_Harmonic_kinds =
     [K_u16, K_u16, K_u16, K_bool, K_u8]"

definition GridBase_Harmonic_storable :: "GridBase_Harmonic \<Rightarrow> bool" where
  "GridBase_Harmonic_storable g \<longleftrightarrow> True"

definition Serialize_GridBase_Lambert :: "codec \<Rightarrow> bool \<Rightarrow> GridBase_Lambert \<Rightarrow> u8 list" where
  "Serialize_GridBase_Lambert C net g =
     put_u16 C net (la_nx g) @ put_u16 C net (la_ny g) @ put_float C net (la_y1 g) @
     put_float C net (la_x1 g) @
     Serialize_ResolutionComponentFlags C net (la_resolutionAndComponentFlags g) @
     put_float C net (la_LoV g) @ put_float C net (la_dx g) @ put_float C net (la_dy g) @
     put_bool C net (la_is_south_pole g) @ put_bool C net (la_is_bipolar g) @
     Serialize_ScanMode C net (la_scan_mode g) @ put_float C net (la_latin1 g) @
     put_float C net (la_latin2 g) @ put_u32 C net (la_latitude_south_pole g) @
     put_u32 C net (la_longitude_south_pole g)"

definition Deserialize_GridBase_Lambert :: "codec \<Rightarrow> bool \<Rightarrow> u8 list \<Rightarrow> (GridBase_Lambert \<times> u8 list) option" where
  "Deserialize_GridBase_Lambert C net buf = do {
     (nx', buf) \<leftarrow> get_u16 C net buf;
     (ny', buf) \<leftarrow> get_u16 C net buf;
     (y1', buf) \<leftarrow> get_float C net buf;
     (x1', buf) \<leftarrow> get_float C net buf;
     (flags', buf) \<leftarrow> Deserialize_ResolutionComponentFlags C net buf;
     (LoV', buf) \<leftarrow> get_float C net buf;
     (dx', buf) \<leftarrow> get_float C net buf;
     (dy', buf) \<leftarrow> get_float C net buf;
     (south', buf) \<leftarrow> get_bool C net buf;
     (bip', buf) \<leftarrow> get_bool C net buf;
     (scan', buf) \<leftarrow> Deserialize_ScanMode C net buf;
     (latin1', buf) \<leftarrow> get_float C net buf;
     (latin2', buf) \<leftarrow> get_float C net buf;
     (latSP', buf) \<leftarrow> get_u32 C net buf;
     (lonSP', buf) \<leftarrow> get_u32 C net buf;
     Some (\<lparr>la_nx = nx', la_ny = ny', la_y1 = y1', la_x1 = x1',
       la_resolutionAndComponentFlags = flags', la_LoV = LoV', la_dx = dx', la_dy = dy',
       la_is_south_pole = south', la_is_bipolar = bip', la_scan_mode = scan',
       la_latin1 = latin1', la_latin2 = latin2', la_latitude_south_pole = latSP',
       la_longitude_south_pole = lonSP'\<rparr>, buf)}"

definition GridBase_Lambert_kinds :: "kind list" where
  "GridBase_Lambert_kinds =
     [K_u16, K_u16, K_float, K_float] @ ResolutionComponentFlags_kinds @
     [K_float, K_float, K_float, K_bool, K_bool] @ ScanMode_kinds @
     [K_float, K_float, K_u32, K_u32]"

definition GridBase_Lambert_storable :: "GridBase_Lambert \<Rightarrow> bool" where
  "GridBase_Lambert_storable g \<longleftrightarrow> f32 (la_y1 g) = la_y1 g \<and> f32 (la_x1 g) = la_x1 g \<and>
     f32 (la_LoV g) = la_LoV g \<and> f32 (la_dx g) = la_dx g \<and>
     f32 (la_dy g) = la_dy g \<and> f32 (la_latin1 g) = la_latin1 g \<and>
     f32 (la_latin2 g) = la_latin2 g"

definition Serialize_GridBase_Polar :: "codec \<Rightarrow> bool \<Rightarrow> GridBase_Polar \<Rightarrow> u8 list" where
  "Serialize_GridBase_Polar C net g =
     put_u16 C net (po_nx g) @ put_u16 C net (po_ny g) @ put_float C net (po_y1 g) @
     put_float C net (po_x1 g) @
     Serialize_ResolutionComponentFlags C net (po_resolutionAndComponentFlags g) @
     put_float C net (po_LoV g) @ put_u32 C net (po_dx g) @ put_u32 C net (po_dy g) @
     put_bool C net (po_is_south_pole g) @ Serialize_ScanMode C net (po_scan_mode g)"

definition Deserialize_GridBase_Polar :: "codec \<Rightarrow> bool \<Rightarrow> u8 list \<Rightarrow> (GridBase_Polar \<times> u8 list) option" where
  "Deserialize_GridBase_Polar C net buf = do {
     (nx', buf) \<leftarrow> get_u16 C net buf;
     (ny', buf) \<leftarrow> get_u16 C net buf;
     (y1', buf) \<leftarrow> get_float C net buf;
     (x1', buf) \<leftarrow> get_float C net buf;
     (flags', buf) \<leftarrow> Deserialize_ResolutionComponentFlags C net buf;
     (LoV', buf) \<leftarrow> get_float C net buf;
     (dx', buf) \<leftarrow> get_u32 C net buf;
     (dy', buf) \<leftarrow> get_u32 C net buf;
     (south', buf) \<leftarrow> get_bool C net buf;
     (scan', buf) \<leftarrow> Deserialize_ScanMode C net buf;
     Some (\<lparr>po_nx = nx', po_ny = ny', po_y1 = y1', po_x1 = x1',
       po_resolutionAndComponentFlags = flags', po_LoV = LoV', po_dx = dx', po_dy = dy',
       po_is_south_pole = south', po_scan_mode = scan'\<rparr>, buf)}"

definition GridBase_Polar_kinds :: "kind list" where
  "GridBase_Polar_kinds =
     [K_u16, K_u16, K_float, K_float] @ ResolutionComponentFlags_kinds @
     [K_float, K_u32, K_u32, K_bool] @ ScanMode_kinds"

definition GridBase_Polar_storable :: "GridBase_Polar \<Rightarrow> bool" where
  "GridBase_Polar_storable g \<longleftrightarrow> f32 (po_y1 g) = po_y1 g \<and> f32 (po_x1 g) = po_x1 g \<and> f32 (po_LoV g) = po_LoV g"

definition Serialize_GridBase_SpaceView :: "codec \<Rightarrow> bool \<Rightarrow> GridBase_SpaceView \<Rightarrow> u8 list" where
  "Serialize_GridBase_SpaceView C net g =
     put_u16 C net (sv_nx g) @ put_u16 C net (sv_ny g) @ put_float C net (sv_y g) @
     put_float C net (sv_x g) @
     Serialize_ResolutionComponentFlags C net (sv_resolutionAndComponentFlags g) @
     put_u32 C net (sv_dx g) @ put_u32 C net (sv_dy g) @ put_u16 C net (sv_xp g) @
     put_u16 C net (sv_yp g) @ Serialize_ScanMode C net (sv_scan_mode g) @
     put_u32 C net (sv_orientation g) @ put_u32 C net (sv_nr g) @ put_u16 C net (sv_Xo g) @
     put_u16 C net (sv_Yo g)"

definition Deserialize_GridBase_SpaceView :: "codec \<Rightarrow> bool \<Rightarrow> u8 list \<Rightarrow> (GridBase_SpaceView \<times> u8 list) option" where
  "Deserialize_GridBase_SpaceView C net buf = do {
     (nx', buf) \<leftarrow> get_u16 C net buf;
     (ny', buf) \<leftarrow> get_u16 C net buf;
     (y', buf) \<leftarrow> get_float C net buf;
     (x', buf) \<leftarrow> get_float C net buf;
     (flags', buf) \<leftarrow> Deserialize_ResolutionComponentFlags C net buf;
     (dx', buf) \<leftarrow> get_u32 C net buf;
     (dy', buf) \<leftarrow> get_u32 C net buf;
     (xp', buf) \<leftarrow> get_u16 C net buf;
     (yp', buf) \<leftarrow> get_u16 C net buf;
     (scan', buf) \<leftarrow> Deserialize_ScanMode C net buf;
     (ori', buf) \<leftarrow> get_u32 C net buf;
     (nr', buf) \<leftarrow> get_u32 C net buf;
     (Xo', buf) \<leftarrow> get_u16 C net buf;
     (Yo', buf) \<leftarrow> get_u16 C net buf;
     Some (\<lparr>sv_nx = nx', sv_ny = ny', sv_y = y', sv_x = x', sv_resolutionAndComponentFlags = flags',
       sv_dx = dx', sv_dy = dy', sv_xp = xp', sv_yp = yp', sv_scan_mode = scan',
       sv_orientation = ori', sv_nr = nr', sv_Xo = Xo', sv_Yo = Yo'\<rparr>, buf)}"

definition GridBase_SpaceView_kinds :: "kind list" where
  "GridBase_SpaceView_kinds =
     [K_u16, K_u16, K_float, K_float] @ ResolutionComponentFlags_kinds @
     [K_u32, K_u32, K_u16, K_u16] @ ScanMode_kinds @ [K_u32, K_u32, K_u16, K_u16]"

definition GridBase_SpaceView_storable :: "GridBase_SpaceView \<Rightarrow> bool" where
  "GridBase_SpaceView_storable g \<longleftrightarrow> f32 (sv_y g) = sv_y g \<and> f32 (sv_x g) = sv_x g"

definition Serialize_GridBase_Mercator :: "codec \<Rightarrow> bool \<Rightarrow> GridBase_Mercator \<Rightarrow> u8 list" where
  "Serialize_GridBase_Mercator C net g =
     put_u16 C net (me_nx g) @ put_u16 C net (me_ny g) @ put_float C net (me_y1 g) @
     put_float C net (me_x1 g) @
     Serialize_ResolutionComponentFlags C net (me_resolutionAndComponentFlags g) @
     put_float C net (me_y2 g) @ put_float C net (me_x2 g) @ put_float C net (me_latin g) @
     Serialize_ScanMode C net (me_scan_mode g) @ put_float C net (me_dy g) @
     put_float C net (me_dx g)"

definition Deserialize_GridBase_Mercator :: "codec \<Rightarrow> bool \<Rightarrow> u8 list \<Rightarrow> (GridBase_Mercator \<times> u8 list) option" where
  "Deserialize_GridBase_Mercator C net buf = do {
     (nx', buf) \<leftarrow> get_u16 C net buf;
     (ny', buf) \<leftarrow> get_u16 C net buf;
     (y1', buf) \<leftarrow> get_float C net buf;
     (x1', buf) \<leftarrow> get_float C net buf;
     (flags', buf) \<leftarrow> Deserialize_ResolutionComponentFlags C net buf;
     (y2', buf) \<leftarrow> get_float C net buf;
     (x2', buf) \<leftarrow> get_float C net buf;
     (latin', buf) \<leftarrow> get_float C net buf;
     (scan', buf) \<leftarrow> Deserialize_ScanMode C net buf;
     (dy', buf) \<leftarrow> get_float C net buf;
     (dx', buf) \<leftarrow> get_float C net buf;
     Some (\<lparr>me_nx = nx', me_ny = ny', me_y1 = y1', me_x1 = x1',
       me_resolutionAndComponentFlags = flags', me_y2 = y2', me_x2 = x2', me_latin = latin',
       me_scan_mode = scan', me_dy = dy', me_dx = dx'\<rparr>, buf)}"

definition GridBase_Mercator_kinds :: "kind list" where
  "GridBase_Mercator_kinds =
     [K_u16, K_u16, K_float, K_float] @ ResolutionComponentFlags_kinds @
     [K_float, K_float, K_float] @ ScanMode_kinds @ [K_float, K_float]"

definition GridBase_Mercator_storable :: "GridBase_Mercator \<Rightarrow> bool" where
  "GridBase_Mercator_storable g \<longleftrightarrow> f32 (me_y1 g) = me_y1 g \<and> f32 (me_x1 g) = me_x1 g \<and>
     f32 (me_y2 g) = me_y2 g \<and> f32 (me_x2 g) = me_x2 g \<and>
     f32 (me_latin g) = me_latin g \<and> f32 (me_dy g) = me_dy g \<and> f32 (me_dx g) = me_dx g"

text \<open>The grids without members write nothing.\<close>

definition Serialize_GridBase_empty :: "codec \<Rightarrow> bool \<Rightarrow> GridBase_empty \<Rightarrow> u8 list" where
  "Serialize_GridBase_empty C net g = []"

definition Deserialize_GridBase_empty :: "codec \<Rightarrow> bool \<Rightarrow> u8 list \<Rightarrow> (GridBase_empty \<times> u8 list) option" where
  "Deserialize_GridBase_empty C net buf = Some (GridBase_empty, buf)"

definition GridBase_empty_storable :: "GridBase_empty \<Rightarrow> bool" where
  "GridBase_empty_storable g \<longleftrightarrow> True"

definition Serialize_No_additional :: "codec \<Rightarrow> bool \<Rightarrow> unit \<Rightarrow> u8 list" where
  "Serialize_No_additional C net a = []"

definition Deserialize_No_additional :: "codec \<Rightarrow> bool \<Rightarrow> u8 list \<Rightarrow> (unit \<times> u8 list) option" where
  "Deserialize_No_additional C net buf = Some ((), buf)"

definition No_additional_storable :: "unit \<Rightarrow> bool" where
  "No_additional_storable a \<longleftrightarrow> True"

definition Serialize_Rotation :: "codec \<Rightarrow> bool \<Rightarrow> Rotation \<Rightarrow> u8 list" where
  "Serialize_Rotation C net a =
     put_float C net (rot_xp a) @ put_float C net (rot_yp a) @ put_double C net (rot_ang a)"

definition Deserialize_Rotation :: "codec \<Rightarrow> bool \<Rightarrow> u8 list \<Rightarrow> (Rotation \<times> u8 list) option" where
  "Deserialize_Rotation C net buf = do {
     (xp, buf) \<leftarrow> get_float C net buf;
     (yp, buf) \<leftarrow> get_float C net buf;
     (ang, buf) \<leftarrow> get_double C net buf;
     Some (\<lparr>rot_yp = yp, rot_xp = xp, rot_ang = ang\<rparr>, buf)}"

definition Rotation_kinds :: "kind list" where
  "Rotation_kinds = [K_float, K_float, K_double]"

definition Rotation_storable :: "Rotation \<Rightarrow> bool" where
  "Rotation_storable a \<longleftrightarrow> f32 (rot_yp a) = rot_yp a \<and> f32 (rot_xp a) = rot_xp a \<and> f64 (rot_ang a) = rot_ang a"

definition Serialize_Stretching :: "codec \<Rightarrow> bool \<Rightarrow> Stretching \<Rightarrow> u8 list" where
  "Serialize_Stretching C net a =
     put_float C net (str_xsp a) @ put_float C net (str_ysp a) @ put_double C net (str_factor a)"

definition Deserialize_Stretching :: "codec \<Rightarrow> bool \<Rightarrow> u8 list \<Rightarrow> (Stretching \<times> u8 list) option" where
  "Deserialize_Stretching C net buf = do {
     (xsp, buf) \<leftarrow> get_float C net buf;
     (ysp, buf) \<leftarrow> get_float C net buf;
     (s, buf) \<leftarrow> get_double C net buf;
     Some (\<lparr>str_ysp = ysp, str_xsp = xsp, str_factor = s\<rparr>, buf)}"

definition Stretching_kinds :: "kind list" where
  "Stretching_kinds = [K_float, K_float, K_double]"

definition Stretching_storable :: "Stretching \<Rightarrow> bool" where
  "Stretching_storable a \<longleftrightarrow>
     f32 (str_ysp a) = str_ysp a \<and> f32 (str_xsp a) = str_xsp a \<and> f64 (str_factor a) = str_factor a"

definition Serialize_Rotation_stretching :: "codec \<Rightarrow> bool \<Rightarrow> Rotation_stretching \<Rightarrow> u8 list" where
  "Serialize_Rotation_stretching C net a =
     Serialize_Rotation C net (add_rot a) @ Serialize_Stretching C net (add_stretch a)"

definition Deserialize_Rotation_stretching ::
    "codec \<Rightarrow> bool \<Rightarrow> u8 list \<Rightarrow> (Rotation_stretching \<times> u8 list) option" where
  "Deserialize_Rotation_stretching C net buf = do {
     (r, buf) \<leftarrow> Deserialize_Rotation C net buf;
     (s, buf) \<leftarrow> Deserialize_Stretching C net buf;
     Some (\<lparr>add_rot = r, add_stretch = s\<rparr>, buf)}"

definition Rotation_stretching_kinds :: "kind list" where
  "Rotation_stretching_kinds = Rotation_kinds @ Stretching_kinds"

definition Rotation_stretching_storable :: "Rotation_stretching \<Rightarrow> bool" where
  "Rotation_stretching_storable a \<longleftrightarrow> Rotation_storable (add_rot a) \<and> Stretching_storable (add_stretch a)"

section \<open>The contract of a serializable structure\<close>

locale serializable =
  fixes enc :: "codec \<Rightarrow> bool \<Rightarrow> 'a \<Rightarrow> u8 list"
    and dec :: "codec \<Rightarrow> bool \<Rightarrow> u8 list \<Rightarrow> ('a \<times> u8 list) option"
    and storable :: "'a \<Rightarrow> bool"
  assumes read_back: "codec_ok C \<Longrightarrow> storable g \<Longrightarrow> dec C net (enc C net g @ rest) = Some (g, rest)"
begin

text \<open>What is written is prefix free, so structures can follow one another.\<close>

lemma enc_prefix_free:
  assumes "codec_ok C" "storable g" "storable h" "enc C net g @ r = enc C net h @ r'"
  shows "g = h \<and> r = r'"
proof -
  have "Some (g, r) = dec C net (enc C net h @ r')"
    using read_back [OF assms(1,2), of net r] assms(4) by (simp only:)
  also have "\<dots> = Some (h, r')" by (rule read_back [OF assms(1,3)])
  finally show ?thesis by simp
qed

lemma enc_inj: "codec_ok C \<Longrightarrow> storable g \<Longrightarrow> storable h \<Longrightarrow> enc C net g = enc C net h \<longleftrightarrow> g = h"
  using enc_prefix_free [of C g h net "[]" "[]"] by metis

lemma read_back_all: "codec_ok C \<Longrightarrow> (\<And>g. storable g) \<Longrightarrow> dec C net (enc C net g @ rest) = Some (g, rest)"
  by (rule read_back)

end

interpretation se_scan: serializable Serialize_ScanMode Deserialize_ScanMode "\<lambda>m. True"
  by unfold_locales (simp add: codec_okD Serialize_ScanMode_def Deserialize_ScanMode_def)

interpretation se_flags: serializable Serialize_ResolutionComponentFlags Deserialize_ResolutionComponentFlags "\<lambda>m. True"
  by unfold_locales
    (simp add: codec_okD Serialize_ResolutionComponentFlags_def Deserialize_ResolutionComponentFlags_def)

interpretation se_lat_lon: serializable Serialize_GridBase_LatLon Deserialize_GridBase_LatLon GridBase_LatLon_storable
  by unfold_locales (simp add: codec_okD Serialize_GridBase_LatLon_def Deserialize_GridBase_LatLon_def
      GridBase_LatLon_storable_def se_scan.read_back_all se_flags.read_back_all)

interpretation se_gaussian: serializable Serialize_GridBase_Gaussian Deserialize_GridBase_Gaussian GridBase_Gaussian_storable
  by unfold_locales (simp add: codec_okD Serialize_GridBase_Gaussian_def Deserialize_GridBase_Gaussian_def
      GridBase_Gaussian_storable_def se_scan.read_back_all se_flags.read_back_all)

interpretation se_albers: serializable Serialize_GridBase_Albers Deserialize_GridBase_Albers GridBase_Albers_storable
  by unfold_locales (simp add: codec_okD Serialize_GridBase_Albers_def Deserialize_GridBase_Albers_def
      GridBase_Albers_storable_def se_scan.read_back_all se_flags.read_back_all)

interpretation se_harmonic: serializable Serialize_GridBase_Harmonic Deserialize_GridBase_Harmonic GridBase_Harmonic_storable
  by unfold_locales (simp add: codec_okD Serialize_GridBase_Harmonic_def Deserialize_GridBase_Harmonic_def
      GridBase_Harmonic_storable_def se_scan.read_back_all se_flags.read_back_all)

interpretation se_lambert: serializable Serialize_GridBase_Lambert Deserialize_GridBase_Lambert GridBase_Lambert_storable
  by unfold_locales (simp add: codec_okD Serialize_GridBase_Lambert_def Deserialize_GridBase_Lambert_def
      GridBase_Lambert_storable_def se_scan.read_back_all se_flags.read_back_all)

interpretation se_polar: serializable Serialize_GridBase_Polar Deserialize_GridBase_Polar GridBase_Polar_storable
  by unfold_locales (simp add: codec_okD Serialize_GridBase_Polar_def Deserialize_GridBase_Polar_def
      GridBase_Polar_storable_def se_scan.read_back_all se_flags.read_back_all)

interpretation se_space_view: serializable Serialize_GridBase_SpaceView Deserialize_GridBase_SpaceView GridBase_SpaceView_storable
  by unfold_locales (simp add: codec_okD Serialize_GridBase_SpaceView_def Deserialize_GridBase_SpaceView_def
      GridBase_SpaceView_storable_def se_scan.read_back_all se_flags.read_back_all)

interpretation se_mercator: serializable Serialize_GridBase_Mercator Deserialize_GridBase_Mercator GridBase_Mercator_storable
  by unfold_locales (simp add: codec_okD Serialize_GridBase_Mercator_def Deserialize_GridBase_Mercator_def
      GridBase_Mercator_storable_def se_scan.read_back_all se_flags.read_back_all)

interpretation se_empty: serializable Serialize_GridBase_empty Deserialize_GridBase_empty GridBase_empty_storable
proof unfold_locales
  show "Deserialize_GridBase_empty C net (Serialize_GridBase_empty C net g @ rest) = Some (g, rest)" for C net g rest
    by (cases g) (simp add: Serialize_GridBase_empty_def Deserialize_GridBase_empty_def)
qed

interpretation se_none: serializable Serialize_No_additional Deserialize_No_additional No_additional_storable
  by unfold_locales (simp add: Serialize_No_additional_def Deserialize_No_additional_def)

interpretation se_rot: serializable Serialize_Rotation Deserialize_Rotation Rotation_storable
  by unfold_locales
    (simp add: codec_okD Serialize_Rotation_def Deserialize_Rotation_def Rotation_storable_def)

interpretation se_str: serializable Serialize_Stretching Deserialize_Stretching Stretching_storable
  by unfold_locales
    (simp add: codec_okD Serialize_Stretching_def Deserialize_Stretching_def Stretching_storable_def)

interpretation se_rs: serializable Serialize_Rotation_stretching Deserialize_Rotation_stretching
    Rotation_stretching_storable
  by unfold_locales
    (simp add: Serialize_Rotation_stretching_def Deserialize_Rotation_stretching_def
      Rotation_stretching_storable_def se_rot.read_back se_str.read_back)

section \<open>Grid definitions\<close>

definition Serialize_GridDefinition ::
    "('b \<Rightarrow> u8 list) \<Rightarrow> ('a \<Rightarrow> u8 list) \<Rightarrow> ('b, 'a) GridDefinition \<Rightarrow> u8 list" where
  "Serialize_GridDefinition wb wa g = wb (base_part g) @ wa (additional_part g)"

definition Deserialize_GridDefinition ::
    "(u8 list \<Rightarrow> ('b \<times> u8 list) option) \<Rightarrow> (u8 list \<Rightarrow> ('a \<times> u8 list) option) \<Rightarrow> u8 list \<Rightarrow>
     (('b, 'a) GridDefinition \<times> u8 list) option" where
  "Deserialize_GridDefinition rb ra buf = do {
     (b, buf) \<leftarrow> rb buf;
     (a, buf) \<leftarrow> ra buf;
     Some (\<lparr>base_part = b, additional_part = a\<rparr>, buf)}"

definition GridDefinition_storable ::
    "('b \<Rightarrow> bool) \<Rightarrow> ('a \<Rightarrow> bool) \<Rightarrow> ('b, 'a) GridDefinition \<Rightarrow> bool" where
  "GridDefinition_storable sb sa g \<longleftrightarrow> sb (base_part g) \<and> sa (additional_part g)"

lemma GridDefinition_read_back:
  assumes "\<And>b r. sb b \<Longrightarrow> rb (wb b @ r) = Some (b, r)" "\<And>a r. sa a \<Longrightarrow> ra (wa a @ r) = Some (a, r)"
    "GridDefinition_storable sb sa g"
  shows "Deserialize_GridDefinition rb ra (Serialize_GridDefinition wb wa g @ rest) = Some (g, rest)"
  using assms by (cases g)
    (simp add: Deserialize_GridDefinition_def Serialize_GridDefinition_def GridDefinition_storable_def)

text \<open>The definition that a variant holds, and reading the one of an alternative.\<close>

primrec Serialize_variant :: "codec \<Rightarrow> bool \<Rightarrow> GridVariant \<Rightarrow> u8 list" where
    "Serialize_variant C net Monostate_grid = []"
  | "Serialize_variant C net (Grid_lat_lon g) =
       Serialize_GridDefinition (Serialize_GridBase_LatLon C net) (Serialize_No_additional C net) g"
  | "Serialize_variant C net (Grid_rotated_lat_lon g) =
       Serialize_GridDefinition (Serialize_GridBase_LatLon C net) (Serialize_Rotation C net) g"
  | "Serialize_variant C net (Grid_stretched_lat_lon g) =
       Serialize_GridDefinition (Serialize_GridBase_LatLon C net) (Serialize_Stretching C net) g"
  | "Serialize_variant C net (Grid_stretched_rotated_lat_lon g) =
       Serialize_GridDefinition (Serialize_GridBase_LatLon C net) (Serialize_Rotation_stretching C net) g"
  | "Serialize_variant C net (Grid_gaussian g) =
       Serialize_GridDefinition (Serialize_GridBase_Gaussian C net) (Serialize_No_additional C net) g"
  | "Serialize_variant C net (Grid_rotated_gaussian g) =
       Serialize_GridDefinition (Serialize_GridBase_Gaussian C net) (Serialize_Rotation C net) g"
  | "Serialize_variant C net (Grid_stretched_gaussian g) =
       Serialize_GridDefinition (Serialize_GridBase_Gaussian C net) (Serialize_Stretching C net) g"
  | "Serialize_variant C net (Grid_stretched_rotated_gaussian g) =
       Serialize_GridDefinition (Serialize_GridBase_Gaussian C net) (Serialize_Rotation_stretching C net) g"
  | "Serialize_variant C net (Grid_lambert g) =
       Serialize_GridDefinition (Serialize_GridBase_Lambert C net) (Serialize_No_additional C net) g"
  | "Serialize_variant C net (Grid_oblique_lambert g) =
       Serialize_GridDefinition (Serialize_GridBase_Lambert C net) (Serialize_No_additional C net) g"
  | "Serialize_variant C net (Grid_utm g) =
       Serialize_GridDefinition (Serialize_GridBase_empty C net) (Serialize_No_additional C net) g"
  | "Serialize_variant C net (Grid_albers g) =
       Serialize_GridDefinition (Serialize_GridBase_Albers C net) (Serialize_No_additional C net) g"
  | "Serialize_variant C net (Grid_space_view g) =
       Serialize_GridDefinition (Serialize_GridBase_SpaceView C net) (Serialize_No_additional C net) g"
  | "Serialize_variant C net (Grid_gnomonic g) =
       Serialize_GridDefinition (Serialize_GridBase_empty C net) (Serialize_No_additional C net) g"
  | "Serialize_variant C net (Grid_harmonic g) =
       Serialize_GridDefinition (Serialize_GridBase_Harmonic C net) (Serialize_No_additional C net) g"
  | "Serialize_variant C net (Grid_rotated_harmonic g) =
       Serialize_GridDefinition (Serialize_GridBase_Harmonic C net) (Serialize_Rotation C net) g"
  | "Serialize_variant C net (Grid_stretched_harmonic g) =
       Serialize_GridDefinition (Serialize_GridBase_Harmonic C net) (Serialize_Stretching C net) g"
  | "Serialize_variant C net (Grid_stretched_rotated_harmonic g) =
       Serialize_GridDefinition (Serialize_GridBase_Harmonic C net) (Serialize_Rotation_stretching C net) g"
  | "Serialize_variant C net (Grid_polar g) =
       Serialize_GridDefinition (Serialize_GridBase_Polar C net) (Serialize_No_additional C net) g"
  | "Serialize_variant C net (Grid_millers g) =
       Serialize_GridDefinition (Serialize_GridBase_empty C net) (Serialize_No_additional C net) g"
  | "Serialize_variant C net (Grid_polyconic g) =
       Serialize_GridDefinition (Serialize_GridBase_empty C net) (Serialize_No_additional C net) g"
  | "Serialize_variant C net (Grid_mercator g) =
       Serialize_GridDefinition (Serialize_GridBase_Mercator C net) (Serialize_No_additional C net) g"

definition Deserialize_variant :: "codec \<Rightarrow> bool \<Rightarrow> nat \<Rightarrow> u8 list \<Rightarrow> (GridVariant \<times> u8 list) option" where
  "Deserialize_variant C net index buf = (if index = 0 then Some (Monostate_grid, buf)
     else if index = 1 then map_option (\<lambda>(g, r). (Grid_lat_lon g, r))
       (Deserialize_GridDefinition (Deserialize_GridBase_LatLon C net) (Deserialize_No_additional C net) buf)
     else if index = 2 then map_option (\<lambda>(g, r). (Grid_rotated_lat_lon g, r))
       (Deserialize_GridDefinition (Deserialize_GridBase_LatLon C net) (Deserialize_Rotation C net) buf)
     else if index = 3 then map_option (\<lambda>(g, r). (Grid_stretched_lat_lon g, r))
       (Deserialize_GridDefinition (Deserialize_GridBase_LatLon C net) (Deserialize_Stretching C net) buf)
     else if index = 4 then map_option (\<lambda>(g, r). (Grid_stretched_rotated_lat_lon g, r))
       (Deserialize_GridDefinition (Deserialize_GridBase_LatLon C net) (Deserialize_Rotation_stretching C net) buf)
     else if index = 5 then map_option (\<lambda>(g, r). (Grid_gaussian g, r))
       (Deserialize_GridDefinition (Deserialize_GridBase_Gaussian C net) (Deserialize_No_additional C net) buf)
     else if index = 6 then map_option (\<lambda>(g, r). (Grid_rotated_gaussian g, r))
       (Deserialize_GridDefinition (Deserialize_GridBase_Gaussian C net) (Deserialize_Rotation C net) buf)
     else if index = 7 then map_option (\<lambda>(g, r). (Grid_stretched_gaussian g, r))
       (Deserialize_GridDefinition (Deserialize_GridBase_Gaussian C net) (Deserialize_Stretching C net) buf)
     else if index = 8 then map_option (\<lambda>(g, r). (Grid_stretched_rotated_gaussian g, r))
       (Deserialize_GridDefinition (Deserialize_GridBase_Gaussian C net) (Deserialize_Rotation_stretching C net) buf)
     else if index = 9 then map_option (\<lambda>(g, r). (Grid_lambert g, r))
       (Deserialize_GridDefinition (Deserialize_GridBase_Lambert C net) (Deserialize_No_additional C net) buf)
     else if index = 10 then map_option (\<lambda>(g, r). (Grid_oblique_lambert g, r))
       (Deserialize_GridDefinition (Deserialize_GridBase_Lambert C net) (Deserialize_No_additional C net) buf)
     else if index = 11 then map_option (\<lambda>(g, r). (Grid_utm g, r))
       (Deserialize_GridDefinition (Deserialize_GridBase_empty C net) (Deserialize_No_additional C net) buf)
     else if index = 12 then map_option (\<lambda>(g, r). (Grid_albers g, r))
       (Deserialize_GridDefinition (Deserialize_GridBase_Albers C net) (Deserialize_No_additional C net) buf)
     else if index = 13 then map_option (\<lambda>(g, r). (Grid_space_view g, r))
       (Deserialize_GridDefinition (Deserialize_GridBase_SpaceView C net) (Deserialize_No_additional C net) buf)
     else if index = 14 then map_option (\<lambda>(g, r). (Grid_gnomonic g, r))
       (Deserialize_GridDefinition (Deserialize_GridBase_empty C net) (Deserialize_No_additional C net) buf)
     else if index = 15 then map_option (\<lambda>(g, r). (Grid_harmonic g, r))
       (Deserialize_GridDefinition (Deserialize_GridBase_Harmonic C net) (Deserialize_No_additional C net) buf)
     else if index = 16 then map_option (\<lambda>(g, r). (Grid_rotated_harmonic g, r))
       (Deserialize_GridDefinition (Deserialize_GridBase_Harmonic C net) (Deserialize_Rotation C net) buf)
     else if index = 17 then map_option (\<lambda>(g, r). (Grid_stretched_harmonic g, r))
       (Deserialize_GridDefinition (Deserialize_GridBase_Harmonic C net) (Deserialize_Stretching C net) buf)
     else if index = 18 then map_option (\<lambda>(g, r). (Grid_stretched_rotated_harmonic g, r))
       (Deserialize_GridDefinition (Deserialize_GridBase_Harmonic C net) (Deserialize_Rotation_stretching C net) buf)
     else if index = 19 then map_option (\<lambda>(g, r). (Grid_polar g, r))
       (Deserialize_GridDefinition (Deserialize_GridBase_Polar C net) (Deserialize_No_additional C net) buf)
     else if index = 20 then map_option (\<lambda>(g, r). (Grid_millers g, r))
       (Deserialize_GridDefinition (Deserialize_GridBase_empty C net) (Deserialize_No_additional C net) buf)
     else if index = 21 then map_option (\<lambda>(g, r). (Grid_polyconic g, r))
       (Deserialize_GridDefinition (Deserialize_GridBase_empty C net) (Deserialize_No_additional C net) buf)
     else if index = 22 then map_option (\<lambda>(g, r). (Grid_mercator g, r))
       (Deserialize_GridDefinition (Deserialize_GridBase_Mercator C net) (Deserialize_No_additional C net) buf)
     else None)"

primrec definition_storable :: "GridVariant \<Rightarrow> bool" where
    "definition_storable Monostate_grid = True"
  | "definition_storable (Grid_lat_lon g) = GridDefinition_storable GridBase_LatLon_storable No_additional_storable g"
  | "definition_storable (Grid_rotated_lat_lon g) = GridDefinition_storable GridBase_LatLon_storable Rotation_storable g"
  | "definition_storable (Grid_stretched_lat_lon g) = GridDefinition_storable GridBase_LatLon_storable Stretching_storable g"
  | "definition_storable (Grid_stretched_rotated_lat_lon g) = GridDefinition_storable GridBase_LatLon_storable Rotation_stretching_storable g"
  | "definition_storable (Grid_gaussian g) = GridDefinition_storable GridBase_Gaussian_storable No_additional_storable g"
  | "definition_storable (Grid_rotated_gaussian g) = GridDefinition_storable GridBase_Gaussian_storable Rotation_storable g"
  | "definition_storable (Grid_stretched_gaussian g) = GridDefinition_storable GridBase_Gaussian_storable Stretching_storable g"
  | "definition_storable (Grid_stretched_rotated_gaussian g) = GridDefinition_storable GridBase_Gaussian_storable Rotation_stretching_storable g"
  | "definition_storable (Grid_lambert g) = GridDefinition_storable GridBase_Lambert_storable No_additional_storable g"
  | "definition_storable (Grid_oblique_lambert g) = GridDefinition_storable GridBase_Lambert_storable No_additional_storable g"
  | "definition_storable (Grid_utm g) = GridDefinition_storable GridBase_empty_storable No_additional_storable g"
  | "definition_storable (Grid_albers g) = GridDefinition_storable GridBase_Albers_storable No_additional_storable g"
  | "definition_storable (Grid_space_view g) = GridDefinition_storable GridBase_SpaceView_storable No_additional_storable g"
  | "definition_storable (Grid_gnomonic g) = GridDefinition_storable GridBase_empty_storable No_additional_storable g"
  | "definition_storable (Grid_harmonic g) = GridDefinition_storable GridBase_Harmonic_storable No_additional_storable g"
  | "definition_storable (Grid_rotated_harmonic g) = GridDefinition_storable GridBase_Harmonic_storable Rotation_storable g"
  | "definition_storable (Grid_stretched_harmonic g) = GridDefinition_storable GridBase_Harmonic_storable Stretching_storable g"
  | "definition_storable (Grid_stretched_rotated_harmonic g) = GridDefinition_storable GridBase_Harmonic_storable Rotation_stretching_storable g"
  | "definition_storable (Grid_polar g) = GridDefinition_storable GridBase_Polar_storable No_additional_storable g"
  | "definition_storable (Grid_millers g) = GridDefinition_storable GridBase_empty_storable No_additional_storable g"
  | "definition_storable (Grid_polyconic g) = GridDefinition_storable GridBase_empty_storable No_additional_storable g"
  | "definition_storable (Grid_mercator g) = GridDefinition_storable GridBase_Mercator_storable No_additional_storable g"

text \<open>The combinations of a base and an additional part that occur.\<close>

lemma definitions_read_back:
  assumes "codec_ok C"
  shows
    "GridDefinition_storable GridBase_LatLon_storable No_additional_storable g0 \<Longrightarrow>
       Deserialize_GridDefinition (Deserialize_GridBase_LatLon C net) (Deserialize_No_additional C net)
         (Serialize_GridDefinition (Serialize_GridBase_LatLon C net) (Serialize_No_additional C net) g0 @ rest) = Some (g0, rest)"
    "GridDefinition_storable GridBase_LatLon_storable Rotation_storable g1 \<Longrightarrow>
       Deserialize_GridDefinition (Deserialize_GridBase_LatLon C net) (Deserialize_Rotation C net)
         (Serialize_GridDefinition (Serialize_GridBase_LatLon C net) (Serialize_Rotation C net) g1 @ rest) = Some (g1, rest)"
    "GridDefinition_storable GridBase_LatLon_storable Stretching_storable g2 \<Longrightarrow>
       Deserialize_GridDefinition (Deserialize_GridBase_LatLon C net) (Deserialize_Stretching C net)
         (Serialize_GridDefinition (Serialize_GridBase_LatLon C net) (Serialize_Stretching C net) g2 @ rest) = Some (g2, rest)"
    "GridDefinition_storable GridBase_LatLon_storable Rotation_stretching_storable g3 \<Longrightarrow>
       Deserialize_GridDefinition (Deserialize_GridBase_LatLon C net) (Deserialize_Rotation_stretching C net)
         (Serialize_GridDefinition (Serialize_GridBase_LatLon C net) (Serialize_Rotation_stretching C net) g3 @ rest) = Some (g3, rest)"
    "GridDefinition_storable GridBase_Gaussian_storable No_additional_storable g4 \<Longrightarrow>
       Deserialize_GridDefinition (Deserialize_GridBase_Gaussian C net) (Deserialize_No_additional C net)
         (Serialize_GridDefinition (Serialize_GridBase_Gaussian C net) (Serialize_No_additional C net) g4 @ rest) = Some (g4, rest)"
    "GridDefinition_storable GridBase_Gaussian_storable Rotation_storable g5 \<Longrightarrow>
       Deserialize_GridDefinition (Deserialize_GridBase_Gaussian C net) (Deserialize_Rotation C net)
         (Serialize_GridDefinition (Serialize_GridBase_Gaussian C net) (Serialize_Rotation C net) g5 @ rest) = Some (g5, rest)"
    "GridDefinition_storable GridBase_Gaussian_storable Stretching_storable g6 \<Longrightarrow>
       Deserialize_GridDefinition (Deserialize_GridBase_Gaussian C net) (Deserialize_Stretching C net)
         (Serialize_GridDefinition (Serialize_GridBase_Gaussian C net) (Serialize_Stretching C net) g6 @ rest) = Some (g6, rest)"
    "GridDefinition_storable GridBase_Gaussian_storable Rotation_stretching_storable g7 \<Longrightarrow>
       Deserialize_GridDefinition (Deserialize_GridBase_Gaussian C net) (Deserialize_Rotation_stretching C net)
         (Serialize_GridDefinition (Serialize_GridBase_Gaussian C net) (Serialize_Rotation_stretching C net) g7 @ rest) = Some (g7, rest)"
    "GridDefinition_storable GridBase_Lambert_storable No_additional_storable g8 \<Longrightarrow>
       Deserialize_GridDefinition (Deserialize_GridBase_Lambert C net) (Deserialize_No_additional C net)
         (Serialize_GridDefinition (Serialize_GridBase_Lambert C net) (Serialize_No_additional C net) g8 @ rest) = Some (g8, rest)"
    "GridDefinition_storable GridBase_empty_storable No_additional_storable g9 \<Longrightarrow>
       Deserialize_GridDefinition (Deserialize_GridBase_empty C net) (Deserialize_No_additional C net)
         (Serialize_GridDefinition (Serialize_GridBase_empty C net) (Serialize_No_additional C net) g9 @ rest) = Some (g9, rest)"
    "GridDefinition_storable GridBase_Albers_storable No_additional_storable g10 \<Longrightarrow>
       Deserialize_GridDefinition (Deserialize_GridBase_Albers C net) (Deserialize_No_additional C net)
         (Serialize_GridDefinition (Serialize_GridBase_Albers C net) (Serialize_No_additional C net) g10 @ rest) = Some (g10, rest)"
    "GridDefinition_storable GridBase_SpaceView_storable No_additional_storable g11 \<Longrightarrow>
       Deserialize_GridDefinition (Deserialize_GridBase_SpaceView C net) (Deserialize_No_additional C net)
         (Serialize_GridDefinition (Serialize_GridBase_SpaceView C net) (Serialize_No_additional C net) g11 @ rest) = Some (g11, rest)"
    "GridDefinition_storable GridBase_Harmonic_storable No_additional_storable g12 \<Longrightarrow>
       Deserialize_GridDefinition (Deserialize_GridBase_Harmonic C net) (Deserialize_No_additional C net)
         (Serialize_GridDefinition (Serialize_GridBase_Harmonic C net) (Serialize_No_additional C net) g12 @ rest) = Some (g12, rest)"
    "GridDefinition_storable GridBase_Harmonic_storable Rotation_storable g13 \<Longrightarrow>
       Deserialize_GridDefinition (Deserialize_GridBase_Harmonic C net) (Deserialize_Rotation C net)
         (Serialize_GridDefinition (Serialize_GridBase_Harmonic C net) (Serialize_Rotation C net) g13 @ rest) = Some (g13, rest)"
    "GridDefinition_storable GridBase_Harmonic_storable Stretching_storable g14 \<Longrightarrow>
       Deserialize_GridDefinition (Deserialize_GridBase_Harmonic C net) (Deserialize_Stretching C net)
         (Serialize_GridDefinition (Serialize_GridBase_Harmonic C net) (Serialize_Stretching C net) g14 @ rest) = Some (g14, rest)"
    "GridDefinition_storable GridBase_Harmonic_storable Rotation_stretching_storable g15 \<Longrightarrow>
       Deserialize_GridDefinition (Deserialize_GridBase_Harmonic C net) (Deserialize_Rotation_stretching C net)
         (Serialize_GridDefinition (Serialize_GridBase_Harmonic C net) (Serialize_Rotation_stretching C net) g15 @ rest) = Some (g15, rest)"
    "GridDefinition_storable GridBase_Polar_storable No_additional_storable g16 \<Longrightarrow>
       Deserialize_GridDefinition (Deserialize_GridBase_Polar C net) (Deserialize_No_additional C net)
         (Serialize_GridDefinition (Serialize_GridBase_Polar C net) (Serialize_No_additional C net) g16 @ rest) = Some (g16, rest)"
    "GridDefinition_storable GridBase_Mercator_storable No_additional_storable g17 \<Longrightarrow>
       Deserialize_GridDefinition (Deserialize_GridBase_Mercator C net) (Deserialize_No_additional C net)
         (Serialize_GridDefinition (Serialize_GridBase_Mercator C net) (Serialize_No_additional C net) g17 @ rest) = Some (g17, rest)"
  by ((rule GridDefinition_read_back, erule se_lat_lon.read_back [OF assms], erule se_none.read_back [OF assms], assumption),
    (rule GridDefinition_read_back, erule se_lat_lon.read_back [OF assms], erule se_rot.read_back [OF assms], assumption),
    (rule GridDefinition_read_back, erule se_lat_lon.read_back [OF assms], erule se_str.read_back [OF assms], assumption),
    (rule GridDefinition_read_back, erule se_lat_lon.read_back [OF assms], erule se_rs.read_back [OF assms], assumption),
    (rule GridDefinition_read_back, erule se_gaussian.read_back [OF assms], erule se_none.read_back [OF assms], assumption),
    (rule GridDefinition_read_back, erule se_gaussian.read_back [OF assms], erule se_rot.read_back [OF assms], assumption),
    (rule GridDefinition_read_back, erule se_gaussian.read_back [OF assms], erule se_str.read_back [OF assms], assumption),
    (rule GridDefinition_read_back, erule se_gaussian.read_back [OF assms], erule se_rs.read_back [OF assms], assumption),
    (rule GridDefinition_read_back, erule se_lambert.read_back [OF assms], erule se_none.read_back [OF assms], assumption),
    (rule GridDefinition_read_back, erule se_empty.read_back [OF assms], erule se_none.read_back [OF assms], assumption),
    (rule GridDefinition_read_back, erule se_albers.read_back [OF assms], erule se_none.read_back [OF assms], assumption),
    (rule GridDefinition_read_back, erule se_space_view.read_back [OF assms], erule se_none.read_back [OF assms], assumption),
    (rule GridDefinition_read_back, erule se_harmonic.read_back [OF assms], erule se_none.read_back [OF assms], assumption),
    (rule GridDefinition_read_back, erule se_harmonic.read_back [OF assms], erule se_rot.read_back [OF assms], assumption),
    (rule GridDefinition_read_back, erule se_harmonic.read_back [OF assms], erule se_str.read_back [OF assms], assumption),
    (rule GridDefinition_read_back, erule se_harmonic.read_back [OF assms], erule se_rs.read_back [OF assms], assumption),
    (rule GridDefinition_read_back, erule se_polar.read_back [OF assms], erule se_none.read_back [OF assms], assumption),
    (rule GridDefinition_read_back, erule se_mercator.read_back [OF assms], erule se_none.read_back [OF assms], assumption))

section \<open>The sizes\<close>

text \<open>The sums of \<^verbatim>\<open>sizeof\<close> in the static members of four structures.\<close>

definition sizeof_ScanMode :: nat where "sizeof_ScanMode = 3 * kind_size K_bool"

definition sizeof_ResolutionComponentFlags :: nat where
  "sizeof_ResolutionComponentFlags = 3 * kind_size K_bool"

definition GridBase_Harmonic_serial_size :: u8 where
  "GridBase_Harmonic_serial_size = of_nat (kind_size K_u16 + kind_size K_u16 + kind_size K_u16 +
     kind_size K_bool + kind_size K_u8)"

definition GridBase_Lambert_serial_size :: u8 where
  "GridBase_Lambert_serial_size = of_nat (kind_size K_u16 + kind_size K_u16 + kind_size K_float +
     kind_size K_float + sizeof_ResolutionComponentFlags + kind_size K_float + kind_size K_float +
     kind_size K_float + kind_size K_bool + kind_size K_bool + sizeof_ScanMode + kind_size K_float +
     kind_size K_float + kind_size K_u32 + kind_size K_u32)"

definition GridBase_Polar_serial_size :: u8 where
  "GridBase_Polar_serial_size = of_nat (kind_size K_u16 + kind_size K_u16 + kind_size K_float +
     kind_size K_float + sizeof_ResolutionComponentFlags + kind_size K_float + kind_size K_u32 +
     kind_size K_u32 + kind_size K_bool + sizeof_ScanMode)"

definition GridBase_SpaceView_serial_size :: u8 where
  "GridBase_SpaceView_serial_size = of_nat (kind_size K_u16 + kind_size K_u16 + kind_size K_float +
     kind_size K_float + sizeof_ResolutionComponentFlags + kind_size K_u32 + kind_size K_u32 +
     kind_size K_u16 + kind_size K_u16 + sizeof_ScanMode + kind_size K_u32 + kind_size K_u32 +
     kind_size K_u16 + kind_size K_u16)"

lemma definition_read_back:
  assumes "codec_ok C" "definition_storable g"
  shows "Deserialize_variant C net (variant_index g) (Serialize_variant C net g @ rest) = Some (g, rest)"
  using assms(2)
  by (cases g) (simp_all add: Deserialize_variant_def definitions_read_back [OF assms(1)])

section \<open>A codec\<close>

text \<open>
  The assumption on the codec can be met: numbers in unary with an end mark, a rational as its
  numerator and denominator.
\<close>

fun get_unary :: "u8 list \<Rightarrow> (nat \<times> u8 list) option" where
  "get_unary [] = None"
| "get_unary (b # bs) = (if b = 0 then Some (0, bs) else map_option (\<lambda>(n, r). (Suc n, r)) (get_unary bs))"

definition put_unary :: "nat \<Rightarrow> u8 list" where
  "put_unary n = replicate n 1 @ [0]"

lemma get_put_unary: "get_unary (put_unary n @ r) = Some (n, r)"
  by (induction n) (simp_all add: put_unary_def)

fun get_bit :: "u8 list \<Rightarrow> (bool \<times> u8 list) option" where
  "get_bit [] = None"
| "get_bit (b # bs) = Some (b = 1, bs)"

definition put_rat :: "rat \<Rightarrow> u8 list" where
  "put_rat x = (let (n, d) = quotient_of x in
     (if n < 0 then 1 else 0) # put_unary (nat \<bar>n\<bar>) @ put_unary (nat d))"

definition get_rat :: "u8 list \<Rightarrow> (rat \<times> u8 list) option" where
  "get_rat bs = do {
     (s, bs) \<leftarrow> get_bit bs;
     (n, bs) \<leftarrow> get_unary bs;
     (d, bs) \<leftarrow> get_unary bs;
     Some ((if s then - of_nat n else of_nat n) / of_nat d, bs)}"

lemma get_put_rat: "get_rat (put_rat x @ r) = Some (x, r)"
proof -
  obtain n d where q: "quotient_of x = (n, d)" by (cases "quotient_of x")
  have x: "x = of_int n / of_int d" and d: "0 < d"
    using quotient_of_div [OF q] quotient_of_denom_pos [OF q] by simp_all
  have "(of_nat (nat d) :: rat) = of_int d" "(of_nat (nat \<bar>n\<bar>) :: rat) = \<bar>of_int n\<bar>"
    using d by simp_all
  then have "get_rat (put_rat x @ r) = Some (of_int n / of_int d, r)"
    by (simp add: get_rat_def put_rat_def q get_put_unary del: of_nat_nat)
  then show ?thesis by (simp only: x [symmetric])
qed

definition unary_codec :: codec where
  "unary_codec = \<lparr>put_float = (\<lambda>net. put_rat), get_float = (\<lambda>net. get_rat),
     put_double = (\<lambda>net. put_rat), get_double = (\<lambda>net. get_rat),
     put_u8 = (\<lambda>net w. put_unary (unat w)), get_u8 = (\<lambda>net. map_option (\<lambda>(n, r). (of_nat n, r)) \<circ> get_unary),
     put_u16 = (\<lambda>net w. put_unary (unat w)), get_u16 = (\<lambda>net. map_option (\<lambda>(n, r). (of_nat n, r)) \<circ> get_unary),
     put_u32 = (\<lambda>net w. put_unary (unat w)), get_u32 = (\<lambda>net. map_option (\<lambda>(n, r). (of_nat n, r)) \<circ> get_unary),
     put_bool = (\<lambda>net b. [if b then 1 else 0]), get_bool = (\<lambda>net. get_bit)\<rparr>"

lemma unary_codec_ok: "codec_ok unary_codec"
  by (simp add: codec_ok_def unary_codec_def get_put_unary get_put_rat)

section \<open>Properties\<close>

text \<open>
  C15: writing a grid definition and reading the alternative of the same index gives the definition
  back and leaves the octets behind it, for every alternative, in either octet order, if the
  members of floating point type hold values of their type and the library reads back what it wrote.
\<close>

theorem grid_definition_roundtrip:
  assumes "codec_ok C" "definition_storable g"
  shows "Deserialize_variant C net (variant_index g) (Serialize_variant C net g @ rest) = Some (g, rest)"
  by (rule definition_read_back [OF assms])


theorem grid_definition_roundtrip_witness:
  "Deserialize_variant unary_codec True 1
     (Serialize_variant unary_codec True (Grid_lat_lon (example_grid 0 10 0 10))) =
   Some (Grid_lat_lon (example_grid 0 10 0 10), [])"
proof -
  have f: "f32 0 = 0" "f32 1 = 1" "f32 10 = 10"
    using float32_numeral_exact [of 0] float32_numeral_exact [of 1] float32_numeral_exact [of 10] by simp_all
  have "definition_storable (Grid_lat_lon (example_grid 0 10 0 10))"
    by (simp add: GridDefinition_storable_def GridBase_LatLon_storable_def No_additional_storable_def
        example_grid_def example_base_def f)
  from grid_definition_roundtrip [OF unary_codec_ok this, of True "[]"] show ?thesis by simp
qed

text \<open>
  The sums of sizes that four of the structures state by hand are the sizes of the members that
  the serialization writes for them.
\<close>

theorem serial_sizes_agree:
  "unat GridBase_Harmonic_serial_size = serial_size GridBase_Harmonic_kinds \<and>
   unat GridBase_Lambert_serial_size = serial_size GridBase_Lambert_kinds \<and>
   unat GridBase_Polar_serial_size = serial_size GridBase_Polar_kinds \<and>
   unat GridBase_SpaceView_serial_size = serial_size GridBase_SpaceView_kinds"
  by (simp add: GridBase_Harmonic_serial_size_def GridBase_Lambert_serial_size_def
      GridBase_Polar_serial_size_def GridBase_SpaceView_serial_size_def serial_size_def
      GridBase_Harmonic_kinds_def GridBase_Lambert_kinds_def GridBase_Polar_kinds_def
      GridBase_SpaceView_kinds_def ScanMode_kinds_def ResolutionComponentFlags_kinds_def
      sizeof_ScanMode_def sizeof_ResolutionComponentFlags_def)

end
