(* ===== verification/Grid_Json.thy ===== *)
theory Grid_Json
  imports Grid Time_Forecast
begin

text \<open>
  The JSON form of grids: \<^verbatim>\<open>ScanMode\<close> and \<^verbatim>\<open>ResolutionComponentFlags\<close> (\<^verbatim>\<open>sections/grid/def.cpp\<close>), the
  structures of the representation types (\<^verbatim>\<open>sections/grid/lat_lon.cpp\<close> and its siblings), grid
  definitions (\<^verbatim>\<open>sections/grid/json\<close>) and \<^verbatim>\<open>GridInfo\<close> (\<^verbatim>\<open>sections/grid/grid.cpp\<close>).
\<close>

section \<open>Values\<close>

text \<open>
  A conversion from JSON is left by an exception (\<^term>\<open>None\<close>), returns \<^verbatim>\<open>std::unexpected\<close> (\<^term>\<open>Inl\<close>; every
  error carries the same text) or a value.  The accessors throw for a value of another kind, and so
  does \<^verbatim>\<open>at\<close> without the key; \<^verbatim>\<open>operator[]\<close> finds or makes a null.
\<close>

type_synonym 'a parsed = "(unit + 'a) option"

definition as_bool :: "json \<Rightarrow> bool option" where
  "as_bool j = (case j of JBool b \<Rightarrow> Some b | _ \<Rightarrow> None)"

definition as_double :: "json \<Rightarrow> rat option" where
  "as_double j = (case j of JDouble x \<Rightarrow> Some x | _ \<Rightarrow> None)"

definition as_uint64 :: "json \<Rightarrow> nat option" where
  "as_uint64 j = (case j of JNum n \<Rightarrow> Some n | _ \<Rightarrow> None)"

definition as_int64 :: "json \<Rightarrow> int option" where
  "as_int64 j = (case j of JInt i \<Rightarrow> Some i | _ \<Rightarrow> None)"

definition as_object :: "json \<Rightarrow> (string \<times> json) list option" where
  "as_object j = (case j of JObj obj \<Rightarrow> Some obj | _ \<Rightarrow> None)"

definition json_ref :: "(string \<times> json) list \<Rightarrow> string \<Rightarrow> json" where
  "json_ref obj k = (case map_of obj k of None \<Rightarrow> JNull | Some j \<Rightarrow> j)"

definition json_put :: "string \<Rightarrow> json \<Rightarrow> (string \<times> json) list \<Rightarrow> (string \<times> json) list" where
  "json_put k v obj = (if k \<in> fst ` set obj
     then map (\<lambda>(k', v'). if k' = k then (k', v) else (k', v')) obj else obj @ [(k, v)])"

text \<open>
  \<^verbatim>\<open>float\<close> to integer drops the fraction and is undefined outside the type; \<^verbatim>\<open>uint64_t\<close> to a member of
  16 bits or of an octet keeps the lowest bits.
\<close>

definition truncated :: "rat \<Rightarrow> int" where
  "truncated x = (if 0 \<le> x then \<lfloor>x\<rfloor> else - \<lfloor>- x\<rfloor>)"

definition to_uint64 :: "rat \<Rightarrow> nat option" where
  "to_uint64 x = (let n = truncated x in if 0 \<le> n \<and> n < 2 ^ 64 then Some (nat n) else None)"

definition to_int64 :: "rat \<Rightarrow> int option" where
  "to_int64 x = (let n = truncated x in if - (2 ^ 63) \<le> n \<and> n < 2 ^ 63 then Some n else None)"

definition to_uint32 :: "rat \<Rightarrow> u32 option" where
  "to_uint32 x = (let n = truncated x in if 0 \<le> n \<and> n < 2 ^ 32 then Some (word_of_int n) else None)"

text \<open>\<^verbatim>\<open>if(obj.contains(key)) result.member = obj.at(key).as_...()\<close>.\<close>

definition read_member ::
    "(string \<times> json) list \<Rightarrow> string \<Rightarrow> (json \<Rightarrow> 'v option) \<Rightarrow> ('v \<Rightarrow> 'r \<Rightarrow> 'r) \<Rightarrow> 'r \<Rightarrow> 'r option" where
  "read_member obj k as_kind set_to r =
     (case map_of obj k of None \<Rightarrow> Some r | Some j \<Rightarrow> map_option (\<lambda>v. set_to v r) (as_kind j))"

section \<open>Flags\<close>

text \<open>
  The errors that the branches for a missing or wrong member construct are not returned: those
  members keep what the uninitialised \<open>result\<close> holds.
\<close>

definition read_flag ::
    "(string \<times> json) list \<Rightarrow> string \<Rightarrow> string \<Rightarrow> (bool \<Rightarrow> 'r \<Rightarrow> 'r) \<Rightarrow> 'r \<Rightarrow> 'r option" where
  "read_flag obj tested taken set_to r = (case map_of obj tested of
       Some (JBool _) \<Rightarrow> do {
         j \<leftarrow> map_of obj taken;
         b \<leftarrow> as_bool j;
         Some (set_to b r)}
     | _ \<Rightarrow> Some r)"

definition ScanMode_from_json :: "ScanMode \<Rightarrow> json \<Rightarrow> ScanMode parsed" where
  "ScanMode_from_json result v = (case v of
       JObj obj \<Rightarrow> do {
         r \<leftarrow> read_flag obj ''scan -i direction'' ''scan -i direction'' (\<lambda>b r. r\<lparr>points_sub_i_dir := b\<rparr>) result;
         r \<leftarrow> read_flag obj ''scan +j direction'' ''scan +j direction'' (\<lambda>b r. r\<lparr>points_sub_j_dir := b\<rparr>) r;
         r \<leftarrow> read_flag obj ''adjacent consec j-dir pts'' ''adjacent consec j-dir pts''
                (\<lambda>b r. r\<lparr>adj_points_j_dir := b\<rparr>) r;
         Some (Inr r)}
     | _ \<Rightarrow> Some (Inl ()))"

text \<open>The writer asks every new, null member for its \<^verbatim>\<open>bool\<close> before it assigns it.\<close>

definition put_bool :: "string \<Rightarrow> bool \<Rightarrow> (string \<times> json) list \<Rightarrow> (string \<times> json) list option" where
  "put_bool k b obj = do {
     _ \<leftarrow> as_bool (json_ref obj k);
     Some (json_put k (JBool b) obj)}"

definition ScanMode_to_json :: "ScanMode \<Rightarrow> json option" where
  "ScanMode_to_json val = do {
     obj \<leftarrow> put_bool ''scan -i direction'' (points_sub_i_dir val) [];
     obj \<leftarrow> put_bool ''scan +j direction'' (points_sub_j_dir val) obj;
     obj \<leftarrow> put_bool ''adjacent consec j-dir pts'' (adj_points_j_dir val) obj;
     Some (JObj obj)}"

definition ResolutionComponentFlags_from_json ::
    "ResolutionComponentFlags \<Rightarrow> json \<Rightarrow> ResolutionComponentFlags parsed" where
  "ResolutionComponentFlags_from_json result v = (case v of
       JObj obj \<Rightarrow> do {
         r \<leftarrow> read_flag obj ''has direction'' ''scan -i direction'' (\<lambda>b r. r\<lparr>given_direction := b\<rparr>) result;
         r \<leftarrow> read_flag obj ''has direction'' ''has direction'' (\<lambda>b r. r\<lparr>earth_spheroidal := b\<rparr>) r;
         r \<leftarrow> read_flag obj ''UV-comp grid direction'' ''UV-comp grid direction''
                (\<lambda>b r. r\<lparr>grid_direction_uv_comp := b\<rparr>) r;
         Some (Inr r)}
     | _ \<Rightarrow> Some (Inl ()))"

definition ResolutionComponentFlags_to_json :: "ResolutionComponentFlags \<Rightarrow> json" where
  "ResolutionComponentFlags_to_json val =
     JObj [(''has direction'', JBool (given_direction val)),
           (''earth sphere'', JBool (earth_spheroidal val)),
           (''UV-comp grid direction'', JBool (grid_direction_uv_comp val))]"

text \<open>
  How the structures below read the two: an error of the scan mode is returned, an error of the
  flags is not.  The objects that the two conversions fill are uninitialised and given as arguments.
\<close>

definition read_scan :: "(string \<times> json) list \<Rightarrow> ScanMode \<Rightarrow> (ScanMode \<Rightarrow> 'r \<Rightarrow> 'r) \<Rightarrow> 'r \<Rightarrow> 'r parsed" where
  "read_scan obj fresh set_to r = (case map_of obj ''scan mode'' of
       None \<Rightarrow> Some (Inr r)
     | Some j \<Rightarrow> do {
         m \<leftarrow> ScanMode_from_json fresh j;
         Some (case m of Inl e \<Rightarrow> Inl e | Inr s \<Rightarrow> Inr (set_to s r))})"

definition read_resolution ::
    "(string \<times> json) list \<Rightarrow> ResolutionComponentFlags \<Rightarrow> (ResolutionComponentFlags \<Rightarrow> 'r \<Rightarrow> 'r) \<Rightarrow> 'r \<Rightarrow> 'r option" where
  "read_resolution obj fresh set_to r = (case map_of obj ''resolution component flags'' of
       None \<Rightarrow> Some r
     | Some j \<Rightarrow> do {
         m \<leftarrow> ResolutionComponentFlags_from_json fresh j;
         Some (case m of Inl e \<Rightarrow> r | Inr f \<Rightarrow> set_to f r)})"

definition read_scan_and_flags ::
    "(string \<times> json) list \<Rightarrow> ScanMode \<Rightarrow> ResolutionComponentFlags \<Rightarrow> (ScanMode \<Rightarrow> 'r \<Rightarrow> 'r) \<Rightarrow>
     (ResolutionComponentFlags \<Rightarrow> 'r \<Rightarrow> 'r) \<Rightarrow> 'r \<Rightarrow> 'r parsed" where
  "read_scan_and_flags obj fresh_scan fresh_flags set_scan set_flags r = do {
     m \<leftarrow> read_scan obj fresh_scan set_scan r;
     case m of
       Inl e \<Rightarrow> Some (Inl e)
     | Inr r \<Rightarrow> map_option Inr (read_resolution obj fresh_flags set_flags r)}"

section \<open>The structures\<close>

text \<open>
  Every \<open>result\<close> is default constructed: where the structure has no initialisers, its members are what
  the argument holds.
\<close>

record fresh_objects =
  fresh_scan :: ScanMode
  fresh_flags :: ResolutionComponentFlags
  fresh_lat_lon :: GridBase_LatLon
  fresh_gaussian :: GridBase_Gaussian
  fresh_albers :: GridBase_Albers
  fresh_harmonic :: GridBase_Harmonic
  fresh_lambert :: GridBase_Lambert
  fresh_polar :: GridBase_Polar
  fresh_space_view :: GridBase_SpaceView
  fresh_mercator :: GridBase_Mercator
  fresh_rotation :: Rotation
  fresh_stretching :: Stretching

definition GridBase_LatLon_from_json :: "fresh_objects \<Rightarrow> json \<Rightarrow> GridBase_LatLon parsed" where
  "GridBase_LatLon_from_json F v = (case v of
       JObj obj \<Rightarrow> do {
         r \<leftarrow> read_member obj ''lat1'' as_double (\<lambda>x r. r\<lparr>ll_y1 := f32 x\<rparr>) (fresh_lat_lon F);
         r \<leftarrow> read_member obj ''lon1'' as_double (\<lambda>x r. r\<lparr>ll_x1 := f32 x\<rparr>) r;
         r \<leftarrow> read_member obj ''lat2'' as_double (\<lambda>x r. r\<lparr>ll_y2 := f32 x\<rparr>) r;
         r \<leftarrow> read_member obj ''lon2'' as_double (\<lambda>x r. r\<lparr>ll_x2 := f32 x\<rparr>) r;
         r \<leftarrow> read_member obj ''dx'' as_uint64 (\<lambda>n r. r\<lparr>ll_dx := f32 (of_nat n)\<rparr>) r;
         r \<leftarrow> read_member obj ''dy'' as_uint64 (\<lambda>n r. r\<lparr>ll_dy := f32 (of_nat n)\<rparr>) r;
         r \<leftarrow> read_member obj ''ny'' as_uint64 (\<lambda>n r. r\<lparr>ll_ny := of_nat n\<rparr>) r;
         r \<leftarrow> read_member obj ''nx'' as_uint64 (\<lambda>n r. r\<lparr>ll_ny := of_nat n\<rparr>) r;
         read_scan_and_flags obj (fresh_scan F) (fresh_flags F) (\<lambda>s r. r\<lparr>ll_scan_mode := s\<rparr>)
           (\<lambda>f r. r\<lparr>ll_resolutionAndComponentFlags := f\<rparr>) r}
     | _ \<Rightarrow> Some (Inl ()))"

definition GridBase_LatLon_to_json :: "GridBase_LatLon \<Rightarrow> json option" where
  "GridBase_LatLon_to_json val = do {
     dx \<leftarrow> to_uint64 (ll_dx val);
     dy \<leftarrow> to_uint64 (ll_dy val);
     scan \<leftarrow> ScanMode_to_json (ll_scan_mode val);
     res \<leftarrow> ScanMode_to_json (ll_scan_mode val);
     Some (JObj [(''lat1'', JDouble (ll_y1 val)), (''lon1'', JDouble (ll_x1 val)),
       (''lat2'', JDouble (ll_y2 val)), (''lon2'', JDouble (ll_x2 val)),
       (''dx'', JNum dx), (''dy'', JNum dy),
       (''ny'', JNum (unat (ll_ny val))), (''nx'', JNum (unat (ll_nx val))),
       (''scan mode'', scan), (''resolution component flags'', res)])}"

text \<open>\<^verbatim>\<open>nx\<close> of a Gaussian grid is an \<^verbatim>\<open>int16_t\<close>, which widens with its sign.\<close>

definition GridBase_Gaussian_from_json :: "fresh_objects \<Rightarrow> json \<Rightarrow> GridBase_Gaussian parsed" where
  "GridBase_Gaussian_from_json F v = (case v of
       JObj obj \<Rightarrow> do {
         r \<leftarrow> read_member obj ''lat1'' as_double (\<lambda>x r. r\<lparr>ga_y1 := f32 x\<rparr>) (fresh_gaussian F);
         r \<leftarrow> read_member obj ''lon1'' as_double (\<lambda>x r. r\<lparr>ga_x1 := f32 x\<rparr>) r;
         r \<leftarrow> read_member obj ''lat2'' as_double (\<lambda>x r. r\<lparr>ga_y2 := f32 x\<rparr>) r;
         r \<leftarrow> read_member obj ''lon2'' as_double (\<lambda>x r. r\<lparr>ga_x2 := f32 x\<rparr>) r;
         r \<leftarrow> read_member obj ''increment'' as_uint64 (\<lambda>n r. r\<lparr>ga_directionIncrement := of_nat n\<rparr>) r;
         r \<leftarrow> read_member obj ''N'' as_uint64 (\<lambda>n r. r\<lparr>ga_N := of_nat n\<rparr>) r;
         r \<leftarrow> read_member obj ''ny'' as_uint64 (\<lambda>n r. r\<lparr>ga_ny := of_nat n\<rparr>) r;
         r \<leftarrow> read_member obj ''nx'' as_uint64 (\<lambda>n r. r\<lparr>ga_ny := of_nat n\<rparr>) r;
         read_scan_and_flags obj (fresh_scan F) (fresh_flags F) (\<lambda>s r. r\<lparr>ga_scan_mode := s\<rparr>)
           (\<lambda>f r. r\<lparr>ga_resolutionAndComponentFlags := f\<rparr>) r}
     | _ \<Rightarrow> Some (Inl ()))"

definition GridBase_Gaussian_to_json :: "GridBase_Gaussian \<Rightarrow> json option" where
  "GridBase_Gaussian_to_json val = do {
     scan \<leftarrow> ScanMode_to_json (ga_scan_mode val);
     res \<leftarrow> ScanMode_to_json (ga_scan_mode val);
     Some (JObj [(''lat1'', JDouble (ga_y1 val)), (''lon1'', JDouble (ga_x1 val)),
       (''lat2'', JDouble (ga_y2 val)), (''lon2'', JDouble (ga_x2 val)),
       (''increment'', JNum (unat (ga_directionIncrement val))), (''N'', JNum (unat (ga_N val))),
       (''ny'', JNum (unat (ga_ny val))), (''nx'', JNum (nat (sint (ga_nx val) mod 2 ^ 64))),
       (''scan mode'', scan), (''resolution component flags'', res)])}"

definition GridBase_Albers_from_json :: "fresh_objects \<Rightarrow> json \<Rightarrow> GridBase_Albers parsed" where
  "GridBase_Albers_from_json F v = (case v of
       JObj obj \<Rightarrow> do {
         r \<leftarrow> read_member obj ''lat1'' as_double (\<lambda>x r. r\<lparr>al_y1 := f32 x\<rparr>) (fresh_albers F);
         r \<leftarrow> read_member obj ''lon1'' as_double (\<lambda>x r. r\<lparr>al_x1 := f32 x\<rparr>) r;
         r \<leftarrow> read_member obj ''LoV'' as_double (\<lambda>x r. r\<lparr>al_LoV := f32 x\<rparr>) r;
         r \<leftarrow> read_member obj ''latin1'' as_double (\<lambda>x r. r\<lparr>al_latin1 := f32 x\<rparr>) r;
         r \<leftarrow> read_member obj ''latin2'' as_double (\<lambda>x r. r\<lparr>al_latin2 := f32 x\<rparr>) r;
         r \<leftarrow> read_member obj ''Dy'' as_double (\<lambda>x r. r\<lparr>al_Dy := f32 x\<rparr>) r;
         r \<leftarrow> read_member obj ''Dx'' as_double (\<lambda>x r. r\<lparr>al_Dx := f32 x\<rparr>) r;
         r \<leftarrow> read_member obj ''lat SP'' as_double (\<lambda>x r. r\<lparr>al_latitude_south_pole := f32 x\<rparr>) r;
         r \<leftarrow> read_member obj ''lon SP'' as_double (\<lambda>x r. r\<lparr>al_longitude_south_pole := f32 x\<rparr>) r;
         r \<leftarrow> read_member obj ''ny'' as_uint64 (\<lambda>n r. r\<lparr>al_ny := of_nat n\<rparr>) r;
         r \<leftarrow> read_member obj ''nx'' as_uint64 (\<lambda>n r. r\<lparr>al_ny := of_nat n\<rparr>) r;
         r \<leftarrow> read_member obj ''isSP'' as_bool (\<lambda>b r. r\<lparr>al_is_south_pole := b\<rparr>) r;
         r \<leftarrow> read_member obj ''isBP'' as_bool (\<lambda>b r. r\<lparr>al_is_bipolar := b\<rparr>) r;
         read_scan_and_flags obj (fresh_scan F) (fresh_flags F) (\<lambda>s r. r\<lparr>al_scan_mode := s\<rparr>)
           (\<lambda>f r. r\<lparr>al_resolutionAndComponentFlags := f\<rparr>) r}
     | _ \<Rightarrow> Some (Inl ()))"

definition GridBase_Albers_to_json :: "GridBase_Albers \<Rightarrow> json option" where
  "GridBase_Albers_to_json val = do {
     scan \<leftarrow> ScanMode_to_json (al_scan_mode val);
     res \<leftarrow> ScanMode_to_json (al_scan_mode val);
     Some (JObj [(''lat1'', JDouble (al_y1 val)), (''lon1'', JDouble (al_x1 val)),
       (''LoV'', JDouble (al_LoV val)), (''latin1'', JDouble (al_latin1 val)),
       (''latin2'', JDouble (al_latin2 val)), (''Dy'', JDouble (al_Dy val)), (''Dx'', JDouble (al_Dx val)),
       (''lat SP'', JDouble (al_latitude_south_pole val)), (''lon SP'', JDouble (al_longitude_south_pole val)),
       (''ny'', JNum (unat (al_ny val))), (''nx'', JNum (unat (al_nx val))),
       (''isSP'', JBool (al_is_south_pole val)), (''isBP'', JBool (al_is_bipolar val)),
       (''scan mode'', scan), (''resolution component flags'', res)])}"

text \<open>The coordinates of the south pole in a Lambert grid are unsigned integers.\<close>

definition read_pole ::
    "(string \<times> json) list \<Rightarrow> string \<Rightarrow> (u32 \<Rightarrow> 'r \<Rightarrow> 'r) \<Rightarrow> 'r \<Rightarrow> 'r option" where
  "read_pole obj k set_to r = read_member obj k (\<lambda>j. Option.bind (as_double j) to_uint32) set_to r"

definition GridBase_Lambert_from_json :: "fresh_objects \<Rightarrow> json \<Rightarrow> GridBase_Lambert parsed" where
  "GridBase_Lambert_from_json F v = (case v of
       JObj obj \<Rightarrow> do {
         r \<leftarrow> read_member obj ''lat1'' as_double (\<lambda>x r. r\<lparr>la_y1 := f32 x\<rparr>) (fresh_lambert F);
         r \<leftarrow> read_member obj ''lon1'' as_double (\<lambda>x r. r\<lparr>la_x1 := f32 x\<rparr>) r;
         r \<leftarrow> read_member obj ''LoV'' as_double (\<lambda>x r. r\<lparr>la_LoV := f32 x\<rparr>) r;
         r \<leftarrow> read_member obj ''latin1'' as_double (\<lambda>x r. r\<lparr>la_latin1 := f32 x\<rparr>) r;
         r \<leftarrow> read_member obj ''latin2'' as_double (\<lambda>x r. r\<lparr>la_latin2 := f32 x\<rparr>) r;
         r \<leftarrow> read_member obj ''dy'' as_double (\<lambda>x r. r\<lparr>la_dy := f32 x\<rparr>) r;
         r \<leftarrow> read_member obj ''dx'' as_double (\<lambda>x r. r\<lparr>la_dx := f32 x\<rparr>) r;
         r \<leftarrow> read_pole obj ''lat SP'' (\<lambda>n r. r\<lparr>la_latitude_south_pole := n\<rparr>) r;
         r \<leftarrow> read_pole obj ''lon SP'' (\<lambda>n r. r\<lparr>la_longitude_south_pole := n\<rparr>) r;
         r \<leftarrow> read_member obj ''ny'' as_uint64 (\<lambda>n r. r\<lparr>la_ny := of_nat n\<rparr>) r;
         r \<leftarrow> read_member obj ''nx'' as_uint64 (\<lambda>n r. r\<lparr>la_ny := of_nat n\<rparr>) r;
         r \<leftarrow> read_member obj ''isSP'' as_bool (\<lambda>b r. r\<lparr>la_is_south_pole := b\<rparr>) r;
         r \<leftarrow> read_member obj ''isBP'' as_bool (\<lambda>b r. r\<lparr>la_is_bipolar := b\<rparr>) r;
         read_scan_and_flags obj (fresh_scan F) (fresh_flags F) (\<lambda>s r. r\<lparr>la_scan_mode := s\<rparr>)
           (\<lambda>f r. r\<lparr>la_resolutionAndComponentFlags := f\<rparr>) r}
     | _ \<Rightarrow> Some (Inl ()))"

definition GridBase_Lambert_to_json :: "GridBase_Lambert \<Rightarrow> json option" where
  "GridBase_Lambert_to_json val = do {
     scan \<leftarrow> ScanMode_to_json (la_scan_mode val);
     res \<leftarrow> ScanMode_to_json (la_scan_mode val);
     Some (JObj [(''lat1'', JDouble (la_y1 val)), (''lon1'', JDouble (la_x1 val)),
       (''LoV'', JDouble (la_LoV val)), (''latin1'', JDouble (la_latin1 val)),
       (''latin2'', JDouble (la_latin2 val)), (''dy'', JDouble (la_dy val)), (''dx'', JDouble (la_dx val)),
       (''lat SP'', JDouble (of_nat (unat (la_latitude_south_pole val)))),
       (''lon SP'', JDouble (of_nat (unat (la_longitude_south_pole val)))),
       (''ny'', JNum (unat (la_ny val))), (''nx'', JNum (unat (la_nx val))),
       (''isSP'', JBool (la_is_south_pole val)), (''isBP'', JBool (la_is_bipolar val)),
       (''scan mode'', scan), (''resolution component flags'', res)])}"

definition GridBase_Harmonic_from_json :: "fresh_objects \<Rightarrow> json \<Rightarrow> GridBase_Harmonic parsed" where
  "GridBase_Harmonic_from_json F v = (case v of
       JObj obj \<Rightarrow> do {
         r \<leftarrow> read_member obj ''J'' as_uint64 (\<lambda>n r. r\<lparr>ha_J := of_nat n\<rparr>) (fresh_harmonic F);
         r \<leftarrow> read_member obj ''K'' as_uint64 (\<lambda>n r. r\<lparr>ha_K := of_nat n\<rparr>) r;
         r \<leftarrow> read_member obj ''M'' as_uint64 (\<lambda>n r. r\<lparr>ha_M := of_nat n\<rparr>) r;
         r \<leftarrow> read_member obj ''reptype'' as_bool (\<lambda>b r. r\<lparr>ha_representation_type := b\<rparr>) r;
         r \<leftarrow> read_member obj ''spectral'' as_uint64 (\<lambda>n r. r\<lparr>ha_rep_mode := of_nat n\<rparr>) r;
         Some (Inr r)}
     | _ \<Rightarrow> Some (Inl ()))"

definition GridBase_Harmonic_to_json :: "GridBase_Harmonic \<Rightarrow> json option" where
  "GridBase_Harmonic_to_json val =
     Some (JObj [(''J'', JNum (unat (ha_J val))), (''K'', JNum (unat (ha_K val))),
       (''M'', JNum (unat (ha_M val))), (''reptype'', JBool (ha_representation_type val)),
       (''spectral'', JNum (unat (ha_rep_mode val)))])"

text \<open>The remaining structures are placeholders in the source.\<close>

definition GridBase_Mercator_from_json :: "json \<Rightarrow> GridBase_Mercator parsed" where
  "GridBase_Mercator_from_json v = Some (Inl ())"

definition GridBase_Mercator_to_json :: "GridBase_Mercator \<Rightarrow> json option" where
  "GridBase_Mercator_to_json val = Some (JObj [])"

definition GridBase_SpaceView_from_json :: "json \<Rightarrow> GridBase_SpaceView parsed" where
  "GridBase_SpaceView_from_json v = Some (Inl ())"

definition GridBase_SpaceView_to_json :: "GridBase_SpaceView \<Rightarrow> json option" where
  "GridBase_SpaceView_to_json val = Some (JObj [])"

definition GridBase_Polar_from_json :: "fresh_objects \<Rightarrow> json \<Rightarrow> GridBase_Polar parsed" where
  "GridBase_Polar_from_json F v = (case v of JObj obj \<Rightarrow> Some (Inr (fresh_polar F)) | _ \<Rightarrow> Some (Inl ()))"

definition GridBase_Polar_to_json :: "GridBase_Polar \<Rightarrow> json option" where
  "GridBase_Polar_to_json val = Some (JObj [])"

definition GridBase_empty_from_json :: "json \<Rightarrow> GridBase_empty parsed" where
  "GridBase_empty_from_json v = (case v of JObj obj \<Rightarrow> Some (Inr GridBase_empty) | _ \<Rightarrow> Some (Inl ()))"

definition GridBase_empty_to_json :: "GridBase_empty \<Rightarrow> json option" where
  "GridBase_empty_to_json val = Some (JObj [])"

section \<open>The modifications\<close>

text \<open>
  The members are \<^verbatim>\<open>float\<close>s and are written as integers; the longitude of a rotation is written under
  the key of the latitude.
\<close>

definition Rotation_to_json :: "Rotation \<Rightarrow> json option" where
  "Rotation_to_json val = do {
     y \<leftarrow> to_int64 (rot_yp val);
     x \<leftarrow> to_int64 (rot_xp val);
     let obj = json_put ''SP lat'' (JInt y) [];
     let obj = json_put ''SP lat'' (JInt x) obj;
     let obj = json_put ''rot angle (ibmf)'' (JDouble (rot_ang val)) obj;
     Some (JObj obj)}"

definition Stretching_to_json :: "Stretching \<Rightarrow> json option" where
  "Stretching_to_json val = do {
     y \<leftarrow> to_int64 (str_ysp val);
     x \<leftarrow> to_int64 (str_xsp val);
     let obj = json_put ''lat pole stretch, mm'' (JInt y) [];
     let obj = json_put ''lon pole stretch, mm'' (JInt x) obj;
     let obj = json_put ''stretch factor (ibmf)'' (JDouble (str_factor val)) obj;
     Some (JObj obj)}"

text \<open>
  The reader of a modification.  Its branches ask \<open>GridDefinition<REP>::modification()\<close>, where \<open>REP\<close> is
  the type without the modification: the unmodified definition answers \<^term>\<open>NONE\<close>, so that no branch is
  compiled and an object gives the default constructed result.
\<close>

definition definition_modification :: "RepresentationType \<Rightarrow> GridModification" where
  "definition_modification rep =
     (if rep \<in> {ROTATED_LAT_LON, ROTATED_GAUSSIAN_LAT_LON, ROTATED_SPHERICAL_HARMONIC_COEFFICIENTS} then ROTATION
      else if rep \<in> {STRETCHED_LAT_LON, STRETCHED_GAUSSIAN_LAT_LON, STRETCHED_SPHERICAL_HARMONIC_COEFFICIENTS}
      then STRETCHING
      else if rep \<in> {STRETCHED_AND_ROTATED_LAT_LON, STRETCHED_ROTATED_GAUSSIAN_LAT_LON,
        STRETCHED_ROTATED_SPHERICAL_HARMONIC_COEFFICIENTS} then ROTATION_STRETCHING
      else NONE)"

definition definition_type :: "RepresentationType \<Rightarrow> RepresentationType" where
  "definition_type rep =
     (if rep \<in> {ROTATED_LAT_LON, STRETCHED_LAT_LON, STRETCHED_AND_ROTATED_LAT_LON}
      then LAT_LON_GRID_EQUIDIST_CYLINDR
      else if rep \<in> {ROTATED_GAUSSIAN_LAT_LON, STRETCHED_GAUSSIAN_LAT_LON, STRETCHED_ROTATED_GAUSSIAN_LAT_LON}
      then GAUSSIAN
      else if rep \<in> {ROTATED_SPHERICAL_HARMONIC_COEFFICIENTS, STRETCHED_SPHERICAL_HARMONIC_COEFFICIENTS,
        STRETCHED_ROTATED_SPHERICAL_HARMONIC_COEFFICIENTS} then SPHERICAL_HARMONIC_COEFFICIENTS
      else if rep = OBLIQUE_LAMBERT_CONFORMAL then LAMBERT
      else rep)"

text \<open>The branches: \<open>compiled\<close> is what the selected one does with the object.\<close>

definition GridAdditional_from_json ::
    "(GridModification \<Rightarrow> (string \<times> json) list \<Rightarrow> 'a \<Rightarrow> 'a parsed) \<Rightarrow> RepresentationType \<Rightarrow> 'a \<Rightarrow> json \<Rightarrow> 'a parsed" where
  "GridAdditional_from_json compiled REP result v = (case v of
       JObj obj \<Rightarrow> (if definition_modification REP = NONE then Some (Inr result)
         else compiled (definition_modification REP) obj result)
     | _ \<Rightarrow> Some (Inl ()))"

text \<open>
  The two branches for one modification.  The first stores all three members of a rotation in \<^verbatim>\<open>yp\<close>, and
  asks for the angle as a number of the kind it has just excluded.
\<close>

definition Rotation_branch :: "GridModification \<Rightarrow> (string \<times> json) list \<Rightarrow> Rotation \<Rightarrow> Rotation parsed" where
  "Rotation_branch m obj result = (case map_of obj ''rotation'' of
       Some (JObj in_obj) \<Rightarrow>
         (case map_of in_obj ''SP lat'' of
            Some (JInt y) \<Rightarrow>
              (let r = result\<lparr>rot_yp := f32 (of_int y)\<rparr> in
               case map_of in_obj ''SP lon'' of
                 Some (JInt x) \<Rightarrow>
                   (let r = r\<lparr>rot_yp := f32 (of_int x)\<rparr> in
                    case map_of in_obj ''rot angle (ibmf)'' of
                      Some (JInt i) \<Rightarrow> map_option (\<lambda>a. Inr (r\<lparr>rot_yp := f32 a\<rparr>)) (as_double (JInt i))
                    | _ \<Rightarrow> Some (Inl ()))
               | _ \<Rightarrow> Some (Inl ()))
          | _ \<Rightarrow> Some (Inl ()))
     | _ \<Rightarrow> Some (Inl ()))"

definition Stretching_branch :: "GridModification \<Rightarrow> (string \<times> json) list \<Rightarrow> Stretching \<Rightarrow> Stretching parsed" where
  "Stretching_branch m obj result = (case map_of obj ''stretching'' of
       Some (JObj in_obj) \<Rightarrow>
         (case map_of in_obj ''lat pole stretch, mm'' of
            Some (JInt y) \<Rightarrow> do {
              j \<leftarrow> map_of in_obj ''SP lat'';
              lat \<leftarrow> as_int64 j;
              let r = result\<lparr>str_ysp := f32 (of_int lat)\<rparr>;
              case map_of in_obj ''lon pole stretch, mm'' of
                Some (JInt x) \<Rightarrow>
                  (let r = r\<lparr>str_xsp := f32 (of_int x)\<rparr> in
                   case map_of in_obj ''stretch factor (ibmf)'' of
                     Some (JDouble d) \<Rightarrow> Some (Inr (r\<lparr>str_factor := d\<rparr>))
                   | _ \<Rightarrow> Some (Inl ()))
              | _ \<Rightarrow> Some (Inl ())}
          | _ \<Rightarrow> Some (Inl ()))
     | _ \<Rightarrow> Some (Inl ()))"

section \<open>Grid definitions\<close>

text \<open>The writer takes a new value, which is null, for an object.\<close>

definition GridDefinition_to_json ::
    "('b \<Rightarrow> json option) \<Rightarrow> ('a \<Rightarrow> json option) \<Rightarrow> ('b, 'a) GridDefinition \<Rightarrow> json option" where
  "GridDefinition_to_json base_to add_to val = do {
     obj \<leftarrow> as_object JNull;
     b \<leftarrow> base_to (base_part val);
     a \<leftarrow> add_to (additional_part val);
     Some (JObj (json_put ''additional'' a (json_put ''base'' b obj)))}"

definition GridDefinition_from_json ::
    "(json \<Rightarrow> 'b parsed) \<Rightarrow> (json \<Rightarrow> 'a parsed) \<Rightarrow> ('b, 'a) GridDefinition \<Rightarrow> json \<Rightarrow>
     ('b, 'a) GridDefinition parsed" where
  "GridDefinition_from_json base_from add_from result v = (case v of
       JObj obj \<Rightarrow> do {
         b \<leftarrow> (case map_of obj ''base'' of
            None \<Rightarrow> Some (Inr result)
          | Some j \<Rightarrow> map_option (map_sum id (\<lambda>b. result\<lparr>base_part := b\<rparr>)) (base_from j));
         case b of
           Inl e \<Rightarrow> Some (Inl ())
         | Inr result \<Rightarrow>
             (case (map_of obj ''additional'', map_of obj ''mod'') of
                (Some j, Some (JNum n)) \<Rightarrow>
                  map_option (map_sum (\<lambda>_. ()) (\<lambda>a. result\<lparr>additional_part := a\<rparr>)) (add_from j)
              | _ \<Rightarrow> Some (Inr result))}
     | _ \<Rightarrow> Some (Inl ()))"

section \<open>GridInfo\<close>

text \<open>
  \<^verbatim>\<open>type()\<close> is the type without the modification.  The JSON of a rotation and stretching writes through
  a reference that a later insertion invalidates, and the reader of one, if it were compiled, would
  be OsterLib's: both are arguments.
\<close>

fun grid_data_to_json :: "(Rotation_stretching \<Rightarrow> json option) \<Rightarrow> GridInfo \<Rightarrow> json option" where
    "grid_data_to_json rs_to Monostate_grid = Some (JObj [])"
  | "grid_data_to_json rs_to (Grid_lat_lon g) = GridDefinition_to_json GridBase_LatLon_to_json (\<lambda>_. Some (JObj [])) g"
  | "grid_data_to_json rs_to (Grid_rotated_lat_lon g) = GridDefinition_to_json GridBase_LatLon_to_json Rotation_to_json g"
  | "grid_data_to_json rs_to (Grid_stretched_lat_lon g) = GridDefinition_to_json GridBase_LatLon_to_json Stretching_to_json g"
  | "grid_data_to_json rs_to (Grid_stretched_rotated_lat_lon g) = GridDefinition_to_json GridBase_LatLon_to_json rs_to g"
  | "grid_data_to_json rs_to (Grid_gaussian g) = GridDefinition_to_json GridBase_Gaussian_to_json (\<lambda>_. Some (JObj [])) g"
  | "grid_data_to_json rs_to (Grid_rotated_gaussian g) = GridDefinition_to_json GridBase_Gaussian_to_json Rotation_to_json g"
  | "grid_data_to_json rs_to (Grid_stretched_gaussian g) = GridDefinition_to_json GridBase_Gaussian_to_json Stretching_to_json g"
  | "grid_data_to_json rs_to (Grid_stretched_rotated_gaussian g) = GridDefinition_to_json GridBase_Gaussian_to_json rs_to g"
  | "grid_data_to_json rs_to (Grid_lambert g) = GridDefinition_to_json GridBase_Lambert_to_json (\<lambda>_. Some (JObj [])) g"
  | "grid_data_to_json rs_to (Grid_oblique_lambert g) = GridDefinition_to_json GridBase_Lambert_to_json (\<lambda>_. Some (JObj [])) g"
  | "grid_data_to_json rs_to (Grid_utm g) = GridDefinition_to_json GridBase_empty_to_json (\<lambda>_. Some (JObj [])) g"
  | "grid_data_to_json rs_to (Grid_albers g) = GridDefinition_to_json GridBase_Albers_to_json (\<lambda>_. Some (JObj [])) g"
  | "grid_data_to_json rs_to (Grid_space_view g) = GridDefinition_to_json GridBase_SpaceView_to_json (\<lambda>_. Some (JObj [])) g"
  | "grid_data_to_json rs_to (Grid_gnomonic g) = GridDefinition_to_json GridBase_empty_to_json (\<lambda>_. Some (JObj [])) g"
  | "grid_data_to_json rs_to (Grid_harmonic g) = GridDefinition_to_json GridBase_Harmonic_to_json (\<lambda>_. Some (JObj [])) g"
  | "grid_data_to_json rs_to (Grid_rotated_harmonic g) = GridDefinition_to_json GridBase_Harmonic_to_json Rotation_to_json g"
  | "grid_data_to_json rs_to (Grid_stretched_harmonic g) = GridDefinition_to_json GridBase_Harmonic_to_json Stretching_to_json g"
  | "grid_data_to_json rs_to (Grid_stretched_rotated_harmonic g) = GridDefinition_to_json GridBase_Harmonic_to_json rs_to g"
  | "grid_data_to_json rs_to (Grid_polar g) = GridDefinition_to_json GridBase_Polar_to_json (\<lambda>_. Some (JObj [])) g"
  | "grid_data_to_json rs_to (Grid_millers g) = GridDefinition_to_json GridBase_empty_to_json (\<lambda>_. Some (JObj [])) g"
  | "grid_data_to_json rs_to (Grid_polyconic g) = GridDefinition_to_json GridBase_empty_to_json (\<lambda>_. Some (JObj [])) g"
  | "grid_data_to_json rs_to (Grid_mercator g) = GridDefinition_to_json GridBase_Mercator_to_json (\<lambda>_. Some (JObj [])) g"

definition GridInfo_to_json :: "(Rotation_stretching \<Rightarrow> json option) \<Rightarrow> GridInfo \<Rightarrow> json option" where
  "GridInfo_to_json rs_to val = do {
     let obj = json_put ''representation type'' (JNum (unat (representation_code (GridInfo_type val)))) [];
     g \<leftarrow> grid_data_to_json rs_to val;
     Some (JObj (json_put ''grid data'' g obj))}"

text \<open>
  \<^verbatim>\<open>emplace_by_id\<close> without a buffer default constructs the alternative; the visitor assigns what it reads
  and ignores an error.
\<close>

definition fresh_rotation_stretching :: "fresh_objects \<Rightarrow> Rotation_stretching" where
  "fresh_rotation_stretching F = \<lparr>add_rot = fresh_rotation F, add_stretch = fresh_stretching F\<rparr>"

definition read_alternative ::
    "(('b, 'a) GridDefinition \<Rightarrow> GridInfo) \<Rightarrow> (json \<Rightarrow> 'b parsed) \<Rightarrow>
     (GridModification \<Rightarrow> (string \<times> json) list \<Rightarrow> 'a \<Rightarrow> 'a parsed) \<Rightarrow> RepresentationType \<Rightarrow> 'b \<Rightarrow> 'a \<Rightarrow> json \<Rightarrow>
     GridInfo option" where
  "read_alternative alternative base_from compiled REP fresh_base fresh_add v =
     (let result = \<lparr>base_part = fresh_base, additional_part = fresh_add\<rparr> in do {
       r \<leftarrow> GridDefinition_from_json base_from (GridAdditional_from_json compiled (definition_type REP) fresh_add) result v;
       Some (alternative (case r of Inl e \<Rightarrow> result | Inr g \<Rightarrow> g))})"

definition alternative_readers ::
    "fresh_objects \<Rightarrow> (GridModification \<Rightarrow> (string \<times> json) list \<Rightarrow> Rotation_stretching \<Rightarrow> Rotation_stretching parsed) \<Rightarrow>
     (json \<Rightarrow> GridInfo option) list" where
  "alternative_readers F rs_branch = [
     (\<lambda>v. Some Monostate_grid),
     read_alternative Grid_lat_lon (GridBase_LatLon_from_json F) (\<lambda>_ _ _. Some (Inl ()))
       LAT_LON_GRID_EQUIDIST_CYLINDR (fresh_lat_lon F) (),
     read_alternative Grid_rotated_lat_lon (GridBase_LatLon_from_json F) Rotation_branch
       ROTATED_LAT_LON (fresh_lat_lon F) (fresh_rotation F),
     read_alternative Grid_stretched_lat_lon (GridBase_LatLon_from_json F) Stretching_branch
       STRETCHED_LAT_LON (fresh_lat_lon F) (fresh_stretching F),
     read_alternative Grid_stretched_rotated_lat_lon (GridBase_LatLon_from_json F) rs_branch
       STRETCHED_AND_ROTATED_LAT_LON (fresh_lat_lon F) (fresh_rotation_stretching F),
     read_alternative Grid_gaussian (GridBase_Gaussian_from_json F) (\<lambda>_ _ _. Some (Inl ()))
       GAUSSIAN (fresh_gaussian F) (),
     read_alternative Grid_rotated_gaussian (GridBase_Gaussian_from_json F) Rotation_branch
       ROTATED_GAUSSIAN_LAT_LON (fresh_gaussian F) (fresh_rotation F),
     read_alternative Grid_stretched_gaussian (GridBase_Gaussian_from_json F) Stretching_branch
       STRETCHED_GAUSSIAN_LAT_LON (fresh_gaussian F) (fresh_stretching F),
     read_alternative Grid_stretched_rotated_gaussian (GridBase_Gaussian_from_json F) rs_branch
       STRETCHED_ROTATED_GAUSSIAN_LAT_LON (fresh_gaussian F) (fresh_rotation_stretching F),
     read_alternative Grid_lambert (GridBase_Lambert_from_json F) (\<lambda>_ _ _. Some (Inl ()))
       LAMBERT (fresh_lambert F) (),
     read_alternative Grid_oblique_lambert (GridBase_Lambert_from_json F) (\<lambda>_ _ _. Some (Inl ()))
       OBLIQUE_LAMBERT_CONFORMAL (fresh_lambert F) (),
     read_alternative Grid_utm GridBase_empty_from_json (\<lambda>_ _ _. Some (Inl ()))
       UTM GridBase_empty (),
     read_alternative Grid_albers (GridBase_Albers_from_json F) (\<lambda>_ _ _. Some (Inl ()))
       ALBERS_EQUAL_AREA (fresh_albers F) (),
     read_alternative Grid_space_view GridBase_SpaceView_from_json (\<lambda>_ _ _. Some (Inl ()))
       SPACE_VIEW (fresh_space_view F) (),
     read_alternative Grid_gnomonic GridBase_empty_from_json (\<lambda>_ _ _. Some (Inl ()))
       GNOMONIC GridBase_empty (),
     read_alternative Grid_harmonic (GridBase_Harmonic_from_json F) (\<lambda>_ _ _. Some (Inl ()))
       SPHERICAL_HARMONIC_COEFFICIENTS (fresh_harmonic F) (),
     read_alternative Grid_rotated_harmonic (GridBase_Harmonic_from_json F) Rotation_branch
       ROTATED_SPHERICAL_HARMONIC_COEFFICIENTS (fresh_harmonic F) (fresh_rotation F),
     read_alternative Grid_stretched_harmonic (GridBase_Harmonic_from_json F) Stretching_branch
       STRETCHED_SPHERICAL_HARMONIC_COEFFICIENTS (fresh_harmonic F) (fresh_stretching F),
     read_alternative Grid_stretched_rotated_harmonic (GridBase_Harmonic_from_json F) rs_branch
       STRETCHED_ROTATED_SPHERICAL_HARMONIC_COEFFICIENTS (fresh_harmonic F) (fresh_rotation_stretching F),
     read_alternative Grid_polar (GridBase_Polar_from_json F) (\<lambda>_ _ _. Some (Inl ()))
       POLAR_STEREOGRAPH_PROJ (fresh_polar F) (),
     read_alternative Grid_millers GridBase_empty_from_json (\<lambda>_ _ _. Some (Inl ()))
       MILLERS_CYLINDR GridBase_empty (),
     read_alternative Grid_polyconic GridBase_empty_from_json (\<lambda>_ _ _. Some (Inl ()))
       SIMPLE_POLYCONIC GridBase_empty (),
     read_alternative Grid_mercator GridBase_Mercator_from_json (\<lambda>_ _ _. Some (Inl ()))
       MERCATOR (fresh_mercator F) ()]"

text \<open>
  Any exception of the visitor is caught and returned as an error.  The representation type must be an
  unsigned number.  The value read is one in memory: Boost's parser makes a signed number of every small
  integer, so that in a value parsed from text there is no representation type that is accepted.
\<close>

definition GridInfo_from_json ::
    "fresh_objects \<Rightarrow> (GridModification \<Rightarrow> (string \<times> json) list \<Rightarrow> Rotation_stretching \<Rightarrow> Rotation_stretching parsed) \<Rightarrow>
     json \<Rightarrow> unit + GridInfo" where
  "GridInfo_from_json F rs_branch v = (case v of
       JObj obj \<Rightarrow>
         (case (map_of obj ''representation type'', map_of obj ''grid data'') of
            (Some (JNum n), Some (JObj data)) \<Rightarrow>
              (let index = enum_to_index ! unat (of_nat n :: u8) in
               if index = - 1 then Inl ()
               else (case (alternative_readers F rs_branch ! nat index) (JObj data) of
                   None \<Rightarrow> Inl ()
                 | Some g \<Rightarrow> Inr g))
          | _ \<Rightarrow> Inl ())
     | _ \<Rightarrow> Inl ())"

section \<open>Facts\<close>

lemma ScanMode_to_json_fails [simp]: "ScanMode_to_json m = None"
  by (simp add: ScanMode_to_json_def put_bool_def json_ref_def as_bool_def)

lemma grid_base_to_json_fails [simp]:
  "GridBase_LatLon_to_json g = None" "GridBase_Gaussian_to_json g' = None"
  "GridBase_Albers_to_json h = None" "GridBase_Lambert_to_json h' = None"
  by (simp_all add: GridBase_LatLon_to_json_def GridBase_Gaussian_to_json_def GridBase_Albers_to_json_def
      GridBase_Lambert_to_json_def split: Option.bind_splits)

lemma GridDefinition_to_json_fails [simp]: "GridDefinition_to_json b a g = None"
  by (simp add: GridDefinition_to_json_def as_object_def)

lemma read_member_cases:
  assumes "read_member obj k as_kind set_to r = Some r'"
  shows "r' = r \<or> (\<exists>v. r' = set_to v r)"
  using assms by (auto simp: read_member_def split: option.splits)

text \<open>Setters of one member keep the others: a reader built of them keeps any observation they keep.\<close>

lemma read_member_keeps:
  assumes "read_member obj k as_kind set_to r = Some r'" "\<And>v. f (set_to v r) = f r"
  shows "f r' = f r"
  using read_member_cases [OF assms(1)] assms(2) by auto

lemma read_scan_and_flags_keeps:
  assumes "read_scan_and_flags obj s fl set_scan set_flags r = Some (Inr r')"
    "\<And>v r. f (set_scan v r) = f r" "\<And>v r. f (set_flags v r) = f r"
  shows "f r' = f r"
  using assms by (auto simp: read_scan_and_flags_def read_scan_def read_resolution_def
      split: Option.bind_split_asm option.split_asm sum.split_asm)

lemma definition_type_unmodified [simp]: "definition_modification (definition_type rep) = NONE"
  by (cases rep) (simp_all add: definition_type_def definition_modification_def)

text \<open>Nothing of a modification is ever read: an object gives the default constructed one.\<close>

lemma additional_never_read:
  "GridAdditional_from_json compiled (definition_type rep) fresh v =
     (case v of JObj obj \<Rightarrow> Some (Inr fresh) | _ \<Rightarrow> Some (Inl ()))"
  by (simp add: GridAdditional_from_json_def split: json.splits)

text \<open>The number of points along the one axis is stored as the number along the other.\<close>

lemma nx_stored_as_ny:
  assumes "read_member obj ''nx'' as_uint64 set_to r = Some r'" "map_of obj ''nx'' = Some (JNum n)"
  shows "r' = set_to n r"
  using assms by (simp add: read_member_def as_uint64_def)

lemma bind_SomeE:
  assumes "Option.bind m k = Some x" obtains y where "m = Some y" "k y = Some x"
  using assms by (cases m) auto

lemma LatLon_counts:
  assumes "GridBase_LatLon_from_json F (JObj obj) = Some (Inr r)" "map_of obj ''nx'' = Some (JNum n)"
  shows "ll_nx r = ll_nx (fresh_lat_lon F)" "ll_ny r = of_nat n"
proof -
  show "ll_nx r = ll_nx (fresh_lat_lon F)"
    using assms(1) unfolding GridBase_LatLon_from_json_def json.case
    by (elim bind_SomeE) (drule read_scan_and_flags_keeps [where f = ll_nx], simp, simp,
      (drule read_member_keeps [where f = ll_nx], simp)+, simp)
  show "ll_ny r = of_nat n"
    using assms unfolding GridBase_LatLon_from_json_def json.case
    by (elim bind_SomeE) (drule read_scan_and_flags_keeps [where f = ll_ny], simp, simp, drule (1) nx_stored_as_ny, simp)
qed

lemma Gaussian_counts:
  assumes "GridBase_Gaussian_from_json F (JObj obj) = Some (Inr r)" "map_of obj ''nx'' = Some (JNum n)"
  shows "ga_nx r = ga_nx (fresh_gaussian F)" "ga_ny r = of_nat n"
proof -
  show "ga_nx r = ga_nx (fresh_gaussian F)"
    using assms(1) unfolding GridBase_Gaussian_from_json_def json.case
    by (elim bind_SomeE) (drule read_scan_and_flags_keeps [where f = ga_nx], simp, simp,
      (drule read_member_keeps [where f = ga_nx], simp)+, simp)
  show "ga_ny r = of_nat n"
    using assms unfolding GridBase_Gaussian_from_json_def json.case
    by (elim bind_SomeE) (drule read_scan_and_flags_keeps [where f = ga_ny], simp, simp, drule (1) nx_stored_as_ny, simp)
qed

section \<open>Properties\<close>

text \<open>
  C31: no grid has a JSON form: the conversion, and with it \<^verbatim>\<open>print_grid_info\<close>, is left by an exception
  whenever there is a grid, because the definition's writer takes a null for an object.  Without a
  grid it writes the type and an empty object, and reading that back gives no grid again.
\<close>

theorem grid_json_fails:
  "GridInfo_to_json rs_to g = (if has_grid g then None
     else Some (JObj [(''representation type'', JNum (unat (representation_code UNDEF_GRID))),
       (''grid data'', JObj [])])) \<and>
   GridInfo_from_json F rs_branch (JObj [(''representation type'', JNum (unat (representation_code UNDEF_GRID))),
     (''grid data'', JObj [])]) = Inr Monostate_grid"
proof
  show "GridInfo_to_json rs_to g = (if has_grid g then None
     else Some (JObj [(''representation type'', JNum (unat (representation_code UNDEF_GRID))),
       (''grid data'', JObj [])]))"
    by (cases g) (simp_all add: GridInfo_to_json_def has_grid_def json_put_def)
next
  have "enum_to_index ! unat (representation_code UNDEF_GRID) = 0"
    using enum_to_index_code(2) [of UNDEF_GRID] by (simp add: enum_indices_def)
  then show "GridInfo_from_json F rs_branch (JObj [(''representation type'', JNum (unat (representation_code UNDEF_GRID))),
      (''grid data'', JObj [])]) = Inr Monostate_grid"
    by (simp add: GridInfo_from_json_def alternative_readers_def)
qed

text \<open>
  Reading a latitude and longitude grid or a Gaussian grid from JSON never sets \<^verbatim>\<open>nx\<close>: it keeps what the
  default constructed object holds, and the number given for it becomes \<^verbatim>\<open>ny\<close>.
\<close>

theorem grid_json_counts:
  assumes "map_of obj ''nx'' = Some (JNum n)"
    "GridBase_LatLon_from_json F (JObj obj) = Some (Inr a)"
    "GridBase_Gaussian_from_json F (JObj obj) = Some (Inr b)"
  shows "ll_nx a = ll_nx (fresh_lat_lon F) \<and> ll_ny a = of_nat n \<and>
    ga_nx b = ga_nx (fresh_gaussian F) \<and> ga_ny b = of_nat n"
  using LatLon_counts [OF assms(2,1)] Gaussian_counts [OF assms(3,1)] by simp

theorem grid_json_counts_witness:
  "\<forall>F. \<exists>a b. GridBase_LatLon_from_json F (JObj [(''nx'', JNum 3), (''ny'', JNum 5)]) = Some (Inr a) \<and>
    GridBase_Gaussian_from_json F (JObj [(''nx'', JNum 3), (''ny'', JNum 5)]) = Some (Inr b) \<and>
    ll_nx a = ll_nx (fresh_lat_lon F) \<and> ll_ny a = 3 \<and> ga_nx b = ga_nx (fresh_gaussian F) \<and> ga_ny b = 3"
proof
  fix F
  let ?obj = "[(''nx'', JNum 3), (''ny'', JNum 5)]"
  note readers = read_member_def read_scan_and_flags_def read_scan_def read_resolution_def as_uint64_def
  obtain a where a: "GridBase_LatLon_from_json F (JObj ?obj) = Some (Inr a)"
    by (simp add: GridBase_LatLon_from_json_def readers)
  obtain b where b: "GridBase_Gaussian_from_json F (JObj ?obj) = Some (Inr b)"
    by (simp add: GridBase_Gaussian_from_json_def readers)
  have nx: "map_of ?obj ''nx'' = Some (JNum 3)" by simp
  from grid_json_counts [OF nx a b] a b
  show "\<exists>a b. GridBase_LatLon_from_json F (JObj ?obj) = Some (Inr a) \<and>
    GridBase_Gaussian_from_json F (JObj ?obj) = Some (Inr b) \<and>
    ll_nx a = ll_nx (fresh_lat_lon F) \<and> ll_ny a = 3 \<and> ga_nx b = ga_nx (fresh_gaussian F) \<and> ga_ny b = 3"
    by (intro exI [of _ a] exI [of _ b]) simp
qed

end
