(* ===== verification/Wire.thy ===== *)
theory Wire
  imports Grid_Serial "HOL-Library.Extended_Nat"
begin

text \<open>
  Serialization of structures.  The specializations of \<^verbatim>\<open>Serialize\<close>, \<^verbatim>\<open>Deserialize\<close> and
  \<^verbatim>\<open>Serial_size\<close> in this repository list the members of a structure; OsterLib (\<^verbatim>\<open>serialization.h\<close>)
  writes the members one after another and knows numbers, strings, optional values, containers,
  pointers and variants.  This theory holds the vocabulary between the two: the value that is
  written, the type that is read, and what is relied on of the library.
\<close>

section \<open>Values and types\<close>

text \<open>
  \<^verbatim>\<open>'l\<close> stands for the values of library types whose members are not in this repository
  (\<^verbatim>\<open>TimeSequence\<close>, \<^verbatim>\<open>TimePeriod\<close>).  Time points are counts of nanoseconds.
\<close>

datatype 'l leaf = L_u8 u8 | L_u16 u16 | L_u32 u32 | L_u64 u64 | L_int "32 word" | L_bool bool | L_float rat
  | L_string string | L_time int | L_coord Coord | L_grid GridVariant | L_sequence 'l | L_period 'l

datatype leaf_kind = LK_u8 | LK_u16 | LK_u32 | LK_u64 | LK_int | LK_bool | LK_float
  | LK_string | LK_time | LK_coord | LK_grid nat | LK_sequence | LK_period

datatype 'l wire = W_leaf "'l leaf" | W_opt "'l wire option" | W_vec "'l wire list"
  | W_struct "'l wire list" | W_variant nat "'l wire"

datatype shape = S_leaf leaf_kind | S_opt shape | S_vec shape | S_struct "shape list" | S_variant "shape list"

primrec kind_of :: "'l leaf \<Rightarrow> leaf_kind" where
  "kind_of (L_u8 w) = LK_u8"
| "kind_of (L_u16 w) = LK_u16"
| "kind_of (L_u32 w) = LK_u32"
| "kind_of (L_u64 w) = LK_u64"
| "kind_of (L_int w) = LK_int"
| "kind_of (L_bool b) = LK_bool"
| "kind_of (L_float x) = LK_float"
| "kind_of (L_string s) = LK_string"
| "kind_of (L_time t) = LK_time"
| "kind_of (L_coord c) = LK_coord"
| "kind_of (L_grid g) = LK_grid (variant_index g)"
| "kind_of (L_sequence x) = LK_sequence"
| "kind_of (L_period x) = LK_period"

text \<open>
  A member of type \<^verbatim>\<open>float\<close> holds a value of that type, and a time point is a count in 64 bits.
\<close>

definition storable_time :: "int \<Rightarrow> bool" where
  "storable_time t \<longleftrightarrow> - (2 ^ 63) \<le> t \<and> t < 2 ^ 63"

primrec leaf_ok :: "'l leaf \<Rightarrow> bool" where
  "leaf_ok (L_u8 w) = True"
| "leaf_ok (L_u16 w) = True"
| "leaf_ok (L_u32 w) = True"
| "leaf_ok (L_u64 w) = True"
| "leaf_ok (L_int w) = True"
| "leaf_ok (L_bool b) = True"
| "leaf_ok (L_float x) = (f32 x = x)"
| "leaf_ok (L_string s) = True"
| "leaf_ok (L_time t) = storable_time t"
| "leaf_ok (L_coord c) = True"
| "leaf_ok (L_grid g) = definition_storable g"
| "leaf_ok (L_sequence x) = True"
| "leaf_ok (L_period x) = True"

primrec has_shape :: "shape \<Rightarrow> 'l wire \<Rightarrow> bool" where
  "has_shape (S_leaf k) = (\<lambda>v. case v of W_leaf l \<Rightarrow> kind_of l = k \<and> leaf_ok l | _ \<Rightarrow> False)"
| "has_shape (S_opt s) = (\<lambda>v. case v of W_opt w \<Rightarrow> pred_option (has_shape s) w | _ \<Rightarrow> False)"
| "has_shape (S_vec s) = (\<lambda>v. case v of W_vec ws \<Rightarrow> list_all (has_shape s) ws | _ \<Rightarrow> False)"
| "has_shape (S_struct ss) = (\<lambda>v. case v of
     W_struct ws \<Rightarrow> list_all2 (\<lambda>p w. p w) (map has_shape ss) ws | _ \<Rightarrow> False)"
| "has_shape (S_variant ss) = (\<lambda>v. case v of
     W_variant n w \<Rightarrow> n < length ss \<and> (map has_shape ss ! n) w | _ \<Rightarrow> False)"

section \<open>The library\<close>

text \<open>
  The numbers are written by a codec (theory Grid Serial); the writers of the other types, of
  optional values (and of pointers), of containers and of variants take the octets of what they
  hold, the readers take the reader of what they hold.
\<close>

record 'l wire_lib =
  numbers :: codec
  put_u64 :: "bool \<Rightarrow> u64 \<Rightarrow> u8 list"
  get_u64 :: "bool \<Rightarrow> u8 list \<Rightarrow> (u64 \<times> u8 list) option"
  put_int :: "bool \<Rightarrow> 32 word \<Rightarrow> u8 list"
  get_int :: "bool \<Rightarrow> u8 list \<Rightarrow> (32 word \<times> u8 list) option"
  put_string :: "bool \<Rightarrow> string \<Rightarrow> u8 list"
  get_string :: "bool \<Rightarrow> u8 list \<Rightarrow> (string \<times> u8 list) option"
  put_time :: "bool \<Rightarrow> int \<Rightarrow> u8 list"
  get_time :: "bool \<Rightarrow> u8 list \<Rightarrow> (int \<times> u8 list) option"
  put_coord :: "bool \<Rightarrow> Coord \<Rightarrow> u8 list"
  get_coord :: "bool \<Rightarrow> u8 list \<Rightarrow> (Coord \<times> u8 list) option"
  put_sequence :: "bool \<Rightarrow> 'l \<Rightarrow> u8 list"
  get_sequence :: "bool \<Rightarrow> u8 list \<Rightarrow> ('l \<times> u8 list) option"
  put_period :: "bool \<Rightarrow> 'l \<Rightarrow> u8 list"
  get_period :: "bool \<Rightarrow> u8 list \<Rightarrow> ('l \<times> u8 list) option"
  put_opt :: "bool \<Rightarrow> u8 list option \<Rightarrow> u8 list"
  get_opt :: "bool \<Rightarrow> (u8 list \<Rightarrow> ('l wire \<times> u8 list) option) \<Rightarrow> u8 list \<Rightarrow> ('l wire option \<times> u8 list) option"
  put_vec :: "bool \<Rightarrow> u8 list list \<Rightarrow> u8 list"
  get_vec :: "bool \<Rightarrow> (u8 list \<Rightarrow> ('l wire \<times> u8 list) option) \<Rightarrow> u8 list \<Rightarrow> ('l wire list \<times> u8 list) option"
  put_variant :: "bool \<Rightarrow> nat \<Rightarrow> u8 list \<Rightarrow> u8 list"
  get_variant :: "bool \<Rightarrow> (nat \<Rightarrow> u8 list \<Rightarrow> ('l wire \<times> u8 list) option) \<Rightarrow> u8 list \<Rightarrow>
    ((nat \<times> 'l wire) \<times> u8 list) option"

primrec write_leaf :: "'l wire_lib \<Rightarrow> bool \<Rightarrow> 'l leaf \<Rightarrow> u8 list" where
  "write_leaf W net (L_u8 w) = put_u8 (numbers W) net w"
| "write_leaf W net (L_u16 w) = put_u16 (numbers W) net w"
| "write_leaf W net (L_u32 w) = put_u32 (numbers W) net w"
| "write_leaf W net (L_u64 w) = put_u64 W net w"
| "write_leaf W net (L_int w) = put_int W net w"
| "write_leaf W net (L_bool b) = put_bool (numbers W) net b"
| "write_leaf W net (L_float x) = put_float (numbers W) net x"
| "write_leaf W net (L_string s) = put_string W net s"
| "write_leaf W net (L_time t) = put_time W net t"
| "write_leaf W net (L_coord c) = put_coord W net c"
| "write_leaf W net (L_grid g) = Serialize_variant (numbers W) net g"
| "write_leaf W net (L_sequence x) = put_sequence W net x"
| "write_leaf W net (L_period x) = put_period W net x"

definition read_as :: "('a \<Rightarrow> 'b) \<Rightarrow> ('a \<times> u8 list) option \<Rightarrow> ('b \<times> u8 list) option" where
  "read_as f = map_option (\<lambda>(x, buf). (f x, buf))"

primrec read_leaf :: "'l wire_lib \<Rightarrow> bool \<Rightarrow> leaf_kind \<Rightarrow> u8 list \<Rightarrow> ('l leaf \<times> u8 list) option" where
  "read_leaf W net LK_u8 buf = read_as L_u8 (get_u8 (numbers W) net buf)"
| "read_leaf W net LK_u16 buf = read_as L_u16 (get_u16 (numbers W) net buf)"
| "read_leaf W net LK_u32 buf = read_as L_u32 (get_u32 (numbers W) net buf)"
| "read_leaf W net LK_u64 buf = read_as L_u64 (get_u64 W net buf)"
| "read_leaf W net LK_int buf = read_as L_int (get_int W net buf)"
| "read_leaf W net LK_bool buf = read_as L_bool (get_bool (numbers W) net buf)"
| "read_leaf W net LK_float buf = read_as L_float (get_float (numbers W) net buf)"
| "read_leaf W net LK_string buf = read_as L_string (get_string W net buf)"
| "read_leaf W net LK_time buf = read_as L_time (get_time W net buf)"
| "read_leaf W net LK_coord buf = read_as L_coord (get_coord W net buf)"
| "read_leaf W net (LK_grid n) buf = read_as L_grid (Deserialize_variant (numbers W) net n buf)"
| "read_leaf W net LK_sequence buf = read_as L_sequence (get_sequence W net buf)"
| "read_leaf W net LK_period buf = read_as L_period (get_period W net buf)"

text \<open>\<^verbatim>\<open>serialize\<close> of a value, and \<^verbatim>\<open>deserialize\<close> of a type from the front of the octets.\<close>

primrec write_value :: "'l wire_lib \<Rightarrow> bool \<Rightarrow> 'l wire \<Rightarrow> u8 list" where
  "write_value W net (W_leaf l) = write_leaf W net l"
| "write_value W net (W_opt v) = put_opt W net (map_option (write_value W net) v)"
| "write_value W net (W_vec vs) = put_vec W net (map (write_value W net) vs)"
| "write_value W net (W_struct vs) = concat (map (write_value W net) vs)"
| "write_value W net (W_variant n v) = put_variant W net n (write_value W net v)"

primrec read_all :: "(u8 list \<Rightarrow> ('a \<times> u8 list) option) list \<Rightarrow> u8 list \<Rightarrow> ('a list \<times> u8 list) option" where
  "read_all [] buf = Some ([], buf)"
| "read_all (g # gs) buf = do {
     (v, buf) \<leftarrow> g buf;
     (vs, buf) \<leftarrow> read_all gs buf;
     Some (v # vs, buf)}"

primrec read_value :: "'l wire_lib \<Rightarrow> bool \<Rightarrow> shape \<Rightarrow> u8 list \<Rightarrow> ('l wire \<times> u8 list) option" where
  "read_value W net (S_leaf k) = (\<lambda>buf. read_as W_leaf (read_leaf W net k buf))"
| "read_value W net (S_opt s) = (\<lambda>buf. read_as W_opt (get_opt W net (read_value W net s) buf))"
| "read_value W net (S_vec s) = (\<lambda>buf. read_as W_vec (get_vec W net (read_value W net s) buf))"
| "read_value W net (S_struct ss) = (\<lambda>buf. read_as W_struct (read_all (map (read_value W net) ss) buf))"
| "read_value W net (S_variant ss) = (\<lambda>buf. read_as (\<lambda>(n, v). W_variant n v)
     (get_variant W net (\<lambda>n. if n < length ss then map (read_value W net) ss ! n else (\<lambda>buf. None)) buf))"

text \<open>
  What the code relies on: a library value that was written is read back and reading stops behind
  it, if this holds of what a container, an optional value or a variant holds.
\<close>

definition reads :: "(u8 list \<Rightarrow> ('a \<times> u8 list) option) \<Rightarrow> u8 list \<Rightarrow> 'a \<Rightarrow> bool" where
  "reads g bs v \<longleftrightarrow> (\<forall>r. g (bs @ r) = Some (v, r))"

definition wire_lib_ok :: "'l wire_lib \<Rightarrow> bool" where
  "wire_lib_ok W \<longleftrightarrow> codec_ok (numbers W) \<and>
     (\<forall>net w. reads (get_u64 W net) (put_u64 W net w) w) \<and>
     (\<forall>net w. reads (get_int W net) (put_int W net w) w) \<and>
     (\<forall>net s. reads (get_string W net) (put_string W net s) s) \<and>
     (\<forall>net t. storable_time t \<longrightarrow> reads (get_time W net) (put_time W net t) t) \<and>
     (\<forall>net c. reads (get_coord W net) (put_coord W net c) c) \<and>
     (\<forall>net x. reads (get_sequence W net) (put_sequence W net x) x) \<and>
     (\<forall>net x. reads (get_period W net) (put_period W net x) x) \<and>
     (\<forall>net g b v. rel_option (reads g) b v \<longrightarrow> reads (get_opt W net g) (put_opt W net b) v) \<and>
     (\<forall>net g bs vs. list_all2 (reads g) bs vs \<longrightarrow> reads (get_vec W net g) (put_vec W net bs) vs) \<and>
     (\<forall>net g n b v. reads (g n) b v \<longrightarrow> reads (get_variant W net g) (put_variant W net n b) (n, v))"

lemma wire_lib_okD:
  assumes "wire_lib_ok W"
  shows "codec_ok (numbers W)"
    "reads (get_u64 W net) (put_u64 W net w) w"
    "reads (get_int W net) (put_int W net i) i"
    "reads (get_string W net) (put_string W net s) s"
    "storable_time t \<Longrightarrow> reads (get_time W net) (put_time W net t) t"
    "reads (get_coord W net) (put_coord W net c) c"
    "reads (get_sequence W net) (put_sequence W net x) x"
    "reads (get_period W net) (put_period W net x) x"
    "rel_option (reads g) b v \<Longrightarrow> reads (get_opt W net g) (put_opt W net b) v"
    "list_all2 (reads g) bs vs \<Longrightarrow> reads (get_vec W net g) (put_vec W net bs) vs"
    "reads (h n) b' v' \<Longrightarrow> reads (get_variant W net h) (put_variant W net n b') (n, v')"
  using assms by (auto simp: wire_lib_ok_def)

section \<open>Reading back\<close>

lemma reads_as: "reads g bs v \<Longrightarrow> reads (\<lambda>buf. read_as f (g buf)) bs (f v)"
  by (simp add: reads_def read_as_def)

lemma reads_all: "list_all2 (\<lambda>g bv. reads g (fst bv) (snd bv)) gs bvs \<Longrightarrow>
    reads (read_all gs) (concat (map fst bvs)) (map snd bvs)"
  by (induction rule: list_all2_induct) (simp_all add: reads_def)

lemma reads_leaf:
  assumes "wire_lib_ok W" "leaf_ok l"
  shows "reads (read_leaf W net (kind_of l)) (write_leaf W net l) l"
proof -
  note lib = wire_lib_okD [OF assms(1)]
  note num = codec_okD [OF lib(1)]
  show ?thesis
    using assms(2)
    by (cases l) (simp_all add: reads_def read_as_def num lib(2-8)[unfolded reads_def] definition_read_back [OF lib(1)])
qed

lemma reads_value:
  assumes W: "wire_lib_ok W"
  shows "has_shape s v \<Longrightarrow> reads (read_value W net s) (write_value W net v) v"
proof (induction s arbitrary: v)
  case (S_leaf k)
  then obtain l where "v = W_leaf l" "kind_of l = k" "leaf_ok l" by (cases v) simp_all
  then show ?case using reads_as [OF reads_leaf [OF W, of l net]] by auto
next
  case (S_opt s)
  then obtain w where v: "v = W_opt w" "pred_option (has_shape s) w" by (cases v) simp_all
  have "rel_option (reads (read_value W net s)) (map_option (write_value W net) w) w"
    using v(2) S_opt.IH by (cases w) simp_all
  from reads_as [OF wire_lib_okD(9) [OF W this], of W_opt] show ?case by (simp add: v(1))
next
  case (S_vec s)
  then obtain ws where v: "v = W_vec ws" "list_all (has_shape s) ws" by (cases v) simp_all
  have "list_all2 (reads (read_value W net s)) (map (write_value W net) ws) ws"
    using v(2) S_vec.IH by (induction ws) simp_all
  from reads_as [OF wire_lib_okD(10) [OF W this], of W_vec] show ?case by (simp add: v(1))
next
  case (S_struct ss)
  then obtain ws where v: "v = W_struct ws" "list_all2 (\<lambda>p w. p w) (map has_shape ss) ws" by (cases v) simp_all
  have "list_all2 (\<lambda>g bv. reads g (fst bv) (snd bv)) (map (read_value W net) ss) (map (\<lambda>w. (write_value W net w, w)) ws)"
    using v(2) S_struct.IH
  proof (induction ss arbitrary: ws)
    case (Cons s ss)
    then show ?case by (cases ws) auto
  qed simp
  from reads_as [OF reads_all [OF this], of W_struct] show ?case by (simp add: v(1) comp_def)
next
  case (S_variant ss)
  then obtain n w where v: "v = W_variant n w" "n < length ss" "has_shape (ss ! n) w" by (cases v) auto
  let ?g = "\<lambda>n. if n < length ss then map (read_value W net) ss ! n else (\<lambda>buf. None)"
  have "reads (?g n) (write_value W net w) w"
    using v(2,3) S_variant.IH [of "ss ! n" w] by simp
  from reads_as [OF wire_lib_okD(11) [where h = ?g, OF W this], of "\<lambda>(n, v). W_variant n v"] show ?case by (simp add: v(1))
qed

section \<open>Sizes\<close>

text \<open>
  \<^verbatim>\<open>serial_size\<close> of a value, \<^verbatim>\<open>min_serial_size\<close> and \<^verbatim>\<open>max_serial_size\<close> of a type.  The library gives
  them for the types it knows (\<open>size_lib\<close>); \<open>value_size\<close>, \<open>min_size\<close> and \<open>max_size\<close> are what adding up the
  members of a \<open>wire\<close> or a \<open>shape\<close> gives, and model no function of this repository.
\<close>

record 'l size_lib =
  leaf_size :: "'l leaf \<Rightarrow> nat"
  leaf_min :: "leaf_kind \<Rightarrow> nat"
  leaf_max :: "leaf_kind \<Rightarrow> enat"
  opt_size :: "nat option \<Rightarrow> nat"
  opt_min :: "nat \<Rightarrow> nat"
  opt_max :: "enat \<Rightarrow> enat"
  vec_size :: "nat list \<Rightarrow> nat"
  vec_min :: "nat \<Rightarrow> nat"
  vec_max :: "enat \<Rightarrow> enat"
  variant_size :: "nat \<Rightarrow> nat \<Rightarrow> nat"
  variant_min :: "nat list \<Rightarrow> nat"
  variant_max :: "enat list \<Rightarrow> enat"

primrec value_size :: "'l size_lib \<Rightarrow> 'l wire \<Rightarrow> nat" where
  "value_size S (W_leaf l) = leaf_size S l"
| "value_size S (W_opt v) = opt_size S (map_option (value_size S) v)"
| "value_size S (W_vec vs) = vec_size S (map (value_size S) vs)"
| "value_size S (W_struct vs) = sum_list (map (value_size S) vs)"
| "value_size S (W_variant n v) = variant_size S n (value_size S v)"

primrec min_size :: "'l size_lib \<Rightarrow> shape \<Rightarrow> nat" where
  "min_size S (S_leaf k) = leaf_min S k"
| "min_size S (S_opt s) = opt_min S (min_size S s)"
| "min_size S (S_vec s) = vec_min S (min_size S s)"
| "min_size S (S_struct ss) = sum_list (map (min_size S) ss)"
| "min_size S (S_variant ss) = variant_min S (map (min_size S) ss)"

primrec max_size :: "'l size_lib \<Rightarrow> shape \<Rightarrow> enat" where
  "max_size S (S_leaf k) = leaf_max S k"
| "max_size S (S_opt s) = opt_max S (max_size S s)"
| "max_size S (S_vec s) = vec_max S (max_size S s)"
| "max_size S (S_struct ss) = sum_list (map (max_size S) ss)"
| "max_size S (S_variant ss) = variant_max S (map (max_size S) ss)"

text \<open>The octets of a library value are as many as its size says, in either order.\<close>

definition sizes_ok :: "'l wire_lib \<Rightarrow> 'l size_lib \<Rightarrow> bool" where
  "sizes_ok W S \<longleftrightarrow> (\<forall>net l. length (write_leaf W net l) = leaf_size S l) \<and>
     (\<forall>net b. length (put_opt W net b) = opt_size S (map_option length b)) \<and>
     (\<forall>net bs. length (put_vec W net bs) = vec_size S (map length bs)) \<and>
     (\<forall>net n b. length (put_variant W net n b) = variant_size S n (length b))"

text \<open>The limits of a library type hold if those of what it holds do.\<close>

definition limits_ok :: "'l size_lib \<Rightarrow> bool" where
  "limits_ok S \<longleftrightarrow> (\<forall>l. leaf_ok l \<longrightarrow> leaf_min S (kind_of l) \<le> leaf_size S l \<and> enat (leaf_size S l) \<le> leaf_max S (kind_of l)) \<and>
     (\<forall>a b x. pred_option (\<lambda>n. a \<le> n \<and> enat n \<le> b) x \<longrightarrow> opt_min S a \<le> opt_size S x \<and> enat (opt_size S x) \<le> opt_max S b) \<and>
     (\<forall>a b ns. list_all (\<lambda>n. a \<le> n \<and> enat n \<le> b) ns \<longrightarrow> vec_min S a \<le> vec_size S ns \<and> enat (vec_size S ns) \<le> vec_max S b) \<and>
     (\<forall>as bs i n. i < length as \<longrightarrow> length bs = length as \<longrightarrow> as ! i \<le> n \<longrightarrow> enat n \<le> bs ! i \<longrightarrow>
       variant_min S as \<le> variant_size S i n \<and> enat (variant_size S i n) \<le> variant_max S bs)"

lemma written_size:
  assumes "sizes_ok W S"
  shows "length (write_value W net v) = value_size S v"
  using assms
proof (induction v)
  case (W_opt v)
  then show ?case by (cases v) (simp_all add: sizes_ok_def)
next
  case (W_vec vs)
  then have "map (length \<circ> write_value W net) vs = map (value_size S) vs" by simp
  with W_vec.prems show ?case by (simp add: sizes_ok_def cong: map_cong)
next
  case (W_struct vs)
  then have "map (length \<circ> write_value W net) vs = map (value_size S) vs" by simp
  then show ?case by (simp add: length_concat cong: map_cong)
qed (simp_all add: sizes_ok_def)

lemma limits_variant: "limits_ok S \<Longrightarrow> i < length as \<Longrightarrow> length bs = length as \<Longrightarrow> as ! i \<le> n \<Longrightarrow> enat n \<le> bs ! i \<Longrightarrow>
    variant_min S as \<le> variant_size S i n \<and> enat (variant_size S i n) \<le> variant_max S bs"
  by (simp add: limits_ok_def)

lemma size_limits:
  assumes S: "limits_ok S"
  shows "has_shape s v \<Longrightarrow> min_size S s \<le> value_size S v \<and> enat (value_size S v) \<le> max_size S s"
proof (induction s arbitrary: v)
  case (S_leaf k)
  then show ?case using S by (cases v) (auto simp: limits_ok_def)
next
  case (S_opt s)
  then obtain w where v: "v = W_opt w" "pred_option (has_shape s) w" by (cases v) simp_all
  then have "pred_option (\<lambda>n. min_size S s \<le> n \<and> enat n \<le> max_size S s) (map_option (value_size S) w)"
    using S_opt.IH by (cases w) simp_all
  with S v(1) show ?case by (simp add: limits_ok_def)
next
  case (S_vec s)
  then obtain ws where v: "v = W_vec ws" "list_all (has_shape s) ws" by (cases v) simp_all
  then have "list_all (\<lambda>n. min_size S s \<le> n \<and> enat n \<le> max_size S s) (map (value_size S) ws)"
    using S_vec.IH by (induction ws arbitrary: v) simp_all
  with S v(1) show ?case by (simp add: limits_ok_def)
next
  case (S_struct ss)
  then obtain ws where v: "v = W_struct ws" "list_all2 (\<lambda>p w. p w) (map has_shape ss) ws" by (cases v) simp_all
  have "sum_list (map (min_size S) ss) \<le> sum_list (map (value_size S) ws) \<and>
      enat (sum_list (map (value_size S) ws)) \<le> sum_list (map (max_size S) ss)"
    using v(2) S_struct.IH
  proof (induction ss arbitrary: ws)
    case (Cons s ss)
    then obtain w ws' where w: "ws = w # ws'" "has_shape s w" "list_all2 (\<lambda>p w. p w) (map has_shape ss) ws'"
      by (cases ws) auto
    have "sum_list (map (min_size S) ss) \<le> sum_list (map (value_size S) ws') \<and>
        enat (sum_list (map (value_size S) ws')) \<le> sum_list (map (max_size S) ss)"
      by (rule Cons.IH [OF w(3)]) (use Cons.prems(2) in simp)
    moreover have "min_size S s \<le> value_size S w \<and> enat (value_size S w) \<le> max_size S s"
      using Cons.prems(2) w(2) by simp
    ultimately show ?case by (simp add: w(1) add_mono flip: plus_enat_simps(1))
  qed (simp add: zero_enat_def)
  with v(1) show ?case by simp
next
  case (S_variant ss)
  then obtain n w where v: "v = W_variant n w" "n < length ss" "has_shape (ss ! n) w" by (cases v) auto
  then have "map (min_size S) ss ! n \<le> value_size S w" "enat (value_size S w) \<le> map (max_size S) ss ! n"
    using S_variant.IH [of "ss ! n" w] by simp_all
  with limits_variant [OF S, of n "map (min_size S) ss" "map (max_size S) ss" "value_size S w"] v(1,2)
  show ?case by simp
qed

section \<open>The contract of a serialized type\<close>

definition Serialize :: "'l wire_lib \<Rightarrow> bool \<Rightarrow> ('a \<Rightarrow> 'l wire) \<Rightarrow> 'a \<Rightarrow> u8 list" where
  "Serialize W net to_wire x = write_value W net (to_wire x)"

definition Deserialize :: "'l wire_lib \<Rightarrow> bool \<Rightarrow> shape \<Rightarrow> ('l wire \<Rightarrow> 'a option) \<Rightarrow> u8 list \<Rightarrow> ('a \<times> u8 list) option" where
  "Deserialize W net s of_wire buf = do {
     (v, buf) \<leftarrow> read_value W net s buf;
     x \<leftarrow> of_wire v;
     Some (x, buf)}"

text \<open>
  The members written, the types read and the members assigned must agree: they are listed in three
  places for every structure.
\<close>

locale wire_type =
  fixes to_wire :: "'a \<Rightarrow> 'l wire" and of_wire :: "'l wire \<Rightarrow> 'a option" and shape :: shape and ok :: "'a \<Rightarrow> bool"
  assumes shaped: "ok x \<Longrightarrow> has_shape shape (to_wire x)"
    and inverse: "ok x \<Longrightarrow> of_wire (to_wire x) = Some x"
begin

lemma roundtrip:
  assumes "wire_lib_ok W" "ok x"
  shows "Deserialize W net shape of_wire (Serialize W net to_wire x @ r) = Some (x, r)"
  using reads_value [OF assms(1) shaped [OF assms(2)], of net] inverse [OF assms(2)]
  by (simp add: Deserialize_def Serialize_def reads_def)

lemma prefix_free:
  assumes "wire_lib_ok W" "ok x" "ok y" "Serialize W net to_wire x @ r = Serialize W net to_wire y @ r'"
  shows "x = y \<and> r = r'"
proof -
  have "Some (x, r) = Deserialize W net shape of_wire (Serialize W net to_wire y @ r')"
    using roundtrip [OF assms(1,2), of net r] assms(4) by (simp only:)
  also have "\<dots> = Some (y, r')" by (rule roundtrip [OF assms(1,3)])
  finally show ?thesis by simp
qed

lemma size: "sizes_ok W S \<Longrightarrow> length (Serialize W net to_wire x) = value_size S (to_wire x)"
  by (simp add: Serialize_def written_size)

lemma size_between: "limits_ok S \<Longrightarrow> ok x \<Longrightarrow>
    min_size S shape \<le> value_size S (to_wire x) \<and> enat (value_size S (to_wire x)) \<le> max_size S shape"
  by (rule size_limits) (simp_all add: shaped)

end

section \<open>Members\<close>

fun of_u8 :: "'l wire \<Rightarrow> u8 option" where
  "of_u8 (W_leaf (L_u8 b)) = Some b" | "of_u8 v = None"
fun of_u16 :: "'l wire \<Rightarrow> u16 option" where
  "of_u16 (W_leaf (L_u16 w)) = Some w" | "of_u16 v = None"
fun of_u32 :: "'l wire \<Rightarrow> u32 option" where
  "of_u32 (W_leaf (L_u32 w)) = Some w" | "of_u32 v = None"
fun of_u64 :: "'l wire \<Rightarrow> u64 option" where
  "of_u64 (W_leaf (L_u64 w)) = Some w" | "of_u64 v = None"
fun of_int32 :: "'l wire \<Rightarrow> 32 word option" where
  "of_int32 (W_leaf (L_int w)) = Some w" | "of_int32 v = None"
fun of_boolean :: "'l wire \<Rightarrow> bool option" where
  "of_boolean (W_leaf (L_bool b)) = Some b" | "of_boolean v = None"
fun of_float :: "'l wire \<Rightarrow> rat option" where
  "of_float (W_leaf (L_float x)) = Some x" | "of_float v = None"
fun of_text :: "'l wire \<Rightarrow> string option" where
  "of_text (W_leaf (L_string s)) = Some s" | "of_text v = None"
fun of_time :: "'l wire \<Rightarrow> int option" where
  "of_time (W_leaf (L_time t)) = Some t" | "of_time v = None"
fun of_coord :: "'l wire \<Rightarrow> Coord option" where
  "of_coord (W_leaf (L_coord c)) = Some c" | "of_coord v = None"
fun of_sequence :: "'l wire \<Rightarrow> 'l option" where
  "of_sequence (W_leaf (L_sequence x)) = Some x" | "of_sequence v = None"
fun of_period :: "'l wire \<Rightarrow> 'l option" where
  "of_period (W_leaf (L_period x)) = Some x" | "of_period v = None"

fun of_struct :: "'l wire \<Rightarrow> 'l wire list option" where
  "of_struct (W_struct vs) = Some vs" | "of_struct v = None"

primrec read_each :: "('b \<Rightarrow> 'a option) \<Rightarrow> 'b list \<Rightarrow> 'a list option" where
  "read_each f [] = Some []"
| "read_each f (v # vs) = do { x \<leftarrow> f v; xs \<leftarrow> read_each f vs; Some (x # xs) }"

fun of_opt :: "('l wire \<Rightarrow> 'a option) \<Rightarrow> 'l wire \<Rightarrow> 'a option option" where
  "of_opt f (W_opt v) = (case v of None \<Rightarrow> Some None | Some w \<Rightarrow> map_option Some (f w))" | "of_opt f v = None"
fun of_vec :: "('l wire \<Rightarrow> 'a option) \<Rightarrow> 'l wire \<Rightarrow> 'a list option" where
  "of_vec f (W_vec vs) = read_each f vs" | "of_vec f v = None"

definition w_opt :: "('a \<Rightarrow> 'l wire) \<Rightarrow> 'a option \<Rightarrow> 'l wire" where
  "w_opt t x = W_opt (map_option t x)"
definition w_vec :: "('a \<Rightarrow> 'l wire) \<Rightarrow> 'a list \<Rightarrow> 'l wire" where
  "w_vec t xs = W_vec (map t xs)"

definition w_u8 :: "u8 \<Rightarrow> 'l wire" where "w_u8 x = W_leaf (L_u8 x)"
definition w_u16 :: "u16 \<Rightarrow> 'l wire" where "w_u16 x = W_leaf (L_u16 x)"
definition w_u32 :: "u32 \<Rightarrow> 'l wire" where "w_u32 x = W_leaf (L_u32 x)"
definition w_u64 :: "u64 \<Rightarrow> 'l wire" where "w_u64 x = W_leaf (L_u64 x)"
definition w_int32 :: "32 word \<Rightarrow> 'l wire" where "w_int32 x = W_leaf (L_int x)"
definition w_bool :: "bool \<Rightarrow> 'l wire" where "w_bool x = W_leaf (L_bool x)"
definition w_float :: "rat \<Rightarrow> 'l wire" where "w_float x = W_leaf (L_float x)"
definition w_text :: "string \<Rightarrow> 'l wire" where "w_text x = W_leaf (L_string x)"
definition w_time :: "int \<Rightarrow> 'l wire" where "w_time x = W_leaf (L_time x)"
definition w_coord :: "Coord \<Rightarrow> 'l wire" where "w_coord x = W_leaf (L_coord x)"
definition w_sequence :: "'l \<Rightarrow> 'l wire" where "w_sequence x = W_leaf (L_sequence x)"
definition w_period :: "'l \<Rightarrow> 'l wire" where "w_period x = W_leaf (L_period x)"

text \<open>The rules under which a composed member has its type and is assigned back.\<close>

named_theorems wire_simps \<open>types and inverses of the members of structures\<close>

lemma leaf_shapes [wire_simps]:
  "has_shape (S_leaf LK_u8) (w_u8 x_u8)"
  "has_shape (S_leaf LK_u16) (w_u16 x_u16)"
  "has_shape (S_leaf LK_u32) (w_u32 x_u32)"
  "has_shape (S_leaf LK_u64) (w_u64 x_u64)"
  "has_shape (S_leaf LK_int) (w_int32 x_int32)"
  "has_shape (S_leaf LK_bool) (w_bool x_bool)"
  "has_shape (S_leaf LK_float) (w_float x_float) \<longleftrightarrow> f32 x_float = x_float"
  "has_shape (S_leaf LK_string) (w_text x_text)"
  "has_shape (S_leaf LK_time) (w_time x_time) \<longleftrightarrow> storable_time x_time"
  "has_shape (S_leaf LK_coord) (w_coord x_coord)"
  "has_shape (S_leaf LK_sequence) (w_sequence x_sequence)"
  "has_shape (S_leaf LK_period) (w_period x_period)"
  "of_u8 (w_u8 y_u8) = Some y_u8"
  "of_u16 (w_u16 y_u16) = Some y_u16"
  "of_u32 (w_u32 y_u32) = Some y_u32"
  "of_u64 (w_u64 y_u64) = Some y_u64"
  "of_int32 (w_int32 y_int32) = Some y_int32"
  "of_boolean (w_bool y_bool) = Some y_bool"
  "of_float (w_float y_float) = Some y_float"
  "of_text (w_text y_text) = Some y_text"
  "of_time (w_time y_time) = Some y_time"
  "of_coord (w_coord y_coord) = Some y_coord"
  "of_sequence (w_sequence y_sequence) = Some y_sequence"
  "of_period (w_period y_period) = Some y_period"
  by (simp_all add: w_u8_def w_u16_def w_u32_def w_u64_def w_int32_def w_bool_def w_float_def w_text_def w_time_def w_coord_def w_sequence_def w_period_def)

lemma has_shape_opt [wire_simps]: "has_shape (S_opt s) (w_opt t x) = pred_option (\<lambda>a. has_shape s (t a)) x"
  by (simp add: w_opt_def option.pred_map comp_def)

lemma has_shape_vec [wire_simps]: "has_shape (S_vec s) (w_vec t xs) = list_all (\<lambda>a. has_shape s (t a)) xs"
  by (simp add: w_vec_def list.pred_map comp_def)

lemma of_opt_w [wire_simps]: "pred_option (\<lambda>a. f (t a) = Some a) x \<Longrightarrow> of_opt f (w_opt t x) = Some x"
  by (cases x) (simp_all add: w_opt_def)

lemma of_vec_w [wire_simps]: "list_all (\<lambda>a. f (t a) = Some a) xs \<Longrightarrow> of_vec f (w_vec t xs) = Some xs"
  by (simp add: w_vec_def) (induction xs, simp_all)

declare has_shape.simps(1-3) [simp del]

text \<open>A grid is a variant over its alternatives.\<close>

definition w_grid :: "GridInfo \<Rightarrow> 'l wire" where
  "w_grid g = W_variant (variant_index g) (W_leaf (L_grid g))"

definition grid_shape :: shape where
  "grid_shape = S_variant (map (\<lambda>n. S_leaf (LK_grid n)) [0..<23])"

fun of_grid :: "'l wire \<Rightarrow> GridInfo option" where
  "of_grid (W_variant n (W_leaf (L_grid g))) = (if n = variant_index g then Some g else None)"
| "of_grid v = None"

lemma w_grid_wire [wire_simps]: "has_shape grid_shape (w_grid g) = definition_storable g" "of_grid (w_grid g) = Some g"
proof -
  have "variant_index g < 23" by (cases g) simp_all
  then show "has_shape grid_shape (w_grid g) = definition_storable g"
    by (simp add: grid_shape_def w_grid_def has_shape.simps(1) del: upt_Suc)
qed (simp add: w_grid_def)

lemma wire_type_opt:
  assumes "wire_type t f s ok"
  shows "wire_type (w_opt t) (of_opt f) (S_opt s) (pred_option ok)"
  using wire_type.shaped [OF assms] wire_type.inverse [OF assms]
  by unfold_locales
    (simp only: has_shape_opt, erule option.pred_mono_strong, simp, rule of_opt_w, erule option.pred_mono_strong, simp)

lemma wire_type_vec:
  assumes "wire_type t f s ok"
  shows "wire_type (w_vec t) (of_vec f) (S_vec s) (list_all ok)"
  using wire_type.shaped [OF assms] wire_type.inverse [OF assms]
  by unfold_locales
    (simp only: has_shape_vec, erule list.pred_mono_strong, simp, rule of_vec_w, erule list.pred_mono_strong, simp)

section \<open>A library\<close>

text \<open>
  What is relied on of the library can be met: counts in unary, a container after the number of its
  elements, a variant after its index.
\<close>

primrec read_times :: "nat \<Rightarrow> (u8 list \<Rightarrow> ('a \<times> u8 list) option) \<Rightarrow> u8 list \<Rightarrow> ('a list \<times> u8 list) option" where
  "read_times 0 g buf = Some ([], buf)"
| "read_times (Suc n) g buf = do {
     (v, buf) \<leftarrow> g buf;
     (vs, buf) \<leftarrow> read_times n g buf;
     Some (v # vs, buf)}"

definition put_int_unary :: "int \<Rightarrow> u8 list" where
  "put_int_unary i = (if i < 0 then 1 else 0) # put_unary (nat \<bar>i\<bar>)"

definition get_int_unary :: "u8 list \<Rightarrow> (int \<times> u8 list) option" where
  "get_int_unary bs = do { (s, bs) \<leftarrow> get_bit bs; (n, bs) \<leftarrow> get_unary bs; Some (if s then - int n else int n, bs) }"

definition unary_wire :: "nat wire_lib" where
  "unary_wire = \<lparr>numbers = unary_codec,
     put_u64 = (\<lambda>net w. put_unary (unat w)), get_u64 = (\<lambda>net buf. read_as of_nat (get_unary buf)),
     put_int = (\<lambda>net w. put_unary (unat w)), get_int = (\<lambda>net buf. read_as of_nat (get_unary buf)),
     put_string = (\<lambda>net s. put_unary (length s) @ concat (map (\<lambda>c. put_unary (of_char c)) s)),
     get_string = (\<lambda>net buf. do {
       (n, buf) \<leftarrow> get_unary buf;
       read_times n (\<lambda>buf. read_as char_of (get_unary buf)) buf}),
     put_time = (\<lambda>net. put_int_unary), get_time = (\<lambda>net. get_int_unary),
     put_coord = (\<lambda>net c. put_rat (pos_lat c) @ put_rat (pos_lon c)),
     get_coord = (\<lambda>net buf. do {
       (a, buf) \<leftarrow> get_rat buf;
       (b, buf) \<leftarrow> get_rat buf;
       Some (\<lparr>pos_lat = a, pos_lon = b\<rparr>, buf)}),
     put_sequence = (\<lambda>net. put_unary), get_sequence = (\<lambda>net. get_unary),
     put_period = (\<lambda>net. put_unary), get_period = (\<lambda>net. get_unary),
     put_opt = (\<lambda>net v. case v of None \<Rightarrow> [0] | Some bs \<Rightarrow> 1 # bs),
     get_opt = (\<lambda>net g buf. do {
       (b, buf) \<leftarrow> get_bit buf;
       if b then read_as Some (g buf) else Some (None, buf)}),
     put_vec = (\<lambda>net vs. put_unary (length vs) @ concat vs),
     get_vec = (\<lambda>net g buf. do { (n, buf) \<leftarrow> get_unary buf; read_times n g buf }),
     put_variant = (\<lambda>net n bs. put_unary n @ bs),
     get_variant = (\<lambda>net h buf. do {
       (n, buf) \<leftarrow> get_unary buf;
       read_as (Pair n) (h n buf)})\<rparr>"

lemma read_times_concat: "list_all2 (reads g) bs vs \<Longrightarrow> read_times (length bs) g (concat bs @ r) = Some (vs, r)"
  by (induction rule: list_all2_induct) (simp_all add: reads_def)

lemma get_int_put_unary: "get_int_unary (put_int_unary i @ r) = Some (i, r)"
  by (simp add: get_int_unary_def put_int_unary_def get_put_unary)

lemma unary_wire_ok: "wire_lib_ok unary_wire"
proof -
  have chars: "read_times (length s) (\<lambda>buf. read_as char_of (get_unary buf)) (concat (map (\<lambda>c. put_unary (of_char c)) s) @ r) =
      Some (s, r)" for s :: string and r
    by (induction s) (simp_all add: read_as_def get_put_unary)
  have opt: "reads (get_opt unary_wire net g) (put_opt unary_wire net b) v" if "rel_option (reads g) b v" for net g b v
    using that by (cases rule: option.rel_cases) (simp_all add: unary_wire_def reads_def read_as_def)
  have vec: "reads (get_vec unary_wire net g) (put_vec unary_wire net bs) vs" if "list_all2 (reads g) bs vs" for net g bs vs
    using read_times_concat [OF that] by (simp add: unary_wire_def reads_def get_put_unary)
  show ?thesis
    unfolding wire_lib_ok_def using opt vec
    by simp (simp add: unary_wire_def unary_codec_ok reads_def read_as_def get_put_unary get_put_rat
      get_int_put_unary chars [unfolded read_as_def])
qed

text \<open>Its sizes, which do not depend on the order of the octets.\<close>

lemmas grid_writers = Serialize_GridBase_LatLon_def Serialize_GridBase_Gaussian_def Serialize_GridBase_Albers_def
  Serialize_GridBase_Harmonic_def Serialize_GridBase_Lambert_def Serialize_GridBase_Mercator_def Serialize_GridBase_Polar_def
  Serialize_GridBase_SpaceView_def Serialize_GridBase_empty_def Serialize_No_additional_def Serialize_Rotation_def
  Serialize_Stretching_def Serialize_Rotation_stretching_def Serialize_ScanMode_def Serialize_ResolutionComponentFlags_def

lemma unary_writers:
  "Serialize_GridBase_LatLon unary_codec net = Serialize_GridBase_LatLon unary_codec True"
  "Serialize_GridBase_Gaussian unary_codec net = Serialize_GridBase_Gaussian unary_codec True"
  "Serialize_GridBase_Albers unary_codec net = Serialize_GridBase_Albers unary_codec True"
  "Serialize_GridBase_Harmonic unary_codec net = Serialize_GridBase_Harmonic unary_codec True"
  "Serialize_GridBase_Lambert unary_codec net = Serialize_GridBase_Lambert unary_codec True"
  "Serialize_GridBase_Mercator unary_codec net = Serialize_GridBase_Mercator unary_codec True"
  "Serialize_GridBase_Polar unary_codec net = Serialize_GridBase_Polar unary_codec True"
  "Serialize_GridBase_SpaceView unary_codec net = Serialize_GridBase_SpaceView unary_codec True"
  "Serialize_GridBase_empty unary_codec net = Serialize_GridBase_empty unary_codec True"
  "Serialize_No_additional unary_codec net = Serialize_No_additional unary_codec True"
  "Serialize_Rotation unary_codec net = Serialize_Rotation unary_codec True"
  "Serialize_Stretching unary_codec net = Serialize_Stretching unary_codec True"
  "Serialize_Rotation_stretching unary_codec net = Serialize_Rotation_stretching unary_codec True"
  by (rule ext, simp add: grid_writers unary_codec_def)+

lemma unary_leaf: "write_leaf unary_wire net l = write_leaf unary_wire True l"
proof (cases l)
  case (L_grid g)
  then show ?thesis by (cases g) (simp_all add: unary_wire_def unary_writers [of net])
qed (simp_all add: unary_wire_def unary_codec_def)

definition unary_sizes :: "nat size_lib" where
  "unary_sizes = \<lparr>leaf_size = (\<lambda>l. length (write_leaf unary_wire True l)), leaf_min = (\<lambda>k. 0), leaf_max = (\<lambda>k. \<infinity>),
     opt_size = (\<lambda>n. case n of None \<Rightarrow> 1 | Some n \<Rightarrow> n + 1), opt_min = (\<lambda>a. 1), opt_max = (\<lambda>b. b + 1),
     vec_size = (\<lambda>ns. length ns + 1 + sum_list ns), vec_min = (\<lambda>a. 1), vec_max = (\<lambda>b. \<infinity>),
     variant_size = (\<lambda>i n. i + 1 + n), variant_min = (\<lambda>as. 1), variant_max = (\<lambda>bs. enat (length bs) + sum_list bs)\<rparr>"

lemma unary_sizes_ok: "sizes_ok unary_wire unary_sizes"
proof -
  have "length (write_leaf unary_wire net l) = leaf_size unary_sizes l" for net l
    by (simp add: unary_sizes_def unary_leaf [of net])
  then show ?thesis
    by (simp add: sizes_ok_def) (simp add: unary_sizes_def unary_wire_def put_unary_def length_concat split: option.split)
qed

lemma member_le_sum: "i < length bs \<Longrightarrow> bs ! i \<le> sum_list (bs :: enat list)"
  by (rule member_le_sum_list) (simp_all add: zero_le)

lemma unary_limits_ok: "limits_ok unary_sizes"
proof -
  have opt: "enat (Suc n) \<le> b + enat 1" if "enat n \<le> b" for n b
    using add_mono [OF that order_refl, of "enat 1"] by simp
  have var: "enat (Suc (i + n)) \<le> enat m + sum_list bs" if "i < m" "length bs = m" "enat n \<le> bs ! i" for i n m bs
  proof -
    have "enat (i + 1) \<le> enat m" "enat n \<le> sum_list bs"
      using that member_le_sum [of i bs] by (simp_all add: order_trans)
    from add_mono [OF this] show ?thesis by simp
  qed
  show ?thesis
    by (auto simp: limits_ok_def unary_sizes_def one_enat_def opt var split: option.split intro: opt [simplified])
qed

section \<open>Properties\<close>

text \<open>
  The size that is computed for a value before it is written is the number of octets
  that are written, and lies between the sizes computed from its type alone, if this holds of the
  library's types.  Theory \<open>Search_Sizes\<close> applies it to the lists of members of a search.
\<close>

theorem serial_size_between:
  assumes "sizes_ok W S" "limits_ok S" "has_shape s v"
  shows "length (write_value W net v) = value_size S v \<and> min_size S s \<le> value_size S v \<and>
    enat (value_size S v) \<le> max_size S s"
  using written_size [OF assms(1)] size_limits [OF assms(2,3)] by simp

theorem serial_size_between_witness:
  "length (write_value unary_wire False (W_struct [w_u8 3, w_opt w_bool None])) =
     value_size unary_sizes (W_struct [w_u8 3, w_opt w_bool None]) \<and>
   min_size unary_sizes (S_struct [S_leaf LK_u8, S_opt (S_leaf LK_bool)]) \<le>
     value_size unary_sizes (W_struct [w_u8 3, w_opt w_bool None]) \<and>
   enat (value_size unary_sizes (W_struct [w_u8 3, w_opt w_bool None])) \<le>
     max_size unary_sizes (S_struct [S_leaf LK_u8, S_opt (S_leaf LK_bool)])"
  by (rule serial_size_between [OF unary_sizes_ok unary_limits_ok]) (simp add: wire_simps)

end
