(* ===== verification/Common_Data.thy ===== *)
theory Common_Data
  imports Levels Time_Forecast
begin

text \<open>
  The keys of the index: the common properties of a field (\<^verbatim>\<open>include/data/common_data_properties.h\<close>)
  and the parameter with its table version that a search names (\<^verbatim>\<open>paramtablev.h\<close>), with their
  equality, hash and order, and the laws that the containers of the standard library ask of a key.
\<close>

section \<open>What a container asks of its key\<close>

text \<open>
  \<^verbatim>\<open>std::unordered_map\<close> needs an equivalence whose classes have one hash; \<^verbatim>\<open>std::map\<close> and \<^verbatim>\<open>std::set\<close>
  need a strict weak order, and take for equal what the order does not separate.
\<close>

locale hash_key =
  fixes key_eq :: "'a \<Rightarrow> 'a \<Rightarrow> bool" and key_hash :: "'a \<Rightarrow> u64"
  assumes key_eq_refl: "key_eq a a"
    and key_eq_sym: "key_eq a b \<Longrightarrow> key_eq b a"
    and key_eq_trans: "key_eq a b \<Longrightarrow> key_eq b c \<Longrightarrow> key_eq a c"
    and key_hash_cong: "key_eq a b \<Longrightarrow> key_hash a = key_hash b"
begin

lemma different_hash: "key_hash a \<noteq> key_hash b \<Longrightarrow> \<not> key_eq a b"
  using key_hash_cong by blast

lemma key_eq_class: "key_eq a b \<Longrightarrow> key_eq a c \<longleftrightarrow> key_eq b c"
  using key_eq_sym key_eq_trans by blast

text \<open>Looking in the bucket of the hash finds what looking everywhere finds.\<close>

lemma bucket_find: "find (key_eq k) (filter (\<lambda>x. key_hash x = key_hash k) xs) = find (key_eq k) xs"
  by (induction xs) (auto dest: different_hash [OF not_sym])

end

locale strict_weak_order =
  fixes lt :: "'a \<Rightarrow> 'a \<Rightarrow> bool"
  assumes lt_irrefl: "\<not> lt a a"
    and lt_trans: "lt a b \<Longrightarrow> lt b c \<Longrightarrow> lt a c"
    and incomparable_trans: "\<not> lt a b \<Longrightarrow> \<not> lt b a \<Longrightarrow> \<not> lt b c \<Longrightarrow> \<not> lt c b \<Longrightarrow> \<not> lt a c"
begin

lemma lt_asym: "lt a b \<Longrightarrow> \<not> lt b a"
  using lt_irrefl lt_trans by blast

lemma negatively_transitive: "lt a c \<Longrightarrow> lt a b \<or> lt b c"
  using incomparable_trans lt_trans by blast

lemma incomparable_equiv:
  "\<not> lt a b \<and> \<not> lt b a \<Longrightarrow> (lt a c \<longleftrightarrow> lt b c) \<and> (lt c a \<longleftrightarrow> lt c b)"
  using negatively_transitive by blast

end

text \<open>An order through a number is always strict and weak.\<close>

lemma strict_weak_order_measure: "strict_weak_order (\<lambda>a b. f a < (f b :: 'b :: linorder))"
  by unfold_locales auto

section \<open>CommonDataProperties\<close>

text \<open>\<^verbatim>\<open>Organization\<close> is an enumeration over \<^verbatim>\<open>uint8_t\<close>.\<close>

record CommonDataProperties =
  cmn_center :: "u8 option"
  cmn_table_version :: "u8 option"
  cmn_parameter :: "u8 option"

definition make_CommonDataProperties :: "u8 option \<Rightarrow> u8 option \<Rightarrow> u8 option \<Rightarrow> CommonDataProperties" where
  "make_CommonDataProperties center table_version parameter =
     \<lparr>cmn_center = center, cmn_table_version = table_version, cmn_parameter = parameter\<rparr>"

definition CommonDataProperties_eq :: "CommonDataProperties \<Rightarrow> CommonDataProperties \<Rightarrow> bool" where
  "CommonDataProperties_eq a b \<longleftrightarrow> cmn_center a = cmn_center b \<and>
     cmn_table_version a = cmn_table_version b \<and> cmn_parameter a = cmn_parameter b"

text \<open>The two branches for each member: its value, or the largest value of its type, shifted.\<close>

definition hash_octet :: "nat \<Rightarrow> u8 option \<Rightarrow> u64" where
  "hash_octet n c = (case c of Some b \<Rightarrow> push_bit n (ucast b) | None \<Rightarrow> push_bit n (ucast (255 :: u8)))"

definition CommonDataProperties_hash :: "CommonDataProperties \<Rightarrow> u64" where
  "CommonDataProperties_hash p = (let hash = 0;
     hash = hash OR hash_octet 56 (cmn_center p);
     hash = hash OR hash_octet 48 (cmn_table_version p);
     hash = hash OR hash_octet 40 (cmn_parameter p)
     in hash)"

definition CommonDataProperties_less :: "CommonDataProperties \<Rightarrow> CommonDataProperties \<Rightarrow> bool" where
  "CommonDataProperties_less a b \<longleftrightarrow> CommonDataProperties_hash a < CommonDataProperties_hash b"

definition CommonDataProperties_greater :: "CommonDataProperties \<Rightarrow> CommonDataProperties \<Rightarrow> bool" where
  "CommonDataProperties_greater a b \<longleftrightarrow> CommonDataProperties_hash a > CommonDataProperties_hash b"

text \<open>
  The comparisons with a shared pointer; \<^term>\<open>None\<close> as a pointer is the null pointer, as a result
  the undefined access through it.
\<close>

definition CommonDataProperties_less_ptr :: "CommonDataProperties \<Rightarrow> CommonDataProperties option \<Rightarrow> bool" where
  "CommonDataProperties_less_ptr a other = (case other of
     Some b \<Rightarrow> CommonDataProperties_hash a < CommonDataProperties_hash b | None \<Rightarrow> True)"

definition CommonDataProperties_greater_ptr :: "CommonDataProperties \<Rightarrow> CommonDataProperties option \<Rightarrow> bool" where
  "CommonDataProperties_greater_ptr a other = (case other of
     Some b \<Rightarrow> CommonDataProperties_hash a > CommonDataProperties_hash b | None \<Rightarrow> False)"

definition less_value_ptr :: "CommonDataProperties \<Rightarrow> CommonDataProperties option \<Rightarrow> bool option" where
  "less_value_ptr lhs rhs = map_option (\<lambda>r. CommonDataProperties_less lhs r) rhs"

definition less_ptr_value :: "CommonDataProperties option \<Rightarrow> CommonDataProperties \<Rightarrow> bool option" where
  "less_ptr_value lhs rhs = map_option (\<lambda>l. CommonDataProperties_greater rhs l) lhs"

definition less_ptr_ptr :: "CommonDataProperties option \<Rightarrow> CommonDataProperties option \<Rightarrow> bool option" where
  "less_ptr_ptr lhs rhs = (case lhs of
       Some l \<Rightarrow> map_option (\<lambda>r. CommonDataProperties_less l r) rhs
     | None \<Rightarrow> Some True)"

text \<open>The comparisons of shared pointers follow both; those of weak pointers test for expiry first.\<close>

definition equal_shared :: "CommonDataProperties option \<Rightarrow> CommonDataProperties option \<Rightarrow> bool option" where
  "equal_shared lhs rhs = do { l \<leftarrow> lhs; r \<leftarrow> rhs; Some (CommonDataProperties_eq l r) }"

definition equal_weak_shared :: "CommonDataProperties option \<Rightarrow> CommonDataProperties option \<Rightarrow> bool option" where
  "equal_weak_shared lhs rhs = (case lhs of None \<Rightarrow> Some False
     | Some l \<Rightarrow> map_option (CommonDataProperties_eq l) rhs)"

definition equal_shared_weak :: "CommonDataProperties option \<Rightarrow> CommonDataProperties option \<Rightarrow> bool option" where
  "equal_shared_weak lhs rhs = (case rhs of None \<Rightarrow> Some False
     | Some r \<Rightarrow> map_option (\<lambda>l. CommonDataProperties_eq l r) lhs)"

definition equal_weak_weak :: "CommonDataProperties option \<Rightarrow> CommonDataProperties option \<Rightarrow> bool" where
  "equal_weak_weak lhs rhs = (case (lhs, rhs) of
     (Some l, Some r) \<Rightarrow> CommonDataProperties_eq l r | _ \<Rightarrow> False)"

section \<open>SearchParamTableVersion\<close>

record SearchParamTableVersion =
  sp_param :: u8
  sp_t_ver :: u8

definition SearchParamTableVersion_eq :: "SearchParamTableVersion \<Rightarrow> SearchParamTableVersion \<Rightarrow> bool" where
  "SearchParamTableVersion_eq a b \<longleftrightarrow> sp_param a = sp_param b \<and> sp_t_ver a = sp_t_ver b"

definition SearchParamTableVersion_less :: "SearchParamTableVersion \<Rightarrow> SearchParamTableVersion \<Rightarrow> bool" where
  "SearchParamTableVersion_less a b \<longleftrightarrow> (if sp_t_ver a \<noteq> sp_t_ver b then sp_t_ver a < sp_t_ver b
     else sp_param a < sp_param b)"

definition SearchParamTableVersion_hash :: "SearchParamTableVersion \<Rightarrow> u64" where
  "SearchParamTableVersion_hash v = push_bit 8 (ucast (sp_param v)) OR ucast (sp_t_ver v)"

section \<open>The values of the hashes\<close>

text \<open>The octet that stands for an optional octet in the hash.\<close>

definition octet_or_max :: "u8 option \<Rightarrow> nat" where
  "octet_or_max c = (case c of Some b \<Rightarrow> unat b | None \<Rightarrow> 255)"

definition cmn_octets :: "CommonDataProperties \<Rightarrow> nat \<times> nat \<times> nat" where
  "cmn_octets p = (octet_or_max (cmn_center p), octet_or_max (cmn_table_version p), octet_or_max (cmn_parameter p))"

lemma octet_or_max_le: "octet_or_max c \<le> 255"
  by (simp add: octet_or_max_def unat_u8_le split: option.split)

text \<open>Numbers written in digits of a base compare digit by digit.\<close>

lemma digits_less:
  assumes "y < B" "y' < (B :: nat)"
  shows "x * B + y < x' * B + y' \<longleftrightarrow> x < x' \<or> x = x' \<and> y < y'"
proof (cases x x' rule: linorder_cases)
  case less
  then have "(x + 1) * B \<le> x' * B" by (intro mult_le_mono1) simp
  then show ?thesis using less assms by simp
next
  case greater
  then have "(x' + 1) * B \<le> x * B" by (intro mult_le_mono1) simp
  then show ?thesis using greater assms by simp
qed simp

lemma digits_eq: "y < B \<Longrightarrow> y' < (B :: nat) \<Longrightarrow> x * B + y = x' * B + y' \<longleftrightarrow> x = x' \<and> y = y'"
  using digits_less [of y B y' x x'] digits_less [of y' B y x' x] by (metis linorder_less_linear order_less_irrefl)

lemma push_bit_octet:
  assumes "n \<le> 56"
  shows "unat (push_bit n (ucast (b :: u8)) :: u64) = push_bit n (unat b)"
proof -
  have "unat b * 2 ^ n < 2 ^ 8 * 2 ^ n" using unat_u8_less [of b] by simp
  also have "\<dots> \<le> 2 ^ 64" using assms power_increasing [of "8 + n" 64 "2 :: nat"] by (simp add: power_add)
  finally have "take_bit 64 (push_bit n (unat b)) = push_bit n (unat b)"
    by (intro take_bit_nat_eq_self) (simp add: push_bit_eq_mult)
  then show ?thesis by (simp add: unsigned_push_bit_eq unsigned_ucast_eq take_bit_u8)
qed

lemma or_fields:
  assumes "b < 256" "c < 256"
  shows "push_bit 56 (a :: nat) OR push_bit 48 b OR push_bit 40 c = (a * 65536 + b * 256 + c) * 2 ^ 40"
proof -
  have "push_bit 8 b OR c = b * 256 + c"
    using push_bit_or_nat [of c 8 b] assms(2) by simp
  moreover have "push_bit 16 a OR (b * 256 + c) = a * 65536 + (b * 256 + c)"
    using push_bit_or_nat [of "b * 256 + c" 16 a] assms by simp
  moreover have "push_bit 56 a = push_bit 40 (push_bit 16 a)" "push_bit 48 b = push_bit 40 (push_bit 8 b)"
    by (simp_all add: push_bit_push_bit)
  ultimately have "push_bit 56 a OR (push_bit 48 b OR push_bit 40 c) = push_bit 40 (a * 65536 + (b * 256 + c))"
    by (simp only: push_bit_or [symmetric])
  then show ?thesis by (simp add: push_bit_eq_mult or.assoc)
qed

lemma hash_octet_value: "n \<le> 56 \<Longrightarrow> unat (hash_octet n c) = push_bit n (octet_or_max c)"
  using push_bit_octet [of n] push_bit_octet [of n 255]
  by (simp add: octet_or_max_def hash_octet_def split: option.split)

lemma CommonDataProperties_hash_value:
  "unat (CommonDataProperties_hash p) = ((octet_or_max (cmn_center p) * 256 +
     octet_or_max (cmn_table_version p)) * 256 + octet_or_max (cmn_parameter p)) * 2 ^ 40"
proof -
  show ?thesis
    using or_fields [of "octet_or_max (cmn_table_version p)" "octet_or_max (cmn_parameter p)" "octet_or_max (cmn_center p)"]
      octet_or_max_le [of "cmn_table_version p"] octet_or_max_le [of "cmn_parameter p"]
    by (simp add: CommonDataProperties_hash_def Let_def unsigned_or_eq hash_octet_value or.assoc)
qed

lemma octet_or_max_less: "octet_or_max c < 256"
  using octet_or_max_le [of c] by simp

lemma octet_or_max_inj: "None \<noteq> c \<Longrightarrow> None \<noteq> d \<Longrightarrow> octet_or_max c = octet_or_max d \<longleftrightarrow> c = d"
  by (cases c; cases d) (simp_all add: octet_or_max_def word_unat_eq_iff)

lemma CommonDataProperties_hash_eq_iff:
  "CommonDataProperties_hash a = CommonDataProperties_hash b \<longleftrightarrow> cmn_octets a = cmn_octets b"
proof -
  have "CommonDataProperties_hash a = CommonDataProperties_hash b \<longleftrightarrow>
    (octet_or_max (cmn_center a) * 256 + octet_or_max (cmn_table_version a)) * 256 + octet_or_max (cmn_parameter a) =
    (octet_or_max (cmn_center b) * 256 + octet_or_max (cmn_table_version b)) * 256 + octet_or_max (cmn_parameter b)"
    unfolding word_unat_eq_iff CommonDataProperties_hash_value by (rule mult_cancel2 [THEN trans]) simp
  then show ?thesis by (simp only: digits_eq octet_or_max_less cmn_octets_def prod.inject conj_assoc)
qed

lemma CommonDataProperties_less_octets:
  "CommonDataProperties_less a b \<longleftrightarrow>
    (case (cmn_octets a, cmn_octets b) of ((c, t, p), (c', t', p')) \<Rightarrow>
       c < c' \<or> c = c' \<and> (t < t' \<or> t = t' \<and> p < p'))"
proof -
  have "CommonDataProperties_less a b \<longleftrightarrow>
    (octet_or_max (cmn_center a) * 256 + octet_or_max (cmn_table_version a)) * 256 + octet_or_max (cmn_parameter a) <
    (octet_or_max (cmn_center b) * 256 + octet_or_max (cmn_table_version b)) * 256 + octet_or_max (cmn_parameter b)"
    unfolding CommonDataProperties_less_def word_less_nat_alt CommonDataProperties_hash_value
    by (rule mult_less_cancel2 [THEN trans]) simp
  then show ?thesis
    by (simp only: digits_less digits_eq octet_or_max_less cmn_octets_def prod.case) blast
qed

lemma SearchParamTableVersion_hash_value:
  "unat (SearchParamTableVersion_hash v) = unat (sp_param v) * 256 + unat (sp_t_ver v)"
  using push_bit_octet [of 8 "sp_param v"] push_bit_or_nat [of "unat (sp_t_ver v)" 8 "unat (sp_param v)"]
  by (simp add: SearchParamTableVersion_hash_def unsigned_or_eq unsigned_ucast_eq take_bit_u8)

lemma SearchParamTableVersion_hash_inj:
  "SearchParamTableVersion_hash a = SearchParamTableVersion_hash b \<longleftrightarrow> SearchParamTableVersion_eq a b"
  unfolding word_unat_eq_iff SearchParamTableVersion_hash_value SearchParamTableVersion_eq_def
  by (rule digits_eq [OF unat_u8_less unat_u8_less])

lemma CommonDataProperties_eq_iff: "CommonDataProperties_eq a b \<longleftrightarrow> a = b"
  by (cases a; cases b) (simp add: CommonDataProperties_eq_def)

lemma SearchParamTableVersion_eq_iff: "SearchParamTableVersion_eq a b \<longleftrightarrow> a = b"
  by (cases a; cases b) (simp add: SearchParamTableVersion_eq_def)

lemma TimeForecast_eq_iff: "TimeForecast_eq a b \<longleftrightarrow> a = b"
  by (cases a; cases b) (simp add: TimeForecast_eq_def)

lemma Level_eq_iff: "Level_eq a b \<longleftrightarrow> a = b"
  by (cases a; cases b) (auto simp: Level_eq_def)

section \<open>The keys keep the laws\<close>

interpretation cmn_key: hash_key CommonDataProperties_eq CommonDataProperties_hash
  by unfold_locales (simp_all add: CommonDataProperties_eq_iff)

interpretation param_key: hash_key SearchParamTableVersion_eq SearchParamTableVersion_hash
  by unfold_locales (simp_all add: SearchParamTableVersion_eq_iff)

interpretation level_key: hash_key Level_eq hash_Level
  by unfold_locales (simp_all add: Level_eq_iff)

interpretation fcst_key: hash_key TimeForecast_eq "hash_TimeForecast hash_combine" for hash_combine
  by unfold_locales (simp_all add: TimeForecast_eq_iff)

interpretation cmn_order: strict_weak_order CommonDataProperties_less
  unfolding CommonDataProperties_less_def [abs_def] by (rule strict_weak_order_measure)

lemma SearchParamTableVersion_less_measure:
  "SearchParamTableVersion_less = (\<lambda>a b. unat (sp_t_ver a) * 256 + unat (sp_param a) < unat (sp_t_ver b) * 256 + unat (sp_param b))"
proof (intro ext)
  fix a b
  show "SearchParamTableVersion_less a b \<longleftrightarrow>
      unat (sp_t_ver a) * 256 + unat (sp_param a) < unat (sp_t_ver b) * 256 + unat (sp_param b)"
    unfolding digits_less [OF unat_u8_less unat_u8_less] SearchParamTableVersion_less_def
      word_less_nat_alt word_unat_eq_iff by auto
qed

interpretation param_order: strict_weak_order SearchParamTableVersion_less
  unfolding SearchParamTableVersion_less_measure by (rule strict_weak_order_measure)

section \<open>Properties\<close>

text \<open>
  The hash and the order of the common properties.  The order is lexicographic in centre, table
  version and parameter, an absent member counting as 255; it does not separate two keys exactly if
  their hashes agree, which unequal keys do when one has a member absent and the other has 255.
\<close>

theorem common_data_order:
  "(CommonDataProperties_less a b \<longleftrightarrow>
     (case (cmn_octets a, cmn_octets b) of ((c, t, p), (c', t', p')) \<Rightarrow>
       c < c' \<or> c = c' \<and> (t < t' \<or> t = t' \<and> p < p'))) \<and>
   (CommonDataProperties_hash a = CommonDataProperties_hash b \<longleftrightarrow> cmn_octets a = cmn_octets b) \<and>
   (CommonDataProperties_hash a = CommonDataProperties_hash b \<longleftrightarrow>
     CommonDataProperties_less a b = CommonDataProperties_less b a) \<and>
   (None \<notin> {cmn_center a, cmn_table_version a, cmn_parameter a, cmn_center b, cmn_table_version b, cmn_parameter b} \<longrightarrow>
     (CommonDataProperties_hash a = CommonDataProperties_hash b \<longleftrightarrow> CommonDataProperties_eq a b))"
proof (intro conjI impI)
  show "CommonDataProperties_hash a = CommonDataProperties_hash b \<longleftrightarrow>
     CommonDataProperties_less a b = CommonDataProperties_less b a"
    unfolding CommonDataProperties_less_def by (cases rule: linorder_cases) auto
  assume "None \<notin> {cmn_center a, cmn_table_version a, cmn_parameter a, cmn_center b, cmn_table_version b, cmn_parameter b}"
  then show "CommonDataProperties_hash a = CommonDataProperties_hash b \<longleftrightarrow> CommonDataProperties_eq a b"
    unfolding CommonDataProperties_hash_eq_iff cmn_octets_def CommonDataProperties_eq_def
    by (simp add: octet_or_max_inj)
qed (rule CommonDataProperties_less_octets CommonDataProperties_hash_eq_iff)+

theorem common_data_order_witness:
  "CommonDataProperties_hash (make_CommonDataProperties (Some 98) (Some 128) (Some 11)) \<noteq>
     CommonDataProperties_hash (make_CommonDataProperties (Some 98) (Some 128) (Some 12)) \<and>
   CommonDataProperties_hash (make_CommonDataProperties (Some 98) (Some 128) None) =
     CommonDataProperties_hash (make_CommonDataProperties (Some 98) (Some 128) (Some 255))"
  using common_data_order [of "make_CommonDataProperties (Some 98) (Some 128) (Some 11)"
      "make_CommonDataProperties (Some 98) (Some 128) (Some 12)"]
    common_data_order [of "make_CommonDataProperties (Some 98) (Some 128) None"
      "make_CommonDataProperties (Some 98) (Some 128) (Some 255)"]
  by (simp add: make_CommonDataProperties_def CommonDataProperties_eq_def cmn_octets_def octet_or_max_def)

end
