(* ===== verification/Indexing.thy ===== *)
theory Indexing
  imports Message Grid Common_Data
begin

text \<open>
  Indexing a file: the loops that visit the messages of a file, the description of a message
  (\<^verbatim>\<open>include/data/msg.h\<close>) and \<^verbatim>\<open>process_file\<close> of \<^verbatim>\<open>src/proc/index.cpp\<close>.
\<close>

section \<open>The reference time\<close>

text \<open>
  \<^verbatim>\<open>ProductDefinitionSection::reference_time\<close> as nanoseconds since the epoch of the system clock.
  \<^verbatim>\<open>sys_days\<close> counts from the first of the month, so a day past the end of the month runs on; its
  value is unspecified for a year or a month out of range.  The conversion from seconds to the
  nanoseconds of the clock overflows a signed number of 64 bits outside the years 1677 to 2262.
\<close>

definition sys_days :: "int \<Rightarrow> int \<Rightarrow> int \<Rightarrow> int option" where
  "sys_days y m d = (if - 32767 \<le> y \<and> y \<le> 32767 \<and> 1 \<le> m \<and> m \<le> 12
     then Some (day_number y m 1 + (d - 1) - day_number 1970 1 1) else None)"

definition to_system_clock :: "int \<Rightarrow> int option" where
  "to_system_clock s = (let n = s * 10 ^ 9 in if - (2 ^ 63) \<le> n \<and> n < 2 ^ 63 then Some n else None)"

definition reference_time :: "cptr \<Rightarrow> int option" where
  "reference_time b = do {
     y \<leftarrow> year b;
     mo \<leftarrow> month b;
     d \<leftarrow> day b;
     days \<leftarrow> sys_days (int (unat y)) (int (unat mo)) (int (unat d));
     h \<leftarrow> hour b;
     mi \<leftarrow> minute b;
     to_system_clock (86400 * days + 60 * (60 * int (unat h) + int (unat mi)))}"

section \<open>The description of a message\<close>

record GribMsgDataInfo =
  grid_data :: GridInfo
  date :: int
  buf_pos :: int
  t_unit :: TimeForecast
  info_center :: u8
  info_level :: Level
  msg_sz :: u32
  info_parameter :: u8
  info_table_version :: u8
  info_err :: "grib_error option"

definition make_GribMsgDataInfo ::
    "GridInfo \<Rightarrow> int \<Rightarrow> int \<Rightarrow> u32 \<Rightarrow> u8 \<Rightarrow> TimeForecast \<Rightarrow> u8 \<Rightarrow> u8 \<Rightarrow> Level \<Rightarrow> grib_error option \<Rightarrow> GribMsgDataInfo" where
  "make_GribMsgDataInfo grid d msg_buf_pos msg_size p unit c v lvl er =
     \<lparr>grid_data = grid, date = d, buf_pos = msg_buf_pos, t_unit = unit, info_center = c,
       info_level = lvl, msg_sz = msg_size, info_parameter = p, info_table_version = v, info_err = er\<rparr>"

text \<open>
  The arguments that the loops read from the message the reader stands on; the grid comes first and
  is read differently by its callers.  \<^verbatim>\<open>err_\<close> is copied without a look at it.
\<close>

definition read_info :: "osterlib \<Rightarrow> HGrib1 \<Rightarrow> Message \<Rightarrow> GridInfo \<Rightarrow> GribMsgDataInfo option" where
  "read_info L g m grid = do {
     t \<leftarrow> reference_time (section_1 m);
     len \<leftarrow> current_message_length L g;
     len \<leftarrow> len;
     p \<leftarrow> parameter_number (section_1 m);
     f \<leftarrow> time_forecast L (section_1 m);
     c \<leftarrow> center (section_1 m);
     v \<leftarrow> table_version (section_1 m);
     l \<leftarrow> level_data (section_1 m);
     Some (make_GribMsgDataInfo grid t (int (current_message_position g)) (of_nat len) p f c v l (err m))}"

section \<open>Visiting the messages\<close>

text \<open>
  \<^verbatim>\<open>do { body } while (next_message());\<close>.  The body changes the reader and the state of the caller,
  or returns from it (\<^term>\<open>Inl\<close>).  A loop that does not end has no result, which is \<^term>\<open>None\<close> as for
  undefined behaviour.
\<close>

partial_function (option) each_message ::
    "osterlib \<Rightarrow> (HGrib1 \<Rightarrow> 's \<Rightarrow> ('r + HGrib1 \<times> 's) option) \<Rightarrow> HGrib1 \<Rightarrow> 's \<Rightarrow> ('r + 's) option" where
  "each_message L body g s = do {
     r \<leftarrow> body g s;
     (case r of
        Inl x \<Rightarrow> Some (Inl x)
      | Inr gs \<Rightarrow> do {
          n \<leftarrow> next_message L (fst gs);
          if fst n then each_message L body (snd n) (snd gs) else Some (Inr (snd gs))})}"

text \<open>
  The loop of \<^verbatim>\<open>process_file\<close>.  The grid is read from section 2 whether the message has one or not.
\<close>

definition process_message :: "osterlib \<Rightarrow> HGrib1 \<Rightarrow> GribMsgDataInfo list \<Rightarrow>
    (unit + HGrib1 \<times> GribMsgDataInfo list) option" where
  "process_message L g grib_msgs = (case msg g of
       None \<Rightarrow> Some (Inr (g, grib_msgs))
     | Some m \<Rightarrow> do {
         grid \<leftarrow> define_grid L (section_2 m);
         info \<leftarrow> read_info L g m grid;
         Some (Inr (g, grib_msgs @ [info]))})"

definition process_file :: "osterlib \<Rightarrow> HGrib1 \<Rightarrow> GribMsgDataInfo list option" where
  "process_file L g = do {
     r \<leftarrow> each_message L (process_message L) g [];
     (case r of Inl x \<Rightarrow> None | Inr grib_msgs \<Rightarrow> Some grib_msgs)}"

text \<open>\<^verbatim>\<open>Index::__index_file__\<close>: the error of opening is recorded and no message returned.\<close>

definition index_file :: "osterlib \<Rightarrow> buffer option \<Rightarrow> (grib_error option \<times> GribMsgDataInfo list) option" where
  "index_file L file = do {
     (e, grib) \<leftarrow> open_grib L file;
     if e \<noteq> NONE_ERR then Some (Some OPEN_ERROR_X1, [])
     else map_option (Pair None) (process_file L grib)}"

section \<open>Facts about the loop\<close>

lemma each_message_step:
  assumes "body g s = Some (Inr (g', s'))" "next_message L g' = Some (True, g'')"
  shows "each_message L body g s = each_message L body g'' s'"
  by (subst each_message.simps) (simp add: assms)

lemma each_message_last:
  assumes "body g s = Some (Inr (g', s'))" "next_message L g' = Some (False, g'')"
  shows "each_message L body g s = Some (Inr s')"
  by (subst each_message.simps) (simp add: assms)

lemma each_message_undefined: "body g s = None \<Longrightarrow> each_message L body g s = None"
  by (subst each_message.simps) simp

lemma each_message_return: "body g s = Some (Inl r) \<Longrightarrow> each_message L body g s = Some (Inl r)"
  by (subst each_message.simps) simp

text \<open>On a file of valid messages the loop is a fold over the messages.\<close>

lemma each_message_file:
  assumes L: "lib_ok L" and valid: "\<forall>m\<in>set ms. valid_message m" and k: "k < length ms"
    and body: "\<And>i s. k \<le> i \<Longrightarrow> i < length ms \<Longrightarrow> body (reader_at L ms i) s = Some (Inr (reader_at L ms i, step i s))"
  shows "each_message L body (reader_at L ms k) s = Some (Inr (fold step [k..<length ms] s))"
  using k body
proof (induction "length ms - k" arbitrary: k s)
  case (Suc n)
  note step = next_message_reader [OF L valid Suc.prems(1)]
  have here: "body (reader_at L ms k) s = Some (Inr (reader_at L ms k, step k s))"
    by (rule Suc.prems(2) [OF order_refl Suc.prems(1)])
  show ?case
  proof (cases "k + 1 < length ms")
    case True
    have "each_message L body (reader_at L ms k) s = each_message L body (reader_at L ms (k + 1)) (step k s)"
      using step True by (intro each_message_step [where body = body and s = s, OF here]) simp
    moreover have "n = length ms - (k + 1)" using Suc.hyps(2) by simp
    ultimately show ?thesis
      using Suc.hyps(1) [of "k + 1"] Suc.prems(2) True by (simp add: upt_conv_Cons)
  next
    case False
    then show ?thesis
      using step Suc.prems(1) by (simp add: each_message_last [where body = body and s = s, OF here] upt_conv_Cons)
  qed
qed simp

text \<open>A body that keeps the reader, whatever the state, on a message that is its own successor never ends.\<close>

lemma each_message_result:
  assumes "each_message L body h s = Some r"
  shows "(\<forall>s. \<exists>s'. body g s = Some (Inr (g, s'))) \<longrightarrow> next_message L g = Some (True, g) \<longrightarrow> h \<noteq> g"
proof (rule each_message.raw_induct [where P = "\<lambda>L body h s r. (\<forall>s. \<exists>s'. body g s = Some (Inr (g, s'))) \<longrightarrow>
    next_message L g = Some (True, g) \<longrightarrow> h \<noteq> g", OF _ assms], intro impI notI)
  fix em L body h s r
  assume IH: "\<And>body h s L r. em body h s L = Some r \<Longrightarrow>
      (\<forall>s. \<exists>s'. h g s = Some (Inr (g, s'))) \<longrightarrow> next_message body g = Some (True, g) \<longrightarrow> s \<noteq> g"
    and step: "body h s \<bind> (\<lambda>r. case r of Inl x \<Rightarrow> Some (Inl x)
      | Inr gs \<Rightarrow> next_message L (fst gs) \<bind>
          (\<lambda>n. if fst n then em L body (snd n) (snd gs) else Some (Inr (snd gs)))) = Some r"
    and keeps: "\<forall>s. \<exists>s'. body g s = Some (Inr (g, s'))" and same: "next_message L g = Some (True, g)" and h: "h = g"
  obtain s' where "body g s = Some (Inr (g, s'))" using keeps by blast
  then have "em L body g s' = Some r" using step same by (simp add: h)
  from IH [OF this] keeps same show False by simp
qed

lemma each_message_endless:
  "\<forall>s. \<exists>s'. body g s = Some (Inr (g, s')) \<Longrightarrow> next_message L g = Some (True, g) \<Longrightarrow> each_message L body g s = None"
  using each_message_result [of L body g s _ g] by (cases "each_message L body g s") auto

section \<open>Facts about the description\<close>

text \<open>The reference time of a section with a valid date, in nanoseconds since 1970.\<close>

definition reference_ns :: "buffer \<Rightarrow> int" where
  "reference_ns b = ((hour_number (reference_date b) -
     hour_number \<lparr>ct_year = 1970, ct_month = 1, ct_day = 1, ct_hour = 0\<rparr>) * 60 + int (unat (b ! 16))) * 60 * 10 ^ 9"

lemma epoch_hour: "hour_number \<lparr>ct_year = 1970, ct_month = 1, ct_day = 1, ct_hour = 0\<rparr> = 24 * day_number 1970 1 1"
  by (simp add: hour_number_def)

lemma day_number_range:
  assumes "valid_time t" "1678 \<le> ct_year t" "ct_year t \<le> 2261"
  shows "-106651 \<le> day_number (ct_year t) (ct_month t) (ct_day t) - day_number 1970 1 1"
    "day_number (ct_year t) (ct_month t) (ct_day t) - day_number 1970 1 1 \<le> 106651"
proof -
  note day_of_year_bounds [of "ct_month t" "ct_day t" "ct_year t"]
  moreover have "year_start 1678 \<le> year_start (ct_year t)" "year_start (ct_year t + 1) \<le> year_start 2262"
    using year_start_mono [OF assms(2)] year_start_mono [of "ct_year t + 1" 2262] assms(2,3) by simp_all
  moreover have "year_start 1678 = 612877" "year_start 2262 = 826178" "day_number 1970 1 1 = 719528"
    by (simp_all add: year_start_def day_number_def)
  moreover note year_start_Suc [of "ct_year t"]
  ultimately show "-106651 \<le> day_number (ct_year t) (ct_month t) (ct_day t) - day_number 1970 1 1"
    "day_number (ct_year t) (ct_month t) (ct_day t) - day_number 1970 1 1 \<le> 106651"
    using assms(1) by (simp_all add: day_number_def valid_time_def)
qed

lemma int_unat_u8: "0 \<le> int (unat (w :: u8))" "int (unat (w :: u8)) \<le> 255"
  using unat_u8_le [of w] by (simp_all del: of_nat_unat)

lemma year_value:
  assumes "25 \<le> length b" "0 \<le> ct_year (reference_date b)"
  shows "\<exists>y. year (Some b) = Some y \<and> int (unat y) = ct_year (reference_date b)"
proof -
  let ?y = "int (unat (b ! 12)) + 100 * (int (unat (b ! 24)) - 1)"
  have "k + 100 * (c - 1) < 65536" if "k \<le> 255" "c \<le> 255" for k c :: int using that by simp
  from this [OF int_unat_u8(2) int_unat_u8(2)] have "?y < 65536" .
  then have "?y mod 65536 = ?y" using assms(2) by (simp add: reference_date_def)
  moreover have "year (Some b) = Some (word_of_int ?y)"
    using assms(1) by (simp add: year_def PDS_Year4_def buf_simps)
  ultimately show ?thesis
    using unat_word_of_int [of ?y, where 'a = 16] by (auto simp: reference_date_def)
qed

lemma reference_time_value:
  assumes "25 \<le> length b" "valid_time (reference_date b)"
    "1678 \<le> ct_year (reference_date b)" "ct_year (reference_date b) \<le> 2261"
  shows "reference_time (Some b) = Some (reference_ns b)"
proof -
  let ?t = "reference_date b"
  let ?n = "day_number (ct_year ?t) (ct_month ?t) (ct_day ?t) - day_number 1970 1 1"
  let ?s = "86400 * ?n + 60 * (60 * int (unat (b ! 15)) + int (unat (b ! 16)))"
  obtain y where y: "year (Some b) = Some y" "int (unat y) = ct_year ?t"
    using year_value [OF assms(1)] assms(3) by auto
  have m: "1 \<le> ct_month ?t" "ct_month ?t \<le> 12" using assms(2) by (simp_all add: valid_time_def)
  have days: "sys_days (ct_year ?t) (ct_month ?t) (ct_day ?t) = Some ?n"
    using m assms(3,4) by (simp add: sys_days_def day_number_def)
  have ns: "?s * 10 ^ 9 = reference_ns b"
    by (simp add: reference_ns_def epoch_hour) (simp add: hour_number_def reference_date_def algebra_simps)
  have range: "- 9214646400 \<le> 86400 * n + 60 * (60 * h + k)" "86400 * n + 60 * (60 * h + k) \<le> 9215600000"
    if "- 106651 \<le> n" "n \<le> 106651" "0 \<le> h" "h \<le> 255" "0 \<le> k" "k \<le> 255" for n h k :: int
    using that by simp_all
  have "- 9214646400 \<le> ?s" "?s \<le> 9215600000"
    by (rule range day_number_range [OF assms(2-4)] int_unat_u8)+
  then have "- (2 ^ 63) \<le> ?s * 10 ^ 9" "?s * 10 ^ 9 < 2 ^ 63" by simp_all
  then have "to_system_clock ?s = Some (reference_ns b)" unfolding to_system_clock_def Let_def ns by simp
  moreover have "ct_month ?t = int (unat (b ! 13))" "ct_day ?t = int (unat (b ! 14))"
    by (simp_all add: reference_date_def)
  ultimately show ?thesis
    using y days assms(1)
    by (simp add: reference_time_def month_def day_def hour_def minute_def PDS_Month_def PDS_Day_def
        PDS_Hour_def PDS_Minute_def buf_simps del: of_nat_unat)
qed

text \<open>A grid description that holds the definition of its type, if it is of a type that the library knows.\<close>

definition grid_fits :: "buffer \<Rightarrow> bool" where
  "grid_fits b \<longleftrightarrow> 6 \<le> length b \<and> (case representation (b ! 5) of None \<Rightarrow> True
     | Some r \<Rightarrow> GridBase_begin_byte + variant_section_size r \<le> length b)"

lemma define_grid_fits:
  assumes "lib_ok L" "grid_fits b"
  shows "\<exists>g. define_grid L (Some b) = Some g"
proof -
  have t: "get_representation_type (Some b) = Some (b ! 5)"
    using assms(2) by (simp add: get_representation_type_def grid_fits_def buf_simps)
  show ?thesis
  proof (cases "representation (b ! 5)")
    case None
    then show ?thesis using enum_to_index_other [OF None] by (simp add: define_grid_def t emplace_by_id_def)
  next
    case (Some r)
    then have c: "b ! 5 = representation_code r" by (simp add: representation_def rep.enum_of_iff)
    show ?thesis
    proof (cases "r = UNDEF_GRID")
      case True
      have "emplace_by_id L Monostate_grid (representation_code UNDEF_GRID) (Some b) = Some (False, Monostate_grid)"
        unfolding emplace_by_id_code by (simp add: enum_indices_def emplaceImpl_def variant_constructors_def)
      then show ?thesis using True by (simp add: define_grid_def t c)
    next
      case False
      then show ?thesis
        using emplace_alternative [OF assms(1) False, of b Monostate_grid] assms(2) Some
        by (auto simp: define_grid_def t c grid_fits_def)
    qed
  qed
qed

lemma define_grid_null [simp]: "define_grid L None = None"
  by (simp add: define_grid_def get_representation_type_def)

text \<open>What the loop reads from a message of a file.\<close>

definition indexable :: "parts \<Rightarrow> bool" where
  "indexable m \<longleftrightarrow> valid_message m \<and> 25 \<le> length (p1 m) \<and> p1 m ! 7 AND 128 \<noteq> 0 \<and> grid_fits (p2 m) \<and>
     valid_time (reference_date (p1 m)) \<and>
     1678 \<le> ct_year (reference_date (p1 m)) \<and> ct_year (reference_date (p1 m)) \<le> 2261"

text \<open>The description of the message \<open>k\<close> of a file, with its grid.\<close>

definition info_of :: "parts list \<Rightarrow> nat \<Rightarrow> GridInfo \<Rightarrow> GribMsgDataInfo" where
  "info_of ms k grid = (let b = p1 (ms ! k) in
     \<lparr>grid_data = grid, date = reference_ns b, buf_pos = int (length (file_of (take k ms))),
      t_unit = make_TimeForecast (b ! 17) (b ! 20) (b ! 18) (b ! 19), info_center = b ! 4,
      info_level = make_Level (b ! 9) (b ! 10) (b ! 11),
      msg_sz = of_nat (length (message_bytes (ms ! k))), info_parameter = b ! 8,
      info_table_version = b ! 3, info_err = None\<rparr>)"

text \<open>The octets from section 2 of the message \<open>k\<close> on.\<close>

definition section_2_on :: "parts list \<Rightarrow> nat \<Rightarrow> buffer" where
  "section_2_on ms k = p2 (ms ! k) @ p3 (ms ! k) @ p4 (ms ! k) @ end_mark @ file_of (drop (k + 1) ms)"

lemma section_1_append:
  assumes "25 \<le> length b"
  shows "parameter_number (Some (b @ r)) = Some (b ! 8)" "center (Some (b @ r)) = Some (b ! 4)"
    "table_version (Some (b @ r)) = Some (b ! 3)" "level_data (Some (b @ r)) = Some (make_Level (b ! 9) (b ! 10) (b ! 11))"
    "reference_date (b @ r) = reference_date b" "reference_ns (b @ r) = reference_ns b"
  using assms
  by (simp_all add: parameter_number_def PDS_PARAM_def center_def PDS_Center_def table_version_def PDS_Vsn_def
      level_data_def level_def PDS_L_TYPE_def level1_data_def PDS_LEVEL1_def level2_data_def PDS_LEVEL2_def
      buf_simps nth_append reference_date_def reference_ns_def)

lemma time_forecast_append:
  assumes "lib_ok L" "25 \<le> length b"
  shows "time_forecast L (Some (b @ r)) = Some (make_TimeForecast (b ! 17) (b ! 20) (b ! 18) (b ! 19))"
  using assms(2)
  by (simp add: time_forecast_def unit_time_range_def PDS_ForecastTimeUnit_def time_range_indicator_def
      PDS_TimeRangeIndicator_def period1_def PDS_P1_def period2_def PDS_P2_def
      read_u_1 [OF assms(1), simplified] buf_simps nth_append)

lemma message_of_reader:
  assumes "lib_ok L" "k < length ms" "valid_message (ms ! k)" "p1 (ms ! k) ! 7 AND 128 \<noteq> 0"
  shows "\<exists>mm. msg (reader_at L ms k) = Some mm \<and> section_2 mm = Some (section_2_on ms k) \<and> err mm = None \<and>
    section_1 mm = Some (p1 (ms ! k) @ section_2_on ms k) \<and>
    message_length L (section_0 mm) = Some (length (message_bytes (ms ! k)))"
proof -
  have d: "file_of (drop k ms) = parts_bytes (ms ! k) @ (end_mark @ file_of (drop (k + 1) ms))"
    using assms(2) by (simp add: Cons_nth_drop_Suc [symmetric] message_bytes_def)
  have ok: "parts_ok (ms ! k)" using assms(3) by (simp add: valid_message_def)
  note make_Message_parts [OF assms(1) ok, of "end_mark @ file_of (drop (k + 1) ms)"]
  moreover note message_length_parts [OF assms(1) ok, of "end_mark @ file_of (drop (k + 1) ms)"]
  ultimately show ?thesis
    using assms(3,4) length_message_bytes [OF assms(3)]
    by (simp add: reader_at_def d section_2_on_def valid_message_def)
qed

lemma read_info_reader:
  assumes L: "lib_ok L" and k: "k < length ms" and m: "indexable (ms ! k)"
  shows "\<exists>g mm. define_grid L (Some (section_2_on ms k)) = Some g \<and> msg (reader_at L ms k) = Some mm \<and>
    section_2 mm = Some (section_2_on ms k) \<and> section_1 mm = Some (p1 (ms ! k) @ section_2_on ms k) \<and>
    message_length L (section_0 mm) = Some (length (message_bytes (ms ! k))) \<and>
    read_info L (reader_at L ms k) mm g = Some (info_of ms k g)"
proof -
  let ?b = "p1 (ms ! k)" and ?r = "section_2_on ms k"
  note ix = m [unfolded indexable_def]
  obtain mm where mm: "msg (reader_at L ms k) = Some mm" "section_2 mm = Some ?r" "err mm = None"
    "section_1 mm = Some (?b @ ?r)" "message_length L (section_0 mm) = Some (length (message_bytes (ms ! k)))"
    using message_of_reader [OF L k] ix by blast
  have "grid_fits ?r"
    using ix by (auto simp: grid_fits_def section_2_on_def nth_append split: option.splits)
  then obtain g where g: "define_grid L (Some ?r) = Some g" using define_grid_fits [OF L] by blast
  have t: "reference_time (Some (?b @ ?r)) = Some (reference_ns ?b)"
    using reference_time_value [of "?b @ ?r"] ix section_1_append [of ?b ?r] by simp
  have "read_info L (reader_at L ms k) mm g = Some (info_of ms k g)"
    using mm ix t section_1_append [of ?b ?r] time_forecast_append [OF L, of ?b ?r]
    by (simp add: read_info_def current_message_length_def make_GribMsgDataInfo_def info_of_def Let_def
        current_message_position_def) (simp add: reader_at_def)
  then show ?thesis using g mm by simp
qed

lemma process_message_reader:
  assumes "lib_ok L" "k < length ms" "indexable (ms ! k)"
  shows "\<exists>g. define_grid L (Some (section_2_on ms k)) = Some g \<and>
    process_message L (reader_at L ms k) infos = Some (Inr (reader_at L ms k, infos @ [info_of ms k g]))"
  using read_info_reader [OF assms] by (auto simp: process_message_def)

lemma fold_snoc: "fold (\<lambda>k s. s @ [f k]) ks s = s @ map f ks"
  by (induction ks arbitrary: s) simp_all

lemma process_file_reader:
  assumes L: "lib_ok L" and ix: "\<forall>m\<in>set ms. indexable m" and ne: "ms \<noteq> []"
  shows "process_file L (reader_at L ms 0) =
    Some (map (\<lambda>k. info_of ms k (the (define_grid L (Some (section_2_on ms k))))) [0..<length ms])"
proof -
  let ?info = "\<lambda>k. info_of ms k (the (define_grid L (Some (section_2_on ms k))))"
  have "process_message L (reader_at L ms k) infos = Some (Inr (reader_at L ms k, infos @ [?info k]))"
    if k: "k < length ms" for k infos
    using process_message_reader [OF L k] ix k by (metis nth_mem option.sel)
  then have "each_message L (process_message L) (reader_at L ms 0) [] =
      Some (Inr (fold (\<lambda>k s. s @ [?info k]) [0..<length ms] []))"
    using ix ne by (intro each_message_file [OF L]) (auto simp: indexable_def)
  then show ?thesis by (simp add: process_file_def fold_snoc)
qed

section \<open>An example\<close>

text \<open>
  The message of theory Message with a grid description put in, and its indicator adjusted: a grid of
  one point at the origin, with increments of one degree.
\<close>

definition example_indexed :: parts where
  "example_indexed = example_parts\<lparr>p0 := [71, 82, 73, 66, 0, 0, 91, 1],
     p1 := example_pds, p2 := [0, 0, 32, 0, 255, 0, 0, 0, 0, 0, 0, 0, 0, 0, 0, 0, 128, 0, 0, 0, 0, 0, 0, 3, 232, 3, 232, 0, 0, 0, 0, 0]\<rparr>"

lemma example_indexed_ok: "indexable example_indexed"
proof -
  have "representation 0 = Some LAT_LON_GRID_EQUIDIST_CYLINDR"
    by (simp add: representation_def rep.enum_of_iff)
  then have "grid_fits (p2 example_indexed)"
    by (simp add: grid_fits_def example_indexed_def section_size_simps GridDefinition_section_size_def
        GridAdditional_section_size_def)
  then show ?thesis
    by (simp add: indexable_def example_indexed_def example_parts_def valid_message_def parts_ok_def framed_def
        be_nat_Cons example_bds_def parts_bytes_def example_pds_def reference_date_def valid_time_def
        month_length_def leap_mod)
qed

section \<open>Properties\<close>

text \<open>
  C27: the reference time of a section with a valid date of the years 1678 to 2261 is the time since
  1970 in nanoseconds, counted in the Gregorian calendar, and never overflows.
\<close>

theorem reference_time_correct:
  assumes "25 \<le> length b" "valid_time (reference_date b)"
    "1678 \<le> ct_year (reference_date b)" "ct_year (reference_date b) \<le> 2261"
  shows "reference_time (Some b) = Some (((hour_number (reference_date b) -
     hour_number \<lparr>ct_year = 1970, ct_month = 1, ct_day = 1, ct_hour = 0\<rparr>) * 60 + int (unat (b ! 16))) * 60 * 10 ^ 9)"
  using reference_time_value [OF assms] unfolding reference_ns_def .

theorem reference_time_correct_witness:
  "reference_time (Some example_pds) = Some (1709143200 * 10 ^ 9)"
proof -
  have "reference_date example_pds = \<lparr>ct_year = 2024, ct_month = 2, ct_day = 28, ct_hour = 18\<rparr>"
    "25 \<le> length example_pds" "example_pds ! 16 = 0"
    by (simp_all add: reference_date_def example_pds_def)
  then show ?thesis
    using reference_time_correct [of example_pds]
    by (simp add: valid_time_def month_length_def leap_mod hour_number_def day_number_def year_start_def)
qed

text \<open>
  C4: indexing a file of valid messages, each with a grid description of a known size and a date in
  range.  Every message is described, in the order of the file: its position, its length, its grid,
  its reference time and the fields of section 1; the error member stays without a value.  If the
  last octet of the first data section is the digit seven, the file is refused instead.
\<close>

theorem index_file_correct:
  assumes "lib_ok L" "\<forall>m\<in>set (m0 # ms). indexable m"
  shows "\<exists>grids. length grids = length (m0 # ms) \<and>
    (\<forall>k<length (m0 # ms). define_grid L (Some (section_2_on (m0 # ms) k)) = Some (grids ! k)) \<and>
    index_file L (Some (file_of (m0 # ms))) = Some (if last (p4 m0) = 55 then (Some OPEN_ERROR_X1, [])
      else (None, map (\<lambda>k. info_of (m0 # ms) k (grids ! k)) [0..<length (m0 # ms)]))"
proof -
  let ?ms = "m0 # ms"
  let ?g = "\<lambda>k. the (define_grid L (Some (section_2_on ?ms k)))"
  let ?grids = "map ?g [0..<length ?ms]"
  have "define_grid L (Some (section_2_on ?ms k)) = Some (?g k)" if "k < length ?ms" for k
    using process_message_reader [OF assms(1) that] assms(2) that by (metis nth_mem option.sel)
  then have grids: "\<forall>k<length ?ms. define_grid L (Some (section_2_on ?ms k)) = Some (?grids ! k)"
    by (simp del: upt_Suc)
  have eq: "map (\<lambda>k. info_of ?ms k (?grids ! k)) [0..<length ?ms] = map (\<lambda>k. info_of ?ms k (?g k)) [0..<length ?ms]"
    by (rule map_cong) (simp_all del: upt_Suc)
  have "valid_message m0" using assms(2) by (simp add: indexable_def)
  then have "index_file L (Some (file_of ?ms)) = Some (if last (p4 m0) = 55 then (Some OPEN_ERROR_X1, [])
      else (None, map (\<lambda>k. info_of ?ms k (?g k)) [0..<length ?ms]))"
    using open_grib_reader [OF assms(1), of m0 ms] process_file_reader [OF assms]
    by (simp add: index_file_def del: file_of_Cons upt_Suc)
  with grids eq show ?thesis by (intro exI [of _ ?grids]) (simp del: upt_Suc)
qed

theorem index_file_correct_witness:
  "\<exists>infos. index_file example_lib (Some (file_of [example_indexed, example_indexed])) = Some (None, infos) \<and>
     map buf_pos infos = [0, 91] \<and> map msg_sz infos = [91, 91] \<and> map date infos = [1709143200 * 10 ^ 9, 1709143200 * 10 ^ 9]"
proof -
  let ?ms = "[example_indexed, example_indexed]"
  have l: "length (message_bytes example_indexed) = 91"
    using example_indexed_ok
    by (simp add: indexable_def length_message_bytes) (simp add: example_indexed_def be_nat_Cons)
  have p: "p1 example_indexed = example_pds" "last (p4 example_indexed) \<noteq> 55"
    by (simp_all add: example_indexed_def example_parts_def example_bds_def)
  have "reference_ns example_pds = 1709143200 * 10 ^ 9"
    by (simp add: reference_ns_def reference_date_def example_pds_def hour_number_def day_number_def year_start_def
        month_length_def leap_mod)
  then show ?thesis
    using index_file_correct [OF lib_ok_example, of example_indexed "[example_indexed]"] example_indexed_ok l p
    by (auto simp: info_of_def)
qed

text \<open>
  A file whose first message has no grid description cannot be indexed: the loop reads the
  representation type through the null pointer of section 2, whatever follows.
\<close>

theorem process_file_without_grid:
  assumes "lib_ok L" "valid_message m" "p1 m ! 7 AND 128 = 0"
  shows "process_file L (reader_at L (m # ms) 0) = None"
proof -
  have "parts_ok m" using assms(2) by (simp add: valid_message_def)
  from make_Message_parts [OF assms(1) this, of "end_mark @ file_of ms"]
  have "\<exists>mm. msg (reader_at L (m # ms) 0) = Some mm \<and> section_2 mm = None"
    using assms(3) by (simp add: reader_at_def message_bytes_def)
  then have "process_message L (reader_at L (m # ms) 0) [] = None"
    by (auto simp: process_message_def)
  then show ?thesis by (simp add: process_file_def each_message_undefined)
qed

theorem process_file_without_grid_witness:
  "process_file example_lib (reader_at example_lib [example_parts] 0) = None"
  using process_file_without_grid [OF lib_ok_example example_parts_ok(2), of "[]"] by (simp add: example_parts_def)

text \<open>
  Indexing a file with a message whose indicator gives the length zero has no result: the loop
  describes the same message again and again.
\<close>

theorem process_file_endless:
  assumes "msg g = Some m" "message_length L (section_0 m) = Some 0" "current_ptr g < sz g"
    "make_Message L (ptr_add (f_ptr g) (current_ptr g)) = Some m"
  shows "process_file L g = None"
proof -
  have moves: "next_message L g = Some (True, g)" using assms by (cases g) (simp add: next_message_def)
  show ?thesis
  proof (cases "process_message L g []")
    case None
    then show ?thesis by (simp add: process_file_def each_message_undefined)
  next
    case (Some r)
    then have "\<forall>s. \<exists>s'. process_message L g s = Some (Inr (g, s'))"
      by (auto simp: process_message_def split: option.splits bind_splits)
    from each_message_endless [of "process_message L", OF this moves] show ?thesis by (simp add: process_file_def)
  qed
qed

theorem process_file_endless_witness:
  "\<exists>mm. make_Message example_lib (Some (parts_bytes example_endless @ end_mark)) = Some mm \<and>
     process_file example_lib \<lparr>msg = Some mm, f_ptr = Some (parts_bytes example_endless @ end_mark),
       current_ptr = 0, sz = 59\<rparr> = None"
proof -
  have ok: "parts_ok example_endless"
    by (simp add: parts_ok_def example_endless_def example_parts_def framed_def be_nat_Cons example_bds_def)
  let ?b = "Some (parts_bytes example_endless @ end_mark)"
  obtain mm where mm: "make_Message example_lib ?b = Some mm" "section_0 mm = ?b"
    using make_Message_parts [OF lib_ok_example ok, of end_mark] by simp
  have "message_length example_lib (section_0 mm) = Some 0"
    using message_length_parts [OF lib_ok_example ok, of end_mark] mm(2)
    by (simp add: example_endless_def be_nat_Cons)
  then show ?thesis
    using process_file_endless [of "\<lparr>msg = Some mm, f_ptr = ?b, current_ptr = 0, sz = 59\<rparr>" mm example_lib]
      mm(1) by (simp add: ptr_add_def)
qed

end
