(* ===== verification/Search.thy ===== *)
theory Search
  imports Grid Common_Data
begin

text \<open>
  The properties of a search (\<^verbatim>\<open>API/grib1/include/properties.h\<close>), the operations that fill them in
  (\<^verbatim>\<open>include/proc/interfaces/abstractsearchprocess.h\<close>), and the checks before a search starts:
  \<^verbatim>\<open>properties_integrity\<close> of \<^verbatim>\<open>Extract\<close> (\<^verbatim>\<open>include/proc/extract.h\<close>) and of \<^verbatim>\<open>Integrity\<close>
  (\<^verbatim>\<open>include/proc/integrity.h\<close>).
\<close>

section \<open>Error codes\<close>

datatype ErrorCode =
    EC_NONE
  | EC_INTERNAL_ERROR
  | EC_INCORRECT_DATE_INTERVAL
  | EC_INCORRECT_DATE
  | EC_INCORRECT_COORD
  | EC_INCORRECT_RECT
  | EC_COMMAND_INPUT_X1_ERROR
  | EC_TO_FEW_ARGUMENTS
  | EC_TO_MANY_ARGUMENTS
  | EC_INCOR_ARG_X1_ALREADY_CHOOSEN_MODE_X2
  | EC_CREATE_DIR_X1_DENIED
  | EC_FILE_X1_PERM_DENIED
  | EC_TRY_OPEN_NOT_FILE_X1
  | EC_CANNOT_ACCESS_PATH_X1
  | EC_FILE_X1_DONT_EXISTS
  | EC_CANNOT_OPEN_FILE_X1
  | EC_INVALID_PATH_OF_DIRECTORIES_X1
  | EC_X1_IS_NOT_DIRECTORY
  | EC_X1_IS_NOT_FILE
  | EC_IGNORING_VALUE_X1
  | EC_ALREADY_EXISTING_CONFIG_NAME
  | EC_CONFIG_NAME_DOESNT_EXISTS_X1
  | EC_DIRECTORY_X1_DONT_EXISTS
  | EC_UNKNOWN_X1_FORMAT_FILE
  | EC_UNKNOWN_FORMAT_FILE
  | EC_UNDEFINED_VALUE
  | EC_INTEGRITY_VIOLATED
  | EC_INVALID_INDEX_ORDER
  | EC_INVALID_HOST_X1
  | EC_CONNECTION_ERROR
  | EC_CONNECTION_ERROR_WITH_X1
  | EC_INVALID_CLIENT_REQUEST
  | EC_SENDING_MESSAGE_ERROR
  | EC_CONNECTION_CLOSED
  | EC_INTERRUPTED
  | EC_RECEIVING_MESSAGE_ERROR
  | EC_X1_IS_NOT_REGULAR_FILE_OR_DIRECTORY
  | EC_INVALID_VALUE_X1_OF_PARAMETER_X2
  | EC_INVALID_ARGUMENT
  | EC_TRANSACTION_REFUSED
  | EC_INVALID_CREDENTIALS
  | EC_DESERIALIZATION_ERROR
  | EC_SERIALIZATION_ERROR
  | EC_SERVER_ERROR
  | EC_DATA_NOT_FOUND
  | EC_BUFFER_LOW_SIZE
  | EC_TIMEOUT
  | EC_FILE_X1_CORRUPTED_OR_INVALID_FORMAT
  | EC_VERSION_ERROR_X1
  | EC_FILE_X1_READING_ERROR

section \<open>Search properties\<close>

text \<open>Time points are nanoseconds since 1970.\<close>

record SearchProperties =
  parameters :: "SearchParamTableVersion set"
  from_date :: int
  to_date :: int
  position :: "Coord option"
  grid_type :: "RepresentationType option"
  search_center :: "u8 option"
  fcst_unit :: "TimeForecast option"
  search_level :: "Level option"

definition set_center :: "u8 \<Rightarrow> SearchProperties \<Rightarrow> SearchProperties" where
  "set_center c props = props\<lparr>search_center := Some c\<rparr>"

definition set_time_fcst :: "TimeForecast \<Rightarrow> SearchProperties \<Rightarrow> SearchProperties" where
  "set_time_fcst f props = props\<lparr>fcst_unit := Some f\<rparr>"

definition add_parameter :: "SearchParamTableVersion \<Rightarrow> SearchProperties \<Rightarrow> SearchProperties" where
  "add_parameter v props = props\<lparr>parameters := insert v (parameters props)\<rparr>"

definition add_set_of_parameters :: "SearchParamTableVersion set \<Rightarrow> SearchProperties \<Rightarrow> SearchProperties" where
  "add_set_of_parameters vs props = props\<lparr>parameters := parameters props \<union> vs\<rparr>"

definition set_from_date :: "int \<Rightarrow> SearchProperties \<Rightarrow> SearchProperties" where
  "set_from_date t props = props\<lparr>from_date := t\<rparr>"

definition set_to_date :: "int \<Rightarrow> SearchProperties \<Rightarrow> SearchProperties" where
  "set_to_date t props = props\<lparr>to_date := t\<rparr>"

definition set_grid_respresentation :: "RepresentationType \<Rightarrow> SearchProperties \<Rightarrow> SearchProperties" where
  "set_grid_respresentation r props = props\<lparr>grid_type := Some r\<rparr>"

definition set_position :: "Coord \<Rightarrow> SearchProperties \<Rightarrow> SearchProperties" where
  "set_position c props = props\<lparr>position := Some c\<rparr>"

text \<open>\<^verbatim>\<open>hardware\<close> is the value of \<^verbatim>\<open>std::thread::hardware_concurrency\<close>.\<close>

definition set_using_processor_cores :: "int \<Rightarrow> u32 \<Rightarrow> int" where
  "set_using_processor_cores cores hardware = (if cores > 0 \<and> word_of_int cores < hardware then cores else 1)"

section \<open>Checks before a search\<close>

text \<open>What the check of the output path sees of the file system.\<close>

record path_view =
  path_empty :: bool
  path_exists :: bool
  path_has_extension :: bool
  directories_created :: bool
  path_is_directory :: bool

text \<open>
  \<^verbatim>\<open>is_correct_interval\<close>, \<^verbatim>\<open>is_correct_pos\<close> and the member of \<^verbatim>\<open>Coord\<close> of the same name belong to
  OsterLib.  \<^verbatim>\<open>print_error\<close> returns the code it prints.
\<close>

definition Extract_properties_integrity ::
    "path_view \<Rightarrow> (int \<Rightarrow> int \<Rightarrow> bool) \<Rightarrow> (Coord \<Rightarrow> bool) \<Rightarrow> (Coord \<Rightarrow> bool) \<Rightarrow> SearchProperties \<Rightarrow> ErrorCode" where
  "Extract_properties_integrity out is_correct_interval is_correct_pos coord_is_correct props =
     (if path_empty out then EC_UNDEFINED_VALUE
      else if \<not> path_exists out \<and> path_has_extension out then EC_X1_IS_NOT_DIRECTORY
      else if \<not> path_exists out \<and> \<not> directories_created out then EC_CREATE_DIR_X1_DENIED
      else if path_exists out \<and> \<not> path_is_directory out then EC_X1_IS_NOT_DIRECTORY
      else if \<not> is_correct_interval (from_date props) (to_date props) then EC_INCORRECT_DATE
      else (case position props of
          None \<Rightarrow> EC_UNDEFINED_VALUE
        | Some p \<Rightarrow>
            if \<not> is_correct_pos p then EC_INCORRECT_COORD
            else if grid_type props = None then EC_UNDEFINED_VALUE
            else if parameters props = {} then EC_UNDEFINED_VALUE
            else if \<not> coord_is_correct p then EC_INCORRECT_RECT
            else EC_NONE))"

definition Integrity_properties_integrity ::
    "(int \<Rightarrow> int \<Rightarrow> bool) \<Rightarrow> (Coord \<Rightarrow> bool) \<Rightarrow> SearchProperties \<Rightarrow> ErrorCode" where
  "Integrity_properties_integrity is_correct_interval is_correct_pos props =
     (if is_correct_interval (from_date props) (to_date props) then EC_INCORRECT_DATE_INTERVAL
      else (case position props of
          None \<Rightarrow> EC_INCORRECT_COORD
        | Some p \<Rightarrow> if \<not> is_correct_pos p then EC_INCORRECT_COORD else EC_NONE))"

section \<open>Properties\<close>

text \<open>
  The check of an extraction passes exactly if the output path is or becomes a directory and the
  interval, the position, the grid type and the parameters are given and correct; and no properties
  pass both this check and that of \<^verbatim>\<open>Integrity\<close>, which refuses every correct interval.
\<close>

theorem properties_integrity_checks:
  "(Extract_properties_integrity out ivl cpos coord props = EC_NONE \<longleftrightarrow>
     \<not> path_empty out \<and>
     (if path_exists out then path_is_directory out else \<not> path_has_extension out \<and> directories_created out) \<and>
     ivl (from_date props) (to_date props) \<and>
     (\<exists>p. position props = Some p \<and> cpos p \<and> coord p) \<and> grid_type props \<noteq> None \<and> parameters props \<noteq> {}) \<and>
   (Integrity_properties_integrity ivl cpos props = EC_INCORRECT_DATE_INTERVAL \<longleftrightarrow> ivl (from_date props) (to_date props))"
  by (auto simp: Extract_properties_integrity_def Integrity_properties_integrity_def split: option.splits)

end
