(* ===== verification/Extracting.thy ===== *)
theory Extracting
  imports Indexing Search
begin

text \<open>
  Extracting values from files: the values, the two loops of \<^verbatim>\<open>Extract::__extract__\<close>
  (\<^verbatim>\<open>src/proc/extract.cpp\<close>) and the filter of \<^verbatim>\<open>Integrity::__process_core__\<close>
  (\<^verbatim>\<open>src/proc/integrity.cpp\<close>).
\<close>

section \<open>Results\<close>

text \<open>The loops return an error code or are left by an exception.\<close>

datatype extract_end = Returned ErrorCode | Bad_optional_access | Runtime_error

record ExtractedValue =
  time_date :: int
  extracted_value :: rat

definition ExtractedValue_less :: "ExtractedValue \<Rightarrow> ExtractedValue \<Rightarrow> bool" where
  "ExtractedValue_less a b \<longleftrightarrow> time_date a < time_date b"

definition ExtractedValue_greater :: "ExtractedValue \<Rightarrow> ExtractedValue \<Rightarrow> bool" where
  "ExtractedValue_greater a b \<longleftrightarrow> time_date a > time_date b"

definition ExtractedValue_eq :: "ExtractedValue \<Rightarrow> ExtractedValue \<Rightarrow> bool" where
  "ExtractedValue_eq a b \<longleftrightarrow> extracted_value a = extracted_value b \<and> time_date a = time_date b"

interpretation value_order: strict_weak_order ExtractedValue_less
  unfolding ExtractedValue_less_def [abs_def] by (rule strict_weak_order_measure)

text \<open>The values of each key, in the order of extraction; \<^verbatim>\<open>operator[]\<close> starts with no value.\<close>

type_synonym ExtractedValues = "CommonDataProperties \<rightharpoonup> ExtractedValue list"

definition values_of :: "ExtractedValues \<Rightarrow> CommonDataProperties \<Rightarrow> ExtractedValue list" where
  "values_of data key = (case data key of None \<Rightarrow> [] | Some vs \<Rightarrow> vs)"

definition emplace_value :: "ExtractedValues \<Rightarrow> CommonDataProperties \<Rightarrow> ExtractedValue \<Rightarrow> ExtractedValues" where
  "emplace_value data key v = data(key \<mapsto> values_of data key @ [v])"

definition info_key :: "GribMsgDataInfo \<Rightarrow> CommonDataProperties" where
  "info_key i = make_CommonDataProperties (Some (info_center i)) (Some (info_table_version i)) (Some (info_parameter i))"

definition info_search_param :: "GribMsgDataInfo \<Rightarrow> SearchParamTableVersion" where
  "info_search_param i = \<lparr>sp_param = info_parameter i, sp_t_ver = info_table_version i\<rparr>"

section \<open>The filters\<close>

text \<open>
  The tests of \<^verbatim>\<open>__extract__\<close> in their order: \<^term>\<open>Some True\<close> goes on, \<^term>\<open>Some False\<close> is \<^verbatim>\<open>continue\<close>, and
  \<^term>\<open>None\<close> the exception of \<^verbatim>\<open>position_.value()\<close>.
\<close>

definition extract_accepts :: "SearchProperties \<Rightarrow> GribMsgDataInfo \<Rightarrow> bool option" where
  "extract_accepts props i =
     (if search_center props \<noteq> None \<and> Some (info_center i) \<noteq> search_center props then Some False
      else if parameters props \<noteq> {} \<and> info_search_param i \<notin> parameters props then Some False
      else if fcst_unit props \<noteq> None \<and> Some (t_unit i) \<noteq> fcst_unit props then Some False
      else (case grid_type props of
          None \<Rightarrow> Some True
        | Some r \<Rightarrow>
            if \<not> has_grid (grid_data i) then Some False
            else if r \<noteq> GridInfo_type (grid_data i) then Some False
            else if date i > to_date props \<or> date i < from_date props then Some False
            else map_option (\<lambda>p. pos_in_grid p (grid_data i)) (position props)))"

definition integrity_accepts :: "SearchProperties \<Rightarrow> GribMsgDataInfo \<Rightarrow> bool" where
  "integrity_accepts props i =
     (if search_center props \<noteq> None \<and> search_center props \<noteq> Some (info_center i) then False
      else if parameters props \<noteq> {} \<and> info_search_param i \<notin> parameters props then False
      else if fcst_unit props \<noteq> None \<and> fcst_unit props \<noteq> Some (t_unit i) then False
      else if grid_type props \<noteq> None \<and> (\<not> has_grid (grid_data i) \<or> grid_type props \<noteq> Some (GridInfo_type (grid_data i))) then False
      else if (case position props of None \<Rightarrow> False
          | Some p \<Rightarrow> if \<not> has_grid (grid_data i) then True else \<not> pos_in_grid p (grid_data i)) then False
      else if to_date props < date i \<or> from_date props > date i then False
      else True)"

section \<open>Extraction\<close>

text \<open>
  What the loops need beside the reader: the readers of octets, the rounding and the check of a
  position (theory Grid), and whether a stop is requested at the iteration \<open>n\<close>.
\<close>

record extract_env =
  env_lib :: osterlib
  env_fl :: "rat \<Rightarrow> rat"
  env_is_correct_pos :: "Coord \<Rightarrow> bool"
  env_stop :: "nat \<Rightarrow> bool"

text \<open>
  A message of length zero is moved on from while a reference to it is held: if the reader moves the
  message is destroyed, and the accesses that follow are undefined.
\<close>

definition skip_empty :: "osterlib \<Rightarrow> HGrib1 \<Rightarrow> Message \<Rightarrow> HGrib1 option" where
  "skip_empty L g m = do {
     len \<leftarrow> message_length L (section_0 m);
     if len = 0 then do {
       (moved, g') \<leftarrow> next_message L g;
       if moved then None else Some g'}
     else Some g}"

definition read_extract_info :: "osterlib \<Rightarrow> HGrib1 \<Rightarrow> Message \<Rightarrow> GribMsgDataInfo option" where
  "read_extract_info L g m = do {
     s2 \<leftarrow> section2 m;
     grid \<leftarrow> (case s2 of Some b \<Rightarrow> define_grid L b | None \<Rightarrow> Some Monostate_grid);
     read_info L g m grid}"

text \<open>
  Storing the value of a field at the position of the search, for a message with a grid.  The list of
  the key is created before the position is looked at.
\<close>

definition store_value :: "extract_env \<Rightarrow> SearchProperties \<Rightarrow> Message \<Rightarrow> GribMsgDataInfo \<Rightarrow> ExtractedValues \<Rightarrow>
    (extract_end \<times> ExtractedValues + ExtractedValues) option" where
  "store_value E props m i data = (if has_grid (grid_data i)
     then (case position props of
         None \<Rightarrow> Some (Inl (Bad_optional_access, data(info_key i \<mapsto> values_of data (info_key i))))
       | Some p \<Rightarrow> do {
           n \<leftarrow> value_by_raw (env_lib E) (env_fl E) (env_is_correct_pos E) p (grid_data i);
           v \<leftarrow> extract_value (env_lib E) m n;
           Some (Inr (emplace_value data (info_key i) \<lparr>time_date = date i, extracted_value = v\<rparr>))})
     else Some (Inr data))"

text \<open>One pass of the loop over a whole file; the state is the number of passes and the data.\<close>

definition extract_message :: "extract_env \<Rightarrow> SearchProperties \<Rightarrow> HGrib1 \<Rightarrow> nat \<times> ExtractedValues \<Rightarrow>
    (extract_end \<times> ExtractedValues + HGrib1 \<times> (nat \<times> ExtractedValues)) option" where
  "extract_message E props g s = (case msg g of
       None \<Rightarrow> Some (Inl (Returned EC_DATA_NOT_FOUND, snd s))
     | Some m \<Rightarrow> do {
         g \<leftarrow> skip_empty (env_lib E) g m;
         if env_stop E (fst s) then Some (Inl (Returned EC_NONE, snd s))
         else do {
           i \<leftarrow> read_extract_info (env_lib E) g m;
           (case extract_accepts props i of
              None \<Rightarrow> Some (Inl (Bad_optional_access, snd s))
            | Some go \<Rightarrow> if \<not> go then Some (Inr (g, Suc (fst s), snd s))
                else do {
                  r \<leftarrow> store_value E props m i (snd s);
                  Some (case r of Inl e \<Rightarrow> Inl e | Inr data \<Rightarrow> Inr (g, Suc (fst s), data))})}})"

text \<open>How the function ends, and the data it leaves behind.\<close>

definition extract_file :: "extract_env \<Rightarrow> SearchProperties \<Rightarrow> buffer option \<Rightarrow> ExtractedValues \<Rightarrow>
    (extract_end \<times> ExtractedValues) option" where
  "extract_file E props file data = do {
     (e, grib) \<leftarrow> open_grib (env_lib E) file;
     if e \<noteq> NONE_ERR then Some (Returned EC_INTERNAL_ERROR, data)
     else if file_size grib = Some 0 then Some (Returned EC_DATA_NOT_FOUND, data)
     else do {
       r \<leftarrow> each_message (env_lib E) (extract_message E props) grib (0, data);
       Some (case r of Inl e \<Rightarrow> e | Inr s \<Rightarrow> (Returned EC_NONE, snd s))}}"

text \<open>The loop over given positions.  The error of opening is not looked at.\<close>

primrec extract_positions :: "extract_env \<Rightarrow> SearchProperties \<Rightarrow> int list \<Rightarrow> HGrib1 \<Rightarrow> nat \<times> ExtractedValues \<Rightarrow>
    (extract_end \<times> ExtractedValues) option" where
  "extract_positions E props [] g s = Some (Returned EC_NONE, snd s)"
| "extract_positions E props (pos # ps) g s =
     (if pos < 0 then extract_positions E props ps g s
      else do {
        (ok, g) \<leftarrow> set_message (env_lib E) g pos;
        if \<not> ok then extract_positions E props ps g s
        else (case msg g of
            None \<Rightarrow> Some (Runtime_error, snd s)
          | Some m \<Rightarrow> do {
              g \<leftarrow> skip_empty (env_lib E) g m;
              if env_stop E (fst s) then Some (Returned EC_INTERRUPTED, snd s)
              else do {
                i \<leftarrow> read_extract_info (env_lib E) g m;
                r \<leftarrow> store_value E props m i (snd s);
                (case r of
                   Inl e \<Rightarrow> Some e
                 | Inr data \<Rightarrow> extract_positions E props ps g (Suc (fst s), data))}})})"

definition extract_file_positions :: "extract_env \<Rightarrow> SearchProperties \<Rightarrow> buffer option \<Rightarrow> int list \<Rightarrow> ExtractedValues \<Rightarrow>
    (extract_end \<times> ExtractedValues) option" where
  "extract_file_positions E props file positions data = do {
     (e, grib) \<leftarrow> open_grib (env_lib E) file;
     if file_size grib = Some 0 then Some (Returned EC_INTERNAL_ERROR, data)
     else extract_positions E props positions grib (0, data)}"

section \<open>Facts about extraction\<close>

lemma skip_empty_long: "message_length L (section_0 m) = Some n \<Longrightarrow> 0 < n \<Longrightarrow> skip_empty L g m = Some g"
  by (simp add: skip_empty_def)

lemma values_of_emplace:
  "values_of (emplace_value data key v) key' = (if key' = key then values_of data key @ [v] else values_of data key')"
  by (simp add: values_of_def emplace_value_def)

text \<open>The message \<open>k\<close> of a file, its description, and the value at the position of the search.\<close>

definition message_at :: "osterlib \<Rightarrow> parts list \<Rightarrow> nat \<Rightarrow> Message" where
  "message_at L ms k = the (msg (reader_at L ms k))"

definition file_info :: "osterlib \<Rightarrow> parts list \<Rightarrow> nat \<Rightarrow> GribMsgDataInfo" where
  "file_info L ms k = info_of ms k (the (define_grid L (Some (section_2_on ms k))))"

definition value_at :: "extract_env \<Rightarrow> SearchProperties \<Rightarrow> parts list \<Rightarrow> nat \<Rightarrow> rat option" where
  "value_at E props ms k = do {
     p \<leftarrow> position props;
     n \<leftarrow> value_by_raw (env_lib E) (env_fl E) (env_is_correct_pos E) p (grid_data (file_info (env_lib E) ms k));
     extract_value (env_lib E) (message_at (env_lib E) ms k) n}"

definition stored :: "extract_env \<Rightarrow> SearchProperties \<Rightarrow> parts list \<Rightarrow> nat \<Rightarrow> ExtractedValue" where
  "stored E props ms k = \<lparr>time_date = reference_ns (p1 (ms ! k)), extracted_value = the (value_at E props ms k)\<rparr>"

definition selected :: "extract_env \<Rightarrow> SearchProperties \<Rightarrow> parts list \<Rightarrow> nat \<Rightarrow> bool" where
  "selected E props ms k \<longleftrightarrow> extract_accepts props (file_info (env_lib E) ms k) = Some True \<and>
     has_grid (grid_data (file_info (env_lib E) ms k))"

definition store_step :: "extract_env \<Rightarrow> SearchProperties \<Rightarrow> parts list \<Rightarrow> nat \<Rightarrow> nat \<times> ExtractedValues \<Rightarrow> nat \<times> ExtractedValues" where
  "store_step E props ms k s = (Suc (fst s), if selected E props ms k
     then emplace_value (snd s) (info_key (file_info (env_lib E) ms k)) (stored E props ms k) else snd s)"

lemma message_reader:
  assumes L: "lib_ok L" and k: "k < length ms" and m: "indexable (ms ! k)"
  shows "msg (reader_at L ms k) = Some (message_at L ms k)"
    "skip_empty L (reader_at L ms k) (message_at L ms k) = Some (reader_at L ms k)"
    "read_extract_info L (reader_at L ms k) (message_at L ms k) = Some (file_info L ms k)"
proof -
  let ?b = "p1 (ms ! k)" and ?r = "section_2_on ms k"
  obtain g mm where g: "define_grid L (Some ?r) = Some g" and mm: "msg (reader_at L ms k) = Some mm"
    "section_2 mm = Some ?r" "section_1 mm = Some (?b @ ?r)"
    "message_length L (section_0 mm) = Some (length (message_bytes (ms ! k)))"
    and i: "read_info L (reader_at L ms k) mm g = Some (info_of ms k g)"
    using read_info_reader [OF assms] by blast
  have at: "message_at L ms k = mm" by (simp add: message_at_def mm(1))
  show "msg (reader_at L ms k) = Some (message_at L ms k)" using at mm(1) by simp
  show "skip_empty L (reader_at L ms k) (message_at L ms k) = Some (reader_at L ms k)"
    using mm(4) message_bytes_pos by (simp add: at skip_empty_long)
  have "section1Flags (section_1 mm) = Some \<lparr>sec2_inc = True, sec3_inc = (?b ! 7 AND 64 \<noteq> 0)\<rparr>"
    using m by (simp add: mm(3) section1Flags_Some indexable_def nth_append)
  then have "section2 mm = Some (Some (Some ?r))" using mm(2) by (simp add: section2_def)
  then show "read_extract_info L (reader_at L ms k) (message_at L ms k) = Some (file_info L ms k)"
    using g i by (simp add: read_extract_info_def at file_info_def)
qed

lemma file_info_date: "date (file_info L ms k) = reference_ns (p1 (ms ! k))"
  by (simp add: file_info_def info_of_def Let_def)

lemma store_value_reader:
  assumes "has_grid (grid_data (file_info (env_lib E) ms k)) \<Longrightarrow> value_at E props ms k \<noteq> None"
  shows "store_value E props (message_at (env_lib E) ms k) (file_info (env_lib E) ms k) data = Some (Inr
    (if has_grid (grid_data (file_info (env_lib E) ms k))
     then emplace_value data (info_key (file_info (env_lib E) ms k)) (stored E props ms k) else data))"
proof (cases "has_grid (grid_data (file_info (env_lib E) ms k))")
  case True
  then obtain v where v: "value_at E props ms k = Some v" using assms by blast
  then show ?thesis
    using True
    by (auto simp: store_value_def stored_def value_at_def file_info_date split: option.splits bind_splits)
qed (simp add: store_value_def)

lemma extract_message_reader:
  assumes L: "lib_ok (env_lib E)" and k: "k < length ms" and m: "indexable (ms ! k)"
    and stop: "\<not> env_stop E (fst s)"
    and accepts: "extract_accepts props (file_info (env_lib E) ms k) \<noteq> None"
    and val: "selected E props ms k \<Longrightarrow> value_at E props ms k \<noteq> None"
  shows "extract_message E props (reader_at (env_lib E) ms k) s =
    Some (Inr (reader_at (env_lib E) ms k, store_step E props ms k s))"
proof -
  obtain go where go: "extract_accepts props (file_info (env_lib E) ms k) = Some go" using accepts by blast
  show ?thesis
  proof (cases go)
    case True
    have "store_value E props (message_at (env_lib E) ms k) (file_info (env_lib E) ms k) (snd s) = Some (Inr
      (if has_grid (grid_data (file_info (env_lib E) ms k))
       then emplace_value (snd s) (info_key (file_info (env_lib E) ms k)) (stored E props ms k) else snd s))"
      using val go True by (intro store_value_reader) (simp add: selected_def)
    then show ?thesis
      using message_reader [OF L k m] stop go True
      by (simp add: extract_message_def store_step_def selected_def)
  next
    case False
    then show ?thesis
      using message_reader [OF L k m] stop go
      by (simp add: extract_message_def store_step_def selected_def)
  qed
qed

lemma fold_store_step:
  "values_of (snd (fold (store_step E props ms) ks s)) key = values_of (snd s) key @
    map (stored E props ms) (filter (\<lambda>k. selected E props ms k \<and> info_key (file_info (env_lib E) ms k) = key) ks)"
  by (induction ks arbitrary: s) (auto simp: store_step_def values_of_emplace)

text \<open>The whole file, from a reader that was opened on it.\<close>

lemma extract_file_reader:
  assumes L: "lib_ok (env_lib E)" and ix: "\<forall>m\<in>set (m0 # ms). indexable m" and last: "last (p4 m0) \<noteq> 55"
    and stop: "\<forall>n. \<not> env_stop E n"
    and accepts: "\<And>k. k < length (m0 # ms) \<Longrightarrow> extract_accepts props (file_info (env_lib E) (m0 # ms) k) \<noteq> None"
    and val: "\<And>k. k < length (m0 # ms) \<Longrightarrow> selected E props (m0 # ms) k \<Longrightarrow> value_at E props (m0 # ms) k \<noteq> None"
  shows "extract_file E props (Some (file_of (m0 # ms))) data =
    Some (Returned EC_NONE, snd (fold (store_step E props (m0 # ms)) [0..<length (m0 # ms)] (0, data)))"
proof -
  let ?L = "env_lib E" and ?ms = "m0 # ms"
  have all: "\<forall>m\<in>set ?ms. valid_message m" using ix by (simp add: indexable_def)
  have body: "extract_message E props (reader_at ?L ?ms k) s = Some (Inr (reader_at ?L ?ms k, store_step E props ?ms k s))"
    if k: "k < length ?ms" for k s
  proof (rule extract_message_reader [OF L k])
    show "indexable (?ms ! k)" using ix nth_mem [OF k] by blast
  qed (use stop accepts [OF k] val [OF k] in simp_all)
  have "each_message ?L (extract_message E props) (reader_at ?L ?ms 0) (0, data) =
      Some (Inr (fold (store_step E props ?ms) [0..<length ?ms] (0, data)))"
    by (rule each_message_file [OF L all]) (simp_all add: body del: upt_Suc)
  moreover have "file_size (reader_at ?L ?ms 0) \<noteq> Some 0"
    using message_bytes_pos [of m0] by (simp add: file_size_def reader_at_def split: option.split)
  ultimately show ?thesis
    using open_grib_reader [OF L, of m0 ms] ix last
    by (simp add: extract_file_def indexable_def del: file_of_Cons upt_Suc fold_simps)
qed

text \<open>The loop over positions, on positions of messages.\<close>

lemma set_message_reader:
  assumes "k < length ms" "length (file_of ms) < 2 ^ 64" "msg (reader_at L ms k) \<noteq> None"
  shows "set_message L (reader_at L ms j) (int (length (file_of (take k ms)))) = Some (True, reader_at L ms k)"
proof -
  let ?n = "length (file_of (take k ms))"
  have "file_of ms = file_of (take k ms) @ file_of (drop k ms)" by (metis append_take_drop_id file_of_append)
  moreover have "0 < length (file_of (drop k ms))"
    using assms(1) message_bytes_pos [of "ms ! k"] by (simp add: Cons_nth_drop_Suc [symmetric])
  ultimately have lt: "?n < length (file_of ms)" by simp
  then have "(of_nat ?n :: u64) < of_nat (length (file_of ms))"
    using assms(2) by (simp add: word_less_nat_alt unat_of_nat take_bit_nat_eq_self)
  moreover obtain mm where "make_Message L (Some (file_of (drop k ms))) = Some mm"
    using assms(3) by (auto simp: reader_at_def)
  ultimately show ?thesis
    using drop_file_of [of k ms] assms(1) by (simp add: set_message_def reader_at_def ptr_add_def not_le)
qed

lemma extract_positions_reader:
  assumes L: "lib_ok (env_lib E)" and ix: "\<forall>m\<in>set ms. indexable m" and stop: "\<forall>n. \<not> env_stop E n"
    and size: "length (file_of ms) < 2 ^ 64"
    and ks: "\<forall>k\<in>set ks. k < length ms \<and> extract_accepts props (file_info (env_lib E) ms k) = Some True"
    and val: "\<forall>k\<in>set ks. selected E props ms k \<longrightarrow> value_at E props ms k \<noteq> None"
  shows "extract_positions E props (map (\<lambda>k. int (length (file_of (take k ms)))) ks) (reader_at (env_lib E) ms j) s =
    Some (Returned EC_NONE, snd (fold (store_step E props ms) ks s))"
  using ks val
proof (induction ks arbitrary: j s)
  case (Cons k ks)
  let ?L = "env_lib E"
  have k: "k < length ms" "extract_accepts props (file_info ?L ms k) = Some True"
    "selected E props ms k \<Longrightarrow> value_at E props ms k \<noteq> None"
    using Cons.prems by auto
  have m: "indexable (ms ! k)" using ix nth_mem [OF k(1)] by blast
  note rd = message_reader [OF L k(1) m]
  have "store_value E props (message_at ?L ms k) (file_info ?L ms k) (snd s) = Some (Inr
      (if has_grid (grid_data (file_info ?L ms k))
       then emplace_value (snd s) (info_key (file_info ?L ms k)) (stored E props ms k) else snd s))"
    using k by (intro store_value_reader) (simp add: selected_def)
  then have "extract_positions E props (map (\<lambda>k. int (length (file_of (take k ms)))) (k # ks)) (reader_at ?L ms j) s =
      extract_positions E props (map (\<lambda>k. int (length (file_of (take k ms)))) ks) (reader_at ?L ms k) (store_step E props ms k s)"
    using set_message_reader [OF k(1) size, of ?L j] rd stop k(2)
    by (simp add: store_step_def selected_def)
  then show ?case using Cons.IH Cons.prems by simp
qed simp

text \<open>Messages that are not accepted leave the data as it is.\<close>

lemma fold_store_accepted:
  "snd (fold (store_step E props ms) ks s) = snd (fold (store_step E props ms)
     (filter (\<lambda>k. extract_accepts props (file_info (env_lib E) ms k) = Some True) ks) (n, snd s))"
proof (induction ks arbitrary: s n)
  case (Cons k ks)
  show ?case
  proof (cases "extract_accepts props (file_info (env_lib E) ms k) = Some True")
    case True
    then show ?thesis using Cons.IH [of "store_step E props ms k s" "Suc n"] by (simp add: store_step_def)
  next
    case False
    then show ?thesis using Cons.IH [of "store_step E props ms k s" n] by (simp add: store_step_def selected_def)
  qed
qed simp

lemma extract_accepts_complete:
  "position props \<noteq> None \<Longrightarrow> extract_accepts props i \<noteq> None"
  by (cases "grid_type props") (auto simp: extract_accepts_def)

lemma index_of_file:
  assumes "lib_ok L" "\<forall>m\<in>set (m0 # ms). indexable m" "last (p4 m0) \<noteq> 55"
  shows "index_file L (Some (file_of (m0 # ms))) =
    Some (None, map (file_info L (m0 # ms)) [0..<length (m0 # ms)])"
proof -
  have "valid_message m0" using assms(2) by (simp add: indexable_def)
  from open_grib_reader [OF assms(1) this, of ms] show ?thesis
    using process_file_reader [OF assms(1,2)] assms(3)
    by (simp add: index_file_def file_info_def del: file_of_Cons upt_Suc)
qed

section \<open>An example\<close>

definition example_env :: extract_env where
  "example_env = \<lparr>env_lib = example_lib, env_fl = (\<lambda>x. x), env_is_correct_pos = (\<lambda>p. True), env_stop = (\<lambda>n. False)\<rparr>"

definition example_props :: SearchProperties where
  "example_props = \<lparr>parameters = {}, from_date = 0, to_date = 2 * 10 ^ 18, position = Some \<lparr>pos_lat = 0, pos_lon = 0\<rparr>,
     grid_type = Some LAT_LON_GRID_EQUIDIST_CYLINDR, search_center = Some 98, fcst_unit = None, search_level = None\<rparr>"

lemma example_define_grid:
  "define_grid example_lib (Some (p2 example_indexed @ r)) = Some (Grid_lat_lon
     \<lparr>base_part = \<lparr>ll_y1 = 0, ll_x1 = 0, ll_y2 = 0, ll_x2 = 0, ll_dy = 1, ll_dx = 1, ll_ny = 0, ll_nx = 0,
        ll_scan_mode = make_ScanMode 0, ll_resolutionAndComponentFlags = make_ResolutionComponentFlags 128\<rparr>,
      additional_part = ()\<rparr>)"
proof -
  have c: "(0 :: u8) = representation_code LAT_LON_GRID_EQUIDIST_CYLINDR" by simp
  have t: "get_representation_type (Some (p2 example_indexed @ r)) = Some (representation_code LAT_LON_GRID_EQUIDIST_CYLINDR)"
    by (simp add: get_representation_type_def example_indexed_def buf_simps)
  have f: "f32 0 = 0" "f32 1000 = 1000" "f32 1 = 1"
    using f32_int_small [of 0] f32_int_small [of 1000] f32_int_small [of 1] by simp_all
  show ?thesis
    unfolding define_grid_def t bind.bind_lunit emplace_by_id_code
    by (simp add: enum_indices_def emplaceImpl_def variant_constructors_def make_GridDefinition_def
        make_GridBase_LatLon_def make_No_additional_def GDS_LatLon_nx_def GDS_LatLon_ny_def GDS_LatLon_La1_def
        GDS_LatLon_Lo1_def GDS_LatLon_mode_def GDS_LatLon_La2_def GDS_LatLon_Lo2_def GDS_LatLon_dx_def
        GDS_LatLon_dy_def GDS_LatLon_scan_def example_indexed_def buf_simps INT2_at_def INT3_at_def lib_okD
        read_u_Some sign_magnitude_def be_nat_Cons milli_def f)
qed

lemma example_file_info:
  assumes "\<forall>m\<in>set ms. m = example_indexed" "k < length ms"
  shows "grid_data (file_info example_lib ms k) = Grid_lat_lon
     \<lparr>base_part = \<lparr>ll_y1 = 0, ll_x1 = 0, ll_y2 = 0, ll_x2 = 0, ll_dy = 1, ll_dx = 1, ll_ny = 0, ll_nx = 0,
        ll_scan_mode = make_ScanMode 0, ll_resolutionAndComponentFlags = make_ResolutionComponentFlags 128\<rparr>,
      additional_part = ()\<rparr>"
    "date (file_info example_lib ms k) = 1709143200 * 10 ^ 9"
    "info_key (file_info example_lib ms k) = make_CommonDataProperties (Some 98) (Some 3) (Some 11)"
    "extract_accepts example_props (file_info example_lib ms k) = Some True"
proof -
  have m: "ms ! k = example_indexed" using assms by simp
  have p: "p1 example_indexed = example_pds" by (simp add: example_indexed_def)
  show g: "grid_data (file_info example_lib ms k) = Grid_lat_lon
     \<lparr>base_part = \<lparr>ll_y1 = 0, ll_x1 = 0, ll_y2 = 0, ll_x2 = 0, ll_dy = 1, ll_dx = 1, ll_ny = 0, ll_nx = 0,
        ll_scan_mode = make_ScanMode 0, ll_resolutionAndComponentFlags = make_ResolutionComponentFlags 128\<rparr>,
      additional_part = ()\<rparr>"
    by (simp add: file_info_def info_of_def section_2_on_def m example_define_grid Let_def)
  have "reference_ns example_pds = 1709143200 * 10 ^ 9"
    by (simp add: reference_ns_def reference_date_def example_pds_def hour_number_def day_number_def year_start_def
        month_length_def leap_mod)
  then show d: "date (file_info example_lib ms k) = 1709143200 * 10 ^ 9" by (simp add: file_info_date m p)
  have c: "info_center (file_info example_lib ms k) = 98" "info_table_version (file_info example_lib ms k) = 3"
    "info_parameter (file_info example_lib ms k) = 11"
    by (simp_all add: file_info_def info_of_def Let_def m p example_pds_def)
  then show "info_key (file_info example_lib ms k) = make_CommonDataProperties (Some 98) (Some 3) (Some 11)"
    by (simp add: info_key_def)
  show "extract_accepts example_props (file_info example_lib ms k) = Some True"
    using g d c by (simp add: extract_accepts_def example_props_def has_grid_def pos_in_grid_def pos_in_lat_lon_def)
qed

lemma example_value_at:
  assumes "\<forall>m\<in>set ms. m = example_indexed" "k < length ms"
  shows "value_at example_env example_props ms k \<noteq> None"
proof -
  have m: "ms ! k = example_indexed" using assms by simp
  let ?r = "section_2_on ms k"
  have ok: "indexable (ms ! k)" using m example_indexed_ok by simp
  obtain mm where mm: "msg (reader_at example_lib ms k) = Some mm" "section_1 mm = Some (example_pds @ ?r)"
    "section_4 mm = Some (example_bds @ end_mark @ file_of (drop (k + 1) ms))"
  proof -
    have d: "file_of (drop k ms) = parts_bytes (ms ! k) @ (end_mark @ file_of (drop (k + 1) ms))"
      using assms(2) by (simp add: Cons_nth_drop_Suc [symmetric] message_bytes_def)
    have "parts_ok example_indexed" using example_indexed_ok by (simp add: indexable_def valid_message_def)
    from make_Message_parts [OF lib_ok_example this, of "end_mark @ file_of (drop (k + 1) ms)"]
    show ?thesis
      using that by (simp add: reader_at_def d m section_2_on_def)
        (simp add: example_indexed_def example_parts_def)
  qed
  have n: "value_by_raw example_lib (\<lambda>x. x) (\<lambda>p. True) \<lparr>pos_lat = 0, pos_lon = 0\<rparr> (grid_data (file_info example_lib ms k)) = Some (int 1)"
    by (simp add: example_file_info [OF assms] value_by_raw_def value_by_raw_lat_lon_def to_int_def)
  have "extract_value example_lib mm (int 1) \<noteq> None"
    using extract_value_two_octets [OF lib_ok_example mm(2,3), of 1]
    by (simp add: example_pds_def example_bds_def sign_magnitude_def be_nat_Cons nth_append)
  then show ?thesis
    using n mm(1) by (simp add: value_at_def example_env_def example_props_def message_at_def)
qed

lemma example_selected:
  "\<forall>m\<in>set ms. m = example_indexed \<Longrightarrow> k < length ms \<Longrightarrow> selected example_env example_props ms k"
  using example_file_info [of ms k] by (simp add: selected_def example_env_def has_grid_def)

section \<open>Properties\<close>

text \<open>
  C5: extracting from a file of valid messages at a position, with every filter given or not.  The
  loop ends without an error, and to the values of each key it appends, in the order of the file,
  the reference time and the decoded value of the messages that pass the filter, have a grid and
  belong to the key; nothing else changes.
\<close>

theorem extract_file_correct:
  assumes "lib_ok (env_lib E)" "\<forall>m\<in>set (m0 # ms). indexable m" "last (p4 m0) \<noteq> 55"
    "\<forall>n. \<not> env_stop E n" "position props \<noteq> None"
    "\<forall>k<length (m0 # ms). selected E props (m0 # ms) k \<longrightarrow> value_at E props (m0 # ms) k \<noteq> None"
  shows "\<exists>data'. extract_file E props (Some (file_of (m0 # ms))) data = Some (Returned EC_NONE, data') \<and>
    (\<forall>key. values_of data' key = values_of data key @
      map (stored E props (m0 # ms)) (filter (\<lambda>k. selected E props (m0 # ms) k \<and>
        info_key (file_info (env_lib E) (m0 # ms) k) = key) [0..<length (m0 # ms)]))"
proof -
  have "extract_file E props (Some (file_of (m0 # ms))) data =
    Some (Returned EC_NONE, snd (fold (store_step E props (m0 # ms)) [0..<length (m0 # ms)] (0, data)))"
    by (rule extract_file_reader [OF assms(1-4)]) (use assms(5,6) in \<open>simp_all add: extract_accepts_complete del: nth_Cons'\<close>)
  then show ?thesis using fold_store_step [of E props "m0 # ms" _ "(0, data)"] by (simp del: upt_Suc)
qed

theorem extract_file_correct_witness:
  "\<exists>data'. extract_file example_env example_props (Some (file_of [example_indexed, example_indexed])) Map.empty =
       Some (Returned EC_NONE, data') \<and>
     map time_date (values_of data' (make_CommonDataProperties (Some 98) (Some 3) (Some 11))) =
       [1709143200 * 10 ^ 9, 1709143200 * 10 ^ 9]"
proof -
  let ?ms = "[example_indexed, example_indexed]"
  have all: "\<forall>m\<in>set ?ms. m = example_indexed" by simp
  have sel: "selected example_env example_props ?ms k" "value_at example_env example_props ?ms k \<noteq> None"
    "info_key (file_info (env_lib example_env) ?ms k) = make_CommonDataProperties (Some 98) (Some 3) (Some 11)"
    "time_date (stored example_env example_props ?ms k) = 1709143200 * 10 ^ 9" if "k < length ?ms" for k
    using example_selected [OF all that] example_value_at [OF all that] example_file_info [OF all that]
    by (simp_all add: example_env_def stored_def file_info_date)
  have "\<exists>data'. extract_file example_env example_props (Some (file_of ?ms)) Map.empty = Some (Returned EC_NONE, data') \<and>
    (\<forall>key. values_of data' key = values_of Map.empty key @
      map (stored example_env example_props ?ms) (filter (\<lambda>k. selected example_env example_props ?ms k \<and>
        info_key (file_info (env_lib example_env) ?ms k) = key) [0..<length ?ms]))"
    by (rule extract_file_correct)
      (use sel(2) example_indexed_ok in \<open>auto simp: example_env_def example_props_def example_indexed_def
        example_parts_def example_bds_def\<close>)
  then show ?thesis using sel by (auto simp: values_of_def)
qed

text \<open>
  C6: indexing a file and extracting at the positions that the index gives for the accepted messages
  leaves the same data as extracting from the file with the filter.
\<close>

theorem index_then_extract:
  assumes "lib_ok (env_lib E)" "\<forall>m\<in>set (m0 # ms). indexable m" "last (p4 m0) \<noteq> 55"
    "\<forall>n. \<not> env_stop E n" "position props \<noteq> None" "length (file_of (m0 # ms)) < 2 ^ 64"
    "\<forall>k<length (m0 # ms). selected E props (m0 # ms) k \<longrightarrow> value_at E props (m0 # ms) k \<noteq> None"
  shows "\<exists>infos. index_file (env_lib E) (Some (file_of (m0 # ms))) = Some (None, infos) \<and>
    extract_file_positions E props (Some (file_of (m0 # ms)))
      (map buf_pos (filter (\<lambda>i. extract_accepts props i = Some True) infos)) data =
    extract_file E props (Some (file_of (m0 # ms))) data"
proof -
  let ?L = "env_lib E" and ?ms = "m0 # ms"
  let ?info = "file_info ?L ?ms"
  let ?ks = "filter (\<lambda>k. extract_accepts props (?info k) = Some True) [0..<length ?ms]"
  have pos: "map buf_pos (filter (\<lambda>i. extract_accepts props i = Some True) (map ?info [0..<length ?ms])) =
      map (\<lambda>k. int (length (file_of (take k ?ms)))) ?ks"
    by (simp add: filter_map comp_def file_info_def info_of_def Let_def del: upt_Suc take_Cons' file_of_Cons)
  have "extract_file_positions E props (Some (file_of ?ms)) (map (\<lambda>k. int (length (file_of (take k ?ms)))) ?ks) data =
      extract_positions E props (map (\<lambda>k. int (length (file_of (take k ?ms)))) ?ks) (reader_at ?L ?ms 0) (0, data)"
    using open_grib_reader [OF assms(1), of m0 ms] assms(2) message_bytes_pos [of m0]
    by (auto simp: extract_file_positions_def indexable_def file_size_def reader_at_def
        simp del: upt_Suc split: option.splits)
  also have "\<dots> = Some (Returned EC_NONE, snd (fold (store_step E props ?ms) ?ks (0, data)))"
    by (rule extract_positions_reader [OF assms(1,2,4,6)]) (use assms(7) in \<open>auto simp del: upt_Suc\<close>)
  also have "snd (fold (store_step E props ?ms) ?ks (0, data)) =
      snd (fold (store_step E props ?ms) [0..<length ?ms] (0, data))"
    using fold_store_accepted [of E props ?ms "[0..<length ?ms]" "(0, data)" 0] by simp
  also have "Some (Returned EC_NONE, \<dots>) = extract_file E props (Some (file_of ?ms)) data"
    by (rule extract_file_reader [OF assms(1-4), symmetric])
      (use assms(5,7) in \<open>simp_all add: extract_accepts_complete del: nth_Cons'\<close>)
  finally show ?thesis using index_of_file [OF assms(1-3)] pos by auto
qed

theorem index_then_extract_witness:
  "\<exists>infos. index_file example_lib (Some (file_of [example_indexed])) = Some (None, infos) \<and>
    extract_file_positions example_env example_props (Some (file_of [example_indexed]))
      (map buf_pos (filter (\<lambda>i. extract_accepts example_props i = Some True) infos)) Map.empty =
    extract_file example_env example_props (Some (file_of [example_indexed])) Map.empty"
proof -
  have all: "\<forall>m\<in>set [example_indexed]. m = example_indexed" by simp
  have l: "length (message_bytes example_indexed) = 91"
    using example_indexed_ok
    by (simp add: indexable_def length_message_bytes) (simp add: example_indexed_def be_nat_Cons)
  have "\<exists>infos. index_file (env_lib example_env) (Some (file_of [example_indexed])) = Some (None, infos) \<and>
    extract_file_positions example_env example_props (Some (file_of [example_indexed]))
      (map buf_pos (filter (\<lambda>i. extract_accepts example_props i = Some True) infos)) Map.empty =
    extract_file example_env example_props (Some (file_of [example_indexed])) Map.empty"
    by (rule index_then_extract)
      (use example_value_at [OF all] example_indexed_ok l in \<open>auto simp: example_env_def example_props_def example_indexed_def
        example_parts_def example_bds_def\<close>)
  then show ?thesis by (simp add: example_env_def)
qed

text \<open>
  The filters of extraction and of the integrity check.  With a grid type and a position given
  both accept the same messages; without a grid type the extraction looks neither at the date nor at
  the position, and accepts what passes the centre, the parameters and the forecast.
\<close>

theorem filters_agree:
  "(position props = Some p \<and> grid_type props = Some r \<longrightarrow>
     extract_accepts props i = Some (integrity_accepts props i)) \<and>
   (grid_type props = None \<longrightarrow> extract_accepts props i = Some (
     search_center props \<in> {None, Some (info_center i)} \<and>
     (parameters props = {} \<or> info_search_param i \<in> parameters props) \<and>
     fcst_unit props \<in> {None, Some (t_unit i)}))"
  by (auto simp: extract_accepts_def integrity_accepts_def)

theorem filters_agree_witness:
  "integrity_accepts example_props (file_info example_lib [example_indexed] 0) \<and>
   extract_accepts (example_props\<lparr>grid_type := None, to_date := 0\<rparr>) (file_info example_lib [example_indexed] 0) = Some True"
proof -
  have all: "\<forall>m\<in>set [example_indexed]. m = example_indexed" by simp
  note i = example_file_info [OF all, of 0]
  have c: "info_center (file_info example_lib [example_indexed] 0) = 98"
    by (simp add: file_info_def info_of_def Let_def example_indexed_def example_pds_def)
  show ?thesis
    using filters_agree [of example_props "\<lparr>pos_lat = 0, pos_lon = 0\<rparr>" LAT_LON_GRID_EQUIDIST_CYLINDR
        "file_info example_lib [example_indexed] 0"]
      filters_agree [of "example_props\<lparr>grid_type := None, to_date := 0\<rparr>" "\<lparr>pos_lat = 0, pos_lon = 0\<rparr>"
        LAT_LON_GRID_EQUIDIST_CYLINDR "file_info example_lib [example_indexed] 0"] i(4) c
    by (simp add: example_props_def)
qed

end
