(* ===== verification/Formats.thy ===== *)
theory Formats
  imports Prelude
begin

unbundle bit_operations_syntax

text \<open>
  Names of formats: data formats, types and their file extensions (\<^verbatim>\<open>src/data/def.cpp\<close>), the files of an
  index (\<^verbatim>\<open>src/proc/index/indexdatafileformat.cpp\<close>, \<^verbatim>\<open>indexoutputfileformat.cpp\<close>), the tokens of index
  names (\<^verbatim>\<open>src/proc/index/gen.cpp\<close>) and the output formats (\<^verbatim>\<open>include/sys/outputdatafileformats.h\<close>,
  \<^verbatim>\<open>src/proc/extract/gen.cpp\<close>, \<^verbatim>\<open>src/cmd_parse/types_parse/out_format_parse.cpp\<close>).
\<close>

section \<open>Data formats and types\<close>

datatype Data_f = GRIB_v1

datatype Data_t = TIME_SERIES | GRID | POLYGONE | ISOLINES

datatype Data_a = PUBLIC | PROTECTED | PRIVATE

definition extension_token :: "(Data_f \<times> string list) list" where
  "extension_token = [(GRIB_v1, [''.grib1'', ''.grib'', ''.gb'', ''.grb''])]"

text \<open>\<^verbatim>\<open>result[txt].push_back(token)\<close> for every text of every token.\<close>

definition push_back :: "'b \<Rightarrow> 'a \<Rightarrow> ('a \<rightharpoonup> 'b list) \<Rightarrow> ('a \<rightharpoonup> 'b list)" where
  "push_back v k m = m(k \<mapsto> (case m k of None \<Rightarrow> [] | Some vs \<Rightarrow> vs) @ [v])"

definition extension_name :: "string \<rightharpoonup> Data_f list" where
  "extension_name = fold (\<lambda>(token, txts). fold (push_back token) txts) extension_token Map.empty"

definition utility_extension_token :: "(Data_f \<times> string) list" where
  "utility_extension_token = [(GRIB_v1, ''.g1bd'')]"

definition data_format_token :: "(Data_f \<times> string) list" where
  "data_format_token = [(GRIB_v1, ''Grib1'')]"

definition data_type_token :: "(Data_t \<times> string) list" where
  "data_type_token = [(TIME_SERIES, ''meteo''), (POLYGONE, ''polygone''), (GRID, ''grid''), (ISOLINES, ''isolines'')]"

text \<open>\<^verbatim>\<open>result[txt] = token\<close> for every pair.\<close>

definition inverted :: "('t \<times> string) list \<Rightarrow> (string \<rightharpoonup> 't)" where
  "inverted tokens = fold (\<lambda>(token, txt) m. m(txt \<mapsto> token)) tokens Map.empty"

definition utility_extension_name :: "string \<rightharpoonup> Data_f" where
  "utility_extension_name = inverted utility_extension_token"

definition data_format_name :: "string \<rightharpoonup> Data_f" where
  "data_format_name = inverted data_format_token"

definition data_type_name :: "string \<rightharpoonup> Data_t" where
  "data_type_name = inverted data_type_token"

definition number_of_formats :: nat where "number_of_formats = length data_format_token"

definition number_of_types :: nat where "number_of_types = length data_type_token"

text \<open>
  A token without an entry makes \<^verbatim>\<open>at\<close> throw inside a function that is \<^verbatim>\<open>noexcept\<close>, which ends the
  program: \<^term>\<open>None\<close>.  The texts that are looked up give \<^term>\<open>None\<close> as a value.
\<close>

definition token_to_extensions :: "Data_f \<Rightarrow> string list option" where
  "token_to_extensions token = map_of extension_token token"

definition preferred_extension :: "Data_f \<Rightarrow> string option" where
  "preferred_extension format = do {
     exts \<leftarrow> token_to_extensions format;
     (case exts of [] \<Rightarrow> None | ext # _ \<Rightarrow> Some ext)}"

definition extension_to_tokens :: "string \<Rightarrow> Data_f list option" where
  "extension_to_tokens extension = extension_name extension"

definition to_data_format_name :: "Data_f \<Rightarrow> string option" where
  "to_data_format_name token = map_of data_format_token token"

definition bindata_filename :: string where "bindata_filename = ''data''"

definition filename_by_format :: "Data_f \<Rightarrow> string option" where
  "filename_by_format format = map_option (\<lambda>ext. bindata_filename @ ext) (preferred_extension format)"

definition to_data_format_token :: "string \<Rightarrow> Data_f option" where
  "to_data_format_token txt = data_format_name txt"

definition to_data_type_token :: "string \<Rightarrow> Data_t option" where
  "to_data_type_token txt = data_type_name txt"

definition to_data_type_name :: "Data_t \<Rightarrow> string option" where
  "to_data_type_name token = map_of data_type_token token"

definition utility_extension :: "Data_f \<Rightarrow> string option" where
  "utility_extension format = map_of utility_extension_token format"

definition utility_token :: "string \<Rightarrow> Data_f option" where
  "utility_token extension = utility_extension_name extension"

section \<open>Files of an index\<close>

text \<open>
  The enumerations have the consecutive values of an \<^verbatim>\<open>uint32_t\<close>, and the operators combine them like
  flags.  An undefined token is the exception \<^verbatim>\<open>invalid_argument\<close>.
\<close>

definition index_file_extensions :: "(u32 \<times> string) list" where
  "index_file_extensions = [(0, ''.bin''), (2, ''.grib''), (3, ''.hgt''), (1, ''.ieee''), (4, ''.nc'')]"

definition index_file_token_to_extension :: "u32 \<Rightarrow> string + string" where
  "index_file_token_to_extension token = (case map_of index_file_extensions token of
       None \<Rightarrow> Inl ''undefined indexing format'' | Some ext \<Rightarrow> Inr ext)"

definition index_token_or :: "u32 \<Rightarrow> u32 \<Rightarrow> u32" where "index_token_or l r = l OR r"
definition index_token_and :: "u32 \<Rightarrow> u32 \<Rightarrow> u32" where "index_token_and l r = l AND r"
definition index_token_xor :: "u32 \<Rightarrow> u32 \<Rightarrow> u32" where "index_token_xor l r = l XOR r"
definition index_token_not :: "u32 \<Rightarrow> u32" where "index_token_not v = NOT v"

definition index_output_extensions :: "(u32 \<times> string) list" where
  "index_output_extensions = [(0, ''.bin''), (1, ''.json''), (2, ''.xml'')]"

definition output_index_token_to_extension :: "u32 \<Rightarrow> string + string" where
  "output_index_token_to_extension token = (case map_of index_output_extensions token of
       None \<Rightarrow> Inl ''undefined indexing format'' | Some ext \<Rightarrow> Inr ext)"

section \<open>Tokens of index names\<close>

definition T_HOUR :: u64 where "T_HOUR = 1"
definition T_DAY :: u64 where "T_DAY = 2"
definition T_MONTH :: u64 where "T_MONTH = 4"
definition T_YEAR :: u64 where "T_YEAR = 8"
definition T_LATITUDE :: u64 where "T_LATITUDE = 16"
definition T_LONGITUDE :: u64 where "T_LONGITUDE = 32"
definition T_LATLON :: u64 where "T_LATLON = T_LATITUDE OR T_LONGITUDE"
definition T_GRID :: u64 where "T_GRID = 128"

lemmas token_defs = T_HOUR_def T_DAY_def T_MONTH_def T_YEAR_def T_LATITUDE_def T_LONGITUDE_def
  T_LATLON_def T_GRID_def

definition token_or :: "u64 \<Rightarrow> u64 \<Rightarrow> u64" where "token_or l r = l OR r"
definition token_and :: "u64 \<Rightarrow> u64 \<Rightarrow> u64" where "token_and l r = l AND r"
definition token_xor :: "u64 \<Rightarrow> u64 \<Rightarrow> u64" where "token_xor l r = l XOR r"
definition token_not :: "u64 \<Rightarrow> u64" where "token_not v = NOT v"

definition token_to_txt :: "(u64 \<times> string list) list" where
  "token_to_txt = [
     (T_HOUR, [''hour'', ''hours'']),
     (T_DAY, [''day'', ''days'']),
     (T_MONTH, [''month'', ''months'']),
     (T_YEAR, [''year'', ''years'']),
     (T_LATITUDE, [''lat'', ''latitude'']),
     (T_LONGITUDE, [''lon'', ''longitude'']),
     (T_LATLON, [''latlon'']),
     (T_GRID, [''grid''])]"

definition txt_to_token :: "string \<rightharpoonup> u64" where
  "txt_to_token = fold (\<lambda>(token, txts). fold (\<lambda>txt m. m(txt \<mapsto> token)) txts) token_to_txt Map.empty"

definition token_to_format :: "(u64 \<times> string) list" where
  "token_to_format = [
     (T_HOUR, ''{:%H}''),
     (T_DAY, ''{:%d}''),
     (T_MONTH, ''{:%m}''),
     (T_YEAR, ''{:%Y}''),
     (T_LATITUDE, ''{}''),
     (T_LONGITUDE, ''{}''),
     (T_LATLON, ''{}_{}''),
     (T_GRID, ''{}'')]"

text \<open>The counter of every token; a second occurrence is refused.\<close>

primrec count_tokens :: "(u64 \<Rightarrow> nat) \<Rightarrow> u64 list \<Rightarrow> bool" where
  "count_tokens counter [] = True"
| "count_tokens counter (t # ts) =
     (let counter = counter(t := Suc (counter t)) in
      if counter t > 1 then False else count_tokens counter ts)"

definition check_format :: "u64 list \<Rightarrow> bool" where
  "check_format tokens = count_tokens (\<lambda>_. 0) tokens"

definition invalid_sequence :: "string \<Rightarrow> string" where
  "invalid_sequence w = ''invalid sequence input. Prompt: token '' @ [CHR 0x22] @ w @ [CHR 0x22]"

text \<open>The loop over the words between separators.\<close>

function sequence_loop :: "string \<Rightarrow> u64 list \<Rightarrow> string + u64 list" where
  "sequence_loop s result =
     (if s = [] then Inr result
      else (case txt_to_token (takeWhile (\<lambda>c. c \<noteq> CHR ''/'') s) of
          None \<Rightarrow> Inl (invalid_sequence (takeWhile (\<lambda>c. c \<noteq> CHR ''/'') s))
        | Some t \<Rightarrow> (case dropWhile (\<lambda>c. c \<noteq> CHR ''/'') s of
            [] \<Rightarrow> Inr (result @ [t])
          | _ # s' \<Rightarrow> sequence_loop s' (result @ [t]))))"
  by auto

termination sequence_loop
proof (relation "measure (length \<circ> fst)", simp)
  fix s :: string and result t c s'
  assume "dropWhile (\<lambda>c. c \<noteq> CHR ''/'') s = c # s'"
  then have "length s' < length s"
    using length_dropWhile_le [of "\<lambda>c. c \<noteq> CHR ''/''" s] by simp
  then show "((s', result @ [t]), s, result) \<in> measure (length \<circ> fst)" by simp
qed

declare sequence_loop.simps [simp del]

definition input_to_token_sequence :: "string \<Rightarrow> string + u64 list" where
  "input_to_token_sequence s =
     sequence_loop (case s of c # s' \<Rightarrow> if c = CHR ''/'' then s' else s | [] \<Rightarrow> s) []"

definition check_format_text :: "string \<Rightarrow> string + bool" where
  "check_format_text fmt = map_sum id check_format (input_to_token_sequence fmt)"

text \<open>\<^verbatim>\<open>token_to_format_.at\<close> throws without an entry; the callers are \<^verbatim>\<open>noexcept\<close>.\<close>

definition token_format :: "u64 \<Rightarrow> string option" where
  "token_format token = map_of token_to_format token"

definition generate_filename_format :: "u64 list \<Rightarrow> string option" where
  "generate_filename_format tokens =
     map_option (\<lambda>fs. butlast (concat (map (\<lambda>f. f @ ''_'') fs))) (those (map token_format tokens))"

definition generate_directory_format :: "u64 list \<Rightarrow> string option" where
  "generate_directory_format tokens =
     map_option (\<lambda>fs. concat (map (\<lambda>f. f @ ''/'') fs)) (those (map token_format tokens))"

section \<open>Output formats\<close>

definition DEFAULT :: u32 where "DEFAULT = 0"
definition TXT_F :: u32 where "TXT_F = 1"
definition BIN_F :: u32 where "BIN_F = 2"
definition JSON_F :: u32 where "JSON_F = 4"
definition ARCHIVED :: u32 where "ARCHIVED = 1073741824"

lemmas output_format_defs = DEFAULT_def TXT_F_def BIN_F_def JSON_F_def ARCHIVED_def

definition output_or :: "u32 \<Rightarrow> u32 \<Rightarrow> u32" where "output_or l r = l OR r"
definition output_and :: "u32 \<Rightarrow> u32 \<Rightarrow> u32" where "output_and l r = l AND r"
definition output_xor :: "u32 \<Rightarrow> u32 \<Rightarrow> u32" where "output_xor l r = l XOR r"
definition output_not :: "u32 \<Rightarrow> u32" where "output_not v = NOT v"

definition get_file_fmt :: "u32 \<Rightarrow> string" where
  "get_file_fmt fmt = (let f = output_and fmt (output_not ARCHIVED) in
     if f = TXT_F then ''.txt'' else if f = BIN_F then ''.bin'' else if f = JSON_F then ''.json'' else ''.txt'')"

text \<open>The case of JSON falls through to the exception.\<close>

definition output_format_text :: "u32 \<Rightarrow> string + string" where
  "output_format_text input =
     (let f = output_and input (output_not ARCHIVED);
          result = (if f = BIN_F then Some ''bin'' else if f = DEFAULT \<or> f = TXT_F then Some ''txt'' else None)
      in case result of
           None \<Rightarrow> Inl ''invalid input of output format''
         | Some r \<Rightarrow> Inr (if output_and input ARCHIVED \<noteq> 0 then r @ ''zip'' else r))"

text \<open>
  The texts that match \<^verbatim>\<open>^((txt|bin|json)(\+zip)?|(zip\+)?(txt|bin|json))$\<close>, with the name of the format
  and whether the archive is asked for.  The bits are added to an uninitialised value, the first argument.
\<close>

definition output_format_matches :: "(string \<times> string \<times> bool) list" where
  "output_format_matches = concat (map (\<lambda>f. [(f, f, False), (f @ ''+zip'', f, True), (''zip+'' @ f, f, True)])
     [''txt'', ''bin'', ''json''])"

definition output_format_of_text :: "u32 \<Rightarrow> string \<Rightarrow> string + u32" where
  "output_format_of_text fmt input = (case map_of output_format_matches input of
       None \<Rightarrow> Inl input
     | Some (f, zipped) \<Rightarrow>
         (let fmt = output_or fmt (if f = ''txt'' then TXT_F else if f = ''bin'' then BIN_F else JSON_F)
          in Inr (if zipped then output_or fmt ARCHIVED else fmt)))"

section \<open>Facts\<close>

lemma data_type_names [simp]:
  "data_type_name ''meteo'' = Some TIME_SERIES" "data_type_name ''polygone'' = Some POLYGONE"
  "data_type_name ''grid'' = Some GRID" "data_type_name ''isolines'' = Some ISOLINES"
  by (simp_all add: data_type_name_def inverted_def data_type_token_def)

lemma token_values_distinct [simp]: "distinct (map fst token_to_txt)"
  by (simp add: token_to_txt_def token_defs)

text \<open>Every text of a token is looked up as that token and contains no separator.\<close>

lemma token_texts:
  assumes "(t, txts) \<in> set token_to_txt" "w \<in> set txts"
  shows "txt_to_token w = Some t" "CHR ''/'' \<notin> set w" "w \<noteq> []"
proof -
  have "list_all (\<lambda>(t, txts). list_all (\<lambda>w. txt_to_token w = Some t \<and> CHR ''/'' \<notin> set w \<and> w \<noteq> []) txts) token_to_txt"
    by code_simp
  with assms show "txt_to_token w = Some t" "CHR ''/'' \<notin> set w" "w \<noteq> []"
    by (auto simp: list_all_iff)
qed

lemma takeWhile_word:
  assumes "CHR ''/'' \<notin> set w"
  shows "takeWhile (\<lambda>c. c \<noteq> CHR ''/'') (w @ CHR ''/'' # s) = w"
    "dropWhile (\<lambda>c. c \<noteq> CHR ''/'') (w @ CHR ''/'' # s) = CHR ''/'' # s"
    "takeWhile (\<lambda>c. c \<noteq> CHR ''/'') w = w" "dropWhile (\<lambda>c. c \<noteq> CHR ''/'') w = []"
  using assms by (induction w) auto

text \<open>Words joined by the separator.\<close>

fun join_words :: "string list \<Rightarrow> string" where
  "join_words [] = []"
| "join_words [w] = w"
| "join_words (w # ws) = w @ CHR ''/'' # join_words ws"

definition word_of_token :: "string \<Rightarrow> u64 \<Rightarrow> bool" where
  "word_of_token w t \<longleftrightarrow> (\<exists>txts. (t, txts) \<in> set token_to_txt \<and> w \<in> set txts)"

lemma word_of_tokenD:
  assumes "word_of_token w t"
  shows "txt_to_token w = Some t" "CHR ''/'' \<notin> set w" "w \<noteq> []"
proof -
  from assms obtain txts where "(t, txts) \<in> set token_to_txt" "w \<in> set txts"
    unfolding word_of_token_def by blast
  from token_texts [OF this]
  show "txt_to_token w = Some t" "CHR ''/'' \<notin> set w" "w \<noteq> []" .
qed

lemma sequence_loop_words:
  assumes "list_all2 word_of_token ws ts"
  shows "sequence_loop (join_words ws) result = Inr (result @ ts)"
  using assms
proof (induction ws arbitrary: ts result rule: join_words.induct)
  case 1
  then show ?case by (simp add: sequence_loop.simps)
next
  case (2 w)
  then obtain t where "ts = [t]" "word_of_token w t" by (auto simp: list_all2_Cons1)
  then show ?case by (simp add: sequence_loop.simps [of w] word_of_tokenD takeWhile_word)
next
  case (3 w v ws)
  then obtain t ts' where ts: "ts = t # ts'" "word_of_token w t" "list_all2 word_of_token (v # ws) ts'"
    by (auto simp: list_all2_Cons1)
  have "sequence_loop (join_words (w # v # ws)) result = sequence_loop (join_words (v # ws)) (result @ [t])"
    by (simp add: sequence_loop.simps [of "w @ _"] word_of_tokenD [OF ts(2)] takeWhile_word)
  with 3(1) [OF ts(3)] ts(1) show ?case by simp
qed

lemma count_tokens_distinct:
  assumes "\<forall>t. counter t \<le> 1"
  shows "count_tokens counter ts \<longleftrightarrow> distinct ts \<and> (\<forall>t\<in>set ts. counter t = 0)"
  using assms
proof (induction ts arbitrary: counter)
  case (Cons t ts)
  show ?case
  proof (cases "counter t = 0")
    case True
    then have "\<forall>x. (counter(t := Suc (counter t))) x \<le> 1" using Cons.prems by simp
    note step = Cons.IH [OF this]
    have "count_tokens counter (t # ts) = count_tokens (counter(t := Suc (counter t))) ts"
      using True by (simp add: Let_def)
    then show ?thesis unfolding step using True by auto
  next
    case False
    with Cons.prems show ?thesis by (simp add: Let_def)
  qed
qed simp

lemma join_words_head:
  assumes "list_all2 word_of_token ws ts" "join_words ws = c # s"
  shows "c \<noteq> CHR ''/''"
proof -
  from assms(2) obtain w ws' where ws: "ws = w # ws'" by (cases ws) auto
  with assms(1) obtain t where "word_of_token w t" by (auto simp: list_all2_Cons1)
  note w = word_of_tokenD(2,3) [OF this]
  from w(2) obtain d w' where d: "w = d # w'" by (cases w) auto
  with assms(2) ws have "c = d" by (cases ws') simp_all
  with d w(1) show ?thesis by auto
qed

section \<open>Properties\<close>

text \<open>
  The names and extensions of data formats and types are read back as what they name; but the
  extension under which data is saved is not one that reading accepts.
\<close>

theorem format_names:
  "Option.bind (to_data_type_name t) to_data_type_token = Some t \<and>
   Option.bind (to_data_format_name f) to_data_format_token = Some f \<and>
   Option.bind (utility_extension f) utility_token = Some f \<and>
   map_option (\<lambda>exts. list_all (\<lambda>ext. extension_to_tokens ext = Some [f]) exts) (token_to_extensions f) = Some True \<and>
   Option.bind (preferred_extension f) utility_token = None"
  by (cases t; cases f) (simp_all add: to_data_type_name_def to_data_type_token_def data_type_token_def
      to_data_format_name_def to_data_format_token_def data_format_token_def data_format_name_def inverted_def
      utility_extension_def utility_token_def utility_extension_token_def utility_extension_name_def
      token_to_extensions_def extension_token_def extension_to_tokens_def extension_name_def push_back_def
      preferred_extension_def)

text \<open>
  C32: a sequence of words that name tokens, joined by the separator with or without one in front, is read as
  these tokens; and a sequence is accepted exactly if no token occurs twice.
\<close>

theorem index_tokens_read:
  assumes "list_all2 word_of_token ws ts"
  shows "input_to_token_sequence (join_words ws) = Inr ts \<and>
    input_to_token_sequence (CHR ''/'' # join_words ws) = Inr ts \<and>
    check_format_text (join_words ws) = Inr (distinct ts)"
proof -
  have read: "sequence_loop (join_words ws) [] = Inr ts" using sequence_loop_words [OF assms] by simp
  have whole: "input_to_token_sequence (join_words ws) = Inr ts"
    using read join_words_head [OF assms] by (cases "join_words ws") (simp_all add: input_to_token_sequence_def)
  moreover have "input_to_token_sequence (CHR ''/'' # join_words ws) = Inr ts"
    using read by (simp add: input_to_token_sequence_def)
  moreover have "check_format ts = distinct ts"
    by (simp add: check_format_def count_tokens_distinct)
  ultimately show ?thesis by (simp add: check_format_text_def)
qed

theorem index_tokens_read_witness:
  "input_to_token_sequence ''/year/months/lat'' = Inr [8, 4, 16] \<and>
   check_format_text ''days/day'' = Inr False"
proof -
  have "list_all2 word_of_token [''year'', ''months'', ''lat''] [8, 4, 16]"
    "list_all2 word_of_token [''days'', ''day''] [2, 2]"
    by (simp_all add: word_of_token_def token_to_txt_def token_defs)
  from index_tokens_read [OF this(1)] index_tokens_read [OF this(2)] show ?thesis by simp
qed

section \<open>Divergences\<close>

text \<open>
  The text of a format is not always one that is accepted, and JSON has none; what is read depends on
  the uninitialised value.
\<close>

lemma output_format_not_read_back:
  "output_format_text (TXT_F OR ARCHIVED) = Inr ''txtzip''"
  "output_format_of_text fmt ''txtzip'' = Inl ''txtzip''"
  "output_format_text JSON_F = Inl ''invalid input of output format''"
  "output_format_of_text fmt ''txt'' = Inr (fmt OR TXT_F)"
  by (simp_all add: output_format_text_def output_format_of_text_def output_format_matches_def
      output_and_def output_or_def output_not_def output_format_defs)

end
