(* ===== verification/Extract_Write.thy ===== *)
theory Extract_Write
  imports Extracting Formats "HOL-Library.Multiset"
begin

text \<open>
  Writing extracted data: the windows of \<^verbatim>\<open>write_json_file\<close> and \<^verbatim>\<open>write_bin_file\<close>, the rows of
  \<^verbatim>\<open>write_txt_file\<close> (\<^verbatim>\<open>src/proc/extract/write.cpp\<close>), the choice between them and the process that runs
  them (\<^verbatim>\<open>src/proc/extract.cpp\<close>).
\<close>

section \<open>Opening a file\<close>

text \<open>What the file system answers about a path, in the order of the questions.\<close>

record path_answers =
  parent_exists :: bool
  parent_created :: bool
  file_opened :: bool
  regular_with_permissions :: bool

definition make_dir :: "path_answers \<Rightarrow> ErrorCode option" where
  "make_dir a = (if \<not> parent_exists a then
       if \<not> parent_created a then Some EC_CANNOT_ACCESS_PATH_X1 else None
     else None)"

text \<open>The exception, or whether the stream is open.\<close>

definition make_and_open_file :: "path_answers \<Rightarrow> ErrorCode + bool" where
  "make_and_open_file a = (case make_dir a of
       Some e \<Rightarrow> Inl e
     | None \<Rightarrow> if \<not> file_opened a \<and> regular_with_permissions a then Inl EC_FILE_X1_PERM_DENIED
         else Inr (file_opened a))"

section \<open>The environment\<close>

text \<open>
  OsterLib's \<^verbatim>\<open>TimePeriod::get_next_tp\<close>, the directory and file name that belong to a time (rounded to the
  period and formatted by the standard library), \<^verbatim>\<open>operator/=\<close> of paths, the file system, whether all of a
  stream was written, the exception that leaves the header of a text file, and the requests to stop.
\<close>

record 'p write_env =
  next_tp :: "int \<Rightarrow> int"
  out_dir :: "int \<Rightarrow> 'p"
  out_name :: "u32 \<Rightarrow> int \<Rightarrow> 'p"
  slash :: "'p \<Rightarrow> 'p \<Rightarrow> 'p"
  no_path :: 'p
  answers :: "'p \<Rightarrow> path_answers"
  written_all :: "'p \<Rightarrow> bool"
  header_error :: "ErrorCode option"
  stop_at :: "nat \<Rightarrow> bool"

text \<open>The limits of \<^verbatim>\<open>utc_tp\<close>, a count of 64 bits.\<close>

definition utc_max :: int where "utc_max = 2 ^ 63 - 1"
definition utc_min :: int where "utc_min = - (2 ^ 63)"

text \<open>
  The series in the order of the map.  \<^verbatim>\<open>std::sort\<close> leaves the order of values with equal times open: it is
  an argument.
\<close>

type_synonym 'k series = "('k \<times> ExtractedValue list) list"

definition sort_ok :: "(ExtractedValue list \<Rightarrow> ExtractedValue list) \<Rightarrow> bool" where
  "sort_ok srt \<longleftrightarrow> (\<forall>vs. mset (srt vs) = mset vs \<and> sorted (map time_date (srt vs)))"

definition sort_series :: "(ExtractedValue list \<Rightarrow> ExtractedValue list) \<Rightarrow> 'k series \<Rightarrow> 'k series" where
  "sort_series srt result = map (\<lambda>(k, vs). (k, srt vs)) result"

definition first_times :: "'k series \<Rightarrow> int list" where
  "first_times result = map (\<lambda>(k, vs). time_date (hd vs)) (filter (\<lambda>(k, vs). vs \<noteq> []) result)"

definition min_time :: "'k series \<Rightarrow> int" where
  "min_time result = fold min (first_times result) utc_max"

text \<open>The maximum of the first times, not of the last ones.\<close>

definition max_time :: "'k series \<Rightarrow> int" where
  "max_time result = fold max (first_times result) utc_min"

section \<open>Windows\<close>

record ('p, 'c) out_state =
  out_files :: "('p \<times> 'c) list"
  out_paths :: "'p set"

text \<open>Opening truncates a file that was written before.\<close>

definition put_file :: "'p \<Rightarrow> 'c \<Rightarrow> ('p, 'c) out_state \<Rightarrow> ('p, 'c) out_state" where
  "put_file p c st = st\<lparr>out_files := filter (\<lambda>(q, _). q \<noteq> p) (out_files st) @ [(p, c)]\<rparr>"

definition remove_file :: "'p \<Rightarrow> ('p, 'c) out_state \<Rightarrow> ('p, 'c) out_state" where
  "remove_file p st = st\<lparr>out_files := filter (\<lambda>(q, _). q \<noteq> p) (out_files st)\<rparr>"

text \<open>
  From \<^verbatim>\<open>lower_bound\<close> of the one time to \<^verbatim>\<open>upper_bound\<close> of the other; a span that ends before it begins is
  undefined.
\<close>

definition values_between :: "int \<Rightarrow> int \<Rightarrow> ExtractedValue list \<Rightarrow> ExtractedValue list option" where
  "values_between lower upper vs =
     (let a = length (takeWhile (\<lambda>v. time_date v < lower) vs);
          b = length (takeWhile (\<lambda>v. time_date v \<le> upper) vs)
      in if b < a then None else Some (take (b - a) (drop a vs)))"

definition file_path :: "'p write_env \<Rightarrow> u32 \<Rightarrow> 'p \<Rightarrow> int \<Rightarrow> 'p" where
  "file_path E fmt p t = slash E (slash E p (out_dir E t)) (out_name E fmt t)"

definition window_series :: "int \<Rightarrow> int \<Rightarrow> 'k series \<Rightarrow> 'k series option" where
  "window_series lower upper result =
     those (map (\<lambda>(k, vs). map_option (Pair k) (values_between lower upper vs)) result)"

text \<open>A JSON file lists every key; one that could not be written stays but is not named.\<close>

definition write_json_window ::
    "'p write_env \<Rightarrow> 'k series \<Rightarrow> int \<Rightarrow> int \<Rightarrow> ('p, 'k series) out_state \<Rightarrow>
     ((ErrorCode \<times> ('p, 'k series) out_state) + ('p, 'k series) out_state) option" where
  "write_json_window E result lower upper st =
     (let p = file_path E JSON_F (no_path E) lower in
      case make_and_open_file (answers E p) of
        Inl e \<Rightarrow> Some (Inl (e, st))
      | Inr opened \<Rightarrow> if \<not> opened then Some (Inl (EC_CANNOT_OPEN_FILE_X1, st)) else do {
          c \<leftarrow> window_series lower upper result;
          Some (Inr (if written_all E p then (put_file p c st)\<lparr>out_paths := insert p (out_paths st)\<rparr>
            else put_file p c st))})"

text \<open>A binary file omits the keys without values, and is removed if it could not be written.\<close>

definition write_bin_window ::
    "'p write_env \<Rightarrow> 'k series \<Rightarrow> int \<Rightarrow> int \<Rightarrow> ('p, 'k series) out_state \<Rightarrow>
     ((ErrorCode \<times> ('p, 'k series) out_state) + ('p, 'k series) out_state) option" where
  "write_bin_window E result lower upper st =
     (let p = file_path E BIN_F (no_path E) lower in
      case make_and_open_file (answers E p) of
        Inl e \<Rightarrow> Some (Inl (e, st))
      | Inr opened \<Rightarrow> if \<not> opened then Some (Inl (EC_CANNOT_OPEN_FILE_X1, st)) else do {
          c \<leftarrow> window_series lower upper result;
          let c = filter (\<lambda>(k, vs). vs \<noteq> []) c;
          Some (Inr (if written_all E p then (put_file p c st)\<lparr>out_paths := insert p (out_paths st)\<rparr>
            else remove_file p st))})"

text \<open>The loop over the windows; it ends only if the periods pass the maximum.\<close>

partial_function (option) write_windows ::
    "(int \<Rightarrow> int \<Rightarrow> 's \<Rightarrow> ((ErrorCode \<times> 's) + 's) option) \<Rightarrow> (int \<Rightarrow> int) \<Rightarrow> int \<Rightarrow> int \<Rightarrow> int \<Rightarrow> 's \<Rightarrow>
     ((ErrorCode \<times> 's) + 's) option" where
  "write_windows window next_time last_time lower upper st =
     (if lower > last_time then Some (Inr st)
      else Option.bind (window lower upper st) (\<lambda>r. case r of
          Inl e \<Rightarrow> Some (Inl e)
        | Inr st \<Rightarrow> write_windows window next_time last_time upper (next_time upper) st))"

definition no_files :: "('p, 'c) out_state" where
  "no_files = \<lparr>out_files = [], out_paths = {}\<rparr>"

definition write_json_file ::
    "(ExtractedValue list \<Rightarrow> ExtractedValue list) \<Rightarrow> 'p write_env \<Rightarrow> 'k series \<Rightarrow>
     ((ErrorCode \<times> ('p, 'k series) out_state) + ('p, 'k series) out_state) option" where
  "write_json_file srt E result =
     (let result = sort_series srt result; lower = min_time result in
      write_windows (write_json_window E result) (next_tp E) (max_time result) lower (next_tp E lower) no_files)"

definition write_bin_file ::
    "(ExtractedValue list \<Rightarrow> ExtractedValue list) \<Rightarrow> 'p write_env \<Rightarrow> 'k series \<Rightarrow>
     ((ErrorCode \<times> ('p, 'k series) out_state) + ('p, 'k series) out_state) option" where
  "write_bin_file srt E result =
     (if result = [] then Some (Inr no_files)
      else let result = sort_series srt result; lower = min_time result in
      write_windows (write_bin_window E result) (next_tp E) (max_time result) lower (next_tp E lower) no_files)"

section \<open>Rows\<close>

text \<open>A row of a text file: the time and a value or \<^verbatim>\<open>NaN\<close> for every column.\<close>

type_synonym row = "int \<times> rat option list"

record 'p txt_state =
  next_in :: "nat list"
  file_end_time :: int
  out_f_name :: 'p
  out_open :: bool
  txt_files :: "('p \<times> row list) list"
  txt_paths :: "'p set"

definition remaining :: "ExtractedValue list list \<Rightarrow> nat list \<Rightarrow> int list" where
  "remaining cols rows = map (\<lambda>(vs, i). time_date (vs ! i)) (filter (\<lambda>(vs, i). i < length vs) (zip cols rows))"

definition has_time :: "int \<Rightarrow> ExtractedValue list \<times> nat \<Rightarrow> bool" where
  "has_time t = (\<lambda>(vs, i). i < length vs \<and> time_date (vs ! i) = t)"

definition row_cells :: "int \<Rightarrow> ExtractedValue list list \<Rightarrow> nat list \<Rightarrow> rat option list" where
  "row_cells t cols rows =
     map (\<lambda>(vs, i). if has_time t (vs, i) then Some (extracted_value (vs ! i)) else None) (zip cols rows)"

definition advance_rows :: "int \<Rightarrow> ExtractedValue list list \<Rightarrow> nat list \<Rightarrow> nat list" where
  "advance_rows t cols rows = map (\<lambda>(vs, i). if has_time t (vs, i) then Suc i else i) (zip cols rows)"

text \<open>The stream writes to the file opened last; writing to a closed stream has no effect.\<close>

definition append_row :: "row \<Rightarrow> ('p \<times> row list) list \<Rightarrow> ('p \<times> row list) list" where
  "append_row r fs = butlast fs @ [(fst (last fs), snd (last fs) @ [r])]"

text \<open>The next file: its name is appended to the name of the one before.\<close>

definition open_txt ::
    "'p write_env \<Rightarrow> int \<Rightarrow> 'p txt_state \<Rightarrow> (ErrorCode \<times> 'p txt_state) + 'p txt_state" where
  "open_txt E t st =
     (let p = file_path E TXT_F (out_f_name st) t in
      case make_and_open_file (answers E p) of
        Inl e \<Rightarrow> Inl (e, st\<lparr>out_open := False\<rparr>)
      | Inr opened \<Rightarrow>
          (let st = st\<lparr>out_f_name := p, out_open := opened, txt_paths := insert p (txt_paths st),
                 txt_files := (if opened then filter (\<lambda>(q, _). q \<noteq> p) (txt_files st) @ [(p, [])] else txt_files st)\<rparr>
           in case header_error E of
                Some e \<Rightarrow> Inl (e, st)
              | None \<Rightarrow> Inr (st\<lparr>file_end_time := next_tp E t\<rparr>)))"

definition write_row ::
    "'p write_env \<Rightarrow> ExtractedValue list list \<Rightarrow> nat \<Rightarrow> 'p txt_state \<Rightarrow> (ErrorCode \<times> 'p txt_state) + 'p txt_state" where
  "write_row E cols row st =
     (if stop_at E row then Inl (EC_INTERRUPTED, st)
      else let t = fold min (remaining cols (next_in st)) utc_max in
        case (if t \<ge> file_end_time st \<or> row = 0 then open_txt E t st else Inr st) of
          Inl e \<Rightarrow> Inl e
        | Inr st \<Rightarrow> Inr (st\<lparr>txt_files := (if out_open st
              then append_row (t, row_cells t cols (next_in st)) (txt_files st) else txt_files st),
              next_in := advance_rows t cols (next_in st)\<rparr>))"

primrec write_rows ::
    "'p write_env \<Rightarrow> ExtractedValue list list \<Rightarrow> nat list \<Rightarrow> 'p txt_state \<Rightarrow> (ErrorCode \<times> 'p txt_state) + 'p txt_state" where
  "write_rows E cols [] st = Inr st"
| "write_rows E cols (r # rs) st = (case write_row E cols r st of
     Inl e \<Rightarrow> Inl e | Inr st \<Rightarrow> write_rows E cols rs st)"

definition columns :: "'k series \<Rightarrow> ExtractedValue list list" where
  "columns result = filter (\<lambda>vs. vs \<noteq> []) (map snd result)"

definition max_length :: "'k series \<Rightarrow> nat" where
  "max_length result = fold max (map (\<lambda>(k, vs). length vs) result) 0"

definition txt_start :: "'p write_env \<Rightarrow> 'k series \<Rightarrow> 'p txt_state" where
  "txt_start E result = \<lparr>next_in = replicate (length (columns result)) 0,
     file_end_time = next_tp E (min_time result), out_f_name = no_path E, out_open = False,
     txt_files = [], txt_paths = {}\<rparr>"

text \<open>As many rows as the longest column has values.\<close>

definition write_txt_file ::
    "(ExtractedValue list \<Rightarrow> ExtractedValue list) \<Rightarrow> 'p write_env \<Rightarrow> 'k series \<Rightarrow>
     (ErrorCode \<times> 'p txt_state) + 'p txt_state" where
  "write_txt_file srt E result =
     (let sorted_result = sort_series srt result in
      if result = [] then Inr (txt_start E result)
      else write_rows E (columns sorted_result) [0..<max_length sorted_result] (txt_start E sorted_result))"

section \<open>The process\<close>

text \<open>
  The exceptions become the returned code; \<open>archive\<close> is what the archive writer throws for the
  files that were written.
\<close>

definition Extract_write_file ::
    "(ExtractedValue list \<Rightarrow> ExtractedValue list) \<Rightarrow> 'p write_env \<Rightarrow> ('p set \<Rightarrow> ErrorCode option) \<Rightarrow> 'k series \<Rightarrow> u32 \<Rightarrow>
     ErrorCode option" where
  "Extract_write_file srt E archive result FORMAT = do {
     let f = output_and FORMAT (output_not ARCHIVED);
     written \<leftarrow> (if f = BIN_F then map_option (map_sum fst out_paths) (write_bin_file srt E result)
       else if f = JSON_F then map_option (map_sum fst out_paths) (write_json_file srt E result)
       else Some (map_sum fst txt_paths (write_txt_file srt E result)));
     Some (case written of
         Inl e \<Rightarrow> e
       | Inr paths \<Rightarrow> if output_and FORMAT ARCHIVED \<noteq> 0
           then (case archive paths of Some e \<Rightarrow> e | None \<Rightarrow> EC_NONE) else EC_NONE)}"

text \<open>
  \<^verbatim>\<open>execute\<close> over given files: whether each is in the index, and its contents.  Without files it calls
  \<^verbatim>\<open>match_data\<close>, and for a file of the index \<^verbatim>\<open>match\<close>: both end without returning a value, which is
  undefined.  An exception would leave a function that is \<^verbatim>\<open>noexcept\<close>.  The codes of the calls are
  ignored.
\<close>

primrec extract_paths ::
    "extract_env \<Rightarrow> SearchProperties \<Rightarrow> (bool \<times> buffer option) list \<Rightarrow> ExtractedValues \<Rightarrow> ExtractedValues option" where
  "extract_paths E props [] data = Some data"
| "extract_paths E props (p # ps) data =
     (if fst p then None
      else do {
        (e, data) \<leftarrow> extract_file E props (snd p) data;
        (case e of Returned c \<Rightarrow> extract_paths E props ps data | _ \<Rightarrow> None)})"

definition Extract_execute ::
    "extract_env \<Rightarrow> (ExtractedValue list \<Rightarrow> ExtractedValue list) \<Rightarrow> 'p write_env \<Rightarrow> ('p set \<Rightarrow> ErrorCode option) \<Rightarrow>
     (ExtractedValues \<Rightarrow> CommonDataProperties series) \<Rightarrow> SearchProperties \<Rightarrow> u32 \<Rightarrow> (bool \<times> buffer option) list \<Rightarrow>
     ErrorCode option" where
  "Extract_execute E srt W archive entries props fmt in_path =
     (if in_path = [] then None
      else do {
        result \<leftarrow> extract_paths E props in_path Map.empty;
        if entries result = [] then Some EC_NONE
        else do {
          e \<leftarrow> Extract_write_file srt W archive (entries result) fmt;
          Some EC_NONE}})"

section \<open>Facts about windows\<close>

lemma takeWhile_sorted:
  fixes f :: "'a \<Rightarrow> int"
  assumes "sorted (map f vs)"
  shows "takeWhile (\<lambda>v. f v < t) vs = filter (\<lambda>v. f v < t) vs"
    "takeWhile (\<lambda>v. f v \<le> t) vs = filter (\<lambda>v. f v \<le> t) vs"
  using assms by (induction vs) (auto simp: empty_filter_conv not_less not_le)

text \<open>Between two bounds in order, the values of a sorted series in the closed interval.\<close>

lemma values_between_sorted:
  assumes "sorted (map time_date vs)" "lower \<le> upper"
  shows "values_between lower upper vs = Some (filter (\<lambda>v. lower \<le> time_date v \<and> time_date v \<le> upper) vs)"
proof -
  let ?a = "length (takeWhile (\<lambda>v. time_date v < lower) vs)"
  let ?b = "length (takeWhile (\<lambda>v. time_date v \<le> upper) vs)"
  have split: "vs = takeWhile (\<lambda>v. time_date v < lower) vs @ dropWhile (\<lambda>v. time_date v < lower) vs"
    by simp
  have dropped: "drop ?a vs = dropWhile (\<lambda>v. time_date v < lower) vs"
    by (metis append_eq_conv_conj split)
  have rest: "sorted (map time_date (drop ?a vs))"
    using assms(1) by (simp add: drop_map [symmetric] sorted_wrt_drop)
  have above: "lower \<le> time_date v" if "v \<in> set (drop ?a vs)" for v
  proof -
    from that obtain w ws where ws: "drop ?a vs = w # ws" by (cases "drop ?a vs") auto
    with dropped have "lower \<le> time_date w"
      by (metis hd_dropWhile list.distinct(1) list.sel(1) not_le)
    with rest ws that show ?thesis by auto
  qed
  have two: "takeWhile (\<lambda>v. time_date v \<le> upper) vs =
      takeWhile (\<lambda>v. time_date v < lower) vs @ takeWhile (\<lambda>v. time_date v \<le> upper) (drop ?a vs)"
  proof -
    have "takeWhile (\<lambda>v. time_date v \<le> upper) (takeWhile (\<lambda>v. time_date v < lower) vs @ drop ?a vs) =
        takeWhile (\<lambda>v. time_date v < lower) vs @ takeWhile (\<lambda>v. time_date v \<le> upper) (drop ?a vs)"
      using assms(2) by (intro takeWhile_append2) (auto dest: set_takeWhileD)
    then show ?thesis using dropped by simp
  qed
  have "filter (\<lambda>v. lower \<le> time_date v \<and> time_date v \<le> upper) vs =
      filter (\<lambda>v. time_date v \<le> upper) (drop ?a vs)"
  proof -
    have "filter (\<lambda>v. lower \<le> time_date v \<and> time_date v \<le> upper) (takeWhile (\<lambda>v. time_date v < lower) vs) = []"
      by (auto simp: filter_empty_conv dest: set_takeWhileD)
    moreover have "filter (\<lambda>v. lower \<le> time_date v \<and> time_date v \<le> upper) (drop ?a vs) =
        filter (\<lambda>v. time_date v \<le> upper) (drop ?a vs)"
      using above by (intro filter_cong) auto
    moreover have "filter P vs = filter P (takeWhile (\<lambda>v. time_date v < lower) vs) @ filter P (drop ?a vs)" for P
      by (metis dropped filter_append split)
    ultimately show ?thesis by simp
  qed
  moreover have "take (?b - ?a) (drop ?a vs) = takeWhile (\<lambda>v. time_date v \<le> upper) (drop ?a vs)"
    and "\<not> ?b < ?a"
  proof -
    have b: "?b = ?a + length (takeWhile (\<lambda>v. time_date v \<le> upper) (drop ?a vs))"
      using arg_cong [OF two, of length] by simp
    then show "\<not> ?b < ?a" by simp
    from b show "take (?b - ?a) (drop ?a vs) = takeWhile (\<lambda>v. time_date v \<le> upper) (drop ?a vs)"
      using takeWhile_eq_take [of "\<lambda>v. time_date v \<le> upper" "drop ?a vs"] by simp
  qed
  ultimately show ?thesis
    using takeWhile_sorted(2) [OF rest] by (simp add: values_between_def)
qed

text \<open>The values of a series in the closed interval.\<close>

definition in_window :: "int \<Rightarrow> int \<Rightarrow> 'k series \<Rightarrow> 'k series" where
  "in_window lower upper result =
     map (\<lambda>(k, vs). (k, filter (\<lambda>v. lower \<le> time_date v \<and> time_date v \<le> upper) vs)) result"

definition series_sorted :: "'k series \<Rightarrow> bool" where
  "series_sorted result \<longleftrightarrow> (\<forall>(k, vs)\<in>set result. sorted (map time_date vs))"

lemma window_series_sorted:
  assumes "series_sorted result" "lower \<le> upper"
  shows "window_series lower upper result = Some (in_window lower upper result)"
  using assms
  by (induction result)
     (auto simp: window_series_def in_window_def series_sorted_def values_between_sorted split: prod.splits)

text \<open>Every file can be opened and written, and the path of a later period is another one.\<close>

definition writes_ok :: "'p write_env \<Rightarrow> u32 \<Rightarrow> bool" where
  "writes_ok E fmt \<longleftrightarrow> (\<forall>t. t < next_tp E t) \<and> (\<forall>p. make_and_open_file (answers E p) = Inr True \<and> written_all E p) \<and>
     (\<forall>t t'. next_tp E t \<le> t' \<longrightarrow> file_path E fmt (no_path E) t' \<noteq> file_path E fmt (no_path E) t)"

lemma next_periods_increase:
  assumes "\<forall>t. t < next_tp E t" "i < j"
  shows "next_tp E ((next_tp E ^^ i) t) \<le> (next_tp E ^^ j) t"
  using assms(2)
proof (induction j)
  case (Suc j)
  show ?case
  proof (cases "i = j")
    case False
    with Suc have "next_tp E ((next_tp E ^^ i) t) \<le> (next_tp E ^^ j) t" by simp
    also have "\<dots> < (next_tp E ^^ Suc j) t" using assms(1) by simp
    finally show ?thesis by simp
  qed simp
qed simp

text \<open>The periods from a time on pass every limit.\<close>

lemma periods_pass:
  assumes "\<forall>t. t < next_tp E t" "m \<le> M"
  obtains n where "\<And>i. i \<le> n \<Longrightarrow> (next_tp E ^^ i) m \<le> M" "M < (next_tp E ^^ Suc n) m"
proof -
  have grows: "m + int k \<le> (next_tp E ^^ k) m" for k
  proof (induction k)
    case (Suc k)
    moreover have "(next_tp E ^^ k) m < (next_tp E ^^ Suc k) m" using assms(1) by simp
    ultimately show ?case by linarith
  qed simp
  let ?P = "\<lambda>k. M < (next_tp E ^^ k) m"
  have ex: "?P (nat (M - m) + 1)" using grows [of "nat (M - m) + 1"] assms(2) by simp
  define l where "l = (LEAST k. ?P k)"
  have l: "?P l" "\<And>k. k < l \<Longrightarrow> \<not> ?P k"
    unfolding l_def using LeastI [of ?P, OF ex] not_less_Least by auto
  with assms(2) obtain n where "l = Suc n" by (cases l) auto
  with l show ?thesis by (intro that [of n]) (auto simp: not_less less_Suc_eq_le)
qed

lemma in_some_period:
  assumes "m \<le> t" "t \<le> (next_tp E ^^ Suc n) m"
  obtains i where "i \<le> n" "(next_tp E ^^ i) m \<le> t" "t \<le> (next_tp E ^^ Suc i) m"
  using assms(2)
proof (induction n arbitrary: thesis)
  case 0
  with assms(1) show ?case by simp
next
  case (Suc n)
  show ?case
  proof (cases "t \<le> (next_tp E ^^ Suc n) m")
    case True
    from Suc.IH [OF _ True] obtain i where "i \<le> n" "(next_tp E ^^ i) m \<le> t" "t \<le> (next_tp E ^^ Suc i) m"
      by blast
    with Suc.prems(1) show ?thesis by (meson le_SucI)
  next
    case False
    with Suc.prems show ?thesis by (meson le_refl linear)
  qed
qed

section \<open>The files of all windows\<close>

text \<open>The files after \<open>k\<close> windows from the time \<open>m\<close>, with \<open>keep\<close> selecting what a file lists.\<close>

definition window_files ::
    "'p write_env \<Rightarrow> u32 \<Rightarrow> ('k \<times> ExtractedValue list \<Rightarrow> bool) \<Rightarrow> 'k series \<Rightarrow> int \<Rightarrow> nat \<Rightarrow> ('p, 'k series) out_state" where
  "window_files E fmt keep result m k =
     (let path = (\<lambda>i. file_path E fmt (no_path E) ((next_tp E ^^ i) m)) in
      \<lparr>out_files = map (\<lambda>i. (path i, filter keep (in_window ((next_tp E ^^ i) m) ((next_tp E ^^ Suc i) m) result))) [0..<k],
       out_paths = path ` {0..<k}\<rparr>)"

lemma put_next_window:
  assumes "writes_ok E fmt"
  shows "(put_file (file_path E fmt (no_path E) ((next_tp E ^^ k) m))
      (filter keep (in_window ((next_tp E ^^ k) m) ((next_tp E ^^ Suc k) m) result))
      (window_files E fmt keep result m k))\<lparr>out_paths := insert (file_path E fmt (no_path E) ((next_tp E ^^ k) m))
        (out_paths (window_files E fmt keep result m k))\<rparr> = window_files E fmt keep result m (Suc k)"
proof -
  have "file_path E fmt (no_path E) ((next_tp E ^^ i) m) \<noteq> file_path E fmt (no_path E) ((next_tp E ^^ k) m)"
    if "i < k" for i
    using assms next_periods_increase [of E i k m] that by (metis writes_ok_def)
  then show ?thesis
    by (auto simp: put_file_def window_files_def filter_map o_def atLeast0_lessThan_Suc
        intro!: filter_True)
qed

lemma write_windows_files:
  assumes ok: "writes_ok E fmt"
    and window: "\<And>lower upper st. lower \<le> upper \<Longrightarrow> window lower upper st =
      (let p = file_path E fmt (no_path E) lower in
       Some (Inr ((put_file p (filter keep (in_window lower upper result)) st)\<lparr>out_paths := insert p (out_paths st)\<rparr>)))"
    and below: "\<And>i. i \<le> n \<Longrightarrow> (next_tp E ^^ i) m \<le> M" and above: "M < (next_tp E ^^ Suc n) m"
  shows "k \<le> Suc n \<Longrightarrow> write_windows window (next_tp E) M ((next_tp E ^^ k) m) ((next_tp E ^^ Suc k) m)
     (window_files E fmt keep result m k) = Some (Inr (window_files E fmt keep result m (Suc n)))"
proof (induction "Suc n - k" arbitrary: k)
  case 0
  then have "k = Suc n" by simp
  with above show ?case by (simp add: write_windows.simps)
next
  case (Suc d)
  then have k: "k \<le> n" by simp
  have "(next_tp E ^^ k) m \<le> (next_tp E ^^ Suc k) m"
    using ok by (simp add: writes_ok_def less_imp_le)
  note step = window [OF this] put_next_window [OF ok]
  have "write_windows window (next_tp E) M ((next_tp E ^^ Suc k) m) ((next_tp E ^^ Suc (Suc k)) m)
      (window_files E fmt keep result m (Suc k)) = Some (Inr (window_files E fmt keep result m (Suc n)))"
    using Suc k by (intro Suc.hyps(1)) simp_all
  with below [OF k] show ?case
    by (subst write_windows.simps) (simp add: step Let_def del: funpow.simps, simp)
qed

section \<open>What the windows cover\<close>

definition listed :: "('p, 'k series) out_state \<Rightarrow> 'k \<Rightarrow> ExtractedValue \<Rightarrow> bool" where
  "listed st k v \<longleftrightarrow> (\<exists>(p, c)\<in>set (out_files st). \<exists>ws. (k, ws) \<in> set c \<and> v \<in> set ws)"

definition times_ok :: "'k series \<Rightarrow> bool" where
  "times_ok result \<longleftrightarrow> (\<forall>(k, vs)\<in>set result. \<forall>v\<in>set vs. utc_min \<le> time_date v \<and> time_date v \<le> utc_max)"

lemma sort_okD:
  assumes "sort_ok srt"
  shows "set (srt vs) = set vs" "length (srt vs) = length vs" "sorted (map time_date (srt vs))"
  using assms by (auto simp: sort_ok_def dest: mset_eq_setD mset_eq_length)

lemma sort_series_facts:
  assumes "sort_ok srt"
  shows "series_sorted (sort_series srt result)" "times_ok (sort_series srt result) \<longleftrightarrow> times_ok result"
    "sort_series srt result = [] \<longleftrightarrow> result = []"
    "(k, vs) \<in> set result \<Longrightarrow> (k, srt vs) \<in> set (sort_series srt result)"
    "map fst (sort_series srt result) = map fst result"
proof -
  show "(k, vs) \<in> set result \<Longrightarrow> (k, srt vs) \<in> set (sort_series srt result)"
    by (force simp: sort_series_def)
qed (use sort_okD [OF assms] in \<open>auto simp: series_sorted_def times_ok_def sort_series_def o_def split_def image_image\<close>)

lemma min_max_time:
  "min_time result = Min (insert utc_max (set (first_times result)))"
  "max_time result = Max (insert utc_min (set (first_times result)))"
  using Min.set_eq_fold [of utc_max "first_times result"] Max.set_eq_fold [of utc_min "first_times result"]
  by (simp_all add: min_time_def max_time_def)

lemma first_times_member:
  "t \<in> set (first_times result) \<longleftrightarrow> (\<exists>(k, vs)\<in>set result. vs \<noteq> [] \<and> t = time_date (hd vs))"
  by (force simp: first_times_def)

lemma min_time_le:
  assumes "series_sorted result" "times_ok result" "(k, vs) \<in> set result" "v \<in> set vs"
  shows "min_time result \<le> time_date v"
proof -
  from assms(4) have "vs \<noteq> []" by auto
  with assms(3) have "time_date (hd vs) \<in> set (first_times result)" by (auto simp: first_times_member)
  then have "min_time result \<le> time_date (hd vs)" by (simp add: min_max_time)
  also have "\<dots> \<le> time_date v"
    using assms(1,3,4) \<open>vs \<noteq> []\<close> by (cases vs) (auto simp: series_sorted_def)
  finally show ?thesis .
qed

lemma min_le_max_time:
  assumes "series_sorted result" "times_ok result" "(k, vs) \<in> set result" "vs \<noteq> []"
  shows "min_time result \<le> max_time result"
proof -
  have "time_date (hd vs) \<in> set (first_times result)" using assms(3,4) by (auto simp: first_times_member)
  then have "time_date (hd vs) \<le> max_time result" by (simp add: min_max_time)
  with min_time_le [OF assms(1-3), of "hd vs"] assms(4) show ?thesis by simp
qed

lemma listed_in_windows:
  assumes keep: "\<And>e. snd e \<noteq> [] \<Longrightarrow> keep e" and distinct: "distinct (map fst result)"
    and mem: "(k, vs) \<in> set result" "v \<in> set vs"
  shows "listed (window_files E fmt keep result m n) k v \<longleftrightarrow>
    (\<exists>i<n. (next_tp E ^^ i) m \<le> time_date v \<and> time_date v \<le> (next_tp E ^^ Suc i) m)"
proof -
  have unique: "vs' = vs" if "(k, vs') \<in> set result" for vs'
    using that mem(1) distinct by (metis map_of_is_SomeI option.inject)
  have "(\<exists>ws. (k, ws) \<in> set (filter keep (in_window lower upper result)) \<and> v \<in> set ws) \<longleftrightarrow>
      lower \<le> time_date v \<and> time_date v \<le> upper" for lower upper
  proof
    assume "\<exists>ws. (k, ws) \<in> set (filter keep (in_window lower upper result)) \<and> v \<in> set ws"
    then show "lower \<le> time_date v \<and> time_date v \<le> upper" by (auto simp: in_window_def)
  next
    assume t: "lower \<le> time_date v \<and> time_date v \<le> upper"
    let ?ws = "filter (\<lambda>v. lower \<le> time_date v \<and> time_date v \<le> upper) vs"
    from t mem(2) have v: "v \<in> set ?ws" by simp
    then have "?ws \<noteq> []" by (auto simp del: set_filter)
    moreover have "(k, ?ws) \<in> set (in_window lower upper result)"
      using mem(1) by (force simp: in_window_def)
    ultimately show "\<exists>ws. (k, ws) \<in> set (filter keep (in_window lower upper result)) \<and> v \<in> set ws"
      using v keep by (intro exI [of _ ?ws]) simp
  qed
  note member = this
  have "listed (window_files E fmt keep result m n) k v \<longleftrightarrow>
      (\<exists>i<n. \<exists>ws. (k, ws) \<in> set (filter keep (in_window ((next_tp E ^^ i) m) ((next_tp E ^^ Suc i) m) result)) \<and> v \<in> set ws)"
    by (auto simp: listed_def window_files_def Let_def simp del: funpow.simps set_filter)
  then show ?thesis by (simp only: member)
qed

text \<open>Both writers: the windows they go through are those of the specification.\<close>

lemma windows_cover:
  assumes ok: "writes_ok E fmt" and sorted: "series_sorted result" and range: "times_ok result"
    and some: "(k0, vs0) \<in> set result" "vs0 \<noteq> []" and distinct: "distinct (map fst result)"
    and keep: "\<And>e. snd e \<noteq> [] \<Longrightarrow> keep e"
    and window: "\<And>lower upper st. lower \<le> upper \<Longrightarrow> window lower upper st =
      (let p = file_path E fmt (no_path E) lower in
       Some (Inr ((put_file p (filter keep (in_window lower upper result)) st)\<lparr>out_paths := insert p (out_paths st)\<rparr>)))"
  shows "\<exists>st n. write_windows window (next_tp E) (max_time result) (min_time result) (next_tp E (min_time result))
      no_files = Some (Inr st) \<and>
    (next_tp E ^^ n) (min_time result) \<le> max_time result \<and> max_time result < (next_tp E ^^ Suc n) (min_time result) \<and>
    (\<forall>(k, vs)\<in>set result. \<forall>v\<in>set vs. listed st k v \<longleftrightarrow> time_date v \<le> (next_tp E ^^ Suc n) (min_time result))"
proof -
  let ?m = "min_time result" and ?M = "max_time result"
  have grow: "\<forall>t. t < next_tp E t" using ok by (simp add: writes_ok_def)
  obtain n where n: "\<And>i. i \<le> n \<Longrightarrow> (next_tp E ^^ i) ?m \<le> ?M" "?M < (next_tp E ^^ Suc n) ?m"
    by (rule periods_pass [OF grow min_le_max_time [OF sorted range some]]) blast
  let ?st = "window_files E fmt keep result ?m (Suc n)"
  have start: "no_files = window_files E fmt keep result ?m 0" by (simp add: no_files_def window_files_def)
  have run: "write_windows window (next_tp E) ?M ?m (next_tp E ?m) no_files = Some (Inr ?st)"
    using write_windows_files [OF ok window n(1,2), of 0] by (simp add: start)
  have "listed ?st k v \<longleftrightarrow> time_date v \<le> (next_tp E ^^ Suc n) ?m"
    if mem: "(k, vs) \<in> set result" "v \<in> set vs" for k vs v
  proof -
    have "time_date v \<le> (next_tp E ^^ Suc n) ?m"
      if i: "i < Suc n" "time_date v \<le> (next_tp E ^^ Suc i) ?m" for i
    proof -
      have "(next_tp E ^^ Suc i) ?m \<le> (next_tp E ^^ Suc n) ?m"
        using next_periods_increase [OF grow i(1), of ?m] by simp
      with i(2) show ?thesis by linarith
    qed
    moreover have "\<exists>i<Suc n. (next_tp E ^^ i) ?m \<le> time_date v \<and> time_date v \<le> (next_tp E ^^ Suc i) ?m"
      if "time_date v \<le> (next_tp E ^^ Suc n) ?m"
      using in_some_period [OF min_time_le [OF sorted range mem] that] by (metis less_Suc_eq_le)
    moreover have "listed ?st k v \<longleftrightarrow>
        (\<exists>i<Suc n. (next_tp E ^^ i) ?m \<le> time_date v \<and> time_date v \<le> (next_tp E ^^ Suc i) ?m)"
      by (rule listed_in_windows [OF keep distinct mem])
    ultimately show ?thesis by meson
  qed
  with run n show ?thesis by (intro exI [of _ ?st] exI [of _ n]) auto
qed

lemma writes_ok_opens:
  assumes "writes_ok E fmt"
  shows "make_and_open_file (answers E p) = Inr True" "written_all E p"
  using assms by (simp_all add: writes_ok_def)

lemma write_window_ok:
  assumes "series_sorted result" "lower \<le> upper"
  shows "writes_ok E JSON_F \<Longrightarrow> write_json_window E result lower upper st =
      (let p = file_path E JSON_F (no_path E) lower in
       Some (Inr ((put_file p (filter (\<lambda>_. True) (in_window lower upper result)) st)\<lparr>out_paths := insert p (out_paths st)\<rparr>)))"
    "writes_ok E BIN_F \<Longrightarrow> write_bin_window E result lower upper st =
      (let p = file_path E BIN_F (no_path E) lower in
       Some (Inr ((put_file p (filter (\<lambda>(k, vs). vs \<noteq> []) (in_window lower upper result)) st)\<lparr>out_paths := insert p (out_paths st)\<rparr>)))"
  using window_series_sorted [OF assms]
  by (simp_all add: write_json_window_def write_bin_window_def writes_ok_opens Let_def)

section \<open>Properties of the windows\<close>

text \<open>
  C30: when every file can be written, the binary and the JSON writer end, and a value is in one of their files
  exactly if it is not later than the end of the period that holds the latest of the first times of
  the series: the loop stops after the latest series has begun, not after it has ended.
\<close>

theorem window_files_cover:
  fixes result :: "'k series"
  assumes "sort_ok srt" "writes_ok E BIN_F" "writes_ok E JSON_F" "times_ok result" "distinct (map fst result)"
    "(k0, vs0) \<in> set result" "vs0 \<noteq> []"
  defines "m \<equiv> min_time (sort_series srt result)" and "M \<equiv> max_time (sort_series srt result)"
  shows "(\<exists>st n. write_bin_file srt E result = Some (Inr st) \<and>
      (next_tp E ^^ n) m \<le> M \<and> M < (next_tp E ^^ Suc n) m \<and>
      (\<forall>(k, vs)\<in>set result. \<forall>v\<in>set vs. listed st k v \<longleftrightarrow> time_date v \<le> (next_tp E ^^ Suc n) m)) \<and>
    (\<exists>st n. write_json_file srt E result = Some (Inr st) \<and>
      (next_tp E ^^ n) m \<le> M \<and> M < (next_tp E ^^ Suc n) m \<and>
      (\<forall>(k, vs)\<in>set result. \<forall>v\<in>set vs. listed st k v \<longleftrightarrow> time_date v \<le> (next_tp E ^^ Suc n) m))"
proof -
  let ?S = "sort_series srt result"
  note facts = sort_series_facts [OF assms(1)] and sorted = sort_okD [OF assms(1)]
  have some: "(k0, srt vs0) \<in> set ?S" "srt vs0 \<noteq> []"
    using facts(4) [OF assms(6)] assms(7) sorted(2) [of vs0] by auto
  have range: "times_ok ?S" using assms(4) by (simp add: facts(2))
  have distinct: "distinct (map fst ?S)" using assms(5) by (simp add: facts(5))
  have members: "(\<forall>(k, vs)\<in>set ?S. \<forall>v\<in>set vs. P k v) \<longleftrightarrow> (\<forall>(k, vs)\<in>set result. \<forall>v\<in>set vs. P k v)" for P
    using sorted(1) by (auto simp: sort_series_def)
  have "result \<noteq> []" using assms(6) by auto
  then have bin: "write_bin_file srt E result =
      write_windows (write_bin_window E ?S) (next_tp E) M m (next_tp E m) no_files"
    by (simp add: write_bin_file_def m_def M_def Let_def)
  have json: "write_json_file srt E result =
      write_windows (write_json_window E ?S) (next_tp E) M m (next_tp E m) no_files"
    by (simp add: write_json_file_def m_def M_def Let_def)
  note cover = windows_cover [OF _ facts(1) range some distinct]
  have keeps: "snd e \<noteq> [] \<Longrightarrow> (\<lambda>(k, vs). vs \<noteq> []) e" for e :: "'k \<times> ExtractedValue list" by (cases e) simp
  show ?thesis unfolding bin json m_def M_def
    using cover [OF assms(2) keeps write_window_ok(2) [OF facts(1) _ assms(2)], unfolded members]
      cover [OF assms(3) TrueI write_window_ok(1) [OF facts(1) _ assms(3)], unfolded members]
    by blast
qed

text \<open>An environment where paths are absolute and the period has ten units.\<close>

definition example_write_env :: "int write_env" where
  "example_write_env = \<lparr>next_tp = (\<lambda>t. t + 10), out_dir = (\<lambda>t. t), out_name = (\<lambda>fmt t. t),
     slash = (\<lambda>p q. q), no_path = 0, answers = (\<lambda>p. \<lparr>parent_exists = True, parent_created = False,
       file_opened = True, regular_with_permissions = True\<rparr>),
     written_all = (\<lambda>p. True), header_error = None, stop_at = (\<lambda>n. False)\<rparr>"

abbreviation timed :: "int \<Rightarrow> rat \<Rightarrow> ExtractedValue" where
  "timed t x \<equiv> \<lparr>time_date = t, extracted_value = x\<rparr>"

lemma example_writes_ok: "writes_ok example_write_env fmt"
  by (simp add: writes_ok_def example_write_env_def make_and_open_file_def make_dir_def file_path_def)

lemma sort_key_ok: "sort_ok (sort_key time_date)"
  by (simp add: sort_ok_def)

lemma example_periods: "(next_tp example_write_env ^^ n) t = t + 10 * int n"
  by (induction n) (simp_all add: example_write_env_def)

theorem window_files_cover_witness:
  "\<exists>st. write_bin_file (sort_key time_date) example_write_env [(0 :: nat, [timed 0 1, timed 15 2])] = Some (Inr st) \<and>
     listed st 0 (timed 0 1) \<and> \<not> listed st 0 (timed 15 2)"
proof -
  let ?r = "[(0 :: nat, [timed 0 1, timed 15 2])]"
  let ?S = "sort_series (sort_key time_date) ?r"
  have S: "?S = ?r" by (simp add: sort_series_def)
  have times: "min_time ?S = 0" "max_time ?S = 0"
    unfolding S by (simp_all add: min_time_def max_time_def first_times_def utc_max_def utc_min_def)
  have "times_ok ?r" by (simp add: times_ok_def utc_max_def utc_min_def)
  note cover = window_files_cover [OF sort_key_ok example_writes_ok example_writes_ok this, of 0 "[timed 0 1, timed 15 2]",
      unfolded times]
  from conjunct1 [OF cover] obtain st n where st: "write_bin_file (sort_key time_date) example_write_env ?r = Some (Inr st)"
      "(next_tp example_write_env ^^ n) 0 \<le> 0"
      "listed st 0 (timed 0 1) \<longleftrightarrow> 0 \<le> (next_tp example_write_env ^^ Suc n) 0"
      "listed st 0 (timed 15 2) \<longleftrightarrow> 15 \<le> (next_tp example_write_env ^^ Suc n) 0"
    by auto
  from st(2) have "n = 0" by (simp add: example_periods)
  with st(1,3,4) show ?thesis by (simp add: example_periods del: funpow.simps)
qed

section \<open>Facts about rows\<close>

text \<open>The value of a column at a time.\<close>

definition cell_at :: "int \<Rightarrow> ExtractedValue list \<Rightarrow> rat option" where
  "cell_at t vs = map_option extracted_value (find (\<lambda>v. time_date v = t) vs)"

text \<open>All times of the columns in order.\<close>

definition merged_times :: "ExtractedValue list list \<Rightarrow> int list" where
  "merged_times cols = sorted_list_of_set (\<Union>vs\<in>set cols. time_date ` set vs)"

definition strict_column :: "ExtractedValue list \<Rightarrow> bool" where
  "strict_column vs \<longleftrightarrow> sorted (map time_date vs) \<and> distinct (map time_date vs)"

text \<open>One column at the time of a row, when its earlier times have been written.\<close>

lemma column_step:
  assumes strict: "strict_column vs" and n: "n = length (filter (\<lambda>v. time_date v < t) vs)"
  shows "n < length vs \<Longrightarrow> t \<le> time_date (vs ! n)"
    "has_time t (vs, n) \<longleftrightarrow> t \<in> time_date ` set vs"
    "(if has_time t (vs, n) then Some (extracted_value (vs ! n)) else None) = cell_at t vs"
    "(if has_time t (vs, n) then Suc n else n) = length (filter (\<lambda>v. time_date v \<le> t) vs)"
proof -
  have sorted: "sorted (map time_date vs)" and distinct: "distinct (map time_date vs)"
    using strict by (simp_all add: strict_column_def)
  have nt: "n = length (takeWhile (\<lambda>v. time_date v < t) vs)"
    using n takeWhile_sorted(1) [OF sorted] by simp
  show ge: "n < length vs \<Longrightarrow> t \<le> time_date (vs ! n)"
    using nth_length_takeWhile [of "\<lambda>v. time_date v < t" vs] nt by simp
  show has: "has_time t (vs, n) \<longleftrightarrow> t \<in> time_date ` set vs"
  proof
    assume "t \<in> time_date ` set vs"
    then obtain i where i: "i < length vs" "time_date (vs ! i) = t" by (auto simp: in_set_conv_nth)
    have "n \<le> i"
    proof (rule ccontr)
      assume "\<not> n \<le> i"
      then have "vs ! i \<in> set (takeWhile (\<lambda>v. time_date v < t) vs)"
        by (metis nt not_le nth_mem takeWhile_nth)
      with i(2) show False by (auto dest: set_takeWhileD)
    qed
    with i have "time_date (vs ! n) \<le> t"
      using sorted by (auto simp: sorted_iff_nth_mono)
    with ge i \<open>n \<le> i\<close> show "has_time t (vs, n)" by (simp add: has_time_def)
  qed (auto simp: has_time_def)
  show "(if has_time t (vs, n) then Some (extracted_value (vs ! n)) else None) = cell_at t vs"
  proof (cases "has_time t (vs, n)")
    case True
    then have v: "n < length vs" "time_date (vs ! n) = t" by (simp_all add: has_time_def)
    have "find (\<lambda>v. time_date v = t) vs = Some (vs ! n)"
    proof -
      obtain i where i: "i < length vs" "time_date (vs ! i) = t" "find (\<lambda>v. time_date v = t) vs = Some (vs ! i)"
        using v by (cases "find (\<lambda>v. time_date v = t) vs") (auto simp: find_None_iff find_Some_iff)
      with v distinct have "i = n" by (metis distinct_conv_nth length_map nth_map)
      with i show ?thesis by simp
    qed
    with True show ?thesis by (simp add: cell_at_def)
  next
    case False
    then have "find (\<lambda>v. time_date v = t) vs = None" using has by (auto simp: find_None_iff)
    with False show ?thesis by (simp add: cell_at_def)
  qed
  have "length (filter (\<lambda>v. time_date v \<le> t) vs) = n + length (filter (\<lambda>v. time_date v = t) vs)"
    unfolding n by (induction vs) auto
  moreover have "length (filter (\<lambda>v. time_date v = t) vs) = (if t \<in> time_date ` set vs then 1 else 0)"
    using distinct by (induction vs) (auto simp: filter_empty_conv)
  ultimately show "(if has_time t (vs, n) then Suc n else n) = length (filter (\<lambda>v. time_date v \<le> t) vs)"
    using has by simp
qed

text \<open>How many values of every column have been written when the times before \<open>t\<close> have.\<close>

definition written_before :: "int \<Rightarrow> ExtractedValue list list \<Rightarrow> nat list" where
  "written_before t cols = map (\<lambda>vs. length (filter (\<lambda>v. time_date v < t) vs)) cols"

lemma row_at:
  assumes strict: "\<forall>vs\<in>set cols. strict_column vs"
    and t: "t \<in> (\<Union>vs\<in>set cols. time_date ` set vs)" "t \<le> utc_max"
  shows "fold min (remaining cols (written_before t cols)) utc_max = t"
    "row_cells t cols (written_before t cols) = map (cell_at t) cols"
    "advance_rows t cols (written_before t cols) = map (\<lambda>vs. length (filter (\<lambda>v. time_date v \<le> t) vs)) cols"
proof -
  let ?n = "\<lambda>vs. length (filter (\<lambda>v. time_date v < t) vs)"
  have zip: "zip cols (written_before t cols) = map (\<lambda>vs. (vs, ?n vs)) cols"
    by (simp add: written_before_def zip_map2 zip_same_conv_map o_def)
  show "row_cells t cols (written_before t cols) = map (cell_at t) cols"
    "advance_rows t cols (written_before t cols) = map (\<lambda>vs. length (filter (\<lambda>v. time_date v \<le> t) vs)) cols"
    using column_step(3,4) [OF _ refl, of _ t] strict
    by (simp_all add: row_cells_def advance_rows_def zip)
  have mem: "set (remaining cols (written_before t cols)) =
      (\<lambda>vs. time_date (vs ! ?n vs)) ` {vs \<in> set cols. ?n vs < length vs}"
    by (auto simp: remaining_def zip)
  have "\<forall>x\<in>set (remaining cols (written_before t cols)). t \<le> x"
    using column_step(1) [OF _ refl, of _ t] strict by (auto simp: mem)
  moreover have "t \<in> set (remaining cols (written_before t cols))"
  proof -
    from t(1) obtain vs where vs: "vs \<in> set cols" "t \<in> time_date ` set vs" by blast
    with column_step(2) [of vs "?n vs" t] strict have "has_time t (vs, ?n vs)" by blast
    with vs(1) show ?thesis unfolding mem by (force simp: has_time_def)
  qed
  moreover have "fold min (remaining cols (written_before t cols)) utc_max =
      Min (insert utc_max (set (remaining cols (written_before t cols))))"
    using Min.set_eq_fold [of utc_max "remaining cols (written_before t cols)"] by simp
  ultimately show "fold min (remaining cols (written_before t cols)) utc_max = t"
    using t(2) by (auto intro!: Min_eqI)
qed

text \<open>The counters after the first rows, in terms of the merged times.\<close>

definition written_in :: "int set \<Rightarrow> ExtractedValue list list \<Rightarrow> nat list" where
  "written_in T cols = map (\<lambda>vs. length (filter (\<lambda>v. time_date v \<in> T) vs)) cols"

lemma merged_times_facts:
  "sorted (merged_times cols)" "distinct (merged_times cols)"
  "set (merged_times cols) = (\<Union>vs\<in>set cols. time_date ` set vs)"
  by (simp_all add: merged_times_def)

lemma taken_times:
  assumes "sorted ts" "distinct ts" "r < length ts" "x \<in> set ts"
  shows "x \<in> set (take r ts) \<longleftrightarrow> x < ts ! r" "x \<in> set (take (Suc r) ts) \<longleftrightarrow> x \<le> ts ! r"
proof -
  from assms(4) obtain i where i: "i < length ts" "x = ts ! i" by (auto simp: in_set_conv_nth)
  have mem: "x \<in> set (take k ts) \<longleftrightarrow> i < k" for k
    using i assms(2) by (auto simp: in_set_conv_nth nth_eq_iff_index_eq)
  have "ts ! i < ts ! r \<longleftrightarrow> i < r" "ts ! i \<le> ts ! r \<longleftrightarrow> i < Suc r"
    using strict_sorted_iff [of ts] assms(1-3) i(1) sorted_wrt_nth_less [of "(<)" ts]
    by (metis less_asym less_irrefl linorder_neqE_nat, metis less_Suc_eq_le less_asym less_le linorder_neqE_nat not_le)
  with mem i show "x \<in> set (take r ts) \<longleftrightarrow> x < ts ! r" "x \<in> set (take (Suc r) ts) \<longleftrightarrow> x \<le> ts ! r"
    by simp_all
qed

lemma written_in_merged:
  assumes "r < length (merged_times cols)"
  shows "written_in (set (take r (merged_times cols))) cols = written_before (merged_times cols ! r) cols"
    "written_in (set (take (Suc r) (merged_times cols))) cols =
      map (\<lambda>vs. length (filter (\<lambda>v. time_date v \<le> merged_times cols ! r) vs)) cols"
proof -
  let ?ts = "merged_times cols"
  note taken = taken_times [OF merged_times_facts(1,2) assms]
  have "time_date v \<in> set ?ts" if "vs \<in> set cols" "v \<in> set vs" for vs v
    using that by (auto simp: merged_times_facts(3))
  note taken = taken [OF this]
  show "written_in (set (take r ?ts)) cols = written_before (?ts ! r) cols"
    unfolding written_in_def written_before_def
    by (rule map_cong [OF refl], rule arg_cong [where f = length], rule filter_cong [OF refl]) (rule taken(1))
  show "written_in (set (take (Suc r) ?ts)) cols = map (\<lambda>vs. length (filter (\<lambda>v. time_date v \<le> ?ts ! r) vs)) cols"
    unfolding written_in_def
    by (rule map_cong [OF refl], rule arg_cong [where f = length], rule filter_cong [OF refl]) (rule taken(2))
qed

text \<open>A text file can always be written, and its path does not depend on the file before.\<close>

definition txt_ok :: "'p write_env \<Rightarrow> bool" where
  "txt_ok E \<longleftrightarrow> writes_ok E TXT_F \<and> header_error E = None \<and> (\<forall>n. \<not> stop_at E n) \<and>
     (\<forall>p t. file_path E TXT_F p t = file_path E TXT_F (no_path E) t)"

definition rows_of :: "ExtractedValue list list \<Rightarrow> int list \<Rightarrow> row list" where
  "rows_of cols ts = map (\<lambda>t. (t, map (cell_at t) cols)) ts"

text \<open>The files are those of periods that end by \<open>u\<close>.\<close>

definition periods_over :: "'p write_env \<Rightarrow> ('p \<times> row list) list \<Rightarrow> int \<Rightarrow> bool" where
  "periods_over E fs u \<longleftrightarrow> (\<forall>q\<in>fst ` set fs. \<exists>s. q = file_path E TXT_F (no_path E) s \<and> next_tp E s \<le> u)"

definition txt_inv :: "'p write_env \<Rightarrow> ExtractedValue list list \<Rightarrow> nat \<Rightarrow> 'p txt_state \<Rightarrow> bool" where
  "txt_inv E cols r st \<longleftrightarrow>
     next_in st = written_in (set (take r (merged_times cols))) cols \<and>
     concat (map snd (txt_files st)) = rows_of cols (take r (merged_times cols)) \<and>
     (if r = 0 then txt_files st = [] else out_open st \<and> txt_files st \<noteq> []) \<and>
     periods_over E (txt_files st) (file_end_time st)"

lemma concat_append_row: "fs \<noteq> [] \<Longrightarrow> concat (map snd (append_row r fs)) = concat (map snd fs) @ [r]"
  by (induction fs rule: rev_induct) (simp_all add: append_row_def)

lemma set_append_row: "fs \<noteq> [] \<Longrightarrow> fst ` set (append_row r fs) = fst ` set fs"
  by (induction fs rule: rev_induct) (auto simp: append_row_def)

lemma periods_over_later: "periods_over E fs u \<Longrightarrow> u \<le> u' \<Longrightarrow> periods_over E fs u'"
  unfolding periods_over_def by (meson order_trans)

text \<open>The file for a row: opened anew at the first row and after the end of the period.\<close>

lemma open_txt_ok:
  assumes ok: "txt_ok E" and t: "txt_files st = [] \<or> file_end_time st \<le> t"
    and inv: "periods_over E (txt_files st) (file_end_time st)"
  shows "open_txt E t st = Inr (st\<lparr>out_f_name := file_path E TXT_F (no_path E) t, out_open := True,
      txt_paths := insert (file_path E TXT_F (no_path E) t) (txt_paths st),
      txt_files := txt_files st @ [(file_path E TXT_F (no_path E) t, [])], file_end_time := next_tp E t\<rparr>)"
    "periods_over E (txt_files st @ [(file_path E TXT_F (no_path E) t, [])]) (next_tp E t)"
proof -
  let ?p = "file_path E TXT_F (no_path E) t"
  have opens: "make_and_open_file (answers E q) = Inr True" "header_error E = None"
    "file_path E TXT_F q t = ?p" "t < next_tp E t" for q
    using ok unfolding txt_ok_def writes_ok_def by blast+
  have over: "periods_over E (txt_files st) t"
    using t periods_over_later [OF inv] by (auto simp: periods_over_def)
  have other: "next_tp E s \<le> t \<Longrightarrow> ?p \<noteq> file_path E TXT_F (no_path E) s" for s
    using ok unfolding txt_ok_def writes_ok_def by blast
  have new: "q \<noteq> ?p" if q: "q \<in> fst ` set (txt_files st)" for q
  proof -
    from q over obtain s where s: "q = file_path E TXT_F (no_path E) s" "next_tp E s \<le> t"
      unfolding periods_over_def by blast
    show ?thesis unfolding s(1) using other [OF s(2)] by (rule not_sym)
  qed
  have "filter (\<lambda>(q, _). q \<noteq> ?p) (txt_files st) = txt_files st"
  proof (rule filter_True, rule ballI)
    fix x assume "x \<in> set (txt_files st)"
    then have "fst x \<in> fst ` set (txt_files st)" by (rule imageI)
    from new [OF this] show "case x of (q, _) \<Rightarrow> q \<noteq> ?p" by (simp add: case_prod_beta)
  qed
  then show "open_txt E t st = Inr (st\<lparr>out_f_name := ?p, out_open := True, txt_paths := insert ?p (txt_paths st),
      txt_files := txt_files st @ [(?p, [])], file_end_time := next_tp E t\<rparr>)"
    by (simp add: open_txt_def opens(1,2) opens(3) [of "out_f_name st"] Let_def)
  have "periods_over E (txt_files st) (next_tp E t)"
    using periods_over_later [OF over] opens(4) by simp
  moreover have "periods_over E [(?p, [])] (next_tp E t)" by (auto simp: periods_over_def)
  ultimately show "periods_over E (txt_files st @ [(?p, [])]) (next_tp E t)"
    unfolding periods_over_def set_append image_Un by blast
qed

text \<open>One row: the file for it is open, and the row is added to it.\<close>

lemma row_file_ok:
  assumes ok: "txt_ok E" and inv: "txt_inv E cols r st"
  obtains st' where "(if file_end_time st \<le> t \<or> r = 0 then open_txt E t st else Inr st) = Inr st'"
    "next_in st' = next_in st" "out_open st'" "txt_files st' \<noteq> []"
    "concat (map snd (txt_files st')) = concat (map snd (txt_files st))"
    "periods_over E (txt_files st') (file_end_time st')"
proof (cases "file_end_time st \<le> t \<or> r = 0")
  case True
  with inv have "txt_files st = [] \<or> file_end_time st \<le> t" "periods_over E (txt_files st) (file_end_time st)"
    by (auto simp: txt_inv_def)
  from open_txt_ok [OF ok this] True show thesis by (intro that [of "st\<lparr>out_f_name := file_path E TXT_F (no_path E) t,
      out_open := True, txt_paths := insert (file_path E TXT_F (no_path E) t) (txt_paths st),
      txt_files := txt_files st @ [(file_path E TXT_F (no_path E) t, [])], file_end_time := next_tp E t\<rparr>"]) simp_all
next
  case False
  with inv show thesis by (intro that [of st]) (simp_all add: txt_inv_def)
qed

lemma write_row_ok:
  assumes ok: "txt_ok E" and strict: "\<forall>vs\<in>set cols. strict_column vs"
    and range: "\<forall>vs\<in>set cols. \<forall>v\<in>set vs. time_date v \<le> utc_max"
    and r: "r < length (merged_times cols)" and inv: "txt_inv E cols r st"
  shows "\<exists>st'. write_row E cols r st = Inr st' \<and> txt_inv E cols (Suc r) st'"
proof -
  let ?ts = "merged_times cols" and ?t = "merged_times cols ! r"
  have "?t \<in> set ?ts" using r by simp
  then have mem: "?t \<in> (\<Union>vs\<in>set cols. time_date ` set vs)" by (simp only: merged_times_facts(3))
  then have "?t \<le> utc_max" using range by auto
  note row = row_at [OF strict mem this]
  have next_in: "next_in st = written_before ?t cols"
    and rows: "concat (map snd (txt_files st)) = rows_of cols (take r ?ts)"
    using inv written_in_merged(1) [OF r] by (simp_all add: txt_inv_def)
  have longer: "rows_of cols (take (Suc r) ?ts) = rows_of cols (take r ?ts) @ [(?t, map (cell_at ?t) cols)]"
    using r by (simp add: rows_of_def take_Suc_conv_app_nth)
  obtain st1 where st1: "(if file_end_time st \<le> ?t \<or> r = 0 then open_txt E ?t st else Inr st) = Inr st1"
    "next_in st1 = next_in st" "out_open st1" "txt_files st1 \<noteq> []"
    "concat (map snd (txt_files st1)) = concat (map snd (txt_files st))"
    "periods_over E (txt_files st1) (file_end_time st1)"
    by (rule row_file_ok [OF ok inv])
  let ?fs = "append_row (?t, map (cell_at ?t) cols) (txt_files st1)"
  let ?st = "st1\<lparr>txt_files := ?fs, next_in := advance_rows ?t cols (next_in st)\<rparr>"
  have "write_row E cols r st = Inr ?st"
    using ok st1(1-3) by (simp add: write_row_def txt_ok_def Let_def next_in row(1,2))
  moreover have "periods_over E ?fs (file_end_time st1)"
    using st1(6) by (simp add: periods_over_def set_append_row [OF st1(4)])
  then have "txt_inv E cols (Suc r) ?st"
    using st1(3) by (simp add: txt_inv_def concat_append_row [OF st1(4)] st1(5) rows longer next_in row(3)
        written_in_merged(2) [OF r], simp add: append_row_def)
  ultimately show ?thesis by blast
qed

lemma write_rows_ok:
  assumes ok: "txt_ok E" and strict: "\<forall>vs\<in>set cols. strict_column vs"
    and range: "\<forall>vs\<in>set cols. \<forall>v\<in>set vs. time_date v \<le> utc_max"
    and n: "n \<le> length (merged_times cols)" and r: "r \<le> n" and inv: "txt_inv E cols r st"
  shows "\<exists>st'. write_rows E cols [r..<n] st = Inr st' \<and> txt_inv E cols n st'"
  using r inv
proof (induction "n - r" arbitrary: r st)
  case 0
  then show ?case by simp
next
  case (Suc k)
  then have less: "r < n" by simp
  with n have "r < length (merged_times cols)" by simp
  from write_row_ok [OF ok strict range this Suc.prems(2)]
  obtain st1 where st1: "write_row E cols r st = Inr st1" "txt_inv E cols (Suc r) st1" by blast
  with Suc.hyps(1) [of "Suc r" st1] Suc.hyps(2) less show ?case by (simp add: upt_conv_Cons)
qed

lemma fold_max_le: "fold max xs (a :: nat) \<le> b \<longleftrightarrow> a \<le> b \<and> (\<forall>x\<in>set xs. x \<le> b)"
  by (induction xs arbitrary: a) auto

text \<open>The number of rows is not larger than the number of times.\<close>

lemma max_length_merged:
  assumes "\<forall>(k, vs)\<in>set result. distinct (map time_date vs)"
  shows "max_length result \<le> length (merged_times (columns result))"
proof -
  have "length vs \<le> length (merged_times (columns result))" if mem: "(k, vs) \<in> set result" for k vs
  proof (cases "vs = []")
    case False
    with mem have "vs \<in> set (columns result)" by (force simp: columns_def)
    then have "time_date ` set vs \<subseteq> set (merged_times (columns result))" by (auto simp: merged_times_facts(3))
    then have "card (time_date ` set vs) \<le> length (merged_times (columns result))"
      by (metis card_mono finite_set distinct_card merged_times_facts(2))
    moreover have "card (time_date ` set vs) = length vs"
      using assms mem distinct_card [of "map time_date vs"] by force
    ultimately show ?thesis by simp
  qed simp
  then show ?thesis by (auto simp: max_length_def fold_max_le)
qed

lemma txt_inv_start: "txt_inv E (columns result) 0 (txt_start E result)"
  by (simp add: txt_inv_def txt_start_def written_in_def rows_of_def periods_over_def map_replicate_const)

lemma write_txt_rows:
  assumes ok: "txt_ok E" and sorted: "series_sorted result" and range: "times_ok result"
    and distinct: "\<forall>(k, vs)\<in>set result. distinct (map time_date vs)"
  shows "\<exists>st. write_rows E (columns result) [0..<max_length result] (txt_start E result) = Inr st \<and>
    concat (map snd (txt_files st)) = rows_of (columns result) (take (max_length result) (merged_times (columns result)))"
proof -
  have strict: "\<forall>vs\<in>set (columns result). strict_column vs"
    using sorted distinct by (auto simp: columns_def strict_column_def series_sorted_def)
  have range: "\<forall>vs\<in>set (columns result). \<forall>v\<in>set vs. time_date v \<le> utc_max"
    using range by (force simp: columns_def times_ok_def)
  from write_rows_ok [OF ok strict range max_length_merged [OF distinct] le0 txt_inv_start]
  show ?thesis by (auto simp: txt_inv_def)
qed

text \<open>
  The text form has a row for each of the merged times of all series, but only as many rows as the longest
  series has values: what the series have at the later times is not written.
\<close>

theorem text_rows:
  fixes result :: "'k series"
  assumes "sort_ok srt" "txt_ok E" "times_ok result" "result \<noteq> []"
    and distinct: "\<forall>(k, vs)\<in>set result. distinct (map time_date vs)"
  defines "cols \<equiv> columns (sort_series srt result)"
  shows "\<exists>st. write_txt_file srt E result = Inr st \<and>
    concat (map snd (txt_files st)) = rows_of cols (take (max_length result) (merged_times cols))"
proof -
  let ?S = "sort_series srt result"
  note facts = sort_series_facts [OF assms(1)]
  have "max_length ?S = max_length result"
    by (simp add: max_length_def sort_series_def o_def split_def sort_okD(2) [OF assms(1)])
  moreover have "distinct (map time_date (srt vs))" if "distinct (map time_date vs)" for vs
    using that assms(1) unfolding sort_ok_def by (metis mset_eq_imp_distinct_iff mset_map)
  then have "\<forall>(k, vs)\<in>set ?S. distinct (map time_date vs)"
    using distinct by (force simp: sort_series_def)
  from write_txt_rows [OF assms(2) facts(1) _ this] facts(2) assms(3)
  obtain st where "write_rows E cols [0..<max_length ?S] (txt_start E ?S) = Inr st"
    "concat (map snd (txt_files st)) = rows_of cols (take (max_length ?S) (merged_times cols))"
    unfolding cols_def by blast
  ultimately show ?thesis using assms(4) by (auto simp: write_txt_file_def cols_def Let_def)
qed

lemma example_txt_ok: "txt_ok example_write_env"
  using example_writes_ok [of TXT_F] by (simp add: txt_ok_def) (simp add: example_write_env_def file_path_def)

theorem text_rows_witness:
  "\<exists>st. write_txt_file (sort_key time_date) example_write_env
      [(0 :: nat, [timed 1 5, timed 3 6]), (1, [timed 2 7, timed 4 8])] = Inr st \<and>
    concat (map snd (txt_files st)) = [(1, [Some 5, None]), (2, [None, Some 7])]"
proof -
  let ?r = "[(0 :: nat, [timed 1 5, timed 3 6]), (1, [timed 2 7, timed 4 8])]"
  let ?cols = "columns (sort_series (sort_key time_date) ?r)"
  have cols: "?cols = [[timed 1 5, timed 3 6], [timed 2 7, timed 4 8]]"
    by (simp add: columns_def sort_series_def)
  have "merged_times ?cols = [1, 2, 3, 4]"
    unfolding cols merged_times_def by simp
  moreover have "max_length ?r = 2" by (simp add: max_length_def)
  ultimately have "rows_of ?cols (take (max_length ?r) (merged_times ?cols)) = [(1, [Some 5, None]), (2, [None, Some 7])]"
    unfolding cols by (simp add: rows_of_def cell_at_def)
  moreover have "times_ok ?r" by (simp add: times_ok_def utc_max_def utc_min_def)
  moreover note text_rows [OF sort_key_ok example_txt_ok, of ?r]
  ultimately show ?thesis by simp
qed

end
