(* ===== verification/Extract_Read.thy ===== *)
theory Extract_Read
  imports Extract_Write Common_Data
begin

text \<open>
  Text files of extracted data: the text that \<^verbatim>\<open>write_txt_file\<close> makes of the columns and rows of theory
  \<open>Extract_Write\<close> (\<^verbatim>\<open>src/proc/extract/write.cpp\<close>), and how \<^verbatim>\<open>src/proc/extract/read.cpp\<close> splits lines, reads
  the named values of a header and reads the data back.
\<close>

section \<open>Splitting\<close>

text \<open>\<^verbatim>\<open>std::find_if\<close> from an index; the end of the string if nothing is found.\<close>

definition find_from :: "(char \<Rightarrow> bool) \<Rightarrow> string \<Rightarrow> nat \<Rightarrow> nat" where
  "find_from P s i = i + length (takeWhile (\<lambda>c. \<not> P c) (drop i s))"

lemma find_from_bounds: "i \<le> find_from P s i" "i \<le> length s \<Longrightarrow> find_from P s i \<le> length s"
  using length_takeWhile_le [of "\<lambda>c. \<not> P c" "drop i s"] by (auto simp: find_from_def)

lemma find_from_end: "length s \<le> i \<Longrightarrow> find_from P s i = i"
  by (simp add: find_from_def)

text \<open>The loop: the parts between separators, from the index \<open>e\<close> on.\<close>

function split_loop :: "(char \<Rightarrow> bool) \<Rightarrow> string \<Rightarrow> nat \<Rightarrow> string list \<Rightarrow> string list" where
  "split_loop sep s e result =
     (let b = find_from (\<lambda>c. \<not> sep c) s e; e' = find_from sep s b
      in if b = e' then result else split_loop sep s e' (result @ [take (e' - b) (drop b s)]))"
  by pat_completeness auto
termination
proof (relation "measure (\<lambda>(sep, s, e, result). length s - e)", simp, clarsimp)
  fix sep :: "char \<Rightarrow> bool" and s :: string and e :: nat
  let ?b = "find_from (\<lambda>c. \<not> sep c) s e"
  assume "?b \<noteq> find_from sep s ?b"
  then have "?b < length s" using find_from_end by (metis linorder_not_le)
  moreover from this have "e < length s" using find_from_bounds(1) [of e "\<lambda>c. \<not> sep c" s] by simp
  ultimately show "length s - find_from sep s ?b < length s - e"
    using find_from_bounds(1) [of e "\<lambda>c. \<not> sep c" s] find_from_bounds(1) [of ?b sep s] \<open>?b \<noteq> find_from sep s ?b\<close>
    by linarith
qed

declare split_loop.simps [simp del]

definition split_ignore :: "string \<Rightarrow> string \<Rightarrow> string list" where
  "split_ignore input_string separator = split_loop (\<lambda>c. c \<in> set separator) input_string 0 []"

text \<open>A reference: the longest parts without a separator.\<close>

function split_fields :: "(char \<Rightarrow> bool) \<Rightarrow> string \<Rightarrow> string list" where
  "split_fields sep s = (let s = dropWhile sep s in
     if s = [] then [] else takeWhile (\<lambda>c. \<not> sep c) s # split_fields sep (dropWhile (\<lambda>c. \<not> sep c) s))"
  by pat_completeness auto
termination
proof (relation "measure (\<lambda>(sep, s). length s)", simp)
  fix sep :: "char \<Rightarrow> bool" and s t :: string
  assume t: "t = dropWhile sep s" "t \<noteq> []"
  then have "\<not> sep (hd t)" using hd_dropWhile [of sep s] by simp
  with t(2) have "length (dropWhile (\<lambda>c. \<not> sep c) t) < length t"
    by (cases t) (auto simp: le_imp_less_Suc length_dropWhile_le)
  also have "\<dots> \<le> length s" unfolding t(1) by (rule length_dropWhile_le)
  finally show "((sep, dropWhile (\<lambda>c. \<not> sep c) t), sep, s) \<in> measure (\<lambda>(sep, s). length s)" by simp
qed

declare split_fields.simps [simp del]

section \<open>Numbers and named values\<close>

fun show_nat :: "nat \<Rightarrow> string" where
  "show_nat n = (if n < 10 then [char_of (48 + n)] else show_nat (n div 10) @ [char_of (48 + n mod 10)])"

declare show_nat.simps [simp del]

definition is_digit :: "char \<Rightarrow> bool" where
  "is_digit c \<longleftrightarrow> 48 \<le> (of_char c :: nat) \<and> (of_char c :: nat) \<le> 57"

definition digits_value :: "string \<Rightarrow> nat" where
  "digits_value s = foldl (\<lambda>n c. n * 10 + (of_char c - 48)) 0 s"

text \<open>\<^verbatim>\<open>std::from_chars\<close> of an unsigned type: the digits in front, unless there is none or the value is too large.\<close>

definition from_chars :: "nat \<Rightarrow> string \<Rightarrow> nat option" where
  "from_chars bits s = (let ds = takeWhile is_digit s in
     if ds = [] \<or> digits_value ds \<ge> 2 ^ bits then None else Some (digits_value ds))"

text \<open>
  A stream is the text that is left to read.  \<^verbatim>\<open>std::getline\<close> fails at the end of the stream.
\<close>

definition getline :: "string \<Rightarrow> (string \<times> string) option" where
  "getline s = (if s = [] then None
     else Some (takeWhile (\<lambda>c. c \<noteq> CHR 0x0A) s, tl (dropWhile (\<lambda>c. c \<noteq> CHR 0x0A) s)))"

lemma getline_shorter: "getline s = Some (buf, r) \<Longrightarrow> length r < length s"
  using length_dropWhile_le [of "\<lambda>c. c \<noteq> CHR 0x0A" s] by (cases s) (auto simp: getline_def split: if_splits)

definition find_first_no_of :: "string \<Rightarrow> string \<Rightarrow> nat" where
  "find_first_no_of s separator = find_from (\<lambda>c. c \<notin> set separator) s 0"

text \<open>The text behind the name and its colon, and a number there.\<close>

definition get_txt_string :: "string \<Rightarrow> string \<Rightarrow> ErrorCode + string" where
  "get_txt_string buf token =
     (let s = drop (find_first_no_of buf [CHR 0x09, CHR '' '']) buf in
      if take (length token + 1) s \<noteq> token @ '':'' then Inl EC_FILE_X1_CORRUPTED_OR_INVALID_FORMAT
      else Inr (drop (length token + 1) s))"

definition get_txt_token :: "nat \<Rightarrow> string \<Rightarrow> string \<Rightarrow> ErrorCode + nat" where
  "get_txt_token bits buf token = (case get_txt_string buf token of
       Inl e \<Rightarrow> Inl e
     | Inr value_str \<Rightarrow> (case from_chars bits value_str of
          None \<Rightarrow> Inl EC_FILE_X1_CORRUPTED_OR_INVALID_FORMAT
        | Some n \<Rightarrow> Inr n))"

text \<open>The same for the next line of a stream, and a line that is only passed over.\<close>

definition read_txt_token :: "nat \<Rightarrow> string \<Rightarrow> string \<Rightarrow> ErrorCode + nat \<times> string" where
  "read_txt_token bits token s = (case getline s of
       None \<Rightarrow> Inl EC_FILE_X1_READING_ERROR
     | Some (buf, s) \<Rightarrow> map_sum id (\<lambda>n. (n, s)) (get_txt_token bits buf token))"

definition skip_txt_token :: "string \<Rightarrow> ErrorCode + string" where
  "skip_txt_token s = (case getline s of None \<Rightarrow> Inl EC_FILE_X1_READING_ERROR | Some (buf, s) \<Rightarrow> Inr s)"

section \<open>Forecast and level in a header\<close>

definition write_parameter :: "nat \<Rightarrow> string \<Rightarrow> string \<Rightarrow> string" where
  "write_parameter indent token value_text = replicate indent (CHR 0x09) @ token @ '':'' @ value_text @ [CHR 0x0A]"

text \<open>The lines of a parameter of the header that describe the forecast.\<close>

definition write_forecast :: "TimeForecast \<Rightarrow> string" where
  "write_forecast t =
     write_parameter 0 ''forecast data'' [] @
     write_parameter 1 ''time frame'' (show_nat (unat (tf_code t))) @
     write_parameter 1 ''time range indicator'' (show_nat (unat (tri_code t))) @
     (if is_intervaled t
      then write_parameter 1 ''N avg/acc'' (show_nat (unat (N_avg t))) @
        write_parameter 1 ''N missed'' (show_nat (unat (N_avg_acc_missed t)))
      else []) @
     (if octet_doubled t
      then write_parameter 1 ''P1'' (show_nat (unat (push_bit 8 (ucast (P1_val t)) OR ucast (P2_val t) :: u16)))
      else if is_unique_value t then write_parameter 1 ''P1'' (show_nat (unat (P1_val t)))
      else write_parameter 1 ''P1'' (show_nat (unat (P1_val t))) @ write_parameter 1 ''P2'' (show_nat (unat (P2_val t))))"

text \<open>Reading it: for a period of two octets both halves are written to \<^verbatim>\<open>P1\<close>, each without its highest bit.\<close>

definition read_N_lines :: "TimeForecast \<times> string \<Rightarrow> ErrorCode + TimeForecast \<times> string" where
  "read_N_lines = (\<lambda>(t, s). if is_intervaled t
     then (case read_txt_token 16 ''N avg/acc'' s of Inl e \<Rightarrow> Inl e | Inr (n, s) \<Rightarrow>
       (case read_txt_token 8 ''N missed'' s of Inl e \<Rightarrow> Inl e | Inr (m, s) \<Rightarrow>
          Inr (t\<lparr>N_avg := of_nat n, N_avg_acc_missed := of_nat m\<rparr>, s)))
     else Inr (t, s))"

definition read_P_lines :: "TimeForecast \<times> string \<Rightarrow> ErrorCode + TimeForecast \<times> string" where
  "read_P_lines = (\<lambda>(t, s). if octet_doubled t
     then (case read_txt_token 16 ''P1'' s of Inl e \<Rightarrow> Inl e | Inr (n, s) \<Rightarrow>
       (let tmp = of_nat n :: u16;
            t = t\<lparr>P1_val := ucast (drop_bit 8 tmp AND 127)\<rparr>;
            t = t\<lparr>P1_val := ucast (tmp AND 127)\<rparr>
        in Inr (t, s)))
     else if is_unique_value t
     then (case read_txt_token 8 ''P1'' s of Inl e \<Rightarrow> Inl e | Inr (n, s) \<Rightarrow> Inr (t\<lparr>P1_val := of_nat n\<rparr>, s))
     else (case read_txt_token 8 ''P1'' s of Inl e \<Rightarrow> Inl e | Inr (n, s) \<Rightarrow>
       (case read_txt_token 8 ''P2'' s of Inl e \<Rightarrow> Inl e | Inr (m, s) \<Rightarrow>
          Inr (t\<lparr>P1_val := of_nat n, P2_val := of_nat m\<rparr>, s))))"

text \<open>
  \<open>t\<^sub>0\<close> is the object that \<^verbatim>\<open>TimeForecast result\<close> makes.  The time range indicator is an enumeration without a
  fixed type: a number outside of its range is undefined.
\<close>

definition read_forecast :: "TimeForecast \<Rightarrow> string \<Rightarrow> (ErrorCode + TimeForecast \<times> string) option" where
  "read_forecast t\<^sub>0 s = (case skip_txt_token s of Inl e \<Rightarrow> Some (Inl e) | Inr s \<Rightarrow>
     (case read_txt_token 8 ''time frame'' s of Inl e \<Rightarrow> Some (Inl e) | Inr (tf, s) \<Rightarrow>
     (case read_txt_token 32 ''time range indicator'' s of Inl e \<Rightarrow> Some (Inl e) | Inr (tri, s) \<Rightarrow>
       if tri \<ge> 256 then None
       else Some (case read_N_lines (t\<^sub>0\<lparr>tf_code := of_nat tf, tri_code := of_nat tri\<rparr>, s) of
          Inl e \<Rightarrow> Inl e | Inr ts \<Rightarrow> read_P_lines ts))))"

text \<open>
  A level: \<open>shown\<close> is the text of its bounds or of its height, which the standard library makes.  A type
  outside of the table of levels is undefined.
\<close>

definition write_level :: "string \<times> string \<Rightarrow> Level \<Rightarrow> string option" where
  "write_level shown l = map_option (\<lambda>b.
     write_parameter 0 ''level'' [] @
     write_parameter 1 ''tag'' (show_nat (unat (level_type l))) @
     write_parameter 1 ''o11'' (show_nat (unat (octet_11 l))) @
     write_parameter 1 ''o12'' (show_nat (unat (octet_12 l))) @
     (if b then write_parameter 1 ''top bound'' (fst shown) @ write_parameter 1 ''bottom bound'' (snd shown)
      else write_parameter 1 ''height'' (fst shown))) (is_bounded l)"

definition read_level :: "string \<Rightarrow> (ErrorCode + Level \<times> string) option" where
  "read_level s = (case skip_txt_token s of Inl e \<Rightarrow> Some (Inl e) | Inr s \<Rightarrow>
     (case read_txt_token 8 ''tag'' s of Inl e \<Rightarrow> Some (Inl e) | Inr (tag, s) \<Rightarrow>
     (case read_txt_token 8 ''o11'' s of Inl e \<Rightarrow> Some (Inl e) | Inr (o11, s) \<Rightarrow>
     (case read_txt_token 8 ''o12'' s of Inl e \<Rightarrow> Some (Inl e) | Inr (o12, s) \<Rightarrow>
       (let l = make_Level (of_nat tag) (of_nat o11) (of_nat o12)
        in map_option (\<lambda>b.
          (case skip_txt_token s of Inl e \<Rightarrow> Inl e | Inr s \<Rightarrow>
             if b then map_sum id (Pair l) (skip_txt_token s) else Inr (l, s))) (is_bounded l))))))"

section \<open>The data of a file\<close>

text \<open>
  The number formats of the standard library: a time in seconds as \<^verbatim>\<open>%Y/%m/%d %H:%M:%S\<close>; parsing one gives
  nanoseconds and the number of characters read, or whether the end of the text was reached; a value of type
  \<^verbatim>\<open>float\<close> with nine digits.  And the name that the generated parameter table holds.
\<close>

record text_lib =
  fmt_time :: "int \<Rightarrow> string"
  parse_time :: "string \<Rightarrow> int \<times> nat + bool"
  fmt_value :: "rat \<Rightarrow> string"
  parse_value :: "string \<Rightarrow> rat option"
  table_name :: "u8 \<Rightarrow> u8 \<Rightarrow> u8 \<Rightarrow> string option"

definition to_seconds :: "int \<Rightarrow> int" where
  "to_seconds t = (if 0 \<le> t then t div 1000000000 else - (- t div 1000000000))"

definition pad_right :: "nat \<Rightarrow> string \<Rightarrow> string" where
  "pad_right n s = s @ replicate (n - length s) (CHR '' '')"

text \<open>The names of the columns; a parameter that the table does not have is a null pointer.\<close>

definition column_name :: "text_lib \<Rightarrow> CommonDataProperties \<Rightarrow> string option" where
  "column_name L c = table_name L (case cmn_center c of Some x \<Rightarrow> x | None \<Rightarrow> 255)
     (case cmn_table_version c of Some x \<Rightarrow> x | None \<Rightarrow> 0) (case cmn_parameter c of Some x \<Rightarrow> x | None \<Rightarrow> 0)"

definition write_data_header :: "text_lib \<Rightarrow> CommonDataProperties list \<Rightarrow> string option" where
  "write_data_header L cs = map_option (\<lambda>names. CHR 0x5C # ''data'' @ [CHR 0x0A] @ pad_right 18 ''Time'' @ [CHR 0x09] @
     concat (map (\<lambda>name. pad_right 10 name @ [CHR 0x09]) names) @ [CHR 0x0A]) (those (map (column_name L) cs))"

definition cell_text :: "text_lib \<Rightarrow> rat option \<Rightarrow> string" where
  "cell_text L c = pad_right 9 (case c of Some v \<Rightarrow> fmt_value L v | None \<Rightarrow> ''NaN'') @ [CHR 0x09]"

definition row_text :: "text_lib \<Rightarrow> row \<Rightarrow> string" where
  "row_text L = (\<lambda>(t, cells). fmt_time L (to_seconds t) @ [CHR 0x09] @ concat (map (cell_text L) cells) @ [CHR 0x0A])"

datatype read_exn = Error_exception ErrorCode | No_value

text \<open>
  The names of the columns are compared with those of the table, as far as the table has one.  \<open>cmn\<close> is the
  common part of a key.
\<close>

primrec check_names :: "text_lib \<Rightarrow> CommonDataProperties list \<Rightarrow> string list \<Rightarrow> read_exn option" where
  "check_names L [] names = None"
| "check_names L (c # cs) names = (case (cmn_center c, cmn_table_version c, cmn_parameter c) of
     (Some ce, Some tv, Some p) \<Rightarrow>
       if table_name L ce tv p \<noteq> None \<and> table_name L ce tv p \<noteq> Some (hd names)
       then Some (Error_exception EC_FILE_X1_READING_ERROR) else check_names L cs (tl names)
   | _ \<Rightarrow> Some No_value)"

text \<open>The values of a row go to the series of their columns.\<close>

type_synonym 'k read_result = "'k \<rightharpoonup> ExtractedValue list"

primrec read_cells ::
    "text_lib \<Rightarrow> int \<Rightarrow> 'k list \<Rightarrow> string list \<Rightarrow> 'k read_result \<Rightarrow> read_exn + 'k read_result" where
  "read_cells L t [] values_str result = Inr result"
| "read_cells L t (k # ks) values_str result =
     (if hd values_str = ''NaN'' then read_cells L t ks (tl values_str) result
      else (case parse_value L (hd values_str) of
         None \<Rightarrow> Inl (Error_exception EC_FILE_X1_READING_ERROR)
       | Some v \<Rightarrow> read_cells L t ks (tl values_str)
           (push_back \<lparr>time_date = t, extracted_value = v\<rparr> k result)))"

function read_loop :: "text_lib \<Rightarrow> string \<Rightarrow> 'k list \<Rightarrow> string \<Rightarrow> 'k read_result \<Rightarrow> read_exn + 'k read_result" where
  "read_loop L separator ks s result = (case parse_time L s of
       Inr at_end \<Rightarrow> if at_end then Inr result else Inl (Error_exception EC_FILE_X1_READING_ERROR)
     | Inl (t, n) \<Rightarrow> (case getline (drop n s) of
         None \<Rightarrow> Inl (Error_exception EC_FILE_X1_READING_ERROR)
       | Some (buf, s) \<Rightarrow>
          (let values_str = split_ignore buf separator in
           if length values_str < length ks then Inl (Error_exception EC_FILE_X1_READING_ERROR)
           else (case read_cells L t ks values_str result of
              Inl e \<Rightarrow> Inl e | Inr result \<Rightarrow> read_loop L separator ks s result))))"
  by pat_completeness auto
termination
  by (relation "measure (\<lambda>(L, separator, ks, s, result). length s)") (auto dest!: getline_shorter)

declare read_loop.simps [simp del]

text \<open>
  \<^verbatim>\<open>read_data\<close>.  What it takes from the header, the version and the keys of the columns, is an argument:
  \<^verbatim>\<open>read_header\<close> (\<^verbatim>\<open>read.cpp:247\<close>) calls a function that assigns members that its result does not have, and
  is not modelled, and neither is \<^verbatim>\<open>read_txt_file\<close>, which calls both.
\<close>

definition read_data ::
    "text_lib \<Rightarrow> ('k \<Rightarrow> CommonDataProperties) \<Rightarrow> nat \<Rightarrow> 'k list \<Rightarrow> string \<Rightarrow> string \<Rightarrow> read_exn + 'k read_result" where
  "read_data L cmn version ks separator s = (if version = 1 then
       (case getline s of None \<Rightarrow> Inl (Error_exception EC_FILE_X1_READING_ERROR) | Some (data_line, s) \<Rightarrow>
       (case getline s of None \<Rightarrow> Inl (Error_exception EC_FILE_X1_READING_ERROR) | Some (buf, s) \<Rightarrow>
         (let data_head_names = split_ignore buf separator in
          if Suc (length ks) \<noteq> length data_head_names then Inl (Error_exception EC_FILE_X1_READING_ERROR)
          else (case check_names L (map cmn ks) (tl data_head_names) of
             Some e \<Rightarrow> Inl e
           | None \<Rightarrow> read_loop L separator ks s Map.empty))))
     else Inl (Error_exception EC_FILE_X1_READING_ERROR))"

section \<open>Facts about splitting\<close>

lemma drop_find_from: "drop (find_from P s i) s = dropWhile (\<lambda>c. \<not> P c) (drop i s)"
  by (simp add: find_from_def dropWhile_eq_drop add.commute)

lemma split_loop_fields: "split_loop sep s e result = result @ split_fields sep (drop e s)"
proof (induction sep s e result rule: split_loop.induct)
  case (1 sep s e result)
  define b where "b = find_from (\<lambda>c. \<not> sep c) s e"
  define e' where "e' = find_from sep s b"
  have rest: "dropWhile sep (drop e s) = drop b s" unfolding b_def drop_find_from by simp
  have word: "takeWhile (\<lambda>c. \<not> sep c) (drop b s) = take (e' - b) (drop b s)"
    unfolding e'_def find_from_def by (simp flip: takeWhile_eq_take)
  have empty: "drop b s = [] \<longleftrightarrow> b = e'"
  proof
    assume "drop b s = []"
    then show "b = e'" unfolding e'_def by (simp add: find_from_def)
  next
    assume "b = e'"
    then have "takeWhile (\<lambda>c. \<not> sep c) (drop b s) = []" unfolding e'_def find_from_def by simp
    moreover have "\<not> sep (hd (drop b s))" if "drop b s \<noteq> []"
      using hd_dropWhile [of sep "drop e s"] that unfolding rest by simp
    ultimately show "drop b s = []" by (cases "drop b s") (auto split: if_splits)
  qed
  have step: "split_loop sep s e result =
      (if b = e' then result else split_loop sep s e' (result @ [take (e' - b) (drop b s)]))"
    unfolding split_loop.simps [of sep s e result] by (simp only: Let_def b_def [symmetric] e'_def [symmetric])
  have reference: "split_fields sep (drop e s) = (if b = e' then []
      else take (e' - b) (drop b s) # split_fields sep (drop e' s))"
    unfolding split_fields.simps [of sep "drop e s"] rest Let_def word empty
    by (simp add: e'_def drop_find_from)
  show ?case
  proof (cases "b = e'")
    case True
    with step reference show ?thesis by simp
  next
    case False
    with 1 [OF b_def e'_def False] step reference show ?thesis by simp
  qed
qed

lemma split_ignore_fields: "split_ignore s separator = split_fields (\<lambda>c. c \<in> set separator) s"
  by (simp add: split_ignore_def split_loop_fields)

lemma split_fields_Nil [simp]: "split_fields sep [] = []"
  by (simp add: split_fields.simps)

lemma split_fields_sep [simp]: "sep c \<Longrightarrow> split_fields sep (c # s) = split_fields sep s"
  by (simp add: split_fields.simps [of sep "c # s"] split_fields.simps [of sep s])

definition blank :: "char \<Rightarrow> bool" where
  "blank c \<longleftrightarrow> c = CHR '' '' \<or> c = CHR 0x09"

lemma split_fields_replicate [simp]: "sep c \<Longrightarrow> split_fields sep (replicate n c @ s) = split_fields sep s"
  by (induction n) simp_all

lemma fields_word:
  assumes "w \<noteq> []" "\<forall>c\<in>set w. \<not> sep c" "sep d"
  shows "split_fields sep (w @ d # s) = w # split_fields sep s"
proof -
  have first: "dropWhile sep (w @ d # s) = w @ d # s" using assms(1,2) by (cases w) simp_all
  have "takeWhile (\<lambda>c. \<not> sep c) (w @ d # s) = w" "dropWhile (\<lambda>c. \<not> sep c) (w @ d # s) = d # s"
    using assms(2,3) by (simp_all add: takeWhile_tail dropWhile_append3)
  with assms(1,3) show ?thesis by (simp add: split_fields.simps [of sep "w @ d # s"] first)
qed

definition plain :: "string \<Rightarrow> bool" where
  "plain w \<longleftrightarrow> w \<noteq> [] \<and> CHR '' '' \<notin> set w \<and> CHR 0x09 \<notin> set w \<and> CHR 0x0A \<notin> set w"

lemma fields_padded:
  assumes "plain w"
  shows "split_fields blank (pad_right n w @ CHR 0x09 # s) =
    w # split_fields blank s"
proof (cases "n - length w")
  case 0
  have "split_fields blank (w @ CHR 0x09 # s) = w # split_fields blank s"
    using assms by (intro fields_word) (auto simp: plain_def blank_def)
  with 0 show ?thesis by (simp add: pad_right_def)
next
  case (Suc m)
  have "split_fields blank (w @ CHR '' '' # replicate m (CHR '' '') @ CHR 0x09 # s) =
      w # split_fields blank (replicate m (CHR '' '') @ CHR 0x09 # s)"
    using assms by (intro fields_word) (auto simp: plain_def blank_def)
  with Suc show ?thesis by (simp add: pad_right_def blank_def)
qed

lemma fields_row:
  assumes "\<forall>w\<in>set ws. plain w"
  shows "split_fields blank (concat (map (\<lambda>w. pad_right n w @ [CHR 0x09]) ws)) = ws"
  using assms by (induction ws) (simp_all add: fields_padded)

section \<open>Facts about lines\<close>

lemma until_char: "c \<notin> set l \<Longrightarrow> takeWhile (\<lambda>x. x \<noteq> c) (l @ c # s) = l \<and> dropWhile (\<lambda>x. x \<noteq> c) (l @ c # s) = c # s"
  by (induction l) auto

lemma getline_line: "CHR 0x0A \<notin> set l \<Longrightarrow> getline (l @ CHR 0x0A # s) = Some (l, s)"
  using until_char [of "CHR 0x0A" l s] by (simp add: getline_def)

lemma show_nat_digits: "show_nat n \<noteq> [] \<and> (\<forall>c\<in>set (show_nat n). is_digit c) \<and> digits_value (show_nat n) = n"
proof (induction n rule: show_nat.induct)
  case (1 n)
  have digit: "is_digit (char_of (48 + k))" "of_char (char_of (48 + k :: nat)) = 48 + k" if "k < 10" for k :: nat
    using that by (simp_all add: is_digit_def of_char_of)
  show ?case
  proof (cases "n < 10")
    case True
    then show ?thesis using digit [OF True] by (simp add: show_nat.simps [of n] digits_value_def)
  next
    case False
    have "n mod 10 < 10" by simp
    note d = digit [OF this]
    from 1 [OF False] False d show ?thesis
      by (auto simp: show_nat.simps [of n] digits_value_def)
  qed
qed

lemma from_chars_show: "n < 2 ^ bits \<Longrightarrow> from_chars bits (show_nat n) = Some n"
  using show_nat_digits [of n] by (simp add: from_chars_def takeWhile_eq_all_conv [THEN iffD2])

lemma show_nat_line: "CHR 0x0A \<notin> set (show_nat n)"
  using show_nat_digits [of n] by (auto simp: is_digit_def)

text \<open>The names of values start with a letter and have no line break.\<close>

definition token_ok :: "string \<Rightarrow> bool" where
  "token_ok token \<longleftrightarrow> token \<noteq> [] \<and> hd token \<notin> {CHR 0x09, CHR '' ''} \<and> CHR 0x0A \<notin> set token"

lemma get_txt_string_written:
  assumes "token_ok token"
  shows "get_txt_string (replicate i (CHR 0x09) @ token @ CHR '':'' # txt) token = Inr txt"
proof -
  let ?s = "token @ CHR '':'' # txt"
  have "dropWhile (\<lambda>c. c \<in> set [CHR 0x09, CHR '' '']) (replicate i (CHR 0x09) @ ?s) = ?s"
    using assms by (induction i) (cases token, auto simp: token_ok_def)
  then have "drop (find_first_no_of (replicate i (CHR 0x09) @ ?s) [CHR 0x09, CHR '' '']) (replicate i (CHR 0x09) @ ?s) = ?s"
    unfolding find_first_no_of_def drop_find_from by simp
  then show ?thesis by (simp add: get_txt_string_def Let_def)
qed

lemma read_written:
  assumes "token_ok token" "n < 2 ^ bits"
  shows "read_txt_token bits token (write_parameter i token (show_nat n) @ s) = Inr (n, s)"
proof -
  have "getline (write_parameter i token (show_nat n) @ s) = Some (replicate i (CHR 0x09) @ token @ CHR '':'' # show_nat n, s)"
    using getline_line [of "replicate i (CHR 0x09) @ token @ CHR '':'' # show_nat n" s] assms(1) show_nat_line
    by (auto simp: write_parameter_def token_ok_def)
  then show ?thesis
    by (simp add: read_txt_token_def get_txt_token_def get_txt_string_written [OF assms(1)] from_chars_show [OF assms(2)])
qed

lemma skip_written:
  assumes "token_ok token" "CHR 0x0A \<notin> set txt"
  shows "skip_txt_token (write_parameter i token txt @ s) = Inr s"
  using getline_line [of "replicate i (CHR 0x09) @ token @ CHR '':'' # txt" s] assms
  by (auto simp: write_parameter_def token_ok_def skip_txt_token_def)

section \<open>Reading a header back\<close>

lemmas read_names = token_ok_def read_written skip_written

lemma read_forecast_written:
  "read_forecast t\<^sub>0 (write_forecast t @ s) = Some (Inr (t\<^sub>0\<lparr>tf_code := tf_code t, tri_code := tri_code t,
     N_avg := if is_intervaled t then N_avg t else N_avg t\<^sub>0,
     N_avg_acc_missed := if is_intervaled t then N_avg_acc_missed t else N_avg_acc_missed t\<^sub>0,
     P1_val := if octet_doubled t then P2_val t AND 127 else P1_val t,
     P2_val := if octet_doubled t \<or> is_unique_value t then P2_val t\<^sub>0 else P2_val t\<rparr>, s))"
proof -
  let ?u = "t\<^sub>0\<lparr>tf_code := tf_code t, tri_code := tri_code t\<rparr>"
  let ?N = "?u\<lparr>N_avg := if is_intervaled t then N_avg t else N_avg t\<^sub>0,
     N_avg_acc_missed := if is_intervaled t then N_avg_acc_missed t else N_avg_acc_missed t\<^sub>0\<rparr>"
  have small: "unat (x :: u8) < 256" "unat (y :: u16) < 65536" for x y
    using unsigned_less [of x, where ?'a = nat] unsigned_less [of y, where ?'a = nat] by simp_all
  have range: "unat (x :: u8) < 4294967296" for x by (rule less_trans [OF small(1)]) simp
  have code: "\<not> 256 \<le> unat (x :: u8)" for x by (rule linorder_not_le [THEN iffD2, OF small(1)])
  have same: "is_intervaled ?u = is_intervaled t" "octet_doubled ?N = octet_doubled t"
    "is_unique_value ?N = is_unique_value t"
    by (simp_all add: is_intervaled_def octet_doubled_def is_unique_value_def)
  have low: "ucast ((push_bit 8 (ucast a) OR ucast b :: u16) AND 127) = b AND (127 :: u8)" for a b :: u8
    by (rule bit_word_eqI) (auto simp: bit_simps bit_numeral_rec)
  have N: "read_N_lines (?u, (if is_intervaled t
      then write_parameter 1 ''N avg/acc'' (show_nat (unat (N_avg t))) @
        write_parameter 1 ''N missed'' (show_nat (unat (N_avg_acc_missed t))) else []) @ r) = Inr (?N, r)" for r
    using same(1) by (simp add: read_N_lines_def read_names small)
  have P: "read_P_lines (?N, (if octet_doubled t
      then write_parameter 1 ''P1'' (show_nat (unat (push_bit 8 (ucast (P1_val t)) OR ucast (P2_val t) :: u16)))
      else if is_unique_value t then write_parameter 1 ''P1'' (show_nat (unat (P1_val t)))
      else write_parameter 1 ''P1'' (show_nat (unat (P1_val t))) @ write_parameter 1 ''P2'' (show_nat (unat (P2_val t)))) @ s) =
    Inr (?N\<lparr>P1_val := if octet_doubled t then P2_val t AND 127 else P1_val t,
     P2_val := if octet_doubled t \<or> is_unique_value t then P2_val t\<^sub>0 else P2_val t\<rparr>, s)"
    using same(2,3) by (simp add: read_P_lines_def read_names small low Let_def)
  show ?thesis
    by (simp add: read_forecast_def write_forecast_def read_names small range code N P)
qed

lemma read_level_written:
  assumes "write_level shown l = Some txt" "CHR 0x0A \<notin> set (fst shown)" "CHR 0x0A \<notin> set (snd shown)"
  shows "read_level (txt @ s) = Some (Inr (l, s))"
proof -
  from assms(1) obtain b where b: "is_bounded l = Some b" by (auto simp: write_level_def)
  have small: "unat (x :: u8) < 256" for x using unsigned_less [of x, where ?'a = nat] by simp
  have l: "make_Level (level_type l) (octet_11 l) (octet_12 l) = l" by (simp add: make_Level_def)
  show ?thesis using assms b by (cases b) (auto simp: write_level_def read_level_def read_names small l)
qed

section \<open>Reading rows back\<close>

text \<open>
  What is assumed of the number formats: times within the range of \<^verbatim>\<open>utc_tp\<close> and values of type \<^verbatim>\<open>float\<close>
  are read back from what is written, and the text of a value is not empty, has no blank and is not \<^verbatim>\<open>NaN\<close>.
\<close>

definition text_ok :: "text_lib \<Rightarrow> bool" where
  "text_ok L \<longleftrightarrow> parse_time L [] = Inr True \<and>
     (\<forall>t s. \<bar>t\<bar> \<le> 9223372036 \<longrightarrow>
        parse_time L (fmt_time L t @ CHR 0x09 # s) = Inl (1000000000 * t, length (fmt_time L t))) \<and>
     (\<forall>v. f32 v = v \<longrightarrow> plain (fmt_value L v) \<and> fmt_value L v \<noteq> ''NaN'' \<and> parse_value L (fmt_value L v) = Some v)"

lemma text_okD:
  assumes "text_ok L"
  shows "parse_time L [] = Inr True"
    "\<bar>t\<bar> \<le> 9223372036 \<Longrightarrow> parse_time L (fmt_time L t @ CHR 0x09 # s) = Inl (1000000000 * t, length (fmt_time L t))"
    "f32 v = v \<Longrightarrow> plain (fmt_value L v) \<and> fmt_value L v \<noteq> ''NaN'' \<and> parse_value L (fmt_value L v) = Some v"
  using assms unfolding text_ok_def by blast+

text \<open>The separators of \<^verbatim>\<open>read_txt_file\<close>.\<close>

definition text_separator :: string where
  "text_separator = [CHR '' '', CHR 0x09]"

definition cell_word :: "text_lib \<Rightarrow> rat option \<Rightarrow> string" where
  "cell_word L c = (case c of Some v \<Rightarrow> fmt_value L v | None \<Rightarrow> ''NaN'')"

definition cells_ok :: "rat option list \<Rightarrow> bool" where
  "cells_ok cells \<longleftrightarrow> (\<forall>v. Some v \<in> set cells \<longrightarrow> f32 v = v)"

definition row_ok :: "nat \<Rightarrow> row \<Rightarrow> bool" where
  "row_ok n = (\<lambda>(t, cells). length cells = n \<and> \<bar>to_seconds t\<bar> \<le> 9223372036 \<and> cells_ok cells)"

definition series_of :: "'k read_result \<Rightarrow> 'k \<Rightarrow> ExtractedValue list" where
  "series_of m k = (case m k of None \<Rightarrow> [] | Some vs \<Rightarrow> vs)"

definition cell_values :: "int \<Rightarrow> rat option option \<Rightarrow> ExtractedValue list" where
  "cell_values t c = (case c of Some (Some v) \<Rightarrow> [\<lparr>time_date = t, extracted_value = v\<rparr>] | _ \<Rightarrow> [])"

definition column_values :: "'k list \<Rightarrow> row list \<Rightarrow> 'k \<Rightarrow> ExtractedValue list" where
  "column_values ks rows k =
     concat (map (\<lambda>(t, cells). cell_values (1000000000 * to_seconds t) (map_of (zip ks cells) k)) rows)"

lemma series_of_push_back:
  "series_of (push_back v k m) k' = (if k' = k then series_of m k @ [v] else series_of m k')"
  by (simp add: series_of_def push_back_def)

lemma blank_separator: "(\<lambda>c. c \<in> set text_separator) = blank"
  by (auto simp: text_separator_def blank_def)

lemma plain_cell: "text_ok L \<Longrightarrow> cells_ok cells \<Longrightarrow> \<forall>c\<in>set cells. plain (cell_word L c)"
  using text_okD(3) [of L] by (force simp: cell_word_def cells_ok_def plain_def split: option.split)

lemma pad_right_line: "CHR 0x0A \<notin> set w \<Longrightarrow> CHR 0x0A \<notin> set (pad_right n w)"
  by (simp add: pad_right_def)

lemma cells_line:
  assumes "\<forall>w\<in>set ws. plain w"
  shows "CHR 0x0A \<notin> set (concat (map (\<lambda>w. pad_right n w @ [CHR 0x09]) ws))"
  using assms by (induction ws) (auto simp: pad_right_line plain_def)

lemma cell_texts: "concat (map (cell_text L) cells) =
    concat (map (\<lambda>w. pad_right 9 w @ [CHR 0x09]) (map (cell_word L) cells))"
  by (simp add: cell_text_def [abs_def] cell_word_def [abs_def] o_def)

lemma split_cells:
  assumes "text_ok L" "cells_ok cells"
  shows "split_ignore (CHR 0x09 # concat (map (cell_text L) cells)) text_separator = map (cell_word L) cells"
    "CHR 0x0A \<notin> set (concat (map (cell_text L) cells))"
proof -
  have plain: "\<forall>w\<in>set (map (cell_word L) cells). plain w" using plain_cell [OF assms] by simp
  have "blank (CHR 0x09)" by (simp add: blank_def)
  then show "split_ignore (CHR 0x09 # concat (map (cell_text L) cells)) text_separator = map (cell_word L) cells"
    unfolding split_ignore_fields blank_separator cell_texts by (simp only: split_fields_sep fields_row [OF plain])
  show "CHR 0x0A \<notin> set (concat (map (cell_text L) cells))"
    unfolding cell_texts by (rule cells_line [OF plain])
qed

lemma read_cells_row:
  assumes "text_ok L" "length cells = length ks" "distinct ks" "cells_ok cells"
  shows "\<exists>m'. read_cells L t ks (map (cell_word L) cells) m = Inr m' \<and>
    (\<forall>k. series_of m' k = series_of m k @ cell_values t (map_of (zip ks cells) k))"
  using assms(2-4)
proof (induction ks arbitrary: cells m)
  case Nil
  then show ?case by (simp add: cell_values_def)
next
  case (Cons k ks)
  then obtain c cs where cells: "cells = c # cs" by (cases cells) auto
  with Cons.prems have cs: "length cs = length ks" "distinct ks" "k \<notin> set ks" "cells_ok cs"
    by (auto simp: cells_ok_def)
  then have other: "map_of (zip ks cs) k = None" by (simp add: map_of_zip_is_None)
  show ?case
  proof (cases c)
    case None
    from Cons.IH [OF cs(1,2,4), of m] other show ?thesis
      by (auto simp: cells None cell_word_def cell_values_def)
  next
    case (Some v)
    then have "f32 v = v" using Cons.prems(3) by (simp add: cells cells_ok_def)
    note word = text_okD(3) [OF assms(1) this]
    from Cons.IH [OF cs(1,2,4), of "push_back \<lparr>time_date = t, extracted_value = v\<rparr> k m"] other word show ?thesis
      by (auto simp: cells Some cell_word_def cell_values_def series_of_push_back)
  qed
qed

lemma read_loop_rows:
  assumes "text_ok L" "distinct ks" "\<forall>r\<in>set rows. row_ok (length ks) r"
  shows "\<exists>m'. read_loop L text_separator ks (concat (map (row_text L) rows)) m = Inr m' \<and>
    (\<forall>k. series_of m' k = series_of m k @ column_values ks rows k)"
  using assms(3)
proof (induction rows arbitrary: m)
  case Nil
  then show ?case using text_okD(1) [OF assms(1)] by (simp add: read_loop.simps column_values_def)
next
  case (Cons r rows)
  obtain t cells where r: "r = (t, cells)" by (cases r)
  with Cons.prems have ok: "length cells = length ks" "\<bar>to_seconds t\<bar> \<le> 9223372036" "cells_ok cells"
    by (simp_all add: row_ok_def)
  let ?rest = "concat (map (row_text L) rows)"
  let ?cells = "concat (map (cell_text L) cells)"
  have whole: "concat (map (row_text L) (r # rows)) = fmt_time L (to_seconds t) @ CHR 0x09 # ?cells @ CHR 0x0A # ?rest"
    by (simp add: r row_text_def)
  have line: "getline (CHR 0x09 # ?cells @ CHR 0x0A # ?rest) = Some (CHR 0x09 # ?cells, ?rest)"
    using getline_line [of "CHR 0x09 # ?cells" ?rest] split_cells(2) [OF assms(1) ok(3)] by simp
  obtain m1 where m1: "read_cells L (1000000000 * to_seconds t) ks (map (cell_word L) cells) m = Inr m1"
      "\<forall>k. series_of m1 k = series_of m k @ cell_values (1000000000 * to_seconds t) (map_of (zip ks cells) k)"
    using read_cells_row [OF assms(1) ok(1) assms(2) ok(3)] by blast
  have "read_loop L text_separator ks (concat (map (row_text L) (r # rows))) m = read_loop L text_separator ks ?rest m1"
    unfolding whole read_loop.simps [of L text_separator ks "fmt_time L (to_seconds t) @ CHR 0x09 # ?cells @ CHR 0x0A # ?rest"]
    using ok(1) by (simp add: text_okD(2) [OF assms(1) ok(2)] line split_cells(1) [OF assms(1) ok(3)] m1(1))
  moreover from Cons.prems have "\<forall>r\<in>set rows. row_ok (length ks) r" by simp
  note Cons.IH [OF this, of m1]
  ultimately show ?case using m1(2) by (auto simp: column_values_def r)
qed

text \<open>Columns with a complete key, whose name in the table has no blank.\<close>

definition named :: "text_lib \<Rightarrow> CommonDataProperties \<Rightarrow> bool" where
  "named L c \<longleftrightarrow> cmn_center c \<noteq> None \<and> cmn_table_version c \<noteq> None \<and> cmn_parameter c \<noteq> None \<and>
     (\<exists>name. column_name L c = Some name \<and> plain name)"

lemma those_named:
  assumes "\<forall>c\<in>set cs. named L c"
  obtains names where "those (map (column_name L) cs) = Some names" "\<forall>w\<in>set names. plain w"
    "length names = length cs" "check_names L cs names = None"
  using assms
proof (induction cs arbitrary: thesis)
  case (Cons c cs)
  from Cons.IH Cons.prems(2) obtain names where names: "those (map (column_name L) cs) = Some names"
    "\<forall>w\<in>set names. plain w" "length names = length cs" "check_names L cs names = None" by force
  from Cons.prems(2) obtain name ce tv q where "column_name L c = Some name" "plain name"
    "cmn_center c = Some ce" "cmn_table_version c = Some tv" "cmn_parameter c = Some q"
    unfolding named_def by auto
  with names show ?case by (intro Cons.prems(1) [of "name # names"]) (simp_all add: column_name_def [of L c])
qed simp

lemma write_data_header_read:
  assumes "\<forall>c\<in>set cs. named L c"
  obtains hdr line names where "write_data_header L cs = Some hdr"
    "getline (hdr @ s) = Some (CHR 0x5C # ''data'', line @ CHR 0x0A # s)" "getline (line @ CHR 0x0A # s) = Some (line, s)"
    "split_ignore line text_separator = ''Time'' # names" "length names = length cs" "check_names L cs names = None"
proof -
  from those_named [OF assms] obtain names where names: "those (map (column_name L) cs) = Some names"
    "\<forall>w\<in>set names. plain w" "length names = length cs" "check_names L cs names = None" by blast
  let ?line = "pad_right 18 ''Time'' @ CHR 0x09 # concat (map (\<lambda>w. pad_right 10 w @ [CHR 0x09]) names)"
  have plain: "plain ''Time''" by (simp add: plain_def)
  have line: "CHR 0x0A \<notin> set ?line"
    using cells_line [OF names(2)] pad_right_line [of "''Time''"] by simp
  have "split_ignore ?line text_separator = ''Time'' # names"
    unfolding split_ignore_fields blank_separator fields_padded [OF plain] fields_row [OF names(2)] ..
  moreover have "getline ((CHR 0x5C # ''data'') @ CHR 0x0A # ?line @ CHR 0x0A # s) = Some (CHR 0x5C # ''data'', ?line @ CHR 0x0A # s)"
    by (rule getline_line) simp
  ultimately show thesis
    using names getline_line [OF line]
    by (intro that [of "(CHR 0x5C # ''data'') @ CHR 0x0A # ?line @ [CHR 0x0A]" ?line names])
      (simp_all add: write_data_header_def)
qed

text \<open>The text of a file without its header.\<close>

definition data_text :: "text_lib \<Rightarrow> CommonDataProperties list \<Rightarrow> row list \<Rightarrow> string option" where
  "data_text L cs rows = map_option (\<lambda>hdr. hdr @ concat (map (row_text L) rows)) (write_data_header L cs)"

lemma read_data_written:
  assumes "text_ok L" "distinct ks" "\<forall>k\<in>set ks. named L (cmn k)" "\<forall>r\<in>set rows. row_ok (length ks) r"
  shows "\<exists>txt m. data_text L (map cmn ks) rows = Some txt \<and> read_data L cmn 1 ks text_separator txt = Inr m \<and>
    (\<forall>k. series_of m k = column_values ks rows k)"
proof -
  let ?rows = "concat (map (row_text L) rows)"
  from assms(3) have "\<forall>c\<in>set (map cmn ks). named L c" by simp
  from write_data_header_read [OF this, of ?rows] obtain hdr line names where
    hdr: "write_data_header L (map cmn ks) = Some hdr"
      "getline (hdr @ ?rows) = Some (CHR 0x5C # ''data'', line @ CHR 0x0A # ?rows)"
      "getline (line @ CHR 0x0A # ?rows) = Some (line, ?rows)"
      "split_ignore line text_separator = ''Time'' # names" "length names = length ks"
      "check_names L (map cmn ks) names = None" by auto
  obtain m where "read_loop L text_separator ks ?rows Map.empty = Inr m"
      "\<forall>k. series_of m k = series_of Map.empty k @ column_values ks rows k"
    using read_loop_rows [OF assms(1,2,4), of Map.empty] by blast
  with hdr show ?thesis
    by (intro exI [of _ "hdr @ ?rows"] exI [of _ m]) (simp add: data_text_def read_data_def series_of_def)
qed

section \<open>Files written and read\<close>

lemma filter_first_time:
  assumes "sorted (map time_date vs)" "\<forall>u\<in>T. t < u"
  shows "filter (\<lambda>v. time_date v = t \<or> time_date v \<in> T) vs =
    filter (\<lambda>v. time_date v = t) vs @ filter (\<lambda>v. time_date v \<in> T) vs"
  using assms(1)
proof (induction vs)
  case (Cons v vs)
  show ?case
  proof (cases "time_date v \<in> T")
    case True
    with assms(2) have "t < time_date v" by blast
    then have "\<forall>w\<in>set vs. time_date w \<noteq> t" using Cons.prems by auto
    then have "filter (\<lambda>v. time_date v = t) vs = []" by (simp add: filter_empty_conv)
    with Cons True \<open>t < time_date v\<close> show ?thesis by simp
  qed (use Cons in auto)
qed simp

text \<open>The cells of a column, row by row, are its values at the times of the rows.\<close>

lemma column_cells:
  assumes "strict_column vs" "sorted_wrt (<) ts"
  shows "concat (map (\<lambda>t. cell_values t (Some (cell_at t vs))) ts) = filter (\<lambda>v. time_date v \<in> set ts) vs"
  using assms(2)
proof (induction ts)
  case (Cons t ts)
  have sorted: "sorted (map time_date vs)" and distinct: "distinct (map time_date vs)"
    using assms(1) by (simp_all add: strict_column_def)
  have "cell_values t (Some (cell_at t vs)) = filter (\<lambda>v. time_date v = t) vs"
    using distinct
  proof (induction vs)
    case (Cons v vs)
    show ?case
    proof (cases "time_date v = t")
      case True
      with Cons.prems have "\<forall>w\<in>set vs. time_date w \<noteq> t" by (auto simp: image_iff)
      then have "filter (\<lambda>v. time_date v = t) vs = []" by (simp add: filter_empty_conv)
      with True show ?thesis by (simp add: cell_at_def cell_values_def)
    qed (use Cons in \<open>simp add: cell_at_def\<close>)
  qed (simp add: cell_at_def cell_values_def)
  with Cons filter_first_time [OF sorted, of "set ts" t] show ?case by simp
qed simp

text \<open>Series that a text file can hold: whole seconds, values of type \<^verbatim>\<open>float\<close>, named columns.\<close>

definition series_ok :: "text_lib \<Rightarrow> ('k \<Rightarrow> CommonDataProperties) \<Rightarrow> 'k series \<Rightarrow> bool" where
  "series_ok L cmn result \<longleftrightarrow> result \<noteq> [] \<and> times_ok result \<and> distinct (map fst result) \<and>
     (\<forall>(k, vs)\<in>set result. vs \<noteq> [] \<and> distinct (map time_date vs) \<and> named L (cmn k) \<and>
        (\<forall>v\<in>set vs. 1000000000 dvd time_date v \<and> f32 (extracted_value v) = extracted_value v))"

lemma to_seconds_range:
  assumes "utc_min \<le> t" "t \<le> utc_max"
  shows "\<bar>to_seconds t\<bar> \<le> 9223372036"
proof (cases "0 \<le> t")
  case True
  have "t div 1000000000 \<le> utc_max div 1000000000" by (rule zdiv_mono1 [OF assms(2)]) simp
  moreover have "0 \<le> t div 1000000000" using True by (simp add: pos_imp_zdiv_nonneg_iff)
  ultimately show ?thesis using True by (simp add: to_seconds_def utc_max_def)
next
  case False
  have "- t div 1000000000 \<le> - utc_min div 1000000000" by (rule zdiv_mono1) (use assms(1) in simp_all)
  moreover have "0 \<le> - t div 1000000000" using False by (simp add: pos_imp_zdiv_nonneg_iff)
  ultimately show ?thesis using False by (simp add: to_seconds_def utc_min_def)
qed

lemma to_seconds_exact: "1000000000 dvd t \<Longrightarrow> 1000000000 * to_seconds t = t"
  by (auto simp: to_seconds_def)

lemma cell_at_value: "cell_at t vs = Some v \<Longrightarrow> \<exists>w\<in>set vs. extracted_value w = v"
  by (auto simp: cell_at_def find_Some_iff)

text \<open>The rows of the sorted series, their cells and the values of a column.\<close>

lemma written_rows:
  fixes result :: "'k series"
  assumes srt: "sort_ok srt" and ok: "series_ok L cmn result"
  defines "cols \<equiv> columns (sort_series srt result)"
  assumes ts: "set ts \<subseteq> set (merged_times cols)" "sorted_wrt (<) ts"
  shows "cols = map (\<lambda>(k, vs). srt vs) result"
    "\<forall>r\<in>set (rows_of cols ts). row_ok (length result) r"
    "(k, vs) \<in> set result \<Longrightarrow>
      column_values (map fst result) (rows_of cols ts) k = filter (\<lambda>v. time_date v \<in> set ts) (srt vs)"
proof -
  note facts = sort_okD [OF srt]
  have series: "vs \<noteq> []" "distinct (map time_date vs)"
      "v \<in> set vs \<Longrightarrow> 1000000000 dvd time_date v \<and> f32 (extracted_value v) = extracted_value v"
      "v \<in> set vs \<Longrightarrow> utc_min \<le> time_date v \<and> time_date v \<le> utc_max" if "(k, vs) \<in> set result" for k vs v
    using ok that by (auto simp: series_ok_def times_ok_def)
  have "srt vs \<noteq> []" if "(k, vs) \<in> set result" for k vs
    using series(1) [OF that] facts(2) [of vs] by auto
  then show cols: "cols = map (\<lambda>(k, vs). srt vs) result"
    unfolding cols_def columns_def sort_series_def by (subst filter_True) (auto simp: o_def split_def)
  have time: "1000000000 dvd t \<and> utc_min \<le> t \<and> t \<le> utc_max" if t: "t \<in> set ts" for t
  proof -
    from t ts(1) obtain k vs v where "(k, vs) \<in> set result" "v \<in> set vs" "t = time_date v"
      unfolding merged_times_facts(3) cols by (auto simp: facts(1))
    with series(3,4) show ?thesis by blast
  qed
  have cells: "cells_ok (map (cell_at t) cols)" for t
    unfolding cells_ok_def
  proof (intro allI impI)
    fix v assume "Some v \<in> set (map (cell_at t) cols)"
    then obtain k vs where mem: "(k, vs) \<in> set result" "cell_at t (srt vs) = Some v" by (auto simp: cols)
    from cell_at_value [OF mem(2)] obtain w where "w \<in> set vs" "extracted_value w = v" by (auto simp: facts(1))
    with series(3) [OF mem(1)] show "f32 v = v" by blast
  qed
  have "row_ok (length result) (t, map (cell_at t) cols)" if "t \<in> set ts" for t
    using cells [of t] to_seconds_range time [OF that] by (simp add: row_ok_def) (simp add: cols)
  then show "\<forall>r\<in>set (rows_of cols ts). row_ok (length result) r" by (auto simp: rows_of_def)
  assume mem: "(k, vs) \<in> set result"
  have "map_of (zip (map fst result) (map (cell_at t) cols)) k = Some (cell_at t (srt vs))" for t
  proof -
    have zip: "zip (map fst result) (map (cell_at t) cols) = map (\<lambda>(k, vs). (k, cell_at t (srt vs))) result"
      unfolding cols by (simp add: zip_map_map zip_same_conv_map o_def split_def)
    have "distinct (map fst (map (\<lambda>(k, vs). (k, cell_at t (srt vs))) result))"
      using ok by (simp add: series_ok_def o_def split_def)
    then show ?thesis unfolding zip by (rule map_of_is_SomeI) (use mem in force)
  qed
  then have "column_values (map fst result) (rows_of cols ts) k =
      concat (map (\<lambda>t. cell_values (1000000000 * to_seconds t) (Some (cell_at t (srt vs)))) ts)"
    by (simp add: column_values_def rows_of_def o_def)
  also have "\<dots> = concat (map (\<lambda>t. cell_values t (Some (cell_at t (srt vs)))) ts)"
    using time to_seconds_exact by (simp cong: map_cong)
  also have "\<dots> = filter (\<lambda>v. time_date v \<in> set ts) (srt vs)"
  proof (rule column_cells [OF _ ts(2)])
    have "mset (map time_date (srt vs)) = mset (map time_date vs)"
      using srt by (simp add: sort_ok_def mset_map)
    with series(2) [OF mem] facts(3) show "strict_column (srt vs)"
      unfolding strict_column_def by (metis mset_eq_imp_distinct_iff)
  qed
  finally show "column_values (map fst result) (rows_of cols ts) k = filter (\<lambda>v. time_date v \<in> set ts) (srt vs)" .
qed


section \<open>Number formats for the witnesses\<close>

definition show_int :: "int \<Rightarrow> string" where
  "show_int n = (if n < 0 then CHR ''-'' # show_nat (nat (- n)) else show_nat (nat n))"

definition read_int :: "string \<Rightarrow> int" where
  "read_int s = (case s of [] \<Rightarrow> 0
     | c # cs \<Rightarrow> if c = CHR ''-'' then - int (digits_value cs) else int (digits_value s))"

definition show_rat :: "rat \<Rightarrow> string" where
  "show_rat v = (case quotient_of v of (n, d) \<Rightarrow> show_int n @ CHR ''/'' # show_int d)"

definition read_rat :: "string \<Rightarrow> rat" where
  "read_rat s = of_int (read_int (takeWhile (\<lambda>c. c \<noteq> CHR ''/'') s)) /
     of_int (read_int (tl (dropWhile (\<lambda>c. c \<noteq> CHR ''/'') s)))"

definition example_text_lib :: text_lib where
  "example_text_lib = \<lparr>fmt_time = show_int,
     parse_time = (\<lambda>s. if s = [] then Inr True
       else let w = takeWhile (\<lambda>c. c \<noteq> CHR 0x09) s in Inl (1000000000 * read_int w, length w)),
     fmt_value = show_rat, parse_value = (\<lambda>s. Some (read_rat s)), table_name = (\<lambda>ce tv p. Some ''tp'')\<rparr>"

lemma read_show_int: "read_int (show_int n) = n"
proof -
  show ?thesis using show_nat_digits [of "nat n"] show_nat_digits [of "nat (- n)"]
    by (cases "show_nat (nat n)") (auto simp: show_int_def read_int_def is_digit_def)
qed

lemma show_int_chars: "show_int n \<noteq> []" "c \<in> set (show_int n) \<Longrightarrow> c = CHR ''-'' \<or> is_digit c"
  using show_nat_digits by (auto simp: show_int_def split: if_splits)

lemma show_int_plain: "plain (show_int n)" "CHR ''/'' \<notin> set (show_int n)"
proof -
  have "c \<notin> set (show_int n)" if "c \<noteq> CHR ''-''" "\<not> is_digit c" for c
    using show_int_chars(2) [of c n] that by blast
  then show "plain (show_int n)" "CHR ''/'' \<notin> set (show_int n)"
    using show_int_chars(1) [of n] by (simp_all add: plain_def is_digit_def)
qed

lemma read_show_rat: "read_rat (show_rat v) = v"
proof -
  obtain n d where q: "quotient_of v = (n, d)" by (cases "quotient_of v")
  have whole: "show_rat v = show_int n @ CHR ''/'' # show_int d" by (simp add: show_rat_def q)
  from until_char [OF show_int_plain(2) [of n], of "show_int d"] have "read_rat (show_rat v) = of_int n / of_int d"
    unfolding whole by (simp add: read_rat_def read_show_int)
  then show ?thesis by (simp only: quotient_of_div [OF q])
qed

lemma example_text_ok: "text_ok example_text_lib"
  unfolding text_ok_def
proof (intro conjI allI impI)
  fix t :: int and s
  have "CHR 0x09 \<notin> set (show_int t)" using show_int_plain(1) [of t] by (simp add: plain_def)
  from until_char [OF this, of s]
  show "parse_time example_text_lib (fmt_time example_text_lib t @ CHR 0x09 # s) =
      Inl (1000000000 * t, length (fmt_time example_text_lib t))"
    by (simp add: example_text_lib_def read_show_int Let_def)
next
  fix v :: rat
  obtain n d where q: "quotient_of v = (n, d)" by (cases "quotient_of v")
  have whole: "show_rat v = show_int n @ CHR ''/'' # show_int d" by (simp add: show_rat_def q)
  have "CHR ''/'' \<in> set (show_rat v)" by (simp add: whole)
  then show "fmt_value example_text_lib v \<noteq> ''NaN''" by (auto simp: example_text_lib_def)
  show "plain (fmt_value example_text_lib v)"
    using show_int_plain(1) [of n] show_int_plain(1) [of d] by (simp add: example_text_lib_def whole plain_def)
qed (simp_all add: example_text_lib_def read_show_rat)

definition example_column :: "nat \<Rightarrow> CommonDataProperties" where
  "example_column k = make_CommonDataProperties (Some 98) (Some 128) (Some (of_nat k))"


end
