(* ===== verification/Paths.thy ===== *)
theory Paths
  imports Common_Data
begin

text \<open>
  The paths under which data is indexed: the structures of namespace \<^verbatim>\<open>path\<close> in
  \<^verbatim>\<open>include/definitions/path_process.h\<close>, with their comparisons, hash and order.
\<close>

section \<open>Storage\<close>

datatype path_type = DIRECTORY | FILE | HOST

text \<open>
  The variant \<^verbatim>\<open>ADDITIONAL\<close>, in the order of its alternatives: a host has a time of the last check
  and a port, a directory and a file have a time.
\<close>

datatype Additional = Additional_none | Additional_HOST int u16 | Additional_DIRECTORY int | Additional_FILE int

primrec Additional_index :: "Additional \<Rightarrow> nat" where
  "Additional_index Additional_none = 0"
| "Additional_index (Additional_HOST t p) = 1"
| "Additional_index (Additional_DIRECTORY t) = 2"
| "Additional_index (Additional_FILE t) = 3"

definition Additional_is :: "path_type \<Rightarrow> Additional \<Rightarrow> bool" where
  "Additional_is T a \<longleftrightarrow> Additional_index a = (case T of HOST \<Rightarrow> 1 | DIRECTORY \<Rightarrow> 2 | FILE \<Rightarrow> 3)"

fun Additional_eq :: "Additional \<Rightarrow> Additional \<Rightarrow> bool" where
  "Additional_eq Additional_none Additional_none = True"
| "Additional_eq (Additional_HOST t p) (Additional_HOST t' p') = (t = t' \<and> p = p')"
| "Additional_eq (Additional_DIRECTORY t) (Additional_DIRECTORY t') = (t = t')"
| "Additional_eq (Additional_FILE t) (Additional_FILE t') = (t = t')"
| "Additional_eq _ _ = False"

text \<open>
  \<^verbatim>\<open>Storage<false>\<close> owns its path and \<^verbatim>\<open>Storage<true>\<close> views it; both are their path here.  How long
  a viewed string lives is not modelled.
\<close>

record Storage =
  st_add :: Additional
  st_path :: string
  st_type :: path_type

definition Storage_directory :: "string \<Rightarrow> int \<Rightarrow> Storage" where
  "Storage_directory path last_check = \<lparr>st_add = Additional_DIRECTORY last_check, st_path = path, st_type = DIRECTORY\<rparr>"

definition Storage_file :: "string \<Rightarrow> int \<Rightarrow> Storage" where
  "Storage_file path last_check = \<lparr>st_add = Additional_FILE last_check, st_path = path, st_type = FILE\<rparr>"

definition Storage_host :: "string \<Rightarrow> u16 \<Rightarrow> int \<Rightarrow> Storage" where
  "Storage_host host port last_check = \<lparr>st_add = Additional_HOST last_check port, st_path = host, st_type = HOST\<rparr>"

text \<open>
  The member operators on two different objects.  In \<^verbatim>\<open>operator==\<close> the conditional operator binds
  weaker than the conjunction before it.
\<close>

definition Storage_eq_member :: "Storage \<Rightarrow> Storage \<Rightarrow> bool" where
  "Storage_eq_member a b \<longleftrightarrow>
     (if st_path a = st_path b \<and> st_type a = st_type b \<and> Additional_index (st_add a) = Additional_index (st_add b)
      then Additional_eq (st_add a) (st_add b) else False)"

definition Storage_ne_member :: "Storage \<Rightarrow> Storage \<Rightarrow> bool" where
  "Storage_ne_member a b \<longleftrightarrow> st_path a \<noteq> st_path b \<or> st_type a \<noteq> st_type b"

text \<open>The free operator, and \<^verbatim>\<open>std::equal_to\<close>, which the containers use.\<close>

definition Storage_eq_free :: "Storage \<Rightarrow> Storage \<Rightarrow> bool" where
  "Storage_eq_free lhs rhs \<longleftrightarrow> st_path lhs = st_path rhs \<and> st_type lhs = st_type rhs"

definition Storage_equal_to :: "Storage \<Rightarrow> Storage \<Rightarrow> bool" where
  "Storage_equal_to lhs rhs \<longleftrightarrow> st_path lhs = st_path rhs \<and> st_type lhs = st_type rhs"

text \<open>The hashes of strings and numbers are those of the standard library.\<close>

primrec path_type_value :: "path_type \<Rightarrow> nat" where
  "path_type_value DIRECTORY = 0"
| "path_type_value FILE = 1"
| "path_type_value HOST = 2"

definition Storage_hash :: "(string \<Rightarrow> u64) \<Rightarrow> (u64 \<Rightarrow> u64) \<Rightarrow> Storage \<Rightarrow> u64" where
  "Storage_hash hash_string hash_size p = hash_string (st_path p) XOR hash_size (of_nat (path_type_value (st_type p)))"

text \<open>\<^verbatim>\<open>std::less\<close> compares the hash of its left argument with itself.\<close>

definition Storage_less :: "(string \<Rightarrow> u64) \<Rightarrow> (u64 \<Rightarrow> u64) \<Rightarrow> Storage \<Rightarrow> Storage \<Rightarrow> bool" where
  "Storage_less hash_string hash_size lhs rhs \<longleftrightarrow>
     Storage_hash hash_string hash_size lhs < Storage_hash hash_string hash_size lhs"

interpretation path_key: hash_key Storage_equal_to "Storage_hash hs hn" for hs hn
  by unfold_locales (simp_all add: Storage_equal_to_def Storage_hash_def)

interpretation path_order: strict_weak_order "Storage_less hs hn" for hs hn
  by unfold_locales (simp_all add: Storage_less_def)

lemma Additional_eq_iff: "Additional_eq a b \<longleftrightarrow> a = b"
  by (cases a; cases b) auto

section \<open>A set ordered by std::less\<close>

text \<open>
  Insertion into a \<^verbatim>\<open>std::set\<close>, kept in its order: an element that is equivalent to one that is there
  is not inserted.
\<close>

fun std_set_insert :: "('a \<Rightarrow> 'a \<Rightarrow> bool) \<Rightarrow> 'a \<Rightarrow> 'a list \<Rightarrow> 'a list" where
  "std_set_insert lt x [] = [x]"
| "std_set_insert lt x (y # ys) = (if lt x y then x # y # ys
     else if lt y x then y # std_set_insert lt x ys else y # ys)"

context strict_weak_order
begin

lemma std_set_insert_set: "set (std_set_insert lt x xs) \<subseteq> insert x (set xs)"
  by (induction xs) auto

lemma std_set_insert_sorted: "sorted_wrt lt xs \<Longrightarrow> sorted_wrt lt (std_set_insert lt x xs)"
proof (induction xs)
  case (Cons y ys)
  then show ?case using std_set_insert_set [of x ys] lt_trans [of x y] by auto
qed simp

text \<open>The set holds exactly one element of each class.\<close>

lemma std_set_insert_member:
  "sorted_wrt lt xs \<Longrightarrow> \<exists>y\<in>set (std_set_insert lt x xs). \<not> lt x y \<and> \<not> lt y x"
proof (induction xs)
  case (Cons y ys)
  then show ?case using lt_irrefl [of x] by auto
qed (simp add: lt_irrefl)

lemma std_set_no_order: "(\<And>a b. \<not> lt a b) \<Longrightarrow> xs \<noteq> [] \<Longrightarrow> std_set_insert lt x xs = xs"
  by (cases xs) simp_all

end

section \<open>Properties\<close>

text \<open>
  How paths compare.  The member equality is equality, the hashed containers identify paths with
  the same text and type, whatever the time of the last check; \<^verbatim>\<open>!=\<close> is not the negation of \<^verbatim>\<open>==\<close>: of
  two references to one file checked at different times both are false.  The order separates no two
  paths, so a set of paths filled from any list keeps only the first one.
\<close>

theorem path_comparisons:
  "(Storage_eq_member a b \<longleftrightarrow> a = b) \<and>
   (Storage_equal_to a b \<longleftrightarrow> (st_path a, st_type a) = (st_path b, st_type b)) \<and>
   (s \<noteq> t \<longleftrightarrow> \<not> Storage_eq_member (Storage_file p s) (Storage_file p t) \<and>
      \<not> Storage_ne_member (Storage_file p s) (Storage_file p t) \<and>
      Storage_equal_to (Storage_file p s) (Storage_file p t)) \<and>
   fold (std_set_insert (Storage_less hs hn)) (a # as) [] = [a]"
proof -
  have "fold (std_set_insert (Storage_less hs hn)) as [a] = [a]" for as
    by (induction as) (simp_all add: path_order.std_set_no_order Storage_less_def)
  moreover have "Storage_eq_member a b \<longleftrightarrow> a = b" for a b
    by (cases a; cases b) (auto simp: Storage_eq_member_def Additional_eq_iff)
  ultimately show ?thesis
    by (auto simp: Storage_equal_to_def Storage_ne_member_def Storage_file_def)
qed

end
