(* ===== verification/Data_Struct.thy ===== *)
theory Data_Struct
  imports Indexing Paths "HOL-Library.AList"
begin

text \<open>
  The index of GRIB data, \<^verbatim>\<open>DataStruct<TIME_SERIES, GRIB_v1>\<close> of \<^verbatim>\<open>include/data/datastruct/grib1.h\<close>:
  for each file the positions of its messages, and for each value of a property of a message, the
  files and positions where it occurs.  The lifetimes of the file keys and the hash codes of grids
  are part of the model, since the code gets both wrong.
\<close>

section \<open>Containers\<close>

text \<open>
  A \<^verbatim>\<open>std::unordered_map\<close> is the list of its entries in the order of iteration, which the code does
  not depend on.  Paths are keys by their text and type (theory Paths).  The keys behind shared
  pointers are compared by the value they point to.

  \<^verbatim>\<open>positions_\<close> owns the text of its keys.  The keys of the files in the indices are
  \<^verbatim>\<open>path::Storage<true>\<close>, views of the text of a \<^verbatim>\<open>path::Storage<false>\<close>: \<open>Live\<close> while that object
  exists, and \<open>Dangling\<close> afterwards.  \<open>Dangling p\<close> keeps the text \<open>p\<close> that the view once had, to
  speak about it; the program cannot read it.  Two objects are viewed: the local \<^verbatim>\<open>file\<close> of
  \<^verbatim>\<open>add_data\<close>, until the call ends, and a copy of it in the pair that \<^verbatim>\<open>std::make_pair\<close> makes, until
  the expression ends.
\<close>

type_synonym path_key = "string \<times> path_type"

definition path_key_of :: "Storage \<Rightarrow> path_key" where
  "path_key_of p = (st_path p, st_type p)"

datatype view = Live path_key | Dangling path_key

primrec view_text :: "view \<Rightarrow> path_key" where
  "view_text (Live p) = p"
| "view_text (Dangling p) = p"

primrec read_view :: "view \<Rightarrow> path_key option" where
  "read_view (Live p) = Some p"
| "read_view (Dangling p) = None"

type_synonym positions = "(path_key \<times> int list) list"
type_synonym files = "(view \<times> int list) list"
type_synonym 'k index = "('k \<times> files) list"

text \<open>\<^verbatim>\<open>operator[]\<close>: the value of a key, or the empty value it creates.\<close>

definition entry :: "('k \<times> 'v list) list \<Rightarrow> 'k \<Rightarrow> 'v list" where
  "entry m k = (case map_of m k of Some v \<Rightarrow> v | None \<Rightarrow> [])"

text \<open>
  What a call depends on outside of the program.  \<open>reads_key f g\<close>: a hash table of files reads its key
  \<open>g\<close> when it looks for \<open>f\<close> or puts \<open>f\<close> in; which keys of other files it reads is up to the library
  (\<open>table_ok\<close>: it reads a key of the same text).  \<open>grid_hash n\<close>: the result of the \<open>n\<close>-th computation
  of \<^verbatim>\<open>std::hash<GridInfo>\<close> in the call, whose operand is not the grid but the octets at the address of
  the function object (\<^verbatim>\<open>grid.h:222\<close>), so that it can be any number.
\<close>

record table_env =
  reads_key :: "path_key \<Rightarrow> path_key \<Rightarrow> bool"
  grid_hash :: "nat \<Rightarrow> nat"

definition table_ok :: "table_env \<Rightarrow> bool" where
  "table_ok E \<longleftrightarrow> (\<forall>f. reads_key E f f)"

text \<open>Looking for a file in a table is undefined when it reads a dangling key.\<close>

definition blocked :: "table_env \<Rightarrow> path_key \<Rightarrow> files \<Rightarrow> bool" where
  "blocked E file paths =
     list_ex (\<lambda>(v, ps). case v of Live p \<Rightarrow> False | Dangling p \<Rightarrow> reads_key E file p) paths"

text \<open>\<^verbatim>\<open>found->second[file].push_back(msg.buf_pos_)\<close>; the new key is a view of the local \<^verbatim>\<open>file\<close>.\<close>

definition push_position :: "table_env \<Rightarrow> path_key \<Rightarrow> int \<Rightarrow> files \<Rightarrow> files option" where
  "push_position E file pos paths = (if blocked E file paths then None
     else Some (AList.update (Live file) (entry paths (Live file) @ [pos]) paths))"

text \<open>
  \<^verbatim>\<open>add_data_lambda\<close>: a known key gets the position at the end of its list for the file; an unknown
  one is inserted with the file and the position.  The pair that is put into the new container owns
  a copy of \<^verbatim>\<open>file\<close>, and the key of the container is a view of that copy, which is destroyed at the
  end of the expression.
\<close>

definition add_position :: "table_env \<Rightarrow> path_key \<Rightarrow> int \<Rightarrow> 'k \<Rightarrow> 'k index \<Rightarrow> 'k index option" where
  "add_position E file pos param container = (case map_of container param of
       Some paths \<Rightarrow> do {
         paths \<leftarrow> push_position E file pos paths;
         Some (AList.update param paths container)}
     | None \<Rightarrow> Some (AList.update param [(Dangling file, [pos])] container))"

text \<open>
  The same for grids.  An entry keeps the hash code it was inserted with, and is found by that code
  and the grid.  The code is computed once to find the grid and once more to insert it, for the
  message \<open>n\<close> of the call; \<^verbatim>\<open>insert\<close> does nothing when the second code finds the grid.
\<close>

definition add_grid_position ::
    "table_env \<Rightarrow> nat \<Rightarrow> path_key \<Rightarrow> int \<Rightarrow> GridInfo \<Rightarrow> (nat \<times> GridInfo) index \<Rightarrow> (nat \<times> GridInfo) index option" where
  "add_grid_position E n file pos param container =
     (let found = (grid_hash E (2 * n), param); inserted = (grid_hash E (2 * n + 1), param) in
      case map_of container found of
        Some paths \<Rightarrow> do {
          paths \<leftarrow> push_position E file pos paths;
          Some (AList.update found paths container)}
      | None \<Rightarrow> Some (if map_of container inserted = None
          then AList.update inserted [(Dangling file, [pos])] container else container))"

section \<open>DataStruct\<close>

text \<open>
  \<^verbatim>\<open>by_date_\<close> is declared, but nothing is ever put into it but by merging; its key \<^verbatim>\<open>TimeSequence\<close> is a
  type of OsterLib and a parameter here.
\<close>

record 'ts DataStruct =
  ds_positions :: positions
  by_common :: "CommonDataProperties index"
  by_date :: "'ts index"
  by_grid :: "(nat \<times> GridInfo) index"
  by_forecast :: "TimeForecast index"
  by_level :: "Level index"

definition empty_DataStruct :: "'ts DataStruct" where
  "empty_DataStruct = \<lparr>ds_positions = [], by_common = [], by_date = [], by_grid = [], by_forecast = [], by_level = []\<rparr>"

definition info_common :: "GribMsgDataInfo \<Rightarrow> CommonDataProperties" where
  "info_common i = make_CommonDataProperties (Some (info_center i)) (Some (info_table_version i)) (Some (info_parameter i))"

text \<open>
  The loop over the messages of a file; a message with an error is passed over.  The error member
  decides a branch, which is undefined when it has no value.
\<close>

definition add_message :: "table_env \<Rightarrow> nat \<Rightarrow> path_key \<Rightarrow> GribMsgDataInfo \<Rightarrow> 'ts DataStruct \<Rightarrow> 'ts DataStruct option" where
  "add_message E n file i d = do {
     e \<leftarrow> info_err i;
     if e = NONE_ERR then do {
       c \<leftarrow> add_position E file (buf_pos i) (info_common i) (by_common d);
       t \<leftarrow> add_position E file (buf_pos i) (t_unit i) (by_forecast d);
       g \<leftarrow> add_grid_position E n file (buf_pos i) (grid_data i) (by_grid d);
       l \<leftarrow> add_position E file (buf_pos i) (info_level i) (by_level d);
       Some (d\<lparr>ds_positions := AList.update file (entry (ds_positions d) file @ [buf_pos i]) (ds_positions d),
         by_common := c, by_forecast := t, by_grid := g, by_level := l\<rparr>)}
     else Some d}"

primrec add_messages ::
    "table_env \<Rightarrow> path_key \<Rightarrow> GribMsgDataInfo list \<Rightarrow> nat \<Rightarrow> 'ts DataStruct \<Rightarrow> 'ts DataStruct option" where
  "add_messages E file [] n d = Some d"
| "add_messages E file (i # is) n d = do { d \<leftarrow> add_message E n file i d; add_messages E file is (Suc n) d }"

text \<open>The end of a call: the object that the remaining views refer to is destroyed.\<close>

definition retire_files :: "files \<Rightarrow> files" where
  "retire_files paths = map (\<lambda>(v, ps). (Dangling (view_text v), ps)) paths"

definition retire_index :: "'k index \<Rightarrow> 'k index" where
  "retire_index m = map (\<lambda>(key, paths). (key, retire_files paths)) m"

definition retire :: "'ts DataStruct \<Rightarrow> 'ts DataStruct" where
  "retire d = d\<lparr>by_common := retire_index (by_common d), by_date := retire_index (by_date d),
     by_grid := retire_index (by_grid d), by_forecast := retire_index (by_forecast d),
     by_level := retire_index (by_level d)\<rparr>"

text \<open>
  Only the positions of the file are cleared before the messages are added.  \<^verbatim>\<open>file\<close> is a local
  variable of \<^verbatim>\<open>add_data\<close>.
\<close>

definition add_data ::
    "table_env \<Rightarrow> string \<Rightarrow> int \<Rightarrow> GribMsgDataInfo list \<Rightarrow> 'ts DataStruct \<Rightarrow> 'ts DataStruct option" where
  "add_data E path now grib_msg d = (let file = path_key_of (Storage_file path now) in do {
     d \<leftarrow> add_messages E file grib_msg 0 (d\<lparr>ds_positions := AList.update file [] (ds_positions d)\<rparr>);
     Some (retire d)})"

text \<open>
  Merging.  \<^verbatim>\<open>path_pos_tmp[path]\<close> and \<^verbatim>\<open>positions_.find(path)\<close> read the view; the key that is
  stored is a copy of it.  A file in an index that has no positions is looked up past the end of the
  map, which is undefined.
\<close>

definition merge_positions :: "positions \<Rightarrow> positions \<Rightarrow> positions" where
  "merge_positions this other = fold (\<lambda>(path, ps) m. AList.update path ps m) other this"

primrec merge_files :: "table_env \<Rightarrow> positions \<Rightarrow> files \<Rightarrow> files \<Rightarrow> files option" where
  "merge_files E known [] this = Some this"
| "merge_files E known (kv # other) this = do {
     path \<leftarrow> read_view (fst kv);
     if blocked E path this \<or> map_of known path = None then None
     else merge_files E known other (AList.update (Live path) (snd kv) this)}"

primrec merge_index :: "table_env \<Rightarrow> positions \<Rightarrow> 'k index \<Rightarrow> 'k index \<Rightarrow> 'k index option" where
  "merge_index E known [] this = Some this"
| "merge_index E known (kp # other) this = do {
     paths \<leftarrow> merge_files E known (snd kp) (entry this (fst kp));
     merge_index E known other (AList.update (fst kp) paths this)}"

text \<open>\<^verbatim>\<open>this_data[key]\<close> computes a hash code of the grid anew, for the \<open>n\<close>-th entry of the other map.\<close>

primrec merge_grids ::
    "table_env \<Rightarrow> positions \<Rightarrow> (nat \<times> GridInfo) index \<Rightarrow> nat \<Rightarrow> (nat \<times> GridInfo) index \<Rightarrow> (nat \<times> GridInfo) index option" where
  "merge_grids E known [] n this = Some this"
| "merge_grids E known (kp # other) n this = (let key = (grid_hash E n, snd (fst kp)) in do {
     paths \<leftarrow> merge_files E known (snd kp) (entry this key);
     merge_grids E known other (Suc n) (AList.update key paths this)})"

definition merge_data :: "table_env \<Rightarrow> 'ts DataStruct \<Rightarrow> 'ts DataStruct \<Rightarrow> 'ts DataStruct option" where
  "merge_data E d other = (let known = merge_positions (ds_positions d) (ds_positions other) in do {
     c \<leftarrow> merge_index E known (by_common other) (by_common d);
     t \<leftarrow> merge_index E known (by_date other) (by_date d);
     g \<leftarrow> merge_grids E known (by_grid other) 0 (by_grid d);
     f \<leftarrow> merge_index E known (by_forecast other) (by_forecast d);
     l \<leftarrow> merge_index E known (by_level other) (by_level d);
     Some \<lparr>ds_positions = known, by_common = c, by_date = t, by_grid = g, by_forecast = f, by_level = l\<rparr>})"

section \<open>Facts about adding\<close>

text \<open>The positions of a key in a file, by the text of the file's view.\<close>

definition texts :: "files \<Rightarrow> positions" where
  "texts paths = map (\<lambda>(v, ps). (view_text v, ps)) paths"

definition lookup :: "'k index \<Rightarrow> 'k \<Rightarrow> path_key \<Rightarrow> int list" where
  "lookup m k f = entry (texts (entry m k)) f"

lemma entry_update: "entry (AList.update k v m) k' = (if k' = k then v else entry m k')"
  by (simp add: entry_def update_conv)

lemma entry_Some: "map_of m k = Some v \<Longrightarrow> entry m k = v"
  by (simp add: entry_def)

lemma view_text_iff: "w \<noteq> Dangling f \<Longrightarrow> view_text w = f \<longleftrightarrow> w = Live f"
  by (cases w) auto

lemma texts_simps [simp]:
  "texts [] = []" "texts ((v, ps) # paths) = (view_text v, ps) # texts paths"
  by (simp_all add: texts_def)

lemma texts_update_live:
  "Dangling f \<notin> fst ` set paths \<Longrightarrow> texts (AList.update (Live f) v paths) = AList.update f v (texts paths)"
proof (induction paths)
  case (Cons kv paths)
  then show ?case using view_text_iff [of "fst kv" f] by (cases kv) auto
qed simp

lemma entry_texts_live:
  "Dangling f \<notin> fst ` set paths \<Longrightarrow> entry (texts paths) f = entry paths (Live f)"
proof (induction paths)
  case (Cons kv paths)
  then show ?case using view_text_iff [of "fst kv" f] by (cases kv) (auto simp: entry_def)
qed (simp add: entry_def)

lemma table_okD: "table_ok E \<Longrightarrow> reads_key E f f"
  unfolding table_ok_def by (drule spec)

lemma blocked_dangling:
  assumes "table_ok E" "Dangling f \<in> fst ` set paths"
  shows "blocked E f paths"
proof -
  from assms(2) obtain ps where "(Dangling f, ps) \<in> set paths" by force
  then show ?thesis using table_okD [OF assms(1), of f] unfolding blocked_def list_ex_iff
    by (intro bexI [of _ "(Dangling f, ps)"]) simp_all
qed

lemma blocked_simps [simp]:
  "blocked E f [] = False"
  "blocked E f [(Dangling g, ps)] = reads_key E f g"
  by (simp_all add: blocked_def)

lemma blocked_update_live [simp]: "blocked E f (AList.update (Live g) v paths) = blocked E f paths"
  by (induction paths) (auto simp: blocked_def split: view.splits)

lemma push_position_facts:
  assumes "push_position E f p paths = Some paths'"
  shows "blocked E g paths' = blocked E g paths"
    "table_ok E \<Longrightarrow> entry (texts paths') f' = entry (texts paths) f' @ (if f' = f then [p] else [])"
proof -
  from assms have b: "\<not> blocked E f paths"
    and paths': "paths' = AList.update (Live f) (entry paths (Live f) @ [p]) paths"
    by (auto simp: push_position_def split: if_splits)
  then show "blocked E g paths' = blocked E g paths" by simp
  assume "table_ok E"
  with b have "Dangling f \<notin> fst ` set paths" using blocked_dangling by blast
  then show "entry (texts paths') f' = entry (texts paths) f' @ (if f' = f then [p] else [])"
    by (simp add: paths' texts_update_live entry_texts_live entry_update)
qed

lemma add_position_None: "add_position E f p k m = None \<longleftrightarrow> blocked E f (entry m k)"
  by (auto simp: add_position_def push_position_def entry_def split: option.splits if_splits)

lemma add_position_facts:
  assumes "add_position E f p k m = Some m'" "table_ok E"
  shows "blocked E f (entry m' k') \<longleftrightarrow> blocked E f (entry m k') \<or> k' = k \<and> map_of m k = None"
    "map_of m' k' = None \<longleftrightarrow> map_of m k' = None \<and> k' \<noteq> k"
    "lookup m' k' f' = lookup m k' f' @ (if k' = k \<and> f' = f then [p] else [])"
proof -
  have "(blocked E f (entry m' k') \<longleftrightarrow> blocked E f (entry m k') \<or> k' = k \<and> map_of m k = None) \<and>
    (map_of m' k' = None \<longleftrightarrow> map_of m k' = None \<and> k' \<noteq> k) \<and>
    lookup m' k' f' = lookup m k' f' @ (if k' = k \<and> f' = f then [p] else [])"
  proof (cases "map_of m k")
    case None
    then have "entry m k = []" "m' = AList.update k [(Dangling f, [p])] m"
      using assms(1) by (simp_all add: add_position_def entry_def)
    then show ?thesis using None table_okD [OF assms(2)]
      by (cases "k' = k") (simp_all add: lookup_def entry_update update_conv, simp add: entry_def)
  next
    case (Some paths)
    then obtain paths' where p: "entry m k = paths" "push_position E f p paths = Some paths'"
      "m' = AList.update k paths' m"
      using assms(1) by (auto simp: add_position_def entry_def split: bind_splits)
    show ?thesis
      using push_position_facts(1) [OF p(2), of f] push_position_facts(2) [OF p(2) assms(2), of f'] p(1,3) Some
      by (cases "k' = k") (simp_all add: lookup_def entry_update update_conv)
  qed
  then show "blocked E f (entry m' k') \<longleftrightarrow> blocked E f (entry m k') \<or> k' = k \<and> map_of m k = None"
    "map_of m' k' = None \<longleftrightarrow> map_of m k' = None \<and> k' \<noteq> k"
    "lookup m' k' f' = lookup m k' f' @ (if k' = k \<and> f' = f then [p] else [])"
    by blast+
qed

lemma add_grid_position_None:
  "add_grid_position E n f p g m = None \<longleftrightarrow> blocked E f (entry m (grid_hash E (2 * n), g))"
  by (auto simp: add_grid_position_def push_position_def entry_def Let_def split: option.splits if_splits)

lemma add_grid_position_hash:
  "grid_hash E (2 * n) = c \<Longrightarrow> grid_hash E (2 * n + 1) = c \<Longrightarrow>
     add_grid_position E n f p g m = add_position E f p (c, g) m"
  by (simp add: add_grid_position_def add_position_def split: option.split)

text \<open>Whatever the codes are, a grid gets no position but that of the message, or none.\<close>

lemma add_grid_position_cases:
  assumes "add_grid_position E n f p g m = Some m'"
  obtains "m' = m" | c where "add_position E f p (c, g) m = Some m'"
proof (cases "map_of m (grid_hash E (2 * n), g)")
  case None
  show ?thesis
  proof (cases "map_of m (grid_hash E (2 * n + 1), g)")
    case None
    then have "add_position E f p (grid_hash E (2 * n + 1), g) m = Some m'"
      using assms \<open>map_of m (grid_hash E (2 * n), g) = None\<close>
      by (simp add: add_grid_position_def add_position_def)
    then show ?thesis by (rule that(2))
  next
    case (Some paths)
    then have "m' = m" using assms None by (simp add: add_grid_position_def)
    then show ?thesis by (rule that(1))
  qed
next
  case (Some paths)
  then have "add_position E f p (grid_hash E (2 * n), g) m = Some m'"
    using assms by (simp add: add_grid_position_def add_position_def)
  then show ?thesis by (rule that(2))
qed

lemma add_grid_position_lookup:
  assumes "add_grid_position E n f p g m = Some m'" "table_ok E"
  shows "set (lookup m' (h, g') f') \<subseteq> set (lookup m (h, g') f') \<union> (if g' = g \<and> f' = f then {p} else {})"
  by (rule add_grid_position_cases [OF assms(1)]) (auto simp: add_position_facts(3) [OF _ assms(2)])

text \<open>The positions of the messages without an error that satisfy a condition.\<close>

definition positions_where :: "(GribMsgDataInfo \<Rightarrow> bool) \<Rightarrow> GribMsgDataInfo list \<Rightarrow> int list" where
  "positions_where P is = map buf_pos (filter (\<lambda>i. info_err i = Some NONE_ERR \<and> P i) is)"

lemma positions_where_simps [simp]:
  "positions_where P [] = []"
  "positions_where P (i # is) = (if info_err i = Some NONE_ERR \<and> P i then [buf_pos i] else []) @ positions_where P is"
  by (simp_all add: positions_where_def)

text \<open>
  The part of the loop over the messages that concerns one index: under a key of the message, and
  for grids with the hash codes computed in the call.
\<close>

primrec add_keys :: "table_env \<Rightarrow> path_key \<Rightarrow> (GribMsgDataInfo \<Rightarrow> 'k) \<Rightarrow> GribMsgDataInfo list \<Rightarrow> 'k index \<Rightarrow> 'k index option" where
  "add_keys E f key [] m = Some m"
| "add_keys E f key (i # is) m = (if info_err i = Some NONE_ERR
     then Option.bind (add_position E f (buf_pos i) (key i) m) (add_keys E f key is) else add_keys E f key is m)"

primrec add_grids ::
    "table_env \<Rightarrow> path_key \<Rightarrow> GribMsgDataInfo list \<Rightarrow> nat \<Rightarrow> (nat \<times> GridInfo) index \<Rightarrow> (nat \<times> GridInfo) index option" where
  "add_grids E f [] n m = Some m"
| "add_grids E f (i # is) n m = (if info_err i = Some NONE_ERR
     then Option.bind (add_grid_position E n f (buf_pos i) (grid_data i) m) (add_grids E f is (Suc n))
     else add_grids E f is (Suc n) m)"

text \<open>
  A message without an error makes the program read a dangling key: the table of its key has one
  already, or it is made for an earlier message of the call, because the key is new.
\<close>

definition clash :: "table_env \<Rightarrow> path_key \<Rightarrow> (GribMsgDataInfo \<Rightarrow> 'k) \<Rightarrow> GribMsgDataInfo list \<Rightarrow> 'k index \<Rightarrow> bool" where
  "clash E f key is m \<longleftrightarrow> (\<exists>k<length is. info_err (is ! k) = Some NONE_ERR \<and>
     (blocked E f (entry m (key (is ! k))) \<or>
      map_of m (key (is ! k)) = None \<and> (\<exists>j<k. info_err (is ! j) = Some NONE_ERR \<and> key (is ! j) = key (is ! k))))"

lemma clash_Nil [simp]: "clash E f key [] m = False"
  by (simp add: clash_def)

lemma clash_Cons_error [simp]:
  "info_err i \<noteq> Some NONE_ERR \<Longrightarrow> clash E f key (i # is) m = clash E f key is m"
  by (simp add: clash_def Ex_less_Suc2)

lemma clash_Cons:
  "info_err i = Some NONE_ERR \<Longrightarrow> clash E f key (i # is) m \<longleftrightarrow> blocked E f (entry m (key i)) \<or>
     (\<exists>k<length is. info_err (is ! k) = Some NONE_ERR \<and>
       (blocked E f (entry m (key (is ! k))) \<or> map_of m (key (is ! k)) = None \<and>
         (key i = key (is ! k) \<or> (\<exists>j<k. info_err (is ! j) = Some NONE_ERR \<and> key (is ! j) = key (is ! k)))))"
  by (simp add: clash_def Ex_less_Suc2)

lemma clash_blocked:
  "i \<in> set is \<Longrightarrow> info_err i = Some NONE_ERR \<Longrightarrow> blocked E f (entry m (key i)) \<Longrightarrow> clash E f key is m"
  by (auto simp: clash_def in_set_conv_nth)

lemma clash_two:
  "info_err i = Some NONE_ERR \<Longrightarrow> info_err j = Some NONE_ERR \<Longrightarrow> clash E f key [i, j] m \<longleftrightarrow>
     blocked E f (entry m (key i)) \<or> blocked E f (entry m (key j)) \<or> map_of m (key j) = None \<and> key i = key j"
  by (auto simp: clash_def Ex_less_Suc2)

lemma add_keys_None:
  assumes "table_ok E"
  shows "add_keys E f key is m = None \<longleftrightarrow> clash E f key is m"
proof (induction "is" arbitrary: m)
  case (Cons i "is")
  show ?case
  proof (cases "info_err i = Some NONE_ERR")
    case True
    show ?thesis
    proof (cases "add_position E f (buf_pos i) (key i) m")
      case None
      then have "blocked E f (entry m (key i))" by (simp add: add_position_None)
      then show ?thesis using None True by (simp add: clash_Cons)
    next
      case (Some m1)
      then have "\<not> blocked E f (entry m (key i))"
        using add_position_None [of E f "buf_pos i" "key i" m] by simp
      moreover have "add_keys E f key (i # is) m = None \<longleftrightarrow> clash E f key is m1" using Some True Cons.IH by simp
      moreover note clash_def [of E f key "is" m1, unfolded add_position_facts(1,2) [OF Some assms]]
      ultimately show ?thesis unfolding clash_Cons [OF True] by metis
    qed
  qed (simp add: Cons.IH)
qed simp

lemma add_grids_hash:
  "\<forall>k<length is. grid_hash E (2 * (n + k)) = code (grid_data (is ! k)) \<and>
     grid_hash E (2 * (n + k) + 1) = code (grid_data (is ! k)) \<Longrightarrow>
   add_grids E f is n m = add_keys E f (\<lambda>i. (code (grid_data i), grid_data i)) is m"
proof (induction "is" arbitrary: n m)
  case (Cons i "is")
  have "\<forall>k<length is. grid_hash E (2 * (Suc n + k)) = code (grid_data (is ! k)) \<and>
      grid_hash E (2 * (Suc n + k) + 1) = code (grid_data (is ! k))"
  proof (intro allI impI)
    fix k assume "k < length is"
    with Cons.prems [rule_format, of "Suc k"] show "grid_hash E (2 * (Suc n + k)) = code (grid_data (is ! k)) \<and>
      grid_hash E (2 * (Suc n + k) + 1) = code (grid_data (is ! k))" by simp
  qed
  note rest = ext [OF Cons.IH [OF this]]
  have "grid_hash E (2 * n) = code (grid_data i)" "grid_hash E (2 * n + 1) = code (grid_data i)"
    using Cons.prems [rule_format, of 0] by simp_all
  then show ?case by (simp add: rest add_grid_position_hash)
qed simp

lemma bind_None: "Option.bind x g = None \<longleftrightarrow> x = None \<or> (\<exists>y. x = Some y \<and> g y = None)"
  by (cases x) simp_all

text \<open>The result of adding one message.\<close>

lemma add_message_cases:
  assumes "add_message E n f i d = Some d'"
  obtains "info_err i \<noteq> Some NONE_ERR" "d' = d" |
    c t g l where "info_err i = Some NONE_ERR"
      "add_position E f (buf_pos i) (info_common i) (by_common d) = Some c"
      "add_position E f (buf_pos i) (t_unit i) (by_forecast d) = Some t"
      "add_grid_position E n f (buf_pos i) (grid_data i) (by_grid d) = Some g"
      "add_position E f (buf_pos i) (info_level i) (by_level d) = Some l"
      "d' = d\<lparr>ds_positions := AList.update f (entry (ds_positions d) f @ [buf_pos i]) (ds_positions d),
         by_common := c, by_forecast := t, by_grid := g, by_level := l\<rparr>"
  using assms that by (auto simp: add_message_def split: bind_splits if_splits)

lemma add_messages_None:
  "add_messages E f is n d = None \<longleftrightarrow> (\<exists>i\<in>set is. info_err i = None) \<or>
     add_keys E f info_common is (by_common d) = None \<or> add_keys E f t_unit is (by_forecast d) = None \<or>
     add_grids E f is n (by_grid d) = None \<or> add_keys E f info_level is (by_level d) = None"
proof (induction "is" arbitrary: n d)
  case (Cons i "is")
  show ?case
  proof (cases "info_err i = Some NONE_ERR")
    case True
    then show ?thesis
      by (cases "add_position E f (buf_pos i) (info_common i) (by_common d)";
          cases "add_position E f (buf_pos i) (t_unit i) (by_forecast d)";
          cases "add_grid_position E n f (buf_pos i) (grid_data i) (by_grid d)";
          cases "add_position E f (buf_pos i) (info_level i) (by_level d)")
        (simp_all add: add_message_def Cons.IH)
  next
    case False
    then show ?thesis by (cases "info_err i") (simp_all add: add_message_def Cons.IH)
  qed
qed simp

lemma add_message_lookup:
  assumes "add_message E n f i d = Some d'" "table_ok E"
  shows "entry (ds_positions d') f' = entry (ds_positions d) f' @ (if f' = f then positions_where (\<lambda>i. True) [i] else [])"
    "lookup (by_common d') c f' = lookup (by_common d) c f' @ (if f' = f then positions_where (\<lambda>i. info_common i = c) [i] else [])"
    "lookup (by_forecast d') t f' = lookup (by_forecast d) t f' @ (if f' = f then positions_where (\<lambda>i. t_unit i = t) [i] else [])"
    "lookup (by_level d') l f' = lookup (by_level d) l f' @ (if f' = f then positions_where (\<lambda>i. info_level i = l) [i] else [])"
    "set (lookup (by_grid d') (h, g) f') \<subseteq> set (lookup (by_grid d) (h, g) f') \<union>
       (if f' = f then set (positions_where (\<lambda>i. grid_data i = g) [i]) else {})"
    "grid_hash E (2 * n) = code (grid_data i) \<Longrightarrow> grid_hash E (2 * n + 1) = code (grid_data i) \<Longrightarrow>
       lookup (by_grid d') (code g, g) f' = lookup (by_grid d) (code g, g) f' @
         (if f' = f then positions_where (\<lambda>i. grid_data i = g) [i] else [])"
proof -
  note added = add_position_facts(3) [OF _ assms(2)]
  show "entry (ds_positions d') f' = entry (ds_positions d) f' @ (if f' = f then positions_where (\<lambda>i. True) [i] else [])"
    by (rule add_message_cases [OF assms(1)]) (simp_all add: entry_update)
  show "lookup (by_common d') c f' = lookup (by_common d) c f' @ (if f' = f then positions_where (\<lambda>i. info_common i = c) [i] else [])"
    by (rule add_message_cases [OF assms(1)]) (auto simp: added)
  show "lookup (by_forecast d') t f' = lookup (by_forecast d) t f' @ (if f' = f then positions_where (\<lambda>i. t_unit i = t) [i] else [])"
    by (rule add_message_cases [OF assms(1)]) (auto simp: added)
  show "lookup (by_level d') l f' = lookup (by_level d) l f' @ (if f' = f then positions_where (\<lambda>i. info_level i = l) [i] else [])"
    by (rule add_message_cases [OF assms(1)]) (auto simp: added)
  show "set (lookup (by_grid d') (h, g) f') \<subseteq> set (lookup (by_grid d) (h, g) f') \<union>
       (if f' = f then set (positions_where (\<lambda>i. grid_data i = g) [i]) else {})"
  proof (rule add_message_cases [OF assms(1)])
    fix c t gm l
    assume "info_err i = Some NONE_ERR" and gm: "add_grid_position E n f (buf_pos i) (grid_data i) (by_grid d) = Some gm"
      and "d' = d\<lparr>ds_positions := AList.update f (entry (ds_positions d) f @ [buf_pos i]) (ds_positions d),
         by_common := c, by_forecast := t, by_grid := gm, by_level := l\<rparr>"
    then show ?thesis using add_grid_position_lookup [OF gm assms(2), of h g f'] by (auto split: if_splits)
  qed simp
  assume "grid_hash E (2 * n) = code (grid_data i)" "grid_hash E (2 * n + 1) = code (grid_data i)"
  note same = add_grid_position_hash [OF this]
  show "lookup (by_grid d') (code g, g) f' = lookup (by_grid d) (code g, g) f' @
         (if f' = f then positions_where (\<lambda>i. grid_data i = g) [i] else [])"
    by (rule add_message_cases [OF assms(1)]) (auto simp: same added)
qed

lemma add_messages_lookup:
  assumes "add_messages E f is n d = Some d'" "table_ok E"
  shows "entry (ds_positions d') f' = entry (ds_positions d) f' @ (if f' = f then positions_where (\<lambda>i. True) is else [])"
    "lookup (by_common d') c f' = lookup (by_common d) c f' @ (if f' = f then positions_where (\<lambda>i. info_common i = c) is else [])"
    "lookup (by_forecast d') t f' = lookup (by_forecast d) t f' @ (if f' = f then positions_where (\<lambda>i. t_unit i = t) is else [])"
    "lookup (by_level d') l f' = lookup (by_level d) l f' @ (if f' = f then positions_where (\<lambda>i. info_level i = l) is else [])"
    "set (lookup (by_grid d') (h, g) f') \<subseteq> set (lookup (by_grid d) (h, g) f') \<union>
       (if f' = f then set (positions_where (\<lambda>i. grid_data i = g) is) else {})"
    "(\<forall>k<length is. grid_hash E (2 * (n + k)) = code (grid_data (is ! k)) \<and>
        grid_hash E (2 * (n + k) + 1) = code (grid_data (is ! k))) \<Longrightarrow>
      lookup (by_grid d') (code g, g) f' = lookup (by_grid d) (code g, g) f' @
        (if f' = f then positions_where (\<lambda>i. grid_data i = g) is else [])"
  using assms(1)
proof (induction "is" arbitrary: d n)
  case (Cons i "is")
  {
    case 1
    then obtain d1 where d1: "add_message E n f i d = Some d1" "add_messages E f is (Suc n) d1 = Some d'" by (auto split: bind_splits)
    show ?case using Cons.IH(1) [OF d1(2)] add_message_lookup(1) [OF d1(1) assms(2), of f'] by simp
  next
    case 2
    then obtain d1 where d1: "add_message E n f i d = Some d1" "add_messages E f is (Suc n) d1 = Some d'" by (auto split: bind_splits)
    show ?case using Cons.IH(2) [OF d1(2)] add_message_lookup(2) [OF d1(1) assms(2), of c f'] by simp
  next
    case 3
    then obtain d1 where d1: "add_message E n f i d = Some d1" "add_messages E f is (Suc n) d1 = Some d'" by (auto split: bind_splits)
    show ?case using Cons.IH(3) [OF d1(2)] add_message_lookup(3) [OF d1(1) assms(2), of t f'] by simp
  next
    case 4
    then obtain d1 where d1: "add_message E n f i d = Some d1" "add_messages E f is (Suc n) d1 = Some d'" by (auto split: bind_splits)
    show ?case using Cons.IH(4) [OF d1(2)] add_message_lookup(4) [OF d1(1) assms(2), of l f'] by simp
  next
    case 5
    then obtain d1 where d1: "add_message E n f i d = Some d1" "add_messages E f is (Suc n) d1 = Some d'" by (auto split: bind_splits)
    show ?case using Cons.IH(5) [OF d1(2)] add_message_lookup(5) [OF d1(1) assms(2), of h g f'] by (auto split: if_splits)
  next
    case 6
    then obtain d1 where d1: "add_message E n f i d = Some d1" "add_messages E f is (Suc n) d1 = Some d'" by (auto split: bind_splits)
    have "\<forall>k<length is. grid_hash E (2 * (Suc n + k)) = code (grid_data (is ! k)) \<and>
        grid_hash E (2 * (Suc n + k) + 1) = code (grid_data (is ! k))"
    proof (intro allI impI)
      fix k assume "k < length is"
      with 6(1) [rule_format, of "Suc k"] show "grid_hash E (2 * (Suc n + k)) = code (grid_data (is ! k)) \<and>
        grid_hash E (2 * (Suc n + k) + 1) = code (grid_data (is ! k))" by simp
    qed
    note rest = Cons.IH(6) [OF this d1(2)]
    have "grid_hash E (2 * n) = code (grid_data i)" "grid_hash E (2 * n + 1) = code (grid_data i)"
      using 6(1) [rule_format, of 0] by simp_all
    from rest add_message_lookup(6) [where code = code, OF d1(1) assms(2) this, of g f'] show ?case by simp
  }
qed simp_all

section \<open>The end of a call\<close>

lemma texts_retire [simp]: "texts (retire_files paths) = texts paths"
  by (simp add: retire_files_def texts_def split_def)

lemma entry_retire [simp]: "entry (retire_index m) k = retire_files (entry m k)"
  by (induction m) (auto simp: entry_def retire_index_def retire_files_def)

lemma lookup_retire [simp]: "lookup (retire_index m) k f = lookup m k f"
  by (simp add: lookup_def)

lemma add_data_unfold:
  "add_data E path now infos d = map_option retire
     (add_messages E (path, FILE) infos 0 (d\<lparr>ds_positions := AList.update (path, FILE) [] (ds_positions d)\<rparr>))"
  by (simp add: add_data_def path_key_of_def Storage_file_def map_option_case split: bind_splits option.split)

lemma add_data_None:
  "add_data E path now infos d = None \<longleftrightarrow> (\<exists>i\<in>set infos. info_err i = None) \<or>
     add_keys E (path, FILE) info_common infos (by_common d) = None \<or>
     add_keys E (path, FILE) t_unit infos (by_forecast d) = None \<or>
     add_grids E (path, FILE) infos 0 (by_grid d) = None \<or>
     add_keys E (path, FILE) info_level infos (by_level d) = None"
  unfolding add_data_unfold option.map_disc_iff add_messages_None by simp

lemma add_data_blocked:
  assumes "table_ok E" "i \<in> set infos" "info_err i = Some NONE_ERR"
    "blocked E (path, FILE) (entry (by_common d) (info_common i)) \<or>
     blocked E (path, FILE) (entry (by_forecast d) (t_unit i)) \<or>
     blocked E (path, FILE) (entry (by_level d) (info_level i))"
  shows "add_data E path now infos d = None"
  using assms(4) clash_blocked [OF assms(2,3), of E "(path, FILE)" "by_common d" info_common]
    clash_blocked [OF assms(2,3), of E "(path, FILE)" "by_forecast d" t_unit]
    clash_blocked [OF assms(2,3), of E "(path, FILE)" "by_level d" info_level]
  unfolding add_data_None add_keys_None [OF assms(1)] by blast

lemma add_data_lookup:
  assumes "add_data E path now infos d = Some d'" "table_ok E"
  shows "entry (ds_positions d') f = (if f = (path, FILE) then positions_where (\<lambda>i. True) infos else entry (ds_positions d) f)"
    "lookup (by_common d') c f = lookup (by_common d) c f @ (if f = (path, FILE) then positions_where (\<lambda>i. info_common i = c) infos else [])"
    "lookup (by_forecast d') t f = lookup (by_forecast d) t f @ (if f = (path, FILE) then positions_where (\<lambda>i. t_unit i = t) infos else [])"
    "lookup (by_level d') l f = lookup (by_level d) l f @ (if f = (path, FILE) then positions_where (\<lambda>i. info_level i = l) infos else [])"
    "set (lookup (by_grid d') (h, g) f) \<subseteq> set (lookup (by_grid d) (h, g) f) \<union>
       (if f = (path, FILE) then set (positions_where (\<lambda>i. grid_data i = g) infos) else {})"
    "\<forall>k<length infos. grid_hash E (2 * k) = code (grid_data (infos ! k)) \<and> grid_hash E (2 * k + 1) = code (grid_data (infos ! k)) \<Longrightarrow>
      lookup (by_grid d') (code g, g) f = lookup (by_grid d) (code g, g) f @
        (if f = (path, FILE) then positions_where (\<lambda>i. grid_data i = g) infos else [])"
proof -
  from assms(1) obtain d1 where d1: "d' = retire d1"
    "add_messages E (path, FILE) infos 0 (d\<lparr>ds_positions := AList.update (path, FILE) [] (ds_positions d)\<rparr>) = Some d1"
    by (auto simp: add_data_unfold)
  note added = add_messages_lookup [OF d1(2) assms(2)]
  show "entry (ds_positions d') f = (if f = (path, FILE) then positions_where (\<lambda>i. True) infos else entry (ds_positions d) f)"
    using added(1) [of f] by (simp add: d1(1) retire_def entry_update)
  show "lookup (by_common d') c f = lookup (by_common d) c f @ (if f = (path, FILE) then positions_where (\<lambda>i. info_common i = c) infos else [])"
    using added(2) [of c f] by (simp add: d1(1) retire_def)
  show "lookup (by_forecast d') t f = lookup (by_forecast d) t f @ (if f = (path, FILE) then positions_where (\<lambda>i. t_unit i = t) infos else [])"
    using added(3) [of t f] by (simp add: d1(1) retire_def)
  show "lookup (by_level d') l f = lookup (by_level d) l f @ (if f = (path, FILE) then positions_where (\<lambda>i. info_level i = l) infos else [])"
    using added(4) [of l f] by (simp add: d1(1) retire_def)
  show "set (lookup (by_grid d') (h, g) f) \<subseteq> set (lookup (by_grid d) (h, g) f) \<union>
       (if f = (path, FILE) then set (positions_where (\<lambda>i. grid_data i = g) infos) else {})"
    using added(5) [of h g f] by (simp add: d1(1) retire_def)
  assume "\<forall>k<length infos. grid_hash E (2 * k) = code (grid_data (infos ! k)) \<and> grid_hash E (2 * k + 1) = code (grid_data (infos ! k))"
  then show "lookup (by_grid d') (code g, g) f = lookup (by_grid d) (code g, g) f @
        (if f = (path, FILE) then positions_where (\<lambda>i. grid_data i = g) infos else [])"
    using added(6) [of code g f] by (simp add: d1(1) retire_def)
qed

section \<open>Facts about the structure\<close>

text \<open>
  The keys of a map are distinct, a file occurs once under a key, and every file of an index has
  positions.
\<close>

definition files_ok :: "positions \<Rightarrow> files \<Rightarrow> bool" where
  "files_ok known paths \<longleftrightarrow> distinct (map fst (texts paths)) \<and>
     list_all (\<lambda>(f, ps). map_of known f \<noteq> None) (texts paths)"

definition index_ok :: "positions \<Rightarrow> 'k index \<Rightarrow> bool" where
  "index_ok known m \<longleftrightarrow> distinct (map fst m) \<and> list_all (\<lambda>(key, paths). files_ok known paths) m"

definition DataStruct_ok :: "'ts DataStruct \<Rightarrow> bool" where
  "DataStruct_ok d \<longleftrightarrow> distinct (map fst (ds_positions d)) \<and> index_ok (ds_positions d) (by_common d) \<and>
     index_ok (ds_positions d) (by_date d) \<and> index_ok (ds_positions d) (by_grid d) \<and>
     index_ok (ds_positions d) (by_forecast d) \<and> index_ok (ds_positions d) (by_level d)"

text \<open>Every key of a file dangles.\<close>

primrec is_dangling :: "view \<Rightarrow> bool" where
  "is_dangling (Live p) = False"
| "is_dangling (Dangling p) = True"

definition files_dangling :: "files \<Rightarrow> bool" where
  "files_dangling paths = list_all (\<lambda>(v, ps). is_dangling v) paths"

definition index_dangling :: "'k index \<Rightarrow> bool" where
  "index_dangling m = list_all (\<lambda>(key, paths). files_dangling paths) m"

definition all_dangling :: "'ts DataStruct \<Rightarrow> bool" where
  "all_dangling d \<longleftrightarrow> index_dangling (by_common d) \<and> index_dangling (by_date d) \<and>
     index_dangling (by_grid d) \<and> index_dangling (by_forecast d) \<and> index_dangling (by_level d)"

text \<open>No index lists a file.\<close>

definition index_fileless :: "'k index \<Rightarrow> bool" where
  "index_fileless m = list_all (\<lambda>(key, paths). paths = []) m"

definition fileless :: "'ts DataStruct \<Rightarrow> bool" where
  "fileless d \<longleftrightarrow> index_fileless (by_common d) \<and> index_fileless (by_date d) \<and>
     index_fileless (by_grid d) \<and> index_fileless (by_forecast d) \<and> index_fileless (by_level d)"

text \<open>The structures that the operations can make.\<close>

inductive index_reachable :: "'ts DataStruct \<Rightarrow> bool" where
  reach_empty: "index_reachable empty_DataStruct"
| reach_add: "index_reachable d \<Longrightarrow> table_ok E \<Longrightarrow> add_data E path now infos d = Some d' \<Longrightarrow> index_reachable d'"
| reach_merge: "index_reachable d \<Longrightarrow> index_reachable other \<Longrightarrow> table_ok E \<Longrightarrow> merge_data E d other = Some d' \<Longrightarrow>
    index_reachable d'"

lemma list_all_update: "list_all P m \<Longrightarrow> P (k, v) \<Longrightarrow> list_all P (AList.update k v m)"
  by (induction m) auto

lemma files_ok_Nil [simp]: "files_ok known []"
  by (simp add: files_ok_def)

lemma dom_update: "dom (map_of (AList.update k v m)) = insert k (dom (map_of m))"
  by (auto simp: update_conv)

lemma files_ok_mono:
  assumes "files_ok known paths" "dom (map_of known) \<subseteq> dom (map_of known')"
  shows "files_ok known' paths"
  using assms by (fastforce simp: files_ok_def list_all_iff)

lemma index_ok_mono:
  assumes "index_ok known m" "dom (map_of known) \<subseteq> dom (map_of known')"
  shows "index_ok known' m"
  using assms(1) files_ok_mono [OF _ assms(2)] by (fastforce simp: index_ok_def list_all_iff)

lemma index_ok_grow: "index_ok known m \<Longrightarrow> index_ok (AList.update f v known) m"
  by (erule index_ok_mono) (simp only: dom_update subset_insertI)

lemma index_ok_update:
  "index_ok known m \<Longrightarrow> files_ok known paths \<Longrightarrow> index_ok known (AList.update k paths m)"
  by (simp add: index_ok_def distinct_update list_all_update)

lemma entry_cases: "entry m k = [] \<or> (k, entry m k) \<in> set m"
  by (auto simp: entry_def dest: map_of_SomeD split: option.split)

lemma index_ok_entry: "index_ok known m \<Longrightarrow> files_ok known (entry m k)"
  using entry_cases [of m k] by (auto simp: index_ok_def list_all_iff)

lemma files_ok_push:
  assumes "push_position E f p paths = Some paths'" "table_ok E" "files_ok known paths" "f \<in> dom (map_of known)"
  shows "files_ok known paths'"
proof -
  from assms(1) have "\<not> blocked E f paths"
    and paths': "paths' = AList.update (Live f) (entry paths (Live f) @ [p]) paths"
    by (auto simp: push_position_def split: if_splits)
  then have "Dangling f \<notin> fst ` set paths" using blocked_dangling [OF assms(2)] by blast
  then show ?thesis using assms(3,4) by (auto simp: paths' texts_update_live files_ok_def distinct_update list_all_update)
qed

lemma index_ok_add_position:
  assumes "add_position E f p k m = Some m'" "table_ok E" "index_ok known m" "f \<in> dom (map_of known)"
  shows "index_ok known m'"
proof (cases "map_of m k")
  case None
  then have "m' = AList.update k [(Dangling f, [p])] m" using assms(1) by (simp add: add_position_def)
  then show ?thesis using assms(3,4) by (auto intro!: index_ok_update simp: files_ok_def)
next
  case (Some paths)
  then obtain paths' where p: "push_position E f p paths = Some paths'" "m' = AList.update k paths' m"
    using assms(1) by (auto simp: add_position_def split: bind_splits)
  have "files_ok known paths" using index_ok_entry [OF assms(3), of k] entry_Some [OF Some] by simp
  from files_ok_push [OF p(1) assms(2) this assms(4)] show ?thesis by (simp add: p(2) index_ok_update assms(3))
qed

lemma index_ok_add_grid:
  assumes "add_grid_position E n f p g m = Some m'" "table_ok E" "index_ok known m" "f \<in> dom (map_of known)"
  shows "index_ok known m'"
  by (rule add_grid_position_cases [OF assms(1)])
    (use assms(2-4) in \<open>auto intro: index_ok_add_position\<close>)

lemma add_message_ok:
  assumes "add_message E n f i d = Some d'" "table_ok E" "DataStruct_ok d" "f \<in> dom (map_of (ds_positions d))"
  shows "DataStruct_ok d' \<and> f \<in> dom (map_of (ds_positions d'))"
proof (rule add_message_cases [OF assms(1)])
  fix c t g l
  let ?known = "AList.update f (entry (ds_positions d) f @ [buf_pos i]) (ds_positions d)"
  assume added: "add_position E f (buf_pos i) (info_common i) (by_common d) = Some c"
    "add_position E f (buf_pos i) (t_unit i) (by_forecast d) = Some t"
    "add_grid_position E n f (buf_pos i) (grid_data i) (by_grid d) = Some g"
    "add_position E f (buf_pos i) (info_level i) (by_level d) = Some l"
    and d': "d' = d\<lparr>ds_positions := ?known, by_common := c, by_forecast := t, by_grid := g, by_level := l\<rparr>"
  have f: "f \<in> dom (map_of ?known)" by (simp only: dom_update insertI1)
  have ok: "distinct (map fst ?known)" "index_ok ?known (by_common d)" "index_ok ?known (by_date d)"
    "index_ok ?known (by_grid d)" "index_ok ?known (by_forecast d)" "index_ok ?known (by_level d)"
    using assms(3) by (simp_all add: DataStruct_ok_def distinct_update index_ok_grow)
  show ?thesis
    using f ok(1,3) index_ok_add_position [OF added(1) assms(2) ok(2) f]
      index_ok_add_position [OF added(2) assms(2) ok(5) f] index_ok_add_grid [OF added(3) assms(2) ok(4) f]
      index_ok_add_position [OF added(4) assms(2) ok(6) f]
    by (simp add: d' DataStruct_ok_def)
qed (use assms(3,4) in simp)

lemma add_messages_ok:
  "add_messages E f is n d = Some d' \<Longrightarrow> table_ok E \<Longrightarrow> DataStruct_ok d \<Longrightarrow>
     f \<in> dom (map_of (ds_positions d)) \<Longrightarrow> DataStruct_ok d'"
proof (induction "is" arbitrary: d n)
  case (Cons i "is")
  from Cons.prems(1) obtain d1 where d1: "add_message E n f i d = Some d1" "add_messages E f is (Suc n) d1 = Some d'"
    by (auto split: bind_splits)
  show ?case using Cons.IH [OF d1(2)] add_message_ok [OF d1(1) Cons.prems(2-4)] Cons.prems(2) by blast
qed simp

lemma retire_index_ok [simp]: "index_ok known (retire_index m) = index_ok known m"
  by (induction m) (auto simp: index_ok_def retire_index_def files_ok_def split_def)

lemma retire_ok [simp]: "DataStruct_ok (retire d) = DataStruct_ok d"
  by (simp add: DataStruct_ok_def retire_def)

lemma retire_dangling: "index_dangling (retire_index m)"
  by (simp add: index_dangling_def retire_index_def files_dangling_def retire_files_def list_all_iff split_def)

lemma add_data_ok:
  assumes "DataStruct_ok d" "table_ok E" "add_data E path now infos d = Some d'"
  shows "DataStruct_ok d'" "all_dangling d'"
proof -
  let ?f = "(path, FILE)" and ?d = "d\<lparr>ds_positions := AList.update (path, FILE) [] (ds_positions d)\<rparr>"
  from assms(3) obtain d1 where d1: "d' = retire d1" "add_messages E ?f infos 0 ?d = Some d1"
    by (auto simp: add_data_unfold)
  have "DataStruct_ok ?d" using assms(1) by (simp add: DataStruct_ok_def distinct_update index_ok_grow)
  moreover have "?f \<in> dom (map_of (ds_positions ?d))" using dom_update [of ?f "[]" "ds_positions d"] by simp
  ultimately show "DataStruct_ok d'" using add_messages_ok [OF d1(2) assms(2)] by (simp add: d1(1))
  show "all_dangling d'" by (simp add: d1(1) all_dangling_def retire_def retire_dangling)
qed

lemma empty_DataStruct_ok: "DataStruct_ok empty_DataStruct" "all_dangling empty_DataStruct"
  by (simp_all add: empty_DataStruct_def DataStruct_ok_def index_ok_def all_dangling_def index_dangling_def)

section \<open>Facts about merging\<close>

lemma map_of_fold_update:
  "distinct (map fst other) \<Longrightarrow> map_of (fold (\<lambda>(k, v) m. AList.update k v m) other this) k =
     (case map_of other k of Some v \<Rightarrow> Some v | None \<Rightarrow> map_of this k)"
proof (induction other arbitrary: this)
  case (Cons kv other)
  obtain k' v' where kv: "kv = (k', v')" by fastforce
  have none: "map_of other k' = None" using Cons.prems by (simp add: kv map_of_eq_None_iff)
  have "map_of (fold (\<lambda>(k, v) m. AList.update k v m) other (AList.update k' v' this)) k =
      (case map_of other k of Some v \<Rightarrow> Some v | None \<Rightarrow> map_of (AList.update k' v' this) k)"
    using Cons by simp
  then show ?case using none by (cases "k = k'") (simp_all add: kv update_conv split: option.split)
qed simp

lemma map_of_merge_positions:
  "distinct (map fst other) \<Longrightarrow> map_of (merge_positions this other) k =
     (case map_of other k of Some v \<Rightarrow> Some v | None \<Rightarrow> map_of this k)"
  by (simp add: merge_positions_def map_of_fold_update)

lemma distinct_merge_positions:
  "distinct (map fst this) \<Longrightarrow> distinct (map fst (merge_positions this other))"
  unfolding merge_positions_def
  by (induction other arbitrary: this) (auto simp: distinct_update)

lemma dom_merge_positions:
  "dom (map_of (merge_positions this other)) = dom (map_of this) \<union> dom (map_of other)"
  unfolding merge_positions_def
proof (induction other arbitrary: this)
  case (Cons kv other)
  then show ?case by (cases kv) (simp only: fold_simps comp_def prod.case dom_update map_of.simps dom_fun_upd fst_conv, simp)
qed simp

text \<open>What merging keys without files does to an index.\<close>

definition extends :: "'k index \<Rightarrow> 'k index \<Rightarrow> bool" where
  "extends m this \<longleftrightarrow> (\<forall>k f. lookup m k f = lookup this k f) \<and>
     (\<forall>known. index_ok known this \<longrightarrow> index_ok known m) \<and> (index_dangling this \<longrightarrow> index_dangling m)"

lemma extends_refl: "extends m m"
  by (simp add: extends_def)

lemma extends_trans: "extends a b \<Longrightarrow> extends b c \<Longrightarrow> extends a c"
  by (simp add: extends_def)

lemma extends_key: "extends (AList.update k (entry m k) m) m"
proof -
  have "files_dangling (entry m k)" if "index_dangling m"
    using that entry_cases [of m k] by (auto simp: index_dangling_def list_all_iff files_dangling_def)
  then show ?thesis
    by (auto simp: extends_def lookup_def entry_update index_ok_update index_ok_entry index_dangling_def
        intro: list_all_update)
qed

lemma extends_ok:
  "extends m this \<Longrightarrow> index_ok known this \<Longrightarrow> dom (map_of known) \<subseteq> dom (map_of known') \<Longrightarrow> index_ok known' m"
  unfolding extends_def by (meson index_ok_mono)

lemma extends_dangling: "extends m this \<Longrightarrow> index_dangling this \<Longrightarrow> index_dangling m"
  by (simp add: extends_def)

lemma merge_files_dangling:
  "files_dangling other \<Longrightarrow> merge_files E known other this = (if other = [] then Some this else None)"
proof (cases other)
  case (Cons kv rest)
  moreover assume "files_dangling other"
  ultimately have "read_view (fst kv) = None" by (cases "fst kv") (auto simp: files_dangling_def)
  then show ?thesis by (simp add: Cons)
qed simp

lemma merge_index_dangling:
  "index_dangling other \<Longrightarrow> (if index_fileless other
     then \<exists>m. merge_index E known other this = Some m \<and> extends m this
     else merge_index E known other this = None)"
proof (induction other arbitrary: this)
  case (Cons kp other)
  let ?upd = "AList.update (fst kp) (entry this (fst kp)) this"
  have d: "files_dangling (snd kp)" "index_dangling other" using Cons.prems by (auto simp: index_dangling_def)
  show ?case
    using Cons.IH [OF d(2), of ?upd] extends_trans [OF _ extends_key [of "fst kp" this]]
    by (auto simp: merge_files_dangling [OF d(1)] index_fileless_def split_def split: if_splits)
qed (simp add: index_fileless_def extends_refl)

lemma merge_grids_dangling:
  "index_dangling other \<Longrightarrow> (if index_fileless other
     then \<exists>m. merge_grids E known other n this = Some m \<and> extends m this
     else merge_grids E known other n this = None)"
proof (induction other arbitrary: n this)
  case (Cons kp other)
  let ?k = "(grid_hash E n, snd (fst kp))"
  let ?upd = "AList.update ?k (entry this ?k) this"
  have d: "files_dangling (snd kp)" "index_dangling other" using Cons.prems by (auto simp: index_dangling_def)
  show ?case
    using Cons.IH [OF d(2), of "Suc n" ?upd] extends_trans [OF _ extends_key [of ?k this]]
    by (auto simp: merge_files_dangling [OF d(1)] index_fileless_def split_def Let_def split: if_splits)
qed (simp add: index_fileless_def extends_refl)

text \<open>Merging a structure whose file keys all dangle is defined exactly if it has no such key.\<close>

lemma merge_data_dangling:
  assumes "all_dangling other"
  shows "\<not> fileless other \<Longrightarrow> merge_data E d other = None"
    "fileless other \<Longrightarrow> \<exists>c t g f l. merge_data E d other = Some \<lparr>ds_positions = merge_positions (ds_positions d) (ds_positions other),
       by_common = c, by_date = t, by_grid = g, by_forecast = f, by_level = l\<rparr> \<and> extends c (by_common d) \<and>
       extends t (by_date d) \<and> extends g (by_grid d) \<and> extends f (by_forecast d) \<and> extends l (by_level d)"
proof -
  let ?known = "merge_positions (ds_positions d) (ds_positions other)"
  have d: "index_dangling (by_common other)" "index_dangling (by_date other)" "index_dangling (by_grid other)"
    "index_dangling (by_forecast other)" "index_dangling (by_level other)"
    using assms by (simp_all add: all_dangling_def)
  note each = merge_index_dangling [OF d(1), of E ?known "by_common d"] merge_index_dangling [OF d(2), of E ?known "by_date d"]
    merge_grids_dangling [OF d(3), of E ?known 0 "by_grid d"] merge_index_dangling [OF d(4), of E ?known "by_forecast d"]
    merge_index_dangling [OF d(5), of E ?known "by_level d"]
  show "\<not> fileless other \<Longrightarrow> merge_data E d other = None"
    using each by (auto simp: fileless_def merge_data_def Let_def bind_None split: if_splits)
  assume "fileless other"
  then show "\<exists>c t g f l. merge_data E d other = Some \<lparr>ds_positions = ?known,
       by_common = c, by_date = t, by_grid = g, by_forecast = f, by_level = l\<rparr> \<and> extends c (by_common d) \<and>
       extends t (by_date d) \<and> extends g (by_grid d) \<and> extends f (by_forecast d) \<and> extends l (by_level d)"
    using each by (auto simp: fileless_def merge_data_def Let_def)
qed

lemma index_reachable_ok: "index_reachable d \<Longrightarrow> DataStruct_ok d \<and> all_dangling d"
proof (induction rule: index_reachable.induct)
  case reach_empty
  show ?case by (simp add: empty_DataStruct_ok)
next
  case (reach_add d E path now infos d')
  then show ?case using add_data_ok [of d E path now infos d'] by blast
next
  case (reach_merge d other E d')
  have "fileless other" using reach_merge merge_data_dangling(1) [of other E d] by auto
  with reach_merge merge_data_dangling(2) [of other E d] obtain c t g f l
    where m: "d' = \<lparr>ds_positions = merge_positions (ds_positions d) (ds_positions other),
       by_common = c, by_date = t, by_grid = g, by_forecast = f, by_level = l\<rparr>"
      "extends c (by_common d)" "extends t (by_date d)" "extends g (by_grid d)" "extends f (by_forecast d)"
      "extends l (by_level d)"
    by auto
  have grow: "dom (map_of (ds_positions d)) \<subseteq> dom (map_of (merge_positions (ds_positions d) (ds_positions other)))"
    by (simp add: dom_merge_positions)
  have d: "DataStruct_ok d" "all_dangling d" using reach_merge.IH(1) by simp_all
  have "DataStruct_ok d'"
    using d(1) m(2-) [THEN extends_ok, OF _ grow] by (simp add: m(1) DataStruct_ok_def distinct_merge_positions)
  moreover have "all_dangling d'"
    using d(2) m(2-) [THEN extends_dangling] by (simp add: m(1) all_dangling_def)
  ultimately show ?case by blast
qed

lemma entry_Nil: "entry [] f = []"
  by (simp add: entry_def)

lemma lookup_blocked:
  assumes "table_ok E" "index_dangling m" "lookup m k f \<noteq> []"
  shows "blocked E f (entry m k)"
proof -
  have "(f, lookup m k f) \<in> set (texts (entry m k))"
    using assms(3) entry_cases [of "texts (entry m k)" f] by (simp add: lookup_def)
  then obtain v ps where v: "(v, ps) \<in> set (entry m k)" "view_text v = f" by (auto simp: texts_def)
  moreover from v(1) have "(k, entry m k) \<in> set m" using entry_cases [of m k] by auto
  ultimately have "is_dangling v" using assms(2) by (fastforce simp: index_dangling_def files_dangling_def list_all_iff)
  with v have "Dangling f \<in> fst ` set (entry m k)" by (cases v) force+
  with assms(1) show ?thesis by (rule blocked_dangling)
qed

lemma fileless_lookup: "index_fileless m \<Longrightarrow> lookup m k f = []"
  using entry_cases [of m k] by (auto simp: lookup_def index_fileless_def list_all_iff entry_Nil)

lemma add_data_listed:
  assumes "add_data E path now infos d = Some d'" "table_ok E" "i \<in> set infos" "info_err i = Some NONE_ERR"
  shows "lookup (by_common d') (info_common i) (path, FILE) \<noteq> []"
    "lookup (by_forecast d') (t_unit i) (path, FILE) \<noteq> []" "lookup (by_level d') (info_level i) (path, FILE) \<noteq> []"
  using assms(3,4) by (auto simp: add_data_lookup [OF assms(1,2)] positions_where_def filter_empty_conv)

section \<open>An example\<close>

definition example_info :: GribMsgDataInfo where
  "example_info = make_GribMsgDataInfo Monostate_grid 0 91 59 11 (make_TimeForecast 1 0 12 0) 98 3
     (make_Level 100 3 232) (Some NONE_ERR)"

definition example_tables :: table_env where
  "example_tables = \<lparr>reads_key = (=), grid_hash = (\<lambda>n. 7)\<rparr>"

lemma example_tables_ok: "table_ok example_tables"
  by (simp add: table_ok_def example_tables_def)

lemma example_info_fields:
  "info_err example_info = Some NONE_ERR" "info_level example_info = make_Level 100 3 232" "buf_pos example_info = 91"
  "grid_data example_info = Monostate_grid"
  by (simp_all add: example_info_def make_GribMsgDataInfo_def)

lemma example_info_other:
  "info_common (example_info\<lparr>buf_pos := n\<rparr>) = info_common example_info"
  by (simp add: info_common_def)

text \<open>The index after one message of one file.\<close>

definition example_DataStruct :: "unit DataStruct" where
  "example_DataStruct = (let paths = [(Dangling (''b.grib'', FILE), [91])] in
     \<lparr>ds_positions = [((''b.grib'', FILE), [91])], by_common = [(info_common example_info, paths)], by_date = [],
      by_grid = [((7, Monostate_grid), paths)], by_forecast = [(t_unit example_info, paths)],
      by_level = [(make_Level 100 3 232, paths)]\<rparr>)"

lemma add_example:
  "add_data example_tables ''b.grib'' now [example_info] empty_DataStruct = Some example_DataStruct"
  by (simp add: add_data_unfold add_message_def example_info_fields example_tables_def empty_DataStruct_def
      add_position_def add_grid_position_def retire_def retire_index_def retire_files_def entry_def
      example_DataStruct_def Let_def)

lemma example_reachable: "index_reachable example_DataStruct"
  using reach_add [OF reach_empty example_tables_ok add_example] .

section \<open>Properties\<close>

text \<open>
  C7: adding the messages of a file.  The result is undefined exactly if the error member of a
  message has no value, or a message without an error leads to a table of files in which a dangling
  key is read: the table of its common properties, forecast or level has such a key, or it is new and
  an earlier message of the file had the same, or this happens in the index by grids (the same
  condition, when the hash codes that the call computes are a function of the grid, which the code
  does not ensure).  Otherwise the positions of the file are those of the messages without an error,
  in order, and in the indices by the common properties, the forecast and the level the list of every
  key and file is extended by the positions of the messages of that file with that key; other files
  keep their lists.  Under a grid no other positions are put, and all of them are when the codes are
  a function of the grid.
\<close>

theorem add_data_correct:
  assumes "table_ok E"
  shows "(add_data E path now infos d = None \<longleftrightarrow> (\<exists>i\<in>set infos. info_err i = None) \<or>
      clash E (path, FILE) info_common infos (by_common d) \<or> clash E (path, FILE) t_unit infos (by_forecast d) \<or>
      clash E (path, FILE) info_level infos (by_level d) \<or> add_grids E (path, FILE) infos 0 (by_grid d) = None) \<and>
   (\<forall>code. (\<forall>k<length infos. grid_hash E (2 * k) = code (grid_data (infos ! k)) \<and>
        grid_hash E (2 * k + 1) = code (grid_data (infos ! k))) \<longrightarrow>
      (add_grids E (path, FILE) infos 0 (by_grid d) = None \<longleftrightarrow>
       clash E (path, FILE) (\<lambda>i. (code (grid_data i), grid_data i)) infos (by_grid d))) \<and>
   (\<forall>d'. add_data E path now infos d = Some d' \<longrightarrow> (\<forall>f.
      entry (ds_positions d') f = (if f = (path, FILE) then positions_where (\<lambda>i. True) infos else entry (ds_positions d) f) \<and>
      (\<forall>c. lookup (by_common d') c f = lookup (by_common d) c f @
         (if f = (path, FILE) then positions_where (\<lambda>i. info_common i = c) infos else [])) \<and>
      (\<forall>t. lookup (by_forecast d') t f = lookup (by_forecast d) t f @
         (if f = (path, FILE) then positions_where (\<lambda>i. t_unit i = t) infos else [])) \<and>
      (\<forall>l. lookup (by_level d') l f = lookup (by_level d) l f @
         (if f = (path, FILE) then positions_where (\<lambda>i. info_level i = l) infos else [])) \<and>
      (\<forall>h g. set (lookup (by_grid d') (h, g) f) \<subseteq> set (lookup (by_grid d) (h, g) f) \<union>
         (if f = (path, FILE) then set (positions_where (\<lambda>i. grid_data i = g) infos) else {})) \<and>
      (\<forall>code g. (\<forall>k<length infos. grid_hash E (2 * k) = code (grid_data (infos ! k)) \<and>
            grid_hash E (2 * k + 1) = code (grid_data (infos ! k))) \<longrightarrow>
         lookup (by_grid d') (code g, g) f = lookup (by_grid d) (code g, g) f @
           (if f = (path, FILE) then positions_where (\<lambda>i. grid_data i = g) infos else []))))"
proof (intro conjI allI impI)
  show "add_data E path now infos d = None \<longleftrightarrow> (\<exists>i\<in>set infos. info_err i = None) \<or>
      clash E (path, FILE) info_common infos (by_common d) \<or> clash E (path, FILE) t_unit infos (by_forecast d) \<or>
      clash E (path, FILE) info_level infos (by_level d) \<or> add_grids E (path, FILE) infos 0 (by_grid d) = None"
    by (auto simp: add_data_None add_keys_None [OF assms])
next
  fix code :: "GridInfo \<Rightarrow> nat"
  assume "\<forall>k<length infos. grid_hash E (2 * k) = code (grid_data (infos ! k)) \<and>
      grid_hash E (2 * k + 1) = code (grid_data (infos ! k))"
  then show "add_grids E (path, FILE) infos 0 (by_grid d) = None \<longleftrightarrow>
      clash E (path, FILE) (\<lambda>i. (code (grid_data i), grid_data i)) infos (by_grid d)"
    using add_grids_hash [of infos E 0 code] add_keys_None [OF assms] by simp
qed (rule add_data_lookup [OF _ assms]; assumption)+

theorem add_data_correct_witness:
  "(\<exists>d. add_data example_tables ''a.grib'' 5 [example_info, example_info\<lparr>buf_pos := 150\<rparr>] example_DataStruct = Some d \<and>
     entry (ds_positions d) (''a.grib'', FILE) = [91, 150] \<and>
     lookup (by_level d) (make_Level 100 3 232) (''a.grib'', FILE) = [91, 150] \<and>
     lookup (by_grid d) (7, Monostate_grid) (''a.grib'', FILE) = [91, 150]) \<and>
   add_data example_tables ''a.grib'' 5 [example_info, example_info\<lparr>buf_pos := 150\<rparr>] (empty_DataStruct :: unit DataStruct) = None"
proof
  let ?is = "[example_info, example_info\<lparr>buf_pos := 150\<rparr>]" and ?f = "(''a.grib'', FILE)"
  note c = add_data_correct [OF example_tables_ok, of "''a.grib''" 5 ?is]
  have codes: "\<forall>k<length ?is. grid_hash example_tables (2 * k) = 7 \<and> grid_hash example_tables (2 * k + 1) = 7"
    by (simp add: example_tables_def)
  note grids = c [THEN conjunct2, THEN conjunct1, THEN spec [of _ "\<lambda>g. 7"], THEN mp, OF codes]
  have "add_data example_tables ''a.grib'' 5 ?is example_DataStruct \<noteq> None"
    unfolding c [THEN conjunct1] grids
    by (simp add: clash_two example_DataStruct_def example_info_fields example_info_other entry_def
        example_tables_def Let_def)
  then obtain d where d: "add_data example_tables ''a.grib'' 5 ?is example_DataStruct = Some d" by blast
  note q = c [THEN conjunct2, THEN conjunct2, THEN spec, THEN mp, OF d, THEN spec [of _ ?f]]
  have f: "entry (ds_positions d) ?f = positions_where (\<lambda>i. True) ?is"
    "lookup (by_level d) (make_Level 100 3 232) ?f = positions_where (\<lambda>i. info_level i = make_Level 100 3 232) ?is"
    using q by (simp_all add: lookup_def example_DataStruct_def entry_def Let_def)
  have g: "lookup (by_grid d) (7, Monostate_grid) ?f = positions_where (\<lambda>i. grid_data i = Monostate_grid) ?is"
    using q [THEN conjunct2, THEN conjunct2, THEN conjunct2, THEN conjunct2, THEN conjunct2,
        THEN spec [of _ "\<lambda>g. 7"], THEN spec [of _ Monostate_grid], THEN mp, OF codes]
    by (simp add: lookup_def example_DataStruct_def entry_def Let_def)
  show "\<exists>d. add_data example_tables ''a.grib'' 5 ?is example_DataStruct = Some d \<and>
     entry (ds_positions d) (''a.grib'', FILE) = [91, 150] \<and>
     lookup (by_level d) (make_Level 100 3 232) (''a.grib'', FILE) = [91, 150] \<and>
     lookup (by_grid d) (7, Monostate_grid) (''a.grib'', FILE) = [91, 150]"
    using d f g by (simp add: example_info_fields)
  show "add_data example_tables ''a.grib'' 5 ?is (empty_DataStruct :: unit DataStruct) = None"
    unfolding c [THEN conjunct1]
    by (simp add: clash_two empty_DataStruct_def example_info_fields example_info_other entry_def)
qed



text \<open>
  C28: merging is defined exactly if the other structure lists no file in any of its indices: its
  file keys all dangle, and merging reads them.  Then every file of the other structure has its
  positions there, and the indices list what they listed.  A structure to which a message without
  an error was added lists a file, so what indexing collects cannot be merged.
\<close>

theorem merge_data_correct:
  assumes "index_reachable d" "index_reachable other"
  shows "(\<not> fileless other \<longrightarrow> merge_data E d other = None) \<and>
    (fileless other \<longrightarrow> (\<exists>d'. merge_data E d other = Some d' \<and>
      (\<forall>f. map_of (ds_positions d') f = (case map_of (ds_positions other) f of Some ps \<Rightarrow> Some ps | None \<Rightarrow> map_of (ds_positions d) f)) \<and>
      (\<forall>k f. lookup (by_common d') k f = lookup (by_common d) k f) \<and> (\<forall>k f. lookup (by_grid d') k f = lookup (by_grid d) k f) \<and>
      (\<forall>k f. lookup (by_forecast d') k f = lookup (by_forecast d) k f) \<and> (\<forall>k f. lookup (by_level d') k f = lookup (by_level d) k f))) \<and>
    (table_ok F \<and> add_data F path now infos before = Some other \<and> i \<in> set infos \<and> info_err i = Some NONE_ERR \<longrightarrow>
      merge_data E d other = None)"
proof (intro conjI impI)
  have dangling: "all_dangling other" and ok: "distinct (map fst (ds_positions other))"
    using index_reachable_ok [OF assms(2)] by (simp_all add: DataStruct_ok_def)
  show none: "merge_data E d other = None" if "\<not> fileless other"
    using merge_data_dangling(1) [OF dangling that] .
  show "\<exists>d'. merge_data E d other = Some d' \<and>
      (\<forall>f. map_of (ds_positions d') f = (case map_of (ds_positions other) f of Some ps \<Rightarrow> Some ps | None \<Rightarrow> map_of (ds_positions d) f)) \<and>
      (\<forall>k f. lookup (by_common d') k f = lookup (by_common d) k f) \<and> (\<forall>k f. lookup (by_grid d') k f = lookup (by_grid d) k f) \<and>
      (\<forall>k f. lookup (by_forecast d') k f = lookup (by_forecast d) k f) \<and> (\<forall>k f. lookup (by_level d') k f = lookup (by_level d) k f)"
    if "fileless other"
    using merge_data_dangling(2) [OF dangling that, of E d] by (auto simp: extends_def map_of_merge_positions [OF ok])
  assume a: "table_ok F \<and> add_data F path now infos before = Some other \<and> i \<in> set infos \<and> info_err i = Some NONE_ERR"
  then have "lookup (by_level other) (info_level i) (path, FILE) \<noteq> []" using add_data_listed(3) by blast
  then have "\<not> fileless other"
    using fileless_lookup [of "by_level other" "info_level i" "(path, FILE)"] unfolding fileless_def by blast
  then show "merge_data E d other = None" by (rule none)
qed

theorem merge_data_correct_witness:
  "merge_data example_tables empty_DataStruct example_DataStruct = None \<and>
     merge_data example_tables example_DataStruct empty_DataStruct \<noteq> None"
proof
  show "merge_data example_tables empty_DataStruct example_DataStruct = None"
    using merge_data_correct [OF reach_empty example_reachable, of example_tables example_tables "''b.grib''" 5
        "[example_info]" empty_DataStruct example_info] add_example [of 5]
    by (simp add: example_tables_ok example_info_fields)
  have "fileless (empty_DataStruct :: unit DataStruct)"
    by (simp add: fileless_def index_fileless_def empty_DataStruct_def)
  then show "merge_data example_tables example_DataStruct empty_DataStruct \<noteq> None"
    using merge_data_correct [OF example_reachable reach_empty, of example_tables] by (metis option.distinct(1))
qed

text \<open>
  Two files with the same grid, and hash codes that differ between finding and inserting: the message
  of the second file is in the index by level, but not in the index by grid.
\<close>

theorem grid_position_lost:
  "\<exists>d d'. add_data (example_tables\<lparr>grid_hash := (\<lambda>n. n mod 2)\<rparr>) ''b.grib'' 5 [example_info]
       (empty_DataStruct :: unit DataStruct) = Some d \<and>
     add_data (example_tables\<lparr>grid_hash := (\<lambda>n. n mod 2)\<rparr>) ''a.grib'' 6 [example_info] d = Some d' \<and>
     by_grid d' = [((1, Monostate_grid), [(Dangling (''b.grib'', FILE), [91])])] \<and>
     lookup (by_level d') (make_Level 100 3 232) (''a.grib'', FILE) = [91]"
  by (simp add: add_data_unfold add_message_def example_info_fields example_tables_def empty_DataStruct_def
      add_position_def add_grid_position_def push_position_def blocked_def retire_def retire_index_def
      retire_files_def lookup_def texts_def entry_def Let_def)

text \<open>
  C29: what indexing reads from a file of valid messages cannot be added: the error member of every
  message was never given a value, and adding branches on it.
\<close>

theorem indexed_file_not_addable:
  assumes "lib_ok L" "\<forall>m\<in>set (m0 # ms). indexable m" "last (p4 m0) \<noteq> 55"
  shows "\<exists>infos. index_file L (Some (file_of (m0 # ms))) = Some (None, infos) \<and> add_data E path now infos d = None"
proof -
  let ?infos = "map (\<lambda>k. info_of (m0 # ms) k (the (define_grid L (Some (section_2_on (m0 # ms) k))))) [0..<length (m0 # ms)]"
  have "valid_message m0" using assms(2) by (simp add: indexable_def)
  from open_grib_reader [OF assms(1) this, of ms]
  have "index_file L (Some (file_of (m0 # ms))) = Some (None, ?infos)"
    using process_file_reader [OF assms(1,2)] assms(3) by (simp add: index_file_def del: file_of_Cons upt_Suc)
  moreover have "add_data E path now ?infos d = None"
  proof -
    have "?infos ! 0 \<in> set ?infos" by (rule nth_mem) simp
    moreover have "info_err (?infos ! 0) = None" by (simp add: info_of_def Let_def del: upt_Suc)
    ultimately show ?thesis unfolding add_data_None by blast
  qed
  ultimately show ?thesis by blast
qed

theorem indexed_file_not_addable_witness:
  "\<exists>infos. index_file example_lib (Some (file_of [example_indexed])) = Some (None, infos) \<and>
     add_data example_tables ''a.grib'' 5 infos (empty_DataStruct :: unit DataStruct) = None"
  by (rule indexed_file_not_addable)
    (simp_all add: example_indexed_ok, simp add: example_indexed_def example_parts_def example_bds_def)

end
