(* ===== verification/Settings.thy ===== *)
theory Settings
  imports Grid_Json Formats Search
begin

text \<open>
  The configurations of users and of the server (\<^verbatim>\<open>src/sys/config.cpp\<close>, \<^verbatim>\<open>src/sys/config/user.cpp\<close>,
  \<^verbatim>\<open>src/sys/config/server.cpp\<close>, \<^verbatim>\<open>network/include/serversettings.h\<close>): two sets keyed by name, their
  operations, and the files they are kept in.
\<close>

section \<open>The structures\<close>

text \<open>OsterLib's \<^verbatim>\<open>TimePeriod\<close> is the type \<open>'t\<close>.\<close>

record 't UserSettings =
  us_name :: string
  index_update_ti :: 't
  mashroom_update_ti :: 't
  default_format :: u32

record ServerSettings =
  host :: string
  service :: string
  protocol :: int
  timeout_seconds :: int
  port :: int
  reuse_address :: bool

record ServerConfig =
  settings :: ServerSettings
  accepted_addresses :: "string list"
  sc_name :: string

text \<open>
  What the code takes from elsewhere: the JSON of a period, a default constructed one and one of seven days,
  the number of the protocol \<^verbatim>\<open>tcp\<close> in the system's table, and what the memory of an uninitialised port holds.
\<close>

record 't config_env =
  period_to_json :: "'t \<Rightarrow> json"
  period_from_json :: "json \<Rightarrow> 't option"
  no_period :: 't
  seven_days :: 't
  tcp_number :: int
  any_port :: int

definition UserSettings_default :: "'t config_env \<Rightarrow> 't UserSettings" where
  "UserSettings_default E = \<lparr>us_name = '''', index_update_ti = no_period E, mashroom_update_ti = no_period E,
     default_format = output_or BIN_F ARCHIVED\<rparr>"

definition user_default_config :: "'t config_env \<Rightarrow> 't UserSettings" where
  "user_default_config E = (UserSettings_default E)\<lparr>us_name := ''default'', index_update_ti := seven_days E,
     mashroom_update_ti := seven_days E\<rparr>"

definition TCP :: int where "TCP = 6"

definition ServerSettings_default :: "'t config_env \<Rightarrow> ServerSettings" where
  "ServerSettings_default E = \<lparr>host = '''', service = '''', protocol = TCP, timeout_seconds = 20,
     port = any_port E, reuse_address = True\<rparr>"

definition ServerConfig_default :: "'t config_env \<Rightarrow> ServerConfig" where
  "ServerConfig_default E = \<lparr>settings = ServerSettings_default E, accepted_addresses = [], sc_name = ''''\<rparr>"

definition get_default_server_config :: "'t config_env \<Rightarrow> ServerConfig" where
  "get_default_server_config E = (ServerConfig_default E)\<lparr>
     settings := (ServerSettings_default E)\<lparr>host := ''10.10.10.10'', service := ''32396'',
       protocol := tcp_number E, timeout_seconds := 20\<rparr>,
     sc_name := ''default''\<rparr>"

definition min_timeout_seconds :: int where "min_timeout_seconds = 1"

text \<open>\<^verbatim>\<open>!settings_.port_>0\<close> negates the port first: it holds exactly for the port zero.\<close>

definition server_config_valid :: "ServerConfig \<Rightarrow> bool" where
  "server_config_valid c = (let s = settings c in
     host s \<noteq> '''' \<and> (service s \<noteq> '''' \<or> (if port s = 0 then 1 else 0 :: int) > 0) \<and> \<not> protocol s < 0 \<and>
     timeout_seconds s \<ge> min_timeout_seconds \<and> sc_name c \<noteq> '''')"

section \<open>JSON\<close>

definition UserSettings_to_json :: "'t config_env \<Rightarrow> 't UserSettings \<Rightarrow> json" where
  "UserSettings_to_json E val = JObj [(''name'', JStr (us_name val)),
     (''mashroom-update-ti'', period_to_json E (mashroom_update_ti val)),
     (''index-update-ti'', period_to_json E (index_update_ti val))]"

definition as_string :: "json \<Rightarrow> string option" where
  "as_string j = (case j of JStr s \<Rightarrow> Some s | _ \<Rightarrow> None)"

definition as_array :: "json \<Rightarrow> json list option" where
  "as_array j = (case j of JArr xs \<Rightarrow> Some xs | _ \<Rightarrow> None)"

text \<open>Every exception of a member that is missing or of another kind is caught: no value.\<close>

definition UserSettings_from_json :: "'t config_env \<Rightarrow> json \<Rightarrow> 't UserSettings option" where
  "UserSettings_from_json E val = do {
     obj \<leftarrow> as_object val;
     n \<leftarrow> map_of obj ''name'';
     n \<leftarrow> as_string n;
     m \<leftarrow> map_of obj ''mashroom-update-ti'';
     m \<leftarrow> period_from_json E m;
     i \<leftarrow> map_of obj ''index-update-ti'';
     i \<leftarrow> period_from_json E i;
     Some ((UserSettings_default E)\<lparr>us_name := n, mashroom_update_ti := m, index_update_ti := i\<rparr>)}"

definition ServerConfig_to_json :: "ServerConfig \<Rightarrow> json" where
  "ServerConfig_to_json val = JObj [(''name'', JStr (sc_name val)), (''host'', JStr (host (settings val))),
     (''service'', JStr (service (settings val))), (''port'', JInt (port (settings val))),
     (''protocol'', JInt (protocol (settings val))), (''timeout'', JInt (timeout_seconds (settings val)))]"

text \<open>
  The handler is for another exception than those that \<^verbatim>\<open>at\<close> and the accessors throw: \<^term>\<open>None\<close>, which
  ends the program in the caller, is also the value for a number that is no protocol.  A value that is no
  object gives a default constructed configuration.
\<close>

definition ServerConfig_from_json :: "'t config_env \<Rightarrow> json \<Rightarrow> ServerConfig option" where
  "ServerConfig_from_json E val = (case val of
       JObj c \<Rightarrow> do {
         n \<leftarrow> Option.bind (map_of c ''name'') as_string;
         h \<leftarrow> Option.bind (map_of c ''host'') as_string;
         s \<leftarrow> Option.bind (map_of c ''service'') as_string;
         po \<leftarrow> Option.bind (map_of c ''port'') as_uint64;
         pr \<leftarrow> Option.bind (map_of c ''protocol'') as_uint64;
         _ \<leftarrow> (if pr < 512 then Some () else None);
         t \<leftarrow> Option.bind (map_of c ''timeout'') as_int64;
         as \<leftarrow> Option.bind (map_of c ''accaddr'') as_array;
         as \<leftarrow> those (map as_string as);
         Some \<lparr>settings = (ServerSettings_default E)\<lparr>host := h, service := s, port := int (unat (of_nat po :: u16)),
             protocol := int pr, timeout_seconds := sint (word_of_int t :: 32 word)\<rparr>,
           accepted_addresses = remdups as, sc_name = n\<rparr>}
     | _ \<Rightarrow> Some (ServerConfig_default E))"

section \<open>Sets keyed by name\<close>

text \<open>\<^verbatim>\<open>insert\<close> keeps an element that is there.  The order of the elements is that of their insertion.\<close>

definition contains_name :: "('c \<Rightarrow> string) \<Rightarrow> string \<Rightarrow> 'c list \<Rightarrow> bool" where
  "contains_name nm n cs \<longleftrightarrow> n \<in> nm ` set cs"

definition insert_named :: "('c \<Rightarrow> string) \<Rightarrow> 'c \<Rightarrow> 'c list \<Rightarrow> 'c list" where
  "insert_named nm c cs = (if contains_name nm (nm c) cs then cs else cs @ [c])"

definition find_named :: "('c \<Rightarrow> string) \<Rightarrow> string \<Rightarrow> 'c list \<Rightarrow> 'c option" where
  "find_named nm n cs = find (\<lambda>c. nm c = n) cs"

definition erase_named :: "('c \<Rightarrow> string) \<Rightarrow> string \<Rightarrow> 'c list \<Rightarrow> 'c list" where
  "erase_named nm n cs = filter (\<lambda>c. nm c \<noteq> n) cs"

section \<open>The configuration\<close>

record ('t, 'p) Config =
  server_config :: ServerConfig
  user_config :: "'t UserSettings"
  configs :: "'t UserSettings list"
  server_configs :: "ServerConfig list"
  log_dir :: 'p
  config_dir :: 'p
  server_config_dir :: 'p

text \<open>
  The file system: whether a directory is accessible (OsterLib's \<^verbatim>\<open>directory_accessible\<close>) and whether a file
  can be opened for writing, and what the files hold after they were parsed.  Boost reads every number
  without a fraction that fits as a signed one.  \<open>reparse\<close> is writing a value and parsing the text for
  strings and keys in UTF-8, as the names of configurations, hosts and directories are taken to be here:
  Boost writes any octets, but its parser refuses a file with others.
\<close>

record 'p config_fs =
  directory_accessible :: "'p \<Rightarrow> bool"
  file_opens :: "'p \<Rightarrow> string \<Rightarrow> bool"

type_synonym 'p config_files = "'p \<Rightarrow> string \<Rightarrow> json option"

definition uc_filename :: string where "uc_filename = ''config.json''"
definition sc_filename :: string where "sc_filename = ''server.json''"

fun reparse :: "json \<Rightarrow> json" where
  "reparse (JNum n) = (if n < 2 ^ 63 then JInt (int n) else JNum n)"
| "reparse (JArr xs) = JArr (map reparse xs)"
| "reparse (JObj obj) = JObj (map (map_prod id reparse) obj)"
| "reparse j = j"

definition put_config_file :: "'p \<Rightarrow> string \<Rightarrow> json \<Rightarrow> 'p config_files \<Rightarrow> 'p config_files" where
  "put_config_file d f j files = files(d := (files d)(f := Some (reparse j)))"

definition write_user_config ::
    "'t config_env \<Rightarrow> 'p config_fs \<Rightarrow> ('t, 'p) Config \<Rightarrow> 'p config_files \<Rightarrow> 'p config_files" where
  "write_user_config E S c files =
     (if \<not> directory_accessible S (config_dir c) then files
      else if \<not> file_opens S (config_dir c) uc_filename then files
      else put_config_file (config_dir c) uc_filename
        (JObj (fold (\<lambda>s obj. json_put (us_name s) (UserSettings_to_json E s) obj) (configs c) [])) files)"

definition write_server_config :: "'p config_fs \<Rightarrow> ('t, 'p) Config \<Rightarrow> 'p config_files \<Rightarrow> 'p config_files" where
  "write_server_config S c files =
     (if \<not> directory_accessible S (server_config_dir c) then files
      else if \<not> file_opens S (server_config_dir c) sc_filename then files
      else put_config_file (server_config_dir c) sc_filename
        (JObj [(''last'', JStr (sc_name (server_config c))),
          (''configs'', JArr (map ServerConfig_to_json (server_configs c)))]) files)"

definition save_config ::
    "'t config_env \<Rightarrow> 'p config_fs \<Rightarrow> ('t, 'p) Config \<Rightarrow> 'p config_files \<Rightarrow> 'p config_files" where
  "save_config E S c files = write_server_config S c (write_user_config E S c files)"

section \<open>Reading at the start\<close>

text \<open>\<^verbatim>\<open>last\<close> selects nothing: the current configuration is set only if there is no such one.\<close>

definition read_user_config ::
    "'t config_env \<Rightarrow> json option \<Rightarrow> ('t, 'p) Config \<Rightarrow> ('t, 'p) Config" where
  "read_user_config E content c = (case content of
       Some (JObj registered) \<Rightarrow>
         (let last = (case map_of registered ''last'' of Some (JStr s) \<Rightarrow> s | _ \<Rightarrow> '''');
              cs = (case map_of registered ''configs'' of
                  Some (JArr vals) \<Rightarrow> fold (\<lambda>v cs. case UserSettings_from_json E v of
                      Some s \<Rightarrow> insert_named us_name s cs | None \<Rightarrow> cs) vals (configs c)
                | _ \<Rightarrow> configs c)
          in if last = '''' \<or> \<not> contains_name us_name last cs
            then (let cs = insert_named us_name (user_default_config E) cs in
              c\<lparr>configs := cs, user_config := (case find_named us_name ''default'' cs of
                Some s \<Rightarrow> s | None \<Rightarrow> user_config c)\<rparr>)
            else c\<lparr>configs := cs\<rparr>)
     | _ \<Rightarrow> c)"

definition get_server_config :: "'t config_env \<Rightarrow> string \<Rightarrow> ServerConfig list \<Rightarrow> ServerConfig" where
  "get_server_config E n cs = (case find_named sc_name n cs of Some c \<Rightarrow> c | None \<Rightarrow> ServerConfig_default E)"

primrec read_server_list :: "'t config_env \<Rightarrow> json list \<Rightarrow> ServerConfig list \<Rightarrow> ServerConfig list option" where
  "read_server_list E [] cs = Some cs"
| "read_server_list E (v # vs) cs = do {
     c \<leftarrow> ServerConfig_from_json E v;
     read_server_list E vs (insert_named sc_name c cs)}"

text \<open>The list is tested for an object and then taken for an array, which throws.\<close>

definition read_server_object ::
    "'t config_env \<Rightarrow> (string \<times> json) list \<Rightarrow> ('t, 'p) Config \<Rightarrow> ('t, 'p) Config option" where
  "read_server_object E name_configs c = do {
     last \<leftarrow> (case map_of name_configs ''last'' of None \<Rightarrow> Some '''' | Some j \<Rightarrow> as_string j);
     cs \<leftarrow> (case map_of name_configs ''configs'' of
         Some (JObj obj) \<Rightarrow> do {
           vals \<leftarrow> as_array (JObj obj);
           read_server_list E vals (server_configs c)}
       | _ \<Rightarrow> Some (server_configs c));
     Some (c\<lparr>server_configs := cs,
       server_config := (if last \<noteq> '''' then get_server_config E last cs else server_config c)\<rparr>)}"

definition read_server_config ::
    "'t config_env \<Rightarrow> json option \<Rightarrow> ('t, 'p) Config \<Rightarrow> ('t, 'p) Config option" where
  "read_server_config E content c = (case content of
       None \<Rightarrow> Some c
     | Some v \<Rightarrow> do {
         c \<leftarrow> (case v of JObj name_configs \<Rightarrow> read_server_object E name_configs c | _ \<Rightarrow> Some c);
         let c = (if \<not> server_config_valid (server_config c)
           then c\<lparr>server_config := get_default_server_config E\<rparr> else c);
         Some (if server_configs c = []
           then c\<lparr>server_configs := insert_named sc_name (server_config c) []\<rparr> else c)})"

text \<open>The constructor: \<open>home\<close> is the directory of the files, \<open>here\<close> the current one.\<close>

definition start_config ::
    "'t config_env \<Rightarrow> 'p \<Rightarrow> 'p \<Rightarrow> 'p config_files \<Rightarrow> ('t, 'p) Config option" where
  "start_config E home here files = (let c = \<lparr>server_config = ServerConfig_default E, user_config = UserSettings_default E,
       configs = [], server_configs = [], log_dir = here, config_dir = home, server_config_dir = home\<rparr>
     in read_server_config E (files home sc_filename) (read_user_config E (files home uc_filename) c))"

section \<open>Operations\<close>

definition add_user_config ::
    "'t config_env \<Rightarrow> 'p config_fs \<Rightarrow> 't UserSettings \<Rightarrow> ('t, 'p) Config \<times> 'p config_files \<Rightarrow>
     bool \<times> ('t, 'p) Config \<times> 'p config_files" where
  "add_user_config E S s = (\<lambda>(c, files).
     if us_name s = '''' then (False, c, files)
     else if \<not> contains_name us_name (us_name s) (configs c)
     then (let c = c\<lparr>configs := insert_named us_name s (configs c)\<rparr> in (True, c, save_config E S c files))
     else (False, c, files))"

definition add_server_config :: "ServerConfig \<Rightarrow> ('t, 'p) Config \<Rightarrow> bool \<times> ('t, 'p) Config" where
  "add_server_config s c = (if \<not> contains_name sc_name (sc_name s) (server_configs c)
     then (True, c\<lparr>server_configs := insert_named sc_name s (server_configs c)\<rparr>) else (False, c))"

text \<open>Removing makes the configuration \<^verbatim>\<open>default\<close> the current one: undefined without one.\<close>

definition remove_server_config :: "string \<Rightarrow> ('t, 'p) Config \<Rightarrow> (bool \<times> ('t, 'p) Config) option" where
  "remove_server_config n c =
     (if n = ''default'' then Some (False, c)
      else if \<not> contains_name sc_name n (server_configs c) then Some (False, c)
      else let cs = erase_named sc_name n (server_configs c) in
        do {
          d \<leftarrow> find_named sc_name ''default'' cs;
          Some (True, c\<lparr>server_configs := cs, server_config := d\<rparr>)})"

definition remove_user_config :: "string \<Rightarrow> ('t, 'p) Config \<Rightarrow> bool \<times> ('t, 'p) Config" where
  "remove_user_config n c = (if contains_name us_name n (configs c)
     then (True, c\<lparr>configs := erase_named us_name n (configs c)\<rparr>) else (False, c))"

definition setup_user_config :: "'t UserSettings \<Rightarrow> ('t, 'p) Config \<Rightarrow> bool \<times> ('t, 'p) Config" where
  "setup_user_config s c = (if contains_name us_name (us_name s) (configs c)
     then (True, c\<lparr>configs := insert_named us_name s (configs c)\<rparr>) else (False, c))"

definition setup_server_config :: "ServerConfig \<Rightarrow> ('t, 'p) Config \<Rightarrow> bool \<times> ('t, 'p) Config" where
  "setup_server_config s c = (if contains_name sc_name (sc_name s) (server_configs c) \<and> server_config_valid s
     then (True, c\<lparr>server_configs := insert_named sc_name s (server_configs c)\<rparr>) else (False, c))"

definition get_user_config :: "'t config_env \<Rightarrow> string \<Rightarrow> ('t, 'p) Config \<Rightarrow> 't UserSettings" where
  "get_user_config E n c = (if n = '''' then UserSettings_default E
     else case find_named us_name n (configs c) of Some s \<Rightarrow> s | None \<Rightarrow> UserSettings_default E)"

definition set_server_config :: "string \<Rightarrow> ('t, 'p) Config \<Rightarrow> bool \<times> ('t, 'p) Config" where
  "set_server_config n c = (case find_named sc_name n (server_configs c) of
     Some s \<Rightarrow> (True, c\<lparr>server_config := s\<rparr>) | None \<Rightarrow> (False, c))"

definition set_user_config :: "string \<Rightarrow> ('t, 'p) Config \<Rightarrow> bool \<times> ('t, 'p) Config" where
  "set_user_config n c = (case find_named us_name n (configs c) of
     Some s \<Rightarrow> (True, c\<lparr>user_config := s\<rparr>) | None \<Rightarrow> (False, c))"

text \<open>
  The directories; for the one of the log the success of \<^verbatim>\<open>create_directories\<close> counts as a failure:
  \<open>exists\<close> and \<open>created\<close> are what the file system says.
\<close>

definition set_log_directory ::
    "('p \<Rightarrow> bool) \<Rightarrow> ('p \<Rightarrow> bool) \<Rightarrow> 'p \<Rightarrow> ('t, 'p) Config \<Rightarrow> ErrorCode \<times> ('t, 'p) Config" where
  "set_log_directory exists created p c =
     (if \<not> exists p then
        if created p then (EC_CREATE_DIR_X1_DENIED, c) else (EC_NONE, c\<lparr>log_dir := p\<rparr>)
      else (EC_NONE, c\<lparr>log_dir := p\<rparr>))"

definition set_config_directory :: "'p config_fs \<Rightarrow> 'p \<Rightarrow> ('t, 'p) Config \<Rightarrow> ErrorCode \<times> ('t, 'p) Config" where
  "set_config_directory S p c = (if \<not> directory_accessible S p then (EC_CREATE_DIR_X1_DENIED, c)
     else (EC_NONE, c\<lparr>config_dir := p\<rparr>))"

definition set_server_config_directory ::
    "'p config_fs \<Rightarrow> 'p \<Rightarrow> ('t, 'p) Config \<Rightarrow> ErrorCode \<times> ('t, 'p) Config" where
  "set_server_config_directory S p c = (if \<not> directory_accessible S p then (EC_CREATE_DIR_X1_DENIED, c)
     else (EC_NONE, c\<lparr>server_config_dir := p\<rparr>))"

text \<open>The commands, in any order.\<close>

inductive config_step ::
    "'t config_env \<Rightarrow> 'p config_fs \<Rightarrow> ('t, 'p) Config \<times> 'p config_files \<Rightarrow> ('t, 'p) Config \<times> 'p config_files \<Rightarrow> bool"
  for E S where
  add_user: "add_user_config E S s x = (b, y) \<Longrightarrow> config_step E S x y"
| add_server: "add_server_config s c = (b, c') \<Longrightarrow> config_step E S (c, files) (c', files)"
| remove_server: "remove_server_config n c = Some (b, c') \<Longrightarrow> config_step E S (c, files) (c', files)"
| remove_user: "remove_user_config n c = (b, c') \<Longrightarrow> config_step E S (c, files) (c', files)"
| setup_user: "setup_user_config s c = (b, c') \<Longrightarrow> config_step E S (c, files) (c', files)"
| setup_server: "setup_server_config s c = (b, c') \<Longrightarrow> config_step E S (c, files) (c', files)"
| set_server: "set_server_config n c = (b, c') \<Longrightarrow> config_step E S (c, files) (c', files)"
| set_user: "set_user_config n c = (b, c') \<Longrightarrow> config_step E S (c, files) (c', files)"
| set_log: "set_log_directory exists created p c = (e, c') \<Longrightarrow> config_step E S (c, files) (c', files)"
| set_dir: "set_config_directory S p c = (e, c') \<Longrightarrow> config_step E S (c, files) (c', files)"
| set_server_dir: "set_server_config_directory S p c = (e, c') \<Longrightarrow> config_step E S (c, files) (c', files)"
| save: "save_config E S c files = files' \<Longrightarrow> config_step E S (c, files) (c, files')"

section \<open>Facts\<close>

lemma insert_named_facts:
  "nm ` set (insert_named nm c cs) = insert (nm c) (nm ` set cs)"
  "distinct (map nm cs) \<Longrightarrow> distinct (map nm (insert_named nm c cs))"
  by (auto simp: insert_named_def contains_name_def)

lemma erase_named_facts:
  "nm ` set (erase_named nm n cs) = nm ` set cs - {n}"
  "distinct (map nm cs) \<Longrightarrow> distinct (map nm (erase_named nm n cs))"
  by (auto simp: erase_named_def distinct_map inj_on_def)

lemma find_named_None: "find_named nm n cs = None \<longleftrightarrow> \<not> contains_name nm n cs"
  by (auto simp: find_named_def contains_name_def find_None_iff)

lemma find_named_Some: "find_named nm n cs = Some c \<Longrightarrow> nm c = n \<and> c \<in> set cs"
  by (auto simp: find_named_def find_Some_iff)

text \<open>An existing configuration is never replaced: setting one up changes nothing.\<close>

lemma setup_changes_nothing:
  "snd (setup_user_config s c) = c" "snd (setup_server_config s' c) = c"
  by (simp_all add: setup_user_config_def setup_server_config_def insert_named_def)

lemma log_directory_inverted:
  "\<not> exists p \<Longrightarrow> fst (set_log_directory exists created p c) = EC_NONE \<longleftrightarrow> \<not> created p"
  by (simp add: set_log_directory_def)

text \<open>What every operation keeps.\<close>

definition config_inv :: "('t, 'p) Config \<Rightarrow> bool" where
  "config_inv c \<longleftrightarrow> distinct (map us_name (configs c)) \<and> distinct (map sc_name (server_configs c)) \<and>
     contains_name sc_name ''default'' (server_configs c)"

lemma start_server_configs:
  assumes "start_config E home here files = Some c"
  shows "server_configs c = (case files home sc_filename of None \<Rightarrow> [] | Some _ \<Rightarrow> [get_default_server_config E])"
    "server_config c = (case files home sc_filename of None \<Rightarrow> ServerConfig_default E | Some _ \<Rightarrow> get_default_server_config E)"
    "distinct (map us_name (configs c))"
proof -
  let ?c = "\<lparr>server_config = ServerConfig_default E, user_config = UserSettings_default E,
       configs = [], server_configs = [], log_dir = here, config_dir = home, server_config_dir = home\<rparr>"
  let ?u = "read_user_config E (files home uc_filename) ?c"
  have user: "server_configs ?u = []" "server_config ?u = ServerConfig_default E"
    by (simp_all add: read_user_config_def Let_def split: option.split json.split)
  have read: "distinct (map us_name (fold (\<lambda>v cs. case UserSettings_from_json E v of
      Some s \<Rightarrow> insert_named us_name s cs | None \<Rightarrow> cs) vals cs))" if "distinct (map us_name cs)" for vals cs
    using that by (induction vals arbitrary: cs) (simp_all add: insert_named_facts(2) split: option.split)
  have names: "distinct (map us_name (configs ?u))"
    using read [of "[]"] by (simp add: read_user_config_def Let_def insert_named_facts(2) split: option.split json.split)
  have invalid: "\<not> server_config_valid (ServerConfig_default E)"
    by (simp add: server_config_valid_def ServerConfig_default_def ServerSettings_default_def)
  have result: "case files home sc_filename of
      None \<Rightarrow> c = ?u
    | Some v \<Rightarrow> c = ?u\<lparr>server_config := get_default_server_config E, server_configs := [get_default_server_config E]\<rparr>"
  proof (cases "files home sc_filename")
    case None
    with assms show ?thesis by (simp add: start_config_def read_server_config_def Let_def)
  next
    case (Some v)
    have "Some c = Some (?u\<lparr>server_config := get_default_server_config E, server_configs := [get_default_server_config E]\<rparr>)"
      using assms Some user invalid
      by (auto simp: start_config_def read_server_config_def Let_def read_server_object_def get_server_config_def
          find_named_def insert_named_def contains_name_def as_array_def split: json.split_asm option.split_asm Option.bind_split_asm)
    with Some show ?thesis by simp
  qed
  then show "server_configs c = (case files home sc_filename of None \<Rightarrow> [] | Some _ \<Rightarrow> [get_default_server_config E])"
    "server_config c = (case files home sc_filename of None \<Rightarrow> ServerConfig_default E | Some _ \<Rightarrow> get_default_server_config E)"
    "distinct (map us_name (configs c))"
    using user names by (cases "files home sc_filename"; simp)+
qed

lemma find_named_keeps_config:
  "config_inv (c\<lparr>server_config := s\<rparr>) = config_inv c" "config_inv (c\<lparr>user_config := u\<rparr>) = config_inv c"
  "config_inv (c\<lparr>log_dir := p\<rparr>) = config_inv c" "config_inv (c\<lparr>config_dir := p\<rparr>) = config_inv c"
  "config_inv (c\<lparr>server_config_dir := p\<rparr>) = config_inv c"
  by (simp_all add: config_inv_def)

lemma add_keeps_config:
  "config_inv c \<Longrightarrow> config_inv (fst (snd (add_user_config E S u (c, files))))"
  "config_inv c \<Longrightarrow> config_inv (snd (add_server_config s c))"
  by (simp_all add: add_user_config_def add_server_config_def config_inv_def insert_named_facts contains_name_def Let_def)

lemma remove_keeps_config:
  "config_inv c \<Longrightarrow> config_inv (snd (remove_user_config n c))"
  "config_inv c \<Longrightarrow> remove_server_config n c = Some (b, c') \<Longrightarrow> config_inv c'"
  by (auto simp: remove_user_config_def remove_server_config_def config_inv_def erase_named_facts contains_name_def
      Let_def split: if_splits Option.bind_split_asm)

lemma set_keeps_config:
  "config_inv (snd (set_server_config n c)) = config_inv c" "config_inv (snd (set_user_config n c)) = config_inv c"
  "config_inv (snd (set_log_directory exists created p c)) = config_inv c"
  "config_inv (snd (set_config_directory S p c)) = config_inv c"
  "config_inv (snd (set_server_config_directory S p c)) = config_inv c"
  by (simp_all add: set_server_config_def set_user_config_def set_log_directory_def set_config_directory_def
      set_server_config_directory_def find_named_keeps_config split: option.split)

lemma config_step_inv:
  assumes "config_step E S x y" "config_inv (fst x)"
  shows "config_inv (fst y)"
  using assms
proof cases
  case (add_user s b)
  with assms(2) add_keeps_config(1) [of "fst x" E S s "snd x"] show ?thesis by simp
next
  case (add_server s c b c' files)
  with assms(2) add_keeps_config(2) [of c s] show ?thesis by simp
next
  case (remove_server n c b c' files)
  with assms(2) remove_keeps_config(2) [of c n b c'] show ?thesis by simp
next
  case (remove_user n c b c' files)
  with assms(2) remove_keeps_config(1) [of c n] show ?thesis by simp
next
  case (setup_user s c b c' files)
  with assms(2) setup_changes_nothing(1) [of s c] show ?thesis by simp
next
  case (setup_server s c b c' files)
  with assms(2) setup_changes_nothing(2) [of s c] show ?thesis by simp
next
  case (set_server n c b c' files)
  with assms(2) set_keeps_config(1) [of n c] show ?thesis by simp
next
  case (set_user n c b c' files)
  with assms(2) set_keeps_config(2) [of n c] show ?thesis by simp
next
  case (set_log exists created p c e c' files)
  with assms(2) set_keeps_config(3) [of exists created p c] show ?thesis by simp
next
  case (set_dir p c e c' files)
  with assms(2) set_keeps_config(4) [of S p c] show ?thesis by simp
next
  case (set_server_dir p c e c' files)
  with assms(2) set_keeps_config(5) [of S p c] show ?thesis by simp
qed simp

lemma config_steps_inv:
  assumes "(config_step E S)\<^sup>*\<^sup>* x y" "config_inv (fst x)"
  shows "config_inv (fst y)"
  using assms by (induction rule: rtranclp_induct) (auto dest: config_step_inv)

lemma remove_defined: "config_inv c \<Longrightarrow> remove_server_config n c \<noteq> None"
  using find_named_None [of sc_name "''default''" "erase_named sc_name n (server_configs c)"]
  by (auto simp: remove_server_config_def config_inv_def Let_def contains_name_def erase_named_facts)

text \<open>Without a file at the start there is no default: a configuration that was added cannot be removed.\<close>

lemma first_start_removal:
  assumes "start_config E home here files = Some c" "files home sc_filename = None" "sc_name s \<noteq> ''default''"
  shows "remove_server_config (sc_name s) (snd (add_server_config s c)) = None"
  using start_server_configs(1) [OF assms(1)] assms(2,3)
  by (simp add: add_server_config_def contains_name_def insert_named_def remove_server_config_def erase_named_def
      find_named_def)

section \<open>Properties of the configuration\<close>

text \<open>
  C33: whatever the commands were, names stay unique and the default configuration of the server stays, so that
  removing is always defined, if the program started with a file for the server.
\<close>

theorem config_reachable:
  assumes "start_config E home here files = Some c" "files home sc_filename \<noteq> None"
    "(config_step E S)\<^sup>*\<^sup>* (c, files) (c', files')"
  shows "distinct (map us_name (configs c')) \<and> distinct (map sc_name (server_configs c')) \<and>
    contains_name sc_name ''default'' (server_configs c') \<and> (\<forall>n. remove_server_config n c' \<noteq> None)"
proof -
  have "config_inv c"
    using start_server_configs(1,3) [OF assms(1)] assms(2)
    by (auto simp: config_inv_def contains_name_def get_default_server_config_def)
  with config_steps_inv [OF assms(3)] have "config_inv c'" by simp
  with remove_defined show ?thesis unfolding config_inv_def by blast
qed

lemma saved_users_are_objects:
  "\<forall>j\<in>snd ` set (fold (\<lambda>s obj. json_put (us_name s) (UserSettings_to_json E s) obj) cs obj). \<exists>o'. j = JObj o'"
  if "\<forall>j\<in>snd ` set obj. \<exists>o'. j = JObj o'"
  using that
proof (induction cs arbitrary: obj)
  case (Cons s cs)
  have "\<forall>j\<in>snd ` set (json_put (us_name s) (UserSettings_to_json E s) obj). \<exists>o'. j = JObj o'"
    using Cons.prems by (auto simp: json_put_def UserSettings_to_json_def)
  from Cons.IH [OF this] show ?case by simp
qed simp

lemma map_of_reparse: "map_of (map (map_prod id reparse) obj) k = map_option reparse (map_of obj k)"
  by (induction obj) auto

text \<open>
  C34: saving and starting again loses every configuration: nothing of what was saved is read, and the program
  starts with the two default configurations only.
\<close>

theorem config_restart:
  fixes c :: "('t, 'p) Config"
  assumes "directory_accessible S (config_dir c)" "file_opens S (config_dir c) uc_filename"
    "file_opens S (config_dir c) sc_filename" "server_config_dir c = config_dir c"
  shows "\<exists>c'. start_config E (config_dir c) here (save_config E S c files) = Some c' \<and>
    configs c' = [user_default_config E] \<and> user_config c' = user_default_config E \<and>
    server_configs c' = [get_default_server_config E] \<and> server_config c' = get_default_server_config E"
proof -
  let ?home = "config_dir c" and ?files = "save_config E S c files"
  let ?users = "fold (\<lambda>s obj. json_put (us_name s) (UserSettings_to_json E s) obj) (configs c) []"
  have names: "uc_filename \<noteq> sc_filename" by (simp add: uc_filename_def sc_filename_def)
  have user: "?files ?home uc_filename = Some (JObj (map (map_prod id reparse) ?users))"
    and server: "?files ?home sc_filename = Some (JObj [(''last'', JStr (sc_name (server_config c))),
      (''configs'', JArr (map (reparse \<circ> ServerConfig_to_json) (server_configs c)))])"
    using assms names by (simp_all add: save_config_def write_user_config_def write_server_config_def put_config_file_def)
  have entry: "\<exists>obj. map_of (map (map_prod id reparse) ?users) k = Some (JObj obj)"
    if "map_of (map (map_prod id reparse) ?users) k \<noteq> None" for k
  proof -
    from that obtain j where j: "map_of ?users k = Some j" by (auto simp: map_of_reparse)
    then have "j \<in> snd ` set ?users" by (force dest: map_of_SomeD)
    with saved_users_are_objects [of "[]"] obtain obj where "j = JObj obj" by fastforce
    with j show ?thesis by (simp add: map_of_reparse)
  qed
  have last: "(case map_of (map (map_prod id reparse) ?users) ''last'' of Some (JStr s) \<Rightarrow> s | _ \<Rightarrow> '''') = ''''"
    using entry [of "''last''"] by (auto split: option.split json.split)
  have read: "read_user_config E (?files (config_dir c) uc_filename) c0 =
      c0\<lparr>configs := [user_default_config E], user_config := user_default_config E\<rparr>"
    if "configs c0 = []" for c0 :: "('t, 'p) Config"
  proof -
    have "(case map_of (map (map_prod id reparse) ?users) ''configs'' of Some (JArr vals) \<Rightarrow>
        fold (\<lambda>v cs. case UserSettings_from_json E v of Some s \<Rightarrow> insert_named us_name s cs | None \<Rightarrow> cs) vals (configs c0)
      | _ \<Rightarrow> configs c0) = []"
      using entry [of "''configs''"] that by (auto split: option.split json.split)
    with last show ?thesis
      by (simp add: read_user_config_def user Let_def insert_named_def contains_name_def find_named_def)
        (simp add: user_default_config_def)
  qed
  have "\<exists>c'. start_config E ?home here ?files = Some c' \<and> configs c' = [user_default_config E] \<and>
      user_config c' = user_default_config E"
    by (simp add: start_config_def Let_def read_server_config_def server read_server_object_def as_string_def read)
  then obtain c' where c': "start_config E ?home here ?files = Some c'" "configs c' = [user_default_config E]"
    "user_config c' = user_default_config E" by blast
  have "server_configs c' = [get_default_server_config E]" "server_config c' = get_default_server_config E"
    by (simp_all add: start_server_configs(1,2) [OF c'(1)] server)
  with c' show ?thesis by blast
qed

text \<open>An environment whose period is a number, and a file system where everything can be written.\<close>

definition example_config_env :: "nat config_env" where
  "example_config_env = \<lparr>period_to_json = JNum, period_from_json = as_uint64, no_period = 0, seven_days = 7,
     tcp_number = 6, any_port = 0\<rparr>"

definition example_config_fs :: "nat config_fs" where
  "example_config_fs = \<lparr>directory_accessible = (\<lambda>p. True), file_opens = (\<lambda>p f. True)\<rparr>"

text \<open>A program that was started, and has a second configuration of the server.\<close>

definition example_files :: "nat config_files" where
  "example_files p f = Some (JObj [])"

definition example_server :: ServerConfig where
  "example_server = (get_default_server_config example_config_env)\<lparr>sc_name := ''second''\<rparr>"

lemma example_start:
  "\<exists>c. start_config example_config_env 0 1 example_files = Some (c :: (nat, nat) Config) \<and> config_dir c = 0 \<and>
     server_config_dir c = 0 \<and> server_configs c = [get_default_server_config example_config_env]"
  by (simp add: start_config_def Let_def read_server_config_def read_user_config_def read_server_object_def
      example_files_def insert_named_def contains_name_def server_config_valid_def ServerConfig_default_def
      ServerSettings_default_def)

theorem config_reachable_witness:
  "\<exists>c :: (nat, nat) Config. contains_name sc_name ''default'' (server_configs c) \<and>
     contains_name sc_name ''second'' (server_configs c) \<and> remove_server_config ''second'' c \<noteq> None"
proof -
  obtain c :: "(nat, nat) Config" where c: "start_config example_config_env 0 1 example_files = Some c"
    "server_configs c = [get_default_server_config example_config_env]" using example_start by blast
  obtain b c' where add: "add_server_config example_server c = (b, c')" by (cases "add_server_config example_server c")
  have "config_step example_config_env example_config_fs (c, example_files) (c', example_files)"
    using add by (rule config_step.add_server)
  then have run: "(config_step example_config_env example_config_fs)\<^sup>*\<^sup>* (c, example_files) (c', example_files)" by simp
  have present: "example_files 0 sc_filename \<noteq> None" by (simp add: example_files_def)
  have "contains_name sc_name ''second'' (server_configs c')"
    using add by (auto simp: add_server_config_def c(2) contains_name_def insert_named_def example_server_def get_default_server_config_def
        split: if_splits)
  with config_reachable [OF c(1) present run] show ?thesis by blast
qed

theorem config_restart_witness:
  "\<exists>(c :: (nat, nat) Config) c'. server_configs c = [example_server] \<and>
     start_config example_config_env 0 1 (save_config example_config_env example_config_fs c example_files) = Some c' \<and>
     server_configs c' = [get_default_server_config example_config_env]"
proof -
  let ?c = "\<lparr>server_config = example_server, user_config = user_default_config example_config_env,
    configs = [], server_configs = [example_server], log_dir = 1, config_dir = 0, server_config_dir = 0\<rparr> :: (nat, nat) Config"
  have "directory_accessible example_config_fs (config_dir ?c)" "file_opens example_config_fs (config_dir ?c) uc_filename"
    "file_opens example_config_fs (config_dir ?c) sc_filename" "server_config_dir ?c = config_dir ?c"
    by (simp_all add: example_config_fs_def)
  from config_restart [OF this, of example_config_env 1 example_files]
  obtain c' :: "(nat, nat) Config" where "start_config example_config_env (config_dir ?c) 1
      (save_config example_config_env example_config_fs ?c example_files) = Some c'"
    "server_configs c' = [get_default_server_config example_config_env]" by blast
  then show ?thesis by (intro exI [of _ ?c] exI [of _ c']) simp
qed

end
