(* ===== verification/Storage.thy ===== *)
theory Storage
  imports Settings "HOL-Library.AList"
begin

text \<open>
  Keeping the index between runs: \<^verbatim>\<open>Data\<close> (\<^verbatim>\<open>include/program/data.h\<close>, \<^verbatim>\<open>src/program/data.cpp\<close>) with the file
  it writes and reads, and \<^verbatim>\<open>Mashroom\<close> (\<^verbatim>\<open>include/program/mashroom.h\<close>, \<^verbatim>\<open>src/program/mashroom.cpp\<close>) with the
  list of these files.
\<close>

section \<open>Paths and the file system\<close>

text \<open>\<^verbatim>\<open>std::filesystem::path\<close> on POSIX systems; the right operand of \<open>path_slash\<close> is relative.\<close>

definition path_slash :: "string \<Rightarrow> string \<Rightarrow> string" where
  "path_slash p q = (if p = '''' \<or> last p = CHR ''/'' then p @ q else p @ CHR ''/'' # q)"

definition path_filename :: "string \<Rightarrow> string" where
  "path_filename p = rev (takeWhile (\<lambda>c. c \<noteq> CHR ''/'') (rev p))"

definition path_extension :: "string \<Rightarrow> string" where
  "path_extension p =
     (let f = path_filename p; e = rev (takeWhile (\<lambda>c. c \<noteq> CHR ''.'') (rev f)) in
      if f = ''.'' \<or> f = ''..'' \<or> CHR ''.'' \<notin> set f \<or> length f = Suc (length e) then ''''
      else CHR ''.'' # e)"

text \<open>
  What is at a path: \<open>'d\<close> is the type of the index.  The answers of the system: whether a missing directory
  can be created, whether a file opens (at the first and at the second try), and whether everything could be
  written to it.  OsterLib's reading of an index from a file is \<open>load\<close>.
\<close>

datatype 'd node = Directory | Empty_file | Data_file 'd | List_file json

type_synonym 'd disk = "string \<Rightarrow> 'd node option"

record 'd storage_env =
  creates :: "string \<Rightarrow> bool"
  opens :: "string \<Rightarrow> bool"
  opens_again :: "string \<Rightarrow> bool"
  serializes :: "string \<Rightarrow> bool"
  fresh_index :: 'd
  load :: "'d node \<Rightarrow> 'd \<Rightarrow> 'd"

text \<open>
  \<^verbatim>\<open>create_directories\<close> says whether it made a directory and throws when it cannot, also for a path that is a
  file: \<^term>\<open>None\<close>, as for every exception that ends the program and for \<^verbatim>\<open>AT_ERROR_ACTION::ABORT\<close>, which
  exits.
\<close>

definition create_directories :: "'d storage_env \<Rightarrow> string \<Rightarrow> 'd disk \<Rightarrow> (bool \<times> 'd disk) option" where
  "create_directories E dir disk = (case disk dir of
       Some Directory \<Rightarrow> Some (False, disk)
     | Some _ \<Rightarrow> None
     | None \<Rightarrow> if creates E dir then Some (True, disk(dir \<mapsto> Directory)) else None)"

text \<open>Opening for writing fails on a directory.\<close>

definition writable :: "'d storage_env \<Rightarrow> string \<Rightarrow> 'd disk \<Rightarrow> bool" where
  "writable E f disk \<longleftrightarrow> opens E f \<and> disk f \<noteq> Some Directory"

section \<open>Data\<close>

record 'd Data =
  data_struct :: "'d option"
  unsaved :: "Data_f set"
  written_files :: "(Data_f \<times> string) list"
  data_directory :: string

definition make_Data :: "string \<Rightarrow> 'd Data" where
  "make_Data dir = \<lparr>data_struct = None, unsaved = {}, written_files = [], data_directory = dir\<rparr>"

text \<open>\<^verbatim>\<open>data_struct\<close> makes an empty index if there is none.\<close>

definition with_struct :: "'d storage_env \<Rightarrow> 'd Data \<Rightarrow> 'd \<times> 'd Data" where
  "with_struct E d = (case data_struct d of
       Some s \<Rightarrow> (s, d) | None \<Rightarrow> (fresh_index E, d\<lparr>data_struct := Some (fresh_index E)\<rparr>))"

text \<open>Adding to the index, by \<open>merge\<close>.\<close>

definition Data_add_data :: "'d storage_env \<Rightarrow> ('d \<Rightarrow> 'd) \<Rightarrow> Data_f \<Rightarrow> 'd Data \<Rightarrow> 'd Data" where
  "Data_add_data E merge F d = (case with_struct E d of
     (s, d) \<Rightarrow> d\<lparr>data_struct := Some (merge s), unsaved := insert F (unsaved d)\<rparr>)"

definition Data_read_grib :: "'d storage_env \<Rightarrow> string \<Rightarrow> 'd disk \<Rightarrow> 'd Data \<Rightarrow> (ErrorCode \<times> 'd Data) option" where
  "Data_read_grib E f disk d =
     (if \<not> opens E f then None
      else case with_struct E d of (s, d) \<Rightarrow>
        Some (EC_NONE, d\<lparr>data_struct := Some (case disk f of Some n \<Rightarrow> load E n s | None \<Rightarrow> s)\<rparr>))"

definition Data_write_grib ::
    "'d storage_env \<Rightarrow> string \<Rightarrow> 'd disk \<Rightarrow> 'd Data \<Rightarrow> (ErrorCode \<times> 'd disk \<times> 'd Data) option" where
  "Data_write_grib E dir disk d = do {
     (created, disk) \<leftarrow> create_directories E dir disk;
     if \<not> created \<and> disk dir \<noteq> Some Directory then None
     else do {
       name \<leftarrow> filename_by_format GRIB_v1;
       let f = path_slash dir name;
       let (s, d) = with_struct E d;
       let open_ok = writable E f disk;
       let disk = (if open_ok then disk(f \<mapsto> (if serializes E f then Data_file s else Empty_file)) else disk);
       Some (if open_ok \<and> serializes E f
         then (EC_NONE, disk, d\<lparr>written_files := AList.update GRIB_v1 f (written_files d)\<rparr>)
         else (EC_SERIALIZATION_ERROR, disk, d))}}"

definition Data_read :: "'d storage_env \<Rightarrow> string \<Rightarrow> 'd disk \<Rightarrow> 'd Data \<Rightarrow> (ErrorCode \<times> 'd Data) option" where
  "Data_read E f disk d =
     (if disk f \<noteq> None then (case utility_token (path_extension f) of
          None \<Rightarrow> Some (EC_UNKNOWN_X1_FORMAT_FILE, d)
        | Some GRIB_v1 \<Rightarrow> Data_read_grib E f disk d)
      else Some (EC_FILE_X1_DONT_EXISTS, d))"

text \<open>\<^verbatim>\<open>write\<close> opens the path as a file and then gives it to \<^verbatim>\<open>__write__\<close>, which takes a directory.\<close>

primrec write_formats ::
    "'d storage_env \<Rightarrow> string \<Rightarrow> Data_f list \<Rightarrow> 'd disk \<Rightarrow> 'd Data \<Rightarrow> (ErrorCode \<times> 'd disk \<times> 'd Data) option" where
  "write_formats E f [] disk d = Some (EC_NONE, disk, d)"
| "write_formats E f (fmt # fmts) disk d = (case fmt of GRIB_v1 \<Rightarrow> do {
     (e, disk, d) \<leftarrow> Data_write_grib E f disk d;
     Some (EC_NONE, disk, d\<lparr>unsaved := unsaved d - {fmt}\<rparr>)})"

definition path_parent :: "string \<Rightarrow> string" where
  "path_parent p = (let d = rev (dropWhile (\<lambda>c. c \<noteq> CHR ''/'') (rev p)) in
     if d = ''/'' then d else butlast d)"

definition Data_write :: "'d storage_env \<Rightarrow> string \<Rightarrow> 'd disk \<Rightarrow> 'd Data \<Rightarrow> (ErrorCode \<times> 'd disk \<times> 'd Data) option" where
  "Data_write E f disk d =
     (if path_extension f = '''' then Some (EC_UNKNOWN_X1_FORMAT_FILE, disk, d)
      else case extension_to_tokens (path_extension f) of
        None \<Rightarrow> Some (EC_UNKNOWN_X1_FORMAT_FILE, disk, d)
      | Some fmts \<Rightarrow> do {
          (ok, disk) \<leftarrow> (if disk f = None \<and> disk (path_parent f) = None
            then create_directories E (path_parent f) disk else Some (True, disk));
          if \<not> ok then Some (EC_CREATE_DIR_X1_DENIED, disk, d)
          else if \<not> writable E f disk then Some (EC_CANNOT_OPEN_FILE_X1, disk, d)
          else write_formats E f fmts (disk(f \<mapsto> Empty_file)) d})"

text \<open>\<^verbatim>\<open>save\<close> forgets that a format is unsaved, whether or not it could be written.\<close>

definition Data_write_all ::
    "'d storage_env \<Rightarrow> Data_f \<Rightarrow> 'd disk \<Rightarrow> 'd Data \<Rightarrow> ('d disk \<times> 'd Data) option" where
  "Data_write_all E F disk d =
     (if (0 :: nat) < number_of_types then
        if F \<in> unsaved d then do {
          (e, disk, d) \<leftarrow> Data_write_grib E (data_directory d) disk d;
          Some (disk, d\<lparr>unsaved := unsaved d - {F}\<rparr>)}
        else Some (disk, d)
      else None)"

definition Data_save :: "'d storage_env \<Rightarrow> 'd disk \<Rightarrow> 'd Data \<Rightarrow> ('d disk \<times> 'd Data) option" where
  "Data_save E disk d = Data_write_all E GRIB_v1 disk d"

section \<open>Mashroom\<close>

record 'd Mashroom =
  mashroom_data :: "'d Data"
  data_files :: "string set"
  data_dir :: string

definition mashroom_data_info :: string where "mashroom_data_info = ''mashroom_data.json''"

definition list_filename :: "string \<Rightarrow> string" where
  "list_filename dir = path_slash dir mashroom_data_info"

text \<open>
  The entries of the list.  The format of an unknown name is an uninitialised variable, which the loop over
  the files reads.
\<close>

primrec listed_files :: "(string \<times> json) list \<Rightarrow> string list option" where
  "listed_files [] = Some []"
| "listed_files (e # es) = (case snd e of
     JArr vals \<Rightarrow>
       if vals \<noteq> [] \<and> to_data_format_token (fst e) = None then None
       else map_option (\<lambda>fs. List.map_filter as_string vals @ fs) (listed_files es)
   | _ \<Rightarrow> listed_files es)"

primrec read_files :: "'d storage_env \<Rightarrow> string list \<Rightarrow> 'd disk \<Rightarrow> 'd Data \<Rightarrow> 'd Data option" where
  "read_files E [] disk d = Some d"
| "read_files E (f # fs) disk d = do {
     (e, d) \<leftarrow> Data_read E f disk d;
     read_files E fs disk d}"

text \<open>An empty list is no complete JSON text and ends the reading without an error.\<close>

definition read_initial_data_file ::
    "'d storage_env \<Rightarrow> 'd disk \<Rightarrow> 'd Mashroom \<Rightarrow> ('d disk \<times> 'd Mashroom) option" where
  "read_initial_data_file E disk m = (let f = list_filename (data_dir m) in
     case disk f of
       None \<Rightarrow> Some (if writable E f disk then disk(f \<mapsto> Empty_file) else disk, m)
     | Some n \<Rightarrow> if \<not> opens E f then None
         else case n of
           Empty_file \<Rightarrow> Some (disk, m)
         | List_file content \<Rightarrow> do {
             fs \<leftarrow> (case content of JObj obj \<Rightarrow> listed_files obj | _ \<Rightarrow> Some []);
             d \<leftarrow> read_files E (remdups fs) disk (mashroom_data m);
             Some (disk, m\<lparr>data_files := data_files m \<union> set fs, mashroom_data := d\<rparr>)}
         | _ \<Rightarrow> None)"

definition write_initial_data_file :: "'d storage_env \<Rightarrow> 'd disk \<Rightarrow> 'd Mashroom \<Rightarrow> 'd disk option" where
  "write_initial_data_file E disk m = (let f = list_filename (data_dir m) in do {
     entries \<leftarrow> those (map (\<lambda>(fmt, file). map_option (\<lambda>name. (name, JArr [JStr file])) (to_data_format_name fmt))
       (written_files (mashroom_data m)));
     if writable E f disk \<or> disk f = None \<and> opens_again E f
     then Some (disk(f \<mapsto> List_file (JObj entries))) else None})"

definition start_mashroom :: "'d storage_env \<Rightarrow> string \<Rightarrow> 'd disk \<Rightarrow> ('d disk \<times> 'd Mashroom) option" where
  "start_mashroom E cwd disk = (let dir = path_slash cwd ''data'' in do {
     (ok, disk) \<leftarrow> (if disk dir = None then create_directories E dir disk else Some (True, disk));
     if \<not> ok then None
     else read_initial_data_file E disk \<lparr>mashroom_data = make_Data (path_slash dir ''bin''), data_files = {},
       data_dir = dir\<rparr>})"

text \<open>\<^verbatim>\<open>boost::iequals\<close> on ASCII.\<close>

definition lower :: "char \<Rightarrow> char" where
  "lower c = (if (65 :: nat) \<le> of_char c \<and> (of_char c :: nat) \<le> 90 then char_of (of_char c + 32 :: nat) else c)"

definition iequals :: "string \<Rightarrow> string \<Rightarrow> bool" where
  "iequals a b \<longleftrightarrow> map lower a = map lower b"

definition save_mashroom ::
    "'d storage_env \<Rightarrow> string \<Rightarrow> 'd disk \<Rightarrow> 'd Mashroom \<Rightarrow> (bool \<times> 'd disk \<times> 'd Mashroom) option" where
  "save_mashroom E answer disk m =
     (if unsaved (mashroom_data m) \<noteq> {} then
        if iequals answer ''yes'' then do {
          (disk, d) \<leftarrow> Data_save E disk (mashroom_data m);
          let m = m\<lparr>mashroom_data := d\<rparr>;
          disk \<leftarrow> write_initial_data_file E disk m;
          Some (True, disk, m)}
        else if iequals answer ''no'' then Some (False, disk, m)
        else Some (True, disk, m)
      else Some (False, disk, m))"

text \<open>The end of the program: the destructor of \<^verbatim>\<open>Mashroom\<close> asks, then the one of its \<^verbatim>\<open>Data\<close> saves.\<close>

definition end_mashroom :: "'d storage_env \<Rightarrow> string \<Rightarrow> 'd disk \<Rightarrow> 'd Mashroom \<Rightarrow> 'd disk option" where
  "end_mashroom E answer disk m = do {
     (r, disk, m) \<leftarrow> save_mashroom E answer disk m;
     (disk, d) \<leftarrow> Data_save E disk (mashroom_data m);
     Some disk}"

section \<open>Facts\<close>

lemma path_filename_slash: "CHR ''/'' \<notin> set n \<Longrightarrow> path_filename (path_slash d n) = n"
proof -
  assume n: "CHR ''/'' \<notin> set n"
  have whole: "takeWhile (\<lambda>c. c \<noteq> CHR ''/'') (rev n @ rev d) = rev n @ takeWhile (\<lambda>c. c \<noteq> CHR ''/'') (rev d)" for d
    using n by (intro takeWhile_append2) auto
  show ?thesis
  proof (cases "d = '''' \<or> last d = CHR ''/''")
    case True
    then have "takeWhile (\<lambda>c. c \<noteq> CHR ''/'') (rev d) = []" by (cases d rule: rev_cases) simp_all
    with whole [of d] True show ?thesis by (simp add: path_filename_def path_slash_def del: takeWhile_eq_Nil_iff)
  next
    case False
    with whole [of "d @ ''/''"] show ?thesis by (simp add: path_filename_def path_slash_def)
  qed
qed

lemma saved_name: "filename_by_format GRIB_v1 = Some ''data.grib1''"
  by (simp add: filename_by_format_def preferred_extension_def token_to_extensions_def extension_token_def
      bindata_filename_def)

lemma saved_extension: "path_extension (path_slash d ''data.grib1'') = ''.grib1''"
  by (simp add: path_extension_def path_filename_slash Let_def)

lemma saved_not_read: "utility_token ''.grib1'' = None"
  by code_simp

text \<open>A file that was opened for writing is no directory: writing under a given name ends the program.\<close>

lemma write_needs_directory: "disk f = Some Empty_file \<Longrightarrow> Data_write_grib E f disk d = None"
  by (simp add: Data_write_grib_def create_directories_def)

lemma tokens_nonempty: "extension_to_tokens ext = Some fmts \<Longrightarrow> fmts = [GRIB_v1]"
  by (auto simp: extension_to_tokens_def extension_name_def extension_token_def push_back_def split: if_splits)

lemma Data_write_fails:
  assumes "Data_write E f disk d = Some (e, disk', d')"
  shows "e \<noteq> EC_NONE" "d' = d"
proof -
  have "write_formats E f [GRIB_v1] (disk'(f \<mapsto> Empty_file)) d = None" for disk' :: "'a disk"
    by (simp add: write_needs_directory)
  with assms show "e \<noteq> EC_NONE" "d' = d"
    by (auto simp: Data_write_def dest: tokens_nonempty split: if_splits option.split_asm Option.bind_split_asm)
qed

lemma path_slash_inject: "path_slash d a = path_slash d b \<longleftrightarrow> a = b"
  by (simp add: path_slash_def)

lemma path_filename_differs:
  "CHR ''/'' \<notin> set a \<Longrightarrow> CHR ''/'' \<notin> set b \<Longrightarrow> a \<noteq> b \<Longrightarrow> path_slash d a \<noteq> path_slash d' b"
  by (metis path_filename_slash)

lemma update_written: "distinct (map fst wf) \<Longrightarrow> AList.update GRIB_v1 f wf = [(GRIB_v1, f)]"
  for wf :: "(Data_f \<times> string) list"
proof (cases wf)
  case (Cons a wf')
  moreover assume "distinct (map fst wf)"
  moreover have "fst x = GRIB_v1" for x :: "Data_f \<times> string" by (cases "fst x")
  ultimately have "wf' = []" by (cases wf') simp_all
  with Cons show ?thesis by (cases a; cases "fst a") simp
qed simp

text \<open>Everything can be created, opened and written.\<close>

definition storage_ok :: "'d storage_env \<Rightarrow> bool" where
  "storage_ok E \<longleftrightarrow> (\<forall>p. creates E p \<and> opens E p \<and> serializes E p)"

text \<open>Where the index is written.\<close>

definition saved_index_file :: "string \<Rightarrow> string" where
  "saved_index_file dir = path_slash (path_slash dir ''bin'') ''data.grib1''"

text \<open>A state in which the program runs, with an index that was not saved.\<close>

definition unsaved_index :: "string \<Rightarrow> 'd disk \<Rightarrow> 'd Mashroom \<Rightarrow> 'd \<Rightarrow> bool" where
  "unsaved_index cwd disk m s \<longleftrightarrow>
     data_dir m = path_slash cwd ''data'' \<and> data_directory (mashroom_data m) = path_slash (data_dir m) ''bin'' \<and>
     disk (data_dir m) = Some Directory \<and> disk (list_filename (data_dir m)) \<noteq> Some Directory \<and>
     (disk (path_slash (data_dir m) ''bin'') = None \<or> disk (path_slash (data_dir m) ''bin'') = Some Directory) \<and>
     disk (saved_index_file (data_dir m)) \<noteq> Some Directory \<and>
     data_struct (mashroom_data m) = Some s \<and> GRIB_v1 \<in> unsaved (mashroom_data m) \<and>
     distinct (map fst (written_files (mashroom_data m)))"

lemma names_differ:
  "saved_index_file d \<noteq> list_filename d" "path_slash d ''bin'' \<noteq> list_filename d" "saved_index_file d \<noteq> path_slash d ''bin''"
  "d = path_slash c ''data'' \<Longrightarrow> list_filename d \<noteq> d" "d = path_slash c ''data'' \<Longrightarrow> saved_index_file d \<noteq> d"
  "d = path_slash c ''data'' \<Longrightarrow> path_slash d ''bin'' \<noteq> d"
  by (simp_all add: saved_index_file_def list_filename_def mashroom_data_info_def path_filename_differs)

lemma Data_save_unsaved:
  assumes ok: "storage_ok E" and unsaved_index: "unsaved_index cwd disk m s"
  shows "\<exists>disk' d. Data_save E disk (mashroom_data m) = Some (disk', d) \<and>
    disk' (saved_index_file (data_dir m)) = Some (Data_file s) \<and> disk' (data_dir m) = Some Directory \<and>
    disk' (list_filename (data_dir m)) = disk (list_filename (data_dir m)) \<and>
    written_files d = [(GRIB_v1, saved_index_file (data_dir m))] \<and> unsaved d = {}"
proof -
  let ?bin = "path_slash (data_dir m) ''bin''" and ?f = "saved_index_file (data_dir m)"
  have state: "data_dir m = path_slash cwd ''data''" "data_directory (mashroom_data m) = ?bin"
    "disk ?bin = None \<or> disk ?bin = Some Directory" "disk ?f \<noteq> Some Directory" "disk (data_dir m) = Some Directory"
    "data_struct (mashroom_data m) = Some s" "GRIB_v1 \<in> unsaved (mashroom_data m)"
    "distinct (map fst (written_files (mashroom_data m)))"
    using unsaved_index unfolding unsaved_index_def by blast+
  let ?d = "(mashroom_data m)\<lparr>written_files := [(GRIB_v1, ?f)]\<rparr>"
  have system: "creates E p" "opens E p" "serializes E p" for p using ok by (simp_all add: storage_ok_def)
  have f: "path_slash ?bin ''data.grib1'' = ?f" by (simp add: saved_index_file_def)
  have made: "\<exists>b disk1. create_directories E ?bin disk = Some (b, disk1) \<and> disk1 ?bin = Some Directory \<and>
      (\<forall>p. p \<noteq> ?bin \<longrightarrow> disk1 p = disk p)"
    using state(3) system(1) by (auto simp: create_directories_def)
  then obtain b disk1 where disk1: "create_directories E ?bin disk = Some (b, disk1)" "disk1 ?bin = Some Directory"
    "\<And>p. p \<noteq> ?bin \<Longrightarrow> disk1 p = disk p" by blast
  have "writable E ?f disk1"
    using state(4) disk1(3) [of ?f] names_differ(3) [of "data_dir m"] system(2) by (simp add: writable_def)
  then have written: "Data_write_grib E ?bin disk (mashroom_data m) = Some (EC_NONE, disk1(?f \<mapsto> Data_file s), ?d)"
    by (simp add: Data_write_grib_def disk1(1,2) saved_name f with_struct_def state(6) system(3)
        update_written [OF state(8)] Let_def)
  have "unsaved (mashroom_data m) - {GRIB_v1} = {}"
    by (metis (full_types) Data_f.exhaust Diff_eq_empty_iff insertI1 subsetI)
  with written have "Data_save E disk (mashroom_data m) = Some (disk1(?f \<mapsto> Data_file s), ?d\<lparr>unsaved := {}\<rparr>)"
    using state(2,7) by (simp add: Data_save_def Data_write_all_def number_of_types_def data_type_token_def)
  then show ?thesis
    using names_differ(1,2,3) [of "data_dir m"] names_differ(4,5,6) [OF state(1)] disk1(3) state(5) by simp
qed

section \<open>Properties\<close>

text \<open>
  C35: an index that is saved is not there after the next start: the list names the file, but its extension is not one
  that reading accepts, so the program runs with no data.
\<close>

theorem saved_index_not_read:
  assumes "storage_ok E" "unsaved_index cwd disk m s" "iequals answer ''yes''"
  shows "\<exists>disk1 m1 disk2 m2. save_mashroom E answer disk m = Some (True, disk1, m1) \<and>
    disk1 (saved_index_file (data_dir m)) = Some (Data_file s) \<and>
    start_mashroom E cwd disk1 = Some (disk2, m2) \<and> data_files m2 = {saved_index_file (data_dir m)} \<and>
    data_struct (mashroom_data m2) = None \<and>
    Data_read E (saved_index_file (data_dir m)) disk2 (mashroom_data m2) =
      Some (EC_UNKNOWN_X1_FORMAT_FILE, mashroom_data m2)"
proof -
  let ?f = "saved_index_file (data_dir m)" and ?l = "list_filename (data_dir m)"
  have dir: "data_dir m = path_slash cwd ''data''" and unsaved: "unsaved (mashroom_data m) \<noteq> {}"
    and list: "disk ?l \<noteq> Some Directory"
    using assms(2) by (auto simp: unsaved_index_def)
  from Data_save_unsaved [OF assms(1,2)] obtain disk' d where d: "Data_save E disk (mashroom_data m) = Some (disk', d)"
    "disk' ?f = Some (Data_file s)" "disk' (data_dir m) = Some Directory" "disk' ?l = disk ?l"
    "written_files d = [(GRIB_v1, ?f)]" "unsaved d = {}" by blast
  let ?m = "m\<lparr>mashroom_data := d\<rparr>"
  let ?disk = "disk'(?l \<mapsto> List_file (JObj [(''Grib1'', JArr [JStr ?f])]))"
  have opens: "opens E p" for p using assms(1) by (simp add: storage_ok_def)
  have "write_initial_data_file E disk' ?m = Some ?disk"
    using opens d(4,5) list
    by (simp add: write_initial_data_file_def writable_def to_data_format_name_def data_format_token_def Let_def)
  then have save: "save_mashroom E answer disk m = Some (True, ?disk, ?m)"
    using assms(3) unsaved d(1) by (simp add: save_mashroom_def)
  have kept: "?disk (data_dir m) = Some Directory" "?disk ?f = Some (Data_file s)"
    using d(2,3) names_differ(1) [of "data_dir m"] names_differ(4) [OF dir] by simp_all
  have unread: "Data_read E ?f ?disk x = Some (EC_UNKNOWN_X1_FORMAT_FILE, x)" for x
    unfolding saved_index_file_def
    using kept(2) by (simp add: Data_read_def saved_index_file_def saved_extension saved_not_read)
  let ?m2 = "\<lparr>mashroom_data = make_Data (path_slash (data_dir m) ''bin''), data_files = {?f}, data_dir = data_dir m\<rparr>"
  have "to_data_format_token ''Grib1'' \<noteq> None" by code_simp
  then have "listed_files [(''Grib1'', JArr [JStr ?f])] = Some [?f]"
    by (simp add: List.map_filter_def as_string_def)
  then have "start_mashroom E cwd ?disk = Some (?disk, ?m2)"
    using kept(1) opens
    by (simp add: start_mashroom_def dir [symmetric] read_initial_data_file_def unread Let_def)
  with save kept(2) unread show ?thesis
    by (intro exI [of _ ?disk] exI [of _ ?m] exI [of _ ?m2]) (simp add: make_Data_def)
qed

text \<open>
  Declining to save does not keep the file from being written: at the end of the program the index is saved all the
  same, but the list of files is not, so it is not found at the next start.
\<close>

theorem declined_save_writes:
  assumes "storage_ok E" "unsaved_index cwd disk m s" "iequals answer ''no''"
  shows "\<exists>disk'. end_mashroom E answer disk m = Some disk' \<and> disk' (saved_index_file (data_dir m)) = Some (Data_file s) \<and>
    disk' (list_filename (data_dir m)) = disk (list_filename (data_dir m))"
proof -
  have "\<not> iequals answer ''yes''"
    using assms(3) by (auto simp: iequals_def)
  moreover have "unsaved (mashroom_data m) \<noteq> {}" using assms(2) by (auto simp: unsaved_index_def)
  ultimately have "save_mashroom E answer disk m = Some (False, disk, m)"
    using assms(3) by (simp add: save_mashroom_def)
  with Data_save_unsaved [OF assms(1,2)] show ?thesis by (auto simp: end_mashroom_def)
qed

text \<open>A system where everything works, and a program that has indexed something.\<close>

definition example_storage :: "nat storage_env" where
  "example_storage = \<lparr>creates = (\<lambda>p. True), opens = (\<lambda>p. True), opens_again = (\<lambda>p. True), serializes = (\<lambda>p. True),
     fresh_index = 0, load = (\<lambda>n d. case n of Data_file s \<Rightarrow> s | _ \<Rightarrow> d)\<rparr>"

definition example_disk :: "nat disk" where
  "example_disk = [''/data'' \<mapsto> Directory]"

definition example_mashroom :: "nat Mashroom" where
  "example_mashroom = \<lparr>mashroom_data = Data_add_data example_storage Suc GRIB_v1 (make_Data ''/data/bin''),
     data_files = {}, data_dir = ''/data''\<rparr>"

lemma example_unsaved: "storage_ok example_storage" "unsaved_index ''/'' example_disk example_mashroom 1"
  by (simp_all add: storage_ok_def example_storage_def unsaved_index_def example_mashroom_def example_disk_def
      Data_add_data_def with_struct_def make_Data_def path_slash_def list_filename_def saved_index_file_def
      mashroom_data_info_def)

theorem saved_index_not_read_witness:
  "\<exists>disk1 m1 disk2 m2. save_mashroom example_storage ''Yes'' example_disk example_mashroom = Some (True, disk1, m1) \<and>
     disk1 ''/data/bin/data.grib1'' = Some (Data_file 1) \<and>
     start_mashroom example_storage ''/'' disk1 = Some (disk2, m2) \<and> data_struct (mashroom_data m2) = None"
proof -
  have yes: "iequals ''Yes'' ''yes''" by code_simp
  have "saved_index_file (data_dir example_mashroom) = ''/data/bin/data.grib1''"
    by (simp add: saved_index_file_def example_mashroom_def path_slash_def)
  with saved_index_not_read [OF example_unsaved yes] show ?thesis by metis
qed

theorem declined_save_writes_witness:
  "\<exists>disk'. end_mashroom example_storage ''no'' example_disk example_mashroom = Some disk' \<and>
     disk' ''/data/bin/data.grib1'' = Some (Data_file 1) \<and> disk' ''/data/mashroom_data.json'' = None"
proof -
  have no: "iequals ''no'' ''no''" by (simp add: iequals_def)
  have "saved_index_file (data_dir example_mashroom) = ''/data/bin/data.grib1''"
    "list_filename (data_dir example_mashroom) = ''/data/mashroom_data.json''"
    by (simp_all add: saved_index_file_def list_filename_def mashroom_data_info_def example_mashroom_def path_slash_def)
  with declined_save_writes [OF example_unsaved no] show ?thesis by (simp add: example_disk_def)
qed

end
