(* ===== verification/Process_Runs.thy ===== *)
theory Process_Runs
  imports Extracting Paths Storage
begin

text \<open>
  The processes that walk over paths: \<^verbatim>\<open>Index\<close> (\<^verbatim>\<open>src/proc/index.cpp\<close>) and \<^verbatim>\<open>Integrity\<close>
  (\<^verbatim>\<open>src/proc/integrity.cpp\<close>) with its report, over the loops of the theories Indexing and Extracting.
\<close>

section \<open>The file system\<close>

record dir_entry =
  entry_path :: string
  entry_regular :: bool
  entry_contents :: "buffer option"

text \<open>
  What the system answers: the entries of a directory (\<^term>\<open>None\<close> is the exception of the iterator), the
  entry of a path, which paths exist, are directories or regular files, can be made or can be opened for
  writing; and whether a host sends its index.
\<close>

record walk_env =
  list_dir :: "string \<Rightarrow> dir_entry list option"
  entry_of :: "string \<Rightarrow> dir_entry"
  is_dir :: "string \<Rightarrow> bool"
  exists_at :: "string \<Rightarrow> bool"
  makes_dir :: "string \<Rightarrow> bool"
  opens_at :: "string \<Rightarrow> bool"
  host_answers :: "Storage \<Rightarrow> bool"

definition is_grib_entry :: "dir_entry \<Rightarrow> bool" where
  "is_grib_entry e \<longleftrightarrow> entry_regular e \<and> path_extension (entry_path e) \<noteq> '''' \<and>
     (path_extension (entry_path e) = ''.grib'' \<or> path_extension (entry_path e) = ''.grb'')"

section \<open>Index\<close>

text \<open>
  \<^verbatim>\<open>result\<close> is declared as a pointer to \<^verbatim>\<open>AbstractDataStruct\<close>, which at this commit has neither
  \<^verbatim>\<open>add_info\<close> nor \<^verbatim>\<open>err\<close> nor \<^verbatim>\<open>sublime\<close>.  The model records the calls that the code makes of it:
  \<open>collected\<close> is the list of the arguments of \<^verbatim>\<open>result.add_info\<close> in the order of the calls, and
  \<open>index_err\<close> the last argument of \<^verbatim>\<open>result.err\<close>.  What these calls would do is not in the repository.
\<close>

record index_process =
  dest_directory :: "string option"
  output_format :: u32
  in_paths :: "Storage list"
  collected :: "(string \<times> GribMsgDataInfo) list"
  written_paths :: "string set"
  index_err :: "grib_error option"

definition JSON_INDEX :: u32 where "JSON_INDEX = 1"

text \<open>\<^verbatim>\<open>write_json_file\<close> tests the stream at each message: without a message it succeeds.\<close>

definition write_json_index :: "walk_env \<Rightarrow> string \<Rightarrow> GribMsgDataInfo list \<Rightarrow> bool" where
  "write_json_index W path infos = (infos = [] \<or> opens_at W path)"

text \<open>
  \<^verbatim>\<open>__write_file__\<close> makes a file name for each message but does not use it: what is opened is the path of
  the result, which stays empty.  \<^term>\<open>Inl ()\<close> is the exception for a missing directory.
\<close>

definition write_index :: "walk_env \<Rightarrow> index_process \<Rightarrow> string \<Rightarrow> GribMsgDataInfo list \<Rightarrow> unit + string \<times> GribMsgDataInfo list" where
  "write_index W p dest infos =
     (if \<not> exists_at W dest then Inl ()
      else Inr ('''', if output_format p = JSON_INDEX then filter (\<lambda>i. write_json_index W '''' infos) infos else []))"

text \<open>One entry of a directory: whether an exception leaves the loop, and the state.\<close>

definition add_infos :: "string \<Rightarrow> GribMsgDataInfo list \<Rightarrow> index_process \<Rightarrow> index_process" where
  "add_infos path infos p = p\<lparr>collected := collected p @ map (Pair path) infos\<rparr>"

definition set_err :: "grib_error option \<Rightarrow> index_process \<Rightarrow> index_process" where
  "set_err e p = (if e = None then p else p\<lparr>index_err := e\<rparr>)"

definition index_entry :: "osterlib \<Rightarrow> walk_env \<Rightarrow> dir_entry \<Rightarrow> index_process \<Rightarrow> (bool \<times> index_process) option" where
  "index_entry L W e p = (if \<not> is_grib_entry e then Some (False, p) else do {
     (er, infos) \<leftarrow> index_file L (entry_contents e);
     let p = set_err er p;
     (case dest_directory p of
        None \<Rightarrow> Some (False, add_infos (entry_path e) infos p)
      | Some dest \<Rightarrow>
          if er \<noteq> None then Some (False, p\<lparr>written_paths := insert '''' (written_paths p)\<rparr>)
          else (case write_index W p dest infos of
             Inl _ \<Rightarrow> Some (True, p)
           | Inr (path, infos) \<Rightarrow> Some (False, add_infos (entry_path e) infos
               (p\<lparr>written_paths := insert path (written_paths p)\<rparr>))))})"

primrec index_entries :: "osterlib \<Rightarrow> walk_env \<Rightarrow> dir_entry list \<Rightarrow> index_process \<Rightarrow> index_process option" where
  "index_entries L W [] p = Some p"
| "index_entries L W (e # es) p = do {
     (exn, p) \<leftarrow> index_entry L W e p;
     if exn then Some p else index_entries L W es p}"

text \<open>
  One path: whether the process goes on, and the state.  A path that is no directory, and a host that does not
  answer, end it.  What a host sends goes to the index of the program, not to the result.
\<close>

definition index_path :: "osterlib \<Rightarrow> walk_env \<Rightarrow> Storage \<Rightarrow> index_process \<Rightarrow> (bool \<times> index_process) option" where
  "index_path L W path p = (case st_type path of
       DIRECTORY \<Rightarrow> if \<not> is_dir W (st_path path) then Some (False, p)
         else (case list_dir W (st_path path) of
            None \<Rightarrow> Some (True, p)
          | Some es \<Rightarrow> map_option (Pair True) (index_entries L W es p))
     | FILE \<Rightarrow> do {
         (er, infos) \<leftarrow> index_file L (entry_contents (entry_of W (st_path path)));
         Some (True, add_infos (st_path path) infos (set_err er p))}
     | HOST \<Rightarrow> if Additional_is HOST (st_add path) then Some (host_answers W path, p) else Some (True, p))"

primrec index_paths :: "osterlib \<Rightarrow> walk_env \<Rightarrow> Storage list \<Rightarrow> index_process \<Rightarrow> (bool \<times> index_process) option" where
  "index_paths L W [] p = Some (True, p)"
| "index_paths L W (path # paths) p = do {
     (goes_on, p) \<leftarrow> index_path L W path p;
     if goes_on then index_paths L W paths p else Some (False, p)}"

text \<open>Whether the result is handed over to the index of the program, and the result.\<close>

definition index_execute :: "osterlib \<Rightarrow> walk_env \<Rightarrow> index_process \<Rightarrow> (bool \<times> index_process) option" where
  "index_execute L W p = index_paths L W (in_paths p) p"

text \<open>The set of paths is a hash set; the new one is shown at its end.\<close>

definition insert_path :: "Storage \<Rightarrow> index_process \<Rightarrow> index_process" where
  "insert_path path p = (if \<exists>q\<in>set (in_paths p). Storage_equal_to q path then p else p\<lparr>in_paths := in_paths p @ [path]\<rparr>)"

definition index_add_in_path :: "walk_env \<Rightarrow> Storage \<Rightarrow> index_process \<Rightarrow> ErrorCode \<times> index_process" where
  "index_add_in_path W path p =
     (if st_path path = '''' then (EC_INTERNAL_ERROR, p)
      else (case st_type path of
         FILE \<Rightarrow> if \<not> exists_at W (st_path path) then (EC_FILE_X1_DONT_EXISTS, p)
           else if \<not> entry_regular (entry_of W (st_path path)) then (EC_X1_IS_NOT_FILE, p)
           else (EC_NONE, insert_path path p)
       | DIRECTORY \<Rightarrow> if \<not> exists_at W (st_path path) then (EC_FILE_X1_DONT_EXISTS, p)
           else if \<not> is_dir W (st_path path) then (EC_X1_IS_NOT_DIRECTORY, p)
           else (EC_NONE, insert_path path p)
       | HOST \<Rightarrow> (EC_NONE, insert_path path p)))"

definition index_set_dest_dir :: "walk_env \<Rightarrow> string \<Rightarrow> index_process \<Rightarrow> ErrorCode \<times> index_process" where
  "index_set_dest_dir W dest p =
     (if path_extension dest \<noteq> '''' then (EC_X1_IS_NOT_DIRECTORY, p)
      else if \<not> exists_at W dest \<and> \<not> makes_dir W dest then (EC_CREATE_DIR_X1_DENIED, p)
      else (EC_NONE, p\<lparr>dest_directory := Some dest\<rparr>))"

section \<open>Integrity\<close>

text \<open>
  \<^verbatim>\<open>data_\<close> is a pointer to \<^verbatim>\<open>AbstractDataStruct\<close> as well: \<open>found\<close> lists the arguments of the calls of its
  \<^verbatim>\<open>add_info\<close>, a member that class does not have, in their order.
\<close>

record integrity_process =
  found :: "(string \<times> GribMsgDataInfo) list"
  file_errors :: "(string \<times> grib_error) list"

text \<open>
  The loop over the messages of a file.  \<^verbatim>\<open>continue\<close> goes to the condition of the loop, so a message that is
  not accepted is passed over.  The description is made without the error of the message.
\<close>

definition integrity_message :: "osterlib \<Rightarrow> SearchProperties \<Rightarrow> string \<Rightarrow> HGrib1 \<Rightarrow> integrity_process \<Rightarrow>
    (unit + HGrib1 \<times> integrity_process) option" where
  "integrity_message L props path g s = (case msg g of
       None \<Rightarrow> Some (Inr (g, s))
     | Some m \<Rightarrow> do {
         grid \<leftarrow> define_grid L (section_2 m);
         info \<leftarrow> read_info L g m grid;
         let info = info\<lparr>info_err := None\<rparr>;
         Some (Inr (g, if integrity_accepts props info then s\<lparr>found := found s @ [(path, info)]\<rparr> else s))})"

definition integrity_entry :: "osterlib \<Rightarrow> SearchProperties \<Rightarrow> dir_entry \<Rightarrow> integrity_process \<Rightarrow> integrity_process option" where
  "integrity_entry L props e s = (if \<not> is_grib_entry e then Some s else do {
     (er, grib) \<leftarrow> open_grib L (entry_contents e);
     if er \<noteq> NONE_ERR then Some (s\<lparr>file_errors := file_errors s @ [(entry_path e, er)]\<rparr>)
     else do {
       r \<leftarrow> each_message L (integrity_message L props (entry_path e)) grib s;
       (case r of Inl _ \<Rightarrow> None | Inr s \<Rightarrow> Some s)}})"

primrec process_core :: "osterlib \<Rightarrow> SearchProperties \<Rightarrow> dir_entry list \<Rightarrow> integrity_process \<Rightarrow> integrity_process option" where
  "process_core L props [] s = Some s"
| "process_core L props (e # es) s = do { s \<leftarrow> integrity_entry L props e s; process_core L props es s }"

text \<open>
  The paths: the entries of all paths so far are processed again at each path, since the list is declared
  outside of the loop, and the case of a directory falls through to the case of a file.
\<close>

definition integrity_file :: "osterlib \<Rightarrow> walk_env \<Rightarrow> SearchProperties \<Rightarrow> string \<Rightarrow> dir_entry list \<times> integrity_process \<Rightarrow>
    (dir_entry list \<times> integrity_process) option" where
  "integrity_file L W props path = (\<lambda>(entries, s). do {
     let entries = entries @ [entry_of W path];
     s \<leftarrow> process_core L props entries s;
     Some (entries, s)})"

definition integrity_path :: "osterlib \<Rightarrow> walk_env \<Rightarrow> SearchProperties \<Rightarrow> Storage \<Rightarrow> dir_entry list \<times> integrity_process \<Rightarrow>
    (dir_entry list \<times> integrity_process) option" where
  "integrity_path L W props path = (\<lambda>(entries, s). (case st_type path of
       DIRECTORY \<Rightarrow> do {
         es \<leftarrow> list_dir W (st_path path);
         let entries = entries @ es;
         s \<leftarrow> process_core L props entries s;
         integrity_file L W props (st_path path) (entries, s)}
     | FILE \<Rightarrow> integrity_file L W props (st_path path) (entries, s)
     | HOST \<Rightarrow> Some (entries, s)))"

primrec integrity_paths :: "osterlib \<Rightarrow> walk_env \<Rightarrow> SearchProperties \<Rightarrow> Storage list \<Rightarrow> dir_entry list \<times> integrity_process \<Rightarrow>
    (dir_entry list \<times> integrity_process) option" where
  "integrity_paths L W props [] es = Some es"
| "integrity_paths L W props (path # paths) es = do {
     es \<leftarrow> integrity_path L W props path es;
     integrity_paths L W props paths es}"

definition integrity_collect :: "osterlib \<Rightarrow> walk_env \<Rightarrow> SearchProperties \<Rightarrow> Storage list \<Rightarrow> integrity_process option" where
  "integrity_collect L W props paths =
     map_option snd (integrity_paths L W props paths ([], \<lparr>found = [], file_errors = []\<rparr>))"

section \<open>The report\<close>

text \<open>
  A series has the first and the last of its times and its step, which is zero if it has none.  OsterLib gives
  the begin of the period of a time and the begin of the next one.
\<close>

record period_lib =
  null_aligned :: "int \<Rightarrow> int \<Rightarrow> int"
  next_period :: "int \<Rightarrow> int"

record time_series =
  first_time :: int
  last_time :: int
  time_step :: int

record integrity_report =
  missing_log :: "(int \<times> int) list"
  accessible_log :: "(int \<times> int) list"

definition second :: int where "second = 1000000000"

definition period_end :: "period_lib \<Rightarrow> time_series \<Rightarrow> int" where
  "period_end T x = next_period T (first_time x) - (if time_step x \<noteq> 0 then time_step x else second)"

definition log_missing :: "int \<Rightarrow> int \<Rightarrow> integrity_report \<Rightarrow> integrity_report" where
  "log_missing a b r = r\<lparr>missing_log := missing_log r @ [(a, b)]\<rparr>"

definition log_accessible :: "int \<Rightarrow> int \<Rightarrow> integrity_report \<Rightarrow> integrity_report" where
  "log_accessible a b r = r\<lparr>accessible_log := accessible_log r @ [(a, b)]\<rparr>"

definition report_series :: "period_lib \<Rightarrow> int \<Rightarrow> time_series \<Rightarrow> integrity_report \<Rightarrow> integrity_report" where
  "report_series T search_from x r =
     (let beg_period = null_aligned T (first_time x) search_from;
          end_period = period_end T x;
          from = first_time x; to = last_time x;
          r = (if from \<le> beg_period then
                 if to < end_period then log_accessible from to r else log_missing to end_period r
               else
                 let r = log_missing beg_period from r
                 in if to < end_period then log_missing to end_period r else r)
      in log_accessible from to r)"

text \<open>The error codes of the log files, or the result; the violation is the length of the log of missing times.\<close>

definition integrity_report_result ::
    "period_lib \<Rightarrow> int \<Rightarrow> bool \<Rightarrow> bool \<Rightarrow> time_series list \<Rightarrow> ErrorCode \<times> integrity_report" where
  "integrity_report_result T search_from missing_open accessible_open xs =
     (let r = \<lparr>missing_log = [], accessible_log = []\<rparr> in
      if \<not> missing_open then (EC_CANNOT_OPEN_FILE_X1, r)
      else if \<not> accessible_open then (EC_CANNOT_OPEN_FILE_X1, r)
      else let r = fold (report_series T search_from) xs r
        in (if missing_log r \<noteq> [] then EC_INTEGRITY_VIOLATED else EC_NONE, r))"

section \<open>Facts\<close>

text \<open>A file of valid messages, and the descriptions that are read from it.\<close>

definition grib_file :: "osterlib \<Rightarrow> buffer option \<Rightarrow> GribMsgDataInfo list \<Rightarrow> bool" where
  "grib_file L c infos \<longleftrightarrow> (\<exists>m0 ms. c = Some (file_of (m0 # ms)) \<and> (\<forall>m\<in>set (m0 # ms). indexable m) \<and>
     last (p4 m0) \<noteq> 55 \<and> infos = map (file_info L (m0 # ms)) [0..<length (m0 # ms)])"

lemma grib_file_index: "lib_ok L \<Longrightarrow> grib_file L c infos \<Longrightarrow> index_file L c = Some (None, infos)"
  unfolding grib_file_def using index_of_file by blast

lemma info_err_None: "(file_info L ms k)\<lparr>info_err := None\<rparr> = file_info L ms k"
  by (simp add: file_info_def info_of_def Let_def)

lemma fold_found:
  "fold (\<lambda>k s. if P (f k) then s\<lparr>found := found s @ [(path, f k)]\<rparr> else s) ks s =
    s\<lparr>found := found s @ map (Pair path) (filter P (map f ks))\<rparr>"
  by (induction ks arbitrary: s) simp_all

lemma grib_file_integrity:
  assumes L: "lib_ok L" and f: "grib_file L (entry_contents e) infos" and e: "is_grib_entry e"
  shows "integrity_entry L props e s =
    Some (s\<lparr>found := found s @ map (Pair (entry_path e)) (filter (integrity_accepts props) infos)\<rparr>)"
proof -
  obtain m0 ms where f: "entry_contents e = Some (file_of (m0 # ms))" "\<forall>m\<in>set (m0 # ms). indexable m" "last (p4 m0) \<noteq> 55"
    "infos = map (file_info L (m0 # ms)) [0..<length (m0 # ms)]"
    using f unfolding grib_file_def by blast
  let ?ms = "m0 # ms"
  let ?step = "\<lambda>k s. if integrity_accepts props (file_info L ?ms k)
    then s\<lparr>found := found s @ [(entry_path e, file_info L ?ms k)]\<rparr> else s"
  have valid: "valid_message m0" "\<forall>m\<in>set ?ms. valid_message m" using f(2) by (auto simp: indexable_def)
  have "integrity_message L props (entry_path e) (reader_at L ?ms k) s = Some (Inr (reader_at L ?ms k, ?step k s))"
    if k: "k < length ?ms" for k s
  proof -
    have "indexable (?ms ! k)" using f(2) k nth_mem by blast
    from read_info_reader [OF L k this] obtain g mm where mm:
      "define_grid L (Some (section_2_on ?ms k)) = Some g" "msg (reader_at L ?ms k) = Some mm"
      "section_2 mm = Some (section_2_on ?ms k)" "read_info L (reader_at L ?ms k) mm g = Some (info_of ?ms k g)" by blast
    then have "file_info L ?ms k = info_of ?ms k g" by (simp add: file_info_def)
    with mm info_err_None [of L ?ms k] show ?thesis by (simp add: integrity_message_def Let_def)
  qed
  then have "each_message L (integrity_message L props (entry_path e)) (reader_at L ?ms 0) s =
      Some (Inr (fold ?step [0..<length ?ms] s))"
    by (intro each_message_file [OF L valid(2)]) simp_all
  then show ?thesis
    using open_grib_reader [OF L valid(1), of ms] f(3) e
    by (simp add: integrity_entry_def f(1,4) fold_found del: upt_Suc file_of_Cons)
qed

text \<open>All entries that are files of messages can be read; \<open>infos\<close> is what is in them.\<close>

definition entries_ok :: "osterlib \<Rightarrow> (buffer option \<Rightarrow> GribMsgDataInfo list) \<Rightarrow> dir_entry list \<Rightarrow> bool" where
  "entries_ok L infos es \<longleftrightarrow> (\<forall>e\<in>set es. is_grib_entry e \<longrightarrow> grib_file L (entry_contents e) (infos (entry_contents e)))"

definition entries_infos :: "(buffer option \<Rightarrow> GribMsgDataInfo list) \<Rightarrow> dir_entry list \<Rightarrow> (string \<times> GribMsgDataInfo) list" where
  "entries_infos infos es = concat (map (\<lambda>e. map (Pair (entry_path e)) (infos (entry_contents e))) (filter is_grib_entry es))"

definition accepted_infos :: "SearchProperties \<Rightarrow> (string \<times> GribMsgDataInfo) list \<Rightarrow> (string \<times> GribMsgDataInfo) list" where
  "accepted_infos props = filter (\<lambda>(path, i). integrity_accepts props i)"

lemma entries_infos_Cons:
  "entries_infos infos (e # es) =
    (if is_grib_entry e then map (Pair (entry_path e)) (infos (entry_contents e)) else []) @ entries_infos infos es"
  by (simp add: entries_infos_def)

lemma process_core_entries:
  assumes "lib_ok L" "entries_ok L infos es"
  shows "process_core L props es s = Some (s\<lparr>found := found s @ accepted_infos props (entries_infos infos es)\<rparr>)"
  using assms(2)
proof (induction es arbitrary: s)
  case (Cons e es)
  then have es: "entries_ok L infos es" by (simp add: entries_ok_def)
  show ?case
  proof (cases "is_grib_entry e")
    case True
    with Cons.prems have "grib_file L (entry_contents e) (infos (entry_contents e))" by (simp add: entries_ok_def)
    from grib_file_integrity [OF assms(1) this True] Cons.IH [OF es] True show ?thesis
      by (simp add: entries_infos_Cons accepted_infos_def filter_map o_def)
  next
    case False
    with Cons.IH [OF es] show ?thesis by (simp add: integrity_entry_def entries_infos_Cons)
  qed
qed (simp add: entries_infos_def accepted_infos_def)

lemma index_entries_plain:
  assumes "lib_ok L" "entries_ok L infos es" "dest_directory p = None"
  shows "index_entries L W es p = Some (p\<lparr>collected := collected p @ entries_infos infos es\<rparr>)"
  using assms(2,3)
proof (induction es arbitrary: p)
  case (Cons e es)
  then have es: "entries_ok L infos es" by (simp add: entries_ok_def)
  show ?case
  proof (cases "is_grib_entry e")
    case True
    with Cons.prems(1) have "grib_file L (entry_contents e) (infos (entry_contents e))" by (simp add: entries_ok_def)
    from grib_file_index [OF assms(1) this] Cons.IH [OF es, of "add_infos (entry_path e) (infos (entry_contents e)) p"] True Cons.prems(2)
    show ?thesis by (simp add: index_entry_def set_err_def entries_infos_Cons add_infos_def)
  next
    case False
    with Cons.IH [OF es, of p] Cons.prems(2) show ?thesis by (simp add: index_entry_def entries_infos_Cons)
  qed
qed (simp add: entries_infos_def)

text \<open>With a destination directory nothing is collected, since the path that is opened is empty.\<close>

lemma index_entry_dest:
  assumes "lib_ok L" "entries_ok L infos [e]" "dest_directory p = Some dest" "exists_at W dest" "\<not> opens_at W ''''"
  obtains ws where "index_entry L W e p = Some (False, p\<lparr>written_paths := ws\<rparr>)"
proof (cases "is_grib_entry e")
  case True
  with assms(2) have "grib_file L (entry_contents e) (infos (entry_contents e))" by (simp add: entries_ok_def)
  note f = grib_file_index [OF assms(1) this]
  let ?infos = "infos (entry_contents e)"
  have "filter (\<lambda>i. write_json_index W '''' ?infos) ?infos = []"
    using assms(5) by (cases ?infos) (simp_all add: write_json_index_def)
  with f True assms(3,4) show thesis
    by (intro that [of "insert '''' (written_paths p)"])
      (cases p, simp add: index_entry_def set_err_def add_infos_def write_index_def)
next
  case False
  then show thesis by (intro that [of "written_paths p"]) (simp add: index_entry_def)
qed

lemma index_entries_dest:
  assumes "lib_ok L" "entries_ok L infos es" "dest_directory p = Some dest" "exists_at W dest" "\<not> opens_at W ''''"
  shows "\<exists>ws. index_entries L W es p = Some (p\<lparr>written_paths := ws\<rparr>)"
  using assms(2,3)
proof (induction es arbitrary: p)
  case Nil
  then show ?case by (intro exI [of _ "written_paths p"]) simp
next
  case (Cons e es)
  then have es: "entries_ok L infos [e]" "entries_ok L infos es" by (simp_all add: entries_ok_def)
  obtain ws where ws: "index_entry L W e p = Some (False, p\<lparr>written_paths := ws\<rparr>)"
    using index_entry_dest [OF assms(1) es(1) Cons.prems(2) assms(4,5)] by blast
  have "dest_directory (p\<lparr>written_paths := ws\<rparr>) = Some dest" using Cons.prems(2) by simp
  from Cons.IH [OF es(2) this] ws show ?case by auto
qed

text \<open>What the process collects at a path.\<close>

definition path_infos :: "walk_env \<Rightarrow> (buffer option \<Rightarrow> GribMsgDataInfo list) \<Rightarrow> string option \<Rightarrow> Storage \<Rightarrow> (string \<times> GribMsgDataInfo) list" where
  "path_infos W infos dest path = (case st_type path of
       DIRECTORY \<Rightarrow> if dest = None then entries_infos infos (the (list_dir W (st_path path))) else []
     | FILE \<Rightarrow> map (Pair (st_path path)) (infos (entry_contents (entry_of W (st_path path))))
     | HOST \<Rightarrow> [])"

definition path_ok :: "osterlib \<Rightarrow> walk_env \<Rightarrow> (buffer option \<Rightarrow> GribMsgDataInfo list) \<Rightarrow> Storage \<Rightarrow> bool" where
  "path_ok L W infos path \<longleftrightarrow> (case st_type path of
       DIRECTORY \<Rightarrow> is_dir W (st_path path) \<and> (\<exists>es. list_dir W (st_path path) = Some es \<and> entries_ok L infos es)
     | FILE \<Rightarrow> (let c = entry_contents (entry_of W (st_path path)) in grib_file L c (infos c))
     | HOST \<Rightarrow> host_answers W path)"

definition dest_ok :: "walk_env \<Rightarrow> string option \<Rightarrow> bool" where
  "dest_ok W dest \<longleftrightarrow> (case dest of None \<Rightarrow> True | Some d \<Rightarrow> exists_at W d \<and> \<not> opens_at W '''')"

lemma index_path_ok:
  assumes "lib_ok L" "path_ok L W infos path" "dest_ok W (dest_directory p)"
  shows "\<exists>ws. index_path L W path p = Some (True, p\<lparr>collected := collected p @ path_infos W infos (dest_directory p) path,
    written_paths := ws\<rparr>)"
proof (cases "st_type path")
  case DIRECTORY
  with assms(2) obtain es where es: "is_dir W (st_path path)" "list_dir W (st_path path) = Some es" "entries_ok L infos es"
    by (auto simp: path_ok_def)
  show ?thesis
  proof (cases "dest_directory p")
    case None
    then show ?thesis using index_entries_plain [OF assms(1) es(3) None] es(1,2) DIRECTORY
      by (intro exI [of _ "written_paths p"]) (cases p, simp add: index_path_def path_infos_def)
  next
    case (Some dest)
    with assms(3) have d: "exists_at W dest" "\<not> opens_at W ''''" by (simp_all add: dest_ok_def)
    from index_entries_dest [OF assms(1) es(3) Some d] obtain ws where
      "index_entries L W es p = Some (p\<lparr>written_paths := ws\<rparr>)" ..
    then show ?thesis using es(1,2) DIRECTORY Some
      by (intro exI [of _ ws]) (cases p, simp add: index_path_def path_infos_def)
  qed
next
  case FILE
  with assms(2) have "grib_file L (entry_contents (entry_of W (st_path path))) (infos (entry_contents (entry_of W (st_path path))))"
    by (simp add: path_ok_def Let_def)
  from grib_file_index [OF assms(1) this] FILE show ?thesis
    by (intro exI [of _ "written_paths p"]) (cases p, simp add: index_path_def path_infos_def set_err_def add_infos_def)
next
  case HOST
  with assms(2) show ?thesis
    by (intro exI [of _ "written_paths p"]) (cases p, simp add: index_path_def path_infos_def path_ok_def)
qed

lemma index_paths_ok:
  assumes "lib_ok L" "\<forall>path\<in>set paths. path_ok L W infos path" "dest_ok W (dest_directory p)"
  shows "\<exists>ws. index_paths L W paths p = Some (True, p\<lparr>collected := collected p @
    concat (map (path_infos W infos (dest_directory p)) paths), written_paths := ws\<rparr>)"
  using assms(2,3)
proof (induction paths arbitrary: p)
  case Nil
  then show ?case by (intro exI [of _ "written_paths p"]) (cases p, simp)
next
  case (Cons path paths)
  then obtain ws where ws: "index_path L W path p =
      Some (True, p\<lparr>collected := collected p @ path_infos W infos (dest_directory p) path, written_paths := ws\<rparr>)"
    using index_path_ok [OF assms(1)] by fastforce
  let ?p = "p\<lparr>collected := collected p @ path_infos W infos (dest_directory p) path, written_paths := ws\<rparr>"
  have same: "dest_directory ?p = dest_directory p" "dest_ok W (dest_directory ?p)" using Cons.prems(2) by simp_all
  from Cons.prems(1) have "\<forall>path\<in>set paths. path_ok L W infos path" by simp
  from Cons.IH [OF this same(2)] obtain vs where "index_paths L W paths ?p = Some (True, ?p\<lparr>collected := collected ?p @
      concat (map (path_infos W infos (dest_directory p)) paths), written_paths := vs\<rparr>)"
    unfolding same(1) ..
  with ws show ?case by (intro exI [of _ vs]) simp
qed

lemma integrity_files:
  assumes "lib_ok L" "\<forall>path\<in>set paths. st_type path = FILE" "entries_ok L infos (es @ map (\<lambda>q. entry_of W (st_path q)) paths)"
  shows "integrity_paths L W props paths (es, s) = Some (es @ map (\<lambda>q. entry_of W (st_path q)) paths, s\<lparr>found := found s @
    concat (map (\<lambda>k. accepted_infos props (entries_infos infos (es @ map (\<lambda>q. entry_of W (st_path q)) (take (Suc k) paths))))
      [0..<length paths])\<rparr>)"
  using assms(2,3)
proof (induction paths arbitrary: es s)
  case (Cons path paths)
  let ?es = "es @ [entry_of W (st_path path)]"
  have es: "entries_ok L infos ?es" "entries_ok L infos (?es @ map (\<lambda>q. entry_of W (st_path q)) paths)"
    using Cons.prems(2) by (auto simp: entries_ok_def)
  let ?s = "s\<lparr>found := found s @ accepted_infos props (entries_infos infos ?es)\<rparr>"
  let ?f = "\<lambda>ps. accepted_infos props (entries_infos infos (es @ map (\<lambda>q. entry_of W (st_path q)) ps))"
  have "integrity_path L W props path (es, s) = Some (?es, ?s)"
    using Cons.prems(1) process_core_entries [OF assms(1) es(1)] by (simp add: integrity_path_def integrity_file_def Let_def)
  moreover have "map (\<lambda>k. ?f (take (Suc k) (path # paths))) [0..<length (path # paths)] =
      ?f [path] # map (\<lambda>k. ?f (path # take (Suc k) paths)) [0..<length paths]"
    by (simp add: map_upt_Suc del: upt_Suc)
  moreover from Cons.prems(1) have "\<forall>path\<in>set paths. st_type path = FILE" by simp
  note Cons.IH [OF this es(2), of ?s]
  ultimately show ?case by (simp del: upt_Suc take_Suc_Cons)
qed simp

lemma report_from_begin:
  assumes "\<forall>x\<in>set xs. first_time x \<le> null_aligned T (first_time x) search_from"
  shows "missing_log (fold (report_series T search_from) xs r) =
    missing_log r @ map (\<lambda>x. (last_time x, period_end T x)) (filter (\<lambda>x. period_end T x \<le> last_time x) xs)"
  using assms
  by (induction xs arbitrary: r) (auto simp: report_series_def Let_def log_missing_def log_accessible_def)

section \<open>An example\<close>

text \<open>A directory with a file of one message and a text file; both extensions of messages.\<close>

definition example_entry :: "string \<Rightarrow> dir_entry" where
  "example_entry path = \<lparr>entry_path = path, entry_regular = True, entry_contents = Some (file_of [example_indexed])\<rparr>"

definition example_walk :: walk_env where
  "example_walk = \<lparr>list_dir = (\<lambda>d. Some [example_entry ''a.grib'', example_entry ''b.txt'']), entry_of = example_entry,
     is_dir = (\<lambda>d. d = ''d''), exists_at = (\<lambda>d. True), makes_dir = (\<lambda>d. True), opens_at = (\<lambda>d. d \<noteq> ''''), host_answers = (\<lambda>h. True)\<rparr>"

definition example_infos :: "buffer option \<Rightarrow> GribMsgDataInfo list" where
  "example_infos c = [file_info example_lib [example_indexed] 0]"

definition example_index :: "string option \<Rightarrow> index_process" where
  "example_index dest = \<lparr>dest_directory = dest, output_format = JSON_INDEX,
     in_paths = [Storage_directory ''d'' 0, Storage_file ''c.grb'' 0], collected = [], written_paths = {}, index_err = None\<rparr>"

lemma example_grib_file: "grib_file example_lib (entry_contents (example_entry path)) (example_infos c)"
  unfolding grib_file_def
  by (intro exI [of _ example_indexed] exI [of _ "[]"])
    (use example_indexed_ok in \<open>simp add: example_entry_def example_infos_def\<close>,
      simp add: example_indexed_def example_parts_def example_bds_def)

lemma example_entries:
  "is_grib_entry (example_entry ''a.grib'')" "is_grib_entry (example_entry ''c.grb'')" "\<not> is_grib_entry (example_entry ''b.txt'')"
  by (simp_all add: is_grib_entry_def example_entry_def path_extension_def path_filename_def Let_def)

section \<open>Properties\<close>

text \<open>
  C39: when every path can be read, \<^verbatim>\<open>Index\<close> collects the descriptions of all messages of the files with the
  two extensions in its directories and of its files, in their order, and hands them over.  With a destination
  directory it collects nothing from a directory.
\<close>

theorem index_collects:
  assumes "lib_ok L" "\<forall>path\<in>set (in_paths p). path_ok L W infos path" "dest_ok W (dest_directory p)"
  shows "\<exists>ws. index_execute L W p = Some (True, p\<lparr>collected := collected p @
    concat (map (path_infos W infos (dest_directory p)) (in_paths p)), written_paths := ws\<rparr>)"
  unfolding index_execute_def by (rule index_paths_ok [OF assms])

theorem index_collects_witness:
  "(\<exists>ws. index_execute example_lib example_walk (example_index None) = Some (True, (example_index None)\<lparr>collected :=
      [(''a.grib'', file_info example_lib [example_indexed] 0), (''c.grb'', file_info example_lib [example_indexed] 0)],
      written_paths := ws\<rparr>)) \<and>
   (\<exists>ws. index_execute example_lib example_walk (example_index (Some ''d'')) = Some (True, (example_index (Some ''d''))\<lparr>collected :=
      [(''c.grb'', file_info example_lib [example_indexed] 0)], written_paths := ws\<rparr>))"
proof -
  have path: "\<forall>path\<in>set (in_paths (example_index dest)). path_ok example_lib example_walk example_infos path" for dest
    using example_grib_file
    by (simp add: example_index_def Storage_directory_def Storage_file_def path_ok_def example_walk_def entries_ok_def Let_def)
  have dest: "dest_ok example_walk (dest_directory (example_index None))"
    "dest_ok example_walk (dest_directory (example_index (Some ''d'')))"
    by (simp_all add: dest_ok_def example_index_def example_walk_def)
  have infos: "concat (map (path_infos example_walk example_infos dest) (in_paths (example_index dest))) =
      (if dest = None then [(''a.grib'', file_info example_lib [example_indexed] 0)] else []) @
      [(''c.grb'', file_info example_lib [example_indexed] 0)]" for dest
    using example_entries
    by (simp add: example_index_def Storage_directory_def Storage_file_def path_infos_def example_walk_def
        entries_infos_def example_infos_def) (simp add: example_entry_def)
  have start: "dest_directory (example_index dest) = dest" "collected (example_index dest) = []" for dest
    by (simp_all add: example_index_def)
  from index_collects [OF lib_ok_example path dest(1)] index_collects [OF lib_ok_example path dest(2)]
  show ?thesis by (simp only: start infos) simp
qed

text \<open>
  C40: the integrity process over files of valid messages collects the accepted messages of the first file, then
  of the first two files, and so on: a message of the first of \<open>n\<close> files is there \<open>n\<close> times.
\<close>

theorem integrity_collects_again:
  assumes "lib_ok L" "\<forall>path\<in>set paths. st_type path = FILE" "entries_ok L infos (map (\<lambda>q. entry_of W (st_path q)) paths)"
  shows "integrity_collect L W props paths = Some \<lparr>found =
    concat (map (\<lambda>k. accepted_infos props (entries_infos infos (map (\<lambda>q. entry_of W (st_path q)) (take (Suc k) paths))))
      [0..<length paths]), file_errors = []\<rparr>"
  using integrity_files [OF assms(1,2), of infos "[]" W props "\<lparr>found = [], file_errors = []\<rparr>"] assms(3)
  by (simp add: integrity_collect_def del: upt_Suc)

theorem integrity_collects_again_witness:
  "\<exists>r. integrity_collect example_lib example_walk example_props [Storage_file ''a.grib'' 0, Storage_file ''c.grb'' 0] = Some r \<and>
     map fst (found r) = [''a.grib'', ''a.grib'', ''c.grb'']"
proof -
  let ?paths = "[Storage_file ''a.grib'' 0, Storage_file ''c.grb'' 0]"
  have accepted: "integrity_accepts example_props (file_info example_lib [example_indexed] 0)"
    using filters_agree_witness by blast
  have "\<forall>path\<in>set ?paths. st_type path = FILE" by (simp add: Storage_file_def)
  moreover have "entries_ok example_lib example_infos (map (\<lambda>q. entry_of example_walk (st_path q)) ?paths)"
    using example_grib_file by (simp add: entries_ok_def example_walk_def)
  ultimately show ?thesis
    using integrity_collects_again [OF lib_ok_example, of ?paths example_infos example_walk example_props] accepted example_entries
    by (simp add: example_walk_def Storage_file_def entries_infos_def example_infos_def accepted_infos_def)
      (simp add: example_entry_def)
qed

text \<open>
  The report of series that start at the begin of their period is the reverse of what it means: a violation
  is reported exactly when some series reaches the end of its period, and what it is said to miss is the time
  from its last value to that end.
\<close>

theorem integrity_report_inverted:
  assumes "\<forall>x\<in>set xs. first_time x \<le> null_aligned T (first_time x) search_from"
  shows "(fst (integrity_report_result T search_from True True xs) = EC_INTEGRITY_VIOLATED \<longleftrightarrow>
      (\<exists>x\<in>set xs. period_end T x \<le> last_time x)) \<and>
    missing_log (snd (integrity_report_result T search_from True True xs)) =
      map (\<lambda>x. (last_time x, period_end T x)) (filter (\<lambda>x. period_end T x \<le> last_time x) xs)"
  using report_from_begin [OF assms, of "\<lparr>missing_log = [], accessible_log = []\<rparr>"]
  by (auto simp: integrity_report_result_def Let_def filter_empty_conv)

theorem integrity_report_inverted_witness:
  "integrity_report_result \<lparr>null_aligned = (\<lambda>t f. t), next_period = (\<lambda>t. t + 10 * second)\<rparr> 0 True True
      [\<lparr>first_time = 0, last_time = 9 * second, time_step = second\<rparr>] =
    (EC_INTEGRITY_VIOLATED, \<lparr>missing_log = [(9 * second, 9 * second)], accessible_log = [(0, 9 * second)]\<rparr>) \<and>
   fst (integrity_report_result \<lparr>null_aligned = (\<lambda>t f. t), next_period = (\<lambda>t. t + 10 * second)\<rparr> 0 True True
      [\<lparr>first_time = 0, last_time = 5 * second, time_step = second\<rparr>]) \<noteq> EC_INTEGRITY_VIOLATED"
proof -
  let ?T = "\<lparr>null_aligned = (\<lambda>t f. t), next_period = (\<lambda>t. t + 10 * second)\<rparr>"
  let ?x = "\<lparr>first_time = 0, last_time = 5 * second, time_step = second\<rparr>"
  have "\<forall>x\<in>set [?x]. first_time x \<le> null_aligned ?T (first_time x) 0" by simp
  from integrity_report_inverted [OF this]
  have "fst (integrity_report_result ?T 0 True True [?x]) \<noteq> EC_INTEGRITY_VIOLATED"
    by (simp add: period_end_def second_def)
  then show ?thesis
    by (simp add: integrity_report_result_def report_series_def period_end_def second_def log_missing_def
        log_accessible_def Let_def)
qed

end
