(* ===== verification/Serial_Types.thy ===== *)
theory Serial_Types
  imports Wire Paths Extracting
begin

text \<open>
  The serialized structures outside the network messages: the members that \<^verbatim>\<open>Serialize\<close> writes, the
  types that \<^verbatim>\<open>Serial_size\<close> and its minimum and maximum list, and the members that \<^verbatim>\<open>Deserialize\<close>
  assigns.
\<close>

section \<open>Levels and forecasts\<close>

definition Level_wire :: "Level \<Rightarrow> 'l wire" where
  "Level_wire m = W_struct [w_u8 (level_type m), w_u8 (octet_11 m), w_u8 (octet_12 m)]"

definition Level_shape :: shape where
  "Level_shape = S_struct [S_leaf LK_u8, S_leaf LK_u8, S_leaf LK_u8]"

definition Level_of_wire :: "'l wire \<Rightarrow> Level option" where
  "Level_of_wire v = (case of_struct v of
     Some [a, b, c] \<Rightarrow> do {
       t \<leftarrow> of_u8 a;
       o11 \<leftarrow> of_u8 b;
       o12 \<leftarrow> of_u8 c;
       Some \<lparr>octet_11 = o11, octet_12 = o12, level_type = t\<rparr>}
   | _ \<Rightarrow> None)"

interpretation level_wire: wire_type Level_wire Level_of_wire Level_shape "\<lambda>m. True"
  by unfold_locales (simp_all add: Level_wire_def Level_shape_def Level_of_wire_def wire_simps)

text \<open>
  \<^verbatim>\<open>TimeRangeIndicator\<close> is an enumeration without a fixed type; it is written as the
  \<^verbatim>\<open>unsigned int\<close> that represents it, and a value above those of its enumerators is undefined.
\<close>

definition TimeForecast_wire :: "TimeForecast \<Rightarrow> 'l wire" where
  "TimeForecast_wire m = W_struct [w_u16 (N_avg m), w_u8 (N_avg_acc_missed m),
     w_u8 (P1_val m), w_u8 (P2_val m), w_u8 (tf_code m), w_u32 (ucast (tri_code m))]"

definition TimeForecast_shape :: shape where
  "TimeForecast_shape = S_struct [S_leaf LK_u16, S_leaf LK_u8, S_leaf LK_u8, S_leaf LK_u8, S_leaf LK_u8, S_leaf LK_u32]"

definition TimeForecast_of_wire :: "'l wire \<Rightarrow> TimeForecast option" where
  "TimeForecast_of_wire v = (case of_struct v of
     Some [a, b, c, d, e, f] \<Rightarrow> do {
       n \<leftarrow> of_u16 a;
       mi \<leftarrow> of_u8 b;
       p1 \<leftarrow> of_u8 c;
       p2 \<leftarrow> of_u8 d;
       tf \<leftarrow> of_u8 e;
       tri \<leftarrow> of_u32 f;
       if tri \<le> 255 then Some \<lparr>N_avg = n, N_avg_acc_missed = mi, P1_val = p1, P2_val = p2, tf_code = tf, tri_code = ucast tri\<rparr>
       else None}
   | _ \<Rightarrow> None)"

lemma octet_of_enum: "(ucast (w :: u8) :: u32) \<le> 255" "ucast (ucast (w :: u8) :: u32) = w"
proof -
  show "(ucast w :: u32) \<le> 255"
    by (simp add: word_le_nat_alt unsigned_ucast_eq) (rule order_trans [OF take_bit_nat_less_eq_self unat_u8_le])
  show "ucast (ucast w :: u32) = w"
    by (rule bit_word_eqI) (auto simp: bit_simps)
qed

interpretation forecast_wire: wire_type TimeForecast_wire TimeForecast_of_wire TimeForecast_shape "\<lambda>m. True"
  by unfold_locales (simp_all add: TimeForecast_wire_def TimeForecast_shape_def TimeForecast_of_wire_def wire_simps octet_of_enum)

section \<open>Keys of the data\<close>

definition SearchParamTableVersion_wire :: "SearchParamTableVersion \<Rightarrow> 'l wire" where
  "SearchParamTableVersion_wire m = W_struct [w_u8 (sp_param m), w_u8 (sp_t_ver m)]"

definition SearchParamTableVersion_shape :: shape where
  "SearchParamTableVersion_shape = S_struct [S_leaf LK_u8, S_leaf LK_u8]"

definition SearchParamTableVersion_of_wire :: "'l wire \<Rightarrow> SearchParamTableVersion option" where
  "SearchParamTableVersion_of_wire v = (case of_struct v of
     Some [a, b] \<Rightarrow> do { p \<leftarrow> of_u8 a; t \<leftarrow> of_u8 b; Some \<lparr>sp_param = p, sp_t_ver = t\<rparr> }
   | _ \<Rightarrow> None)"

interpretation param_wire: wire_type SearchParamTableVersion_wire SearchParamTableVersion_of_wire
    SearchParamTableVersion_shape "\<lambda>m. True"
  by unfold_locales
    (simp_all add: SearchParamTableVersion_wire_def SearchParamTableVersion_shape_def SearchParamTableVersion_of_wire_def wire_simps)

definition CommonDataProperties_wire :: "CommonDataProperties \<Rightarrow> 'l wire" where
  "CommonDataProperties_wire m = W_struct [w_opt w_u8 (cmn_center m), w_opt w_u8 (cmn_table_version m),
     w_opt w_u8 (cmn_parameter m)]"

definition CommonDataProperties_shape :: shape where
  "CommonDataProperties_shape = S_struct [S_opt (S_leaf LK_u8), S_opt (S_leaf LK_u8), S_opt (S_leaf LK_u8)]"

definition CommonDataProperties_of_wire :: "'l wire \<Rightarrow> CommonDataProperties option" where
  "CommonDataProperties_of_wire v = (case of_struct v of
     Some [a, b, c] \<Rightarrow> do {
       ce \<leftarrow> of_opt of_u8 a;
       t \<leftarrow> of_opt of_u8 b;
       p \<leftarrow> of_opt of_u8 c;
       Some \<lparr>cmn_center = ce, cmn_table_version = t, cmn_parameter = p\<rparr>}
   | _ \<Rightarrow> None)"

lemma pred_option_True [simp]: "pred_option (\<lambda>x. True) v"
  by (cases v) simp_all

interpretation common_wire: wire_type CommonDataProperties_wire CommonDataProperties_of_wire
    CommonDataProperties_shape "\<lambda>m. True"
  by unfold_locales
    (simp_all add: CommonDataProperties_wire_def CommonDataProperties_shape_def CommonDataProperties_of_wire_def
      wire_simps)

section \<open>Values and their keys\<close>

definition ExtractedValue_wire :: "ExtractedValue \<Rightarrow> 'l wire" where
  "ExtractedValue_wire m = W_struct [w_time (time_date m), w_float (extracted_value m)]"

definition ExtractedValue_shape :: shape where
  "ExtractedValue_shape = S_struct [S_leaf LK_time, S_leaf LK_float]"

definition ExtractedValue_of_wire :: "'l wire \<Rightarrow> ExtractedValue option" where
  "ExtractedValue_of_wire v = (case of_struct v of
     Some [a, b] \<Rightarrow> do { t \<leftarrow> of_time a; x \<leftarrow> of_float b; Some \<lparr>time_date = t, extracted_value = x\<rparr> }
   | _ \<Rightarrow> None)"

interpretation value_wire: wire_type ExtractedValue_wire ExtractedValue_of_wire ExtractedValue_shape
    "\<lambda>m. storable_time (time_date m) \<and> f32 (extracted_value m) = extracted_value m"
  by unfold_locales
    (simp_all add: ExtractedValue_wire_def ExtractedValue_shape_def ExtractedValue_of_wire_def wire_simps)

text \<open>What the data of an extraction is labelled with.\<close>

record AdditionalExtractDataProperties =
  ad_fcst :: TimeForecast
  ad_level :: Level

record ExtractDataProperties =
  ed_add :: AdditionalExtractDataProperties
  ed_cmn :: CommonDataProperties

definition AdditionalExtractDataProperties_wire :: "AdditionalExtractDataProperties \<Rightarrow> 'l wire" where
  "AdditionalExtractDataProperties_wire m = W_struct [TimeForecast_wire (ad_fcst m), Level_wire (ad_level m)]"

definition AdditionalExtractDataProperties_shape :: shape where
  "AdditionalExtractDataProperties_shape = S_struct [TimeForecast_shape, Level_shape]"

definition AdditionalExtractDataProperties_of_wire :: "'l wire \<Rightarrow> AdditionalExtractDataProperties option" where
  "AdditionalExtractDataProperties_of_wire v = (case of_struct v of
     Some [a, b] \<Rightarrow> do { f \<leftarrow> TimeForecast_of_wire a; l \<leftarrow> Level_of_wire b; Some \<lparr>ad_fcst = f, ad_level = l\<rparr> }
   | _ \<Rightarrow> None)"

lemmas serial_members [wire_simps] =
  level_wire.shaped [OF TrueI] level_wire.inverse [OF TrueI]
  forecast_wire.shaped [OF TrueI] forecast_wire.inverse [OF TrueI]
  param_wire.shaped [OF TrueI] param_wire.inverse [OF TrueI]
  common_wire.shaped [OF TrueI] common_wire.inverse [OF TrueI]

interpretation additional_wire: wire_type AdditionalExtractDataProperties_wire
    AdditionalExtractDataProperties_of_wire AdditionalExtractDataProperties_shape "\<lambda>m. True"
  by unfold_locales (simp_all add: AdditionalExtractDataProperties_wire_def AdditionalExtractDataProperties_shape_def
      AdditionalExtractDataProperties_of_wire_def wire_simps)

definition ExtractDataProperties_wire :: "ExtractDataProperties \<Rightarrow> 'l wire" where
  "ExtractDataProperties_wire m = W_struct [CommonDataProperties_wire (ed_cmn m), AdditionalExtractDataProperties_wire (ed_add m)]"

definition ExtractDataProperties_shape :: shape where
  "ExtractDataProperties_shape = S_struct [CommonDataProperties_shape, AdditionalExtractDataProperties_shape]"

definition ExtractDataProperties_of_wire :: "'l wire \<Rightarrow> ExtractDataProperties option" where
  "ExtractDataProperties_of_wire v = (case of_struct v of
     Some [a, b] \<Rightarrow> do {
       c \<leftarrow> CommonDataProperties_of_wire a;
       d \<leftarrow> AdditionalExtractDataProperties_of_wire b;
       Some \<lparr>ed_add = d, ed_cmn = c\<rparr>}
   | _ \<Rightarrow> None)"

interpretation extract_key_wire: wire_type ExtractDataProperties_wire ExtractDataProperties_of_wire
    ExtractDataProperties_shape "\<lambda>m. True"
  by unfold_locales (simp_all add: ExtractDataProperties_wire_def ExtractDataProperties_shape_def
      ExtractDataProperties_of_wire_def wire_simps additional_wire.shaped additional_wire.inverse)

section \<open>Searches\<close>

text \<open>
  The parameters are a hash set; they are written in its order of iteration, which is the argument
  \<open>order\<close>.
\<close>

definition w_representation :: "RepresentationType \<Rightarrow> 'l wire" where
  "w_representation r = w_u8 (representation_code r)"

definition of_representation :: "'l wire \<Rightarrow> RepresentationType option" where
  "of_representation v = do { c \<leftarrow> of_u8 v; enum_of all_representations representation_code c }"

lemma representation_wire [wire_simps]:
  "has_shape (S_leaf LK_u8) (w_representation r)" "of_representation (w_representation r) = Some r"
  by (simp_all add: w_representation_def of_representation_def wire_simps)

definition SearchProperties_wire ::
    "(SearchParamTableVersion set \<Rightarrow> SearchParamTableVersion list) \<Rightarrow> SearchProperties \<Rightarrow> 'l wire" where
  "SearchProperties_wire order m = W_struct [
     w_vec SearchParamTableVersion_wire (order (parameters m)),
     w_opt TimeForecast_wire (fcst_unit m),
     w_opt w_u8 (search_center m),
     w_time (from_date m),
     w_time (to_date m),
     w_opt w_representation (grid_type m),
     w_opt w_coord (position m),
     w_opt Level_wire (search_level m)]"

definition SearchProperties_shape :: shape where
  "SearchProperties_shape = S_struct [S_vec SearchParamTableVersion_shape, S_opt TimeForecast_shape,
     S_opt (S_leaf LK_u8), S_leaf LK_time, S_leaf LK_time, S_opt (S_leaf LK_u8), S_opt (S_leaf LK_coord),
     S_opt Level_shape]"

definition SearchProperties_of_wire :: "'l wire \<Rightarrow> SearchProperties option" where
  "SearchProperties_of_wire v = (case of_struct v of
     Some [a, b, c, d, e, f, g, h] \<Rightarrow> do {
       ps \<leftarrow> of_vec SearchParamTableVersion_of_wire a;
       fc \<leftarrow> of_opt TimeForecast_of_wire b;
       ce \<leftarrow> of_opt of_u8 c;
       fr \<leftarrow> of_time d;
       to \<leftarrow> of_time e;
       gr \<leftarrow> of_opt of_representation f;
       po \<leftarrow> of_opt of_coord g;
       le \<leftarrow> of_opt Level_of_wire h;
       Some \<lparr>parameters = set ps, from_date = fr, to_date = to, position = po, grid_type = gr,
         search_center = ce, fcst_unit = fc, search_level = le\<rparr>}
   | _ \<Rightarrow> None)"

definition search_storable :: "(SearchParamTableVersion set \<Rightarrow> SearchParamTableVersion list) \<Rightarrow> SearchProperties \<Rightarrow> bool" where
  "search_storable order m \<longleftrightarrow> set (order (parameters m)) = parameters m \<and>
     storable_time (from_date m) \<and> storable_time (to_date m)"

lemma list_all_True [simp]: "list_all (\<lambda>x. True) xs"
  by (induction xs) simp_all

interpretation search_wire: wire_type "SearchProperties_wire order" SearchProperties_of_wire SearchProperties_shape
    "search_storable order" for order
  by unfold_locales (simp_all add: SearchProperties_wire_def SearchProperties_shape_def SearchProperties_of_wire_def
      search_storable_def wire_simps)

section \<open>Paths\<close>

definition FILE_wire :: "int \<Rightarrow> 'l wire" where "FILE_wire t = W_struct [w_time t]"
definition FILE_shape :: shape where "FILE_shape = S_struct [S_leaf LK_time]"
definition FILE_of_wire :: "'l wire \<Rightarrow> Additional option" where
  "FILE_of_wire v = (case of_struct v of Some [a] \<Rightarrow> map_option Additional_FILE (of_time a) | _ \<Rightarrow> None)"

definition DIRECTORY_wire :: "int \<Rightarrow> 'l wire" where "DIRECTORY_wire t = W_struct [w_time t]"
definition DIRECTORY_shape :: shape where "DIRECTORY_shape = S_struct [S_leaf LK_time]"
definition DIRECTORY_of_wire :: "'l wire \<Rightarrow> Additional option" where
  "DIRECTORY_of_wire v = (case of_struct v of Some [a] \<Rightarrow> map_option Additional_DIRECTORY (of_time a) | _ \<Rightarrow> None)"

definition HOST_wire :: "int \<Rightarrow> u16 \<Rightarrow> 'l wire" where "HOST_wire t p = W_struct [w_u16 p, w_time t]"
definition HOST_shape :: shape where "HOST_shape = S_struct [S_leaf LK_u16, S_leaf LK_time]"
definition HOST_of_wire :: "'l wire \<Rightarrow> Additional option" where
  "HOST_of_wire v = (case of_struct v of
     Some [a, b] \<Rightarrow> do { p \<leftarrow> of_u16 a; t \<leftarrow> of_time b; Some (Additional_HOST t p) } | _ \<Rightarrow> None)"

primrec Additional_wire :: "Additional \<Rightarrow> 'l wire" where
  "Additional_wire Additional_none = W_variant 0 (W_struct [])"
| "Additional_wire (Additional_HOST t p) = W_variant 1 (HOST_wire t p)"
| "Additional_wire (Additional_DIRECTORY t) = W_variant 2 (DIRECTORY_wire t)"
| "Additional_wire (Additional_FILE t) = W_variant 3 (FILE_wire t)"

definition Additional_shape :: shape where
  "Additional_shape = S_variant [S_struct [], HOST_shape, DIRECTORY_shape, FILE_shape]"

fun Additional_of_wire :: "'l wire \<Rightarrow> Additional option" where
  "Additional_of_wire (W_variant n w) = (if n = 0 then (if w = W_struct [] then Some Additional_none else None)
     else if n = 1 then HOST_of_wire w
     else if n = 2 then DIRECTORY_of_wire w
     else if n = 3 then FILE_of_wire w else None)"
| "Additional_of_wire v = None"

lemmas additional_wires = FILE_wire_def DIRECTORY_wire_def HOST_wire_def FILE_shape_def DIRECTORY_shape_def HOST_shape_def
  FILE_of_wire_def DIRECTORY_of_wire_def HOST_of_wire_def

primrec additional_storable :: "Additional \<Rightarrow> bool" where
  "additional_storable Additional_none = True"
| "additional_storable (Additional_HOST t p) = storable_time t"
| "additional_storable (Additional_DIRECTORY t) = storable_time t"
| "additional_storable (Additional_FILE t) = storable_time t"

lemma additional_member [wire_simps]:
  "has_shape Additional_shape (Additional_wire a) \<longleftrightarrow> additional_storable a"
  "Additional_of_wire (Additional_wire a) = Some a"
  by (cases a; simp add: Additional_shape_def additional_wires wire_simps) (cases a; simp add: additional_wires wire_simps)

definition w_path_type :: "path_type \<Rightarrow> 'l wire" where
  "w_path_type t = w_u8 (of_nat (path_type_value t))"

definition of_path_type :: "'l wire \<Rightarrow> path_type option" where
  "of_path_type v = do { c \<leftarrow> of_u8 v; find (\<lambda>t. of_nat (path_type_value t) = c) [DIRECTORY, FILE, HOST] }"

lemma path_type_wire [wire_simps]:
  "has_shape (S_leaf LK_u8) (w_path_type t)" "of_path_type (w_path_type t) = Some t"
  by (simp_all add: w_path_type_def of_path_type_def wire_simps) (cases t; simp)

definition Storage_wire :: "Storage \<Rightarrow> 'l wire" where
  "Storage_wire m = W_struct [w_path_type (st_type m), w_text (st_path m), Additional_wire (st_add m)]"

definition Storage_shape :: shape where
  "Storage_shape = S_struct [S_leaf LK_u8, S_leaf LK_string, Additional_shape]"

definition Storage_of_wire :: "'l wire \<Rightarrow> Storage option" where
  "Storage_of_wire v = (case of_struct v of
     Some [a, b, c] \<Rightarrow> do {
       t \<leftarrow> of_path_type a;
       p \<leftarrow> of_text b;
       d \<leftarrow> Additional_of_wire c;
       Some \<lparr>st_add = d, st_path = p, st_type = t\<rparr>}
   | _ \<Rightarrow> None)"

interpretation storage_wire: wire_type Storage_wire Storage_of_wire Storage_shape "\<lambda>m. additional_storable (st_add m)"
  by unfold_locales (simp_all add: Storage_wire_def Storage_shape_def Storage_of_wire_def wire_simps)

end
