(* ===== verification/Search_Sizes.thy ===== *)
theory Search_Sizes
  imports Serial_Types
begin

text \<open>
  The sizes of a search on the wire: the lists of members in \<^verbatim>\<open>Serial_size\<close>, \<^verbatim>\<open>Min_serial_size\<close> and
  \<^verbatim>\<open>Max_serial_size\<close> of \<^verbatim>\<open>SearchProperties\<close> and of the structures it holds, each written out as its
  specialization has it, apart from the list that \<^verbatim>\<open>Serialize\<close> writes (theory \<open>Serial_Types\<close>).
  \<^verbatim>\<open>serial_size(a, b, ...)\<close> adds up the sizes of its arguments; those of numbers, time points, optional
  values and containers are OsterLib's (\<open>size_lib\<close>).
\<close>

section \<open>The lists of members\<close>

definition SearchParamTableVersion_size :: "'l size_lib \<Rightarrow> SearchParamTableVersion \<Rightarrow> nat" where
  "SearchParamTableVersion_size S m = leaf_size S (L_u8 (sp_param m)) + leaf_size S (L_u8 (sp_t_ver m))"

definition SearchParamTableVersion_min :: "'l size_lib \<Rightarrow> nat" where
  "SearchParamTableVersion_min S = leaf_min S LK_u8 + leaf_min S LK_u8"

definition SearchParamTableVersion_max :: "'l size_lib \<Rightarrow> enat" where
  "SearchParamTableVersion_max S = leaf_max S LK_u8 + leaf_max S LK_u8"

definition TimeForecast_size :: "'l size_lib \<Rightarrow> TimeForecast \<Rightarrow> nat" where
  "TimeForecast_size S m = leaf_size S (L_u16 (N_avg m)) + leaf_size S (L_u8 (N_avg_acc_missed m)) +
     leaf_size S (L_u8 (P1_val m)) + leaf_size S (L_u8 (P2_val m)) + leaf_size S (L_u8 (tf_code m)) +
     leaf_size S (L_u32 (ucast (tri_code m)))"

definition TimeForecast_min :: "'l size_lib \<Rightarrow> nat" where
  "TimeForecast_min S = leaf_min S LK_u16 + leaf_min S LK_u8 + leaf_min S LK_u8 + leaf_min S LK_u8 +
     leaf_min S LK_u8 + leaf_min S LK_u32"

definition TimeForecast_max :: "'l size_lib \<Rightarrow> enat" where
  "TimeForecast_max S = leaf_max S LK_u16 + leaf_max S LK_u8 + leaf_max S LK_u8 + leaf_max S LK_u8 +
     leaf_max S LK_u8 + leaf_max S LK_u32"

definition Level_size :: "'l size_lib \<Rightarrow> Level \<Rightarrow> nat" where
  "Level_size S m = leaf_size S (L_u8 (level_type m)) + leaf_size S (L_u8 (octet_11 m)) + leaf_size S (L_u8 (octet_12 m))"

definition Level_min :: "'l size_lib \<Rightarrow> nat" where
  "Level_min S = leaf_min S LK_u8 + leaf_min S LK_u8 + leaf_min S LK_u8"

definition Level_max :: "'l size_lib \<Rightarrow> enat" where
  "Level_max S = leaf_max S LK_u8 + leaf_max S LK_u8 + leaf_max S LK_u8"

text \<open>The parameters are a hash set, \<open>order\<close> its order of iteration.\<close>

definition SearchProperties_size ::
    "'l size_lib \<Rightarrow> (SearchParamTableVersion set \<Rightarrow> SearchParamTableVersion list) \<Rightarrow> SearchProperties \<Rightarrow> nat" where
  "SearchProperties_size S order m =
     vec_size S (map (SearchParamTableVersion_size S) (order (parameters m))) +
     opt_size S (map_option (TimeForecast_size S) (fcst_unit m)) +
     opt_size S (map_option (leaf_size S \<circ> L_u8) (search_center m)) +
     leaf_size S (L_time (from_date m)) +
     leaf_size S (L_time (to_date m)) +
     opt_size S (map_option (leaf_size S \<circ> L_u8 \<circ> representation_code) (grid_type m)) +
     opt_size S (map_option (leaf_size S \<circ> L_coord) (position m)) +
     opt_size S (map_option (Level_size S) (search_level m))"

definition SearchProperties_min :: "'l size_lib \<Rightarrow> nat" where
  "SearchProperties_min S =
     vec_min S (SearchParamTableVersion_min S) +
     opt_min S (TimeForecast_min S) +
     opt_min S (leaf_min S LK_u8) +
     leaf_min S LK_time +
     leaf_min S LK_time +
     opt_min S (leaf_min S LK_u8) +
     opt_min S (leaf_min S LK_coord) +
     opt_min S (Level_min S)"

definition SearchProperties_max :: "'l size_lib \<Rightarrow> enat" where
  "SearchProperties_max S =
     vec_max S (SearchParamTableVersion_max S) +
     opt_max S (TimeForecast_max S) +
     opt_max S (leaf_max S LK_u8) +
     leaf_max S LK_time +
     leaf_max S LK_time +
     opt_max S (leaf_max S LK_u8) +
     opt_max S (leaf_max S LK_coord) +
     opt_max S (Level_max S)"

section \<open>The lists agree with what is written\<close>

named_theorems size_simps

lemma member_sizes [size_simps]:
  "value_size S (SearchParamTableVersion_wire p) = SearchParamTableVersion_size S p"
  "value_size S (TimeForecast_wire f) = TimeForecast_size S f"
  "value_size S (Level_wire l) = Level_size S l"
  by (simp_all add: SearchParamTableVersion_wire_def SearchParamTableVersion_size_def TimeForecast_wire_def
      TimeForecast_size_def Level_wire_def Level_size_def w_u8_def w_u16_def w_u32_def)

lemma member_limits [size_simps]:
  "min_size S SearchParamTableVersion_shape = SearchParamTableVersion_min S"
  "max_size S SearchParamTableVersion_shape = SearchParamTableVersion_max S"
  "min_size S TimeForecast_shape = TimeForecast_min S" "max_size S TimeForecast_shape = TimeForecast_max S"
  "min_size S Level_shape = Level_min S" "max_size S Level_shape = Level_max S"
  by (simp_all add: SearchParamTableVersion_shape_def SearchParamTableVersion_min_def SearchParamTableVersion_max_def
      TimeForecast_shape_def TimeForecast_min_def TimeForecast_max_def Level_shape_def Level_min_def Level_max_def
      add.assoc)

lemma search_written: "value_size S (SearchProperties_wire order m) = SearchProperties_size S order m"
  by (simp add: SearchProperties_wire_def SearchProperties_size_def size_simps w_vec_def w_opt_def w_time_def
      w_u8_def w_coord_def w_representation_def option.map_comp comp_def cong: map_cong option.map_cong)

lemma search_limits:
  "min_size S SearchProperties_shape = SearchProperties_min S"
  "max_size S SearchProperties_shape = SearchProperties_max S"
  by (simp_all add: SearchProperties_shape_def SearchProperties_min_def SearchProperties_max_def size_simps add.assoc)

section \<open>Properties\<close>

text \<open>
  C21: the size that \<^verbatim>\<open>Serial_size\<close> computes for a search is the number of octets that its \<^verbatim>\<open>Serialize\<close>
  writes, whatever the byte order, and lies between the sizes that \<^verbatim>\<open>Min_serial_size\<close> and
  \<^verbatim>\<open>Max_serial_size\<close> compute from the types of its members, provided that this holds of the numbers,
  time points, optional values and containers of OsterLib.
\<close>

theorem search_sizes:
  assumes "sizes_ok W S" "limits_ok S" "search_storable order m"
  shows "length (Serialize W net (SearchProperties_wire order) m) = SearchProperties_size S order m \<and>
    SearchProperties_min S \<le> SearchProperties_size S order m \<and>
    enat (SearchProperties_size S order m) \<le> SearchProperties_max S"
  using search_wire.size [OF assms(1), of net order m] search_wire.size_between [OF assms(2,3)]
  by (simp add: search_written search_limits)

definition example_search :: SearchProperties where
  "example_search = \<lparr>parameters = {\<lparr>sp_param = 11, sp_t_ver = 3\<rparr>}, from_date = 0, to_date = 5, position = None,
     grid_type = Some GAUSSIAN, search_center = Some 98, fcst_unit = None, search_level = Some (make_Level 100 3 232)\<rparr>"

text \<open>For the example, in a library that writes every number as that many octets.\<close>

theorem search_sizes_witness:
  "length (Serialize unary_wire False (SearchProperties_wire (\<lambda>ps. [\<lparr>sp_param = 11, sp_t_ver = 3\<rparr>])) example_search) =
     SearchProperties_size unary_sizes (\<lambda>ps. [\<lparr>sp_param = 11, sp_t_ver = 3\<rparr>]) example_search \<and>
   SearchProperties_min unary_sizes \<le>
     SearchProperties_size unary_sizes (\<lambda>ps. [\<lparr>sp_param = 11, sp_t_ver = 3\<rparr>]) example_search"
proof -
  have "search_storable (\<lambda>ps. [\<lparr>sp_param = 11, sp_t_ver = 3\<rparr>]) example_search"
    by (simp add: search_storable_def example_search_def storable_time_def)
  from search_sizes [OF unary_sizes_ok unary_limits_ok this] show ?thesis by blast
qed

end
