(* ===== verification/Net_Types.thy ===== *)
theory Net_Types
  imports Serial_Types
begin

text \<open>
  The contents of the network messages (\<^verbatim>\<open>include/network/client/message\<close> and
  \<^verbatim>\<open>include/network/server/message\<close>): the structures, the constructors and assignments that carry
  only some of their members, and the members that are serialized.  A member that no constructor
  initialises is \<^term>\<open>None\<close> until it is assigned; serializing it is undefined.
\<close>

section \<open>Enumerations\<close>

datatype Side = SERVER | CLIENT

definition sent_from :: "Side \<Rightarrow> Side" where
  "sent_from s = (case s of SERVER \<Rightarrow> CLIENT | CLIENT \<Rightarrow> SERVER)"

datatype Status = READY | SUSPENDED | INACTIVE
datatype Transaction = ACCEPT | DECLINE | CANCEL
datatype Process = NOTHING | SEARCH | EXTRACT | PREPARE | SENDING

primrec status_value :: "Status \<Rightarrow> 32 word" where
  "status_value READY = 0" | "status_value SUSPENDED = 1" | "status_value INACTIVE = 2"

primrec transaction_value :: "Transaction \<Rightarrow> 32 word" where
  "transaction_value ACCEPT = 0" | "transaction_value DECLINE = 1" | "transaction_value CANCEL = 2"

primrec process_value :: "Process \<Rightarrow> u8" where
  "process_value NOTHING = 0" | "process_value SEARCH = 1" | "process_value EXTRACT = 2"
| "process_value PREPARE = 3" | "process_value SENDING = 4"

text \<open>
  The numbers of the messages.  Each side's messages are the alternatives of a variant, after
  \<^verbatim>\<open>std::monostate\<close>.
\<close>

datatype Server_MsgT = DATA_REPLY_FILEINFO | SERVER_STATUS | DATA_REPLY_INDEX | ERROR | PROGRESS
  | DATA_REPLY_FILEPART | VERSION | DATA_REPLY_INDEX_REF | DATA_REPLY_EXTRACT

datatype Client_MsgT = DATA_REQUEST | STATUS_REQUEST | INDEX | INDEX_REF | TRANSACTION

definition server_messages :: "Server_MsgT list" where
  "server_messages = [DATA_REPLY_FILEINFO, SERVER_STATUS, DATA_REPLY_INDEX, ERROR, PROGRESS,
     DATA_REPLY_FILEPART, VERSION, DATA_REPLY_INDEX_REF, DATA_REPLY_EXTRACT]"

definition client_messages :: "Client_MsgT list" where
  "client_messages = [DATA_REQUEST, STATUS_REQUEST, INDEX, INDEX_REF, TRANSACTION]"

definition w_status :: "Status \<Rightarrow> 'l wire" where "w_status s = w_int32 (status_value s)"
definition of_status :: "'l wire \<Rightarrow> Status option" where
  "of_status v = do { c \<leftarrow> of_int32 v; find (\<lambda>s. status_value s = c) [READY, SUSPENDED, INACTIVE] }"

definition w_transaction :: "Transaction \<Rightarrow> 'l wire" where "w_transaction s = w_int32 (transaction_value s)"
definition of_transaction :: "'l wire \<Rightarrow> Transaction option" where
  "of_transaction v = do { c \<leftarrow> of_int32 v; find (\<lambda>s. transaction_value s = c) [ACCEPT, DECLINE, CANCEL] }"

definition w_process :: "Process \<Rightarrow> 'l wire" where "w_process s = w_u8 (process_value s)"
definition of_process :: "'l wire \<Rightarrow> Process option" where
  "of_process v = do { c \<leftarrow> of_u8 v; find (\<lambda>s. process_value s = c) [NOTHING, SEARCH, EXTRACT, PREPARE, SENDING] }"

lemma enum_wires [wire_simps]:
  "has_shape (S_leaf LK_int) (w_status s)" "of_status (w_status s) = Some s"
  "has_shape (S_leaf LK_int) (w_transaction t)" "of_transaction (w_transaction t) = Some t"
  "has_shape (S_leaf LK_u8) (w_process p)" "of_process (w_process p) = Some p"
proof -
  show "of_status (w_status s) = Some s"
    by (cases s) (simp_all add: w_status_def of_status_def wire_simps)
  show "of_transaction (w_transaction t) = Some t"
    by (cases t) (simp_all add: w_transaction_def of_transaction_def wire_simps)
  show "of_process (w_process p) = Some p"
    by (cases p) (simp_all add: w_process_def of_process_def wire_simps)
qed (simp_all add: w_status_def w_transaction_def w_process_def wire_simps)

text \<open>\<^verbatim>\<open>ErrorCode\<close> is an enumeration over \<^verbatim>\<open>uint8_t\<close> with consecutive values.\<close>

definition all_error_codes :: "ErrorCode list" where
  "all_error_codes = [EC_NONE, EC_INTERNAL_ERROR, EC_INCORRECT_DATE_INTERVAL, EC_INCORRECT_DATE,
     EC_INCORRECT_COORD, EC_INCORRECT_RECT, EC_COMMAND_INPUT_X1_ERROR, EC_TO_FEW_ARGUMENTS,
     EC_TO_MANY_ARGUMENTS, EC_INCOR_ARG_X1_ALREADY_CHOOSEN_MODE_X2, EC_CREATE_DIR_X1_DENIED,
     EC_FILE_X1_PERM_DENIED, EC_TRY_OPEN_NOT_FILE_X1, EC_CANNOT_ACCESS_PATH_X1, EC_FILE_X1_DONT_EXISTS,
     EC_CANNOT_OPEN_FILE_X1, EC_INVALID_PATH_OF_DIRECTORIES_X1, EC_X1_IS_NOT_DIRECTORY, EC_X1_IS_NOT_FILE,
     EC_IGNORING_VALUE_X1, EC_ALREADY_EXISTING_CONFIG_NAME, EC_CONFIG_NAME_DOESNT_EXISTS_X1,
     EC_DIRECTORY_X1_DONT_EXISTS, EC_UNKNOWN_X1_FORMAT_FILE, EC_UNKNOWN_FORMAT_FILE, EC_UNDEFINED_VALUE,
     EC_INTEGRITY_VIOLATED, EC_INVALID_INDEX_ORDER, EC_INVALID_HOST_X1, EC_CONNECTION_ERROR,
     EC_CONNECTION_ERROR_WITH_X1, EC_INVALID_CLIENT_REQUEST, EC_SENDING_MESSAGE_ERROR, EC_CONNECTION_CLOSED,
     EC_INTERRUPTED, EC_RECEIVING_MESSAGE_ERROR, EC_X1_IS_NOT_REGULAR_FILE_OR_DIRECTORY,
     EC_INVALID_VALUE_X1_OF_PARAMETER_X2, EC_INVALID_ARGUMENT, EC_TRANSACTION_REFUSED,
     EC_INVALID_CREDENTIALS, EC_DESERIALIZATION_ERROR, EC_SERIALIZATION_ERROR, EC_SERVER_ERROR,
     EC_DATA_NOT_FOUND, EC_BUFFER_LOW_SIZE, EC_TIMEOUT, EC_FILE_X1_CORRUPTED_OR_INVALID_FORMAT,
     EC_VERSION_ERROR_X1, EC_FILE_X1_READING_ERROR]"

definition error_value :: "ErrorCode \<Rightarrow> u8" where
  "error_value e = of_nat (length (takeWhile (\<lambda>x. x \<noteq> e) all_error_codes))"

definition w_error :: "ErrorCode \<Rightarrow> 'l wire" where "w_error e = w_u8 (error_value e)"
definition of_error :: "'l wire \<Rightarrow> ErrorCode option" where
  "of_error v = do { c \<leftarrow> of_u8 v;
     if unat c < length all_error_codes then Some (all_error_codes ! unat c) else None }"

lemma error_wire [wire_simps]: "has_shape (S_leaf LK_u8) (w_error e)" "of_error (w_error e) = Some e"
proof -
  have "of_error (w_u8 (error_value e)) = Some e"
    by (cases e; simp add: of_error_def error_value_def all_error_codes_def wire_simps)
  then show "has_shape (S_leaf LK_u8) (w_error e)" "of_error (w_error e) = Some e"
    by (simp_all add: w_error_def wire_simps)
qed

end
