(* ===== verification/Net_Contents.thy ===== *)
theory Net_Contents
  imports Net_Types Floating
begin

text \<open>
  What the messages carry: the specializations of \<^verbatim>\<open>MessageAdditional\<close>
  (\<^verbatim>\<open>include/network/server/message\<close>, \<^verbatim>\<open>include/network/client/message\<close>) with their constructors,
  their copies and assignments, and their serialized members.  A member that a constructor leaves
  uninitialised is \<^term>\<open>None\<close>; a copy constructor that lists only some members leaves the others
  so.  Moving a member carries its value; the object moved from is not read again by this code.
\<close>

section \<open>The contract of a content\<close>

text \<open>
  The receiver's object is default-constructed and the serialized members are assigned, so what
  arrives (\<open>received\<close>) may differ from what was sent in the members that are not serialized.
\<close>

locale content_type =
  fixes to_wire :: "'a \<Rightarrow> 'l wire" and of_wire :: "'l wire \<Rightarrow> 'a option" and shape :: shape
    and received :: "'a \<Rightarrow> 'a" and ok :: "'a \<Rightarrow> bool"
  assumes content_shaped: "ok x \<Longrightarrow> has_shape shape (to_wire x)"
    and content_received: "ok x \<Longrightarrow> of_wire (to_wire x) = Some (received x)"
begin

lemma received_from_octets:
  assumes "wire_lib_ok W" "ok x"
  shows "Deserialize W net shape of_wire (Serialize W net to_wire x @ r) = Some (received x, r)"
  using reads_value [OF assms(1) content_shaped [OF assms(2)], of net] content_received [OF assms(2)]
  by (simp add: Deserialize_def Serialize_def reads_def)

end

sublocale wire_type \<subseteq> content: content_type to_wire of_wire shape "\<lambda>x. x" ok
  by unfold_locales (rule shaped, assumption, rule inverse, assumption)

text \<open>A status that no constructor set has no value; serializing it is undefined.\<close>

definition w_member :: "Status option \<Rightarrow> 'l wire" where
  "w_member s = w_status (case s of Some t \<Rightarrow> t | None \<Rightarrow> READY)"

lemma member_wire [wire_simps]:
  "has_shape (S_leaf LK_int) (w_member s)" "s \<noteq> None \<Longrightarrow> map_option Some (of_status (w_member s)) = Some s"
  by (auto simp: w_member_def wire_simps)

definition of_member :: "'l wire \<Rightarrow> Status option option" where
  "of_member v = map_option Some (of_status v)"

lemma of_member_w [wire_simps]: "s \<noteq> None \<Longrightarrow> of_member (w_member s) = Some s"
  unfolding of_member_def by (rule member_wire(2))

section \<open>Files\<close>

record FileInfo =
  fi_status :: "Status option"
  fi_filename :: string
  fi_offset :: "u64 option"
  fi_file_sz :: u64
  fi_file_hash :: u64

definition FileInfo_default :: FileInfo where
  "FileInfo_default = \<lparr>fi_status = Some READY, fi_filename = [], fi_offset = Some 0, fi_file_sz = 0, fi_file_hash = 0\<rparr>"

definition FileInfo_of :: "Status \<Rightarrow> string \<Rightarrow> u64 \<Rightarrow> u64 \<Rightarrow> FileInfo" where
  "FileInfo_of status file_path offset bytes =
     \<lparr>fi_status = Some status, fi_filename = file_path, fi_offset = Some offset, fi_file_sz = bytes, fi_file_hash = 0\<rparr>"

definition FileInfo_copy :: "FileInfo \<Rightarrow> FileInfo" where
  "FileInfo_copy m = \<lparr>fi_status = fi_status m, fi_filename = fi_filename m, fi_offset = None,
     fi_file_sz = fi_file_sz m, fi_file_hash = 0\<rparr>"

definition FileInfo_assign :: "FileInfo \<Rightarrow> FileInfo \<Rightarrow> FileInfo" where
  "FileInfo_assign this m = this\<lparr>fi_status := fi_status m, fi_filename := fi_filename m, fi_file_sz := fi_file_sz m\<rparr>"

definition FileInfo_wire :: "FileInfo \<Rightarrow> 'l wire" where
  "FileInfo_wire m = W_struct [w_member (fi_status m), w_text (fi_filename m), w_u64 (fi_file_sz m)]"

definition FileInfo_shape :: shape where
  "FileInfo_shape = S_struct [S_leaf LK_int, S_leaf LK_string, S_leaf LK_u64]"

definition FileInfo_of_wire :: "'l wire \<Rightarrow> FileInfo option" where
  "FileInfo_of_wire v = (case of_struct v of
     Some [a, b, c] \<Rightarrow> do {
       s \<leftarrow> of_member a;
       n \<leftarrow> of_text b;
       z \<leftarrow> of_u64 c;
       Some (FileInfo_default\<lparr>fi_status := s, fi_filename := n, fi_file_sz := z\<rparr>)}
   | _ \<Rightarrow> None)"

definition FileInfo_received :: "FileInfo \<Rightarrow> FileInfo" where
  "FileInfo_received m = m\<lparr>fi_offset := Some 0, fi_file_hash := 0\<rparr>"

interpretation finfo_wire: content_type FileInfo_wire FileInfo_of_wire FileInfo_shape FileInfo_received
    "\<lambda>m. fi_status m \<noteq> None"
  by unfold_locales (auto simp: FileInfo_wire_def FileInfo_shape_def FileInfo_of_wire_def FileInfo_received_def
      FileInfo_default_def wire_simps)

record ExtractReply =
  er_status :: "Status option"
  er_filename :: string
  er_file_sz :: u64

definition ExtractReply_default :: ExtractReply where
  "ExtractReply_default = \<lparr>er_status = Some READY, er_filename = [], er_file_sz = 0\<rparr>"

text \<open>
  The constructor throws for an empty path and for one that is not a regular file
  (\<open>is_regular_file\<close>); the size of the file is not set.
\<close>

definition ExtractReply_of :: "(string \<Rightarrow> bool) \<Rightarrow> string \<Rightarrow> Status \<Rightarrow> ErrorCode + ExtractReply" where
  "ExtractReply_of is_regular_file file_path status =
     (if file_path = [] then Inl EC_INVALID_ARGUMENT
      else if is_regular_file file_path then Inr \<lparr>er_status = Some status, er_filename = file_path, er_file_sz = 0\<rparr>
      else Inl EC_FILE_X1_DONT_EXISTS)"

definition ExtractReply_copy :: "ExtractReply \<Rightarrow> ExtractReply" where
  "ExtractReply_copy m = \<lparr>er_status = er_status m, er_filename = er_filename m, er_file_sz = er_file_sz m\<rparr>"

definition ExtractReply_wire :: "ExtractReply \<Rightarrow> 'l wire" where
  "ExtractReply_wire m = W_struct [w_member (er_status m), w_text (er_filename m), w_u64 (er_file_sz m)]"

definition ExtractReply_shape :: shape where
  "ExtractReply_shape = S_struct [S_leaf LK_int, S_leaf LK_string, S_leaf LK_u64]"

definition ExtractReply_of_wire :: "'l wire \<Rightarrow> ExtractReply option" where
  "ExtractReply_of_wire v = (case of_struct v of
     Some [a, b, c] \<Rightarrow> do {
       s \<leftarrow> of_member a;
       n \<leftarrow> of_text b;
       z \<leftarrow> of_u64 c;
       Some \<lparr>er_status = s, er_filename = n, er_file_sz = z\<rparr>}
   | _ \<Rightarrow> None)"

interpretation extract_wire: wire_type ExtractReply_wire ExtractReply_of_wire ExtractReply_shape
    "\<lambda>m. er_status m \<noteq> None"
  by unfold_locales (auto simp: ExtractReply_wire_def ExtractReply_shape_def ExtractReply_of_wire_def wire_simps)

record FilePart =
  fp_status :: "Status option"
  fp_offset :: u64
  fp_file_hash :: u64
  fp_data :: "u8 list"

definition FilePart_default :: FilePart where
  "FilePart_default = \<lparr>fp_status = Some READY, fp_offset = 0, fp_file_hash = 0, fp_data = []\<rparr>"

definition FilePart_copy :: "FilePart \<Rightarrow> FilePart" where
  "FilePart_copy m = \<lparr>fp_status = fp_status m, fp_offset = fp_offset m, fp_file_hash = fp_file_hash m, fp_data = fp_data m\<rparr>"

text \<open>The assignments leave the data of the assigned object as they were.\<close>

definition FilePart_assign :: "FilePart \<Rightarrow> FilePart \<Rightarrow> FilePart" where
  "FilePart_assign this m = this\<lparr>fp_status := fp_status m, fp_offset := fp_offset m, fp_file_hash := fp_file_hash m\<rparr>"

text \<open>
  \<open>memory\<close> is the mapping that the pointer is the start of; reading behind its end is undefined.
\<close>

definition assign_file_segment :: "u8 list \<Rightarrow> nat \<Rightarrow> FilePart \<Rightarrow> FilePart option" where
  "assign_file_segment memory n m = (if n \<le> length memory then Some (m\<lparr>fp_data := take n memory\<rparr>) else None)"

definition FilePart_wire :: "FilePart \<Rightarrow> 'l wire" where
  "FilePart_wire m = W_struct [w_member (fp_status m), w_u64 (fp_offset m), w_u64 (fp_file_hash m), w_vec w_u8 (fp_data m)]"

definition FilePart_shape :: shape where
  "FilePart_shape = S_struct [S_leaf LK_int, S_leaf LK_u64, S_leaf LK_u64, S_vec (S_leaf LK_u8)]"

definition FilePart_of_wire :: "'l wire \<Rightarrow> FilePart option" where
  "FilePart_of_wire v = (case of_struct v of
     Some [a, b, c, d] \<Rightarrow> do {
       s \<leftarrow> of_member a;
       n \<leftarrow> of_u64 b;
       h \<leftarrow> of_u64 c;
       x \<leftarrow> of_vec of_u8 d;
       Some \<lparr>fp_status = s, fp_offset = n, fp_file_hash = h, fp_data = x\<rparr>}
   | _ \<Rightarrow> None)"

interpretation fpart_wire: wire_type FilePart_wire FilePart_of_wire FilePart_shape "\<lambda>m. fp_status m \<noteq> None"
  by unfold_locales (auto simp: FilePart_wire_def FilePart_shape_def FilePart_of_wire_def wire_simps)

section \<open>Status, error, progress, version\<close>

record StatusReply =
  sr_status :: Status

text \<open>The constructor does not use its argument.\<close>

definition StatusReply_of :: "Status \<Rightarrow> StatusReply" where
  "StatusReply_of status = \<lparr>sr_status = READY\<rparr>"

definition StatusReply_wire :: "StatusReply \<Rightarrow> 'l wire" where
  "StatusReply_wire m = W_struct [w_status (sr_status m)]"

definition StatusReply_shape :: shape where
  "StatusReply_shape = S_struct [S_leaf LK_int]"

definition StatusReply_of_wire :: "'l wire \<Rightarrow> StatusReply option" where
  "StatusReply_of_wire v = (case of_struct v of
     Some [a] \<Rightarrow> do { s \<leftarrow> of_status a; Some \<lparr>sr_status = s\<rparr> }
   | _ \<Rightarrow> None)"

interpretation status_wire: wire_type StatusReply_wire StatusReply_of_wire StatusReply_shape "\<lambda>m. True"
  by unfold_locales (auto simp: StatusReply_wire_def StatusReply_shape_def StatusReply_of_wire_def wire_simps)

record ErrorReply =
  ee_status :: "Status option"
  ee_err :: ErrorCode

definition ErrorReply_default :: ErrorReply where
  "ErrorReply_default = \<lparr>ee_status = Some READY, ee_err = EC_NONE\<rparr>"

text \<open>The constructor takes a status and does not store it.\<close>

definition ErrorReply_of :: "ErrorCode \<Rightarrow> Status \<Rightarrow> ErrorReply" where
  "ErrorReply_of error_code status = \<lparr>ee_status = None, ee_err = error_code\<rparr>"

definition ErrorReply_wire :: "ErrorReply \<Rightarrow> 'l wire" where
  "ErrorReply_wire m = W_struct [w_member (ee_status m), w_error (ee_err m)]"

definition ErrorReply_shape :: shape where
  "ErrorReply_shape = S_struct [S_leaf LK_int, S_leaf LK_u8]"

definition ErrorReply_of_wire :: "'l wire \<Rightarrow> ErrorReply option" where
  "ErrorReply_of_wire v = (case of_struct v of
     Some [a, b] \<Rightarrow> do { s \<leftarrow> of_member a; e \<leftarrow> of_error b; Some \<lparr>ee_status = s, ee_err = e\<rparr> }
   | _ \<Rightarrow> None)"

interpretation error_reply_wire: wire_type ErrorReply_wire ErrorReply_of_wire ErrorReply_shape "\<lambda>m. ee_status m \<noteq> None"
  by unfold_locales (auto simp: ErrorReply_wire_def ErrorReply_shape_def ErrorReply_of_wire_def wire_simps)

record ProgressBase =
  progress_value :: rat
  server_process :: Process

record ProgressReply =
  pr_status :: "Status option"
  pr_prog :: ProgressBase

definition ProgressReply_of :: "ProgressBase \<Rightarrow> Status \<Rightarrow> ProgressReply" where
  "ProgressReply_of progress status = \<lparr>pr_status = Some status, pr_prog = progress\<rparr>"

definition ProgressReply_default :: ProgressReply where
  "ProgressReply_default = \<lparr>pr_status = Some READY, pr_prog = \<lparr>progress_value = 0, server_process = NOTHING\<rparr>\<rparr>"

definition ProgressBase_wire :: "ProgressBase \<Rightarrow> 'l wire" where
  "ProgressBase_wire m = W_struct [w_float (progress_value m), w_process (server_process m)]"

definition ProgressBase_shape :: shape where
  "ProgressBase_shape = S_struct [S_leaf LK_float, S_leaf LK_u8]"

definition ProgressBase_of_wire :: "'l wire \<Rightarrow> ProgressBase option" where
  "ProgressBase_of_wire v = (case of_struct v of
     Some [a, b] \<Rightarrow> do { x \<leftarrow> of_float a; p \<leftarrow> of_process b; Some \<lparr>progress_value = x, server_process = p\<rparr> }
   | _ \<Rightarrow> None)"

interpretation progress_base_wire: wire_type ProgressBase_wire ProgressBase_of_wire ProgressBase_shape
    "\<lambda>m. f32 (progress_value m) = progress_value m"
  by unfold_locales (auto simp: ProgressBase_wire_def ProgressBase_shape_def ProgressBase_of_wire_def wire_simps)

definition ProgressReply_wire :: "ProgressReply \<Rightarrow> 'l wire" where
  "ProgressReply_wire m = W_struct [w_member (pr_status m), ProgressBase_wire (pr_prog m)]"

definition ProgressReply_shape :: shape where
  "ProgressReply_shape = S_struct [S_leaf LK_int, ProgressBase_shape]"

definition ProgressReply_of_wire :: "'l wire \<Rightarrow> ProgressReply option" where
  "ProgressReply_of_wire v = (case of_struct v of
     Some [a, b] \<Rightarrow> do { s \<leftarrow> of_member a; p \<leftarrow> ProgressBase_of_wire b; Some \<lparr>pr_status = s, pr_prog = p\<rparr> }
   | _ \<Rightarrow> None)"

interpretation progress_wire: wire_type ProgressReply_wire ProgressReply_of_wire ProgressReply_shape
    "\<lambda>m. pr_status m \<noteq> None \<and> f32 (progress_value (pr_prog m)) = progress_value (pr_prog m)"
  by unfold_locales (auto simp: ProgressReply_wire_def ProgressReply_shape_def ProgressReply_of_wire_def wire_simps
      progress_base_wire.shaped progress_base_wire.inverse)

record VersionReply =
  ve_status :: "Status option"
  ve_version :: u64

definition VersionReply_of :: "u64 \<Rightarrow> Status \<Rightarrow> VersionReply" where
  "VersionReply_of version status = \<lparr>ve_status = Some status, ve_version = version\<rparr>"

definition VersionReply_default :: VersionReply where
  "VersionReply_default = \<lparr>ve_status = Some READY, ve_version = 0\<rparr>"

definition VersionReply_wire :: "VersionReply \<Rightarrow> 'l wire" where
  "VersionReply_wire m = W_struct [w_member (ve_status m), w_u64 (ve_version m)]"

definition VersionReply_shape :: shape where
  "VersionReply_shape = S_struct [S_leaf LK_int, S_leaf LK_u64]"

definition VersionReply_of_wire :: "'l wire \<Rightarrow> VersionReply option" where
  "VersionReply_of_wire v = (case of_struct v of
     Some [a, b] \<Rightarrow> do { s \<leftarrow> of_member a; n \<leftarrow> of_u64 b; Some \<lparr>ve_status = s, ve_version = n\<rparr> }
   | _ \<Rightarrow> None)"

interpretation version_wire: wire_type VersionReply_wire VersionReply_of_wire VersionReply_shape "\<lambda>m. ve_status m \<noteq> None"
  by unfold_locales (auto simp: VersionReply_wire_def VersionReply_shape_def VersionReply_of_wire_def wire_simps)

section \<open>What an index holds\<close>

text \<open>
  Found data: the shared pointers are optional values, the times are a value of the library.
\<close>

record 'l FoundAdditional =
  fa_grid :: "GridInfo option"
  fa_ts :: 'l
  fa_lvl :: "Level option"
  fa_fcst :: "TimeForecast option"

record 'l FoundInfo =
  fo_add :: "'l FoundAdditional"
  fo_cmn :: CommonDataProperties

definition FoundAdditional_wire :: "'l FoundAdditional \<Rightarrow> 'l wire" where
  "FoundAdditional_wire m = W_struct [w_sequence (fa_ts m), w_opt TimeForecast_wire (fa_fcst m),
     w_opt w_grid (fa_grid m), w_opt Level_wire (fa_lvl m)]"

definition FoundAdditional_shape :: shape where
  "FoundAdditional_shape = S_struct [S_leaf LK_sequence, S_opt TimeForecast_shape, S_opt grid_shape, S_opt Level_shape]"

definition FoundAdditional_of_wire :: "'l wire \<Rightarrow> 'l FoundAdditional option" where
  "FoundAdditional_of_wire v = (case of_struct v of
     Some [a, b, c, d] \<Rightarrow> do {
       ts \<leftarrow> of_sequence a;
       f \<leftarrow> of_opt TimeForecast_of_wire b;
       g \<leftarrow> of_opt of_grid c;
       l \<leftarrow> of_opt Level_of_wire d;
       Some \<lparr>fa_grid = g, fa_ts = ts, fa_lvl = l, fa_fcst = f\<rparr>}
   | _ \<Rightarrow> None)"

interpretation found_additional_wire: wire_type FoundAdditional_wire FoundAdditional_of_wire FoundAdditional_shape
    "\<lambda>m. pred_option definition_storable (fa_grid m)"
  by unfold_locales (simp_all add: FoundAdditional_wire_def FoundAdditional_shape_def FoundAdditional_of_wire_def wire_simps)

definition FoundInfo_wire :: "'l FoundInfo \<Rightarrow> 'l wire" where
  "FoundInfo_wire m = W_struct [CommonDataProperties_wire (fo_cmn m), FoundAdditional_wire (fo_add m)]"

definition FoundInfo_shape :: shape where
  "FoundInfo_shape = S_struct [CommonDataProperties_shape, FoundAdditional_shape]"

definition FoundInfo_of_wire :: "'l wire \<Rightarrow> 'l FoundInfo option" where
  "FoundInfo_of_wire v = (case of_struct v of
     Some [a, b] \<Rightarrow> do { c \<leftarrow> CommonDataProperties_of_wire a; d \<leftarrow> FoundAdditional_of_wire b; Some \<lparr>fo_add = d, fo_cmn = c\<rparr> }
   | _ \<Rightarrow> None)"

definition found_storable :: "'l FoundInfo \<Rightarrow> bool" where
  "found_storable m = pred_option definition_storable (fa_grid (fo_add m))"

interpretation found_wire: wire_type FoundInfo_wire FoundInfo_of_wire FoundInfo_shape found_storable
  by unfold_locales (simp_all add: FoundInfo_wire_def FoundInfo_shape_def FoundInfo_of_wire_def found_storable_def
      wire_simps found_additional_wire.shaped found_additional_wire.inverse)

text \<open>The result of a search is \<^verbatim>\<open>std::monostate\<close> (\<^term>\<open>None\<close>) or the found data.\<close>

type_synonym 'l IndexResult = "'l FoundInfo list option"

definition IndexResult_wire :: "'l IndexResult \<Rightarrow> 'l wire" where
  "IndexResult_wire r = (case r of None \<Rightarrow> W_variant 0 (W_struct [])
     | Some ds \<Rightarrow> W_variant 1 (W_struct [w_vec FoundInfo_wire ds]))"

definition IndexResult_shape :: shape where
  "IndexResult_shape = S_variant [S_struct [], S_struct [S_vec FoundInfo_shape]]"

fun IndexResult_of_wire :: "'l wire \<Rightarrow> 'l IndexResult option" where
  "IndexResult_of_wire (W_variant n w) = (case of_struct w of
      Some [] \<Rightarrow> if n = 0 then Some None else None
    | Some [a] \<Rightarrow> if n = 1 then map_option Some (of_vec FoundInfo_of_wire a) else None
    | _ \<Rightarrow> None)"
| "IndexResult_of_wire v = None"

interpretation found_list: wire_type "w_vec FoundInfo_wire" "of_vec FoundInfo_of_wire" "S_vec FoundInfo_shape"
    "list_all found_storable"
  by (rule wire_type_vec) unfold_locales

interpretation result_wire: wire_type IndexResult_wire IndexResult_of_wire IndexResult_shape
    "pred_option (list_all found_storable)"
  by unfold_locales (auto simp: IndexResult_wire_def IndexResult_shape_def found_list.shaped found_list.inverse
      split: option.splits)

end
