(* ===== verification/Net_Requests.thy ===== *)
theory Net_Requests
  imports Net_Contents
begin

text \<open>
  The contents that hold lists and forms: the server's index replies and the client's requests.
\<close>

section \<open>Index replies\<close>

record 'l IndexRefReply =
  ir_blocks :: "'l IndexResult list"
  ir_status :: "Status option"

definition IndexRefReply_default :: "'l IndexRefReply" where
  "IndexRefReply_default = \<lparr>ir_blocks = [], ir_status = Some READY\<rparr>"

text \<open>The copies carry the blocks; the status of the copy is not initialised.\<close>

definition IndexRefReply_copy :: "'l IndexRefReply \<Rightarrow> 'l IndexRefReply" where
  "IndexRefReply_copy m = \<lparr>ir_blocks = ir_blocks m, ir_status = None\<rparr>"

definition IndexRefReply_assign :: "'l IndexRefReply \<Rightarrow> 'l IndexRefReply \<Rightarrow> 'l IndexRefReply" where
  "IndexRefReply_assign this m = this\<lparr>ir_blocks := ir_blocks m\<rparr>"

definition add_block :: "'l FoundInfo list \<Rightarrow> 'l IndexRefReply \<Rightarrow> 'l IndexRefReply" where
  "add_block block m = m\<lparr>ir_blocks := ir_blocks m @ [Some block]\<rparr>"

definition IndexRefReply_wire :: "'l IndexRefReply \<Rightarrow> 'l wire" where
  "IndexRefReply_wire m = W_struct [w_vec IndexResult_wire (ir_blocks m), w_member (ir_status m)]"

definition IndexRefReply_shape :: shape where
  "IndexRefReply_shape = S_struct [S_vec IndexResult_shape, S_leaf LK_int]"

definition IndexRefReply_of_wire :: "'l wire \<Rightarrow> 'l IndexRefReply option" where
  "IndexRefReply_of_wire v = (case of_struct v of
     Some [a, b] \<Rightarrow> do { bs \<leftarrow> of_vec IndexResult_of_wire a; s \<leftarrow> of_member b; Some \<lparr>ir_blocks = bs, ir_status = s\<rparr> }
   | _ \<Rightarrow> None)"

definition blocks_storable :: "'l IndexRefReply \<Rightarrow> bool" where
  "blocks_storable m \<longleftrightarrow> list_all (pred_option (list_all found_storable)) (ir_blocks m) \<and> ir_status m \<noteq> None"

interpretation blocks_wire: wire_type "w_vec IndexResult_wire" "of_vec IndexResult_of_wire" "S_vec IndexResult_shape"
    "list_all (pred_option (list_all found_storable))"
  by (rule wire_type_vec) unfold_locales

interpretation index_ref_wire: wire_type IndexRefReply_wire IndexRefReply_of_wire IndexRefReply_shape blocks_storable
  by unfold_locales (auto simp: IndexRefReply_wire_def IndexRefReply_shape_def IndexRefReply_of_wire_def
      blocks_storable_def wire_simps blocks_wire.shaped blocks_wire.inverse simp del: has_shape_vec of_vec_w)

record 'l IndexReply =
  ix_ref :: "'l IndexRefReply"
  ix_filename :: string
  ix_file_sz :: u64

definition IndexReply_default :: "'l IndexReply" where
  "IndexReply_default = \<lparr>ix_ref = IndexRefReply_default, ix_filename = [], ix_file_sz = 0\<rparr>"

definition IndexReply_copy :: "'l IndexReply \<Rightarrow> 'l IndexReply" where
  "IndexReply_copy m = \<lparr>ix_ref = IndexRefReply_copy (ix_ref m), ix_filename = ix_filename m, ix_file_sz = ix_file_sz m\<rparr>"

definition IndexReply_assign :: "'l IndexReply \<Rightarrow> 'l IndexReply \<Rightarrow> 'l IndexReply" where
  "IndexReply_assign this m = \<lparr>ix_ref = IndexRefReply_assign (ix_ref this) (ix_ref m),
     ix_filename = ix_filename m, ix_file_sz = ix_file_sz m\<rparr>"

definition IndexReply_wire :: "'l IndexReply \<Rightarrow> 'l wire" where
  "IndexReply_wire m = W_struct [IndexRefReply_wire (ix_ref m), w_text (ix_filename m), w_u64 (ix_file_sz m)]"

definition IndexReply_shape :: shape where
  "IndexReply_shape = S_struct [IndexRefReply_shape, S_leaf LK_string, S_leaf LK_u64]"

definition IndexReply_of_wire :: "'l wire \<Rightarrow> 'l IndexReply option" where
  "IndexReply_of_wire v = (case of_struct v of
     Some [a, b, c] \<Rightarrow> do {
       r \<leftarrow> IndexRefReply_of_wire a;
       n \<leftarrow> of_text b;
       z \<leftarrow> of_u64 c;
       Some \<lparr>ix_ref = r, ix_filename = n, ix_file_sz = z\<rparr>}
   | _ \<Rightarrow> None)"

interpretation index_wire: wire_type IndexReply_wire IndexReply_of_wire IndexReply_shape "\<lambda>m. blocks_storable (ix_ref m)"
  by unfold_locales (simp_all add: IndexReply_wire_def IndexReply_shape_def IndexReply_of_wire_def
      wire_simps index_ref_wire.shaped index_ref_wire.inverse)

section \<open>Requests of data\<close>

text \<open>The flags of the output formats are kept as the number that holds them.\<close>

record 'l ExtractForm =
  search_props :: SearchProperties
  t_separation :: "'l option"
  file_fmt :: "u32 option"

definition SearchProperties_default :: "int \<Rightarrow> SearchProperties" where
  "SearchProperties_default now = \<lparr>parameters = {}, from_date = 0, to_date = now, position = None, grid_type = None,
     search_center = None, fcst_unit = None, search_level = None\<rparr>"

definition ExtractForm_default :: "int \<Rightarrow> 'l ExtractForm" where
  "ExtractForm_default now = \<lparr>search_props = SearchProperties_default now, t_separation = None, file_fmt = None\<rparr>"

definition ExtractForm_of :: "SearchProperties \<Rightarrow> 'l option \<Rightarrow> u32 option \<Rightarrow> 'l ExtractForm" where
  "ExtractForm_of sp t_sep fmt = \<lparr>search_props = sp, t_separation = t_sep, file_fmt = fmt\<rparr>"

text \<open>
  The move assignment moves the search; the move constructor assigns to a default object, so the time
  at which that one was made does not matter.
\<close>

definition ExtractForm_assign :: "'l ExtractForm \<Rightarrow> 'l ExtractForm \<Rightarrow> 'l ExtractForm" where
  "ExtractForm_assign this m = this\<lparr>search_props := search_props m\<rparr>"

definition ExtractForm_move :: "'l ExtractForm \<Rightarrow> 'l ExtractForm" where
  "ExtractForm_move m = ExtractForm_assign (ExtractForm_default 0) m"

lemma ExtractForm_move_default: "ExtractForm_assign (ExtractForm_default now) m = ExtractForm_move m"
  by (simp add: ExtractForm_move_def ExtractForm_assign_def ExtractForm_default_def)

text \<open>\<^term>\<open>None\<close> is \<^verbatim>\<open>std::monostate\<close>.\<close>

record 'l DataRequest =
  dr_form :: "'l ExtractForm option"

text \<open>
  Assigning a variant assigns the alternative if both sides hold the same one, and constructs it
  otherwise.
\<close>

definition DataRequest_assign :: "'l DataRequest \<Rightarrow> 'l DataRequest \<Rightarrow> 'l DataRequest" where
  "DataRequest_assign this m = \<lparr>dr_form = (case dr_form m of None \<Rightarrow> None
     | Some f \<Rightarrow> (case dr_form this of None \<Rightarrow> Some (ExtractForm_move f) | Some g \<Rightarrow> Some (ExtractForm_assign g f)))\<rparr>"

definition DataRequest_move :: "'l DataRequest \<Rightarrow> 'l DataRequest" where
  "DataRequest_move m = DataRequest_assign \<lparr>dr_form = None\<rparr> m"

definition ExtractForm_wire :: "(SearchParamTableVersion set \<Rightarrow> SearchParamTableVersion list) \<Rightarrow> 'l ExtractForm \<Rightarrow> 'l wire" where
  "ExtractForm_wire order m = W_struct [SearchProperties_wire order (search_props m), w_opt w_period (t_separation m),
     w_opt w_u32 (file_fmt m)]"

definition ExtractForm_shape :: shape where
  "ExtractForm_shape = S_struct [SearchProperties_shape, S_opt (S_leaf LK_period), S_opt (S_leaf LK_u32)]"

definition ExtractForm_of_wire :: "'l wire \<Rightarrow> 'l ExtractForm option" where
  "ExtractForm_of_wire v = (case of_struct v of
     Some [a, b, c] \<Rightarrow> do {
       sp \<leftarrow> SearchProperties_of_wire a;
       t \<leftarrow> of_opt of_period b;
       f \<leftarrow> of_opt of_u32 c;
       Some \<lparr>search_props = sp, t_separation = t, file_fmt = f\<rparr>}
   | _ \<Rightarrow> None)"

interpretation form_wire: wire_type "ExtractForm_wire order" ExtractForm_of_wire ExtractForm_shape
    "\<lambda>m. search_storable order (search_props m)" for order
  by unfold_locales (simp_all add: ExtractForm_wire_def ExtractForm_shape_def ExtractForm_of_wire_def
      wire_simps search_wire.shaped search_wire.inverse)

definition DataRequest_wire :: "(SearchParamTableVersion set \<Rightarrow> SearchParamTableVersion list) \<Rightarrow> 'l DataRequest \<Rightarrow> 'l wire" where
  "DataRequest_wire order m = W_struct [case dr_form m of None \<Rightarrow> W_variant 0 (W_struct [])
     | Some f \<Rightarrow> W_variant 1 (ExtractForm_wire order f)]"

definition DataRequest_shape :: shape where
  "DataRequest_shape = S_struct [S_variant [S_struct [], ExtractForm_shape]]"

fun form_of_wire :: "'l wire \<Rightarrow> 'l ExtractForm option option" where
  "form_of_wire (W_variant n w) = (if n = 0 then Some None
     else if n = 1 then map_option Some (ExtractForm_of_wire w) else None)"
| "form_of_wire v = None"

definition DataRequest_of_wire :: "'l wire \<Rightarrow> 'l DataRequest option" where
  "DataRequest_of_wire v = (case of_struct v of
     Some [a] \<Rightarrow> do { f \<leftarrow> form_of_wire a; Some \<lparr>dr_form = f\<rparr> }
   | _ \<Rightarrow> None)"

interpretation request_wire: wire_type "DataRequest_wire order" DataRequest_of_wire DataRequest_shape
    "\<lambda>m. pred_option (\<lambda>f. search_storable order (search_props f)) (dr_form m)" for order
  by unfold_locales (auto simp: DataRequest_wire_def DataRequest_shape_def DataRequest_of_wire_def
      form_wire.shaped form_wire.inverse split: option.splits)

section \<open>Requests of an index\<close>

record 'l IndexParameters =
  ip_grid_type :: "RepresentationType option"
  ip_time :: "'l option"
  ip_forecast :: "TimeForecast option"
  ip_level :: "Level option"

definition IndexParameters_default :: "'l IndexParameters" where
  "IndexParameters_default = \<lparr>ip_grid_type = None, ip_time = None, ip_forecast = None, ip_level = None\<rparr>"

definition set_grid_type :: "RepresentationType \<Rightarrow> 'l IndexParameters \<Rightarrow> 'l IndexParameters" where
  "set_grid_type r m = m\<lparr>ip_grid_type := Some r\<rparr>"

definition set_time_sequence :: "'l \<Rightarrow> 'l IndexParameters \<Rightarrow> 'l IndexParameters" where
  "set_time_sequence t m = m\<lparr>ip_time := Some t\<rparr>"

definition set_forecast_preference :: "TimeForecast \<Rightarrow> 'l IndexParameters \<Rightarrow> 'l IndexParameters" where
  "set_forecast_preference f m = m\<lparr>ip_forecast := Some f\<rparr>"

definition IndexParameters_wire :: "'l IndexParameters \<Rightarrow> 'l wire" where
  "IndexParameters_wire m = W_struct [w_opt w_representation (ip_grid_type m), w_opt w_sequence (ip_time m),
     w_opt TimeForecast_wire (ip_forecast m), w_opt Level_wire (ip_level m)]"

definition IndexParameters_shape :: shape where
  "IndexParameters_shape = S_struct [S_opt (S_leaf LK_u8), S_opt (S_leaf LK_sequence), S_opt TimeForecast_shape,
     S_opt Level_shape]"

definition IndexParameters_of_wire :: "'l wire \<Rightarrow> 'l IndexParameters option" where
  "IndexParameters_of_wire v = (case of_struct v of
     Some [a, b, c, d] \<Rightarrow> do {
       g \<leftarrow> of_opt of_representation a;
       t \<leftarrow> of_opt of_sequence b;
       f \<leftarrow> of_opt TimeForecast_of_wire c;
       l \<leftarrow> of_opt Level_of_wire d;
       Some \<lparr>ip_grid_type = g, ip_time = t, ip_forecast = f, ip_level = l\<rparr>}
   | _ \<Rightarrow> None)"

interpretation parameters_wire: wire_type IndexParameters_wire IndexParameters_of_wire IndexParameters_shape "\<lambda>m. True"
  by unfold_locales (simp_all add: IndexParameters_wire_def IndexParameters_shape_def IndexParameters_of_wire_def wire_simps)

text \<open>The alternatives are \<^verbatim>\<open>std::monostate\<close> (\<^term>\<open>None\<close>) and the parameters.\<close>

definition w_parameters :: "'l IndexParameters option \<Rightarrow> 'l wire" where
  "w_parameters p = (case p of None \<Rightarrow> W_variant 0 (W_struct []) | Some m \<Rightarrow> W_variant 1 (IndexParameters_wire m))"

definition parameters_shape :: shape where
  "parameters_shape = S_variant [S_struct [], IndexParameters_shape]"

fun of_parameters :: "'l wire \<Rightarrow> 'l IndexParameters option option" where
  "of_parameters (W_variant n w) = (if n = 0 then Some None
     else if n = 1 then map_option Some (IndexParameters_of_wire w) else None)"
| "of_parameters v = None"

lemma parameters_member [wire_simps]:
  "has_shape parameters_shape (w_parameters p)" "of_parameters (w_parameters p) = Some p"
  by (simp_all add: w_parameters_def parameters_shape_def parameters_wire.shaped parameters_wire.inverse split: option.split)

record 'l IndexRequest =
  iq_parameters :: "'l IndexParameters option list"
  iq_info_limits :: "u64 option"
  iq_last_update :: int

definition IndexRequest_default :: "'l IndexRequest" where
  "IndexRequest_default = \<lparr>iq_parameters = [], iq_info_limits = None, iq_last_update = 0\<rparr>"

text \<open>
  The limit is converted from \<^verbatim>\<open>double\<close>: a value whose integral part does not fit is undefined.  The
  interval of time that the constructor takes is not stored.
\<close>

definition u64_of_double :: "rat \<Rightarrow> u64 option" where
  "u64_of_double x = (if - 1 < x \<and> x < 2 ^ 64 then Some (word_of_int (if x < 0 then \<lceil>x\<rceil> else \<lfloor>x\<rfloor>)) else None)"

definition IndexRequest_of :: "'l \<Rightarrow> int \<Rightarrow> rat \<Rightarrow> 'l IndexRequest option" where
  "IndexRequest_of tinterval last_update info = do {
     n \<leftarrow> u64_of_double info;
     Some \<lparr>iq_parameters = [], iq_info_limits = Some n, iq_last_update = last_update\<rparr>}"

definition default_info :: rat where
  "default_info = f64 (2 ^ 64 - 1)"

text \<open>
  A structure of parameters is appended and returned by reference; \<open>f\<close> is what the caller does to it.
\<close>

definition add_indexation_parameters_structure ::
    "('l IndexParameters \<Rightarrow> 'l IndexParameters) \<Rightarrow> 'l IndexParameters option list \<Rightarrow> 'l IndexParameters option list" where
  "add_indexation_parameters_structure f ps = ps @ [Some (f IndexParameters_default)]"

definition IndexRequest_wire :: "'l IndexRequest \<Rightarrow> 'l wire" where
  "IndexRequest_wire m = W_struct [w_vec w_parameters (iq_parameters m), w_opt w_u64 (iq_info_limits m), w_time (iq_last_update m)]"

definition IndexRequest_shape :: shape where
  "IndexRequest_shape = S_struct [S_vec parameters_shape, S_opt (S_leaf LK_u64), S_leaf LK_time]"

definition IndexRequest_of_wire :: "'l wire \<Rightarrow> 'l IndexRequest option" where
  "IndexRequest_of_wire v = (case of_struct v of
     Some [a, b, c] \<Rightarrow> do {
       ps \<leftarrow> of_vec of_parameters a;
       n \<leftarrow> of_opt of_u64 b;
       t \<leftarrow> of_time c;
       Some \<lparr>iq_parameters = ps, iq_info_limits = n, iq_last_update = t\<rparr>}
   | _ \<Rightarrow> None)"

interpretation index_request_wire: wire_type IndexRequest_wire IndexRequest_of_wire IndexRequest_shape
    "\<lambda>m. storable_time (iq_last_update m)"
  by unfold_locales (simp_all add: IndexRequest_wire_def IndexRequest_shape_def IndexRequest_of_wire_def wire_simps)

record 'l IndexRefRequest =
  iw_parameters :: "'l IndexParameters option list"
  iw_last_update :: int

definition IndexRefRequest_of :: "int \<Rightarrow> 'l IndexRefRequest" where
  "IndexRefRequest_of last_update = \<lparr>iw_parameters = [], iw_last_update = last_update\<rparr>"

definition IndexRefRequest_wire :: "'l IndexRefRequest \<Rightarrow> 'l wire" where
  "IndexRefRequest_wire m = W_struct [w_vec w_parameters (iw_parameters m), w_time (iw_last_update m)]"

definition IndexRefRequest_shape :: shape where
  "IndexRefRequest_shape = S_struct [S_vec parameters_shape, S_leaf LK_time]"

definition IndexRefRequest_of_wire :: "'l wire \<Rightarrow> 'l IndexRefRequest option" where
  "IndexRefRequest_of_wire v = (case of_struct v of
     Some [a, b] \<Rightarrow> do {
       ps \<leftarrow> of_vec of_parameters a;
       t \<leftarrow> of_time b;
       Some \<lparr>iw_parameters = ps, iw_last_update = t\<rparr>}
   | _ \<Rightarrow> None)"

interpretation index_ref_request_wire: wire_type IndexRefRequest_wire IndexRefRequest_of_wire IndexRefRequest_shape
    "\<lambda>m. storable_time (iw_last_update m)"
  by unfold_locales (simp_all add: IndexRefRequest_wire_def IndexRefRequest_shape_def IndexRefRequest_of_wire_def wire_simps)

section \<open>Transactions and status requests\<close>

record TransactionRequest =
  op_hash :: u64
  op_status :: Transaction

definition TransactionRequest_of :: "Transaction \<Rightarrow> TransactionRequest" where
  "TransactionRequest_of status = \<lparr>op_hash = 0, op_status = status\<rparr>"

definition TransactionRequest_default :: TransactionRequest where
  "TransactionRequest_default = \<lparr>op_hash = 0, op_status = DECLINE\<rparr>"

definition TransactionRequest_wire :: "TransactionRequest \<Rightarrow> 'l wire" where
  "TransactionRequest_wire m = W_struct [w_u64 (op_hash m), w_transaction (op_status m)]"

definition TransactionRequest_shape :: shape where
  "TransactionRequest_shape = S_struct [S_leaf LK_u64, S_leaf LK_int]"

definition TransactionRequest_of_wire :: "'l wire \<Rightarrow> TransactionRequest option" where
  "TransactionRequest_of_wire v = (case of_struct v of
     Some [a, b] \<Rightarrow> do { h \<leftarrow> of_u64 a; t \<leftarrow> of_transaction b; Some \<lparr>op_hash = h, op_status = t\<rparr> }
   | _ \<Rightarrow> None)"

interpretation transaction_wire: wire_type TransactionRequest_wire TransactionRequest_of_wire TransactionRequest_shape
    "\<lambda>m. True"
  by unfold_locales (simp_all add: TransactionRequest_wire_def TransactionRequest_shape_def TransactionRequest_of_wire_def
      wire_simps)

text \<open>The request of the server's status has no members.\<close>

definition StatusRequest_wire :: "unit \<Rightarrow> 'l wire" where
  "StatusRequest_wire m = W_struct []"

definition StatusRequest_shape :: shape where
  "StatusRequest_shape = S_struct []"

definition StatusRequest_of_wire :: "'l wire \<Rightarrow> unit option" where
  "StatusRequest_of_wire v = (case of_struct v of Some [] \<Rightarrow> Some () | _ \<Rightarrow> None)"

interpretation status_request_wire: wire_type StatusRequest_wire StatusRequest_of_wire StatusRequest_shape "\<lambda>m. True"
  by unfold_locales (simp_all add: StatusRequest_wire_def StatusRequest_shape_def StatusRequest_of_wire_def)

text \<open>The constructor's default limit, the largest 64-bit number, is rounded to one that does not fit.\<close>

lemma default_info_value: "default_info = 2 ^ 64"
proof -
  let ?x = "18446744073709551615 :: rat"
  have "2 powi (exponent ?x) \<le> ?x" "?x < 2 powi (exponent ?x + 1)"
    using exponent_bounds [of ?x] by simp_all
  moreover have "?x < 2 powi 64" "2 powi 63 \<le> ?x" by simp_all
  ultimately have "exponent ?x < 64" "63 < exponent ?x + 1"
    by (meson powi_less_rat le_less_trans)+
  then have e: "exponent ?x = 63" by simp
  have "round_half_even (?x / 2048) = 9007199254740992"
    by (simp add: round_half_even_def Let_def floor_divide_of_int_eq [of 18446744073709551615 2048, simplified])
  with e show ?thesis by (simp add: default_info_def to_float64_def rnd_def)
qed

lemma default_index_request: "IndexRequest_of tinterval last_update default_info = None"
  by (simp add: IndexRequest_of_def u64_of_double_def default_info_value)

end
