(* ===== verification/Net_Message.thy ===== *)
theory Net_Message
  imports Net_Requests
begin

text \<open>
  Messages and the handler that holds one (\<^verbatim>\<open>include/network/common/message/message.h\<close> and
  \<^verbatim>\<open>message_handler.h\<close>).
\<close>

section \<open>The contents of each side\<close>

datatype 'l server_content = SC_fileinfo FileInfo | SC_status StatusReply | SC_index "'l IndexReply"
  | SC_error ErrorReply | SC_progress ProgressReply | SC_filepart FilePart | SC_version VersionReply
  | SC_index_ref "'l IndexRefReply" | SC_extract ExtractReply

datatype 'l client_content = CC_data "'l DataRequest" | CC_status unit | CC_index "'l IndexRequest"
  | CC_index_ref "'l IndexRefRequest" | CC_transaction TransactionRequest

primrec server_type :: "'l server_content \<Rightarrow> Server_MsgT" where
  "server_type (SC_fileinfo m) = DATA_REPLY_FILEINFO"
| "server_type (SC_status m) = SERVER_STATUS"
| "server_type (SC_index m) = DATA_REPLY_INDEX"
| "server_type (SC_error m) = ERROR"
| "server_type (SC_progress m) = PROGRESS"
| "server_type (SC_filepart m) = DATA_REPLY_FILEPART"
| "server_type (SC_version m) = VERSION"
| "server_type (SC_index_ref m) = DATA_REPLY_INDEX_REF"
| "server_type (SC_extract m) = DATA_REPLY_EXTRACT"

primrec client_type :: "'l client_content \<Rightarrow> Client_MsgT" where
  "client_type (CC_data m) = DATA_REQUEST"
| "client_type (CC_status m) = STATUS_REQUEST"
| "client_type (CC_index m) = INDEX"
| "client_type (CC_index_ref m) = INDEX_REF"
| "client_type (CC_transaction m) = TRANSACTION"

primrec server_value :: "Server_MsgT \<Rightarrow> nat" where
  "server_value DATA_REPLY_FILEINFO = 0" | "server_value SERVER_STATUS = 1" | "server_value DATA_REPLY_INDEX = 2"
| "server_value ERROR = 3" | "server_value PROGRESS = 4" | "server_value DATA_REPLY_FILEPART = 5"
| "server_value VERSION = 6" | "server_value DATA_REPLY_INDEX_REF = 7" | "server_value DATA_REPLY_EXTRACT = 8"

primrec client_value :: "Client_MsgT \<Rightarrow> nat" where
  "client_value DATA_REQUEST = 0" | "client_value STATUS_REQUEST = 1" | "client_value INDEX = 2"
| "client_value INDEX_REF = 3" | "client_value TRANSACTION = 4"

definition server_count :: nat where "server_count = server_value DATA_REPLY_EXTRACT + 1"
definition client_count :: nat where "client_count = client_value TRANSACTION + 1"

text \<open>Moving a content: by its move constructor.\<close>

primrec server_move :: "'l server_content \<Rightarrow> 'l server_content" where
  "server_move (SC_fileinfo m) = SC_fileinfo (FileInfo_copy m)"
| "server_move (SC_status m) = SC_status m"
| "server_move (SC_index m) = SC_index (IndexReply_copy m)"
| "server_move (SC_error m) = SC_error m"
| "server_move (SC_progress m) = SC_progress m"
| "server_move (SC_filepart m) = SC_filepart (FilePart_copy m)"
| "server_move (SC_version m) = SC_version m"
| "server_move (SC_index_ref m) = SC_index_ref (IndexRefReply_copy m)"
| "server_move (SC_extract m) = SC_extract (ExtractReply_copy m)"

primrec client_move :: "'l client_content \<Rightarrow> 'l client_content" where
  "client_move (CC_data m) = CC_data (DataRequest_move m)"
| "client_move (CC_status m) = CC_status m"
| "client_move (CC_index m) = CC_index m"
| "client_move (CC_index_ref m) = CC_index_ref m"
| "client_move (CC_transaction m) = CC_transaction m"

primrec server_wire :: "'l server_content \<Rightarrow> 'l wire" where
  "server_wire (SC_fileinfo m) = FileInfo_wire m"
| "server_wire (SC_status m) = StatusReply_wire m"
| "server_wire (SC_index m) = IndexReply_wire m"
| "server_wire (SC_error m) = ErrorReply_wire m"
| "server_wire (SC_progress m) = ProgressReply_wire m"
| "server_wire (SC_filepart m) = FilePart_wire m"
| "server_wire (SC_version m) = VersionReply_wire m"
| "server_wire (SC_index_ref m) = IndexRefReply_wire m"
| "server_wire (SC_extract m) = ExtractReply_wire m"

definition server_shapes :: "shape list" where
  "server_shapes = [FileInfo_shape, StatusReply_shape, IndexReply_shape, ErrorReply_shape, ProgressReply_shape,
     FilePart_shape, VersionReply_shape, IndexRefReply_shape, ExtractReply_shape]"

definition server_of_wire :: "nat \<Rightarrow> 'l wire \<Rightarrow> 'l server_content option" where
  "server_of_wire n v = (if n = 0 then map_option SC_fileinfo (FileInfo_of_wire v)
     else if n = 1 then map_option SC_status (StatusReply_of_wire v)
     else if n = 2 then map_option SC_index (IndexReply_of_wire v)
     else if n = 3 then map_option SC_error (ErrorReply_of_wire v)
     else if n = 4 then map_option SC_progress (ProgressReply_of_wire v)
     else if n = 5 then map_option SC_filepart (FilePart_of_wire v)
     else if n = 6 then map_option SC_version (VersionReply_of_wire v)
     else if n = 7 then map_option SC_index_ref (IndexRefReply_of_wire v)
     else if n = 8 then map_option SC_extract (ExtractReply_of_wire v) else None)"

primrec server_received :: "'l server_content \<Rightarrow> 'l server_content" where
  "server_received (SC_fileinfo m) = SC_fileinfo (FileInfo_received m)"
| "server_received (SC_status m) = SC_status m"
| "server_received (SC_index m) = SC_index m"
| "server_received (SC_error m) = SC_error m"
| "server_received (SC_progress m) = SC_progress m"
| "server_received (SC_filepart m) = SC_filepart m"
| "server_received (SC_version m) = SC_version m"
| "server_received (SC_index_ref m) = SC_index_ref m"
| "server_received (SC_extract m) = SC_extract m"

text \<open>Every member that is serialized is initialised and can be stored.\<close>

primrec server_ok :: "'l server_content \<Rightarrow> bool" where
  "server_ok (SC_fileinfo m) = (fi_status m \<noteq> None)"
| "server_ok (SC_status m) = True"
| "server_ok (SC_index m) = blocks_storable (ix_ref m)"
| "server_ok (SC_error m) = (ee_status m \<noteq> None)"
| "server_ok (SC_progress m) = (pr_status m \<noteq> None \<and> f32 (progress_value (pr_prog m)) = progress_value (pr_prog m))"
| "server_ok (SC_filepart m) = (fp_status m \<noteq> None)"
| "server_ok (SC_version m) = (ve_status m \<noteq> None)"
| "server_ok (SC_index_ref m) = blocks_storable m"
| "server_ok (SC_extract m) = (er_status m \<noteq> None)"

primrec client_wire :: "(SearchParamTableVersion set \<Rightarrow> SearchParamTableVersion list) \<Rightarrow> 'l client_content \<Rightarrow> 'l wire" where
  "client_wire order (CC_data m) = DataRequest_wire order m"
| "client_wire order (CC_status m) = StatusRequest_wire m"
| "client_wire order (CC_index m) = IndexRequest_wire m"
| "client_wire order (CC_index_ref m) = IndexRefRequest_wire m"
| "client_wire order (CC_transaction m) = TransactionRequest_wire m"

definition client_shapes :: "shape list" where
  "client_shapes = [DataRequest_shape, StatusRequest_shape, IndexRequest_shape, IndexRefRequest_shape, TransactionRequest_shape]"

definition client_of_wire :: "nat \<Rightarrow> 'l wire \<Rightarrow> 'l client_content option" where
  "client_of_wire n v = (if n = 0 then map_option CC_data (DataRequest_of_wire v)
     else if n = 1 then map_option CC_status (StatusRequest_of_wire v)
     else if n = 2 then map_option CC_index (IndexRequest_of_wire v)
     else if n = 3 then map_option CC_index_ref (IndexRefRequest_of_wire v)
     else if n = 4 then map_option CC_transaction (TransactionRequest_of_wire v) else None)"

primrec client_ok :: "(SearchParamTableVersion set \<Rightarrow> SearchParamTableVersion list) \<Rightarrow> 'l client_content \<Rightarrow> bool" where
  "client_ok order (CC_data m) = pred_option (\<lambda>f. search_storable order (search_props f)) (dr_form m)"
| "client_ok order (CC_status m) = True"
| "client_ok order (CC_index m) = storable_time (iq_last_update m)"
| "client_ok order (CC_index_ref m) = storable_time (iw_last_update m)"
| "client_ok order (CC_transaction m) = True"

section \<open>Messages\<close>

record MessageBase =
  data_sz :: u64
  msg_more :: bool

definition MessageBase_of :: "nat \<Rightarrow> MessageBase" where
  "MessageBase_of n = \<lparr>data_sz = of_nat n, msg_more = False\<rparr>"

text \<open>The move constructor does not carry the flag, the move assignment does.\<close>

definition MessageBase_move :: "MessageBase \<Rightarrow> MessageBase" where
  "MessageBase_move other = \<lparr>data_sz = data_sz other, msg_more = False\<rparr>"

definition MessageBase_assign :: "MessageBase \<Rightarrow> MessageBase \<Rightarrow> MessageBase" where
  "MessageBase_assign this other = \<lparr>data_sz = data_sz other, msg_more = msg_more other\<rparr>"

record 'c NetMessage =
  nm_base :: MessageBase
  nm_additional :: 'c

text \<open>
  \<open>bytes_of\<close> is \<^verbatim>\<open>serial_size\<close>.  The size is taken when the message is made and does not follow its
  content.
\<close>

definition NetMessage_of :: "('c \<Rightarrow> nat) \<Rightarrow> 'c \<Rightarrow> 'c NetMessage" where
  "NetMessage_of bytes_of c = \<lparr>nm_base = MessageBase_of (bytes_of c), nm_additional = c\<rparr>"

definition NetMessage_move :: "('c \<Rightarrow> 'c) \<Rightarrow> 'c NetMessage \<Rightarrow> 'c NetMessage" where
  "NetMessage_move move m = \<lparr>nm_base = MessageBase_move (nm_base m), nm_additional = move (nm_additional m)\<rparr>"

definition NetMessage_assign :: "('c \<Rightarrow> 'c \<Rightarrow> 'c) \<Rightarrow> 'c NetMessage \<Rightarrow> 'c NetMessage \<Rightarrow> 'c NetMessage" where
  "NetMessage_assign assign this m =
     \<lparr>nm_base = MessageBase_assign (nm_base this) (nm_base m), nm_additional = assign (nm_additional this) (nm_additional m)\<rparr>"

definition set_message_more :: "'c NetMessage \<Rightarrow> 'c NetMessage" where
  "set_message_more m = m\<lparr>nm_base := (nm_base m)\<lparr>msg_more := True\<rparr>\<rparr>"

definition message_more :: "'c NetMessage \<Rightarrow> bool" where
  "message_more m = msg_more (nm_base m)"

definition MessageBase_wire :: "MessageBase \<Rightarrow> 'l wire" where
  "MessageBase_wire m = W_struct [w_u64 (data_sz m), w_bool (msg_more m)]"

definition MessageBase_shape :: shape where
  "MessageBase_shape = S_struct [S_leaf LK_u64, S_leaf LK_bool]"

definition MessageBase_of_wire :: "'l wire \<Rightarrow> MessageBase option" where
  "MessageBase_of_wire v = (case of_struct v of
     Some [a, b] \<Rightarrow> do { n \<leftarrow> of_u64 a; m \<leftarrow> of_boolean b; Some \<lparr>data_sz = n, msg_more = m\<rparr> }
   | _ \<Rightarrow> None)"

interpretation base_wire: wire_type MessageBase_wire MessageBase_of_wire MessageBase_shape "\<lambda>m. True"
  by unfold_locales (simp_all add: MessageBase_wire_def MessageBase_shape_def MessageBase_of_wire_def wire_simps)

lemma message_more_moved: "\<not> message_more (NetMessage_move move m)"
  by (simp add: message_more_def NetMessage_move_def MessageBase_move_def)

section \<open>The handler\<close>

text \<open>
  A handler is a variant: \<^verbatim>\<open>std::monostate\<close> (\<^term>\<open>None\<close>) or the message of one of the contents, whose
  alternative is one behind its number.
\<close>

type_synonym 'c handler = "'c NetMessage option"

definition handler_wire :: "('c \<Rightarrow> nat) \<Rightarrow> ('c \<Rightarrow> 'l wire) \<Rightarrow> 'c handler \<Rightarrow> 'l wire" where
  "handler_wire number to_wire h = (case h of None \<Rightarrow> W_variant 0 (W_struct [])
     | Some m \<Rightarrow> W_variant (number (nm_additional m) + 1)
         (W_struct [MessageBase_wire (nm_base m), to_wire (nm_additional m)]))"

definition handler_shape :: "shape list \<Rightarrow> shape" where
  "handler_shape contents = S_variant (S_struct [] # map (\<lambda>s. S_struct [MessageBase_shape, s]) contents)"

fun handler_of_wire :: "(nat \<Rightarrow> 'l wire \<Rightarrow> 'c option) \<Rightarrow> 'l wire \<Rightarrow> 'c handler option" where
  "handler_of_wire of_wire (W_variant n w) = (case of_struct w of
      Some [] \<Rightarrow> if n = 0 then Some None else None
    | Some [a, b] \<Rightarrow> if n = 0 then None else do {
        base \<leftarrow> MessageBase_of_wire a;
        c \<leftarrow> of_wire (n - 1) b;
        Some (Some \<lparr>nm_base = base, nm_additional = c\<rparr>)}
    | _ \<Rightarrow> None)"
| "handler_of_wire of_wire v = None"

definition has_message :: "'c handler \<Rightarrow> bool" where
  "has_message h \<longleftrightarrow> h \<noteq> None"

definition clear_handler :: "'c handler \<Rightarrow> 'c handler" where
  "clear_handler h = None"

text \<open>\<^verbatim>\<open>msg_type\<close> is \<open>index() - 1\<close>: \<open>-1\<close> without a message.\<close>

definition handler_index :: "('c \<Rightarrow> nat) \<Rightarrow> 'c handler \<Rightarrow> nat" where
  "handler_index number h = (case h of None \<Rightarrow> 0 | Some m \<Rightarrow> number (nm_additional m) + 1)"

definition msg_type :: "('c \<Rightarrow> nat) \<Rightarrow> 'c handler \<Rightarrow> int" where
  "msg_type number h = int (handler_index number h) - 1"

text \<open>What arrives of a handler, given what arrives of a content.\<close>

definition handler_received :: "('c \<Rightarrow> 'c) \<Rightarrow> 'c handler \<Rightarrow> 'c handler" where
  "handler_received received = map_option (nm_additional_update received)"

text \<open>What holds of the contents of a side, and what follows for its handler.\<close>

locale message_list =
  fixes number :: "'c \<Rightarrow> nat" and contents :: "shape list" and to_wire :: "'c \<Rightarrow> 'l wire"
    and of_wire :: "nat \<Rightarrow> 'l wire \<Rightarrow> 'c option" and received :: "'c \<Rightarrow> 'c" and ok :: "'c \<Rightarrow> bool"
  assumes number_bound: "number c < length contents"
    and list_shaped: "ok c \<Longrightarrow> has_shape (contents ! number c) (to_wire c)"
    and list_received: "ok c \<Longrightarrow> of_wire (number c) (to_wire c) = Some (received c)"
begin

lemma handler_shaped: "pred_option (\<lambda>m. ok (nm_additional m)) h \<Longrightarrow> has_shape (handler_shape contents) (handler_wire number to_wire h)"
  using number_bound by (cases h) (simp_all add: handler_shape_def handler_wire_def list_shaped base_wire.shaped)

lemma handler_inverse: "pred_option (\<lambda>m. ok (nm_additional m)) h \<Longrightarrow>
    handler_of_wire of_wire (handler_wire number to_wire h) = Some (handler_received received h)"
  by (cases h) (simp_all add: handler_wire_def handler_received_def list_received base_wire.inverse)

lemma content_type_handler: "content_type (handler_wire number to_wire) (handler_of_wire of_wire) (handler_shape contents)
    (handler_received received) (pred_option (\<lambda>m. ok (nm_additional m)))"
  by unfold_locales (fact handler_shaped, fact handler_inverse)

end

sublocale message_list \<subseteq> handled: content_type "handler_wire number to_wire" "handler_of_wire of_wire"
    "handler_shape contents" "handler_received received" "pred_option (\<lambda>m. ok (nm_additional m))"
  by (rule content_type_handler)

interpretation server_list: message_list "\<lambda>c. server_value (server_type c)" server_shapes server_wire server_of_wire
    server_received server_ok
proof
  show "server_value (server_type c) < length server_shapes" for c :: "'a server_content"
    by (cases c) (simp_all add: server_shapes_def)
next
  fix c :: "'a server_content"
  assume "server_ok c"
  then show "has_shape (server_shapes ! server_value (server_type c)) (server_wire c)"
    by (cases c) (simp_all only: server_ok.simps server_type.simps server_value.simps server_wire.simps server_shapes_def,
      simp_all add: nth_Cons' finfo_wire.content_shaped status_wire.shaped index_wire.shaped error_reply_wire.shaped
        progress_wire.shaped fpart_wire.shaped version_wire.shaped index_ref_wire.shaped extract_wire.shaped)
next
  fix c :: "'a server_content"
  assume "server_ok c"
  then show "server_of_wire (server_value (server_type c)) (server_wire c) = Some (server_received c)"
    by (cases c) (simp_all add: server_of_wire_def finfo_wire.content_received status_wire.inverse index_wire.inverse
        error_reply_wire.inverse progress_wire.inverse fpart_wire.inverse version_wire.inverse index_ref_wire.inverse
        extract_wire.inverse)
qed

interpretation client_list: message_list "\<lambda>c. client_value (client_type c)" client_shapes "client_wire order" client_of_wire
    "\<lambda>c. c" "client_ok order" for order
proof
  show "client_value (client_type c) < length client_shapes" for c :: "'a client_content"
    by (cases c) (simp_all add: client_shapes_def)
next
  fix c :: "'a client_content"
  assume "client_ok order c"
  then show "has_shape (client_shapes ! client_value (client_type c)) (client_wire order c)"
    by (cases c) (simp_all add: client_shapes_def nth_Cons' request_wire.shaped status_request_wire.shaped
      index_request_wire.shaped index_ref_request_wire.shaped transaction_wire.shaped)
next
  fix c :: "'a client_content"
  assume "client_ok order c"
  then show "client_of_wire (client_value (client_type c)) (client_wire order c) = Some c"
    by (cases c) (simp_all add: client_of_wire_def request_wire.inverse status_request_wire.inverse
      index_request_wire.inverse index_ref_request_wire.inverse transaction_wire.inverse)
qed

end
