(* ===== verification/Sockets.thy ===== *)
theory Sockets
  imports Prelude
begin

text \<open>
  Sending and receiving a number of octets over a stream socket (\<^verbatim>\<open>network/include/send.h\<close>,
  \<^verbatim>\<open>network/include/receive.h\<close>).  The system's calls are given by the list of their results, in the
  order of the calls; \<^term>\<open>None\<close> is a call that has not returned.
\<close>

section \<open>Sending\<close>

text \<open>
  A result is the number of octets that were taken, or \<open>-1\<close>.  The octets the system took are the
  second component.
\<close>

fun send_loop :: "int list \<Rightarrow> u8 list \<Rightarrow> nat \<Rightarrow> (bool \<times> u8 list \<times> int list) option" where
  "send_loop results buffer sent =
     (if sent < length buffer then
        (case results of [] \<Rightarrow> None
         | cur # results \<Rightarrow>
             if cur = - 1 then Some (False, [], results)
             else map_option (\<lambda>(ok, taken, rest). (ok, take (nat cur) (drop sent buffer) @ taken, rest))
               (send_loop results buffer (sent + nat cur)))
      else Some (True, [], results))"

declare send_loop.simps [simp del]

definition send_sequentialy :: "int list \<Rightarrow> u8 list \<Rightarrow> (bool \<times> u8 list \<times> int list) option" where
  "send_sequentialy results buffer = (if buffer = [] then Some (True, [], results) else send_loop results buffer 0)"

primrec send_buffers :: "int list \<Rightarrow> u8 list list \<Rightarrow> (int \<times> u8 list \<times> int list) option" where
  "send_buffers results [] = Some (0, [], results)"
| "send_buffers results (b # bs) = do {
     (ok, taken, results) \<leftarrow> send_sequentialy results b;
     if ok then map_option (\<lambda>(r, more, rest). (r, taken @ more, rest)) (send_buffers results bs)
     else Some (- 1, taken, results)}"

text \<open>The system takes at least one of the octets it is offered, or fails.\<close>

fun taking :: "int list \<Rightarrow> nat \<Rightarrow> bool" where
  "taking [] n = True"
| "taking (cur # results) n = (cur = - 1 \<or> n = 0 \<or> 0 < cur \<and> nat cur \<le> n \<and> taking results (n - nat cur))"

lemma send_loop_outcome:
  assumes "send_loop results buffer sent = Some (ok, taken, rest)" "taking results (length buffer - sent)" "sent \<le> length buffer"
  shows "if ok then taken = drop sent buffer else \<exists>k. taken = take k (drop sent buffer)"
  using assms
proof (induction results buffer sent arbitrary: taken rest rule: send_loop.induct)
  case (1 results buffer sent)
  show ?case
  proof (cases "sent < length buffer")
    case False
    with 1 show ?thesis by (subst (asm) (2) send_loop.simps) simp
  next
    case True
    with 1(2) obtain cur more where r: "results = cur # more" by (cases results) (simp_all add: send_loop.simps)
    show ?thesis
    proof (cases "cur = - 1")
      case True
      with 1(2) \<open>sent < length buffer\<close> r have "\<not> ok" "taken = []" by (simp_all add: send_loop.simps)
      then show ?thesis by (auto intro: exI [of _ 0])
    next
      case False
      with 1(3) r True have cur: "0 < cur" "nat cur \<le> length buffer - sent" "taking more (length buffer - sent - nat cur)"
        by auto
      from 1(2) r True False obtain taken' rest'
        where rec: "send_loop more buffer (sent + nat cur) = Some (ok, taken', rest')"
          and t: "taken = take (nat cur) (drop sent buffer) @ taken'"
        by (subst (asm) send_loop.simps) auto
      have "if ok then taken' = drop (sent + nat cur) buffer else \<exists>k. taken' = take k (drop (sent + nat cur) buffer)"
        by (rule 1(1) [OF True r False rec]) (use cur in simp_all)
      moreover have "take (nat cur) (drop sent buffer) @ take k (drop (sent + nat cur) buffer) =
          take (nat cur + k) (drop sent buffer)" for k
        by (simp add: take_add add.commute [of sent])
      moreover have "take (nat cur) (drop sent buffer) @ drop (sent + nat cur) buffer = drop sent buffer"
        using append_take_drop_id [of "nat cur" "drop sent buffer"] by (simp add: add.commute [of sent])
      ultimately show ?thesis using t by (auto split: if_splits)
    qed
  qed
qed

text \<open>The loop ends: every call takes an octet, so as many results as there are octets are enough.\<close>

lemma send_loop_ends:
  assumes "length buffer - sent \<le> length results" "taking results (length buffer - sent)"
  shows "send_loop results buffer sent \<noteq> None"
  using assms
proof (induction results buffer sent rule: send_loop.induct)
  case (1 results buffer sent)
  show ?case
  proof (cases "sent < length buffer")
    case False
    then show ?thesis by (simp add: send_loop.simps)
  next
    case True
    with 1(2) obtain cur more where r: "results = cur # more" by (cases results) simp_all
    show ?thesis
    proof (cases "cur = - 1")
      case True
      with \<open>sent < length buffer\<close> r show ?thesis by (simp add: send_loop.simps)
    next
      case False
      with 1(3) r True have cur: "0 < cur" "nat cur \<le> length buffer - sent" "taking more (length buffer - sent - nat cur)"
        by auto
      have "send_loop more buffer (sent + nat cur) \<noteq> None"
        by (rule 1(1) [OF True r False]) (use cur 1(2) r in simp_all)
      with r True False show ?thesis by (subst send_loop.simps) simp
    qed
  qed
qed

section \<open>Receiving\<close>

text \<open>
  A result is a number of octets (none if the other side is gone) or a negative one.  The buffer is
  written from its end: its last \<open>n\<close> octets are outstanding.  The numbers of \<^verbatim>\<open>EINTR\<close> and
  \<^verbatim>\<open>EAGAIN\<close> are those of Linux.
\<close>

datatype recv_result = Failed int | Octets "u8 list"

definition EINTR :: int where "EINTR = 4"
definition EAGAIN :: int where "EAGAIN = 11"

definition put_at :: "nat \<Rightarrow> u8 list \<Rightarrow> u8 list \<Rightarrow> u8 list" where
  "put_at i chunk buffer = take i buffer @ chunk @ drop (i + length chunk) buffer"

fun receive_loop :: "recv_result list \<Rightarrow> u8 list \<Rightarrow> nat \<Rightarrow> u16 \<Rightarrow> (int \<times> u8 list \<times> recv_result list) option" where
  "receive_loop results buffer n retry =
     (if n = 0 then Some (0, buffer, results)
      else (case results of [] \<Rightarrow> None
        | Failed read_num # results \<Rightarrow>
            if read_num = EINTR then receive_loop results buffer n retry
            else if read_num = EAGAIN then receive_loop results buffer n retry
            else Some (- 1, buffer, results)
        | Octets chunk # results \<Rightarrow>
            if chunk = [] then
              if retry < 10 then receive_loop results buffer n (retry + 1) else Some (- 1, buffer, results)
            else if n < length chunk then None
            else receive_loop results (put_at (length buffer - n) chunk buffer) (n - length chunk) 0))"

declare receive_loop.simps [simp del]

definition receive_octets :: "recv_result list \<Rightarrow> u8 list \<Rightarrow> nat \<Rightarrow> (int \<times> u8 list \<times> recv_result list) option" where
  "receive_octets results buffer n = (if n = 0 then Some (0, buffer, results) else receive_loop results buffer n 0)"

text \<open>
  Whatever the chunks are in which the octets arrive, the buffer holds them in order.
\<close>

lemma receive_loop_chunks:
  assumes "\<forall>c \<in> set chunks. c \<noteq> []" "length (concat chunks) = n" "n \<le> length buffer"
  shows "receive_loop (map Octets chunks @ rest) buffer n retry = Some (0, take (length buffer - n) buffer @ concat chunks, rest)"
  using assms
proof (induction chunks arbitrary: buffer n retry)
  case Nil
  then show ?case by (simp add: receive_loop.simps)
next
  case (Cons c chunks)
  let ?b = "put_at (length buffer - n) c buffer"
  from Cons.prems have c: "c \<noteq> []" "n \<noteq> 0" "length c \<le> n" and n: "n - length c = length (concat chunks)"
    by auto
  have b: "length ?b = length buffer" "take (length buffer - (n - length c)) ?b = take (length buffer - n) buffer @ c"
    using Cons.prems(3) c by (simp_all add: put_at_def)
  have "receive_loop (map Octets chunks @ rest) ?b (n - length c) 0 =
      Some (0, take (length ?b - (n - length c)) ?b @ concat chunks, rest)"
    by (rule Cons.IH) (use Cons.prems n b(1) in auto)
  with c b show ?case by (subst receive_loop.simps) (simp add: not_less)
qed

text \<open>Eleven empty results in a row end it with an error, whatever came before.\<close>

lemma receive_loop_gives_up:
  assumes "n \<noteq> 0" "unat retry \<le> 10"
  shows "receive_loop (replicate (11 - unat retry) (Octets []) @ rest) buffer n retry = Some (- 1, buffer, rest)"
  using assms
proof (induction "10 - unat retry" arbitrary: retry)
  case 0
  then have "unat retry = 10" by simp
  moreover from this have "\<not> retry < 10" by (simp add: word_less_nat_alt)
  ultimately show ?case using 0(2) by (subst receive_loop.simps) simp
next
  case (Suc k)
  then have l: "unat retry < 10" by simp
  then have "retry < 10" and u: "unat (retry + 1) = unat retry + 1"
    by (simp_all add: word_less_nat_alt unat_word_ariths)
  moreover have "11 - unat retry = Suc (11 - unat (retry + 1))" using l u by simp
  moreover have "receive_loop (replicate (11 - unat (retry + 1)) (Octets []) @ rest) buffer n (retry + 1) = Some (- 1, buffer, rest)"
    by (rule Suc(1)) (use Suc(2,3) l u in simp_all)
  ultimately show ?case using Suc(3) by (subst receive_loop.simps) simp
qed

text \<open>
  The negative result is compared with the numbers of the errors that should be retried, which are
  positive: every failed call ends it.
\<close>

lemma receive_loop_failed: "n \<noteq> 0 \<Longrightarrow> r < 0 \<Longrightarrow> receive_loop (Failed r # rest) buffer n retry = Some (- 1, buffer, rest)"
  by (subst receive_loop.simps) (simp add: EINTR_def EAGAIN_def)

text \<open>Octets that arrived before are kept, and a call that brought some starts the count of empty ones again.\<close>

lemma receive_loop_partial:
  assumes "\<forall>c \<in> set chunks. c \<noteq> []" "length (concat chunks) < n" "n \<le> length buffer"
  shows "\<exists>buffer' retry'. receive_loop (map Octets chunks @ later) buffer n retry =
      receive_loop later buffer' (n - length (concat chunks)) retry' \<and> length buffer' = length buffer"
  using assms
proof (induction chunks arbitrary: buffer n retry)
  case Nil
  then show ?case by auto
next
  case (Cons c chunks)
  let ?b = "put_at (length buffer - n) c buffer"
  from Cons.prems have c: "c \<noteq> []" "n \<noteq> 0" "length c \<le> n" by auto
  have b: "length ?b = length buffer" using Cons.prems(3) c by (simp add: put_at_def)
  have step: "receive_loop (map Octets (c # chunks) @ later) buffer n retry = receive_loop (map Octets chunks @ later) ?b (n - length c) 0"
    using c by (subst receive_loop.simps) (simp add: not_less)
  have "\<exists>buffer' retry'. receive_loop (map Octets chunks @ later) ?b (n - length c) 0 =
      receive_loop later buffer' (n - length c - length (concat chunks)) retry' \<and> length buffer' = length ?b"
    by (rule Cons.IH) (use Cons.prems b in auto)
  with step b show ?case by (simp add: diff_diff_left)
qed

end
