(* ===== verification/Net_Process.thy ===== *)
theory Net_Process
  imports Net_Message Sockets
begin

text \<open>
  The exchange of messages over a socket (\<^verbatim>\<open>include/network/common/message/message_process.h\<close>, the
  factory of \<^verbatim>\<open>message_handler.h\<close>, \<^verbatim>\<open>include/network/client.h\<close> and
  \<^verbatim>\<open>src/network/server/connection_process.cpp\<close>).  \<^term>\<open>None\<close> is a call of the system that has not
  returned, or behaviour that is undefined.
\<close>

section \<open>Making an alternative of a variant\<close>

text \<open>
  \<open>alternative i\<close> is the value of the alternative \<open>i\<close> made from the arguments, if it can be made;
  \<open>error_of\<close> is its member \<^verbatim>\<open>error()\<close>, if it has one.
\<close>

definition try_emplace :: "(nat \<Rightarrow> 'v option) \<Rightarrow> ('v \<Rightarrow> ErrorCode option) \<Rightarrow> 'v \<Rightarrow> nat \<Rightarrow> nat \<Rightarrow> 'v \<Rightarrow> ErrorCode \<times> 'v" where
  "try_emplace alternative error_of monostate index i result =
     (if index \<noteq> i then (EC_INVALID_ARGUMENT, result)
      else (case alternative i of None \<Rightarrow> (EC_INVALID_ARGUMENT, result)
        | Some v \<Rightarrow> (case error_of v of None \<Rightarrow> (EC_NONE, v)
            | Some code \<Rightarrow> (code, if code \<noteq> EC_NONE then monostate else v))))"

primrec fold_and :: "(nat \<Rightarrow> 'v \<Rightarrow> ErrorCode \<times> 'v) \<Rightarrow> nat list \<Rightarrow> ErrorCode \<times> 'v \<Rightarrow> ErrorCode \<times> 'v" where
  "fold_and f [] er = er"
| "fold_and f (i # is) er = (let er = f i (snd er) in if fst er \<noteq> EC_NONE then fold_and f is er else er)"

definition variant_emplaceImpl :: "nat \<Rightarrow> (nat \<Rightarrow> 'v option) \<Rightarrow> ('v \<Rightarrow> ErrorCode option) \<Rightarrow> 'v \<Rightarrow> nat \<Rightarrow> 'v \<Rightarrow> ErrorCode \<times> 'v" where
  "variant_emplaceImpl n alternative error_of monostate index result =
     fold_and (try_emplace alternative error_of monostate index) [0..<n] (EC_NONE, result)"

definition variant_emplace :: "nat \<Rightarrow> (nat \<Rightarrow> 'v option) \<Rightarrow> ('v \<Rightarrow> ErrorCode option) \<Rightarrow> 'v \<Rightarrow> nat \<Rightarrow> 'v \<Rightarrow> ErrorCode \<times> 'v" where
  "variant_emplace n alternative error_of monostate index result =
     (if index \<ge> n then (EC_INVALID_ARGUMENT, result) else variant_emplaceImpl n alternative error_of monostate index result)"

text \<open>The number of the message is a \<^verbatim>\<open>size_t\<close>; its successor wraps.\<close>

definition emplace_message_by_id :: "nat \<Rightarrow> (nat \<Rightarrow> 'v option) \<Rightarrow> ('v \<Rightarrow> ErrorCode option) \<Rightarrow> 'v \<Rightarrow> u64 \<Rightarrow> 'v \<Rightarrow> ErrorCode \<times> 'v" where
  "emplace_message_by_id n alternative error_of monostate msg_t result =
     (if msg_t + 1 > of_nat n then (EC_INVALID_ARGUMENT, result)
      else variant_emplace n alternative error_of monostate (unat (msg_t + 1)) result)"

lemma fold_and_skips:
  assumes "index \<notin> set is" "fst er \<noteq> EC_NONE \<or> is \<noteq> []"
  shows "fold_and (try_emplace alternative error_of monostate index) is er = (if is = [] then er else (EC_INVALID_ARGUMENT, snd er))"
  using assms by (induction "is" arbitrary: er) (auto simp: try_emplace_def Let_def)

lemma fold_and_append: "fold_and f (is @ js) er =
    (let er' = fold_and f is er in if is \<noteq> [] \<and> fst er' = EC_NONE then er' else fold_and f js er')"
  by (induction "is" arbitrary: er) (auto simp: Let_def)

lemma emplaceImpl_at:
  assumes "index < n"
  shows "variant_emplaceImpl n alternative error_of monostate index result =
    (let er = try_emplace alternative error_of monostate index index result in
     if fst er = EC_NONE \<or> Suc index = n then er else (EC_INVALID_ARGUMENT, snd er))"
proof -
  have split: "[0..<n] = [0..<index] @ index # [Suc index..<n]"
    using assms by (metis upt_conv_Cons upt_add_eq_append le0 le_add_diff_inverse less_imp_le_nat)
  let ?f = "try_emplace alternative error_of monostate index"
  have before: "fold_and ?f [0..<index] (EC_NONE, result) = (if index = 0 then (EC_NONE, result) else (EC_INVALID_ARGUMENT, result))"
    using fold_and_skips [of index "[0..<index]" "(EC_NONE, result)"] by (cases "index = 0") simp_all
  have after: "fold_and ?f [Suc index..<n] er = (if Suc index = n then er else (EC_INVALID_ARGUMENT, snd er))"
    if "fst er \<noteq> EC_NONE" for er
    using fold_and_skips [of index "[Suc index..<n]" er alternative error_of monostate] that assms by auto
  have at: "fold_and ?f (index # [Suc index..<n]) er =
      (let er = ?f index result in if fst er = EC_NONE \<or> Suc index = n then er else (EC_INVALID_ARGUMENT, snd er))"
    if "snd er = result" for er
    using that after [of "?f index result"] by (simp add: Let_def)
  show ?thesis
    unfolding variant_emplaceImpl_def split fold_and_append before
    by (cases "index = 0") (use at [of "(EC_NONE, result)"] at [of "(EC_INVALID_ARGUMENT, result)"] in \<open>simp_all add: Let_def split: if_splits\<close>)
qed

section \<open>The message of a buffer\<close>

datatype SerializationEC = UNMATCHED_TYPE | NOT_DESERIALIZED

definition message_type_from_buffer :: "'l wire_lib \<Rightarrow> bool \<Rightarrow> nat \<Rightarrow> u8 list \<Rightarrow> SerializationEC + nat" where
  "message_type_from_buffer W net count buffer = (case get_u64 W net buffer of
     None \<Rightarrow> Inl NOT_DESERIALIZED
   | Some (result, r) \<Rightarrow> if result + 1 \<ge> of_nat count then Inl UNMATCHED_TYPE else Inr (unat (result + 1)))"

section \<open>The state of a process\<close>

text \<open>
  The operations on the contents of a side: the number of a content, the serialized members, the
  move, and whether every serialized member is initialised.
\<close>

record ('c, 'l) content_ops =
  op_number :: "'c \<Rightarrow> nat"
  op_shapes :: "shape list"
  op_to_wire :: "'c \<Rightarrow> 'l wire"
  op_of_wire :: "nat \<Rightarrow> 'l wire \<Rightarrow> 'c option"
  op_move :: "'c \<Rightarrow> 'c"
  op_initialised :: "'c \<Rightarrow> bool"

primrec server_initialised :: "'l server_content \<Rightarrow> bool" where
  "server_initialised (SC_fileinfo m) = (fi_status m \<noteq> None)"
| "server_initialised (SC_status m) = True"
| "server_initialised (SC_index m) = (ir_status (ix_ref m) \<noteq> None)"
| "server_initialised (SC_error m) = (ee_status m \<noteq> None)"
| "server_initialised (SC_progress m) = (pr_status m \<noteq> None)"
| "server_initialised (SC_filepart m) = (fp_status m \<noteq> None)"
| "server_initialised (SC_version m) = (ve_status m \<noteq> None)"
| "server_initialised (SC_index_ref m) = (ir_status m \<noteq> None)"
| "server_initialised (SC_extract m) = (er_status m \<noteq> None)"

definition server_ops :: "('l server_content, 'l) content_ops" where
  "server_ops = \<lparr>op_number = (\<lambda>c. server_value (server_type c)), op_shapes = server_shapes, op_to_wire = server_wire,
     op_of_wire = server_of_wire, op_move = server_move, op_initialised = server_initialised\<rparr>"

definition client_ops :: "(SearchParamTableVersion set \<Rightarrow> SearchParamTableVersion list) \<Rightarrow> ('l client_content, 'l) content_ops" where
  "client_ops order = \<lparr>op_number = (\<lambda>c. client_value (client_type c)), op_shapes = client_shapes, op_to_wire = client_wire order,
     op_of_wire = client_of_wire, op_move = client_move, op_initialised = (\<lambda>c. True)\<rparr>"

text \<open>\<^verbatim>\<open>'s\<close> are the contents that the process sends, \<^verbatim>\<open>'r\<close> those it receives.\<close>

record ('s, 'r) MessageProcess =
  hmsg :: "'s handler"
  hmsg_buffer :: "u8 list"
  recv_hmsg :: "'r handler"
  recv_buffer :: "u8 list"
  has_more :: bool

definition MessageProcess_default :: "('s, 'r) MessageProcess" where
  "MessageProcess_default = \<lparr>hmsg = None, hmsg_buffer = [], recv_hmsg = None, recv_buffer = [], has_more = False\<rparr>"

text \<open>The move assignment does not carry \<open>has_more\<close>.\<close>

definition MessageProcess_assign :: "('s, 'r) MessageProcess \<Rightarrow> ('s, 'r) MessageProcess \<Rightarrow> ('s, 'r) MessageProcess" where
  "MessageProcess_assign this other = this\<lparr>hmsg := hmsg other, hmsg_buffer := hmsg_buffer other,
     recv_hmsg := recv_hmsg other, recv_buffer := recv_buffer other\<rparr>"

section \<open>Sending\<close>

definition message_wire :: "('c, 'l) content_ops \<Rightarrow> 'c handler \<Rightarrow> 'l wire" where
  "message_wire ops h = handler_wire (op_number ops) (op_to_wire ops) h"

definition frame :: "'l wire_lib \<Rightarrow> ('l wire \<Rightarrow> nat) \<Rightarrow> 'l wire \<Rightarrow> u8 list" where
  "frame W size_of v = put_u64 W True (of_nat (size_of v)) @ write_value W True v"

definition send_handler :: "'l wire_lib \<Rightarrow> ('l wire \<Rightarrow> nat) \<Rightarrow> ('s, 'l) content_ops \<Rightarrow> int list \<Rightarrow> ('s, 'r) MessageProcess \<Rightarrow>
    (ErrorCode \<times> ('s, 'r) MessageProcess \<times> u8 list \<times> int list) option" where
  "send_handler W size_of ops results p =
     (let p = p\<lparr>hmsg_buffer := []\<rparr> in
      case hmsg p of
        None \<Rightarrow> Some (EC_SENDING_MESSAGE_ERROR, p, [], results)
      | Some m \<Rightarrow>
          if op_initialised ops (nm_additional m) then do {
            let buffer = frame W size_of (message_wire ops (hmsg p));
            (r, taken, results) \<leftarrow> send_buffers results [buffer];
            Some (if r = - 1 then EC_SENDING_MESSAGE_ERROR else EC_NONE, p\<lparr>hmsg_buffer := buffer\<rparr>, taken, results)}
          else None)"

text \<open>
  The arguments are taken by value and moved into the message, so a content is moved twice, and so is
  a message.
\<close>

definition send_message :: "'l wire_lib \<Rightarrow> ('l wire \<Rightarrow> nat) \<Rightarrow> ('s, 'l) content_ops \<Rightarrow> int list \<Rightarrow> 's NetMessage \<Rightarrow>
    ('s, 'r) MessageProcess \<Rightarrow> (ErrorCode \<times> ('s, 'r) MessageProcess \<times> u8 list \<times> int list) option" where
  "send_message W size_of ops results m p =
     send_handler W size_of ops results
       (p\<lparr>hmsg := Some (NetMessage_move (op_move ops) (NetMessage_move (op_move ops) m))\<rparr>)"

definition send_additional :: "'l wire_lib \<Rightarrow> ('l wire \<Rightarrow> nat) \<Rightarrow> ('s, 'l) content_ops \<Rightarrow> int list \<Rightarrow> 's \<Rightarrow>
    ('s, 'r) MessageProcess \<Rightarrow> (ErrorCode \<times> ('s, 'r) MessageProcess \<times> u8 list \<times> int list) option" where
  "send_additional W size_of ops results c p =
     send_handler W size_of ops results
       (p\<lparr>hmsg := Some (NetMessage_of (\<lambda>c. size_of (op_to_wire ops c)) (op_move ops (op_move ops c)))\<rparr>)"

section \<open>Receiving\<close>

text \<open>
  \<open>torn\<close> is what the library leaves in the handler when it cannot deserialize a message.
\<close>

definition receive_any_message :: "'l wire_lib \<Rightarrow> ('r, 'l) content_ops \<Rightarrow> ('r handler \<Rightarrow> u8 list \<Rightarrow> 'r handler) \<Rightarrow>
    recv_result list \<Rightarrow> ('s, 'r) MessageProcess \<Rightarrow> (ErrorCode \<times> ('s, 'r) MessageProcess \<times> recv_result list) option" where
  "receive_any_message W ops torn results p = do {
     (r, buffer, results) \<leftarrow> receive_octets results (replicate 8 0) 8;
     if r = - 1 then Some (EC_RECEIVING_MESSAGE_ERROR, p\<lparr>recv_buffer := buffer\<rparr>, results)
     else (case get_u64 W True buffer of
        None \<Rightarrow> Some (EC_RECEIVING_MESSAGE_ERROR, p\<lparr>recv_buffer := buffer\<rparr>, results)
      | Some (data_size, _) \<Rightarrow> do {
          (r, buffer, results) \<leftarrow> receive_octets results (replicate (unat data_size) 0) (unat data_size);
          if r = - 1 then Some (EC_RECEIVING_MESSAGE_ERROR, p\<lparr>recv_buffer := buffer\<rparr>, results)
          else (case Deserialize W True (handler_shape (op_shapes ops)) (handler_of_wire (op_of_wire ops)) buffer of
             None \<Rightarrow> Some (EC_RECEIVING_MESSAGE_ERROR,
               p\<lparr>recv_hmsg := torn (recv_hmsg p) buffer, recv_buffer := buffer\<rparr>, results)
           | Some (h, _) \<Rightarrow> Some (EC_NONE, p\<lparr>recv_hmsg := h, recv_buffer := buffer\<rparr>, results))})}"

definition received_message_type :: "('r, 'l) content_ops \<Rightarrow> ('s, 'r) MessageProcess \<Rightarrow> nat option" where
  "received_message_type ops p = (if has_message (recv_hmsg p) then Some (handler_index (op_number ops) (recv_hmsg p) - 1) else None)"

text \<open>The presence of a received message decides on the type of the message sent.\<close>

definition sending_message_type :: "('s, 'l) content_ops \<Rightarrow> ('s, 'r) MessageProcess \<Rightarrow> int option" where
  "sending_message_type ops p = (if has_message (recv_hmsg p) then Some (msg_type (op_number ops) (hmsg p)) else None)"

text \<open>A message of another number than the one asked for is a thrown \<^verbatim>\<open>std::runtime_error\<close>.\<close>

datatype runtime_error = Not_sent | Not_received | Error_at_sending | Error_at_receiving

definition get_received_message :: "('r, 'l) content_ops \<Rightarrow> nat \<Rightarrow> ('s, 'r) MessageProcess \<Rightarrow> runtime_error + 'r NetMessage" where
  "get_received_message ops n p = (case recv_hmsg p of
     None \<Rightarrow> Inl Not_received
   | Some m \<Rightarrow> if op_number ops (nm_additional m) = n then Inr m else Inl Not_received)"

definition get_sending_message :: "('s, 'l) content_ops \<Rightarrow> nat \<Rightarrow> ('s, 'r) MessageProcess \<Rightarrow> runtime_error + 's NetMessage" where
  "get_sending_message ops n p = (case hmsg p of
     None \<Rightarrow> Inl Not_sent
   | Some m \<Rightarrow> if op_number ops (nm_additional m) = n then Inr m else Inl Not_sent)"

end
