(* ===== verification/Net_Exchange.thy ===== *)
theory Net_Exchange
  imports Net_Process
begin

text \<open>
  A message from one side to the other: what is sent is what arrives, however the octets are split on
  the way; the client's request, the server's replies.
\<close>

section \<open>A library with numbers of eight octets\<close>

text \<open>
  The receiver reads the size of the message from eight octets, so the library has to write a 64-bit
  number in eight octets.
\<close>

definition header_ok :: "'l wire_lib \<Rightarrow> bool" where
  "header_ok W \<longleftrightarrow> (\<forall>w. length (put_u64 W True w) = 8)"

text \<open>The size that the library computes is the number of octets it writes in network order.\<close>

definition network_size :: "'l wire_lib \<Rightarrow> ('l wire \<Rightarrow> nat) \<Rightarrow> bool" where
  "network_size W size_of \<longleftrightarrow> (\<forall>v. length (write_value W True v) = size_of v)"

definition octets_of_u64 :: "u64 \<Rightarrow> u8 list" where
  "octets_of_u64 w = map (\<lambda>k. ucast (drop_bit (8 * k) w)) [7, 6, 5, 4, 3, 2, 1, 0]"

definition u64_of_octets :: "u8 list \<Rightarrow> (u64 \<times> u8 list) option" where
  "u64_of_octets bs = (case bs of
     a # b # c # d # e # f # g # h # r \<Rightarrow>
       Some (push_bit 56 (ucast a) OR push_bit 48 (ucast b) OR push_bit 40 (ucast c) OR push_bit 32 (ucast d) OR
         push_bit 24 (ucast e) OR push_bit 16 (ucast f) OR push_bit 8 (ucast g) OR ucast h, r)
   | _ \<Rightarrow> None)"

lemma bit_octet: "bit (push_bit k (ucast (ucast (drop_bit k w) :: u8)) :: u64) n \<longleftrightarrow> n < 64 \<and> k \<le> n \<and> n < k + 8 \<and> bit w n" for w :: u64
  by (auto simp: bit_simps)

lemma u64_octets: "u64_of_octets (octets_of_u64 w @ r) = Some (w, r)"
proof -
  let ?o = "\<lambda>k. push_bit k (ucast (ucast (drop_bit k w) :: u8)) :: u64"
  have "?o 56 OR ?o 48 OR ?o 40 OR ?o 32 OR ?o 24 OR ?o 16 OR ?o 8 OR ?o 0 = w"
    by (rule bit_word_eqI) (simp only: bit_or_iff bit_octet, auto)
  then show ?thesis by (simp add: u64_of_octets_def octets_of_u64_def)
qed

definition framed_wire :: "nat wire_lib" where
  "framed_wire = unary_wire\<lparr>put_u64 := (\<lambda>net. octets_of_u64), get_u64 := (\<lambda>net. u64_of_octets)\<rparr>"

lemma framed_wire_ok: "wire_lib_ok framed_wire" "header_ok framed_wire"
proof -
  show "wire_lib_ok framed_wire"
    using unary_wire_ok by (simp add: wire_lib_ok_def framed_wire_def reads_def u64_octets)
  show "header_ok framed_wire" by (simp add: header_ok_def framed_wire_def octets_of_u64_def)
qed

section \<open>From one side to the other\<close>

lemma u64_of_size: "n < 2 ^ 64 \<Longrightarrow> unat (of_nat n :: u64) = n"
  by (simp add: unat_of_nat take_bit_nat_eq_self)

lemma receive_octets_chunks:
  assumes "\<forall>c \<in> set chunks. c \<noteq> []"
  shows "receive_octets (map Octets chunks @ rest) (replicate (length (concat chunks)) 0) (length (concat chunks)) =
    Some (0, concat chunks, rest)"
proof (cases "length (concat chunks) = 0")
  case True
  with assms have "chunks = []" by (cases chunks) auto
  then show ?thesis by (simp add: receive_octets_def)
next
  case False
  with receive_loop_chunks [OF assms refl, of "replicate (length (concat chunks)) 0" rest 0] show ?thesis
    by (auto simp: receive_octets_def)
qed

lemma frame_received:
  assumes W: "wire_lib_ok W" "header_ok W" "network_size W size_of"
    and ops: "message_list (op_number ops) (op_shapes ops) (op_to_wire ops) (op_of_wire ops) received ok"
    and h: "pred_option (\<lambda>m. ok (nm_additional m)) h" "size_of (message_wire ops h) < 2 ^ 64"
    and chunks: "\<forall>c \<in> set (hs @ cs). c \<noteq> []" "concat (hs @ cs) = frame W size_of (message_wire ops h)" "length (concat hs) = 8"
  shows "receive_any_message W ops torn (map Octets (hs @ cs) @ rest) p =
    Some (EC_NONE, p\<lparr>recv_hmsg := handler_received received h, recv_buffer := concat cs\<rparr>, rest)"
proof -
  let ?v = "message_wire ops h" and ?n = "size_of (message_wire ops h)"
  have cat: "concat hs @ concat cs = put_u64 W True (of_nat ?n) @ write_value W True ?v"
    using chunks(2) by (simp add: frame_def)
  moreover have "length (put_u64 W True (of_nat ?n)) = 8" using W(2) by (simp add: header_ok_def)
  ultimately have split: "concat hs = put_u64 W True (of_nat ?n)" "concat cs = write_value W True ?v"
    using chunks(3) by (simp_all add: append_eq_append_conv)
  have len: "length (concat cs) = ?n" using W(3) split(2) by (simp add: network_size_def)
  have head: "receive_octets (map Octets (hs @ cs) @ rest) (replicate 8 0) 8 = Some (0, concat hs, map Octets cs @ rest)"
    using receive_octets_chunks [of hs "map Octets cs @ rest"] chunks(1,3) by simp
  have size: "get_u64 W True (concat hs) = Some (of_nat ?n, [])"
    using wire_lib_okD(2) [OF W(1), of True "of_nat ?n"] split(1) by (simp add: reads_def) (metis append_Nil2)
  have body: "receive_octets (map Octets cs @ rest) (replicate ?n 0) ?n = Some (0, concat cs, rest)"
    using receive_octets_chunks [of cs rest] chunks(1) len by simp
  have "Deserialize W True (handler_shape (op_shapes ops)) (handler_of_wire (op_of_wire ops)) (concat cs) =
      Some (handler_received received h, [])"
    using content_type.received_from_octets
      [OF message_list.content_type_handler [OF ops] W(1) h(1), of True "[]"] split(2)
    by (simp add: Serialize_def message_wire_def)
  with head size body show ?thesis
    by (simp add: receive_any_message_def u64_of_size [OF h(2)])
qed
text \<open>A send that reports no error has given the system the whole frame.\<close>

lemma send_handler_frame:
  assumes "header_ok W" "send_handler W size_of ops results p = Some (EC_NONE, p', taken, rest)"
    and "taking results (length (frame W size_of (message_wire ops (hmsg p))))"
  shows "taken = frame W size_of (message_wire ops (hmsg p)) \<and> hmsg p \<noteq> None \<and> hmsg p' = hmsg p"
proof -
  let ?f = "frame W size_of (message_wire ops (hmsg p))"
  have "?f \<noteq> []" using assms(1) by (auto simp: header_ok_def frame_def) (metis list.size(3) zero_neq_numeral)
  with assms(2) obtain m ok
    where m: "hmsg p = Some m" and p': "p' = p\<lparr>hmsg_buffer := ?f\<rparr>"
      and l: "send_loop results ?f 0 = Some (ok, taken, rest)" and ok: ok
    by (auto simp: send_handler_def Let_def send_sequentialy_def bind_eq_Some_conv split: option.splits if_splits)
  have "taken = ?f" using send_loop_outcome [OF l] assms(3) ok by simp
  with m p' show ?thesis by simp
qed

text \<open>Moving twice is moving once.\<close>

lemma server_move_idem [simp]: "server_move (server_move c) = server_move c"
  by (cases c) (simp_all add: FileInfo_copy_def IndexReply_copy_def IndexRefReply_copy_def FilePart_copy_def ExtractReply_copy_def)

lemma client_move_idem [simp]: "client_move (client_move c) = client_move c"
  by (cases c) (simp_all add: DataRequest_move_def DataRequest_assign_def ExtractForm_move_def ExtractForm_assign_def
      split: option.split)

lemma NetMessage_move_idem: "(\<And>c. move (move c) = move c) \<Longrightarrow> NetMessage_move move (NetMessage_move move m) = NetMessage_move move m"
  by (simp add: NetMessage_move_def MessageBase_move_def)

text \<open>The move of a content that a side sends, and what arrives.\<close>

lemma sent_arrives:
  assumes W: "wire_lib_ok W" "header_ok W" "network_size W size_of"
    and ops: "message_list (op_number ops) (op_shapes ops) (op_to_wire ops) (op_of_wire ops) received ok"
    and sent: "send_handler W size_of ops results p = Some (EC_NONE, p', taken, sent_rest)"
      "taking results (length (frame W size_of (message_wire ops (hmsg p))))"
    and ok: "pred_option (\<lambda>m. ok (nm_additional m)) (hmsg p)" "size_of (message_wire ops (hmsg p)) < 2 ^ 64"
    and chunks: "\<forall>c \<in> set (hs @ cs). c \<noteq> []" "concat (hs @ cs) = taken" "length (concat hs) = 8"
  shows "receive_any_message W ops torn (map Octets (hs @ cs) @ rest) q =
    Some (EC_NONE, q\<lparr>recv_hmsg := handler_received received (hmsg p), recv_buffer := concat cs\<rparr>, rest)"
  using frame_received [OF W ops ok chunks(1) _ chunks(3)] send_handler_frame [OF W(2) sent] chunks(2) by simp

section \<open>The client's request\<close>

text \<open>
  \<open>sending\<close> is the call of \<^verbatim>\<open>send_message\<close> with the arguments of the request; \<open>stops\<close> are the answers
  of the stop token, one after each wait.
\<close>

partial_function (option) request_loop ::
    "'l wire_lib \<Rightarrow> ('r, 'l) content_ops \<Rightarrow> ('r handler \<Rightarrow> u8 list \<Rightarrow> 'r handler) \<Rightarrow> bool list \<Rightarrow> recv_result list \<Rightarrow>
     ('s, 'r) MessageProcess \<Rightarrow> ((runtime_error + unit) \<times> ('s, 'r) MessageProcess \<times> recv_result list) option" where
  "request_loop W ops torn stops results p =
     (if has_more p then
        (case stops of [] \<Rightarrow> None
         | stop # stops \<Rightarrow>
             if stop then Some (Inr (), p, results)
             else do {
               (err, p, results) \<leftarrow> receive_any_message W ops torn results p;
               if err \<noteq> EC_NONE then Some (Inl Error_at_receiving, p, results)
               else request_loop W ops torn stops results p})
      else Some (Inr (), p, results))"

definition request :: "'l wire_lib \<Rightarrow> ('r, 'l) content_ops \<Rightarrow> ('r handler \<Rightarrow> u8 list \<Rightarrow> 'r handler) \<Rightarrow>
    (('s, 'r) MessageProcess \<Rightarrow> (ErrorCode \<times> ('s, 'r) MessageProcess \<times> u8 list \<times> int list) option) \<Rightarrow> bool list \<Rightarrow>
    recv_result list \<Rightarrow> ('s, 'r) MessageProcess \<Rightarrow> ((runtime_error + unit) \<times> ('s, 'r) MessageProcess \<times> recv_result list) option" where
  "request W ops torn sending stops results p = do {
     (err, p, taken, sent_rest) \<leftarrow> sending p;
     if err \<noteq> EC_NONE then Some (Inl Error_at_sending, p, results)
     else do {
       (err, p, results) \<leftarrow> receive_any_message W ops torn results p;
       if err \<noteq> EC_NONE then Some (Inl Error_at_receiving, p, results)
       else request_loop W ops torn stops results p}}"

section \<open>What a process does to its state\<close>

text \<open>The steps of a process that sends by \<open>sops\<close> and receives by \<open>rops\<close>.\<close>

inductive process_step :: "'l wire_lib \<Rightarrow> ('l wire \<Rightarrow> nat) \<Rightarrow> ('s, 'l) content_ops \<Rightarrow> ('r, 'l) content_ops \<Rightarrow>
    ('s, 'r) MessageProcess \<Rightarrow> ('s, 'r) MessageProcess \<Rightarrow> bool" for W size_of sops rops where
  step_message: "send_message W size_of sops results m p = Some (err_code, p', taken, rest) \<Longrightarrow> process_step W size_of sops rops p p'"
| step_additional: "send_additional W size_of sops results c p = Some (err_code, p', taken, rest) \<Longrightarrow> process_step W size_of sops rops p p'"
| step_receive: "receive_any_message W rops torn results p = Some (err_code, p', rest') \<Longrightarrow> process_step W size_of sops rops p p'"
| step_assign: "process_step W size_of sops rops p (MessageProcess_assign p other)"

inductive_cases process_stepE: "process_step W size_of sops rops p p'"

inductive reachable_process :: "'l wire_lib \<Rightarrow> ('l wire \<Rightarrow> nat) \<Rightarrow> ('s, 'l) content_ops \<Rightarrow> ('r, 'l) content_ops \<Rightarrow>
    ('s, 'r) MessageProcess \<Rightarrow> bool" for W size_of sops rops where
  reachable_default: "reachable_process W size_of sops rops MessageProcess_default"
| reachable_step: "reachable_process W size_of sops rops p \<Longrightarrow> process_step W size_of sops rops p p' \<Longrightarrow>
    reachable_process W size_of sops rops p'"

lemma send_handler_has_more: "send_handler W size_of ops results p = Some (err_code, p', taken, rest) \<Longrightarrow> has_more p' = has_more p"
  by (auto simp: send_handler_def Let_def bind_eq_Some_conv split: option.splits if_splits)

lemma receive_has_more: "receive_any_message W ops torn results p = Some (err_code, p', rest) \<Longrightarrow> has_more p' = has_more p"
  by (simp add: receive_any_message_def split: Option.bind_split_asm prod.split_asm option.split_asm if_split_asm) auto

lemma process_step_has_more: "process_step W size_of sops rops p p' \<Longrightarrow> has_more p' = has_more p"
  by (erule process_stepE)
    (auto simp: send_message_def send_additional_def MessageProcess_assign_def dest!: send_handler_has_more receive_has_more)

lemma reachable_has_more: "reachable_process W size_of sops rops p \<Longrightarrow> \<not> has_more p"
  by (induction rule: reachable_process.induct) (simp_all add: MessageProcess_default_def process_step_has_more)

end
