(* ===== verification/Net_Reply.thy ===== *)
theory Net_Reply
  imports Net_Exchange
begin

text \<open>
  The server's replies (\<^verbatim>\<open>src/network/server/connection_process.cpp\<close>) and the properties of the
  exchange of messages.
\<close>

section \<open>Errors\<close>

text \<open>The message holds constants; the arguments are only used for the result.\<close>

definition send_error :: "('l wire_lib) \<Rightarrow> ('l wire \<Rightarrow> nat) \<Rightarrow> int list \<Rightarrow> ErrorCode \<Rightarrow> Status \<Rightarrow>
    ('l server_content, 'r) MessageProcess \<Rightarrow>
    (ErrorCode \<times> ('l server_content, 'r) MessageProcess \<times> u8 list \<times> int list) option" where
  "send_error W size_of results code status p = do {
     let rep_msg = (NetMessage_of (\<lambda>c. size_of (server_wire c)) (SC_error ErrorReply_default))
       \<lparr>nm_additional := SC_error (ErrorReply_default\<lparr>ee_err := EC_INVALID_ARGUMENT, ee_status := Some READY\<rparr>)\<rparr>;
     (errtmp, p, taken, results) \<leftarrow> send_message W size_of server_ops results rep_msg p;
     Some (if errtmp = EC_NONE then code else errtmp, p, taken, results)}"

section \<open>Index requests\<close>

text \<open>
  \<open>find_all\<close> is the search in the program's data; alternatives without parameters are skipped.
\<close>

definition index_blocks :: "('l IndexParameters \<Rightarrow> int \<Rightarrow> 'l FoundInfo list option) \<Rightarrow> 'l IndexRefRequest \<Rightarrow>
    'l IndexRefReply \<Rightarrow> 'l IndexRefReply" where
  "index_blocks find_all q r = foldl (\<lambda>r param. case param of None \<Rightarrow> r
     | Some index_param \<Rightarrow> (case find_all index_param (iw_last_update q) of None \<Rightarrow> r | Some ds \<Rightarrow> add_block ds r)) r (iw_parameters q)"

definition index_reply :: "('l wire_lib) \<Rightarrow> ('l wire \<Rightarrow> nat) \<Rightarrow> ('l IndexParameters \<Rightarrow> int \<Rightarrow> 'l FoundInfo list option) \<Rightarrow>
    int list \<Rightarrow> 'l IndexRefRequest \<Rightarrow> ('l server_content, 'r) MessageProcess \<Rightarrow>
    (ErrorCode \<times> ('l server_content, 'r) MessageProcess \<times> u8 list \<times> int list) option" where
  "index_reply W size_of find_all results q p =
     (let rep_msg = NetMessage_of (\<lambda>c. size_of (server_wire c)) (SC_index_ref IndexRefReply_default)
      in send_message W size_of server_ops results
        (rep_msg\<lparr>nm_additional := SC_index_ref (index_blocks find_all q IndexRefReply_default)\<rparr>) p)"

section \<open>The dispatch of a request\<close>

text \<open>
  \<open>data_request\<close> is the treatment of a request of data (an extraction into a temporary directory).
  The second component is what the reply did, or the error that was thrown.
\<close>

definition reply :: "('l wire_lib) \<Rightarrow> ('l wire \<Rightarrow> nat) \<Rightarrow> (SearchParamTableVersion set \<Rightarrow> SearchParamTableVersion list) \<Rightarrow>
    ('l client_content handler \<Rightarrow> u8 list \<Rightarrow> 'l client_content handler) \<Rightarrow>
    ('l IndexParameters \<Rightarrow> int \<Rightarrow> 'l FoundInfo list option) \<Rightarrow>
    ('l client_content NetMessage \<Rightarrow> ('l server_content, 'l client_content) MessageProcess \<Rightarrow>
      (runtime_error option \<times> ('l server_content, 'l client_content) MessageProcess) option) \<Rightarrow>
    int list \<Rightarrow> recv_result list \<Rightarrow> ('l server_content, 'l client_content) MessageProcess \<Rightarrow>
    (runtime_error option \<times> ('l server_content, 'l client_content) MessageProcess) option" where
  "reply W size_of order torn find_all data_request sresults rresults p = do {
     (err_code, p, rest) \<leftarrow> receive_any_message W (client_ops order) torn rresults p;
     case received_message_type (client_ops order) p of
       None \<Rightarrow> Some (None, p)
     | Some n \<Rightarrow>
         if err_code \<noteq> EC_NONE then Some (None, p)
         else if n = client_value INDEX_REF \<or> n = client_value INDEX then
           (case get_received_message (client_ops order) (client_value INDEX_REF) p of
              Inl e \<Rightarrow> Some (Some e, p)
            | Inr m \<Rightarrow> (case nm_additional m of
                CC_index_ref q \<Rightarrow> do {
                  (err_code, p, taken, results) \<leftarrow> index_reply W size_of find_all sresults q p;
                  Some (None, p)}
              | _ \<Rightarrow> None))
         else if n = client_value DATA_REQUEST then
           (case get_received_message (client_ops order) (client_value DATA_REQUEST) p of
              Inl e \<Rightarrow> Some (Some e, p)
            | Inr m \<Rightarrow> data_request m p)
         else Some (None, p)}"

section \<open>The parts of a file\<close>

text \<open>
  The loop that sends a file of \<open>file_sz\<close> octets, mapped at \<open>memory\<close>: one message for each offset,
  each with the octets from the start of the mapping.  The moved part keeps its data.
\<close>

primrec file_parts :: "u8 list \<Rightarrow> nat \<Rightarrow> nat \<Rightarrow> FilePart \<Rightarrow> FilePart list option" where
  "file_parts memory offset 0 part = Some []"
| "file_parts memory offset (Suc n) part = do {
     part \<leftarrow> assign_file_segment memory 8912 (part\<lparr>fp_offset := of_nat offset\<rparr>);
     parts \<leftarrow> file_parts memory (offset + 1) n part;
     Some (part # parts)}"

primrec send_parts :: "('l wire_lib) \<Rightarrow> ('l wire \<Rightarrow> nat) \<Rightarrow> int list \<Rightarrow> FilePart list \<Rightarrow> ErrorCode \<Rightarrow>
    ('l server_content, 'r) MessageProcess \<Rightarrow>
    (ErrorCode \<times> ('l server_content, 'r) MessageProcess \<times> u8 list \<times> int list) option" where
  "send_parts W size_of results [] code p = Some (code, p, [], results)"
| "send_parts W size_of results (part # parts) code p = do {
     (code, p, taken, results) \<leftarrow> send_additional W size_of server_ops results (SC_filepart part) p;
     (code, p, more, results) \<leftarrow> send_parts W size_of results parts code p;
     Some (code, p, taken @ more, results)}"

lemma file_parts_from_start:
  "8912 \<le> length memory \<Longrightarrow> file_parts memory offset n part =
     Some (map (\<lambda>i. part\<lparr>fp_offset := of_nat i, fp_data := take 8912 memory\<rparr>) [offset..<offset + n])"
proof (induction n arbitrary: offset part)
  case (Suc n)
  then show ?case
    by (simp add: assign_file_segment_def upt_conv_Cons del: upt_Suc)
qed simp

lemma additional_unchanged [simp]: "nm_additional_update (\<lambda>c. c) m = m"
  by (cases m) simp

section \<open>Properties\<close>

text \<open>
  C17: A request that the client sends without an error arrives at the server: whatever the
  pieces in which the octets are received, the server's handler then holds the message that the
  client moved into its own, no octet of what follows is consumed, and the server's other state is
  unchanged.
\<close>

theorem client_message_arrives:
  assumes W: "wire_lib_ok W" "header_ok W" "network_size W size_of"
    and sent: "send_message W size_of (client_ops order) results m p = Some (EC_NONE, p', taken, sent_rest)"
      "taking results (length (frame W size_of (message_wire (client_ops order) (Some (NetMessage_move client_move m)))))"
    and ok: "client_ok order (client_move (nm_additional m))"
      "size_of (message_wire (client_ops order) (Some (NetMessage_move client_move m))) < 2 ^ 64"
    and chunks: "\<forall>c \<in> set (hs @ cs). c \<noteq> []" "concat (hs @ cs) = taken" "length (concat hs) = 8"
  shows "receive_any_message W (client_ops order) torn (map Octets (hs @ cs) @ rest) q =
    Some (EC_NONE, q\<lparr>recv_hmsg := Some (NetMessage_move client_move m), recv_buffer := concat cs\<rparr>, rest)"
proof -
  let ?ops = "client_ops order" and ?m = "NetMessage_move client_move m"
  have mo: "NetMessage_move (op_move ?ops) (NetMessage_move (op_move ?ops) m) = ?m"
    by (simp add: client_ops_def NetMessage_move_idem)
  have list: "message_list (op_number ?ops) (op_shapes ?ops) (op_to_wire ?ops) (op_of_wire ?ops) (\<lambda>c. c) (client_ok order)"
    unfolding client_ops_def content_ops.simps by unfold_locales
  have "pred_option (\<lambda>m. client_ok order (nm_additional m)) (hmsg (p\<lparr>hmsg := Some ?m\<rparr>))"
    using ok(1) by (simp add: NetMessage_move_def)
  from sent_arrives [OF W list sent(1)[unfolded send_message_def mo] _ this _ chunks] sent(2) ok(2)
  show ?thesis by (simp add: handler_received_def)
qed

text \<open>A request of two octets' worth of a transaction, sent in two pieces and received in three.\<close>

definition example_message :: "nat client_content NetMessage" where
  "example_message = NetMessage_of (\<lambda>c. 9) (CC_transaction \<lparr>op_hash = 7, op_status = ACCEPT\<rparr>)"

definition framed_size :: "nat wire \<Rightarrow> nat" where
  "framed_size v = length (write_value framed_wire True v)"

lemma framed_size_ok: "network_size framed_wire framed_size"
  by (simp add: network_size_def framed_size_def)

lemma framed_leaves:
  "write_value framed_wire net (w_u64 a) = octets_of_u64 a"
  "write_value framed_wire net (w_bool b) = [if b then 1 else 0]"
  "write_value framed_wire net (w_u8 c) = put_unary (unat c)"
  "write_value framed_wire net (w_int32 d) = put_unary (unat d)"
  "put_variant framed_wire net n bs = put_unary n @ bs"
  "put_u64 framed_wire net a = octets_of_u64 a"
  "put_vec framed_wire net vs = put_unary (length vs) @ concat vs"
  "put_opt framed_wire net None = [0]"
  "put_time framed_wire net t = put_int_unary t"
  by (simp_all add: framed_wire_def unary_wire_def unary_codec_def w_u64_def w_bool_def w_u8_def w_int32_def)

definition example_header :: "u8 list" where
  "example_header = [0, 0, 0, 0, 0, 0, 0, 24]"

definition example_body :: "u8 list" where
  "example_body = [1, 1, 1, 1, 1, 0, 0, 0, 0, 0, 0, 0, 0, 9, 0, 0, 0, 0, 0, 0, 0, 0, 7, 0]"

lemma five_ones: "replicate 5 x = [x, x, x, x, x]"
  by (simp add: eval_nat_numeral)

lemma example_frame:
  "frame framed_wire framed_size (message_wire (client_ops (\<lambda>s. [])) (Some (NetMessage_move client_move example_message))) =
    example_header @ example_body"
  "framed_size (message_wire (client_ops (\<lambda>s. [])) (Some (NetMessage_move client_move example_message))) = 24"
  by (simp_all add: frame_def framed_size_def message_wire_def client_ops_def handler_wire_def NetMessage_move_def example_message_def
      NetMessage_of_def MessageBase_of_def MessageBase_move_def MessageBase_wire_def TransactionRequest_wire_def w_transaction_def
      framed_leaves put_unary_def five_ones octets_of_u64_def example_header_def example_body_def)

lemma example_sent:
  "send_message framed_wire framed_size (client_ops (\<lambda>s. [])) [20, 12] example_message MessageProcess_default =
    Some (EC_NONE, MessageProcess_default\<lparr>hmsg := Some (NetMessage_move client_move example_message),
      hmsg_buffer := example_header @ example_body\<rparr>, example_header @ example_body, [])"
proof -
  have m: "NetMessage_move (op_move (client_ops (\<lambda>s. []))) (NetMessage_move (op_move (client_ops (\<lambda>s. []))) example_message) =
      NetMessage_move client_move example_message"
    by (simp add: client_ops_def NetMessage_move_idem)
  have l: "send_loop [20, 12] (example_header @ example_body) 0 = Some (True, example_header @ example_body, [])"
    by (simp add: send_loop.simps example_header_def example_body_def)
  show ?thesis
    unfolding send_message_def m
    by (simp add: send_handler_def Let_def send_sequentialy_def example_frame l) (simp add: client_ops_def example_header_def)
qed

theorem client_message_arrives_witness:
  "receive_any_message framed_wire (client_ops (\<lambda>s. [])) (\<lambda>h buffer. h)
     (map Octets ([[0, 0, 0], [0, 0, 0, 0, 24]] @ [take 10 example_body, drop 10 example_body]) @ [Octets [5]])
     (MessageProcess_default :: (nat server_content, nat client_content) MessageProcess) =
   Some (EC_NONE, MessageProcess_default\<lparr>recv_hmsg := Some (NetMessage_move client_move example_message),
     recv_buffer := example_body\<rparr>, [Octets [5]])"
proof -
  have "client_ok (\<lambda>s. []) (client_move (nm_additional example_message))"
    by (simp add: example_message_def NetMessage_of_def)
  moreover have "taking [20, 12] (length (example_header @ example_body))"
    by (simp add: example_header_def example_body_def)
  ultimately show ?thesis
    using client_message_arrives [OF framed_wire_ok framed_size_ok example_sent, of "[[0, 0, 0], [0, 0, 0, 0, 24]]"
        "[take 10 example_body, drop 10 example_body]" "\<lambda>h buffer. h" "[Octets [5]]" MessageProcess_default]
    by (simp add: example_frame) (simp add: example_header_def example_body_def)
qed

text \<open>
  C18: A reply of the server that is sent without an error arrives at the client: the handler holds
  the message that the server moved into its own, apart from the members of a file's description
  that are not serialized.
\<close>

theorem server_message_arrives:
  assumes W: "wire_lib_ok W" "header_ok W" "network_size W size_of"
    and sent: "send_message W size_of server_ops results m p = Some (EC_NONE, p', taken, sent_rest)"
      "taking results (length (frame W size_of (message_wire server_ops (Some (NetMessage_move server_move m)))))"
    and ok: "server_ok (server_move (nm_additional m))"
      "size_of (message_wire server_ops (Some (NetMessage_move server_move m))) < 2 ^ 64"
    and chunks: "\<forall>c \<in> set (hs @ cs). c \<noteq> []" "concat (hs @ cs) = taken" "length (concat hs) = 8"
  shows "receive_any_message W server_ops torn (map Octets (hs @ cs) @ rest) q =
    Some (EC_NONE, q\<lparr>recv_hmsg := handler_received server_received (Some (NetMessage_move server_move m)),
      recv_buffer := concat cs\<rparr>, rest)"
proof -
  let ?ops = server_ops and ?m = "NetMessage_move server_move m"
  have mo: "NetMessage_move (op_move ?ops) (NetMessage_move (op_move ?ops) m) = ?m"
    by (simp add: server_ops_def NetMessage_move_idem)
  have list: "message_list (op_number ?ops) (op_shapes ?ops) (op_to_wire ?ops) (op_of_wire ?ops) server_received server_ok"
    unfolding server_ops_def content_ops.simps by unfold_locales
  have "pred_option (\<lambda>m. server_ok (nm_additional m)) (hmsg (p\<lparr>hmsg := Some ?m\<rparr>))"
    using ok(1) by (simp add: NetMessage_move_def)
  from sent_arrives [OF W list sent(1)[unfolded send_message_def mo] _ this _ chunks] sent(2) ok(2)
  show ?thesis by simp
qed

definition example_reply :: "nat server_content NetMessage" where
  "example_reply = NetMessage_of (\<lambda>c. 9) (SC_version (VersionReply_of 7 READY))"

definition reply_body :: "u8 list" where
  "reply_body = [1, 1, 1, 1, 1, 1, 1, 0, 0, 0, 0, 0, 0, 0, 0, 9, 0, 0, 0, 0, 0, 0, 0, 0, 0, 7]"

lemma seven_ones: "replicate 7 x = [x, x, x, x, x, x, x]"
  by (simp add: eval_nat_numeral)

lemma reply_frame:
  "frame framed_wire framed_size (message_wire server_ops (Some (NetMessage_move server_move example_reply))) =
    [0, 0, 0, 0, 0, 0, 0, 26] @ reply_body"
  "framed_size (message_wire server_ops (Some (NetMessage_move server_move example_reply))) = 26"
  by (simp_all add: frame_def framed_size_def message_wire_def server_ops_def handler_wire_def NetMessage_move_def example_reply_def
      NetMessage_of_def MessageBase_of_def MessageBase_move_def MessageBase_wire_def VersionReply_wire_def VersionReply_of_def
      w_member_def w_status_def framed_leaves put_unary_def seven_ones octets_of_u64_def reply_body_def)

lemma reply_sent:
  "send_message framed_wire framed_size server_ops [34] example_reply MessageProcess_default =
    Some (EC_NONE, MessageProcess_default\<lparr>hmsg := Some (NetMessage_move server_move example_reply),
      hmsg_buffer := [0, 0, 0, 0, 0, 0, 0, 26] @ reply_body\<rparr>, [0, 0, 0, 0, 0, 0, 0, 26] @ reply_body, [])"
proof -
  have m: "NetMessage_move (op_move server_ops) (NetMessage_move (op_move server_ops) example_reply) =
      NetMessage_move server_move example_reply"
    by (simp add: server_ops_def NetMessage_move_idem)
  have i: "op_initialised server_ops (nm_additional (NetMessage_move server_move example_reply))"
    by (simp add: server_ops_def NetMessage_move_def example_reply_def NetMessage_of_def VersionReply_of_def)
  have l: "send_loop [34] ([0, 0, 0, 0, 0, 0, 0, 26] @ reply_body) 0 = Some (True, [0, 0, 0, 0, 0, 0, 0, 26] @ reply_body, [])"
    by (simp add: send_loop.simps reply_body_def)
  then show ?thesis
    unfolding send_message_def m
    by (simp add: send_handler_def Let_def send_sequentialy_def reply_frame i)
qed

theorem server_message_arrives_witness:
  "receive_any_message framed_wire server_ops (\<lambda>h buffer. h)
     (map Octets ([[0, 0, 0, 0, 0, 0, 0, 26]] @ [take 1 reply_body, drop 1 reply_body]) @ [])
     (MessageProcess_default :: (nat client_content, nat server_content) MessageProcess) =
   Some (EC_NONE, MessageProcess_default\<lparr>recv_hmsg := Some example_reply, recv_buffer := reply_body\<rparr>, [])"
proof -
  have "server_ok (server_move (nm_additional example_reply))"
    by (simp add: example_reply_def NetMessage_of_def VersionReply_of_def)
  moreover have "taking [34] (length ([0, 0, 0, 0, 0, 0, 0, 26] @ reply_body))"
    by (simp add: reply_body_def)
  moreover have "handler_received server_received (Some (NetMessage_move server_move example_reply)) = Some example_reply"
    by (simp add: handler_received_def NetMessage_move_def MessageBase_move_def MessageBase_of_def example_reply_def NetMessage_of_def)
  ultimately show ?thesis
    using server_message_arrives [OF framed_wire_ok framed_size_ok reply_sent, of "[[0, 0, 0, 0, 0, 0, 0, 26]]"
        "[take 1 reply_body, drop 1 reply_body]" "\<lambda>h buffer. h" "[]" MessageProcess_default]
    by (simp add: reply_frame) (simp add: reply_body_def)
qed

text \<open>
  C19: A client's request ends after exactly one received message, whatever that message says about
  further ones and whatever the stop token answers: no operation of a process ever sets the flag that
  the request waits on.
\<close>

theorem request_receives_one:
  assumes "reachable_process W size_of (client_ops order) server_ops p"
    and "send_additional W size_of (client_ops order) results c p = Some (EC_NONE, sent_p, taken, sent_rest)"
    and "receive_any_message W server_ops torn rresults sent_p = Some (EC_NONE, final_p, rest)"
  shows "request W server_ops torn (send_additional W size_of (client_ops order) results c) stops rresults p =
    Some (Inr (), final_p, rest)"
proof -
  have "reachable_process W size_of (client_ops order) server_ops final_p"
    using assms by (blast intro: reachable_step step_additional step_receive)
  then have "\<not> has_more final_p" by (rule reachable_has_more)
  with assms(2,3) show ?thesis by (simp add: request_def request_loop.simps)
qed

lemma version_received:
  "receive_any_message framed_wire server_ops (\<lambda>h buffer. h) (map Octets ([[0, 0, 0, 0, 0, 0, 0, 26]] @ [reply_body]) @ []) p =
     Some (EC_NONE, p\<lparr>recv_hmsg := handler_received server_received (Some (NetMessage_move server_move example_reply)),
       recv_buffer := concat [reply_body]\<rparr>, [])"
proof -
  have list: "message_list (op_number server_ops) (op_shapes server_ops) (op_to_wire server_ops) (op_of_wire server_ops)
      server_received server_ok"
    unfolding server_ops_def content_ops.simps by unfold_locales
  have "pred_option (\<lambda>m. server_ok (nm_additional m)) (Some (NetMessage_move server_move example_reply))"
    by (simp add: example_reply_def NetMessage_of_def NetMessage_move_def VersionReply_of_def)
  from frame_received [OF framed_wire_ok framed_size_ok list this, of "[[0, 0, 0, 0, 0, 0, 0, 26]]" "[reply_body]" "\<lambda>h buffer. h" "[]" p]
  show ?thesis by (simp add: reply_frame) (simp add: reply_body_def)
qed

theorem request_receives_one_witness:
  "\<exists>final_p. request framed_wire server_ops (\<lambda>h buffer. h)
     (send_additional framed_wire framed_size (client_ops (\<lambda>s. [])) [32] (CC_transaction \<lparr>op_hash = 7, op_status = ACCEPT\<rparr>))
     [False, False] (map Octets ([[0, 0, 0, 0, 0, 0, 0, 26]] @ [reply_body]) @ [])
     (MessageProcess_default :: (nat client_content, nat server_content) MessageProcess) = Some (Inr (), final_p, [])"
proof -
  let ?ops = "client_ops (\<lambda>s. []) :: (nat client_content, nat) content_ops" and ?c = "CC_transaction \<lparr>op_hash = 7, op_status = ACCEPT\<rparr>"
  let ?m = "NetMessage_of (\<lambda>c. framed_size (op_to_wire ?ops c)) (op_move ?ops (op_move ?ops ?c))"
  have m: "?m = NetMessage_move client_move example_message"
    by (simp add: client_ops_def NetMessage_of_def NetMessage_move_def example_message_def MessageBase_move_def MessageBase_of_def
        framed_size_def TransactionRequest_wire_def w_transaction_def framed_leaves put_unary_def octets_of_u64_def)
  have l: "send_loop [32] (example_header @ example_body) 0 = Some (True, example_header @ example_body, [])"
    by (simp add: send_loop.simps example_header_def example_body_def)
  have s: "send_additional framed_wire framed_size ?ops [32] ?c MessageProcess_default =
      Some (EC_NONE, MessageProcess_default\<lparr>hmsg := Some ?m, hmsg_buffer := example_header @ example_body\<rparr>, example_header @ example_body, [])"
    unfolding send_additional_def m
    by (simp add: send_handler_def Let_def send_sequentialy_def example_frame l) (simp add: client_ops_def example_header_def)
  show ?thesis
    using request_receives_one [OF reachable_default s version_received] by blast
qed

text \<open>
  Making the alternative of a variant by its index gives the alternative at that index, and
  reports an argument that no alternative can be made of.  An error that the alternative itself
  reports is kept only for the last one, and replaced for every other.
\<close>

theorem emplace_by_index:
  "variant_emplace n alternative error_of monostate index result =
    (if index \<ge> n then (EC_INVALID_ARGUMENT, result)
     else (case alternative index of None \<Rightarrow> (EC_INVALID_ARGUMENT, result)
       | Some v \<Rightarrow> (case error_of v of None \<Rightarrow> (EC_NONE, v)
           | Some code \<Rightarrow> if code = EC_NONE then (EC_NONE, v)
               else (if Suc index = n then code else EC_INVALID_ARGUMENT, monostate))))"
  by (auto simp: variant_emplace_def emplaceImpl_at try_emplace_def Let_def split: option.split)

text \<open>
  C20: Sending ends as soon as the system has answered as often as there are octets, and reports
  success only when it has taken all of them in order; otherwise it has taken a prefix.
\<close>

theorem send_ends_with_all:
  assumes "taking results (length buffer)" "length buffer \<le> length results"
  shows "\<exists>r taken rest. send_buffers results [buffer] = Some (r, taken, rest) \<and>
    (if r = 0 then taken = buffer else r = - 1 \<and> (\<exists>k. taken = take k buffer))"
proof (cases "buffer = []")
  case True
  then show ?thesis by (simp add: send_sequentialy_def)
next
  case False
  from send_loop_ends [of buffer 0 results] assms obtain ok taken rest
    where l: "send_loop results buffer 0 = Some (ok, taken, rest)" by auto
  from send_loop_outcome [OF this] assms(1) False l show ?thesis
    by (cases ok) (simp_all add: send_sequentialy_def)
qed

theorem send_ends_with_all_witness:
  "\<exists>r taken rest. send_buffers [2, 1, - 1] [[7, 8, 9]] = Some (r, taken, rest) \<and>
    (if r = 0 then taken = [7, 8, 9] else r = - 1 \<and> (\<exists>k. taken = take k [7, 8, 9]))"
  by (rule send_ends_with_all) simp_all

text \<open>
  A failed call ends the reception with an error, also one that was only interrupted or had to
  wait: the code compares the negative result, not the number of the error, with those it wants to
  retry.
\<close>

theorem receive_interrupted:
  assumes "\<forall>c \<in> set chunks. c \<noteq> []" "length (concat chunks) < n" "n \<le> length buffer" "read_num < 0"
  shows "\<exists>buffer'. receive_octets (map Octets chunks @ Failed read_num # rest) buffer n = Some (- 1, buffer', rest)"
  using receive_loop_partial [OF assms(1-3), of "Failed read_num # rest" 0] receive_loop_failed [OF _ assms(4)] assms(2)
  by (auto simp: receive_octets_def)

theorem receive_interrupted_witness:
  "\<exists>buffer'. receive_octets (map Octets [[1, 2]] @ Failed (- 1) # [Octets [3]]) [0, 0, 0] 3 = Some (- 1, buffer', [Octets [3]])"
  by (rule receive_interrupted) simp_all

text \<open>
  The server cannot answer a request of an index reference: the status of its message is not
  initialised any more when the message is serialized.
\<close>

theorem index_reply_undefined: "index_reply W size_of find_all results q p = None"
  by (simp add: index_reply_def Let_def send_message_def send_handler_def NetMessage_move_def server_ops_def
      IndexRefReply_copy_def NetMessage_of_def)

text \<open>
  The parts of a file are one for each octet of the file, numbered from 0, and each holds the
  first 8912 octets of the mapping; a mapping shorter than that is read behind its end.
\<close>

theorem file_parts_repeat:
  "file_parts memory 0 n part =
    (if n = 0 then Some [] else if 8912 \<le> length memory
     then Some (map (\<lambda>i. part\<lparr>fp_offset := of_nat i, fp_data := take 8912 memory\<rparr>) [0..<n]) else None)"
  using file_parts_from_start [of memory 0 n part] by (cases n) (simp_all add: assign_file_segment_def del: upt_Suc)

text \<open>
  A request of an index makes the server throw: it asks for the message of an index
  reference, which the handler does not hold.
\<close>

theorem index_request_throws:
  assumes "receive_any_message W (client_ops order) torn rresults p = Some (EC_NONE, sent_p, rest)"
    and "recv_hmsg sent_p = Some m" "nm_additional m = CC_index q"
  shows "reply W size_of order torn find_all data_request sresults rresults p = Some (Some Not_received, sent_p)"
  using assms by (simp add: reply_def received_message_type_def has_message_def handler_index_def get_received_message_def client_ops_def)

definition index_message :: "nat client_content NetMessage" where
  "index_message = NetMessage_of (\<lambda>c. 5) (CC_index IndexRequest_default)"

definition index_body :: "u8 list" where
  "index_body = [1, 1, 1, 0, 0, 0, 0, 0, 0, 0, 0, 5, 0, 0, 0, 0, 0]"

lemma three_ones: "replicate 3 x = [x, x, x]"
  by (simp add: eval_nat_numeral)

lemma index_octets:
  "frame framed_wire framed_size (message_wire (client_ops (\<lambda>s. [])) (Some index_message)) = [0, 0, 0, 0, 0, 0, 0, 17] @ index_body"
  "framed_size (message_wire (client_ops (\<lambda>s. [])) (Some index_message)) = 17"
  by (simp_all add: frame_def framed_size_def message_wire_def client_ops_def handler_wire_def index_message_def
      NetMessage_of_def MessageBase_of_def MessageBase_wire_def IndexRequest_wire_def IndexRequest_default_def w_vec_def w_opt_def
      w_time_def framed_leaves put_unary_def put_int_unary_def three_ones octets_of_u64_def index_body_def)

theorem index_request_throws_witness:
  "\<exists>q. reply framed_wire framed_size (\<lambda>s. []) (\<lambda>h buffer. h) (\<lambda>ip t. None) (\<lambda>m p. None) []
     (map Octets ([[0, 0, 0, 0, 0, 0, 0, 17]] @ [index_body]) @ []) MessageProcess_default = Some (Some Not_received, q)"
proof -
  let ?ops = "client_ops (\<lambda>s. []) :: (nat client_content, nat) content_ops"
  have list: "message_list (op_number ?ops) (op_shapes ?ops) (op_to_wire ?ops) (op_of_wire ?ops) (\<lambda>c. c) (client_ok (\<lambda>s. []))"
    unfolding client_ops_def content_ops.simps by unfold_locales
  have "pred_option (\<lambda>m. client_ok (\<lambda>s. []) (nm_additional m)) (Some index_message)"
    by (simp add: index_message_def NetMessage_of_def IndexRequest_default_def storable_time_def)
  from frame_received [OF framed_wire_ok framed_size_ok list this, of "[[0, 0, 0, 0, 0, 0, 0, 17]]" "[index_body]"
      "\<lambda>h buffer. h" "[]" "MessageProcess_default :: (nat server_content, nat client_content) MessageProcess"]
  have r: "receive_any_message framed_wire ?ops (\<lambda>h buffer. h) (map Octets ([[0, 0, 0, 0, 0, 0, 0, 17]] @ [index_body]) @ [])
      (MessageProcess_default :: (nat server_content, nat client_content) MessageProcess) =
    Some (EC_NONE, MessageProcess_default\<lparr>recv_hmsg := Some index_message, recv_buffer := concat [index_body]\<rparr>, [])"
    by (simp add: index_octets handler_received_def) (simp add: index_body_def)
  show ?thesis
    by (rule exI, rule index_request_throws [OF r, of index_message IndexRequest_default])
      (simp_all add: index_message_def NetMessage_of_def)
qed

text \<open>What is sent for an error does not depend on the error.\<close>

lemma send_error_constant:
  "map_option snd (send_error W size_of results code status p) = map_option snd (send_error W size_of results code' status' p)"
  by (cases "send_message W size_of server_ops results ((NetMessage_of (\<lambda>c. size_of (server_wire c)) (SC_error ErrorReply_default))
       \<lparr>nm_additional := SC_error (ErrorReply_default\<lparr>ee_err := EC_INVALID_ARGUMENT, ee_status := Some READY\<rparr>)\<rparr>) p")
    (auto simp: send_error_def Let_def split: prod.split)

text \<open>A request of data arrives without the period and the format of the files.\<close>

lemma request_form_lost:
  "nm_additional m = CC_data \<lparr>dr_form = Some f\<rparr> \<Longrightarrow> nm_additional (NetMessage_move client_move m) =
    CC_data \<lparr>dr_form = Some \<lparr>search_props = search_props f, t_separation = None, file_fmt = None\<rparr>\<rparr>"
  by (simp add: NetMessage_move_def DataRequest_move_def DataRequest_assign_def ExtractForm_move_def ExtractForm_assign_def
      ExtractForm_default_def)

text \<open>
  If the library writes the index of a variant first, in eight octets, the number read from the
  octets of a message is two behind its own: the index already counts \<^verbatim>\<open>std::monostate\<close>.
\<close>

lemma message_type_shifted:
  assumes "wire_lib_ok W" "\<And>n b. put_variant W net n b = put_u64 W net (of_nat n) @ b"
    and "op_number ops (nm_additional m) + 2 < count" "count < 2 ^ 64"
  shows "message_type_from_buffer W net count (write_value W net (message_wire ops (Some m))) =
    Inr (op_number ops (nm_additional m) + 2)"
proof -
  have "(of_nat (op_number ops (nm_additional m) + 1) :: u64) + 1 = of_nat (op_number ops (nm_additional m) + 2)" by simp
  with wire_lib_okD(2) [OF assms(1)] assms(2-4) show ?thesis
    by (simp add: message_type_from_buffer_def message_wire_def handler_wire_def reads_def word_le_nat_alt unat_of_nat take_bit_nat_eq_self
        del: of_nat_add of_nat_Suc)
qed

end
