(* ===== verification/Socket_Handles.thy ===== *)
theory Socket_Handles
  imports Prelude "HOL-Library.AList"
begin

text \<open>
  Sockets as owners of file descriptors: the class \<^verbatim>\<open>Socket\<close> (\<^verbatim>\<open>network/include/commonsocket.h\<close>,
  \<^verbatim>\<open>network/src/commonsocket.cpp\<close>) with its copies, moves and destruction over a table of descriptors, and the
  errors of its calls and of \<^verbatim>\<open>Multiplexor\<close> (\<^verbatim>\<open>network/src/multiplexor.cpp\<close>).
\<close>

section \<open>Errors of the system\<close>

datatype errno = E_PERM | E_NOENT | E_INTR | E_BADF | E_NOMEM | E_ACCES | E_FAULT | E_EXIST | E_INVAL | E_MFILE
  | E_NOSPC | E_ROFS | E_NAMETOOLONG | E_LOOP | E_NOTSOCK | E_PROTONOSUPPORT | E_AFNOSUPPORT | E_ADDRINUSE
  | E_ADDRNOTAVAIL | E_NOBUFS | E_other int

datatype socket_exn = Runtime_error errno | Invalid_argument errno | Logic_error errno | Invalid_host | Undefined_binding

datatype Familly = UNDEF_FAMILLY | IPv4 | IPv6

text \<open>
  The constructor from a host: what \<^verbatim>\<open>inet_pton\<close> makes of it and what the call of \<^verbatim>\<open>socket\<close> returns are
  arguments.  The branch for IPv6 falls through to the exception of the default; an error that is not named
  leaves a socket without a descriptor.
\<close>

definition make_socket :: "Familly option \<Rightarrow> errno + int \<Rightarrow> socket_exn + int option" where
  "make_socket familly answer = (case familly of
       None \<Rightarrow> Inl Invalid_host
     | Some IPv4 \<Rightarrow> (case answer of
           Inr fd \<Rightarrow> Inr (Some fd)
         | Inl e \<Rightarrow> if e \<in> {E_AFNOSUPPORT, E_INVAL, E_MFILE, E_PROTONOSUPPORT} then Inl (Invalid_argument e)
             else if e \<in> {E_NOBUFS, E_NOMEM, E_ACCES} then Inl (Runtime_error e)
             else Inr None)
     | Some _ \<Rightarrow> Inl (Invalid_argument E_AFNOSUPPORT))"

text \<open>The exceptions of \<^verbatim>\<open>bind\<close>, and whether the descriptor is closed before.\<close>

definition bind_error :: "errno \<Rightarrow> bool \<times> socket_exn" where
  "bind_error e = (if e \<in> {E_ACCES, E_BADF, E_NOTSOCK, E_LOOP, E_ROFS} then (True, Runtime_error e)
     else if e = E_ADDRINUSE then (False, Runtime_error e)
     else if e \<in> {E_INVAL, E_ADDRNOTAVAIL, E_FAULT, E_NAMETOOLONG, E_NOENT, E_NOMEM} then (True, Invalid_argument e)
     else (False, Runtime_error e))"

definition epoll_ctl_throw :: "errno \<Rightarrow> socket_exn" where
  "epoll_ctl_throw e = (if e \<in> {E_PERM, E_NOMEM, E_BADF} then Runtime_error e
     else if e \<in> {E_EXIST, E_INVAL, E_NOENT} then Invalid_argument e
     else if e \<in> {E_LOOP, E_NOSPC} then Logic_error e
     else Runtime_error e)"

text \<open>An interrupted wait is no error.\<close>

definition epoll_wait_throw :: "errno \<Rightarrow> socket_exn option" where
  "epoll_wait_throw e = (if e \<in> {E_BADF, E_FAULT} then Some (Runtime_error e)
     else if e = E_INTR then None
     else if e = E_INVAL then Some (Invalid_argument e)
     else Some (Runtime_error e))"

definition multiplexor_wait :: "'event list \<Rightarrow> errno + nat \<Rightarrow> socket_exn + 'event list" where
  "multiplexor_wait events answer = (case answer of
       Inl e \<Rightarrow> (case epoll_wait_throw e of Some x \<Rightarrow> Inl x | None \<Rightarrow> Inr [])
     | Inr n \<Rightarrow> Inr (take n events))"

section \<open>Sockets and descriptors\<close>

text \<open>
  A \<^verbatim>\<open>Socket\<close> object holds a shared pointer to its descriptor: no pointer, or the number of the block that
  holds the descriptor.  The state of the program has the objects, the descriptors in the blocks, the descriptors
  the system has open, those of them that do not block, and the calls of \<^verbatim>\<open>close\<close> that failed, in order.
\<close>

record net_state =
  objs :: "(nat \<times> nat option) list"
  fd_of :: "nat \<Rightarrow> int"
  open_fds :: "int set"
  nonblocking :: "int set"
  bad_closes :: "int list"

definition no_sockets :: net_state where
  "no_sockets = \<lparr>objs = [], fd_of = (\<lambda>b. 0), open_fds = {}, nonblocking = {}, bad_closes = []\<rparr>"

definition socket_ptr :: "net_state \<Rightarrow> nat \<Rightarrow> nat option" where
  "socket_ptr st x = (case map_of (objs st) x of Some p \<Rightarrow> p | None \<Rightarrow> None)"

definition descriptor :: "net_state \<Rightarrow> nat \<Rightarrow> int" where
  "descriptor st x = (case socket_ptr st x of Some b \<Rightarrow> fd_of st b | None \<Rightarrow> - 1)"

definition close_fd :: "int \<Rightarrow> net_state \<Rightarrow> net_state" where
  "close_fd fd st = (if fd \<in> open_fds st
     then st\<lparr>open_fds := open_fds st - {fd}, nonblocking := nonblocking st - {fd}\<rparr>
     else st\<lparr>bad_closes := bad_closes st @ [fd]\<rparr>)"

definition set_ptr :: "nat \<Rightarrow> nat option \<Rightarrow> net_state \<Rightarrow> net_state" where
  "set_ptr x p st = st\<lparr>objs := AList.update x p (objs st)\<rparr>"

text \<open>A descriptor that the system has just made, in a new block; \<open>- 1\<close> is a refused connection.\<close>

definition raw_socket :: "nat \<Rightarrow> nat \<Rightarrow> int \<Rightarrow> net_state \<Rightarrow> net_state" where
  "raw_socket x b fd st = (set_ptr x (Some b) st)\<lparr>fd_of := (fd_of st)(b := fd),
     open_fds := (if fd = - 1 then open_fds st else insert fd (open_fds st))\<rparr>"

text \<open>Assignment closes the descriptor of this object, whether or not others share it.\<close>

definition copy_assign :: "nat \<Rightarrow> nat \<Rightarrow> net_state \<Rightarrow> net_state" where
  "copy_assign this other st =
     (if descriptor st other = descriptor st this then set_ptr this (socket_ptr st other) st
      else set_ptr this (socket_ptr st other) (close_fd (descriptor st this) st))"

definition move_assign :: "nat \<Rightarrow> nat \<Rightarrow> net_state \<Rightarrow> net_state" where
  "move_assign this other st =
     (if descriptor st other \<noteq> descriptor st this
      then set_ptr other None (set_ptr this (socket_ptr st other) (close_fd (descriptor st this) st))
      else st)"

text \<open>The constructors assign to an object without a pointer.\<close>

definition copy_socket :: "nat \<Rightarrow> nat \<Rightarrow> net_state \<Rightarrow> net_state" where
  "copy_socket this other st = copy_assign this other (set_ptr this None st)"

definition move_socket :: "nat \<Rightarrow> nat \<Rightarrow> net_state \<Rightarrow> net_state" where
  "move_socket this other st = move_assign this other (set_ptr this None st)"

definition use_count :: "nat \<Rightarrow> net_state \<Rightarrow> nat" where
  "use_count b st = length (filter (\<lambda>x. snd x = Some b) (objs st))"

definition destroy_socket :: "nat \<Rightarrow> net_state \<Rightarrow> net_state" where
  "destroy_socket x st =
     (let st = (case socket_ptr st x of
          Some b \<Rightarrow> if use_count b st \<le> 1 then close_fd (descriptor st x) st else st
        | None \<Rightarrow> st)
      in st\<lparr>objs := AList.delete x (objs st)\<rparr>)"

text \<open>\<^verbatim>\<open>bind\<close> keeps the pointer to a descriptor that it has closed.\<close>

definition bind_socket :: "nat \<Rightarrow> bool \<Rightarrow> errno option \<Rightarrow> net_state \<Rightarrow> socket_exn option \<times> net_state" where
  "bind_socket x has_storage answer st =
     (if \<not> has_storage then (Some Undefined_binding, st)
      else case answer of
        None \<Rightarrow> (None, st)
      | Some e \<Rightarrow> (case bind_error e of (closes, exn) \<Rightarrow>
          (Some exn, if closes then close_fd (descriptor st x) st else st)))"

text \<open>\<^verbatim>\<open>fcntl\<close> fails on a descriptor that is not open.  Asking whether a socket blocks changes it.\<close>

definition set_no_block :: "nat \<Rightarrow> bool \<Rightarrow> net_state \<Rightarrow> socket_exn + net_state" where
  "set_no_block x noblock st = (let fd = descriptor st x in
     if fd \<notin> open_fds st then Inl (Runtime_error E_BADF)
     else Inr (st\<lparr>nonblocking := (if noblock then insert fd (nonblocking st) else nonblocking st - {fd})\<rparr>))"

definition is_non_block :: "nat \<Rightarrow> net_state \<Rightarrow> bool \<times> net_state" where
  "is_non_block x st = (let fd = descriptor st x in
     if fd \<ge> 0 then
       if fd \<notin> open_fds st then (False, st)
       else (fd \<in> nonblocking st, st\<lparr>nonblocking := insert fd (nonblocking st)\<rparr>)
     else (False, st))"

text \<open>\<open>pending\<close> is the pending error of the descriptor.\<close>

definition is_valid :: "nat \<Rightarrow> int \<Rightarrow> net_state \<Rightarrow> bool" where
  "is_valid x pending st = (let fd = descriptor st x in
     if fd \<ge> 0 then if fd \<notin> open_fds st then False else pending = 0 else False)"

text \<open>
  What a program does with sockets: objects are made, copied, moved and destroyed.  An object is assigned
  to only if it does not share its descriptor.
\<close>

definition unshared :: "nat \<Rightarrow> net_state \<Rightarrow> bool" where
  "unshared x st = (case socket_ptr st x of Some b \<Rightarrow> use_count b st \<le> 1 | None \<Rightarrow> True)"

definition is_object :: "nat \<Rightarrow> net_state \<Rightarrow> bool" where
  "is_object x st = (x \<in> fst ` set (objs st))"

inductive socket_step :: "net_state \<Rightarrow> net_state \<Rightarrow> bool" where
  opened: "\<not> is_object x st \<Longrightarrow> use_count b st = 0 \<Longrightarrow> fd \<ge> 0 \<Longrightarrow> fd \<notin> open_fds st \<Longrightarrow>
    socket_step st (raw_socket x b fd st)"
| refused: "\<not> is_object x st \<Longrightarrow> use_count b st = 0 \<Longrightarrow> socket_step st (raw_socket x b (- 1) st)"
| copied: "\<not> is_object x st \<Longrightarrow> is_object y st \<Longrightarrow> socket_step st (copy_socket x y st)"
| moved: "\<not> is_object x st \<Longrightarrow> is_object y st \<Longrightarrow> socket_step st (move_socket x y st)"
| destroyed: "is_object x st \<Longrightarrow> socket_step st (destroy_socket x st)"
| assigned_copy: "is_object x st \<Longrightarrow> is_object y st \<Longrightarrow> unshared x st \<Longrightarrow> socket_step st (copy_assign x y st)"
| assigned_move: "is_object x st \<Longrightarrow> is_object y st \<Longrightarrow> unshared x st \<Longrightarrow> socket_step st (move_assign x y st)"

section \<open>Facts\<close>

text \<open>The pointers as a map, and what holds of them.\<close>

definition fd_ok :: "(nat \<Rightarrow> nat option) \<Rightarrow> (nat \<Rightarrow> int) \<Rightarrow> int set \<Rightarrow> bool" where
  "fd_ok P F fds \<longleftrightarrow> (\<forall>x b. P x = Some b \<longrightarrow> F b \<in> fds \<or> F b = - 1) \<and>
     (\<forall>x y b b'. P x = Some b \<longrightarrow> P y = Some b' \<longrightarrow> F b = F b' \<longrightarrow> b \<noteq> b' \<longrightarrow> F b = - 1) \<and>
     (\<forall>fd\<in>fds. \<exists>x b. P x = Some b \<and> F b = fd) \<and> - 1 \<notin> fds"

definition handles_ok :: "net_state \<Rightarrow> bool" where
  "handles_ok st \<longleftrightarrow> distinct (map fst (objs st)) \<and> fd_ok (socket_ptr st) (fd_of st) (open_fds st) \<and>
     set (bad_closes st) \<subseteq> {- 1}"

lemma fd_okI:
  assumes "\<And>x b. P x = Some b \<Longrightarrow> F b \<in> fds \<or> F b = - 1"
    "\<And>x y b b'. P x = Some b \<Longrightarrow> P y = Some b' \<Longrightarrow> F b = F b' \<Longrightarrow> F b \<noteq> - 1 \<Longrightarrow> b = b'"
    "\<And>fd. fd \<in> fds \<Longrightarrow> \<exists>x b. P x = Some b \<and> F b = fd" "- 1 \<notin> fds"
  shows "fd_ok P F fds"
  using assms unfolding fd_ok_def by blast

lemma fd_okD:
  assumes "fd_ok P F fds"
  shows "P x = Some b \<Longrightarrow> F b \<in> fds \<or> F b = - 1"
    "P x = Some b \<Longrightarrow> P y = Some b' \<Longrightarrow> F b = F b' \<Longrightarrow> F b \<noteq> - 1 \<Longrightarrow> b = b'"
    "fd \<in> fds \<Longrightarrow> \<exists>x b. P x = Some b \<and> F b = fd" "- 1 \<notin> fds"
  using assms unfolding fd_ok_def by blast+

lemma fd_ok_opened:
  assumes "fd_ok P F fds" "\<forall>y. P y \<noteq> Some b" "P x = None" "fd \<notin> fds" "fd \<noteq> - 1"
  shows "fd_ok (P(x := Some b)) (F(b := fd)) (insert fd fds)"
proof (rule fd_okI)
  fix fd' assume "fd' \<in> insert fd fds"
  then show "\<exists>y b'. (P(x := Some b)) y = Some b' \<and> (F(b := fd)) b' = fd'"
  proof
    assume "fd' \<in> fds"
    from fd_okD(3) [OF assms(1) this] obtain y b' where "P y = Some b'" "F b' = fd'" by blast
    with assms(2,3) show ?thesis by (intro exI [of _ y] exI [of _ b']) auto
  qed (intro exI [of _ x] exI [of _ b], simp)
next
  fix y z b1 b2
  assume "(P(x := Some b)) y = Some b1" "(P(x := Some b)) z = Some b2" "(F(b := fd)) b1 = (F(b := fd)) b2"
    "(F(b := fd)) b1 \<noteq> - 1"
  then show "b1 = b2"
    using fd_okD(1,2) [OF assms(1)] assms(2,4) by (fastforce split: if_splits)
qed (use fd_okD [OF assms(1)] assms(2,5) in \<open>auto split: if_splits\<close>)

lemma fd_ok_refused:
  assumes "fd_ok P F fds" "\<forall>y. P y \<noteq> Some b" "P x = None"
  shows "fd_ok (P(x := Some b)) (F(b := - 1)) fds"
proof (rule fd_okI)
  fix fd' assume "fd' \<in> fds"
  from fd_okD(3) [OF assms(1) this] obtain y b' where "P y = Some b'" "F b' = fd'" by blast
  with assms(2,3) show "\<exists>y b'. (P(x := Some b)) y = Some b' \<and> (F(b := - 1)) b' = fd'"
    by (intro exI [of _ y] exI [of _ b']) auto
next
  fix y z b1 b2
  assume "(P(x := Some b)) y = Some b1" "(P(x := Some b)) z = Some b2" "(F(b := - 1)) b1 = (F(b := - 1)) b2"
    "(F(b := - 1)) b1 \<noteq> - 1"
  then show "b1 = b2"
    using fd_okD(2) [OF assms(1)] by (auto split: if_splits)
qed (use fd_okD [OF assms(1)] assms(2) in \<open>auto split: if_splits\<close>)

lemma fd_ok_share:
  assumes "fd_ok P F fds" "P x = None"
  shows "fd_ok (P(x := P y)) F fds"
proof (rule fd_okI)
  fix fd' assume "fd' \<in> fds"
  from fd_okD(3) [OF assms(1) this] obtain z b' where "P z = Some b'" "F b' = fd'" by blast
  with assms(2) show "\<exists>z b'. (P(x := P y)) z = Some b' \<and> F b' = fd'"
    by (intro exI [of _ z] exI [of _ b']) auto
next
  fix z1 z2 b1 b2
  assume "(P(x := P y)) z1 = Some b1" "(P(x := P y)) z2 = Some b2" "F b1 = F b2" "F b1 \<noteq> - 1"
  then show "b1 = b2"
    using fd_okD(2) [OF assms(1)] by (auto split: if_splits)
qed (use fd_okD(1,4) [OF assms(1)] in \<open>auto split: if_splits\<close>)

lemma fd_ok_drop_shared:
  assumes "fd_ok P F fds" "P x = Some b" "P y = Some b" "y \<noteq> x"
  shows "fd_ok (P(x := None)) F fds"
proof (rule fd_okI)
  fix fd' assume "fd' \<in> fds"
  from fd_okD(3) [OF assms(1) this] obtain z b' where z: "P z = Some b'" "F b' = fd'" by blast
  show "\<exists>z b'. (P(x := None)) z = Some b' \<and> F b' = fd'"
  proof (cases "z = x")
    case True
    with z assms show ?thesis by (intro exI [of _ y] exI [of _ b']) auto
  next
    case False
    with z show ?thesis by (intro exI [of _ z] exI [of _ b']) auto
  qed
next
  fix z1 z2 b1 b2
  assume "(P(x := None)) z1 = Some b1" "(P(x := None)) z2 = Some b2" "F b1 = F b2" "F b1 \<noteq> - 1"
  then show "b1 = b2" using fd_okD(2) [OF assms(1)] by (auto split: if_splits)
qed (use fd_okD(1,4) [OF assms(1)] in \<open>auto split: if_splits\<close>)

lemma fd_ok_drop_last:
  assumes "fd_ok P F fds" "P x = Some b" "\<forall>y. y \<noteq> x \<longrightarrow> P y \<noteq> Some b"
  shows "fd_ok (P(x := None)) F (fds - {F b})"
proof (rule fd_okI)
  fix z b' assume z: "(P(x := None)) z = Some b'"
  then have "P z = Some b'" "b' \<noteq> b" using assms(3) by (auto split: if_splits)
  then show "F b' \<in> fds - {F b} \<or> F b' = - 1"
    using fd_okD(1,2) [OF assms(1)] assms(2) by (metis DiffI singletonD)
next
  fix fd' assume fd': "fd' \<in> fds - {F b}"
  then obtain z b' where z: "P z = Some b'" "F b' = fd'" using fd_okD(3) [OF assms(1), of fd'] by blast
  with fd' assms(2) have "z \<noteq> x" by auto
  with z show "\<exists>z b'. (P(x := None)) z = Some b' \<and> F b' = fd'" by (intro exI [of _ z] exI [of _ b']) auto
next
  fix z1 z2 b1 b2
  assume "(P(x := None)) z1 = Some b1" "(P(x := None)) z2 = Some b2" "F b1 = F b2" "F b1 \<noteq> - 1"
  then show "b1 = b2" using fd_okD(2) [OF assms(1)] by (auto split: if_splits)
qed (use fd_okD(4) [OF assms(1)] in simp)

lemma fd_ok_drop_closed:
  assumes "fd_ok P F fds" "\<And>b. P x = Some b \<Longrightarrow> F b = - 1"
  shows "fd_ok (P(x := None)) F fds"
proof (cases "P x")
  case None
  then have "P(x := None) = P" by (rule fun_upd_idem)
  with assms(1) show ?thesis by simp
next
  case (Some b)
  show ?thesis
  proof (cases "\<exists>y. y \<noteq> x \<and> P y = Some b")
    case True
    with fd_ok_drop_shared [OF assms(1) Some] show ?thesis by blast
  next
    case False
    with fd_ok_drop_last [OF assms(1) Some] have "fd_ok (P(x := None)) F (fds - {F b})" by blast
    moreover have "fds - {F b} = fds" using fd_okD(4) [OF assms(1)] assms(2) [OF Some] by simp
    ultimately show ?thesis by simp
  qed
qed

lemma socket_ptr_upd [simp]:
  "socket_ptr (set_ptr x p st) = (socket_ptr st)(x := p)"
  "socket_ptr (st\<lparr>objs := AList.delete x (objs st)\<rparr>) = (socket_ptr st)(x := None)"
  by (auto simp: socket_ptr_def set_ptr_def update_conv' delete_conv' fun_eq_iff)

lemma close_fd_ptr [simp]:
  "socket_ptr (close_fd fd st) = socket_ptr st" "fd_of (close_fd fd st) = fd_of st" "objs (close_fd fd st) = objs st"
  by (simp_all add: close_fd_def socket_ptr_def fun_eq_iff)

lemma set_ptr_fields [simp]:
  "fd_of (set_ptr x p st) = fd_of st" "open_fds (set_ptr x p st) = open_fds st"
  "bad_closes (set_ptr x p st) = bad_closes st" "objs (set_ptr x p st) = AList.update x p (objs st)"
  by (simp_all add: set_ptr_def)

lemma descriptor_upd [simp]:
  "descriptor (close_fd fd st) x = descriptor st x"
  "descriptor (set_ptr y p st) x = (if x = y then (case p of Some b \<Rightarrow> fd_of st b | None \<Rightarrow> - 1) else descriptor st x)"
  by (simp_all add: descriptor_def split: option.split)

lemma handles_okD:
  assumes "handles_ok st"
  shows "distinct (map fst (objs st))" "fd_ok (socket_ptr st) (fd_of st) (open_fds st)" "set (bad_closes st) \<subseteq> {- 1}"
  using assms by (simp_all add: handles_ok_def)

lemma use_count_card:
  assumes "distinct (map fst (objs st))"
  shows "finite {x. socket_ptr st x = Some b}" "use_count b st = card {x. socket_ptr st x = Some b}"
proof -
  let ?xs = "map fst (filter (\<lambda>x. snd x = Some b) (objs st))"
  have "x \<in> set ?xs \<longleftrightarrow> socket_ptr st x = Some b" for x
  proof -
    have "x \<in> set ?xs \<longleftrightarrow> (x, Some b) \<in> set (objs st)" by force
    also have "\<dots> \<longleftrightarrow> map_of (objs st) x = Some (Some b)" using assms by simp
    also have "\<dots> \<longleftrightarrow> socket_ptr st x = Some b" by (auto simp: socket_ptr_def split: option.split)
    finally show ?thesis .
  qed
  then have set: "set ?xs = {x. socket_ptr st x = Some b}" by blast
  moreover have "distinct ?xs" using assms by (induction "objs st" rule: rev_induct) (auto simp: distinct_map_filter)
  ultimately have "card {x. socket_ptr st x = Some b} = length ?xs" using distinct_card by metis
  then show "use_count b st = card {x. socket_ptr st x = Some b}" by (simp add: use_count_def)
  show "finite {x. socket_ptr st x = Some b}" using set by (metis finite_set)
qed

lemma use_count_sharing:
  assumes "distinct (map fst (objs st))"
  shows "use_count b st = 0 \<Longrightarrow> \<forall>y. socket_ptr st y \<noteq> Some b"
    "socket_ptr st x = Some b \<Longrightarrow> use_count b st \<le> 1 \<longleftrightarrow> (\<forall>y. y \<noteq> x \<longrightarrow> socket_ptr st y \<noteq> Some b)"
proof -
  note card = use_count_card [OF assms, of b]
  show "use_count b st = 0 \<Longrightarrow> \<forall>y. socket_ptr st y \<noteq> Some b" using card by (simp add: card_eq_0_iff)
  show "use_count b st \<le> 1 \<longleftrightarrow> (\<forall>y. y \<noteq> x \<longrightarrow> socket_ptr st y \<noteq> Some b)" if x: "socket_ptr st x = Some b"
  proof
    assume "use_count b st \<le> 1"
    then have "\<exists>z. {x. socket_ptr st x = Some b} \<subseteq> {z}" using card by (simp add: card_le_Suc0_iff_eq) blast
    with x show "\<forall>y. y \<noteq> x \<longrightarrow> socket_ptr st y \<noteq> Some b" by blast
  next
    assume "\<forall>y. y \<noteq> x \<longrightarrow> socket_ptr st y \<noteq> Some b"
    then have "{x. socket_ptr st x = Some b} \<subseteq> {x}" by blast
    from card_mono [OF _ this] show "use_count b st \<le> 1" using card(2) by simp
  qed
qed

lemma close_last:
  assumes ok: "handles_ok st" and x: "unshared x st"
  shows "fd_ok ((socket_ptr st)(x := None)) (fd_of st) (open_fds (close_fd (descriptor st x) st))"
    "set (bad_closes (close_fd (descriptor st x) st)) \<subseteq> {- 1}"
proof -
  note okD = handles_okD [OF ok] and fdD = fd_okD [OF handles_okD(2) [OF ok]]
  have "descriptor st x \<in> open_fds st \<or> descriptor st x = - 1"
    using fdD(1) [of x] by (auto simp: descriptor_def split: option.split)
  with okD(3) show "set (bad_closes (close_fd (descriptor st x) st)) \<subseteq> {- 1}" by (auto simp: close_fd_def)
  show "fd_ok ((socket_ptr st)(x := None)) (fd_of st) (open_fds (close_fd (descriptor st x) st))"
  proof (cases "descriptor st x \<in> open_fds st")
    case True
    then obtain b where b: "socket_ptr st x = Some b" "descriptor st x = fd_of st b"
      using fdD(4) by (auto simp: descriptor_def split: option.splits)
    with x have "\<forall>y. y \<noteq> x \<longrightarrow> socket_ptr st y \<noteq> Some b"
      using use_count_sharing(2) [OF okD(1) b(1)] by (simp add: unshared_def)
    from fd_ok_drop_last [OF okD(2) b(1) this] True b(2) show ?thesis by (simp add: close_fd_def)
  next
    case False
    then have "\<And>b. socket_ptr st x = Some b \<Longrightarrow> fd_of st b = - 1" using fdD(1) by (force simp: descriptor_def)
    from fd_ok_drop_closed [OF okD(2) this] False show ?thesis by (simp add: close_fd_def)
  qed
qed

lemma copy_assign_ok:
  assumes ok: "handles_ok st" and x: "unshared x st"
  shows "handles_ok (copy_assign x y st)"
proof (cases "descriptor st y = descriptor st x")
  case True
  note fd = handles_okD(2) [OF ok]
  have "fd_ok ((socket_ptr st)(x := socket_ptr st y)) (fd_of st) (open_fds st)"
  proof (cases "socket_ptr st x = socket_ptr st y")
    case True
    then have "(socket_ptr st)(x := socket_ptr st y) = socket_ptr st" by (simp add: fun_upd_idem)
    with fd show ?thesis by simp
  next
    case False
    have "fd_of st b = - 1" if "socket_ptr st x = Some b" for b
      using that True False fd_okD(2) [OF fd that, of y] by (auto simp: descriptor_def split: option.splits)
    then have "fd_ok ((socket_ptr st)(x := None)) (fd_of st) (open_fds st)" by (rule fd_ok_drop_closed [OF fd])
    from fd_ok_share [OF this, where x = x and y = y] False show ?thesis
      by (cases "y = x") simp_all
  qed
  with True ok show ?thesis by (simp add: handles_ok_def copy_assign_def distinct_update)
next
  case False
  then have "y \<noteq> x" by blast
  with fd_ok_share [OF close_last(1) [OF ok x], where x = x and y = y]
  have "fd_ok ((socket_ptr st)(x := socket_ptr st y)) (fd_of st) (open_fds (close_fd (descriptor st x) st))"
    by simp
  with False close_last(2) [OF ok x] ok show ?thesis by (simp add: handles_ok_def copy_assign_def distinct_update)
qed

lemma move_assign_ok:
  assumes ok: "handles_ok st" and x: "unshared x st"
  shows "handles_ok (move_assign x y st)"
proof (cases "descriptor st y = descriptor st x")
  case True
  with ok show ?thesis by (simp add: move_assign_def)
next
  case False
  then have move: "move_assign x y st = set_ptr y None (copy_assign x y st)" and "y \<noteq> x"
    by (auto simp: move_assign_def copy_assign_def)
  let ?st = "copy_assign x y st"
  have ptrs: "socket_ptr ?st x = socket_ptr st y" "socket_ptr ?st y = socket_ptr st y"
    using False \<open>y \<noteq> x\<close> by (simp_all add: copy_assign_def)
  note fd = handles_okD [OF copy_assign_ok [OF ok x, of y]]
  have "fd_ok ((socket_ptr ?st)(y := None)) (fd_of ?st) (open_fds ?st)"
  proof (cases "socket_ptr st y")
    case None
    with ptrs(2) have "(socket_ptr ?st)(y := None) = socket_ptr ?st" by (simp add: fun_upd_idem)
    with fd(2) show ?thesis by simp
  next
    case (Some b)
    with ptrs \<open>y \<noteq> x\<close> show ?thesis by (intro fd_ok_drop_shared [OF fd(2), of y b x]) simp_all
  qed
  with fd show ?thesis by (simp add: move handles_ok_def distinct_update)
qed

lemma destroy_ok:
  assumes ok: "handles_ok st"
  shows "handles_ok (destroy_socket x st)"
proof -
  note okD = handles_okD [OF ok]
  let ?st = "case socket_ptr st x of
      Some b \<Rightarrow> if use_count b st \<le> 1 then close_fd (descriptor st x) st else st | None \<Rightarrow> st"
  have "fd_ok ((socket_ptr st)(x := None)) (fd_of st) (open_fds ?st) \<and> set (bad_closes ?st) \<subseteq> {- 1}"
  proof (cases "socket_ptr st x")
    case None
    then have "(socket_ptr st)(x := None) = socket_ptr st" by (simp add: fun_upd_idem)
    with okD None show ?thesis by simp
  next
    case (Some b)
    show ?thesis
    proof (cases "use_count b st \<le> 1")
      case True
      with Some have "unshared x st" by (simp add: unshared_def)
      from close_last [OF ok this] Some True show ?thesis by simp
    next
      case False
      with use_count_sharing(2) [OF okD(1) Some] obtain y where "y \<noteq> x" "socket_ptr st y = Some b" by blast
      with fd_ok_drop_shared [OF okD(2) Some] okD(3) Some False show ?thesis by simp
    qed
  qed
  moreover have "objs ?st = objs st" "fd_of ?st = fd_of st" "socket_ptr ?st = socket_ptr st"
    by (simp_all split: option.split)
  moreover obtain st' where st': "st' = ?st" by blast
  ultimately have "handles_ok (st'\<lparr>objs := AList.delete x (objs st')\<rparr>)"
    using okD(1) unfolding st' [symmetric] handles_ok_def socket_ptr_upd(2) by (simp add: distinct_delete)
  then show ?thesis by (simp only: destroy_socket_def Let_def st')
qed

lemma new_object_ok:
  assumes ok: "handles_ok st" and x: "\<not> is_object x st"
  shows "socket_ptr st x = None" "handles_ok (set_ptr x None st)" "unshared x (set_ptr x None st)"
proof -
  show none: "socket_ptr st x = None"
    using x map_of_eq_None_iff [of "objs st" x] by (simp add: socket_ptr_def is_object_def)
  then have "(socket_ptr st)(x := None) = socket_ptr st" by (simp add: fun_upd_idem)
  with ok show "handles_ok (set_ptr x None st)" by (simp add: handles_ok_def distinct_update)
  show "unshared x (set_ptr x None st)" by (simp add: unshared_def)
qed

lemma raw_socket_ok:
  assumes ok: "handles_ok st" and x: "\<not> is_object x st" and b: "use_count b st = 0"
    and fd: "fd = - 1 \<or> fd \<notin> open_fds st"
  shows "handles_ok (raw_socket x b fd st)"
proof -
  note okD = handles_okD [OF ok]
  note fresh = use_count_sharing(1) [OF okD(1) b] and x = new_object_ok(1) [OF ok x]
  have "fd_ok ((socket_ptr st)(x := Some b)) ((fd_of st)(b := fd)) (if fd = - 1 then open_fds st else insert fd (open_fds st))"
    using fd_ok_opened [OF okD(2) fresh x, of fd] fd_ok_refused [OF okD(2) fresh x] fd by (cases "fd = - 1") simp_all
  moreover have "socket_ptr (raw_socket x b fd st) = (socket_ptr st)(x := Some b)"
    by (simp add: raw_socket_def socket_ptr_def set_ptr_def update_conv' fun_eq_iff)
  ultimately show ?thesis using okD by (simp add: raw_socket_def handles_ok_def distinct_update)
qed

lemma socket_step_ok:
  assumes "socket_step st st'" "handles_ok st"
  shows "handles_ok st'"
  using assms
  by cases (auto intro!: raw_socket_ok destroy_ok copy_assign_ok move_assign_ok new_object_ok
      simp: copy_socket_def move_socket_def)

lemma reachable_handles: "socket_step\<^sup>*\<^sup>* no_sockets st \<Longrightarrow> handles_ok st"
proof (induction rule: rtranclp_induct)
  case base
  show ?case by (simp add: handles_ok_def no_sockets_def fd_ok_def socket_ptr_def)
qed (rule socket_step_ok)

section \<open>Properties\<close>

text \<open>
  C36: as long as a program assigns only to sockets that do not share their descriptor, every socket object refers to an
  open descriptor or to none, every open descriptor belongs to an object, and no descriptor is closed twice.
\<close>

theorem sockets_own_descriptors:
  assumes "socket_step\<^sup>*\<^sup>* no_sockets st"
  shows "(\<forall>x. descriptor st x \<noteq> - 1 \<longrightarrow> descriptor st x \<in> open_fds st) \<and>
    (\<forall>fd\<in>open_fds st. \<exists>x. descriptor st x = fd) \<and> set (bad_closes st) \<subseteq> {- 1}"
proof -
  note okD = handles_okD [OF reachable_handles [OF assms]]
  have "descriptor st x \<in> open_fds st" if "descriptor st x \<noteq> - 1" for x
    using that fd_okD(1) [OF okD(2), of x] by (auto simp: descriptor_def split: option.splits)
  moreover have "\<exists>x. descriptor st x = fd" if "fd \<in> open_fds st" for fd
  proof -
    from fd_okD(3) [OF okD(2) that] obtain x b where "socket_ptr st x = Some b" "fd_of st b = fd" by blast
    then show ?thesis by (intro exI [of _ x]) (simp add: descriptor_def)
  qed
  ultimately show ?thesis using okD(3) by blast
qed

text \<open>
  C37: assigning to a socket that shares its descriptor closes it for the others: they keep a descriptor that is not open,
  and the last of them closes it once more when it is destroyed.
\<close>

theorem assignment_closes_shared:
  assumes "handles_ok st" "x \<noteq> y" "socket_ptr st x = Some b" "socket_ptr st y = Some b" "fd_of st b \<noteq> - 1"
    "descriptor st z \<noteq> fd_of st b"
  shows "descriptor (copy_assign x z st) y = fd_of st b \<and> fd_of st b \<notin> open_fds (copy_assign x z st) \<and>
    (use_count b (copy_assign x z st) \<le> 1 \<longrightarrow>
      fd_of st b \<in> set (bad_closes (destroy_socket y (copy_assign x z st))))"
proof -
  let ?st = "copy_assign x z st"
  have desc: "descriptor st x = fd_of st b" using assms(3) by (simp add: descriptor_def)
  have "y \<noteq> z" using assms(4,6) by (auto simp: descriptor_def)
  have assign: "?st = set_ptr x (socket_ptr st z) (close_fd (fd_of st b) st)"
    using assms(6) desc by (simp add: copy_assign_def)
  have y: "socket_ptr ?st y = Some b" "descriptor ?st y = fd_of st b"
    using assms(2,4) by (simp_all add: assign descriptor_def)
  have "fd_of st b \<in> open_fds st"
    using fd_okD(1) [OF handles_okD(2) [OF assms(1)] assms(3)] assms(5) by simp
  then have closed: "fd_of st b \<notin> open_fds ?st" by (simp add: assign close_fd_def)
  then have "fd_of st b \<in> set (bad_closes (destroy_socket y ?st))" if "use_count b ?st \<le> 1"
    using that y by (simp add: destroy_socket_def close_fd_def Let_def)
  with y(2) closed show ?thesis by blast
qed

text \<open>A connection, a copy of it and another connection.\<close>

definition example_sockets :: net_state where
  "example_sockets = raw_socket 2 1 8 (copy_socket 1 0 (raw_socket 0 0 7 no_sockets))"

lemma example_steps: "socket_step\<^sup>*\<^sup>* no_sockets example_sockets"
proof -
  let ?a = "raw_socket 0 0 7 no_sockets" and ?b = "copy_socket 1 0 (raw_socket 0 0 7 no_sockets)"
  have "socket_step no_sockets ?a"
    by (rule socket_step.opened) (simp_all add: no_sockets_def is_object_def use_count_def)
  moreover have "socket_step ?a ?b"
    by (rule socket_step.copied) (simp_all add: no_sockets_def is_object_def raw_socket_def)
  moreover have "socket_step ?b example_sockets"
    unfolding example_sockets_def
    by (rule socket_step.opened)
      (simp_all add: no_sockets_def is_object_def use_count_def raw_socket_def copy_socket_def copy_assign_def
        descriptor_def socket_ptr_def set_ptr_def close_fd_def)
  ultimately show ?thesis by (meson rtranclp.rtrancl_refl rtranclp.rtrancl_into_rtrancl)
qed

theorem sockets_own_descriptors_witness:
  "open_fds example_sockets = {7, 8} \<and> descriptor example_sockets 1 = 7 \<and> set (bad_closes example_sockets) \<subseteq> {- 1}"
proof -
  have "open_fds example_sockets = {7, 8}" "descriptor example_sockets 1 = 7"
    by (auto simp: example_sockets_def no_sockets_def raw_socket_def copy_socket_def copy_assign_def
        descriptor_def socket_ptr_def set_ptr_def close_fd_def)
  with sockets_own_descriptors [OF example_steps] show ?thesis by blast
qed

theorem assignment_closes_shared_witness:
  "descriptor (copy_assign 0 2 example_sockets) 1 = 7 \<and> 7 \<notin> open_fds (copy_assign 0 2 example_sockets) \<and>
   7 \<in> set (bad_closes (destroy_socket 1 (copy_assign 0 2 example_sockets)))"
proof -
  have facts: "socket_ptr example_sockets 0 = Some 0" "socket_ptr example_sockets 1 = Some 0" "fd_of example_sockets 0 = 7"
    "descriptor example_sockets 2 = 8" "use_count 0 (copy_assign 0 2 example_sockets) = 1"
    by (simp_all add: example_sockets_def no_sockets_def raw_socket_def copy_socket_def copy_assign_def use_count_def
        descriptor_def socket_ptr_def set_ptr_def close_fd_def)
  have "(0 :: nat) \<noteq> 1" "fd_of example_sockets 0 \<noteq> - 1" "descriptor example_sockets 2 \<noteq> fd_of example_sockets 0"
    using facts by simp_all
  from assignment_closes_shared [OF reachable_handles [OF example_steps] this(1) facts(1,2) this(2,3)] facts
  show ?thesis by simp
qed

end
